(* ===== verification/Prelude.thy ===== *)
theory Prelude
  imports Main "HOL-Library.Multiset" "HOL-Library.Sublist"
begin

text \<open>
  Shared material of the development: the collections of simplification rules the
  component theories add to, the list and option lemmas several of them use, and the
  model of the few string functions of the Go standard library that the code calls
  (decimal rendering and parsing, \<^verbatim>\<open>strings.HasPrefix\<close>,
  \<^verbatim>\<open>strings.ToLower\<close>, \<^verbatim>\<open>strings.TrimSpace\<close>,
  \<^verbatim>\<open>strings.EqualFold\<close> on ASCII text). Go strings are byte strings, and
  \<^typ>\<open>string\<close> is a list of bytes.
\<close>

named_theorems i64 "rules that remove the wrap-around of 64-bit arithmetic under range facts"
named_theorems fl "rules about binary64 rounding"
named_theorems frame "what an operation of the store leaves unchanged"

section \<open>Lists\<close>

lemma sum_list_nonneg_int: "(\<And>x. x \<in> set xs \<Longrightarrow> 0 \<le> x) \<Longrightarrow> 0 \<le> sum_list (xs :: int list)"
  by (induction xs) auto

lemma distinct_map_filter_eq:
  "distinct (map f xs) \<Longrightarrow> x \<in> set xs \<Longrightarrow> filter (\<lambda>y. f y = f x) xs = [x]"
proof (induction xs)
  case Nil
  then show ?case by simp
next
  case (Cons y xs)
  show ?case
  proof (cases "x = y")
    case True
    with Cons.prems have "\<forall>z \<in> set xs. f z \<noteq> f x" by (auto simp: image_iff)
    then have "filter (\<lambda>z. f z = f x) xs = []" by (simp add: filter_empty_conv)
    with True show ?thesis by simp
  next
    case False
    with Cons.prems have "x \<in> set xs" and "f y \<noteq> f x" by auto
    with Cons show ?thesis by simp
  qed
qed

lemma length_filter_split: "length (filter P xs) + length (filter (\<lambda>x. \<not> P x) xs) = length xs"
  by (induction xs) auto

section \<open>Decimal rendering: the verbs \<^verbatim>\<open>%d\<close> of fmt.Sprintf\<close>

definition digit_char :: "nat \<Rightarrow> char" where
  "digit_char d = char_of (48 + d)"

definition digit_val :: "char \<Rightarrow> nat" where
  "digit_val c = of_char c - 48"

definition is_digit :: "char \<Rightarrow> bool" where
  "is_digit c \<longleftrightarrow> 48 \<le> (of_char c :: nat) \<and> (of_char c :: nat) \<le> 57"

fun show_nat :: "nat \<Rightarrow> string" where
  "show_nat n = (if n < 10 then [digit_char n] else show_nat (n div 10) @ [digit_char (n mod 10)])"

declare show_nat.simps [simp del]

definition show_int :: "int \<Rightarrow> string" where
  "show_int i = (if i < 0 then CHR ''-'' # show_nat (nat (- i)) else show_nat (nat i))"

definition digits_value :: "string \<Rightarrow> nat" where
  "digits_value s = foldl (\<lambda>acc c. 10 * acc + digit_val c) 0 s"

lemma digit_char_val [simp]: "d < 10 \<Longrightarrow> digit_val (digit_char d) = d"
  by (simp add: digit_char_def digit_val_def)

lemma digit_char_is_digit [simp]: "d < 10 \<Longrightarrow> is_digit (digit_char d)"
  by (simp add: digit_char_def is_digit_def)

lemma show_nat_digits: "\<forall>c \<in> set (show_nat n). is_digit c"
proof (induction n rule: show_nat.induct)
  case (1 n)
  then show ?case by (subst show_nat.simps) auto
qed

lemma show_nat_not_Nil [simp]: "show_nat n \<noteq> []"
  by (subst show_nat.simps) simp

lemma digits_value_snoc: "digits_value (s @ [c]) = 10 * digits_value s + digit_val c"
  by (simp add: digits_value_def)

lemma digits_value_Nil [simp]: "digits_value [] = 0"
  by (simp add: digits_value_def)

lemma digits_value_show_nat [simp]: "digits_value (show_nat n) = n"
proof (induction n rule: show_nat.induct)
  case (1 n)
  show ?case
  proof (cases "n < 10")
    case True
    then show ?thesis
      by (subst show_nat.simps) (simp add: digits_value_def)
  next
    case False
    with "1.IH" have "digits_value (show_nat (n div 10)) = n div 10" by simp
    with False show ?thesis
      by (subst show_nat.simps) (simp add: digits_value_snoc)
  qed
qed

lemma show_nat_inj: "show_nat m = show_nat n \<longleftrightarrow> m = n"
  by (metis digits_value_show_nat)

lemma is_digit_not_minus [simp]: "\<not> is_digit (CHR ''-'')"
  by (simp add: is_digit_def)

lemma show_nat_hd_digit: "is_digit (hd (show_nat n))"
  using show_nat_digits[of n] by (cases "show_nat n") auto

lemma show_nat_not_minus: "show_nat n \<noteq> CHR ''-'' # s"
  using show_nat_hd_digit[of n] by auto

lemma show_int_inj: "show_int i = show_int j \<longleftrightarrow> i = j"
  using show_nat_not_minus[of "nat i"] show_nat_not_minus[of "nat j"]
  by (auto simp: show_int_def show_nat_inj) metis

text \<open>A run of digits that ends at a non-digit is read back unambiguously.\<close>

lemma digits_prefix_unique:
  assumes "\<forall>c \<in> set xs. is_digit c" and "\<forall>c \<in> set ys. is_digit c" and "\<not> is_digit d"
    and "xs @ d # r = ys @ d # r'"
  shows "xs = ys \<and> r = r'"
  using assms
proof (induction xs arbitrary: ys)
  case Nil
  then show ?case by (cases ys) auto
next
  case (Cons x xs)
  then show ?case by (cases ys) auto
qed

section \<open>Parsing decimals: strconv.ParseInt with base 10\<close>

definition split_sign :: "string \<Rightarrow> bool \<times> string" where
  "split_sign s = (case s of [] \<Rightarrow> (False, [])
     | c # cs \<Rightarrow> if c = CHR ''-'' then (True, cs) else if c = CHR ''+'' then (False, cs) else (False, s))"

definition parse_int :: "string \<Rightarrow> int option" where
  "parse_int s = (let (neg, ds) = split_sign s in
     if ds = [] \<or> \<not> list_all is_digit ds then None
     else Some (if neg then - int (digits_value ds) else int (digits_value ds)))"

lemma is_digit_not_plus [simp]: "\<not> is_digit (CHR ''+'')"
  by (simp add: is_digit_def)

lemma split_sign_digits:
  "ds \<noteq> [] \<Longrightarrow> list_all is_digit ds \<Longrightarrow> split_sign ds = (False, ds)"
  by (cases ds) (auto simp: split_sign_def)

lemma list_all_show_nat [simp]: "list_all is_digit (show_nat n)"
  using show_nat_digits[of n] by (simp add: list_all_iff)

lemma parse_show_int: "parse_int (show_int i) = Some i"
  by (auto simp: parse_int_def show_int_def split_sign_digits)
     (simp add: split_sign_def)

section \<open>strings.HasPrefix, ToLower, TrimSpace, EqualFold on ASCII\<close>

definition has_prefix :: "string \<Rightarrow> string \<Rightarrow> bool" where
  "has_prefix s p \<longleftrightarrow> length p \<le> length s \<and> take (length p) s = p"

lemma has_prefix_iff: "has_prefix s p \<longleftrightarrow> prefix p s"
  unfolding has_prefix_def prefix_def
  by (metis append_eq_conv_conj append_take_drop_id length_append le_add1)

definition lower_char :: "char \<Rightarrow> char" where
  "lower_char c = (let n = (of_char c :: nat) in if 65 \<le> n \<and> n \<le> 90 then char_of (n + 32) else c)"

definition to_lower :: "string \<Rightarrow> string" where
  "to_lower s = map lower_char s"

definition equal_fold :: "string \<Rightarrow> string \<Rightarrow> bool" where
  "equal_fold s t \<longleftrightarrow> to_lower s = to_lower t"

definition is_space :: "char \<Rightarrow> bool" where
  "is_space c \<longleftrightarrow> (of_char c :: nat) \<in> {9, 10, 11, 12, 13, 32}"

definition trim_space :: "string \<Rightarrow> string" where
  "trim_space s = rev (dropWhile is_space (rev (dropWhile is_space s)))"

text \<open>\<^verbatim>\<open>fmt.Sprintf("%010s", s)\<close>: a string padded on the left with zeros to ten bytes.\<close>

definition pad10 :: "string \<Rightarrow> string" where
  "pad10 s = replicate (10 - length s) (CHR ''0'') @ s"

lemma length_pad10: "length (pad10 s) = max 10 (length s)"
  by (simp add: pad10_def)

section \<open>Searching a list\<close>

lemma find_SomeD: "find P xs = Some x \<Longrightarrow> x \<in> set xs \<and> P x"
  by (auto simp: find_Some_iff)

lemma find_NoneD: "find P xs = None \<Longrightarrow> x \<in> set xs \<Longrightarrow> \<not> P x"
  by (auto simp: find_None_iff)

section \<open>Tables\<close>

text \<open>The identifiers of a table count from 1.\<close>

definition numbered :: "('a \<Rightarrow> nat) \<Rightarrow> 'a list \<Rightarrow> bool" where
  "numbered f xs \<longleftrightarrow> map f xs = [1..<Suc (length xs)]"

lemma numbered_Nil [simp]: "numbered f []"
  by (simp add: numbered_def)

lemma numbered_append [simp]: "numbered f (xs @ [x]) \<longleftrightarrow> numbered f xs \<and> f x = Suc (length xs)"
  by (auto simp: numbered_def)

lemma numbered_distinct: "numbered f xs \<Longrightarrow> distinct (map f xs)"
  by (simp add: numbered_def)

lemma numbered_replace: "numbered f (map (\<lambda>x. if f x = f y then y else x) xs) \<longleftrightarrow> numbered f xs"
proof -
  have "map f (map (\<lambda>x. if f x = f y then y else x) xs) = map f xs" by simp
  then show ?thesis by (simp only: numbered_def length_map)
qed

end
