(* ===== verification/Go_Int.thy ===== *)
theory Go_Int
  imports Prelude "HOL-Library.Word" "HOL-Library.Signed_Division"
begin

text \<open>
  Go's \<^verbatim>\<open>int64\<close>, the type of every amount of money in the program. A value
  is an \<^typ>\<open>int\<close> in the range of the type and each operation writes its
  wrap-around out; \<open>wrap64_word\<close> says that this is the two's complement of a
  64-bit word. The collection \<open>i64\<close> holds the rules that remove the wrap-around
  where a range is known.
\<close>

type_synonym int64 = int

definition in64 :: "int \<Rightarrow> bool" where
  "in64 x \<longleftrightarrow> - 9223372036854775808 \<le> x \<and> x < 9223372036854775808"

definition wrap64 :: "int \<Rightarrow> int64" where
  "wrap64 x = (x + 9223372036854775808) mod 18446744073709551616 - 9223372036854775808"

definition add64 :: "int64 \<Rightarrow> int64 \<Rightarrow> int64" where
  "add64 x y = wrap64 (x + y)"

definition sub64 :: "int64 \<Rightarrow> int64 \<Rightarrow> int64" where
  "sub64 x y = wrap64 (x - y)"

definition mul64 :: "int64 \<Rightarrow> int64 \<Rightarrow> int64" where
  "mul64 x y = wrap64 (x * y)"

definition neg64 :: "int64 \<Rightarrow> int64" where
  "neg64 x = wrap64 (- x)"

text \<open>Go's division truncates towards zero; the code only divides by non-zero constants.\<close>

definition quot64 :: "int64 \<Rightarrow> int64 \<Rightarrow> int64" where
  "quot64 x y = wrap64 (x sdiv y)"

lemma in64_wrap64 [simp]: "in64 (wrap64 x)"
proof -
  have "0 \<le> (x + 9223372036854775808) mod 18446744073709551616"
    and "(x + 9223372036854775808) mod 18446744073709551616 < 18446744073709551616"
    by (rule pos_mod_sign, simp) (rule pos_mod_bound, simp)
  then show ?thesis unfolding in64_def wrap64_def by linarith
qed

lemma wrap64_id [i64]: "in64 x \<Longrightarrow> wrap64 x = x"
  by (simp add: in64_def wrap64_def)

lemma wrap64_wrap64 [simp]: "wrap64 (wrap64 x) = wrap64 x"
  by (simp add: wrap64_id)

lemma wrap64_0 [simp]: "wrap64 0 = 0"
  by (simp add: wrap64_def)

lemma wrap64_eq_iff: "wrap64 x = wrap64 y \<longleftrightarrow> x mod 18446744073709551616 = y mod 18446744073709551616"
proof -
  have "wrap64 x = wrap64 y \<longleftrightarrow>
      (x + 9223372036854775808) mod 18446744073709551616 = (y + 9223372036854775808) mod 18446744073709551616"
    by (simp add: wrap64_def)
  also have "\<dots> \<longleftrightarrow> x mod 18446744073709551616 = y mod 18446744073709551616"
    by (simp add: mod_eq_dvd_iff)
  finally show ?thesis .
qed

lemma wrap64_mod: "wrap64 x mod 18446744073709551616 = x mod 18446744073709551616"
  by (metis wrap64_eq_iff wrap64_wrap64)

text \<open>Wrap-around is a ring homomorphism: inner wraps can be dropped under an outer one.\<close>

lemma wrap64_add_left [simp]: "wrap64 (wrap64 x + y) = wrap64 (x + y)"
  unfolding wrap64_eq_iff by (metis mod_add_left_eq wrap64_mod)

lemma wrap64_add_right [simp]: "wrap64 (x + wrap64 y) = wrap64 (x + y)"
  by (metis add.commute wrap64_add_left)

lemma wrap64_minus [simp]: "wrap64 (- wrap64 x) = wrap64 (- x)"
  unfolding wrap64_eq_iff by (metis mod_minus_eq wrap64_mod)

lemma wrap64_diff_left [simp]: "wrap64 (wrap64 x - y) = wrap64 (x - y)"
  using wrap64_add_left[of x "- y"] by simp

lemma wrap64_diff_right [simp]: "wrap64 (x - wrap64 y) = wrap64 (x - y)"
proof -
  have "wrap64 (x - wrap64 y) = wrap64 (x + wrap64 (- wrap64 y))"
    by (simp only: wrap64_add_right) simp
  also have "\<dots> = wrap64 (x - y)" by simp
  finally show ?thesis .
qed

lemma wrap64_word: "wrap64 x = sint (word_of_int x :: 64 word)"
  by (simp add: sint_sbintrunc' signed_take_bit_eq_take_bit_shift take_bit_eq_mod wrap64_def)

lemma add64_word: "add64 x y = sint (word_of_int x + word_of_int y :: 64 word)"
  by (simp add: add64_def wrap64_word)

lemma mul64_word: "mul64 x y = sint (word_of_int x * word_of_int y :: 64 word)"
  by (simp add: mul64_def wrap64_word)

lemma add64_id [i64]: "in64 (x + y) \<Longrightarrow> add64 x y = x + y"
  by (simp add: add64_def wrap64_id)

lemma sub64_id [i64]: "in64 (x - y) \<Longrightarrow> sub64 x y = x - y"
  by (simp add: sub64_def wrap64_id)

lemma mul64_id [i64]: "in64 (x * y) \<Longrightarrow> mul64 x y = x * y"
  by (simp add: mul64_def wrap64_id)

lemma neg64_id [i64]: "in64 (- x) \<Longrightarrow> neg64 x = - x"
  by (simp add: neg64_def wrap64_id)

text \<open>Evaluation on numerals.\<close>

lemma wrap64_numeral [simp]:
  "wrap64 (numeral k) = (numeral k + 9223372036854775808) mod 18446744073709551616 - 9223372036854775808"
  "wrap64 (- numeral k) = (- numeral k + 9223372036854775808) mod 18446744073709551616 - 9223372036854775808"
  "wrap64 1 = 1" "wrap64 (- 1) = - 1"
  by (simp_all add: wrap64_def)

lemma add64_numeral [simp]:
  "add64 0 0 = 0" "add64 0 (numeral n) = wrap64 (numeral n)" "add64 (numeral m) 0 = wrap64 (numeral m)"
  "add64 (numeral m) (numeral n) = wrap64 (numeral m + numeral n)"
  by (simp_all only: add64_def wrap64_0 add_0 add_0_right)

lemma quot64_nonneg: "0 \<le> x \<Longrightarrow> 0 < y \<Longrightarrow> in64 x \<Longrightarrow> quot64 x y = x div y"
proof -
  assume x: "0 \<le> x" and y: "0 < y" and i: "in64 x"
  have d: "x sdiv y = x div y"
    using x y by (cases "x = 0") (simp_all add: signed_divide_int_def)
  have "0 \<le> x div y" using x y by (simp add: pos_imp_zdiv_nonneg_iff)
  moreover have "x div y \<le> x"
  proof -
    have "x div y \<le> x div 1" using x y by (intro zdiv_mono2) auto
    then show ?thesis by simp
  qed
  ultimately have "in64 (x div y)" using i by (simp add: in64_def)
  then show ?thesis by (simp add: quot64_def d wrap64_id)
qed

lemmas add64_defs = add64_def sub64_def neg64_def

lemma in64_add64 [simp]: "in64 (add64 x y)" and in64_sub64 [simp]: "in64 (sub64 x y)"
  and in64_mul64 [simp]: "in64 (mul64 x y)" and in64_neg64 [simp]: "in64 (neg64 x)"
  and in64_quot64 [simp]: "in64 (quot64 x y)"
  by (simp_all add: add64_def sub64_def mul64_def neg64_def quot64_def)

text \<open>A running sum in int64 is the exact sum, wrapped once.\<close>

lemma foldl_add64: "foldl (\<lambda>acc x. add64 acc (f x)) a xs = (if xs = [] then a else wrap64 (a + (\<Sum>x\<leftarrow>xs. f x)))"
proof (induction xs arbitrary: a)
  case Nil
  then show ?case by simp
next
  case (Cons x xs)
  show ?case
    by (cases "xs = []") (simp_all add: Cons.IH, simp_all add: add64_def add.assoc)
qed

end
