(* ===== verification/Progressive_Tax.thy ===== *)
theory Progressive_Tax
  imports Go_Int
begin

text \<open>
  Progressive tax tables. Both country engines walk a table of cumulative ceilings with the
  same loop, \<^verbatim>\<open>applyBrackets\<close>; they differ in the tax of one band, which is a
  parameter here. \<open>marginal1000\<close> is the specification: a thousand times the integral
  of the marginal rates. \<open>bracket_loop_exact\<close> shows that the loop, which rounds down in
  every band, equals the specification rounded down once, for every table in which each
  complete band yields a whole amount (\<open>table_ok\<close>).
\<close>

record bracket =
  ceiling :: int64
  rate :: int64

definition taxable_in_bracket :: "bracket \<Rightarrow> int64 \<Rightarrow> int64 \<Rightarrow> int64" where
  "taxable_in_bracket b taxableIncome prevCeiling =
     (if ceiling b = 0 then sub64 taxableIncome prevCeiling
      else if taxableIncome > ceiling b then sub64 (ceiling b) prevCeiling
      else sub64 taxableIncome prevCeiling)"

text \<open>The loop, with its two local variables as arguments.\<close>

fun bracket_loop :: "(bracket \<Rightarrow> int64 \<Rightarrow> int64) \<Rightarrow> bracket list \<Rightarrow> int64 \<Rightarrow> int64 \<Rightarrow> int64 \<Rightarrow> int64" where
  "bracket_loop band_tax [] taxableIncome prevCeiling tax = tax"
| "bracket_loop band_tax (b # bs) taxableIncome prevCeiling tax =
     (if taxableIncome \<le> prevCeiling then tax
      else bracket_loop band_tax bs taxableIncome (ceiling b)
             (add64 tax (band_tax b (taxable_in_bracket b taxableIncome prevCeiling))))"

section \<open>Specification\<close>

definition band :: "int \<Rightarrow> int \<Rightarrow> int \<Rightarrow> int" where
  "band lo hi x = max 0 (min x hi - lo)"

fun marginal1000 :: "(bracket \<Rightarrow> int) \<Rightarrow> bracket list \<Rightarrow> int \<Rightarrow> int \<Rightarrow> int" where
  "marginal1000 pm [] prev x = 0"
| "marginal1000 pm (b # bs) prev x =
     (if ceiling b = 0 then pm b * max 0 (x - prev)
      else pm b * band prev (ceiling b) x + marginal1000 pm bs (ceiling b) x)"

fun table_ok :: "(bracket \<Rightarrow> int) \<Rightarrow> int \<Rightarrow> int \<Rightarrow> bracket list \<Rightarrow> bool" where
  "table_ok pm maxr prev [] = False"
| "table_ok pm maxr prev (b # bs) =
     (0 \<le> pm b \<and> pm b \<le> maxr \<and>
      (if bs = [] then ceiling b = 0
       else prev < ceiling b \<and> (pm b * (ceiling b - prev)) mod 1000 = 0
         \<and> table_ok pm maxr (ceiling b) bs))"

lemma marginal1000_below: "table_ok pm maxr prev bs \<Longrightarrow> 0 \<le> prev \<Longrightarrow> x \<le> prev \<Longrightarrow> marginal1000 pm bs prev x = 0"
  by (induction bs arbitrary: prev) (auto simp: band_def split: if_splits)

lemma bracket_loop_below: "x \<le> prev \<Longrightarrow> bracket_loop f bs x prev tax = tax"
  by (cases bs) auto

lemma div_mult_le: "0 < d \<Longrightarrow> d * (x div d) \<le> (x :: int)"
  using mult_div_mod_eq[of d x] pos_mod_sign[of d x] by linarith

lemma share_le:
  assumes "0 \<le> t" "0 \<le> p" "p \<le> 1000"
  shows "0 \<le> (p * t) div 1000 \<and> (p * t) div 1000 \<le> (t :: int)"
proof -
  have "p * t \<le> 1000 * t" using assms by (intro mult_right_mono) auto
  then have "(p * t) div 1000 \<le> (1000 * t) div 1000" by (intro zdiv_mono1) auto
  then show ?thesis using assms by (simp add: pos_imp_zdiv_nonneg_iff)
qed

lemma bracket_loop_exact:
  assumes "table_ok pm maxr prev bs" and "maxr \<le> 1000" and "0 \<le> prev" and "0 \<le> tax" and "tax \<le> prev"
    and "x \<le> m" and "in64 m"
    and step: "\<And>b t. b \<in> set bs \<Longrightarrow> 0 \<le> t \<Longrightarrow> t \<le> m \<Longrightarrow> f b t = (pm b * t) div 1000"
  shows "bracket_loop f bs x prev tax = tax + marginal1000 pm bs prev x div 1000"
  using assms
proof (induction bs arbitrary: prev tax)
  case Nil
  then show ?case by simp
next
  case (Cons b bs)
  have pm: "0 \<le> pm b" "pm b \<le> 1000" using Cons.prems by auto
  have s: "f b t = (pm b * t) div 1000" if "0 \<le> t" "t \<le> m" for t using Cons.prems(8) that by simp
  have add: "add64 tax (f b t) = tax + (pm b * t) div 1000" if "0 \<le> t" "prev + t \<le> m" for t
    using share_le[OF that(1) pm] s[of t] that Cons.prems by (simp add: add64_id in64_def)
  show ?case
  proof (cases "x \<le> prev")
    case True
    then show ?thesis using marginal1000_below[OF Cons.prems(1,3)] by simp
  next
    case x: False
    have sub: "sub64 u prev = u - prev" if "prev \<le> u" "u \<le> m" for u
      using that Cons.prems(3,7) by (intro sub64_id) (auto simp: in64_def)
    show ?thesis
    proof (cases "bs = []")
      case True
      then show ?thesis
        using x Cons.prems(1,6) sub[of x] add[of "x - prev"] by (simp add: taxable_in_bracket_def)
    next
      case bs: False
      let ?c = "ceiling b"
      have c: "prev < ?c" "?c \<noteq> 0" "(pm b * (?c - prev)) mod 1000 = 0" "table_ok pm maxr ?c bs"
        using Cons.prems(1,3) bs by auto
      show ?thesis
      proof (cases "?c < x")
        case True
        let ?k = "(pm b * (?c - prev)) div 1000"
        have k: "pm b * (?c - prev) = 1000 * ?k"
          using c(3) mult_div_mod_eq[of 1000 "pm b * (?c - prev)"] by linarith
        have "?k \<le> ?c - prev" "0 \<le> ?k" using share_le[of "?c - prev" "pm b"] pm c(1) by auto
        then have "bracket_loop f bs x ?c (tax + ?k) = tax + ?k + marginal1000 pm bs ?c x div 1000"
          using c Cons.prems by (intro Cons.IH) auto
        moreover have "add64 tax (f b (?c - prev)) = tax + ?k"
          using add[of "?c - prev"] c True Cons.prems(6) by simp
        moreover have "taxable_in_bracket b x prev = ?c - prev"
          using True c sub[of ?c] Cons.prems(6) by (simp add: taxable_in_bracket_def)
        moreover have "(pm b * (?c - prev) + z) div 1000 = ?k + z div 1000" for z
          by (subst k) simp
        moreover have "band prev ?c x = ?c - prev" using True c by (simp add: band_def)
        ultimately show ?thesis using x c by simp
      next
        case False
        then have "taxable_in_bracket b x prev = x - prev"
          using x c sub[of x] Cons.prems(6) by (simp add: taxable_in_bracket_def)
        moreover have "marginal1000 pm bs ?c x = 0"
          using marginal1000_below[OF c(4)] c Cons.prems(3) False by auto
        moreover have "band prev ?c x = x - prev" using False x by (simp add: band_def)
        ultimately show ?thesis
          using x c False add[of "x - prev"] Cons.prems(6) by (simp add: bracket_loop_below)
      qed
    qed
  qed
qed

section \<open>Marginal rates are bounded: monotone and Lipschitz\<close>

lemma marginal1000_bounds:
  assumes "table_ok pm maxr prev bs" and "0 \<le> prev" and "y \<le> x"
  shows "marginal1000 pm bs prev y \<le> marginal1000 pm bs prev x \<and>
    marginal1000 pm bs prev x - marginal1000 pm bs prev y \<le> maxr * (max prev x - max prev y)"
  using assms
proof (induction bs arbitrary: prev)
  case Nil
  then show ?case by simp
next
  case (Cons b bs)
  have pm: "0 \<le> pm b" "pm b \<le> maxr" using Cons.prems by auto
  have lip: "pm b * u \<le> pm b * v \<and> pm b * v - pm b * u \<le> maxr * (v - u)" if "u \<le> v" for u v
    using mult_right_mono[OF pm(2), of "v - u"] mult_left_mono[OF that pm(1)] that
    by (simp add: algebra_simps)
  show ?case
  proof (cases "bs = []")
    case True
    have "max 0 (y - prev) \<le> max 0 (x - prev)"
      and "max 0 (x - prev) - max 0 (y - prev) = max prev x - max prev y" using Cons.prems by auto
    with lip[of "max 0 (y - prev)" "max 0 (x - prev)"] True Cons.prems(1) show ?thesis by simp
  next
    case False
    let ?c = "ceiling b"
    have c: "prev < ?c" "?c \<noteq> 0" "table_ok pm maxr ?c bs" using Cons.prems False by auto
    have ih: "marginal1000 pm bs ?c y \<le> marginal1000 pm bs ?c x \<and>
        marginal1000 pm bs ?c x - marginal1000 pm bs ?c y \<le> maxr * (max ?c x - max ?c y)"
      using Cons.IH[OF c(3)] c Cons.prems by auto
    have b: "band prev ?c y \<le> band prev ?c x" using Cons.prems by (auto simp: band_def)
    have "max prev z = band prev ?c z + prev + (max ?c z - ?c)" for z
      using c by (auto simp: band_def)
    then have "max prev x - max prev y = (band prev ?c x - band prev ?c y) + (max ?c x - max ?c y)"
      by simp
    then have "maxr * (max prev x - max prev y)
        = maxr * (band prev ?c x - band prev ?c y) + maxr * (max ?c x - max ?c y)"
      by (simp only: distrib_left)
    with ih lip[OF b] c show ?thesis by simp
  qed
qed

end
