(* ===== verification/Tax_Nigeria.thy ===== *)
theory Tax_Nigeria
  imports Progressive_Tax
begin

text \<open>
  The Nigerian statutory engine, \<^verbatim>\<open>internal/service/tax\<close>: the input and result
  structs (types.go), pension, NHF and NSITF contributions, the PAYE brackets of the
  Nigeria Tax Act 2025 (paye.go) and \<^verbatim>\<open>Calculate\<close> (engine.go). The bracket loop
  is the one of Progressive_Tax; \<open>exact_tax1000\<close> is its specification on this table.
\<close>

record tax_input =
  in_BasicPay :: int64
  in_HousingPay :: int64
  in_TransportPay :: int64
  in_OtherPay :: int64
  in_GrossPay :: int64
  in_AnnualRentPaid :: int64
  in_PensionEnabled :: bool
  in_NHFEnabled :: bool
  in_NSITFEnabled :: bool
  in_PAYEEnabled :: bool

record tax_result =
  r_PAYE :: int64
  r_EmployeePension :: int64
  r_NHF :: int64
  r_EmployerPension :: int64
  r_NSITF :: int64
  r_PensionBase :: int64
  r_AnnualGross :: int64
  r_AnnualTaxableIncome :: int64
  r_RentRelief :: int64
  r_TotalEmployeeDeductions :: int64
  r_TotalEmployerCosts :: int64

definition zero_result :: tax_result where
  "zero_result = \<lparr>r_PAYE = 0, r_EmployeePension = 0, r_NHF = 0, r_EmployerPension = 0,
     r_NSITF = 0, r_PensionBase = 0, r_AnnualGross = 0, r_AnnualTaxableIncome = 0,
     r_RentRelief = 0, r_TotalEmployeeDeductions = 0, r_TotalEmployerCosts = 0\<rparr>"

section \<open>Contributions\<close>

definition calculateEmployeePension :: "int64 \<Rightarrow> int64" where
  "calculateEmployeePension pensionBase = quot64 (mul64 pensionBase 8) 100"

definition calculateEmployerPension :: "int64 \<Rightarrow> int64" where
  "calculateEmployerPension pensionBase = quot64 (mul64 pensionBase 10) 100"

definition calculateNHF :: "int64 \<Rightarrow> int64" where
  "calculateNHF basicPay = quot64 (mul64 basicPay 25) 1000"

definition calculateNSITF :: "int64 \<Rightarrow> int64" where
  "calculateNSITF grossPay = quot64 (mul64 grossPay 1) 100"

section \<open>PAYE\<close>

definition minimumWageMonthly :: int64 where
  "minimumWageMonthly = 7000000"

definition maxRentRelief :: int64 where
  "maxRentRelief = 50000000"

definition brackets :: "bracket list" where
  "brackets =
    [\<lparr>ceiling = 80000000, rate = 0\<rparr>,
     \<lparr>ceiling = 300000000, rate = 15\<rparr>,
     \<lparr>ceiling = 1200000000, rate = 18\<rparr>,
     \<lparr>ceiling = 2500000000, rate = 21\<rparr>,
     \<lparr>ceiling = 5000000000, rate = 23\<rparr>,
     \<lparr>ceiling = 0, rate = 25\<rparr>]"

definition bracket_tax :: "bracket \<Rightarrow> int64 \<Rightarrow> int64" where
  "bracket_tax b taxableInBracket = quot64 (mul64 taxableInBracket (rate b)) 100"

definition applyBrackets :: "int64 \<Rightarrow> int64" where
  "applyBrackets taxableIncome = bracket_loop bracket_tax brackets taxableIncome 0 0"

definition calculateMonthlyPAYE :: "int64 \<Rightarrow> int64 \<Rightarrow> int64 \<Rightarrow> int64 \<Rightarrow> int64 \<times> int64 \<times> int64" where
  "calculateMonthlyPAYE monthlyGross monthlyPension monthlyNHF annualRentPaid =
    (if monthlyGross \<le> minimumWageMonthly then (0, 0, 0)
     else
       let annualGross = mul64 monthlyGross 12;
           annualPension = mul64 monthlyPension 12;
           annualNHF = mul64 monthlyNHF 12;
           relief0 = quot64 (mul64 annualRentPaid 20) 100;
           rentRelief = (if relief0 > maxRentRelief then maxRentRelief else relief0);
           annualTaxable = sub64 (sub64 (sub64 annualGross annualPension) annualNHF) rentRelief
       in if annualTaxable \<le> 0 then (0, 0, rentRelief)
          else let annualTax = applyBrackets annualTaxable
               in (quot64 annualTax 12, annualTaxable, rentRelief))"

section \<open>The engine\<close>

text \<open>
  \<^verbatim>\<open>Calculate\<close> fills one result struct in four numbered steps; each step is a
  function of the struct so far.
\<close>

definition calc_pension :: "tax_input \<Rightarrow> tax_result \<Rightarrow> tax_result" where
  "calc_pension input r =
     (if in_PensionEnabled input \<and> r_PensionBase r > 0
      then r\<lparr>r_EmployeePension := calculateEmployeePension (r_PensionBase r),
             r_EmployerPension := calculateEmployerPension (r_PensionBase r)\<rparr> else r)"

definition calc_nhf :: "tax_input \<Rightarrow> tax_result \<Rightarrow> tax_result" where
  "calc_nhf input r =
     (if in_NHFEnabled input \<and> in_BasicPay input > 0
      then r\<lparr>r_NHF := calculateNHF (in_BasicPay input)\<rparr> else r)"

definition calc_nsitf :: "tax_input \<Rightarrow> tax_result \<Rightarrow> tax_result" where
  "calc_nsitf input r =
     (if in_NSITFEnabled input \<and> in_GrossPay input > 0
      then r\<lparr>r_NSITF := calculateNSITF (in_GrossPay input)\<rparr> else r)"

definition calc_paye :: "tax_input \<Rightarrow> tax_result \<Rightarrow> tax_result" where
  "calc_paye input r =
     (if in_PAYEEnabled input \<and> in_GrossPay input > 0
      then (let (paye, taxable, relief) = calculateMonthlyPAYE (in_GrossPay input)
                  (r_EmployeePension r) (r_NHF r) (in_AnnualRentPaid input)
            in r\<lparr>r_PAYE := paye, r_AnnualTaxableIncome := taxable, r_RentRelief := relief\<rparr>)
      else r)"

definition calc_totals :: "tax_result \<Rightarrow> tax_result" where
  "calc_totals r =
     r\<lparr>r_TotalEmployeeDeductions := add64 (add64 (r_EmployeePension r) (r_NHF r)) (r_PAYE r),
       r_TotalEmployerCosts := add64 (r_EmployerPension r) (r_NSITF r)\<rparr>"

definition Calculate :: "tax_input \<Rightarrow> tax_result" where
  "Calculate input =
    (let r = zero_result\<lparr>r_PensionBase := add64 (add64 (in_BasicPay input) (in_HousingPay input))
                 (in_TransportPay input), r_AnnualGross := mul64 (in_GrossPay input) 12\<rparr>
     in calc_totals (calc_paye input (calc_nsitf input (calc_nhf input (calc_pension input r)))))"

section \<open>Specification: marginal rates integrated over the bands\<close>

text \<open>
  Amounts of money up to \<open>money_max\<close> (360 billion naira a month) keep every product
  of the engine within int64.
\<close>

definition money_max :: int where
  "money_max = 36000000000000"

definition exact_tax1000 :: "int \<Rightarrow> int" where
  "exact_tax1000 x = marginal1000 (\<lambda>b. 10 * rate b) brackets 0 x"

lemma mul_pct: "0 \<le> x \<Longrightarrow> x \<le> 12 * money_max \<Longrightarrow> 0 \<le> k \<Longrightarrow> k \<le> 1000 \<Longrightarrow> in64 (x * k)"
proof -
  assume x: "0 \<le> x" "x \<le> 12 * money_max" and k: "0 \<le> k" "k \<le> 1000"
  have "x * k \<le> (12 * money_max) * 1000" using x k by (intro mult_mono) auto
  moreover have "0 \<le> x * k" using x k by simp
  ultimately show ?thesis by (simp add: in64_def money_max_def)
qed

lemma pct_eq: "0 \<le> x \<Longrightarrow> x \<le> 12 * money_max \<Longrightarrow> 0 \<le> k \<Longrightarrow> k \<le> 1000 \<Longrightarrow> 0 < d \<Longrightarrow>
    quot64 (mul64 x k) d = (x * k) div d"
  by (simp add: mul64_id mul_pct quot64_nonneg)

lemma pct_bounds:
  assumes "0 \<le> c" "c \<le> b" "0 \<le> k" "0 < d"
  shows "0 \<le> (c * k) div d \<and> d * ((c * k) div d) \<le> k * (b :: int)"
proof -
  have "c * k \<le> k * b" using mult_left_mono[OF assms(2,3)] by (simp add: mult.commute)
  then show ?thesis
    using div_mult_le[OF assms(4), of "c * k"] assms by (auto simp: pos_imp_zdiv_nonneg_iff)
qed

lemma brackets_ok: "table_ok (\<lambda>b. 10 * rate b) 250 0 brackets"
  by (simp add: brackets_def)

lemma bracket_tax_permille:
  assumes "b \<in> set brackets" "0 \<le> t" "t \<le> 12 * money_max"
  shows "bracket_tax b t = (10 * rate b * t) div 1000"
proof -
  have "0 \<le> rate b \<and> rate b \<le> 100" using assms(1) by (auto simp: brackets_def)
  then have "bracket_tax b t = (t * rate b) div 100"
    using pct_eq[of t "rate b" 100] assms by (simp add: bracket_tax_def)
  also have "\<dots> = (10 * (t * rate b)) div (10 * 100)" by (rule div_mult_mult1[symmetric]) simp
  finally show ?thesis by (simp add: mult_ac)
qed

lemma applyBrackets_exact:
  assumes "0 \<le> x" and "x \<le> 12 * money_max"
  shows "applyBrackets x = exact_tax1000 x div 1000"
  using bracket_loop_exact[OF brackets_ok, of 0 x "12 * money_max" bracket_tax] bracket_tax_permille
    assms by (simp add: applyBrackets_def exact_tax1000_def in64_def money_max_def)

lemma exact_tax1000_bounds:
  assumes "0 \<le> y" "y \<le> x"
  shows "exact_tax1000 y \<le> exact_tax1000 x" and "exact_tax1000 x - exact_tax1000 y \<le> 250 * (x - y)"
  using marginal1000_bounds[OF brackets_ok _ assms(2)] assms by (simp_all add: exact_tax1000_def)

lemma exact_tax1000_0 [simp]: "exact_tax1000 0 = 0"
  by (simp add: exact_tax1000_def brackets_def band_def)

lemma applyBrackets_bounds:
  assumes "0 \<le> x" and "x \<le> 12 * money_max"
  shows "0 \<le> applyBrackets x" and "4 * applyBrackets x \<le> x"
  using exact_tax1000_bounds[of 0 x] assms div_mult_le[of 1000 "exact_tax1000 x"]
  by (simp_all add: applyBrackets_exact pos_imp_zdiv_nonneg_iff)

section \<open>The engine, field by field\<close>

definition tax_input_ok :: "tax_input \<Rightarrow> bool" where
  "tax_input_ok i \<longleftrightarrow> 0 \<le> in_BasicPay i \<and> 0 \<le> in_HousingPay i \<and> 0 \<le> in_TransportPay i
     \<and> in_BasicPay i + in_HousingPay i + in_TransportPay i \<le> in_GrossPay i
     \<and> in_GrossPay i \<le> money_max \<and> 0 \<le> in_AnnualRentPaid i \<and> in_AnnualRentPaid i \<le> money_max"

lemma calc_fields:
  "r_PensionBase (calc_pension i r) = r_PensionBase r" "r_PensionBase (calc_nhf i r) = r_PensionBase r"
  "r_PensionBase (calc_nsitf i r) = r_PensionBase r" "r_PensionBase (calc_paye i r) = r_PensionBase r"
  "r_PensionBase (calc_totals r) = r_PensionBase r"
  "r_EmployeePension (calc_nhf i r) = r_EmployeePension r" "r_EmployeePension (calc_nsitf i r) = r_EmployeePension r"
  "r_EmployeePension (calc_paye i r) = r_EmployeePension r" "r_EmployeePension (calc_totals r) = r_EmployeePension r"
  "r_EmployerPension (calc_nhf i r) = r_EmployerPension r" "r_EmployerPension (calc_nsitf i r) = r_EmployerPension r"
  "r_EmployerPension (calc_paye i r) = r_EmployerPension r" "r_EmployerPension (calc_totals r) = r_EmployerPension r"
  "r_NHF (calc_pension i r) = r_NHF r" "r_NHF (calc_nsitf i r) = r_NHF r"
  "r_NHF (calc_paye i r) = r_NHF r" "r_NHF (calc_totals r) = r_NHF r"
  "r_NSITF (calc_pension i r) = r_NSITF r" "r_NSITF (calc_nhf i r) = r_NSITF r"
  "r_NSITF (calc_paye i r) = r_NSITF r" "r_NSITF (calc_totals r) = r_NSITF r"
  "r_PAYE (calc_pension i r) = r_PAYE r" "r_PAYE (calc_nhf i r) = r_PAYE r"
  "r_PAYE (calc_nsitf i r) = r_PAYE r" "r_PAYE (calc_totals r) = r_PAYE r"
  by (simp_all add: calc_pension_def calc_nhf_def calc_nsitf_def calc_paye_def calc_totals_def
      split: prod.split)

lemma Calculate_base:
  "r_PensionBase (Calculate i) = add64 (add64 (in_BasicPay i) (in_HousingPay i)) (in_TransportPay i)"
  by (simp add: Calculate_def Let_def calc_fields)

lemma pension_base_ok:
  "tax_input_ok i \<Longrightarrow> r_PensionBase (Calculate i) = in_BasicPay i + in_HousingPay i + in_TransportPay i"
  unfolding Calculate_base tax_input_ok_def money_max_def by (simp add: add64_id in64_def)

lemma Calculate_pension:
  "r_EmployeePension (Calculate i) =
     (if in_PensionEnabled i \<and> r_PensionBase (Calculate i) > 0
      then calculateEmployeePension (r_PensionBase (Calculate i)) else 0)"
  "r_EmployerPension (Calculate i) =
     (if in_PensionEnabled i \<and> r_PensionBase (Calculate i) > 0
      then calculateEmployerPension (r_PensionBase (Calculate i)) else 0)"
  unfolding Calculate_base
  by (simp_all add: Calculate_def Let_def calc_fields) (simp_all add: calc_pension_def zero_result_def)

lemma Calculate_NHF:
  "r_NHF (Calculate i) =
     (if in_NHFEnabled i \<and> in_BasicPay i > 0 then calculateNHF (in_BasicPay i) else 0)"
  by (simp add: Calculate_def Let_def calc_fields)
     (simp add: calc_nhf_def calc_pension_def zero_result_def)

lemma Calculate_NSITF:
  "r_NSITF (Calculate i) =
     (if in_NSITFEnabled i \<and> in_GrossPay i > 0 then calculateNSITF (in_GrossPay i) else 0)"
  by (simp add: Calculate_def Let_def calc_fields)
     (simp add: calc_nsitf_def calc_nhf_def calc_pension_def zero_result_def)

lemma r_PAYE_calc_paye:
  "r_PAYE (calc_paye i r) =
     (if in_PAYEEnabled i \<and> in_GrossPay i > 0
      then fst (calculateMonthlyPAYE (in_GrossPay i) (r_EmployeePension r) (r_NHF r) (in_AnnualRentPaid i))
      else r_PAYE r)"
  by (simp add: calc_paye_def split: prod.split)

lemma Calculate_PAYE:
  "r_PAYE (Calculate i) =
     (if in_PAYEEnabled i \<and> in_GrossPay i > 0
      then fst (calculateMonthlyPAYE (in_GrossPay i) (r_EmployeePension (Calculate i))
                  (r_NHF (Calculate i)) (in_AnnualRentPaid i)) else 0)"
  by (simp add: Calculate_def Let_def calc_fields r_PAYE_calc_paye) (simp add: zero_result_def)

lemma Calculate_totals:
  "r_TotalEmployeeDeductions (Calculate i) =
     add64 (add64 (r_EmployeePension (Calculate i)) (r_NHF (Calculate i))) (r_PAYE (Calculate i))"
  "r_TotalEmployerCosts (Calculate i) = add64 (r_EmployerPension (Calculate i)) (r_NSITF (Calculate i))"
  by (simp_all add: Calculate_def Let_def calc_totals_def)

lemma contribution_bounds:
  assumes "0 \<le> b" and "b \<le> money_max"
  shows "0 \<le> calculateEmployeePension b" "100 * calculateEmployeePension b \<le> 8 * b"
    "0 \<le> calculateEmployerPension b" "100 * calculateEmployerPension b \<le> 10 * b"
    "0 \<le> calculateNHF b" "1000 * calculateNHF b \<le> 25 * b"
    "0 \<le> calculateNSITF b" "100 * calculateNSITF b \<le> b"
proof -
  have e: "quot64 (mul64 b k) d = (b * k) div d" if "0 \<le> k" "k \<le> 100" "0 < d" for k d
    using assms that by (intro pct_eq) (auto simp: money_max_def)
  show "0 \<le> calculateEmployeePension b" "100 * calculateEmployeePension b \<le> 8 * b"
    "0 \<le> calculateEmployerPension b" "100 * calculateEmployerPension b \<le> 10 * b"
    "0 \<le> calculateNHF b" "1000 * calculateNHF b \<le> 25 * b"
    "0 \<le> calculateNSITF b" "100 * calculateNSITF b \<le> b"
    unfolding calculateEmployeePension_def calculateEmployerPension_def calculateNHF_def
      calculateNSITF_def using assms(1) by (simp_all add: e)
qed

lemma monthly_PAYE_bounds:
  assumes "0 \<le> g" "g \<le> money_max" "0 \<le> p" "0 \<le> n" "p + n \<le> g" "0 \<le> rent" "rent \<le> money_max"
  shows "0 \<le> fst (calculateMonthlyPAYE g p n rent)" and "4 * fst (calculateMonthlyPAYE g p n rent) \<le> g"
proof -
  let ?rl = "rent * 20 div 100"
  let ?r = "if ?rl > 50000000 then 50000000 else ?rl"
  let ?t = "12 * g - 12 * p - 12 * n - ?r"
  have r: "quot64 (mul64 rent 20) 100 = ?rl" using assms by (intro pct_eq) (auto simp: money_max_def)
  have r0: "0 \<le> ?r" using assms by (simp add: pos_imp_zdiv_nonneg_iff)
  have t: "sub64 (sub64 (sub64 (mul64 g 12) (mul64 p 12)) (mul64 n 12)) ?r = ?t"
    using assms r0 by (simp add: sub64_id mul64_id in64_def money_max_def)
  have b: "0 \<le> applyBrackets ?t \<and> 4 * applyBrackets ?t \<le> ?t" if "0 < ?t"
    using applyBrackets_bounds[of ?t] that assms r0 by simp
  have q: "quot64 (applyBrackets ?t) 12 = applyBrackets ?t div 12" if "0 < ?t"
    using b[OF that] assms r0 by (intro quot64_nonneg) (auto simp: in64_def money_max_def)
  have e: "calculateMonthlyPAYE g p n rent =
      (if g \<le> 7000000 then (0, 0, 0) else if ?t \<le> 0 then (0, 0, ?r)
       else (quot64 (applyBrackets ?t) 12, ?t, ?r))"
    unfolding calculateMonthlyPAYE_def minimumWageMonthly_def maxRentRelief_def Let_def r
    by (simp only: t)
  show "0 \<le> fst (calculateMonthlyPAYE g p n rent)"
    unfolding e using b q assms by (simp add: pos_imp_zdiv_nonneg_iff)
  have d: "48 * (a div 12) \<le> 4 * a" for a :: int by linarith
  have "48 * (applyBrackets ?t div 12) \<le> 12 * g" if "0 < ?t"
    using b[OF that] d[of "applyBrackets ?t"] assms r0 by linarith
  then show "4 * fst (calculateMonthlyPAYE g p n rent) \<le> g"
    unfolding e using q assms by simp
qed

lemma Calculate_bounds:
  assumes "tax_input_ok i"
  defines "r \<equiv> Calculate i"
  shows "0 \<le> r_PAYE r \<and> 4 * r_PAYE r \<le> in_GrossPay i"
    and "0 \<le> r_EmployeePension r \<and> 100 * r_EmployeePension r \<le> 8 * in_GrossPay i"
    and "0 \<le> r_NHF r \<and> 1000 * r_NHF r \<le> 25 * in_GrossPay i"
    and "0 \<le> r_EmployerPension r \<and> 100 * r_EmployerPension r \<le> 10 * in_GrossPay i"
    and "0 \<le> r_NSITF r \<and> 100 * r_NSITF r \<le> in_GrossPay i"
proof -
  let ?b = "in_BasicPay i + in_HousingPay i + in_TransportPay i"
  have b: "0 \<le> ?b" "?b \<le> in_GrossPay i" "in_GrossPay i \<le> money_max" "0 \<le> in_BasicPay i"
      "in_BasicPay i \<le> in_GrossPay i" "0 \<le> in_AnnualRentPaid i" "in_AnnualRentPaid i \<le> money_max"
    using assms by (auto simp: tax_input_ok_def)
  note cb = contribution_bounds[of ?b] contribution_bounds[of "in_BasicPay i"]
    contribution_bounds[of "in_GrossPay i"]
  show p: "0 \<le> r_EmployeePension r \<and> 100 * r_EmployeePension r \<le> 8 * in_GrossPay i"
    using cb b unfolding r_def Calculate_pension pension_base_ok[OF assms(1)] by auto
  show n: "0 \<le> r_NHF r \<and> 1000 * r_NHF r \<le> 25 * in_GrossPay i"
    using cb b unfolding r_def Calculate_NHF Calculate_NSITF by auto
  show "0 \<le> r_EmployerPension r \<and> 100 * r_EmployerPension r \<le> 10 * in_GrossPay i"
    using cb b unfolding r_def Calculate_pension pension_base_ok[OF assms(1)] by auto
  show "0 \<le> r_NSITF r \<and> 100 * r_NSITF r \<le> in_GrossPay i"
    using cb b unfolding r_def Calculate_NHF Calculate_NSITF by auto
  have "r_EmployeePension r + r_NHF r \<le> in_GrossPay i" using p n b by linarith
  then show "0 \<le> r_PAYE r \<and> 4 * r_PAYE r \<le> in_GrossPay i"
    using monthly_PAYE_bounds[of "in_GrossPay i" "r_EmployeePension r" "r_NHF r" "in_AnnualRentPaid i"]
      b p n unfolding r_def Calculate_PAYE[of i] by auto
qed

end
