(* ===== verification/Tax_Ghana.thy ===== *)
theory Tax_Ghana
  imports Tax_Nigeria
begin

text \<open>
  The Ghanaian statutory engine, \<^verbatim>\<open>internal/service/tax/ghana\<close>: SSNIT and
  tier 2 pension with the insurable earnings cap (pension.go), the GRA brackets with the
  half-percent band (paye.go) and \<^verbatim>\<open>Calculate\<close> (engine.go). Amounts are pesewas.
  Its struct \<^verbatim>\<open>bracket\<close> has the fields of the Nigerian one, which is reused.
\<close>

record gh_input =
  gi_BasicPay :: int64
  gi_HousingPay :: int64
  gi_TransportPay :: int64
  gi_OtherPay :: int64
  gi_GrossPay :: int64
  gi_PensionEnabled :: bool
  gi_PAYEEnabled :: bool

record gh_result =
  gr_PAYE :: int64
  gr_EmployeePension :: int64
  gr_Tier2Pension :: int64
  gr_EmployerPension :: int64
  gr_PensionBase :: int64
  gr_AnnualGross :: int64
  gr_AnnualTaxableIncome :: int64
  gr_TotalEmployeeDeductions :: int64
  gr_TotalEmployerCosts :: int64

section \<open>Pension\<close>

definition ssnitCapMonthly :: int64 where
  "ssnitCapMonthly = 6900000"

definition gh_capped :: "int64 \<Rightarrow> int64" where
  "gh_capped basicPay = (if basicPay > ssnitCapMonthly then ssnitCapMonthly else basicPay)"

definition gh_calculateEmployeePension :: "int64 \<Rightarrow> int64" where
  "gh_calculateEmployeePension basicPay = quot64 (mul64 (gh_capped basicPay) 55) 1000"

definition gh_calculateEmployerPension :: "int64 \<Rightarrow> int64" where
  "gh_calculateEmployerPension basicPay = quot64 (mul64 (gh_capped basicPay) 13) 100"

definition gh_calculateTier2Pension :: "int64 \<Rightarrow> int64" where
  "gh_calculateTier2Pension basicPay = quot64 (mul64 (gh_capped basicPay) 5) 100"

section \<open>PAYE\<close>

definition gh_brackets :: "bracket list" where
  "gh_brackets =
    [\<lparr>ceiling = 588000, rate = 0\<rparr>,
     \<lparr>ceiling = 720000, rate = 5\<rparr>,
     \<lparr>ceiling = 876000, rate = 10\<rparr>,
     \<lparr>ceiling = 4676000, rate = 17\<rparr>,
     \<lparr>ceiling = 23876000, rate = 25\<rparr>,
     \<lparr>ceiling = 60500000, rate = 30\<rparr>,
     \<lparr>ceiling = 0, rate = 35\<rparr>]"

definition gh_bracket_tax :: "bracket \<Rightarrow> int64 \<Rightarrow> int64" where
  "gh_bracket_tax b taxableInBracket =
     (if rate b = 17 then quot64 (mul64 taxableInBracket 175) 1000
      else quot64 (mul64 taxableInBracket (rate b)) 100)"

definition gh_applyBrackets :: "int64 \<Rightarrow> int64" where
  "gh_applyBrackets taxableIncome = bracket_loop gh_bracket_tax gh_brackets taxableIncome 0 0"

definition gh_calculateMonthlyPAYE :: "int64 \<Rightarrow> int64 \<Rightarrow> int64 \<times> int64" where
  "gh_calculateMonthlyPAYE monthlyGross monthlySSNIT =
    (let monthlyTaxable = sub64 monthlyGross monthlySSNIT
     in if monthlyTaxable \<le> 0 then (0, 0)
        else let annualTaxable = mul64 monthlyTaxable 12;
                 annualTax = gh_applyBrackets annualTaxable
             in (quot64 annualTax 12, annualTaxable))"

section \<open>The engine\<close>

definition gh_calc_pension :: "gh_input \<Rightarrow> gh_result \<Rightarrow> gh_result" where
  "gh_calc_pension input r =
     (if gi_PensionEnabled input \<and> gi_BasicPay input > 0
      then r\<lparr>gr_EmployeePension := gh_calculateEmployeePension (gi_BasicPay input),
             gr_EmployerPension := gh_calculateEmployerPension (gi_BasicPay input),
             gr_Tier2Pension := gh_calculateTier2Pension (gi_BasicPay input)\<rparr> else r)"

definition gh_calc_paye :: "gh_input \<Rightarrow> gh_result \<Rightarrow> gh_result" where
  "gh_calc_paye input r =
     (if gi_PAYEEnabled input \<and> gi_GrossPay input > 0
      then (let (paye, taxable) = gh_calculateMonthlyPAYE (gi_GrossPay input) (gr_EmployeePension r)
            in r\<lparr>gr_PAYE := paye, gr_AnnualTaxableIncome := taxable\<rparr>)
      else r)"

definition gh_calc_totals :: "gh_result \<Rightarrow> gh_result" where
  "gh_calc_totals r =
     r\<lparr>gr_TotalEmployeeDeductions := add64 (add64 (gr_EmployeePension r) (gr_Tier2Pension r)) (gr_PAYE r),
       gr_TotalEmployerCosts := gr_EmployerPension r\<rparr>"

definition gh_Calculate :: "gh_input \<Rightarrow> gh_result" where
  "gh_Calculate input =
    (let r = \<lparr>gr_PAYE = 0, gr_EmployeePension = 0, gr_Tier2Pension = 0, gr_EmployerPension = 0,
          gr_PensionBase = gi_BasicPay input, gr_AnnualGross = mul64 (gi_GrossPay input) 12,
          gr_AnnualTaxableIncome = 0, gr_TotalEmployeeDeductions = 0, gr_TotalEmployerCosts = 0\<rparr>
     in gh_calc_totals (gh_calc_paye input (gh_calc_pension input r)))"

section \<open>Specification and bounds\<close>

definition gh_permille :: "bracket \<Rightarrow> int" where
  "gh_permille b = (if rate b = 17 then 175 else 10 * rate b)"

definition gh_exact_tax1000 :: "int \<Rightarrow> int" where
  "gh_exact_tax1000 x = marginal1000 gh_permille gh_brackets 0 x"

lemma gh_brackets_ok: "table_ok gh_permille 350 0 gh_brackets"
  by (simp add: gh_brackets_def gh_permille_def)

lemma gh_bracket_tax_permille:
  assumes "b \<in> set gh_brackets" "0 \<le> t" "t \<le> 12 * money_max"
  shows "gh_bracket_tax b t = (gh_permille b * t) div 1000"
proof (cases "rate b = 17")
  case True
  then show ?thesis
    using pct_eq[of t 175 1000] assms by (simp add: gh_bracket_tax_def gh_permille_def mult.commute)
next
  case False
  have "0 \<le> rate b \<and> rate b \<le> 100" using assms(1) by (auto simp: gh_brackets_def)
  then have "gh_bracket_tax b t = (t * rate b) div 100"
    using pct_eq[of t "rate b" 100] assms False by (simp add: gh_bracket_tax_def)
  also have "\<dots> = (10 * (t * rate b)) div (10 * 100)" by (rule div_mult_mult1[symmetric]) simp
  finally show ?thesis using False by (simp add: gh_permille_def mult_ac)
qed

lemma gh_applyBrackets_exact:
  assumes "0 \<le> x" and "x \<le> 12 * money_max"
  shows "gh_applyBrackets x = gh_exact_tax1000 x div 1000"
  using bracket_loop_exact[OF gh_brackets_ok, of 0 x "12 * money_max" gh_bracket_tax]
    gh_bracket_tax_permille assms
  by (simp add: gh_applyBrackets_def gh_exact_tax1000_def in64_def money_max_def)

lemma gh_exact_tax1000_bounds:
  assumes "0 \<le> y" "y \<le> x"
  shows "gh_exact_tax1000 y \<le> gh_exact_tax1000 x"
    and "gh_exact_tax1000 x - gh_exact_tax1000 y \<le> 350 * (x - y)"
  using marginal1000_bounds[OF gh_brackets_ok _ assms(2)] assms by (simp_all add: gh_exact_tax1000_def)

lemma gh_exact_tax1000_0 [simp]: "gh_exact_tax1000 0 = 0"
  by (simp add: gh_exact_tax1000_def gh_brackets_def band_def)

lemma gh_applyBrackets_bounds:
  assumes "0 \<le> x" and "x \<le> 12 * money_max"
  shows "0 \<le> gh_applyBrackets x" and "20 * gh_applyBrackets x \<le> 7 * x"
  using gh_exact_tax1000_bounds[of 0 x] assms div_mult_le[of 1000 "gh_exact_tax1000 x"]
  by (simp_all add: gh_applyBrackets_exact pos_imp_zdiv_nonneg_iff)

lemma gh_capped_bounds: "0 \<le> b \<Longrightarrow> 0 \<le> gh_capped b \<and> gh_capped b \<le> b \<and> gh_capped b \<le> 6900000"
  by (simp add: gh_capped_def ssnitCapMonthly_def)

lemma gh_contribution_bounds:
  assumes "0 \<le> b"
  shows "0 \<le> gh_calculateEmployeePension b" "1000 * gh_calculateEmployeePension b \<le> 55 * b"
    "0 \<le> gh_calculateEmployerPension b" "100 * gh_calculateEmployerPension b \<le> 13 * b"
    "0 \<le> gh_calculateTier2Pension b" "100 * gh_calculateTier2Pension b \<le> 5 * b"
proof -
  note c = gh_capped_bounds[OF assms]
  have e: "0 \<le> quot64 (mul64 (gh_capped b) k) d \<and> d * quot64 (mul64 (gh_capped b) k) d \<le> k * b"
    if "0 \<le> k" "k \<le> 100" "0 < d" for k d
    using pct_bounds[of "gh_capped b" b k d] pct_eq[of "gh_capped b" k d] c that
    by (simp add: money_max_def)
  show "0 \<le> gh_calculateEmployeePension b" "1000 * gh_calculateEmployeePension b \<le> 55 * b"
    "0 \<le> gh_calculateEmployerPension b" "100 * gh_calculateEmployerPension b \<le> 13 * b"
    "0 \<le> gh_calculateTier2Pension b" "100 * gh_calculateTier2Pension b \<le> 5 * b"
    unfolding gh_calculateEmployeePension_def gh_calculateEmployerPension_def
      gh_calculateTier2Pension_def using e[of 55 1000] e[of 13 100] e[of 5 100] by simp_all
qed

lemma gh_monthly_PAYE_bounds:
  assumes "0 \<le> g" "g \<le> money_max" "0 \<le> p" "p \<le> g"
  shows "0 \<le> fst (gh_calculateMonthlyPAYE g p)" and "20 * fst (gh_calculateMonthlyPAYE g p) \<le> 7 * g"
proof -
  let ?m = "g - p" and ?t = "(g - p) * 12"
  have m: "sub64 g p = ?m" "mul64 ?m 12 = ?t"
    using assms by (simp_all add: sub64_id mul64_id in64_def money_max_def)
  have b: "0 \<le> gh_applyBrackets ?t" "20 * gh_applyBrackets ?t \<le> 7 * ?t"
    using gh_applyBrackets_bounds[of ?t] assms by simp_all
  have q: "quot64 (gh_applyBrackets ?t) 12 = gh_applyBrackets ?t div 12"
    using b assms by (intro quot64_nonneg) (auto simp: in64_def money_max_def)
  have e: "gh_calculateMonthlyPAYE g p = (if ?m \<le> 0 then (0, 0) else (quot64 (gh_applyBrackets ?t) 12, ?t))"
    unfolding gh_calculateMonthlyPAYE_def Let_def m ..
  show "0 \<le> fst (gh_calculateMonthlyPAYE g p)"
    unfolding e using b q by (simp add: pos_imp_zdiv_nonneg_iff)
  have "12 * (20 * (gh_applyBrackets ?t div 12)) \<le> 12 * (7 * g)"
    using b(2) div_mult_le[of 12 "gh_applyBrackets ?t"] assms by (simp add: algebra_simps)
  then have "20 * (gh_applyBrackets ?t div 12) \<le> 7 * g" by simp
  then show "20 * fst (gh_calculateMonthlyPAYE g p) \<le> 7 * g"
    unfolding e using q assms by simp
qed

lemma gh_paye_fields:
  "gr_PAYE (gh_calc_paye i r) =
     (if gi_PAYEEnabled i \<and> gi_GrossPay i > 0
      then fst (gh_calculateMonthlyPAYE (gi_GrossPay i) (gr_EmployeePension r)) else gr_PAYE r)"
  "gr_EmployeePension (gh_calc_paye i r) = gr_EmployeePension r"
  "gr_EmployerPension (gh_calc_paye i r) = gr_EmployerPension r"
  "gr_Tier2Pension (gh_calc_paye i r) = gr_Tier2Pension r"
  by (simp_all add: gh_calc_paye_def split: prod.split)

lemma gh_Calculate_fields:
  "gr_EmployeePension (gh_Calculate i) =
     (if gi_PensionEnabled i \<and> gi_BasicPay i > 0 then gh_calculateEmployeePension (gi_BasicPay i) else 0)"
  "gr_EmployerPension (gh_Calculate i) =
     (if gi_PensionEnabled i \<and> gi_BasicPay i > 0 then gh_calculateEmployerPension (gi_BasicPay i) else 0)"
  "gr_Tier2Pension (gh_Calculate i) =
     (if gi_PensionEnabled i \<and> gi_BasicPay i > 0 then gh_calculateTier2Pension (gi_BasicPay i) else 0)"
  "gr_PAYE (gh_Calculate i) =
     (if gi_PAYEEnabled i \<and> gi_GrossPay i > 0
      then fst (gh_calculateMonthlyPAYE (gi_GrossPay i) (gr_EmployeePension (gh_Calculate i))) else 0)"
  "gr_TotalEmployeeDeductions (gh_Calculate i) = add64 (add64 (gr_EmployeePension (gh_Calculate i))
     (gr_Tier2Pension (gh_Calculate i))) (gr_PAYE (gh_Calculate i))"
  "gr_TotalEmployerCosts (gh_Calculate i) = gr_EmployerPension (gh_Calculate i)"
  by (simp_all add: gh_Calculate_def Let_def gh_calc_totals_def gh_paye_fields gh_calc_pension_def)

end
