(* ===== verification/Tax_Engine.thy ===== *)
theory Tax_Engine
  imports Tax_Ghana
begin

text \<open>
  The country selector, \<^verbatim>\<open>internal/service/tax/selector.go\<close>, and the contract
  the payroll calculation relies on: the locale \<open>statutory_engine\<close>, interpreted on the
  Nigerian engine, on the Ghanaian one and on the selector.
\<close>

definition calculateGhana :: "tax_input \<Rightarrow> tax_result" where
  "calculateGhana input =
    (let gh = gh_Calculate \<lparr>gi_BasicPay = in_BasicPay input, gi_HousingPay = in_HousingPay input,
          gi_TransportPay = in_TransportPay input, gi_OtherPay = in_OtherPay input,
          gi_GrossPay = in_GrossPay input, gi_PensionEnabled = in_PensionEnabled input,
          gi_PAYEEnabled = in_PAYEEnabled input\<rparr>
     in \<lparr>r_PAYE = gr_PAYE gh,
         r_EmployeePension = add64 (gr_EmployeePension gh) (gr_Tier2Pension gh),
         r_NHF = 0,
         r_EmployerPension = gr_EmployerPension gh,
         r_NSITF = 0,
         r_PensionBase = gr_PensionBase gh,
         r_AnnualGross = gr_AnnualGross gh,
         r_AnnualTaxableIncome = gr_AnnualTaxableIncome gh,
         r_RentRelief = 0,
         r_TotalEmployeeDeductions = gr_TotalEmployeeDeductions gh,
         r_TotalEmployerCosts = gr_TotalEmployerCosts gh\<rparr>)"

definition CalculateForCountry :: "string \<Rightarrow> tax_input \<Rightarrow> tax_result" where
  "CalculateForCountry currency input =
     (if currency = ''GHS'' then calculateGhana input else Calculate input)"

section \<open>The contract of a statutory engine\<close>

text \<open>
  On well-formed input every amount is non-negative, the two totals are the sums of the
  parts that payroll itself adds up, and the employee's share is at most
  \<open>permille\<close> thousandths of the gross pay.
\<close>

locale statutory_engine =
  fixes calc :: "tax_input \<Rightarrow> tax_result" and permille :: int
  assumes employee_parts: "tax_input_ok i \<Longrightarrow>
      0 \<le> r_PAYE (calc i) \<and> 0 \<le> r_EmployeePension (calc i) \<and> 0 \<le> r_NHF (calc i)"
    and employer_parts: "tax_input_ok i \<Longrightarrow>
      0 \<le> r_EmployerPension (calc i) \<and> 0 \<le> r_NSITF (calc i)
      \<and> 100 * (r_EmployerPension (calc i) + r_NSITF (calc i)) \<le> 13 * in_GrossPay i"
    and employee_share: "tax_input_ok i \<Longrightarrow>
      1000 * (r_PAYE (calc i) + r_EmployeePension (calc i) + r_NHF (calc i)) \<le> permille * in_GrossPay i"
    and employee_total: "tax_input_ok i \<Longrightarrow>
      r_TotalEmployeeDeductions (calc i) = r_PAYE (calc i) + r_EmployeePension (calc i) + r_NHF (calc i)"
    and employer_total: "tax_input_ok i \<Longrightarrow>
      r_TotalEmployerCosts (calc i) = r_EmployerPension (calc i) + r_NSITF (calc i)"
    and permille_range: "0 \<le> permille \<and> permille < 1000"
begin

lemma deductions_within_gross:
  assumes "tax_input_ok i"
  shows "r_TotalEmployeeDeductions (calc i) \<le> in_GrossPay i"
proof -
  have g: "0 \<le> in_GrossPay i" using assms by (auto simp: tax_input_ok_def)
  have "permille * in_GrossPay i \<le> 1000 * in_GrossPay i"
    using g permille_range by (intro mult_right_mono) auto
  then show ?thesis
    using employee_share[OF assms] unfolding employee_total[OF assms] by simp
qed

lemma take_home_share:
  assumes "tax_input_ok i"
  shows "(1000 - permille) * in_GrossPay i \<le> 1000 * (in_GrossPay i - r_TotalEmployeeDeductions (calc i))"
  using employee_share[OF assms] employee_total[OF assms] by (simp add: algebra_simps)

lemma costs_bounded:
  assumes "tax_input_ok i"
  shows "0 \<le> r_TotalEmployerCosts (calc i) \<and> 100 * r_TotalEmployerCosts (calc i) \<le> 13 * in_GrossPay i"
  using employer_parts[OF assms] employer_total[OF assms] by simp

end

lemma ghana_bounds:
  assumes "tax_input_ok i"
  defines "r \<equiv> calculateGhana i"
  shows "0 \<le> r_PAYE r \<and> 20 * r_PAYE r \<le> 7 * in_GrossPay i"
    and "0 \<le> r_EmployeePension r \<and> 1000 * r_EmployeePension r \<le> 105 * in_GrossPay i"
    and "0 \<le> r_EmployerPension r \<and> 100 * r_EmployerPension r \<le> 13 * in_GrossPay i"
    and "r_NHF r = 0 \<and> r_NSITF r = 0 \<and> r_TotalEmployerCosts r = r_EmployerPension r"
    and "r_TotalEmployeeDeductions r = r_PAYE r + r_EmployeePension r"
proof -
  let ?g = "\<lparr>gi_BasicPay = in_BasicPay i, gi_HousingPay = in_HousingPay i,
          gi_TransportPay = in_TransportPay i, gi_OtherPay = in_OtherPay i,
          gi_GrossPay = in_GrossPay i, gi_PensionEnabled = in_PensionEnabled i,
          gi_PAYEEnabled = in_PAYEEnabled i\<rparr>"
  let ?e = "gr_EmployeePension (gh_Calculate ?g)" and ?t = "gr_Tier2Pension (gh_Calculate ?g)"
  let ?p = "gr_PAYE (gh_Calculate ?g)" and ?m = "gr_EmployerPension (gh_Calculate ?g)"
  have b: "0 \<le> in_BasicPay i" "in_BasicPay i \<le> in_GrossPay i" "in_GrossPay i \<le> money_max"
    using assms by (auto simp: tax_input_ok_def)
  note cb = gh_contribution_bounds[OF b(1)]
  have e: "0 \<le> ?e \<and> 1000 * ?e \<le> 55 * in_GrossPay i" and t: "0 \<le> ?t \<and> 100 * ?t \<le> 5 * in_GrossPay i"
    and m: "0 \<le> ?m \<and> 100 * ?m \<le> 13 * in_GrossPay i"
    using cb b by (auto simp: gh_Calculate_fields(1-3))
  have p: "0 \<le> ?p \<and> 20 * ?p \<le> 7 * in_GrossPay i"
    using gh_monthly_PAYE_bounds[of "in_GrossPay i" ?e] e b unfolding gh_Calculate_fields(4)[of ?g] by auto
  have s: "add64 ?e ?t = ?e + ?t" using e t b by (intro add64_id) (simp add: in64_def money_max_def)
  have s': "add64 (?e + ?t) ?p = ?e + ?t + ?p"
    using e t p b by (intro add64_id) (simp add: in64_def money_max_def)
  show "0 \<le> r_PAYE r \<and> 20 * r_PAYE r \<le> 7 * in_GrossPay i"
    and "0 \<le> r_EmployeePension r \<and> 1000 * r_EmployeePension r \<le> 105 * in_GrossPay i"
    and "0 \<le> r_EmployerPension r \<and> 100 * r_EmployerPension r \<le> 13 * in_GrossPay i"
    and "r_NHF r = 0 \<and> r_NSITF r = 0 \<and> r_TotalEmployerCosts r = r_EmployerPension r"
    and "r_TotalEmployeeDeductions r = r_PAYE r + r_EmployeePension r"
    using e t m p s s' unfolding r_def calculateGhana_def Let_def
    by (simp_all add: gh_Calculate_fields(5,6))
qed

interpretation nigeria: statutory_engine Calculate 355
proof
  fix i assume ok: "tax_input_ok i"
  have g: "0 \<le> in_GrossPay i" "in_GrossPay i \<le> money_max" using ok by (auto simp: tax_input_ok_def)
  note b = Calculate_bounds[OF ok]
  show "0 \<le> r_PAYE (Calculate i) \<and> 0 \<le> r_EmployeePension (Calculate i) \<and> 0 \<le> r_NHF (Calculate i)"
    using b by simp
  show "0 \<le> r_EmployerPension (Calculate i) \<and> 0 \<le> r_NSITF (Calculate i)
      \<and> 100 * (r_EmployerPension (Calculate i) + r_NSITF (Calculate i)) \<le> 13 * in_GrossPay i"
    using b g by auto
  show "1000 * (r_PAYE (Calculate i) + r_EmployeePension (Calculate i) + r_NHF (Calculate i))
      \<le> 355 * in_GrossPay i"
    using b by auto
  show "r_TotalEmployeeDeductions (Calculate i) =
      r_PAYE (Calculate i) + r_EmployeePension (Calculate i) + r_NHF (Calculate i)"
    using b g unfolding Calculate_totals by (simp add: add64_id in64_def money_max_def)
  show "r_TotalEmployerCosts (Calculate i) = r_EmployerPension (Calculate i) + r_NSITF (Calculate i)"
    using b g unfolding Calculate_totals by (simp add: add64_id in64_def money_max_def)
qed simp

interpretation ghana: statutory_engine calculateGhana 455
proof
  fix i assume ok: "tax_input_ok i"
  have g: "0 \<le> in_GrossPay i" using ok by (auto simp: tax_input_ok_def)
  note b = ghana_bounds[OF ok]
  show "0 \<le> r_PAYE (calculateGhana i) \<and> 0 \<le> r_EmployeePension (calculateGhana i) \<and> 0 \<le> r_NHF (calculateGhana i)"
    "r_TotalEmployeeDeductions (calculateGhana i) =
      r_PAYE (calculateGhana i) + r_EmployeePension (calculateGhana i) + r_NHF (calculateGhana i)"
    "r_TotalEmployerCosts (calculateGhana i) = r_EmployerPension (calculateGhana i) + r_NSITF (calculateGhana i)"
    using b by simp_all
  show "0 \<le> r_EmployerPension (calculateGhana i) \<and> 0 \<le> r_NSITF (calculateGhana i)
      \<and> 100 * (r_EmployerPension (calculateGhana i) + r_NSITF (calculateGhana i)) \<le> 13 * in_GrossPay i"
    using b by simp
  show "1000 * (r_PAYE (calculateGhana i) + r_EmployeePension (calculateGhana i) + r_NHF (calculateGhana i))
      \<le> 455 * in_GrossPay i"
    using b by auto
qed simp

interpretation country: statutory_engine "CalculateForCountry c" 455 for c
proof (cases "c = ''GHS''")
  case True
  then have "CalculateForCountry c = calculateGhana" by (simp add: CalculateForCountry_def fun_eq_iff)
  then show "statutory_engine (CalculateForCountry c) 455" using ghana.statutory_engine_axioms by simp
next
  case False
  then have e: "CalculateForCountry c = Calculate" by (simp add: CalculateForCountry_def fun_eq_iff)
  have "1000 * (r_PAYE (Calculate i) + r_EmployeePension (Calculate i) + r_NHF (Calculate i))
      \<le> 455 * in_GrossPay i" if "tax_input_ok i" for i
    using nigeria.employee_share[OF that] that by (auto simp: tax_input_ok_def)
  then show "statutory_engine (CalculateForCountry c) 455"
    unfolding e by unfold_locales
      (use nigeria.employee_parts nigeria.employer_parts nigeria.employee_total nigeria.employer_total in auto)
qed

section \<open>Properties\<close>

text \<open>
  C22: The PAYE loops compute the marginal tax exactly. For every annual income up to
  \<open>12 * money_max\<close> kobo, the Nigerian and the Ghanaian loop, which multiply and round down in
  every band with wrapping machine arithmetic, return the sum over the bands of the marginal
  rate times the income in the band, rounded down once.
\<close>

theorem paye_brackets_exact:
  assumes "0 \<le> x" and "x \<le> 12 * money_max"
  shows "applyBrackets x = exact_tax1000 x div 1000 \<and> gh_applyBrackets x = gh_exact_tax1000 x div 1000"
  using assms by (simp add: applyBrackets_exact gh_applyBrackets_exact)

theorem paye_brackets_exact_witness: "applyBrackets 1000000000 = (150 * 220000000 + 180 * 700000000) div 1000"
  using paye_brackets_exact [of 1000000000]
  by (simp add: money_max_def exact_tax1000_def brackets_def band_def)

text \<open>
  Earning more never lowers the annual tax, and never raises it by more than the top rate:
  25 percent of the raise in Nigeria and 35 percent in Ghana, rounded up.
\<close>

theorem annual_tax_monotone:
  assumes "0 \<le> y" and "y \<le> x" and "x \<le> 12 * money_max"
  shows "applyBrackets y \<le> applyBrackets x \<and> 4 * (applyBrackets x - applyBrackets y) \<le> (x - y) + 4 \<and>
    gh_applyBrackets y \<le> gh_applyBrackets x \<and> 20 * (gh_applyBrackets x - gh_applyBrackets y) \<le> 7 * (x - y) + 20"
proof -
  have mono: "b div 1000 \<le> a div 1000" if "b \<le> a" for a b :: int
    using that by (simp add: zdiv_mono1)
  have gap: "1000 * (a div 1000 - b div 1000) \<le> c + 1000" if "a - b \<le> c" for a b c :: int
  proof -
    have "1000 * (a div 1000) \<le> a" and "b < 1000 * (b div 1000) + 1000" by linarith+
    then show ?thesis using that by (simp add: algebra_simps)
  qed
  note ng = exact_tax1000_bounds [OF assms(1,2)] and gh = gh_exact_tax1000_bounds [OF assms(1,2)]
  show ?thesis
    using mono [OF ng(1)] mono [OF gh(1)] gap [OF ng(2)] gap [OF gh(2)] assms by (simp add: applyBrackets_exact gh_applyBrackets_exact)
qed

theorem annual_tax_monotone_witness: "applyBrackets 80000000 \<le> applyBrackets 80000001"
  using annual_tax_monotone [of 80000000 80000001] by (simp add: money_max_def)

text \<open>
  Statutory deductions never exceed the pay. In every country the selector knows, on
  well-formed input the employee's deductions are non-negative, at most 45.5 percent of the
  gross pay, and equal to the sum of the parts payroll itemises; the employer's contributions
  are non-negative and at most 13 percent.
\<close>

theorem statutory_deductions_bounded:
  assumes "tax_input_ok i"
  shows "0 \<le> r_TotalEmployeeDeductions (CalculateForCountry c i) \<and>
    1000 * r_TotalEmployeeDeductions (CalculateForCountry c i) \<le> 455 * in_GrossPay i \<and>
    r_TotalEmployeeDeductions (CalculateForCountry c i)
      = r_PAYE (CalculateForCountry c i) + r_EmployeePension (CalculateForCountry c i) + r_NHF (CalculateForCountry c i) \<and>
    0 \<le> r_TotalEmployerCosts (CalculateForCountry c i) \<and>
    100 * r_TotalEmployerCosts (CalculateForCountry c i) \<le> 13 * in_GrossPay i"
  using country.employee_parts [OF assms, of c] country.employee_share [OF assms, of c]
    country.employee_total [OF assms, of c] country.costs_bounded [OF assms, of c]
  by simp

definition sample_input :: tax_input where
  "sample_input = \<lparr>in_BasicPay = 30000000, in_HousingPay = 10000000, in_TransportPay = 5000000, in_OtherPay = 5000000,
     in_GrossPay = 50000000, in_AnnualRentPaid = 0, in_PensionEnabled = True, in_NHFEnabled = True,
     in_NSITFEnabled = True, in_PAYEEnabled = True\<rparr>"

theorem statutory_deductions_bounded_witness:
  "r_TotalEmployeeDeductions (CalculateForCountry ''GHS'' sample_input) \<le> 22750000"
  using statutory_deductions_bounded [of sample_input "''GHS''"]
  by (simp add: tax_input_ok_def sample_input_def money_max_def)

end
