(* ===== verification/Go_Float.thy ===== *)
theory Go_Float
  imports Go_Int "HOL-Library.Log_Nat"
begin

text \<open>
  Go's \<^verbatim>\<open>float64\<close>, used by the code for percentages and to read amounts: IEEE 754
  binary64 with round-to-nearest-even, computed exactly on rationals. A finite value is the
  rational it stands for (the sign of zero is not kept: nothing in the code looks at it).
  Conversion of an out-of-range value to int64 is implementation-defined in Go; the model
  has the amd64 result, the smallest int64. \<^verbatim>\<open>strconv.ParseFloat\<close> is modelled on
  decimal literals, \<^verbatim>\<open>inf\<close> and \<^verbatim>\<open>nan\<close>; hexadecimal literals and
  underscores, which no amount has, are rejected.
\<close>

datatype float64 = Fin rat | PInf | NInf | NaN

section \<open>Rounding to 53 bits\<close>

definition pow2 :: "int \<Rightarrow> rat" where
  "pow2 k = (if 0 \<le> k then 2 ^ nat k else 1 / 2 ^ nat (- k))"

definition ilog2 :: "rat \<Rightarrow> int" where
  "ilog2 x = (let (n, d) = quotient_of x;
      k = int (floorlog 2 (nat n)) - int (floorlog 2 (nat d))
    in if pow2 k \<le> x then k else k - 1)"

definition rhe :: "rat \<Rightarrow> int" where
  "rhe q = (let f = \<lfloor>q\<rfloor>; r = q - of_int f in
     if r < 1 / 2 then f else if 1 / 2 < r then f + 1 else if even f then f else f + 1)"

definition ulp :: "rat \<Rightarrow> rat" where
  "ulp x = pow2 (max (ilog2 x - 52) (- 1074))"

definition rnd :: "rat \<Rightarrow> rat" where
  "rnd x = (if x = 0 then 0 else of_int (rhe (x / ulp \<bar>x\<bar>)) * ulp \<bar>x\<bar>)"

definition fl64 :: "rat \<Rightarrow> float64" where
  "fl64 x = (let y = rnd x in if pow2 1024 \<le> y then PInf else if y \<le> - pow2 1024 then NInf else Fin y)"

section \<open>Operations\<close>

definition float_of_int64 :: "int64 \<Rightarrow> float64" where
  "float_of_int64 i = fl64 (of_int i)"

fun fmul :: "float64 \<Rightarrow> float64 \<Rightarrow> float64" where
  "fmul (Fin a) (Fin b) = fl64 (a * b)"
| "fmul NaN _ = NaN"
| "fmul _ NaN = NaN"
| "fmul (Fin a) PInf = (if a = 0 then NaN else if 0 < a then PInf else NInf)"
| "fmul (Fin a) NInf = (if a = 0 then NaN else if 0 < a then NInf else PInf)"
| "fmul PInf (Fin a) = (if a = 0 then NaN else if 0 < a then PInf else NInf)"
| "fmul NInf (Fin a) = (if a = 0 then NaN else if 0 < a then NInf else PInf)"
| "fmul PInf PInf = PInf"
| "fmul NInf NInf = PInf"
| "fmul PInf NInf = NInf"
| "fmul NInf PInf = NInf"

text \<open>Division by a non-zero constant, the only division of floats in the code.\<close>

fun fdiv_const :: "float64 \<Rightarrow> rat \<Rightarrow> float64" where
  "fdiv_const (Fin a) c = fl64 (a / c)"
| "fdiv_const x c = x"

definition trunc_rat :: "rat \<Rightarrow> int" where
  "trunc_rat x = (if 0 \<le> x then \<lfloor>x\<rfloor> else \<lceil>x\<rceil>)"

definition round_away :: "rat \<Rightarrow> int" where
  "round_away x = (if 0 \<le> x then \<lfloor>x + 1 / 2\<rfloor> else \<lceil>x - 1 / 2\<rceil>)"

definition min_int64 :: int64 where
  "min_int64 = - 9223372036854775808"

text \<open>\<^verbatim>\<open>int64(x)\<close> and \<^verbatim>\<open>int64(math.Round(x))\<close>.\<close>

fun int64_of_float :: "float64 \<Rightarrow> int64" where
  "int64_of_float (Fin x) = (if in64 (trunc_rat x) then trunc_rat x else min_int64)"
| "int64_of_float _ = min_int64"

fun int64_of_round :: "float64 \<Rightarrow> int64" where
  "int64_of_round (Fin x) = (if in64 (round_away x) then round_away x else min_int64)"
| "int64_of_round _ = min_int64"

section \<open>strconv.ParseFloat\<close>

definition pow10 :: "int \<Rightarrow> rat" where
  "pow10 k = (if 0 \<le> k then 10 ^ nat k else 1 / 10 ^ nat (- k))"

definition split_point :: "string \<Rightarrow> string \<times> string" where
  "split_point r = (case r of [] \<Rightarrow> ([], [])
     | c # t \<Rightarrow> if c = CHR ''.'' then (takeWhile is_digit t, dropWhile is_digit t) else ([], r))"

definition parse_decimal :: "string \<Rightarrow> rat option" where
  "parse_decimal s =
    (let ip = takeWhile is_digit s; (fp, rest) = split_point (dropWhile is_digit s);
         mant = of_nat (digits_value (ip @ fp)) :: rat
     in if ip = [] \<and> fp = [] then None
        else case rest of [] \<Rightarrow> Some (mant * pow10 (- int (length fp)))
          | c # t \<Rightarrow> if lower_char c = CHR ''e''
              then map_option (\<lambda>e. mant * pow10 (e - int (length fp))) (parse_int t) else None)"

definition parse_float :: "string \<Rightarrow> float64 option" where
  "parse_float s =
    (let (neg, r) = split_sign s
     in if to_lower r = ''inf'' \<or> to_lower r = ''infinity'' then Some (if neg then NInf else PInf)
        else if to_lower s = ''nan'' then Some NaN
        else case parse_decimal r of None \<Rightarrow> None
          | Some v \<Rightarrow> (case fl64 (if neg then - v else v) of Fin x \<Rightarrow> Some (Fin x) | _ \<Rightarrow> None))"

section \<open>Rounding error\<close>

lemma pow2_pos [simp]: "0 < pow2 k"
  by (simp add: pow2_def)

lemma pow2_nonzero [simp]: "pow2 k \<noteq> 0"
  using pow2_pos[of k] by linarith

lemma pow2_suc: "pow2 (k + 1) = 2 * pow2 k"
proof (cases "0 \<le> k")
  case True
  then show ?thesis by (simp add: pow2_def nat_add_distrib)
next
  case False
  then have "nat (- k) = Suc (nat (- (k + 1)))" by simp
  with False show ?thesis by (simp add: pow2_def)
qed

lemma pow2_diff: "pow2 (k - 1) = pow2 k / 2"
  using pow2_suc[of "k - 1"] by simp

lemma pow2_add_nat: "pow2 (k + int n) = pow2 k * 2 ^ n"
proof (induction n)
  case 0
  then show ?case by simp
next
  case (Suc n)
  have "pow2 (k + int (Suc n)) = pow2 ((k + int n) + 1)" by (simp add: ac_simps)
  with Suc show ?case by (simp only: pow2_suc) simp
qed

lemma pow2_0 [simp]: "pow2 0 = 1"
  by (simp add: pow2_def)

lemma pow2_nat: "pow2 (int n) = 2 ^ n"
  using pow2_add_nat[of 0 n] by simp

lemma pow2_add: "pow2 (j + k) = pow2 j * pow2 k"
proof (cases "0 \<le> k")
  case True
  then show ?thesis using pow2_add_nat[of j "nat k"] by (simp add: pow2_def)
next
  case False
  then have "pow2 j = pow2 (j + k) * 2 ^ nat (- k)" using pow2_add_nat[of "j + k" "nat (- k)"] by simp
  with False show ?thesis by (simp add: pow2_def)
qed

lemma pow2_mono: "j \<le> k \<Longrightarrow> pow2 j \<le> pow2 k"
proof -
  assume "j \<le> k"
  then have "pow2 k = pow2 j * 2 ^ nat (k - j)" using pow2_add_nat[of j "nat (k - j)"] by simp
  moreover have "pow2 j * 1 \<le> pow2 j * 2 ^ nat (k - j)"
    by (intro mult_left_mono) (auto simp: less_imp_le)
  ultimately show ?thesis by simp
qed

lemma pow2_less_imp: "pow2 j < pow2 k \<Longrightarrow> j < k"
  using pow2_mono[of k j] by linarith

text \<open>\<open>ilog2\<close> is the binary exponent.\<close>

lemma floorlog2_bounds: "0 < n \<Longrightarrow> 2 ^ (floorlog 2 n - 1) \<le> n \<and> n < 2 ^ floorlog 2 n"
  using floorlog_bounds[of n 2] by simp

lemma int_pow2_bounds:
  assumes "0 < n"
  shows "pow2 (int (floorlog 2 (nat n)) - 1) \<le> of_int n" and "of_int n < pow2 (int (floorlog 2 (nat n)))"
proof -
  let ?k = "floorlog 2 (nat n)"
  have b: "2 ^ (?k - 1) \<le> nat n" "nat n < 2 ^ ?k" using floorlog2_bounds[of "nat n"] assms by auto
  have k: "0 < ?k" using assms by (cases "?k = 0") (use b in auto)
  have "(of_nat (2 ^ (?k - 1)) :: rat) \<le> of_nat (nat n)" using b(1) by (simp only: of_nat_le_iff)
  then show "pow2 (int ?k - 1) \<le> of_int n"
    using assms k pow2_nat[of "?k - 1"] by (simp add: of_nat_diff)
  have "(of_nat (nat n) :: rat) < of_nat (2 ^ ?k)" using b(2) by (simp only: of_nat_less_iff)
  then show "of_int n < pow2 (int ?k)" using assms by (simp add: pow2_nat)
qed

lemma ilog2_bounds:
  assumes "0 < x"
  shows "pow2 (ilog2 x) \<le> x" and "x < pow2 (ilog2 x + 1)"
proof -
  obtain n d where nd: "quotient_of x = (n, d)" by fastforce
  have d: "0 < d" using quotient_of_denom_pos[OF nd] .
  have x: "x = of_int n / of_int d" using quotient_of_div[OF nd] .
  have n: "0 < n" using assms d unfolding x by (simp add: zero_less_divide_iff)
  let ?a = "int (floorlog 2 (nat n))" and ?b = "int (floorlog 2 (nat d))"
  have up: "x < pow2 (?a - ?b + 1)"
  proof -
    have "of_int n < pow2 ((?a - ?b + 1) + (?b - 1))" using int_pow2_bounds(2)[OF n] by simp
    also have "\<dots> \<le> pow2 (?a - ?b + 1) * of_int d"
      unfolding pow2_add using int_pow2_bounds(1)[OF d] by (intro mult_left_mono) (auto simp: less_imp_le)
    finally show ?thesis unfolding x using d by (simp add: divide_less_eq)
  qed
  have lo: "pow2 (?a - ?b - 1) \<le> x"
  proof -
    have "pow2 (?a - ?b - 1) * of_int d \<le> pow2 (?a - ?b - 1) * pow2 ?b"
      using int_pow2_bounds(2)[OF d] by (intro mult_left_mono) (auto simp: less_imp_le)
    also have "\<dots> = pow2 (?a - 1)" by (simp add: pow2_add[symmetric])
    also have "\<dots> \<le> of_int n" using int_pow2_bounds(1)[OF n] .
    finally show ?thesis unfolding x using d by (simp add: le_divide_eq)
  qed
  show "pow2 (ilog2 x) \<le> x" and "x < pow2 (ilog2 x + 1)"
    using up lo by (auto simp: ilog2_def nd Let_def)
qed

lemma ilog2_unique: "pow2 k \<le> x \<Longrightarrow> x < pow2 (k + 1) \<Longrightarrow> ilog2 x = k"
proof -
  assume a: "pow2 k \<le> x" "x < pow2 (k + 1)"
  have "0 < x" using a(1) pow2_pos[of k] by linarith
  note b = ilog2_bounds[OF this]
  have "pow2 k < pow2 (ilog2 x + 1)" "pow2 (ilog2 x) < pow2 (k + 1)" using a b by linarith+
  then show ?thesis using pow2_less_imp by (meson antisym_conv zle_add1_eq_le)
qed

text \<open>Round-half-even moves by at most a half and leaves whole numbers alone.\<close>

lemma rhe_of_int [simp]: "rhe (of_int m) = m"
  by (simp add: rhe_def)

lemma rhe_error: "\<bar>of_int (rhe q) - q\<bar> \<le> 1 / 2"
  unfolding rhe_def Let_def using floor_correct[of q] by (auto split: if_splits)

lemma rhe_near: "\<bar>q - of_int m\<bar> < 1 / 2 \<Longrightarrow> rhe q = m"
proof -
  assume a: "\<bar>q - of_int m\<bar> < 1 / 2"
  have "\<bar>of_int (rhe q) - of_int m\<bar> < (1 :: rat)" using rhe_error[of q] a by linarith
  then have "\<bar>rhe q - m\<bar> < 1" by (metis of_int_abs of_int_diff of_int_less_iff of_int_1)
  then show ?thesis by linarith
qed

lemma rhe_minus: "rhe (- q) = - rhe q"
proof -
  have f: "\<lfloor>- q\<rfloor> = (if q = of_int \<lfloor>q\<rfloor> then - \<lfloor>q\<rfloor> else - \<lfloor>q\<rfloor> - 1)"
    using floor_correct[of q] order_less_le[of "of_int \<lfloor>q\<rfloor>" q] by (auto intro!: floor_unique)
  show ?thesis
  proof (cases "q = of_int \<lfloor>q\<rfloor>")
    case True
    then obtain z where "q = of_int z" by blast
    then show ?thesis using rhe_of_int[of "- z"] by simp
  next
    case False
    then show ?thesis unfolding rhe_def f Let_def by (auto simp: not_less)
  qed
qed

lemma rnd_0 [simp]: "rnd 0 = 0"
  by (simp add: rnd_def)

lemma rnd_minus: "rnd (- x) = - rnd x"
  by (simp add: rnd_def rhe_minus)

lemma ulp_pos [simp]: "0 < ulp x"
  by (simp add: ulp_def)

lemma ulp_nonzero [simp]: "ulp x \<noteq> 0"
  using ulp_pos[of x] by linarith

lemma rnd_ulp_error: "\<bar>rnd x - x\<bar> \<le> ulp \<bar>x\<bar> / 2"
proof (cases "x = 0")
  case True
  then show ?thesis using ulp_pos[of 0] by (simp add: less_imp_le)
next
  case False
  let ?u = "ulp \<bar>x\<bar>"
  have "\<bar>rnd x - x\<bar> = \<bar>(of_int (rhe (x / ?u)) - x / ?u) * ?u\<bar>"
    using False ulp_pos[of "\<bar>x\<bar>"] by (simp add: rnd_def left_diff_distrib)
  also have "\<dots> = \<bar>of_int (rhe (x / ?u)) - x / ?u\<bar> * ?u" by (simp add: abs_mult less_imp_le)
  also have "\<dots> \<le> 1 / 2 * ?u" using rhe_error by (intro mult_right_mono) (auto simp: less_imp_le)
  finally show ?thesis by simp
qed

lemma rnd_error: "\<bar>rnd x - x\<bar> \<le> \<bar>x\<bar> / 2 ^ 53 + pow2 (- 1075)"
proof (cases "x = 0")
  case True
  then show ?thesis using pow2_pos[of "- 1075"] by (simp add: less_imp_le)
next
  case False
  have p53: "pow2 53 = 2 ^ 53" by (simp add: pow2_def)
  have u: "ulp \<bar>x\<bar> / 2 = pow2 (max (ilog2 \<bar>x\<bar> - 52) (- 1074) - 1)" by (simp add: ulp_def pow2_diff)
  have "pow2 (ilog2 \<bar>x\<bar> - 53) * 2 ^ 53 = pow2 (ilog2 \<bar>x\<bar>)"
    unfolding p53[symmetric] pow2_add[symmetric] by simp
  then have "pow2 (ilog2 \<bar>x\<bar> - 53) \<le> \<bar>x\<bar> / 2 ^ 53"
    using ilog2_bounds(1)[of "\<bar>x\<bar>"] False by (simp add: le_divide_eq)
  moreover have "ulp \<bar>x\<bar> / 2 \<le> pow2 (ilog2 \<bar>x\<bar> - 53) + pow2 (- 1075)"
    unfolding u using pow2_pos[of "ilog2 \<bar>x\<bar> - 53"] pow2_pos[of "- 1075"]
    by (cases "- 1074 \<le> ilog2 \<bar>x\<bar> - 52") (simp_all add: max_def less_imp_le)
  ultimately show ?thesis using rnd_ulp_error[of x] by linarith
qed

text \<open>A certificate for the value of \<open>rnd\<close> at a concrete argument.\<close>

lemma rnd_cert:
  assumes "pow2 (e + 52) \<le> x" "x < pow2 (e + 53)" "- 1074 \<le> e" "\<bar>x / pow2 e - of_int m\<bar> < 1 / 2"
  shows "rnd x = of_int m * pow2 e"
proof -
  have x: "0 < x" using assms(1) pow2_pos[of "e + 52"] by linarith
  have "ilog2 x = e + 52" using assms(1,2) by (intro ilog2_unique) (auto simp: add.assoc)
  then have "ulp x = pow2 e" using assms(3) by (simp add: ulp_def max_def)
  with x show ?thesis using rhe_near[OF assms(4)] by (simp add: rnd_def)
qed

lemma rnd_of_nat_int:
  assumes "0 < n" "n < 2 ^ 53"
  shows "rnd (of_int n) = of_int n"
proof -
  let ?x = "of_int n :: rat"
  let ?e = "max (ilog2 ?x - 52) (- 1074)"
  have x: "0 < ?x" "?x < pow2 53"
    using assms of_int_less_iff[of n "2 ^ 53", where 'a = rat] by (simp_all add: pow2_def)
  have "pow2 (ilog2 ?x) < pow2 53" using ilog2_bounds(1)[OF x(1)] x(2) by linarith
  then have "ilog2 ?x < 53" by (rule pow2_less_imp)
  then have "?e \<le> 0" by simp
  then obtain j where j: "?e = - int j" by (metis nonpos_int_cases)
  have "?x / ulp ?x = of_int (n * 2 ^ j)" by (simp add: ulp_def j pow2_def)
  then have "rhe (?x / ulp ?x) = n * 2 ^ j" by (metis rhe_of_int)
  then have "rnd ?x = of_int (n * 2 ^ j) * pow2 (- int j)" using x(1) by (simp add: rnd_def ulp_def j)
  then show ?thesis by (simp add: pow2_def)
qed

lemma rnd_int [fl]: "\<bar>n\<bar> < 2 ^ 53 \<Longrightarrow> rnd (of_int n) = of_int n"
proof -
  assume a: "\<bar>n\<bar> < 2 ^ 53"
  consider "n = 0" | "0 < n" | "n < 0" by linarith
  then show ?thesis
  proof cases
    case 3
    then show ?thesis using rnd_of_nat_int[of "- n"] a rnd_minus[of "of_int (- n)"] by simp
  qed (use a rnd_of_nat_int[of n] in simp_all)
qed

lemma pow2_tiny: "pow2 (- 1075) \<le> 1 / 2 ^ 100"
proof -
  have "pow2 (- 1075) \<le> pow2 (- 100)" by (rule pow2_mono) simp
  also have "\<dots> = 1 / 2 ^ 100" by (simp add: pow2_def)
  finally show ?thesis .
qed

text \<open>Amounts are far below the overflow threshold.\<close>

lemma fl64_finite [fl]: "\<bar>x\<bar> \<le> 2 ^ 100 \<Longrightarrow> fl64 x = Fin (rnd x)"
proof -
  assume a: "\<bar>x\<bar> \<le> 2 ^ 100"
  have e: "\<bar>rnd x - x\<bar> \<le> 2 ^ 100 / 2 ^ 53 + 1 / 2 ^ 100"
    using rnd_error[of x] pow2_tiny divide_right_mono[OF a, of "2 ^ 53"] by simp
  have "pow2 102 \<le> pow2 1024" by (rule pow2_mono) simp
  then have "(2 :: rat) ^ 102 \<le> pow2 1024" by (simp add: pow2_def)
  moreover have "\<bar>rnd x\<bar> \<le> 2 ^ 100 + (2 ^ 100 / 2 ^ 53 + 1 / 2 ^ 100)"
    using a e by linarith
  ultimately have "\<bar>rnd x\<bar> < pow2 1024" by simp
  then show ?thesis by (auto simp: fl64_def Let_def)
qed

text \<open>Relative error of one operation on an argument of moderate size.\<close>

lemma rnd_error_bound:
  assumes "\<bar>x\<bar> \<le> b" shows "\<bar>rnd x - x\<bar> \<le> b / 2 ^ 53 + 1 / 2 ^ 100"
  using rnd_error[of x] pow2_tiny divide_right_mono[OF assms, of "2 ^ 53"] by simp

section \<open>Hundredths survive the detour through binary64\<close>

text \<open>
  The parse of an amount with two decimals divides by 100 (in the literal), rounds, is
  multiplied by 100, rounds, and is rounded to a whole number: below 2 to the 50 the two
  rounding errors together stay under a half.
\<close>

lemma abs_le_near: "\<bar>x - y\<bar> \<le> e \<Longrightarrow> \<bar>y\<bar> \<le> b \<Longrightarrow> \<bar>x\<bar> \<le> b + (e :: rat)"
  by linarith

lemma abs_trans_near: "\<bar>x - y\<bar> \<le> e \<Longrightarrow> \<bar>y - z\<bar> \<le> f \<Longrightarrow> \<bar>x - z\<bar> \<le> e + (f :: rat)"
  by linarith

lemma hundredths_exact:
  assumes "\<bar>k\<bar> \<le> 2 ^ 50"
  shows "int64_of_round (fmul (Fin (rnd (of_int k / 100))) (Fin 100)) = k"
proof -
  let ?k = "of_int k :: rat"
  let ?a = "rnd (?k / 100)" and ?b = "rnd (rnd (?k / 100) * 100)"
  have k: "\<bar>?k\<bar> \<le> 2 ^ 50"
    using assms of_int_le_iff[of "\<bar>k\<bar>" "2 ^ 50", where 'a = rat] by simp
  have "\<bar>?k / 100\<bar> \<le> 2 ^ 50 / 100" using k by simp
  from rnd_error_bound[OF this] have a: "\<bar>?a - ?k / 100\<bar> \<le> 2 ^ 50 / 100 / 2 ^ 53 + 1 / 2 ^ 100" .
  moreover have "?a * 100 - ?k = (?a - ?k / 100) * 100" by (simp add: left_diff_distrib)
  then have "\<bar>?a * 100 - ?k\<bar> = \<bar>?a - ?k / 100\<bar> * 100" by (simp only: abs_mult abs_numeral)
  ultimately have a': "\<bar>?a * 100 - ?k\<bar> \<le> 1 / 8 + 1 / 2 ^ 90" by simp
  have "\<bar>?a * 100\<bar> \<le> 2 ^ 50 + 1" using abs_le_near[OF a' k] by simp
  from rnd_error_bound[OF this] have b: "\<bar>?b - ?a * 100\<bar> \<le> (2 ^ 50 + 1) / 2 ^ 53 + 1 / 2 ^ 100" .
  have "\<bar>?a * 100\<bar> \<le> 2 ^ 100" using abs_le_near[OF a' k] by simp
  then have f: "fl64 (?a * 100) = Fin ?b" by (rule fl64_finite)
  have "\<bar>?b - ?k\<bar> < 1 / 2" using abs_trans_near[OF b a'] by simp
  then have d: "?b - ?k < 1 / 2" "?k - ?b < 1 / 2" unfolding abs_less_iff by simp_all
  have r: "round_away ?b = k"
    unfolding round_away_def using d
    by (auto intro!: floor_unique ceiling_unique)
  have "in64 k" using assms by (simp add: in64_def abs_le_iff)
  then show ?thesis by (simp add: f r)
qed

section \<open>Reading amounts back\<close>

lemma lower_char_digit [simp]: "is_digit c \<Longrightarrow> lower_char c = c"
  by (simp add: is_digit_def lower_char_def Let_def)

lemma to_lower_digit_Cons: "is_digit c \<Longrightarrow> to_lower (c # s) = c # to_lower s"
  by (simp add: to_lower_def)

lemma is_digit_letters [simp]: "\<not> is_digit (CHR ''i'')" "\<not> is_digit (CHR ''n'')" "\<not> is_digit (CHR ''.'')"
  by (simp_all add: is_digit_def)

lemma to_lower_digit_word:
  assumes "s \<noteq> []" "is_digit (hd s)"
  shows "to_lower s \<noteq> ''inf''" "to_lower s \<noteq> ''infinity''" "to_lower s \<noteq> ''nan''"
  using assms by (cases s; auto simp: to_lower_digit_Cons)+

lemma takeWhile_digits [simp]:
  "takeWhile is_digit (show_nat n) = show_nat n" "dropWhile is_digit (show_nat n) = []"
  "takeWhile is_digit (show_nat n @ CHR ''.'' # t) = show_nat n"
  "dropWhile is_digit (show_nat n @ CHR ''.'' # t) = CHR ''.'' # t"
  using show_nat_digits[of n]
  by (auto simp: takeWhile_append2 dropWhile_append2 takeWhile_eq_all_conv)

lemma parse_decimal_nat: "parse_decimal (show_nat n) = Some (of_nat n)"
  by (simp add: parse_decimal_def split_point_def pow10_def)

lemma split_sign_nat: "is_digit (hd s) \<Longrightarrow> s \<noteq> [] \<Longrightarrow> split_sign s = (False, s)"
  by (cases s) (auto simp: split_sign_def)

lemma parse_float_nonneg:
  assumes "s \<noteq> []" "is_digit (hd s)" "parse_decimal s = Some v" "\<bar>v\<bar> \<le> 2 ^ 100"
  shows "parse_float s = Some (Fin (rnd v))"
  using assms to_lower_digit_word[OF assms(1,2)]
  by (simp add: parse_float_def split_sign_nat fl64_finite)

lemma parse_float_neg:
  assumes "s \<noteq> []" "is_digit (hd s)" "parse_decimal s = Some v" "\<bar>v\<bar> \<le> 2 ^ 100"
  shows "parse_float (CHR ''-'' # s) = Some (Fin (- rnd v))"
  using assms to_lower_digit_word[OF assms(1,2)]
  by (simp add: parse_float_def split_sign_def fl64_finite rnd_minus to_lower_def lower_char_def)

lemma parse_float_show_int [fl]:
  assumes "\<bar>i\<bar> < 2 ^ 53"
  shows "parse_float (show_int i) = Some (Fin (of_int i))"
proof -
  have b: "\<bar>of_nat (nat \<bar>i\<bar>) :: rat\<bar> \<le> 2 ^ 100"
  proof -
    have "(of_int \<bar>i\<bar> :: rat) < of_int (2 ^ 53)" using assms by (simp only: of_int_less_iff)
    then show ?thesis by simp
  qed
  show ?thesis
  proof (cases "0 \<le> i")
    case True
    then show ?thesis
      using parse_float_nonneg[OF _ show_nat_hd_digit parse_decimal_nat, of "nat i"] b rnd_int[OF assms]
      by (simp add: show_int_def)
  next
    case False
    then show ?thesis
      using parse_float_neg[OF _ show_nat_hd_digit parse_decimal_nat, of "nat (- i)"] b
        rnd_int[of "- i"] assms by (simp add: show_int_def)
  qed
qed

text \<open>Kobo written as naira with two decimals, the format of the API's amounts.\<close>

definition naira_string :: "nat \<Rightarrow> string" where
  "naira_string k = show_nat (k div 100) @ CHR ''.'' # [digit_char (k div 10 mod 10), digit_char (k mod 10)]"

lemma digits_value_append2:
  "digits_value (s @ [c, d]) = 100 * digits_value s + 10 * digit_val c + digit_val d"
  using digits_value_snoc[of "s @ [c]" d] digits_value_snoc[of s c] by simp

lemma parse_decimal_plain:
  assumes "takeWhile is_digit s = ip" "split_point (dropWhile is_digit s) = (fp, [])" "ip \<noteq> []"
  shows "parse_decimal s = Some (of_nat (digits_value (ip @ fp)) * pow10 (- int (length fp)))"
  using assms by (simp add: parse_decimal_def)

lemma pow10_m2: "pow10 (- int (length [x, y])) = 1 / 100"
  by (simp add: pow10_def numeral_2_eq_2)

lemma parse_decimal_hundredths:
  assumes "d1 < 10" "d2 < 10"
  shows "parse_decimal (show_nat a @ CHR ''.'' # [digit_char d1, digit_char d2])
    = Some (of_nat (100 * a + 10 * d1 + d2) / 100)"
proof -
  have "takeWhile is_digit [digit_char d1, digit_char d2] = [digit_char d1, digit_char d2]"
    "dropWhile is_digit [digit_char d1, digit_char d2] = []" using assms by simp_all
  then have sp: "split_point (CHR ''.'' # [digit_char d1, digit_char d2]) = ([digit_char d1, digit_char d2], [])"
    by (simp only: split_point_def list.case if_True refl)
  have "parse_decimal (show_nat a @ CHR ''.'' # [digit_char d1, digit_char d2]) =
      Some (of_nat (digits_value (show_nat a @ [digit_char d1, digit_char d2]))
        * pow10 (- int (length [digit_char d1, digit_char d2])))"
    by (rule parse_decimal_plain) (simp_all only: takeWhile_digits sp show_nat_not_Nil not_False_eq_True)
  then show ?thesis
    unfolding pow10_m2 digits_value_append2 using assms by simp
qed

lemma parse_decimal_naira: "parse_decimal (naira_string k) = Some (of_nat k / 100)"
proof -
  have e: "100 * (k div 100) + 10 * (k div 10 mod 10) + k mod 10 = k"
  proof -
    have "k div 100 = k div 10 div 10" by (simp add: div_mult2_eq[symmetric])
    then have "10 * (k div 100) + k div 10 mod 10 = k div 10" by (simp only: mult_div_mod_eq)
    then show ?thesis using mult_div_mod_eq[of 10 k] by linarith
  qed
  have m: "k div 10 mod 10 < 10" "k mod 10 < 10" by simp_all
  show ?thesis
    using parse_decimal_hundredths[OF m, of "k div 100"] unfolding e naira_string_def .
qed

lemma parse_float_naira [fl]:
  assumes "k < 2 ^ 53"
  shows "parse_float (naira_string k) = Some (Fin (rnd (of_nat k / 100)))"
proof -
  have "(of_nat k :: rat) < of_nat (2 ^ 53)" using assms by (simp only: of_nat_less_iff)
  then have "\<bar>of_nat k / 100 :: rat\<bar> \<le> 2 ^ 100" by simp
  moreover have "naira_string k \<noteq> []" "is_digit (hd (naira_string k))"
    using show_nat_hd_digit[of "k div 100"] by (simp_all add: naira_string_def)
  ultimately show ?thesis using parse_decimal_naira by (intro parse_float_nonneg)
qed

section \<open>Percentages\<close>

text \<open>
  \<^verbatim>\<open>int64(float64(base) * (value / 100.0))\<close> is within one unit of the exact
  percentage rounded down.
\<close>

definition percent_of :: "int64 \<Rightarrow> float64 \<Rightarrow> int64" where
  "percent_of base v = int64_of_float (fmul (float_of_int64 base) (fdiv_const v 100))"

lemma percent_of_error:
  assumes "0 \<le> base" "base \<le> 2 ^ 50" "0 \<le> v" "v \<le> 100"
  defines "exact \<equiv> of_int base * v / (100 :: rat)"
  shows "\<lfloor>exact\<rfloor> - 1 \<le> percent_of base (Fin v) \<and> percent_of base (Fin v) \<le> \<lfloor>exact\<rfloor> + 1"
proof -
  let ?b = "of_int base :: rat" and ?p = "rnd (v / 100)"
  let ?q = "rnd (?b * ?p)"
  have b: "0 \<le> ?b" "?b \<le> 2 ^ 50"
    using assms of_int_le_iff[of base "2 ^ 50", where 'a = rat] by simp_all
  have v: "\<bar>v / 100\<bar> \<le> 1" using assms by simp
  have p: "\<bar>?p - v / 100\<bar> \<le> 1 / 2 ^ 53 + 1 / 2 ^ 100" using rnd_error_bound[OF v] .
  have "\<bar>?b * ?p - exact\<bar> = ?b * \<bar>?p - v / 100\<bar>"
    using b unfolding exact_def by (simp add: abs_mult_pos' right_diff_distrib)
  also have "\<dots> \<le> 2 ^ 50 * (1 / 2 ^ 53 + 1 / 2 ^ 100)" using b p by (intro mult_mono) auto
  finally have bp: "\<bar>?b * ?p - exact\<bar> \<le> 2 ^ 50 * (1 / 2 ^ 53 + 1 / 2 ^ 100)" .
  have e: "0 \<le> exact" "exact \<le> 2 ^ 50"
  proof -
    show "0 \<le> exact" using b assms unfolding exact_def by simp
    have "?b * v \<le> 2 ^ 50 * 100" using b assms by (intro mult_mono) auto
    then show "exact \<le> 2 ^ 50" unfolding exact_def by simp
  qed
  have "\<bar>exact\<bar> \<le> 2 ^ 50" using e by simp
  from abs_le_near[OF bp this] have "\<bar>?b * ?p\<bar> \<le> 2 ^ 50 + 1" by simp
  from rnd_error_bound[OF this] have "\<bar>?q - ?b * ?p\<bar> \<le> (2 ^ 50 + 1) / 2 ^ 53 + 1 / 2 ^ 100" .
  from abs_trans_near[OF this bp] have q: "\<bar>?q - exact\<bar> < 1 / 2" by simp
  have f: "fmul (float_of_int64 base) (fdiv_const (Fin v) 100) = Fin ?q"
  proof -
    have "\<bar>base\<bar> < 2 ^ 53" using assms by simp
    then have "float_of_int64 base = Fin ?b" using b by (simp add: float_of_int64_def fl64_finite rnd_int)
    moreover have "fl64 (v / 100) = Fin ?p" using v by (intro fl64_finite) simp
    moreover have "fl64 (?b * ?p) = Fin ?q" using \<open>\<bar>?b * ?p\<bar> \<le> 2 ^ 50 + 1\<close> by (intro fl64_finite) simp
    ultimately show ?thesis by simp
  qed
  have t: "\<lfloor>exact\<rfloor> - 1 \<le> trunc_rat ?q \<and> trunc_rat ?q \<le> \<lfloor>exact\<rfloor> + 1"
    unfolding trunc_rat_def using q e(1) by (auto; linarith)
  have "\<lfloor>exact\<rfloor> \<le> \<lfloor>2 ^ 50 :: rat\<rfloor>" using e(2) by (rule floor_mono)
  then have "\<lfloor>exact\<rfloor> \<le> 1125899906842624" by simp
  moreover have "0 \<le> \<lfloor>exact\<rfloor>" using e(1) by simp
  ultimately have "in64 (trunc_rat ?q)" using t unfolding in64_def by linarith
  with t show ?thesis unfolding percent_of_def f by simp
qed

end
