(* ===== verification/Domain.thy ===== *)
theory Domain
  imports Go_Float
begin

text \<open>
  The domain types of \<^verbatim>\<open>internal/domain\<close>. A struct is a record with the
  fields the services read or write; identifiers of the database are natural numbers (0 is
  Go's zero value, "not saved yet"), instants are nanoseconds, pointers that may be nil are
  options. String-typed enumerations whose values are all named constants are datatypes;
  statuses that come from a payment provider stay strings.
\<close>

section \<open>Errors (error.go)\<close>

datatype sentinel = ErrNotFound | ErrConflict | ErrUnauthorized | ErrForbidden
  | ErrValidationFailed | ErrPaymentGatewayFailed | ErrInternalServer

text \<open>
  An error is a sentinel, a plain message or \<^verbatim>\<open>fmt.Errorf\<close> with one
  \<^verbatim>\<open>%w\<close> between a prefix and a suffix; \<^verbatim>\<open>errors.Is\<close> looks through
  the wrapping. \<^verbatim>\<open>TransferAmountError\<close> has the amount, the limits and the message.
\<close>

datatype gerror = Sentinel sentinel | Plain string | Wrap string gerror string | AmountError string int64 int64 string

fun sentinel_text :: "sentinel \<Rightarrow> string" where
  "sentinel_text ErrNotFound = ''resource not found''"
| "sentinel_text ErrConflict = ''resource conflict or duplicate''"
| "sentinel_text ErrUnauthorized = ''unauthorized''"
| "sentinel_text ErrForbidden = ''forbidden: insufficient permissions''"
| "sentinel_text ErrValidationFailed = ''validation failed''"
| "sentinel_text ErrPaymentGatewayFailed = ''payment gateway operation failed''"
| "sentinel_text ErrInternalServer = ''internal server error''"

fun err_text :: "gerror \<Rightarrow> string" where
  "err_text (Sentinel s) = sentinel_text s"
| "err_text (Plain m) = m"
| "err_text (Wrap pre e post) = pre @ err_text e @ post"
| "err_text (AmountError amount mn mx m) = m"

fun errors_is :: "gerror \<Rightarrow> sentinel \<Rightarrow> bool" where
  "errors_is (Sentinel s) t = (s = t)"
| "errors_is (Plain _) t = False"
| "errors_is (Wrap _ e _) t = errors_is e t"
| "errors_is (AmountError _ _ _ _) t = False"

type_synonym 'a res = "gerror + 'a"

text \<open>\<^verbatim>\<open>NewTransferAmountBelowMinError\<close> and its twin for the maximum.\<close>

definition NewTransferAmountBelowMinError :: "string \<Rightarrow> int64 \<Rightarrow> gerror" where
  "NewTransferAmountBelowMinError amount minAmount =
     AmountError amount minAmount 0
       (''transfer amount '' @ amount @ '' is below the minimum allowed amount of '' @ show_int minAmount)"

definition NewTransferAmountAboveMaxError :: "string \<Rightarrow> int64 \<Rightarrow> gerror" where
  "NewTransferAmountAboveMaxError amount maxAmount =
     AmountError amount 0 maxAmount
       (''transfer amount '' @ amount @ '' exceeds the maximum allowed amount of '' @ show_int maxAmount)"

section \<open>Businesses, users, employees, cadres\<close>

text \<open>A tier of a plan is a string; requests can name any.\<close>

type_synonym PlanTier = string

abbreviation PlanFree :: PlanTier where
  "PlanFree \<equiv> ''free''"

text \<open>A \<^verbatim>\<open>time.Time\<close>: its instant in nanoseconds and the offset of its zone in seconds.\<close>

type_synonym zoned = "int \<times> int"

record business =
  b_ID :: nat
  b_AdminID :: nat
  b_Name :: string
  b_RCNumber :: "string option"
  b_IncorporationDate :: "zoned option"
  b_DirectorBVN :: "string option"
  b_DirectorBVNLast4 :: string
  b_BVNVerified :: bool
  b_RCVerified :: bool
  b_IsVerified :: bool
  b_VFDAccountNumber :: "string option"
  b_VFDAccountName :: "string option"
  b_PayrollRequiresApproval :: bool
  b_PayrollAutoProcess :: bool
  b_PensionEnabled :: bool
  b_NHFEnabled :: bool
  b_NSITFEnabled :: bool
  b_PAYEEnabled :: bool
  b_Currency :: string
  b_SubscriptionTier :: PlanTier
  b_SubscriptionStatus :: string
  b_IsSuspended :: bool

record subscription_plan =
  sp_ID :: nat
  sp_Name :: string
  sp_Tier :: PlanTier
  sp_PriceMonthly :: int64
  sp_MaxEmployees :: int64
  sp_MaxPayrollRuns :: int64
  sp_IsActive :: bool
  sp_PaystackPlanCode :: string

record subscription =
  sb_ID :: nat
  sb_BusinessID :: nat
  sb_PlanID :: nat
  sb_Status :: string
  sb_CreatedAt :: int
  sb_CurrentPeriodStart :: int
  sb_CurrentPeriodEnd :: int
  sb_CancelledAt :: "int option"

record invoice =
  iv_ID :: nat
  iv_BusinessID :: nat
  iv_SubscriptionID :: nat
  iv_Amount :: int64
  iv_Status :: string
  iv_PaystackRef :: string
  iv_PeriodStart :: int
  iv_PeriodEnd :: int

datatype UserRole = RoleAdmin | RoleOperator | RoleApprover | RoleEmployee | RoleSuperAdmin

fun role_text :: "UserRole \<Rightarrow> string" where
  "role_text RoleAdmin = ''admin''"
| "role_text RoleOperator = ''operator''"
| "role_text RoleApprover = ''approver''"
| "role_text RoleEmployee = ''employee''"
| "role_text RoleSuperAdmin = ''super_admin''"

text \<open>A row of the table of users.\<close>

record user =
  u_ID :: nat
  u_BusinessID :: nat
  u_Email :: string
  u_Role :: UserRole
  u_PasswordHash :: string
  u_IsVerified :: bool
  u_ResetToken :: "string option"
  u_ResetTokenExpiry :: "int option"
  u_InviteToken :: "string option"
  u_InviteAccepted :: bool
  u_EmailVerificationToken :: "string option"
  u_EmailVerificationExpiry :: "int option"

datatype EarningComponentType = ComponentBasic | ComponentHousing | ComponentTransport | ComponentOther

record earning_component =
  ec_ID :: nat
  ec_Name :: string
  ec_Amount :: int64
  ec_ComponentType :: EarningComponentType

datatype DeductionRuleType = DeductionTypePercentage | DeductionTypeFlat

datatype CalculationBasis = BasisGrossPay | BasisBasicPay

record deduction_rule =
  dr_ID :: nat
  dr_BusinessID :: nat
  dr_CadreID :: nat
  dr_Name :: string
  dr_Type :: DeductionRuleType
  dr_Value :: float64
  dr_CalculationBasis :: CalculationBasis

record cadre =
  c_ID :: nat
  c_BusinessID :: nat
  c_Name :: string
  c_EarningComponents :: "earning_component list"
  c_DeductionRules :: "deduction_rule list"

record employee =
  e_ID :: nat
  e_BusinessID :: nat
  e_CadreID :: nat
  e_FullName :: string
  e_Email :: string
  e_BankName :: string
  e_BankCode :: string
  e_BankAccountNumber :: string
  e_PhoneNumber :: string
  e_IsActive :: bool
  e_BankAccountVerified :: bool
  e_BankAccountName :: string
  e_TIN :: "string option"
  e_PensionRSAPIN :: "string option"
  e_NHFNumber :: "string option"
  e_AnnualRentPaid :: int64
  e_UserID :: "nat option"
  e_StartDate :: "zoned option"
  e_Cadre :: "cadre option"

datatype LoanStatus = LoanActive | LoanCompleted | LoanCancelled

record loan =
  l_ID :: nat
  l_BusinessID :: nat
  l_EmployeeID :: nat
  l_LoanAmount :: int64
  l_MonthlyDeduction :: int64
  l_TotalRepaid :: int64
  l_RemainingBalance :: int64
  l_Status :: LoanStatus
  l_Description :: string

section \<open>Payroll (payroll.go)\<close>

datatype PayrollStatus = StatusDraft | StatusPendingApproval | StatusApproved | StatusProcessing
  | StatusCompleted | StatusRejected | StatusFailed

fun status_text :: "PayrollStatus \<Rightarrow> string" where
  "status_text StatusDraft = ''draft''"
| "status_text StatusPendingApproval = ''pending_approval''"
| "status_text StatusApproved = ''approved''"
| "status_text StatusProcessing = ''processing''"
| "status_text StatusCompleted = ''completed''"
| "status_text StatusRejected = ''rejected''"
| "status_text StatusFailed = ''failed''"

datatype DetailType = DetailTypeEarning | DetailTypeDeduction | DetailTypeBonus
  | DetailTypeStatutoryDeduction | DetailTypeEmployerCost

record entry_detail =
  d_Type :: DetailType
  d_Name :: string
  d_Amount :: int64
  d_Description :: string

text \<open>An entry that is not stored yet has identifier 0.\<close>

record payroll_entry =
  pe_ID :: nat
  pe_EmployeeID :: nat
  pe_GrossPay :: int64
  pe_TotalDeductions :: int64
  pe_Bonuses :: int64
  pe_NetPay :: int64
  pe_EmployerPension :: int64
  pe_EmployerNSITF :: int64
  pe_TotalEmployerCost :: int64
  pe_TotalCostToCompany :: int64
  pe_Employee :: "employee option"
  pe_Details :: "entry_detail list"

text \<open>A period is the year and the month, all the code reads of the \<^verbatim>\<open>time.Time\<close>.\<close>

type_synonym period = "int \<times> nat"

record payroll_run =
  pr_ID :: nat
  pr_BusinessID :: nat
  pr_Period :: period
  pr_Status :: PayrollStatus
  pr_TotalGrossPay :: int64
  pr_TotalDeductions :: int64
  pr_TotalNetPay :: int64
  pr_TotalEmployerCosts :: int64
  pr_TotalCostToCompany :: int64
  pr_ScheduledFor :: int
  pr_ProcessedAt :: "int option"
  pr_PaymentReference :: string
  pr_RejectionReason :: string
  pr_Entries :: "payroll_entry list"

text \<open>\<^verbatim>\<open>EmployeeAdjustment\<close> of service.go.\<close>

record adjustment =
  adj_ItemName :: string
  adj_Amount :: int64
  adj_Description :: string
  adj_ComponentType :: string

section \<open>Leave (leave.go)\<close>

record leave_type =
  lt_ID :: nat
  lt_BusinessID :: nat
  lt_Name :: string
  lt_DefaultDays :: int64
  lt_RequiresApproval :: bool

record leave_request =
  lq_ID :: nat
  lq_EmployeeID :: nat
  lq_BusinessID :: nat
  lq_LeaveTypeID :: nat
  lq_StartDate :: zoned
  lq_EndDate :: zoned
  lq_Days :: int64
  lq_Reason :: string
  lq_Status :: string
  lq_ApprovedByID :: "nat option"

record leave_balance =
  lb_ID :: nat
  lb_EmployeeID :: nat
  lb_LeaveTypeID :: nat
  lb_Year :: int
  lb_Entitled :: int64
  lb_Used :: int64
  lb_Remaining :: int64

section \<open>Wallet and ledger (wallet.go, ledger.go)\<close>

record wallet =
  w_Balance :: int64
  w_LockedBalance :: int64
  w_Currency :: string
  w_AccountNumber :: string
  w_BankCode :: string
  w_BankName :: string
  w_AccountReference :: string
  w_UniqueID :: string
  w_AccountStatus :: string
  w_Provider :: string

record va_request =
  vq_BusinessID :: nat
  vq_AccountName :: string
  vq_AccountReference :: string
  vq_CustomerName :: string
  vq_CustomerEmail :: string
  vq_BVN :: string
  vq_NIN :: string
  vq_BankCode :: string
  vq_Permanent :: bool

record va_result =
  va_Success :: bool
  va_Provider :: string
  va_AccountNumber :: string
  va_BankCode :: string
  va_BankName :: string
  va_AccountReference :: string
  va_UniqueID :: string
  va_AccountStatus :: string
  va_Currency :: string

datatype WalletTransactionType = WalletTransactionDeposit | WalletTransactionWithdrawal
  | WalletTransactionFee | WalletTransactionRefund

record wallet_tx =
  wt_BusinessID :: nat
  wt_Type :: WalletTransactionType
  wt_Amount :: int64
  wt_BalanceBefore :: int64
  wt_BalanceAfter :: int64
  wt_Currency :: string
  wt_Reference :: string
  wt_ProviderReference :: string
  wt_Description :: string
  wt_TransferID :: "nat option"
  wt_Status :: string

record deposit_notification =
  dn_Reference :: string
  dn_AccountReference :: string
  dn_Amount :: int64
  dn_Currency :: string
  dn_Status :: string
  dn_Description :: string

datatype AccountType = AccountWallet | AccountExternal | AccountRevenue | AccountPayable

datatype EntryType = EntryDebit | EntryCredit

record ledger_entry =
  le_BusinessID :: nat
  le_TransactionID :: string
  le_AccountType :: AccountType
  le_EntryType :: EntryType
  le_Amount :: int64
  le_Description :: string
  le_Reference :: string

section \<open>Transfers (transfer.go)\<close>

text \<open>A provider name is a string; the empty string is "no preference".\<close>

type_synonym provider_name = string

record single_req =
  rq_Reference :: string
  rq_Amount :: string
  rq_BankCode :: string
  rq_AccountNumber :: string
  rq_AccountName :: string
  rq_Narration :: string
  rq_Currency :: string
  rq_PreferredProvider :: provider_name
  rq_BusinessID :: nat
  rq_BusinessEmail :: string

record transfer_result =
  tr_Success :: bool
  tr_Reference :: string
  tr_TransactionID :: string
  tr_Status :: string
  tr_Message :: string
  tr_Provider :: provider_name
  tr_Fee :: string

record transfer =
  t_ID :: nat
  t_CreatedAt :: int
  t_BusinessID :: nat
  t_Reference :: string
  t_Amount :: string
  t_Currency :: string
  t_Narration :: string
  t_BankCode :: string
  t_AccountNumber :: string
  t_AccountName :: string
  t_Provider :: string
  t_Status :: string
  t_TransactionID :: string
  t_ProviderStatus :: string
  t_ProviderMessage :: string
  t_Fee :: string
  t_ProcessedAt :: "int option"
  t_ProcessingError :: "string option"

record single_resp =
  rs_Success :: bool
  rs_TransferID :: nat
  rs_Reference :: string
  rs_TransactionID :: string
  rs_Status :: string
  rs_Message :: string
  rs_Provider :: provider_name
  rs_Fee :: string
  rs_Error :: string

record bulk_req =
  bq_BatchReference :: string
  bq_Description :: string
  bq_Currency :: string
  bq_MerchantBearsCost :: bool
  bq_Transfers :: "single_req list"
  bq_BusinessID :: nat
  bq_BusinessEmail :: string

record bulk_result =
  br_Success :: bool
  br_BatchReference :: string
  br_Provider :: provider_name
  br_Status :: string
  br_Message :: string
  br_TransferResults :: "transfer_result list"

record bulk_resp =
  bp_Success :: bool
  bp_BatchReference :: string
  bp_TotalTransfers :: nat
  bp_SuccessfulTransfers :: nat
  bp_FailedTransfers :: nat
  bp_PendingTransfers :: nat
  bp_Provider :: provider_name
  bp_Transfers :: "single_resp list"

section \<open>VFD (vfd_transfer.go, vfd_webhook.go)\<close>

record vfd_request =
  vfq_FromAccount :: string
  vfq_UniqueSenderAccountId :: string
  vfq_FromClientId :: string
  vfq_FromClient :: string
  vfq_FromSavingsId :: string
  vfq_FromBvn :: string
  vfq_ToClientId :: string
  vfq_ToClient :: string
  vfq_ToSavingsId :: string
  vfq_ToSession :: string
  vfq_ToBvn :: string
  vfq_ToAccount :: string
  vfq_ToBank :: string
  vfq_Signature :: string
  vfq_Amount :: string
  vfq_Remark :: string
  vfq_TransferType :: string
  vfq_Reference :: string

record vfd_data =
  vd_TxnId :: string
  vd_SessionId :: string
  vd_Reference :: string

record vfd_record =
  vt_ID :: nat
  vt_BusinessID :: nat
  vt_FromAccount :: string
  vt_FromClientId :: string
  vt_FromClient :: string
  vt_FromSavingsId :: string
  vt_FromBvn :: "string option"
  vt_ToClientId :: string
  vt_ToClient :: string
  vt_ToSavingsId :: string
  vt_ToSession :: "string option"
  vt_ToBvn :: "string option"
  vt_ToAccount :: string
  vt_ToBank :: string
  vt_Amount :: string
  vt_Remark :: string
  vt_TransferType :: string
  vt_Reference :: string
  vt_TxnId :: "string option"
  vt_SessionId :: "string option"
  vt_Status :: string
  vt_VFDStatus :: string
  vt_VFDMessage :: string
  vt_ProcessedAt :: "int option"
  vt_ProcessingError :: "string option"

record vfd_notification =
  vn_ID :: nat
  vn_BusinessID :: nat
  vn_Reference :: string
  vn_Amount :: string
  vn_AccountNumber :: string
  vn_OriginatorAccountNumber :: string
  vn_OriginatorAccountName :: string
  vn_OriginatorBank :: string
  vn_OriginatorNarration :: string
  vn_Timestamp :: zoned
  vn_TransactionChannel :: string
  vn_SessionID :: string
  vn_InitialCreditRequest :: bool
  vn_Status :: string
  vn_ProcessedAt :: "int option"
  vn_ProcessingError :: "string option"

section \<open>Settings (platform_setting.go, org_provider_setting.go)\<close>

text \<open>Rows of these tables are deleted softly: they stay and keep their unique key.\<close>

record platform_setting =
  st_Key :: string
  st_EncryptedValue :: string
  st_Description :: string
  st_Category :: string
  st_IsSet :: bool
  st_Deleted :: bool

record org_setting =
  os_BusinessID :: nat
  os_Provider :: string
  os_SettingKey :: string
  os_EncryptedValue :: string
  os_IsActive :: bool
  os_Deleted :: bool

end
