(* ===== verification/Circuit_Breaker.thy ===== *)
theory Circuit_Breaker
  imports Domain
begin

text \<open>
  The circuit breaker of \<^verbatim>\<open>internal/service/provider/circuit_breaker.go\<close>: one state
  machine per payment provider. Each method runs under the breaker's mutex, so a method is one
  atomic step; the instant it reads with \<^verbatim>\<open>time.Now\<close> is an argument. The step
  relation \<open>cb_step\<close> has the three methods as its rules, and \<open>cb_inv\<close> is the
  invariant of the reachable breakers.
\<close>

datatype CircuitState = CircuitClosed | CircuitOpen | CircuitHalfOpen

record CircuitBreakerConfig =
  FailureThreshold :: nat
  ResetTimeout :: int

definition DefaultCircuitBreakerConfig :: CircuitBreakerConfig where
  "DefaultCircuitBreakerConfig = \<lparr>FailureThreshold = 5, ResetTimeout = 60 * 1000000000\<rparr>"

record circuitBreaker =
  cb_state :: CircuitState
  cb_failures :: nat
  cb_lastFailure :: int
  cb_config :: CircuitBreakerConfig

definition newCircuitBreaker :: "CircuitBreakerConfig \<Rightarrow> circuitBreaker" where
  "newCircuitBreaker cfg = \<lparr>cb_state = CircuitClosed, cb_failures = 0, cb_lastFailure = 0, cb_config = cfg\<rparr>"

definition Allow :: "int \<Rightarrow> circuitBreaker \<Rightarrow> bool \<times> circuitBreaker" where
  "Allow now cb =
    (case cb_state cb of
       CircuitClosed \<Rightarrow> (True, cb)
     | CircuitOpen \<Rightarrow>
         (if now - cb_lastFailure cb > ResetTimeout (cb_config cb)
          then (True, cb\<lparr>cb_state := CircuitHalfOpen\<rparr>) else (False, cb))
     | CircuitHalfOpen \<Rightarrow> (True, cb))"

definition RecordSuccess :: "circuitBreaker \<Rightarrow> circuitBreaker" where
  "RecordSuccess cb = cb\<lparr>cb_state := CircuitClosed, cb_failures := 0\<rparr>"

definition RecordFailure :: "int \<Rightarrow> circuitBreaker \<Rightarrow> circuitBreaker" where
  "RecordFailure now cb =
    (let cb = cb\<lparr>cb_failures := cb_failures cb + 1, cb_lastFailure := now\<rparr>
     in if cb_failures cb \<ge> FailureThreshold (cb_config cb) then cb\<lparr>cb_state := CircuitOpen\<rparr> else cb)"

text \<open>
  The registry: a breaker per provider name, created closed on first use
  (\<^verbatim>\<open>Get\<close>).
\<close>

type_synonym breakers = "(provider_name \<times> circuitBreaker) list"

definition breaker_Get :: "provider_name \<Rightarrow> breakers \<Rightarrow> circuitBreaker \<times> breakers" where
  "breaker_Get name bs =
    (case map_of bs name of
       Some cb \<Rightarrow> (cb, bs)
     | None \<Rightarrow> (let cb = newCircuitBreaker DefaultCircuitBreakerConfig in (cb, (name, cb) # bs)))"

section \<open>The state machine\<close>

inductive cb_step :: "circuitBreaker \<Rightarrow> circuitBreaker \<Rightarrow> bool" where
  step_allow: "cb_step cb (snd (Allow now cb))"
| step_success: "cb_step cb (RecordSuccess cb)"
| step_failure: "cb_step cb (RecordFailure now cb)"

inductive cb_reachable :: "CircuitBreakerConfig \<Rightarrow> circuitBreaker \<Rightarrow> bool" for cfg where
  reach_new: "cb_reachable cfg (newCircuitBreaker cfg)"
| reach_step: "cb_reachable cfg cb \<Longrightarrow> cb_step cb cb' \<Longrightarrow> cb_reachable cfg cb'"

inductive_cases cb_stepE: "cb_step cb cb'"

definition cb_inv :: "CircuitBreakerConfig \<Rightarrow> circuitBreaker \<Rightarrow> bool" where
  "cb_inv cfg cb \<longleftrightarrow> cb_config cb = cfg \<and>
     (cb_state cb = CircuitClosed \<longleftrightarrow> cb_failures cb < FailureThreshold cfg)"

lemma cb_inv_new: "0 < FailureThreshold cfg \<Longrightarrow> cb_inv cfg (newCircuitBreaker cfg)"
  by (simp add: cb_inv_def newCircuitBreaker_def)

lemma cb_inv_Allow: "cb_inv cfg cb \<Longrightarrow> cb_inv cfg (snd (Allow now cb))"
  by (auto simp: cb_inv_def Allow_def split: CircuitState.splits)

lemma cb_inv_RecordSuccess: "0 < FailureThreshold cfg \<Longrightarrow> cb_inv cfg cb \<Longrightarrow> cb_inv cfg (RecordSuccess cb)"
  by (simp add: cb_inv_def RecordSuccess_def)

lemma cb_inv_RecordFailure: "cb_inv cfg cb \<Longrightarrow> cb_inv cfg (RecordFailure now cb)"
  by (auto simp: cb_inv_def RecordFailure_def Let_def)

lemmas cb_inv_steps = cb_inv_Allow cb_inv_RecordSuccess cb_inv_RecordFailure

lemma cb_reachable_inv: "cb_reachable cfg cb \<Longrightarrow> 0 < FailureThreshold cfg \<Longrightarrow> cb_inv cfg cb"
  by (induction rule: cb_reachable.induct) (auto intro: cb_inv_new cb_inv_steps elim: cb_stepE)

section \<open>Runs of failures\<close>

fun fail_at :: "int list \<Rightarrow> circuitBreaker \<Rightarrow> circuitBreaker" where
  "fail_at [] cb = cb"
| "fail_at (t # ts) cb = fail_at ts (RecordFailure t cb)"

lemma fail_at_failures: "cb_failures (fail_at ts cb) = cb_failures cb + length ts"
  and fail_at_config: "cb_config (fail_at ts cb) = cb_config cb"
  by (induction ts arbitrary: cb) (auto simp: RecordFailure_def Let_def)

lemma fail_at_last: "ts \<noteq> [] \<Longrightarrow> cb_lastFailure (fail_at ts cb) = last ts"
  by (induction ts arbitrary: cb) (auto simp: RecordFailure_def Let_def)

lemma fail_at_inv: "cb_inv cfg cb \<Longrightarrow> cb_inv cfg (fail_at ts cb)"
  by (induction ts arbitrary: cb) (auto intro: cb_inv_RecordFailure)

lemma RecordFailure_not_half_open:
  "cb_inv cfg cb \<Longrightarrow> cb_state (RecordFailure t cb) \<noteq> CircuitHalfOpen"
  by (auto simp: cb_inv_def RecordFailure_def Let_def)

lemma fail_at_not_half_open:
  "ts \<noteq> [] \<Longrightarrow> cb_inv cfg cb \<Longrightarrow> cb_state (fail_at ts cb) \<noteq> CircuitHalfOpen"
proof (induction ts arbitrary: cb)
  case Nil
  then show ?case by simp
next
  case (Cons t ts)
  then show ?case
    by (cases "ts = []") (auto simp: RecordFailure_not_half_open dest: cb_inv_RecordFailure)
qed

section \<open>Properties\<close>

text \<open>
  C32: The breaker opens at the threshold and blocks. In every reachable closed breaker, a run
  of failures that stays below the threshold leaves it closed and every request allowed; a run
  that reaches the threshold opens it, and then a request is allowed exactly when more than
  the reset timeout has passed since the last failure.
\<close>

theorem breaker_opens_and_blocks:
  assumes "0 < FailureThreshold cfg" and "cb_reachable cfg cb" and "cb_state cb = CircuitClosed" and "ts \<noteq> []"
  shows "(cb_failures cb + length ts < FailureThreshold cfg \<longrightarrow> Allow now (fail_at ts cb) = (True, fail_at ts cb)) \<and>
    (FailureThreshold cfg \<le> cb_failures cb + length ts \<longrightarrow>
       cb_state (fail_at ts cb) = CircuitOpen \<and>
       fst (Allow now (fail_at ts cb)) = (now - last ts > ResetTimeout cfg))"
proof -
  have inv: "cb_inv cfg cb" using assms(1,2) by (simp add: cb_reachable_inv)
  then have inv': "cb_inv cfg (fail_at ts cb)" by (rule fail_at_inv)
  have config: "cb_config (fail_at ts cb) = cfg" using inv by (simp add: fail_at_config cb_inv_def)
  show ?thesis
    using inv' config fail_at_not_half_open [OF assms(4) inv] fail_at_last [OF assms(4), of cb]
    by (cases "cb_state (fail_at ts cb)") (auto simp: cb_inv_def fail_at_failures Allow_def)
qed

theorem breaker_opens_and_blocks_witness:
  "cb_state (fail_at [1, 2, 3, 4, 5] (newCircuitBreaker DefaultCircuitBreakerConfig)) = CircuitOpen"
  using breaker_opens_and_blocks [OF _ reach_new [of DefaultCircuitBreakerConfig], of "[1, 2, 3, 4, 5]" 6]
  by (simp add: DefaultCircuitBreakerConfig_def newCircuitBreaker_def)

text \<open>
  The half-open breaker decides by the next outcome. In every reachable half-open breaker
  a failure opens it again and a success closes it with its failures forgotten, so that it
  takes a full threshold of failures to open. Until then it lets every request through: it is
  left unchanged by \<open>Allow\<close>, so the trial is not limited to one request.
\<close>

theorem half_open_decides:
  assumes "0 < FailureThreshold cfg" and "cb_reachable cfg cb" and "cb_state cb = CircuitHalfOpen"
  shows "Allow now cb = (True, cb) \<and> cb_state (RecordFailure t cb) = CircuitOpen \<and>
    cb_state (RecordSuccess cb) = CircuitClosed \<and>
    (length ts < FailureThreshold cfg \<longrightarrow> cb_state (fail_at ts (RecordSuccess cb)) = CircuitClosed)"
proof -
  have inv: "cb_inv cfg cb" using assms(1,2) by (simp add: cb_reachable_inv)
  then have "cb_inv cfg (fail_at ts (RecordSuccess cb))"
    using assms(1) by (intro fail_at_inv cb_inv_RecordSuccess)
  then show ?thesis
    using inv assms(3) by (auto simp: cb_inv_def Allow_def RecordFailure_def RecordSuccess_def fail_at_failures Let_def)
qed

theorem half_open_decides_witness:
  "cb_state (RecordSuccess (snd (Allow (100 * 1000000000)
     (fail_at [1, 2, 3, 4, 5] (newCircuitBreaker DefaultCircuitBreakerConfig))))) = CircuitClosed"
proof -
  let ?open = "fail_at [1, 2, 3, 4, 5] (newCircuitBreaker DefaultCircuitBreakerConfig)"
  have "cb_reachable DefaultCircuitBreakerConfig ?open"
    by (simp, intro reach_step [OF _ step_failure] reach_new)
  then have "cb_reachable DefaultCircuitBreakerConfig (snd (Allow (100 * 1000000000) ?open))"
    by (rule reach_step [OF _ step_allow])
  then show ?thesis
    using half_open_decides [of DefaultCircuitBreakerConfig "snd (Allow (100 * 1000000000) ?open)" 0 0 "[]"]
    by (simp add: DefaultCircuitBreakerConfig_def newCircuitBreaker_def RecordFailure_def Allow_def)
qed

end
