(* ===== verification/Store.thy ===== *)
theory Store
  imports Circuit_Breaker "HOL-Library.AList"
begin

text \<open>
  The world the services run in: the tables of the database as the repositories of
  \<^verbatim>\<open>internal/repository/postgres\<close> see them, the clock, the circuit breakers of the
  provider manager and a log of the calls made to payment providers. A repository method is a
  function from the world to a result and the world after it. Statements that fail (a lost connection, a
  timeout) are part of the model: \<open>faults\<close> is an arbitrary schedule, consumed by one
  element per statement, and a statement whose element is True fails without effect. A
  theorem for every world is a theorem for every schedule. The constraints of the migrations
  are modelled where the code relies on them: unique keys, \<^verbatim>\<open>balance >= 0\<close>,
  \<^verbatim>\<open>locked_balance >= 0\<close>, \<^verbatim>\<open>amount > 0\<close>, the range of BIGINT. Column
  widths are not. Rows of cadres and rules that were deleted softly are in tables of their own.
\<close>

record world =
  wallets :: "(nat \<times> wallet) list"
  wallet_txs :: "wallet_tx list"
  ledger :: "ledger_entry list"
  transfers :: "transfer list"
  loans :: "loan list"
  runs :: "payroll_run list"
  employees :: "employee list"
  cadres :: "cadre list"
  deleted_cadres :: "cadre list"
  deduction_rules :: "deduction_rule list"
  deleted_rules :: "deduction_rule list"
  businesses :: "business list"
  users :: "user list"
  plans :: "subscription_plan list"
  subscriptions :: "subscription list"
  invoices :: "invoice list"
  leave_types :: "leave_type list"
  leave_requests :: "leave_request list"
  leave_balances :: "leave_balance list"
  vfd_records :: "vfd_record list"
  vfd_notifications :: "vfd_notification list"
  platform_settings :: "platform_setting list"
  org_settings :: "org_setting list"
  scheduled :: "nat list"
  provider_breakers :: breakers
  calls :: "(provider_name \<times> single_req) list"
  vfd_calls :: "vfd_request list"
  faults :: "bool list"
  clock :: "nat \<Rightarrow> int"
  entropy :: "nat \<Rightarrow> string"
  tick :: nat

definition db_error :: gerror where
  "db_error = Plain ''database error''"

section \<open>Sequencing\<close>

text \<open>
  \<^verbatim>\<open>x, err := f(); if err != nil { return h }; k\<close>: the handler gets the error, the
  continuation the value, both the world after the call.
\<close>

definition attempt :: "'a res \<times> world \<Rightarrow> (gerror \<Rightarrow> world \<Rightarrow> 'b) \<Rightarrow> ('a \<Rightarrow> world \<Rightarrow> 'b) \<Rightarrow> 'b" where
  "attempt r h k = (case r of (Inl e, w) \<Rightarrow> h e w | (Inr x, w) \<Rightarrow> k x w)"

lemma attempt_simps [simp]: "attempt (Inl e, w) h k = h e w" "attempt (Inr x, w) h k = k x w"
  by (simp_all add: attempt_def)

lemma attempt_split:
  "P (attempt r h k) \<longleftrightarrow>
    (\<forall>e w. r = (Inl e, w) \<longrightarrow> P (h e w)) \<and> (\<forall>x w. r = (Inr x, w) \<longrightarrow> P (k x w))"
  by (auto simp: attempt_def split: prod.splits sum.splits)

lemma attempt_split_asm:
  "P (attempt r h k) \<longleftrightarrow>
    \<not> ((\<exists>e w. r = (Inl e, w) \<and> \<not> P (h e w)) \<or> (\<exists>x w. r = (Inr x, w) \<and> \<not> P (k x w)))"
  by (auto simp: attempt_def split: prod.splits sum.splits)

lemmas attempt_splits = attempt_split attempt_split_asm

text \<open>One statement: consumes one element of the schedule.\<close>

definition fault :: "world \<Rightarrow> bool \<times> world" where
  "fault w = (case faults w of [] \<Rightarrow> (False, w) | f # fs \<Rightarrow> (f, w\<lparr>faults := fs\<rparr>))"

definition statement :: "(world \<Rightarrow> 'a res \<times> world) \<Rightarrow> world \<Rightarrow> 'a res \<times> world" where
  "statement body w = (let (f, w) = fault w in if f then (Inl db_error, w) else body w)"

text \<open>
  The clock and the random source are arbitrary functions of the number of readings so far.
\<close>

definition now :: "world \<Rightarrow> int \<times> world" where
  "now w = (clock w (tick w), w\<lparr>tick := Suc (tick w)\<rparr>)"

definition rand_hex :: "world \<Rightarrow> string \<times> world" where
  "rand_hex w = (entropy w (tick w), w\<lparr>tick := Suc (tick w)\<rparr>)"

section \<open>Wallets (wallet_repo.go)\<close>

definition wallet_FindByBusinessID :: "nat \<Rightarrow> world \<Rightarrow> wallet res \<times> world" where
  "wallet_FindByBusinessID bid = statement (\<lambda>w.
     (case map_of (wallets w) bid of None \<Rightarrow> (Inl (Sentinel ErrNotFound), w) | Some x \<Rightarrow> (Inr x, w)))"

definition wallet_FindByAccountReference :: "string \<Rightarrow> world \<Rightarrow> (nat \<times> wallet) res \<times> world" where
  "wallet_FindByAccountReference ref = statement (\<lambda>w.
     (case find (\<lambda>(b, x). w_AccountReference x = ref) (wallets w) of
        None \<Rightarrow> (Inl (Sentinel ErrNotFound), w) | Some bx \<Rightarrow> (Inr bx, w)))"

definition wallet_FindAll :: "world \<Rightarrow> (nat \<times> wallet) list res \<times> world" where
  "wallet_FindAll = statement (\<lambda>w. (Inr (wallets w), w))"

definition bigint_nonneg :: "int \<Rightarrow> bool" where
  "bigint_nonneg x \<longleftrightarrow> 0 \<le> x \<and> x < 9223372036854775808"

text \<open>
  \<^verbatim>\<open>Create\<close>: the business, the account number and the account reference are
  unique keys.
\<close>

definition wallet_Create :: "nat \<Rightarrow> wallet \<Rightarrow> world \<Rightarrow> unit res \<times> world" where
  "wallet_Create bid x = statement (\<lambda>w.
     (if \<exists>(b, y) \<in> set (wallets w). b = bid \<or> w_AccountNumber y = w_AccountNumber x \<or>
            w_AccountReference y = w_AccountReference x
      then (Inl (Sentinel ErrConflict), w)
      else if bigint_nonneg (w_Balance x) \<and> bigint_nonneg (w_LockedBalance x)
      then (Inr (), w\<lparr>wallets := wallets w @ [(bid, x)]\<rparr>)
      else (Inl db_error, w)))"

text \<open>
  The four UPDATE statements. A row is updated when the WHERE clause holds; the new row must
  satisfy the CHECK constraints and fit BIGINT, otherwise the statement fails. Each is followed
  by a SELECT that can itself fail after the UPDATE has been committed.
\<close>

definition update_wallet :: "gerror \<Rightarrow> nat \<Rightarrow> (wallet \<Rightarrow> bool) \<Rightarrow> (wallet \<Rightarrow> wallet) \<Rightarrow> world \<Rightarrow> unit res \<times> world" where
  "update_wallet no_row bid cond f = statement (\<lambda>w.
     (case map_of (wallets w) bid of
        None \<Rightarrow> (Inl no_row, w)
      | Some x \<Rightarrow>
          if \<not> cond x then (Inl no_row, w)
          else if bigint_nonneg (w_Balance (f x)) \<and> bigint_nonneg (w_LockedBalance (f x))
          then (Inr (), w\<lparr>wallets := AList.update bid (f x) (wallets w)\<rparr>)
          else (Inl db_error, w)))"

definition IncrementBalance :: "nat \<Rightarrow> int64 \<Rightarrow> world \<Rightarrow> wallet res \<times> world" where
  "IncrementBalance bid amount w =
     attempt (update_wallet (Sentinel ErrNotFound) bid (\<lambda>x. True)
                (\<lambda>x. x\<lparr>w_Balance := w_Balance x + amount\<rparr>) w)
       (\<lambda>e w. (Inl e, w)) (\<lambda>_ w. wallet_FindByBusinessID bid w)"

definition DecrementBalanceAndLocked :: "nat \<Rightarrow> int64 \<Rightarrow> int64 \<Rightarrow> world \<Rightarrow> wallet res \<times> world" where
  "DecrementBalanceAndLocked bid balanceAmount lockedAmount w =
     attempt (update_wallet (Plain ''insufficient balance for withdrawal'') bid
                (\<lambda>x. w_Balance x \<ge> balanceAmount)
                (\<lambda>x. x\<lparr>w_Balance := w_Balance x - balanceAmount,
                       w_LockedBalance := max (w_LockedBalance x - lockedAmount) 0\<rparr>) w)
       (\<lambda>e w. (Inl e, w)) (\<lambda>_ w. wallet_FindByBusinessID bid w)"

definition IncrementLocked :: "nat \<Rightarrow> int64 \<Rightarrow> world \<Rightarrow> wallet res \<times> world" where
  "IncrementLocked bid amount w =
     attempt (update_wallet (Plain ''insufficient available balance'') bid
                (\<lambda>x. w_Balance x - w_LockedBalance x \<ge> amount)
                (\<lambda>x. x\<lparr>w_LockedBalance := w_LockedBalance x + amount\<rparr>) w)
       (\<lambda>e w. (Inl e, w)) (\<lambda>_ w. wallet_FindByBusinessID bid w)"

definition DecrementLocked :: "nat \<Rightarrow> int64 \<Rightarrow> world \<Rightarrow> wallet res \<times> world" where
  "DecrementLocked bid amount w =
     attempt (update_wallet (Sentinel ErrNotFound) bid (\<lambda>x. True)
                (\<lambda>x. x\<lparr>w_LockedBalance := max (w_LockedBalance x - amount) 0\<rparr>) w)
       (\<lambda>e w. (Inl e, w)) (\<lambda>_ w. wallet_FindByBusinessID bid w)"

section \<open>Wallet transactions (wallet_transaction_repo.go)\<close>

definition walletTx_FindByReference :: "string \<Rightarrow> world \<Rightarrow> wallet_tx res \<times> world" where
  "walletTx_FindByReference ref = statement (\<lambda>w.
     (case find (\<lambda>t. wt_Reference t = ref) (wallet_txs w) of
        None \<Rightarrow> (Inl (Sentinel ErrNotFound), w) | Some t \<Rightarrow> (Inr t, w)))"

text \<open>Empty columns with a default take it.\<close>

definition with_defaults :: "wallet_tx \<Rightarrow> wallet_tx" where
  "with_defaults t = t\<lparr>wt_Currency := (if wt_Currency t = [] then ''NGN'' else wt_Currency t),
     wt_Status := (if wt_Status t = [] then ''completed'' else wt_Status t)\<rparr>"

definition walletTx_Create :: "wallet_tx \<Rightarrow> world \<Rightarrow> unit res \<times> world" where
  "walletTx_Create t = statement (\<lambda>w.
     (if wt_Reference t \<in> wt_Reference ` set (wallet_txs w) then (Inl (Sentinel ErrConflict), w)
      else (Inr (), w\<lparr>wallet_txs := wallet_txs w @ [with_defaults t]\<rparr>)))"

section \<open>Ledger (ledger_repo.go)\<close>

definition ledger_CreatePair :: "ledger_entry \<Rightarrow> ledger_entry \<Rightarrow> world \<Rightarrow> unit res \<times> world" where
  "ledger_CreatePair debit credit = statement (\<lambda>w.
     (if le_Amount debit > 0 \<and> le_Amount credit > 0
      then (Inr (), w\<lparr>ledger := ledger w @ [debit, credit]\<rparr>) else (Inl db_error, w)))"

definition entry_sum :: "nat \<Rightarrow> AccountType \<Rightarrow> EntryType \<Rightarrow> ledger_entry list \<Rightarrow> int" where
  "entry_sum bid acc ty es =
     (\<Sum>e\<leftarrow>filter (\<lambda>e. le_BusinessID e = bid \<and> le_AccountType e = acc \<and> le_EntryType e = ty) es. le_Amount e)"

text \<open>
  The two sums are Scanned into int64 variables; an error of a query is not looked at, the
  variable then keeps its zero value. The function itself never fails.
\<close>

definition query_sum :: "nat \<Rightarrow> AccountType \<Rightarrow> EntryType \<Rightarrow> world \<Rightarrow> int64 \<times> world" where
  "query_sum bid acc ty w =
     (let (f, w) = fault w; s = entry_sum bid acc ty (ledger w)
      in (if f \<or> \<not> in64 s then 0 else s, w))"

definition ledger_Reconcile :: "nat \<Rightarrow> world \<Rightarrow> (int64 \<times> int64 \<times> int64) res \<times> world" where
  "ledger_Reconcile bid w =
     (let (totalCredits, w) = query_sum bid AccountWallet EntryCredit w;
          (totalDebits, w) = query_sum bid AccountWallet EntryDebit w
      in (Inr (totalCredits, totalDebits, sub64 totalCredits totalDebits), w))"

definition ledger_GetBalanceByAccount :: "nat \<Rightarrow> AccountType \<Rightarrow> world \<Rightarrow> int64 res \<times> world" where
  "ledger_GetBalanceByAccount bid acc w =
     (let (creditSum, w) = query_sum bid acc EntryCredit w;
          (debitSum, w) = query_sum bid acc EntryDebit w
      in (Inr (if acc = AccountWallet then sub64 creditSum debitSum else sub64 debitSum creditSum), w))"

section \<open>Transfers (transfer_repo.go)\<close>

definition has_reference :: "string \<Rightarrow> world \<Rightarrow> bool" where
  "has_reference ref w \<longleftrightarrow> ref \<in> t_Reference ` set (transfers w)"

text \<open>
  A new row gets the next identifier; an empty currency or status takes the column's default.
\<close>

definition new_row :: "world \<Rightarrow> transfer \<Rightarrow> transfer" where
  "new_row w t =
     t\<lparr>t_ID := Suc (length (transfers w)), t_CreatedAt := clock w (tick w),
        t_Currency := (if t_Currency t = [] then ''NGN'' else t_Currency t),
        t_Status := (if t_Status t = [] then ''pending'' else t_Status t)\<rparr>"

definition transfer_Create :: "transfer \<Rightarrow> world \<Rightarrow> transfer res \<times> world" where
  "transfer_Create t = statement (\<lambda>w.
     (if has_reference (t_Reference t) w then (Inl (Sentinel ErrConflict), w)
      else (let t = new_row w t in (Inr t, w\<lparr>transfers := transfers w @ [t]\<rparr>))))"

fun insert_all :: "transfer list \<Rightarrow> world \<Rightarrow> transfer list \<times> world" where
  "insert_all [] w = ([], w)"
| "insert_all (t # ts) w =
     (let t = new_row w t; (rows, w) = insert_all ts (w\<lparr>transfers := transfers w @ [t]\<rparr>)
      in (t # rows, w))"

text \<open>\<^verbatim>\<open>CreateBatch\<close>: one transaction; a duplicate reference fails all of it.\<close>

definition transfer_CreateBatch :: "transfer list \<Rightarrow> world \<Rightarrow> transfer list res \<times> world" where
  "transfer_CreateBatch ts w =
     (if ts = [] then (Inr [], w)
      else statement (\<lambda>w.
        (if \<not> distinct (map t_Reference ts) \<or> (\<exists>t \<in> set ts. has_reference (t_Reference t) w)
         then (Inl (Sentinel ErrConflict), w)
         else (let (rows, w) = insert_all ts w in (Inr rows, w)))) w)"

definition transfer_FindByID :: "nat \<Rightarrow> world \<Rightarrow> transfer res \<times> world" where
  "transfer_FindByID i = statement (\<lambda>w.
     (case find (\<lambda>t. t_ID t = i) (transfers w) of
        None \<Rightarrow> (Inl (Sentinel ErrNotFound), w) | Some t \<Rightarrow> (Inr t, w)))"

text \<open>
  \<^verbatim>\<open>FindByBusinessID\<close>: newest first; rows are appended in the order of their
  creation. Two statements, the count and the page.
\<close>

definition transfer_FindByBusinessID :: "nat \<Rightarrow> nat \<Rightarrow> nat \<Rightarrow> world \<Rightarrow> (transfer list \<times> nat) res \<times> world" where
  "transfer_FindByBusinessID bid page limit w =
     (let rows = (\<lambda>w. filter (\<lambda>t. t_BusinessID t = bid) (rev (transfers w)))
      in attempt (statement (\<lambda>w. (Inr (length (rows w)), w)) w)
           (\<lambda>e w. (Inl e, w))
           (\<lambda>total w. statement (\<lambda>w. (Inr (take limit (drop ((page - 1) * limit) (rows w)), total), w)) w))"

text \<open>\<^verbatim>\<open>Save\<close>: an INSERT when the row has no identifier yet, else an UPDATE by identifier.\<close>

definition transfer_Update :: "transfer \<Rightarrow> world \<Rightarrow> transfer res \<times> world" where
  "transfer_Update t w =
     (if t_ID t = 0 then transfer_Create t w
      else statement (\<lambda>w.
        (if \<exists>u \<in> set (transfers w). t_ID u \<noteq> t_ID t \<and> t_Reference u = t_Reference t
         then (Inl (Sentinel ErrConflict), w)
         else (Inr t, w\<lparr>transfers := map (\<lambda>u. if t_ID u = t_ID t then t else u) (transfers w)\<rparr>))) w)"

section \<open>Loans (loan_repo.go)\<close>

definition loan_Create :: "loan \<Rightarrow> world \<Rightarrow> loan res \<times> world" where
  "loan_Create l = statement (\<lambda>w.
     (let l = l\<lparr>l_ID := Suc (length (loans w))\<rparr> in (Inr l, w\<lparr>loans := loans w @ [l]\<rparr>)))"

definition loan_FindByID :: "nat \<Rightarrow> world \<Rightarrow> loan res \<times> world" where
  "loan_FindByID i = statement (\<lambda>w.
     (case find (\<lambda>l. l_ID l = i) (loans w) of
        None \<Rightarrow> (Inl (Sentinel ErrNotFound), w) | Some l \<Rightarrow> (Inr l, w)))"

definition loan_FindActiveByEmployeeID :: "nat \<Rightarrow> world \<Rightarrow> loan list res \<times> world" where
  "loan_FindActiveByEmployeeID emp = statement (\<lambda>w.
     (Inr (filter (\<lambda>l. l_EmployeeID l = emp \<and> l_Status l = LoanActive) (loans w)), w))"

definition loan_Update :: "loan \<Rightarrow> world \<Rightarrow> unit res \<times> world" where
  "loan_Update l = statement (\<lambda>w.
     (Inr (), w\<lparr>loans := map (\<lambda>u. if l_ID u = l_ID l then l else u) (loans w)\<rparr>))"

section \<open>Payroll runs (payroll_repo.go)\<close>

text \<open>
  The repository stores \<^verbatim>\<open>domain.PayrollRun\<close> with its entries through GORM. Creating
  a run inserts its entries. \<^verbatim>\<open>Save\<close> updates the columns of the run and inserts the
  entries that have no identifier yet; entries already stored stay as they are, also those the
  run in memory no longer lists. Reading a run loads its entries and their employees.
\<close>

definition entry_count :: "world \<Rightarrow> nat" where
  "entry_count w = sum_list (map (\<lambda>r. length (pr_Entries r)) (runs w))"

fun number_entries :: "nat \<Rightarrow> payroll_entry list \<Rightarrow> payroll_entry list" where
  "number_entries n [] = []"
| "number_entries n (e # es) = e\<lparr>pe_ID := Suc n\<rparr> # number_entries (Suc n) es"

definition preload :: "world \<Rightarrow> payroll_run \<Rightarrow> payroll_run" where
  "preload w r = r\<lparr>pr_Entries := map (\<lambda>en. en\<lparr>pe_Employee :=
     find (\<lambda>e. e_ID e = pe_EmployeeID en) (employees w)\<rparr>) (pr_Entries r)\<rparr>"

definition payroll_Create :: "payroll_run \<Rightarrow> world \<Rightarrow> payroll_run res \<times> world" where
  "payroll_Create r = statement (\<lambda>w.
     (let r = r\<lparr>pr_ID := Suc (length (runs w)), pr_Entries := number_entries (entry_count w) (pr_Entries r)\<rparr>
      in (Inr r, w\<lparr>runs := runs w @ [r]\<rparr>)))"

text \<open>Business 0 is system access: the tenant filter is dropped.\<close>

definition payroll_FindByID :: "nat \<Rightarrow> nat \<Rightarrow> world \<Rightarrow> payroll_run res \<times> world" where
  "payroll_FindByID i bid = statement (\<lambda>w.
     (case find (\<lambda>r. pr_ID r = i \<and> (bid \<noteq> 0 \<longrightarrow> pr_BusinessID r = bid)) (runs w) of
        None \<Rightarrow> (Inl (Plain ''record not found''), w) | Some r \<Rightarrow> (Inr (preload w r), w)))"

definition payroll_FindByBusinessID :: "nat \<Rightarrow> world \<Rightarrow> payroll_run list res \<times> world" where
  "payroll_FindByBusinessID bid = statement (\<lambda>w.
     (Inr (map (preload w) (filter (\<lambda>r. pr_BusinessID r = bid) (rev (runs w)))), w))"

text \<open>The stored row after a \<^verbatim>\<open>Save\<close>: the run's columns, the old entries and the new ones.\<close>

definition merge_run :: "nat \<Rightarrow> payroll_run \<Rightarrow> payroll_run \<Rightarrow> payroll_run" where
  "merge_run n r u = r\<lparr>pr_Entries :=
     pr_Entries u @ number_entries n (filter (\<lambda>e. pe_ID e = 0) (pr_Entries r))\<rparr>"

definition payroll_Update :: "payroll_run \<Rightarrow> world \<Rightarrow> unit res \<times> world" where
  "payroll_Update r = statement (\<lambda>w.
     (Inr (), w\<lparr>runs := map (\<lambda>u. if pr_ID u = pr_ID r then merge_run (entry_count w) r u else u) (runs w)\<rparr>))"

section \<open>Reference data (business_repo.go, user_repo.go, employee_repo.go, cadre_repo.go)\<close>

definition business_FindByID :: "nat \<Rightarrow> world \<Rightarrow> business res \<times> world" where
  "business_FindByID i = statement (\<lambda>w.
     (case find (\<lambda>b. b_ID b = i) (businesses w) of
        None \<Rightarrow> (Inl (Sentinel ErrNotFound), w) | Some b \<Rightarrow> (Inr b, w)))"

definition user_FindByID :: "nat \<Rightarrow> world \<Rightarrow> user res \<times> world" where
  "user_FindByID i = statement (\<lambda>w.
     (case find (\<lambda>u. u_ID u = i) (users w) of
        None \<Rightarrow> (Inl (Sentinel ErrNotFound), w) | Some u \<Rightarrow> (Inr u, w)))"

definition user_FindBusinessAdmin :: "nat \<Rightarrow> world \<Rightarrow> user res \<times> world" where
  "user_FindBusinessAdmin bid = statement (\<lambda>w.
     (case find (\<lambda>u. u_BusinessID u = bid \<and> u_Role u = RoleAdmin) (users w) of
        None \<Rightarrow> (Inl (Sentinel ErrNotFound), w) | Some u \<Rightarrow> (Inr u, w)))"

definition user_FindByBusinessID :: "nat \<Rightarrow> world \<Rightarrow> user list res \<times> world" where
  "user_FindByBusinessID bid = statement (\<lambda>w. (Inr (filter (\<lambda>u. u_BusinessID u = bid) (users w)), w))"

definition employee_FindByBusinessID :: "nat \<Rightarrow> world \<Rightarrow> employee list res \<times> world" where
  "employee_FindByBusinessID bid = statement (\<lambda>w.
     (Inr (filter (\<lambda>e. e_BusinessID e = bid) (employees w)), w))"

definition employee_FindByIDs :: "nat list \<Rightarrow> nat \<Rightarrow> world \<Rightarrow> employee list res \<times> world" where
  "employee_FindByIDs ids bid w =
     (if ids = [] then (Inr [], w)
      else statement (\<lambda>w.
        (Inr (filter (\<lambda>e. e_ID e \<in> set ids \<and> e_BusinessID e = bid) (employees w)), w)) w)"

text \<open>A cadre is read with the deduction rules that name it.\<close>

definition with_rules :: "world \<Rightarrow> cadre \<Rightarrow> cadre" where
  "with_rules w c = c\<lparr>c_DeductionRules := filter (\<lambda>r. dr_CadreID r = c_ID c) (deduction_rules w)\<rparr>"

definition all_cadres :: "world \<Rightarrow> cadre list" where
  "all_cadres w = map (with_rules w) (cadres w)"

definition cadre_FindByIDs :: "nat list \<Rightarrow> nat \<Rightarrow> world \<Rightarrow> cadre list res \<times> world" where
  "cadre_FindByIDs ids bid w =
     (if ids = [] then (Inr [], w)
      else statement (\<lambda>w.
        (Inr (filter (\<lambda>c. c_ID c \<in> set ids \<and> c_BusinessID c = bid) (all_cadres w)), w)) w)"

definition employee_FindByID :: "nat \<Rightarrow> nat \<Rightarrow> world \<Rightarrow> employee res \<times> world" where
  "employee_FindByID i bid = statement (\<lambda>w.
     (case find (\<lambda>e. e_ID e = i \<and> e_BusinessID e = bid) (employees w) of
        None \<Rightarrow> (Inl (Sentinel ErrNotFound), w) | Some e \<Rightarrow> (Inr e, w)))"

text \<open>GORM's \<^verbatim>\<open>Updates\<close> with a struct: fields that are zero are not written.\<close>

definition or_else :: "'a option \<Rightarrow> 'a option \<Rightarrow> 'a option" where
  "or_else new old = (case new of None \<Rightarrow> old | Some x \<Rightarrow> Some x)"

definition nonzero :: "'a \<Rightarrow> 'a \<Rightarrow> 'a \<Rightarrow> 'a" where
  "nonzero zero new old = (if new = zero then old else new)"

definition employee_updates :: "employee \<Rightarrow> employee \<Rightarrow> employee" where
  "employee_updates new old = old
     \<lparr>e_BusinessID := nonzero 0 (e_BusinessID new) (e_BusinessID old),
      e_CadreID := nonzero 0 (e_CadreID new) (e_CadreID old),
      e_FullName := nonzero [] (e_FullName new) (e_FullName old),
      e_Email := nonzero [] (e_Email new) (e_Email old),
      e_BankName := nonzero [] (e_BankName new) (e_BankName old),
      e_BankCode := nonzero [] (e_BankCode new) (e_BankCode old),
      e_BankAccountNumber := nonzero [] (e_BankAccountNumber new) (e_BankAccountNumber old),
      e_PhoneNumber := nonzero [] (e_PhoneNumber new) (e_PhoneNumber old),
      e_IsActive := e_IsActive new \<or> e_IsActive old,
      e_BankAccountVerified := e_BankAccountVerified new \<or> e_BankAccountVerified old,
      e_BankAccountName := nonzero [] (e_BankAccountName new) (e_BankAccountName old),
      e_TIN := or_else (e_TIN new) (e_TIN old),
      e_PensionRSAPIN := or_else (e_PensionRSAPIN new) (e_PensionRSAPIN old),
      e_NHFNumber := or_else (e_NHFNumber new) (e_NHFNumber old),
      e_AnnualRentPaid := nonzero 0 (e_AnnualRentPaid new) (e_AnnualRentPaid old),
      e_UserID := or_else (e_UserID new) (e_UserID old),
      e_StartDate := or_else (e_StartDate new) (e_StartDate old)\<rparr>"

definition employee_Update :: "employee \<Rightarrow> world \<Rightarrow> unit res \<times> world" where
  "employee_Update e = statement (\<lambda>w.
     (let update = (\<lambda>f. if e_ID f = e_ID e then employee_updates e f else f);
          key = (\<lambda>f. (e_BusinessID f, e_Email f))
      in if \<forall>f \<in> set (employees w). e_ID f \<noteq> e_ID e then (Inl (Sentinel ErrNotFound), w)
         else if \<exists>f \<in> set (employees w). e_ID f \<noteq> e_ID e \<and> key f \<in> key ` update ` {g \<in> set (employees w). e_ID g = e_ID e}
         then (Inl (Plain ''duplicate key value violates unique constraint''), w)
         else (Inr (), w\<lparr>employees := map update (employees w)\<rparr>)))"

text \<open>Newest first, as for transfers.\<close>

definition walletTx_FindByBusinessID :: "nat \<Rightarrow> nat \<Rightarrow> nat \<Rightarrow> world \<Rightarrow> (wallet_tx list \<times> nat) res \<times> world" where
  "walletTx_FindByBusinessID bid page limit w =
     (let rows = (\<lambda>w. filter (\<lambda>t. wt_BusinessID t = bid) (rev (wallet_txs w)))
      in attempt (statement (\<lambda>w. (Inr (length (rows w)), w)) w)
           (\<lambda>e w. (Inl e, w))
           (\<lambda>total w. statement (\<lambda>w. (Inr (take limit (drop ((page - 1) * limit) (rows w)), total), w)) w))"

section \<open>What a statement sees\<close>

lemma fault_eq: "fault w = (faults w \<noteq> [] \<and> hd (faults w), w\<lparr>faults := tl (faults w)\<rparr>)"
  by (cases "faults w") (simp_all add: fault_def)

lemma statement_clean [simp]: "faults w = [] \<Longrightarrow> statement body w = body w"
  by (simp add: statement_def fault_def)

text \<open>
  \<open>post Q r\<close>: the outcome \<open>r\<close> of an operation, result and world, has the property \<open>Q\<close>. The
  rules in \<open>wp\<close> reduce it to the outcomes an operation can have for some schedule of faults:
  a statement fails and changes nothing but the schedule, or has its effect.
\<close>

named_theorems wp

definition post :: "('a \<Rightarrow> world \<Rightarrow> bool) \<Rightarrow> 'a \<times> world \<Rightarrow> bool" where
  "post Q r \<longleftrightarrow> Q (fst r) (snd r)"

lemma post_pair [simp]: "post Q (x, w) = Q x w"
  by (simp add: post_def)

lemma postD: "post Q r \<Longrightarrow> r = (x, w) \<Longrightarrow> Q x w"
  by (simp add: post_def)

lemma post_mono: "post P r \<Longrightarrow> (\<And>x w. P x w \<Longrightarrow> Q x w) \<Longrightarrow> post Q r"
  by (simp add: post_def)

lemma wp_attempt [wp]:
  "post (\<lambda>r w. (\<forall>e. r = Inl e \<longrightarrow> post Q (h e w)) \<and> (\<forall>x. r = Inr x \<longrightarrow> post Q (k x w))) r \<Longrightarrow>
   post Q (attempt r h k)"
  by (cases r; cases "fst r") (auto simp: post_def)

lemma wp_statement:
  assumes "\<And>fs. Q (Inl db_error) (w\<lparr>faults := fs\<rparr>)" and "\<And>fs. post Q (body (w\<lparr>faults := fs\<rparr>))"
  shows "post Q (statement body w)"
  using assms by (simp add: statement_def fault_eq)

lemma wp_FindByBusinessID [wp]:
  assumes "\<And>e fs. Q (Inl e) (w\<lparr>faults := fs\<rparr>)"
    and "\<And>x fs. map_of (wallets w) bid = Some x \<Longrightarrow> Q (Inr x) (w\<lparr>faults := fs\<rparr>)"
  shows "post Q (wallet_FindByBusinessID bid w)"
  unfolding wallet_FindByBusinessID_def
  using assms by (intro wp_statement) (auto split: option.splits)

lemma wp_update_wallet:
  assumes "\<And>e fs. Q (Inl e) (w\<lparr>faults := fs\<rparr>)"
    and "\<And>x fs. map_of (wallets w) bid = Some x \<Longrightarrow> cond x \<Longrightarrow>
           bigint_nonneg (w_Balance (f x)) \<Longrightarrow> bigint_nonneg (w_LockedBalance (f x)) \<Longrightarrow>
           Q (Inr ()) (w\<lparr>faults := fs, wallets := AList.update bid (f x) (wallets w)\<rparr>)"
  shows "post Q (update_wallet e bid cond f w)"
  unfolding update_wallet_def
  using assms by (intro wp_statement) (auto split: option.splits)

text \<open>
  An UPDATE of a wallet followed by the SELECT of the row: nothing happened and it failed, or
  the row is the new one, and the answer is the new row or an error.
\<close>

lemma wp_update_then_find:
  assumes "\<And>e fs. Q (Inl e) (w\<lparr>faults := fs\<rparr>)"
    and "\<And>x e fs. map_of (wallets w) bid = Some x \<Longrightarrow> cond x \<Longrightarrow>
           Q (Inl e) (w\<lparr>wallets := AList.update bid (f x) (wallets w), faults := fs\<rparr>)"
    and "\<And>x fs. map_of (wallets w) bid = Some x \<Longrightarrow> cond x \<Longrightarrow>
           Q (Inr (f x)) (w\<lparr>wallets := AList.update bid (f x) (wallets w), faults := fs\<rparr>)"
  shows "post Q (attempt (update_wallet e bid cond f w) (\<lambda>e w. (Inl e, w)) (\<lambda>_ w. wallet_FindByBusinessID bid w))"
  using assms
  by (intro wp_attempt wp_update_wallet) (auto intro!: wp_FindByBusinessID simp: update_conv)

lemmas wp_balance_updates [wp] =
  wp_update_then_find [where cond = "\<lambda>x. True" and e = "Sentinel ErrNotFound" and
    f = "\<lambda>x. x\<lparr>w_Balance := w_Balance x + amount\<rparr>" for amount, folded IncrementBalance_def]
  wp_update_then_find [where e = "Plain ''insufficient balance for withdrawal''" and
    cond = "\<lambda>x. w_Balance x \<ge> balanceAmount" and
    f = "\<lambda>x. x\<lparr>w_Balance := w_Balance x - balanceAmount,
               w_LockedBalance := max (w_LockedBalance x - lockedAmount) 0\<rparr>"
    for balanceAmount lockedAmount, folded DecrementBalanceAndLocked_def]
  wp_update_then_find [where e = "Plain ''insufficient available balance''" and
    cond = "\<lambda>x. w_Balance x - w_LockedBalance x \<ge> amount" and
    f = "\<lambda>x. x\<lparr>w_LockedBalance := w_LockedBalance x + amount\<rparr>" for amount, folded IncrementLocked_def]
  wp_update_then_find [where e = "Sentinel ErrNotFound" and cond = "\<lambda>x. True" and
    f = "\<lambda>x. x\<lparr>w_LockedBalance := max (w_LockedBalance x - amount) 0\<rparr>" for amount,
    folded DecrementLocked_def]

lemma wp_walletTx_FindByReference [wp]:
  assumes "\<And>fs. Q (Inl db_error) (w\<lparr>faults := fs\<rparr>)"
    and "\<And>fs. \<forall>t \<in> set (wallet_txs w). wt_Reference t \<noteq> ref \<Longrightarrow> Q (Inl (Sentinel ErrNotFound)) (w\<lparr>faults := fs\<rparr>)"
    and "\<And>t fs. t \<in> set (wallet_txs w) \<Longrightarrow> wt_Reference t = ref \<Longrightarrow> Q (Inr t) (w\<lparr>faults := fs\<rparr>)"
  shows "post Q (walletTx_FindByReference ref w)"
  unfolding walletTx_FindByReference_def
  using assms by (intro wp_statement) (auto simp: find_None_iff split: option.splits dest: find_SomeD)

lemma wp_walletTx_Create [wp]:
  assumes "\<And>e fs. Q (Inl e) (w\<lparr>faults := fs\<rparr>)"
    and "\<And>fs. wt_Reference t \<notin> wt_Reference ` set (wallet_txs w) \<Longrightarrow>
           Q (Inr ()) (w\<lparr>faults := fs, wallet_txs := wallet_txs w @ [with_defaults t]\<rparr>)"
  shows "post Q (walletTx_Create t w)"
  unfolding walletTx_Create_def using assms by (intro wp_statement) auto

lemma wp_ledger_CreatePair [wp]:
  assumes "\<And>e fs. Q (Inl e) (w\<lparr>faults := fs\<rparr>)"
    and "\<And>fs. le_Amount d > 0 \<Longrightarrow> le_Amount c > 0 \<Longrightarrow>
           Q (Inr ()) (w\<lparr>faults := fs, ledger := ledger w @ [d, c]\<rparr>)"
  shows "post Q (ledger_CreatePair d c w)"
  unfolding ledger_CreatePair_def using assms by (intro wp_statement) auto

text \<open>
  The same when the schedule holds no more faults: each statement runs, and the outcome is the
  one the tables determine.
\<close>

named_theorems clean

lemma clean_FindByBusinessID [clean]:
  assumes "faults w = []"
    and "map_of (wallets w) bid = None \<Longrightarrow> Q (Inl (Sentinel ErrNotFound)) w"
    and "\<And>x. map_of (wallets w) bid = Some x \<Longrightarrow> Q (Inr x) w"
  shows "post Q (wallet_FindByBusinessID bid w)"
  using assms by (auto simp: wallet_FindByBusinessID_def split: option.splits)

lemma clean_update_then_find:
  assumes "faults w = []"
    and "map_of (wallets w) bid = None \<Longrightarrow> Q (Inl e) w"
    and "\<And>x. map_of (wallets w) bid = Some x \<Longrightarrow> \<not> cond x \<Longrightarrow> Q (Inl e) w"
    and "\<And>x. map_of (wallets w) bid = Some x \<Longrightarrow> cond x \<Longrightarrow>
           \<not> (bigint_nonneg (w_Balance (f x)) \<and> bigint_nonneg (w_LockedBalance (f x))) \<Longrightarrow> Q (Inl db_error) w"
    and "\<And>x. map_of (wallets w) bid = Some x \<Longrightarrow> cond x \<Longrightarrow>
           bigint_nonneg (w_Balance (f x)) \<Longrightarrow> bigint_nonneg (w_LockedBalance (f x)) \<Longrightarrow>
           Q (Inr (f x)) (w\<lparr>wallets := AList.update bid (f x) (wallets w)\<rparr>)"
  shows "post Q (attempt (update_wallet e bid cond f w) (\<lambda>e w. (Inl e, w)) (\<lambda>_ w. wallet_FindByBusinessID bid w))"
  using assms
  by (auto simp: update_wallet_def wallet_FindByBusinessID_def update_conv split: option.splits)

lemmas clean_balance_updates [clean] =
  clean_update_then_find [where cond = "\<lambda>x. True" and e = "Sentinel ErrNotFound" and
    f = "\<lambda>x. x\<lparr>w_Balance := w_Balance x + amount\<rparr>" for amount, folded IncrementBalance_def]
  clean_update_then_find [where e = "Plain ''insufficient balance for withdrawal''" and
    cond = "\<lambda>x. w_Balance x \<ge> balanceAmount" and
    f = "\<lambda>x. x\<lparr>w_Balance := w_Balance x - balanceAmount,
               w_LockedBalance := max (w_LockedBalance x - lockedAmount) 0\<rparr>"
    for balanceAmount lockedAmount, folded DecrementBalanceAndLocked_def]
  clean_update_then_find [where e = "Plain ''insufficient available balance''" and
    cond = "\<lambda>x. w_Balance x - w_LockedBalance x \<ge> amount" and
    f = "\<lambda>x. x\<lparr>w_LockedBalance := w_LockedBalance x + amount\<rparr>" for amount, folded IncrementLocked_def]
  clean_update_then_find [where e = "Sentinel ErrNotFound" and cond = "\<lambda>x. True" and
    f = "\<lambda>x. x\<lparr>w_LockedBalance := max (w_LockedBalance x - amount) 0\<rparr>" for amount,
    folded DecrementLocked_def]

lemma clean_walletTx_FindByReference [clean]:
  assumes "faults w = []"
    and "ref \<notin> wt_Reference ` set (wallet_txs w) \<Longrightarrow> Q (Inl (Sentinel ErrNotFound)) w"
    and "\<And>t. ref \<in> wt_Reference ` set (wallet_txs w) \<Longrightarrow> Q (Inr t) w"
  shows "post Q (walletTx_FindByReference ref w)"
proof (cases "find (\<lambda>t. wt_Reference t = ref) (wallet_txs w)")
  case None
  then have "ref \<notin> wt_Reference ` set (wallet_txs w)" by (auto simp: find_None_iff)
  with None assms(1,2) show ?thesis by (simp add: walletTx_FindByReference_def)
next
  case (Some t)
  then have "ref \<in> wt_Reference ` set (wallet_txs w)" by (auto dest: find_SomeD)
  with Some assms(1,3) show ?thesis by (simp add: walletTx_FindByReference_def)
qed

lemma clean_walletTx_Create [clean]:
  assumes "faults w = []"
    and "wt_Reference t \<in> wt_Reference ` set (wallet_txs w) \<Longrightarrow> Q (Inl (Sentinel ErrConflict)) w"
    and "wt_Reference t \<notin> wt_Reference ` set (wallet_txs w) \<Longrightarrow>
           Q (Inr ()) (w\<lparr>wallet_txs := wallet_txs w @ [with_defaults t]\<rparr>)"
  shows "post Q (walletTx_Create t w)"
  using assms by (simp add: walletTx_Create_def)

lemma clean_ledger_CreatePair:
  assumes "faults w = []"
    and "\<not> (le_Amount d > 0 \<and> le_Amount c > 0) \<Longrightarrow> Q (Inl db_error) w"
    and "le_Amount d > 0 \<Longrightarrow> le_Amount c > 0 \<Longrightarrow> Q (Inr ()) (w\<lparr>ledger := ledger w @ [d, c]\<rparr>)"
  shows "post Q (ledger_CreatePair d c w)"
  using assms by (auto simp: ledger_CreatePair_def)

lemma wp_case [wp]: "post (\<lambda>x w. post Q (k x w)) r \<Longrightarrow> post Q (case r of (x, w) \<Rightarrow> k x w)"
  by (cases r) simp

lemma wp_now [wp]: "Q (clock w (tick w)) (w\<lparr>tick := Suc (tick w)\<rparr>) \<Longrightarrow> post Q (now w)"
  by (simp add: now_def)

lemma wp_if [wp]: "(c \<Longrightarrow> post Q a) \<Longrightarrow> (\<not> c \<Longrightarrow> post Q b) \<Longrightarrow> post Q (if c then a else b)"
  by simp

lemma wp_sum [wp]:
  "(\<And>e. x = Inl e \<Longrightarrow> post Q (f e)) \<Longrightarrow> (\<And>y. x = Inr y \<Longrightarrow> post Q (g y)) \<Longrightarrow>
   post Q (case x of Inl e \<Rightarrow> f e | Inr y \<Rightarrow> g y)"
  by (cases x) simp_all

lemma wp_option [wp]:
  "(x = None \<Longrightarrow> post Q f) \<Longrightarrow> (\<And>y. x = Some y \<Longrightarrow> post Q (g y)) \<Longrightarrow>
   post Q (case x of None \<Rightarrow> f | Some y \<Rightarrow> g y)"
  by (cases x) simp_all

lemma wp_rand_hex [wp]: "Q (entropy w (tick w)) (w\<lparr>tick := Suc (tick w)\<rparr>) \<Longrightarrow> post Q (rand_hex w)"
  by (simp add: rand_hex_def)

lemmas clean_control [clean] = wp_attempt wp_case wp_now wp_if wp_sum wp_option wp_rand_hex

text \<open>Transfer records and reference data: failing, or the rows as they are.\<close>

lemma wp_transfer_Create [wp]:
  assumes "\<And>e fs. Q (Inl e) (w\<lparr>faults := fs\<rparr>)"
    and "\<And>fs. \<not> has_reference (t_Reference t) w \<Longrightarrow>
           Q (Inr (new_row w t)) (w\<lparr>faults := fs, transfers := transfers w @ [new_row w t]\<rparr>)"
  shows "post Q (transfer_Create t w)"
  unfolding transfer_Create_def
  using assms by (intro wp_statement) (simp_all add: has_reference_def new_row_def Let_def)

lemma wp_transfer_Update [wp]:
  assumes "\<And>e fs. Q (Inl e) (w\<lparr>faults := fs\<rparr>)"
    and "\<And>fs. t_ID t = 0 \<Longrightarrow> \<not> has_reference (t_Reference t) w \<Longrightarrow>
           Q (Inr (new_row w t)) (w\<lparr>faults := fs, transfers := transfers w @ [new_row w t]\<rparr>)"
    and "\<And>fs. t_ID t \<noteq> 0 \<Longrightarrow>
           (\<forall>u \<in> set (transfers w). t_ID u = t_ID t \<or> t_Reference u \<noteq> t_Reference t) \<Longrightarrow>
           Q (Inr t) (w\<lparr>faults := fs, transfers := map (\<lambda>u. if t_ID u = t_ID t then t else u) (transfers w)\<rparr>)"
  shows "post Q (transfer_Update t w)"
proof (cases "t_ID t = 0")
  case True
  then show ?thesis
    unfolding transfer_Update_def using assms(1,2) by (auto intro!: wp_transfer_Create)
next
  case False
  then show ?thesis
    unfolding transfer_Update_def using assms(1,3) by (auto intro!: wp_statement)
qed

lemma clean_transfer_Create [clean]:
  assumes "faults w = []"
    and "has_reference (t_Reference t) w \<Longrightarrow> Q (Inl (Sentinel ErrConflict)) w"
    and "\<not> has_reference (t_Reference t) w \<Longrightarrow>
           Q (Inr (new_row w t)) (w\<lparr>transfers := transfers w @ [new_row w t]\<rparr>)"
  shows "post Q (transfer_Create t w)"
  using assms by (simp add: transfer_Create_def Let_def)

lemma clean_transfer_Update [clean]:
  assumes "faults w = []" and "\<And>e. Q (Inl e) w" and "\<And>u ts. Q (Inr u) (w\<lparr>transfers := ts\<rparr>)"
  shows "post Q (transfer_Update t w)"
  using assms by (simp add: transfer_Update_def transfer_Create_def Let_def)

lemma clean_user_FindBusinessAdmin [clean]:
  assumes "faults w = []" and "\<And>r. Q r w" shows "post Q (user_FindBusinessAdmin bid w)"
  using assms by (simp add: user_FindBusinessAdmin_def split: option.splits)

lemma wp_user_FindBusinessAdmin [wp]:
  assumes "\<And>r fs. Q r (w\<lparr>faults := fs\<rparr>)"
  shows "post Q (user_FindBusinessAdmin bid w)"
  unfolding user_FindBusinessAdmin_def using assms by (intro wp_statement) (auto split: option.splits)

lemma wp_transfer_FindByID [wp]:
  assumes "\<And>e fs. Q (Inl e) (w\<lparr>faults := fs\<rparr>)"
    and "\<And>t fs. t \<in> set (transfers w) \<Longrightarrow> t_ID t = i \<Longrightarrow> Q (Inr t) (w\<lparr>faults := fs\<rparr>)"
  shows "post Q (transfer_FindByID i w)"
  unfolding transfer_FindByID_def
  using assms by (intro wp_statement) (auto split: option.splits dest: find_SomeD)

text \<open>Reads that no property looks into, and the loans and payroll runs.\<close>

lemma wp_query:
  "(\<And>fs. Q (Inl db_error) (w\<lparr>faults := fs\<rparr>)) \<Longrightarrow> (\<And>fs. Q (q (w\<lparr>faults := fs\<rparr>)) (w\<lparr>faults := fs\<rparr>)) \<Longrightarrow>
   post Q (statement (\<lambda>w. (q w, w)) w)"
  by (rule wp_statement) simp_all

lemma wp_find:
  assumes "\<And>e fs. Q (Inl e) (w\<lparr>faults := fs\<rparr>)"
    and "\<And>x fs. x \<in> set (rows w) \<Longrightarrow> p x \<Longrightarrow> Q (Inr (f w x)) (w\<lparr>faults := fs\<rparr>)"
    and "\<And>fs. rows (w\<lparr>faults := fs\<rparr>) = rows w" and "\<And>fs. f (w\<lparr>faults := fs\<rparr>) = f w"
  shows "post Q (statement (\<lambda>w. case find p (rows w) of None \<Rightarrow> (Inl e, w) | Some x \<Rightarrow> (Inr (f w x), w)) w)"
  using assms by (intro wp_statement) (auto split: option.splits dest: find_SomeD)

lemma preload_faults [simp]: "preload (w\<lparr>faults := fs\<rparr>) = preload w"
  by (rule ext) (simp add: preload_def)

lemma entry_count_faults [simp]: "entry_count (w\<lparr>faults := fs\<rparr>) = entry_count w"
  by (simp add: entry_count_def)

lemmas wp_finders [wp] =
  wp_find [where rows = runs and f = preload and p = "\<lambda>r. pr_ID r = i \<and> (bid \<noteq> 0 \<longrightarrow> pr_BusinessID r = bid)"
    and e = "Plain ''record not found''" for i bid, folded payroll_FindByID_def, simplified]
  wp_find [where rows = users and f = "\<lambda>_ x. x" and p = "\<lambda>u. u_ID u = i" and e = "Sentinel ErrNotFound" for i,
    folded user_FindByID_def, simplified]
  wp_find [where rows = businesses and f = "\<lambda>_ x. x" and p = "\<lambda>b. b_ID b = i" and e = "Sentinel ErrNotFound" for i,
    folded business_FindByID_def, simplified]
  wp_find [where rows = loans and f = "\<lambda>_ x. x" and p = "\<lambda>l. l_ID l = i" and e = "Sentinel ErrNotFound" for i,
    folded loan_FindByID_def, simplified]

lemmas wp_lists [wp] =
  wp_query [where q = "\<lambda>w. Inr (filter (\<lambda>u. u_BusinessID u = bid) (users w))" for bid,
    folded user_FindByBusinessID_def]
  wp_query [where q = "\<lambda>w. Inr (filter (\<lambda>e. e_BusinessID e = bid) (employees w))" for bid,
    folded employee_FindByBusinessID_def]
  wp_query [where q = "\<lambda>w. Inr (filter (\<lambda>l. l_EmployeeID l = emp \<and> l_Status l = LoanActive) (loans w))" for emp,
    folded loan_FindActiveByEmployeeID_def]

lemma wp_employee_FindByIDs [wp]:
  assumes "\<And>fs. Q (Inl db_error) (w\<lparr>faults := fs\<rparr>)"
    and "\<And>fs. Q (Inr (filter (\<lambda>e. e_ID e \<in> set ids \<and> e_BusinessID e = bid) (employees w))) (w\<lparr>faults := fs\<rparr>)"
  shows "post Q (employee_FindByIDs ids bid w)"
  unfolding employee_FindByIDs_def using assms assms(2) [of "faults w"] by (auto intro!: wp_query)

lemma all_cadres_writes [simp]:
  "all_cadres (w\<lparr>faults := fs\<rparr>) = all_cadres w" "all_cadres (w\<lparr>tick := n\<rparr>) = all_cadres w"
  by (simp_all add: all_cadres_def with_rules_def [abs_def])

lemma wp_cadre_FindByIDs [wp]:
  assumes "\<And>fs. Q (Inl db_error) (w\<lparr>faults := fs\<rparr>)"
    and "\<And>fs. Q (Inr (filter (\<lambda>c. c_ID c \<in> set ids \<and> c_BusinessID c = bid) (all_cadres w))) (w\<lparr>faults := fs\<rparr>)"
  shows "post Q (cadre_FindByIDs ids bid w)"
  unfolding cadre_FindByIDs_def using assms assms(2) [of "faults w"] by (auto intro!: wp_query)

lemma wp_employee_find [wp]:
  assumes "\<And>e fs. Q (Inl e) (w\<lparr>faults := fs\<rparr>)"
    and "\<And>e fs. e_ID e = i \<and> e_BusinessID e = bid \<Longrightarrow> Q (Inr e) (w\<lparr>faults := fs\<rparr>)"
  shows "post Q (employee_FindByID i bid w)"
  unfolding employee_FindByID_def using assms by (intro wp_statement) (auto split: option.splits dest: find_SomeD)

lemma or_else_simps [simp]: "or_else None y = y" "or_else (Some x) y = Some x"
  by (simp_all add: or_else_def)

lemma wp_employee_Update [wp]:
  assumes "\<And>e fs. Q (Inl e) (w\<lparr>faults := fs\<rparr>)"
    and "\<And>fs. Q (Inr ()) (w\<lparr>faults := fs, employees :=
           map (\<lambda>f. if e_ID f = e_ID e then employee_updates e f else f) (employees w)\<rparr>)"
  shows "post Q (employee_Update e w)"
  unfolding employee_Update_def Let_def using assms by (intro wp_statement) (simp_all cong: if_cong)

lemma wp_payroll_Update [wp]:
  assumes "\<And>e fs. Q (Inl e) (w\<lparr>faults := fs\<rparr>)"
    and "\<And>fs. Q (Inr ()) (w\<lparr>faults := fs, runs :=
           map (\<lambda>u. if pr_ID u = pr_ID r then merge_run (entry_count w) r u else u) (runs w)\<rparr>)"
  shows "post Q (payroll_Update r w)"
  unfolding payroll_Update_def using assms by (intro wp_statement) (simp_all cong: if_cong)

lemma wp_payroll_Create [wp]:
  assumes "\<And>e fs. Q (Inl e) (w\<lparr>faults := fs\<rparr>)"
    and "\<And>fs r'. r' = r\<lparr>pr_ID := Suc (length (runs w)), pr_Entries := number_entries (entry_count w) (pr_Entries r)\<rparr> \<Longrightarrow>
           Q (Inr r') (w\<lparr>faults := fs, runs := runs w @ [r']\<rparr>)"
  shows "post Q (payroll_Create r w)"
  unfolding payroll_Create_def using assms by (intro wp_statement) (simp_all add: Let_def)

lemma wp_loan_Update [wp]:
  assumes "\<And>e fs. Q (Inl e) (w\<lparr>faults := fs\<rparr>)"
    and "\<And>fs. Q (Inr ()) (w\<lparr>faults := fs, loans := map (\<lambda>u. if l_ID u = l_ID l then l else u) (loans w)\<rparr>)"
  shows "post Q (loan_Update l w)"
  unfolding loan_Update_def using assms by (intro wp_statement) simp_all

lemma wp_loan_Create [wp]:
  assumes "\<And>e fs. Q (Inl e) (w\<lparr>faults := fs\<rparr>)"
    and "\<And>fs l'. l' = l\<lparr>l_ID := Suc (length (loans w))\<rparr> \<Longrightarrow> Q (Inr l') (w\<lparr>faults := fs, loans := loans w @ [l']\<rparr>)"
  shows "post Q (loan_Create l w)"
  unfolding loan_Create_def using assms by (intro wp_statement) (simp_all add: Let_def)

section \<open>Invariants of the tables\<close>

text \<open>
  \<open>keeps I f\<close>: the operation leads from worlds with \<open>I\<close> to worlds with \<open>I\<close>, whatever
  it returns. The rules follow the structure of a handler.
\<close>

named_theorems keeps_rules

definition keeps :: "(world \<Rightarrow> bool) \<Rightarrow> (world \<Rightarrow> 'a \<times> world) \<Rightarrow> bool" where
  "keeps I f \<longleftrightarrow> (\<forall>w. I w \<longrightarrow> I (snd (f w)))"

lemma keepsI: "(\<And>w. I w \<Longrightarrow> I (snd (f w))) \<Longrightarrow> keeps I f"
  by (simp add: keeps_def)

lemma keepsD: "keeps I f \<Longrightarrow> I w \<Longrightarrow> I (snd (f w))"
  by (simp add: keeps_def)

lemma keeps_attempt:
  assumes "I (snd r)"
    and "\<And>e w. I w \<Longrightarrow> I (snd (h e w))" and "\<And>x w. I w \<Longrightarrow> I (snd (k x w))"
  shows "I (snd (attempt r h k))"
  using assms by (auto split: attempt_split)

lemma keeps_case:
  assumes "I (snd r)" and "\<And>x w. I w \<Longrightarrow> I (snd (k x w))"
  shows "I (snd (case r of (x, w) \<Rightarrow> k x w))"
  using assms by (auto split: prod.splits)

lemmas finder_defs = wallet_FindByBusinessID_def wallet_FindByAccountReference_def
  wallet_FindAll_def walletTx_FindByReference_def transfer_FindByID_def loan_FindByID_def
  loan_FindActiveByEmployeeID_def payroll_FindByID_def payroll_FindByBusinessID_def business_FindByID_def user_FindByID_def
  user_FindBusinessAdmin_def user_FindByBusinessID_def employee_FindByBusinessID_def

text \<open>
  What an invariant has to promise so that every payment keeps it: not to look at the
  schedule, the clock, the breakers and the call log, and to survive each statement that
  writes. A client's lemmas are proved once here, for all invariants of the tables.
\<close>

locale payment_invariant =
  fixes I :: "world \<Rightarrow> bool"
  assumes inv_faults: "\<And>fs w. I (w\<lparr>faults := fs\<rparr>) = I w"
    and inv_tick: "\<And>n w. I (w\<lparr>tick := n\<rparr>) = I w"
    and inv_breakers: "\<And>b w. I (w\<lparr>provider_breakers := b\<rparr>) = I w"
    and inv_calls: "\<And>c w. I (w\<lparr>calls := c\<rparr>) = I w"
    and inv_wallet: "\<And>bid x y w. I w \<Longrightarrow> map_of (wallets w) bid = Some x \<Longrightarrow>
        bigint_nonneg (w_Balance y) \<Longrightarrow> bigint_nonneg (w_LockedBalance y) \<Longrightarrow>
        I (w\<lparr>wallets := AList.update bid y (wallets w)\<rparr>)"
    and inv_wallet_new: "\<And>bid x w. I w \<Longrightarrow> bid \<notin> fst ` set (wallets w) \<Longrightarrow>
        bigint_nonneg (w_Balance x) \<Longrightarrow> bigint_nonneg (w_LockedBalance x) \<Longrightarrow>
        I (w\<lparr>wallets := wallets w @ [(bid, x)]\<rparr>)"
    and inv_wallet_tx: "\<And>t w. I w \<Longrightarrow> wt_Reference t \<notin> wt_Reference ` set (wallet_txs w) \<Longrightarrow>
        I (w\<lparr>wallet_txs := wallet_txs w @ [t]\<rparr>)"
    and inv_ledger: "\<And>d c w. I w \<Longrightarrow> le_Amount d > 0 \<Longrightarrow> le_Amount c = le_Amount d \<Longrightarrow>
        le_BusinessID c = le_BusinessID d \<Longrightarrow> le_TransactionID c = le_TransactionID d \<Longrightarrow>
        le_EntryType d = EntryDebit \<Longrightarrow> le_EntryType c = EntryCredit \<Longrightarrow>
        I (w\<lparr>ledger := ledger w @ [d, c]\<rparr>)"
    and inv_transfer_new: "\<And>t w. I w \<Longrightarrow> \<not> has_reference (t_Reference t) w \<Longrightarrow>
        t_ID t = Suc (length (transfers w)) \<Longrightarrow> I (w\<lparr>transfers := transfers w @ [t]\<rparr>)"
    and inv_transfer_upd: "\<And>t w. I w \<Longrightarrow>
        (\<forall>u \<in> set (transfers w). t_ID u \<noteq> t_ID t \<longrightarrow> t_Reference u \<noteq> t_Reference t) \<Longrightarrow>
        I (w\<lparr>transfers := map (\<lambda>u. if t_ID u = t_ID t then t else u) (transfers w)\<rparr>)"
begin

lemma fault_keeps: "I w \<Longrightarrow> I (snd (fault w))"
  by (simp add: fault_def inv_faults split: list.splits)

lemma statement_keeps [keeps_rules]: "keeps I body \<Longrightarrow> keeps I (statement body)"
  using fault_keeps by (fastforce simp: keeps_def statement_def Let_def split: prod.splits)

lemma now_keeps [keeps_rules]: "keeps I now" and rand_hex_keeps [keeps_rules]: "keeps I rand_hex"
  by (simp_all add: keeps_def now_def rand_hex_def inv_tick)

lemma query_keeps [keeps_rules]:
  "keeps I (statement (\<lambda>w. (q w, w)))"
  "keeps I (statement (\<lambda>w. case q' w of None \<Rightarrow> (Inl e, w) | Some x \<Rightarrow> (Inr (g w x), w)))"
  by (rule statement_keeps, simp add: keeps_def split: option.splits)+

lemma finders_keep [keeps_rules]:
  "keeps I (wallet_FindByBusinessID bid)"
  "keeps I (wallet_FindByAccountReference ref)"
  "keeps I wallet_FindAll"
  "keeps I (walletTx_FindByReference ref)"
  "keeps I (transfer_FindByID i)"
  "keeps I (loan_FindByID i)"
  "keeps I (loan_FindActiveByEmployeeID i)"
  "keeps I (payroll_FindByID i bid)"
  "keeps I (payroll_FindByBusinessID bid)"
  "keeps I (business_FindByID i)"
  "keeps I (user_FindByID i)"
  "keeps I (user_FindBusinessAdmin bid)"
  "keeps I (user_FindByBusinessID bid)"
  "keeps I (employee_FindByBusinessID bid)"
  by (simp_all add: finder_defs query_keeps query_keeps(2) [where g = "\<lambda>_ x. x"])

lemma wallet_Create_keeps [keeps_rules]: "keeps I (wallet_Create bid x)"
  unfolding wallet_Create_def
  by (rule statement_keeps, rule keepsI) (force intro: inv_wallet_new)

lemma update_wallet_keeps [keeps_rules]: "keeps I (update_wallet e bid cond f)"
  unfolding update_wallet_def
  by (rule statement_keeps) (auto simp: keeps_def inv_wallet split: option.splits)

lemma balance_updates_keep [keeps_rules]:
  "keeps I (IncrementBalance bid amount)"
  "keeps I (DecrementBalanceAndLocked bid amount locked)"
  "keeps I (IncrementLocked bid amount)"
  "keeps I (DecrementLocked bid amount)"
  by (rule keepsI, simp only: IncrementBalance_def DecrementBalanceAndLocked_def IncrementLocked_def
        DecrementLocked_def, rule keeps_attempt, erule update_wallet_keeps [THEN keepsD], simp,
      simp add: keepsD finders_keep)+

lemma wallet_tx_page_keeps [keeps_rules]: "keeps I (walletTx_FindByBusinessID bid page limit)"
  unfolding walletTx_FindByBusinessID_def Let_def
  by (rule keepsI, rule keeps_attempt) (auto intro!: keepsD [OF query_keeps(1)])

lemma walletTx_Create_keeps [keeps_rules]: "keeps I (walletTx_Create t)"
  unfolding walletTx_Create_def by (rule statement_keeps) (simp add: keeps_def inv_wallet_tx with_defaults_def)

lemma transfer_Create_keeps [keeps_rules]: "keeps I (transfer_Create t)"
  unfolding transfer_Create_def
  by (rule statement_keeps) (simp add: keeps_def inv_transfer_new new_row_def has_reference_def Let_def)

lemma insert_all_keeps:
  "I w \<Longrightarrow> distinct (map t_Reference ts) \<Longrightarrow> (\<forall>t \<in> set ts. \<not> has_reference (t_Reference t) w) \<Longrightarrow>
   I (snd (insert_all ts w))"
proof (induction ts arbitrary: w)
  case Nil
  then show ?case by simp
next
  case (Cons t ts)
  have "I (w\<lparr>transfers := transfers w @ [new_row w t]\<rparr>)"
    using Cons.prems by (intro inv_transfer_new) (auto simp: new_row_def has_reference_def)
  then have "I (snd (insert_all ts (w\<lparr>transfers := transfers w @ [new_row w t]\<rparr>)))"
    using Cons.prems by (intro Cons.IH) (auto simp: has_reference_def new_row_def rev_image_eqI)
  then show ?case by (auto simp: Let_def split: prod.splits)
qed

lemma transfer_CreateBatch_keeps [keeps_rules]: "keeps I (transfer_CreateBatch ts)"
proof (cases "ts = []")
  case True
  then show ?thesis by (simp add: keeps_def transfer_CreateBatch_def)
next
  case False
  have "keeps I (\<lambda>w. if \<not> distinct (map t_Reference ts) \<or> (\<exists>t \<in> set ts. has_reference (t_Reference t) w)
         then (Inl (Sentinel ErrConflict), w)
         else (let (rows, w) = insert_all ts w in (Inr rows, w)))"
    by (rule keepsI) (auto simp: Let_def split: prod.splits dest: insert_all_keeps)
  then show ?thesis using False statement_keeps by (simp add: transfer_CreateBatch_def keeps_def)
qed

lemma transfer_Update_keeps [keeps_rules]: "keeps I (transfer_Update t)"
proof (cases "t_ID t = 0")
  case True
  then show ?thesis using transfer_Create_keeps by (simp add: keeps_def transfer_Update_def)
next
  case False
  have "keeps I (\<lambda>w. if \<exists>u \<in> set (transfers w). t_ID u \<noteq> t_ID t \<and> t_Reference u = t_Reference t
         then (Inl (Sentinel ErrConflict), w)
         else (Inr t, w\<lparr>transfers := map (\<lambda>u. if t_ID u = t_ID t then t else u) (transfers w)\<rparr>))"
    by (rule keepsI) (auto intro!: inv_transfer_upd)
  then show ?thesis using False statement_keeps by (simp add: transfer_Update_def keeps_def)
qed

lemma transfer_page_keeps [keeps_rules]: "keeps I (transfer_FindByBusinessID bid page limit)"
  unfolding transfer_FindByBusinessID_def Let_def
  by (rule keepsI, rule keeps_attempt) (auto intro!: keepsD [OF query_keeps(1)])

lemma lookups_keep [keeps_rules]:
  "keeps I (employee_FindByIDs ids bid)" "keeps I (cadre_FindByIDs ids bid)"
  unfolding employee_FindByIDs_def cadre_FindByIDs_def
  by (rule keepsI, simp add: keepsD [OF query_keeps(1)])+

lemmas store_results = finders_keep [THEN keepsD] balance_updates_keep [THEN keepsD]
  wallet_Create_keeps [THEN keepsD] walletTx_Create_keeps [THEN keepsD]
  wallet_tx_page_keeps [THEN keepsD] transfer_Create_keeps [THEN keepsD]
  transfer_CreateBatch_keeps [THEN keepsD] transfer_Update_keeps [THEN keepsD]
  transfer_page_keeps [THEN keepsD] lookups_keep [THEN keepsD] now_keeps [THEN keepsD]
  rand_hex_keeps [THEN keepsD]

lemmas results = keeps_attempt [where I = I] keeps_case [where I = I] store_results

end

text \<open>The invariants that do not look at payroll runs and the job queue either.\<close>

locale run_invariant = payment_invariant +
  assumes inv_scheduled: "\<And>c w. I (w\<lparr>scheduled := c\<rparr>) = I w"
    and inv_runs: "\<And>rs w. I (w\<lparr>runs := rs\<rparr>) = I w"
begin

lemma payroll_writes_keep [keeps_rules]: "keeps I (payroll_Create r)" "keeps I (payroll_Update r)"
  unfolding payroll_Create_def payroll_Update_def
  by (rule statement_keeps, simp add: keeps_def Let_def inv_runs)+

lemmas run_results = results payroll_writes_keep [THEN keepsD]

end

text \<open>Nor at loans.\<close>

locale table_invariant = run_invariant +
  assumes inv_loans: "\<And>ls w. I (w\<lparr>loans := ls\<rparr>) = I w"
begin

lemma loan_writes_keep [keeps_rules]: "keeps I (loan_Create l)" "keeps I (loan_Update l)"
  unfolding loan_Create_def loan_Update_def
  by (rule statement_keeps, simp add: keeps_def Let_def inv_loans)+

end

text \<open>Payments leave payroll runs and loans alone.\<close>

interpretation payroll_frame: payment_invariant "\<lambda>w. runs w = rs \<and> loans w = ls \<and> scheduled w = jobs" for rs ls jobs
  by unfold_locales simp_all

end
