(* ===== verification/Loans.thy ===== *)
theory Loans
  imports Store
begin

text \<open>
  Employee loans: the operations of \<^verbatim>\<open>internal/service/loan_service.go\<close> and the
  repayment at the end of a payroll run, \<^verbatim>\<open>updateLoanBalances\<close> of
  \<^verbatim>\<open>payroll_processing.go\<close>.
\<close>

section \<open>Operations\<close>

definition loan_new :: "loan \<Rightarrow> loan" where
  "loan_new l = l\<lparr>l_TotalRepaid := 0, l_RemainingBalance := l_LoanAmount l, l_Status := LoanActive\<rparr>"

definition createLoan :: "loan \<Rightarrow> world \<Rightarrow> loan res \<times> world" where
  "createLoan l w =
     attempt (loan_Create (loan_new l) w)
       (\<lambda>e w. (Inl (Wrap ''failed to create loan: '' e []), w)) (\<lambda>l w. (Inr l, w))"

text \<open>The error of the count is dropped, as in the code.\<close>

definition loan_page :: "nat \<Rightarrow> nat \<Rightarrow> nat \<Rightarrow> world \<Rightarrow> loan list" where
  "loan_page bid page limit w =
     take limit (drop ((page - 1) * limit) (filter (\<lambda>l. l_BusinessID l = bid) (rev (loans w))))"

definition loan_FindByBusinessID :: "nat \<Rightarrow> nat \<Rightarrow> nat \<Rightarrow> world \<Rightarrow> (loan list \<times> nat) res \<times> world" where
  "loan_FindByBusinessID bid page limit w =
     attempt (statement (\<lambda>w. (Inr (length (filter (\<lambda>l. l_BusinessID l = bid) (loans w))), w)) w)
       (\<lambda>_ w. statement (\<lambda>w. (Inr (loan_page bid page limit w, 0), w)) w)
       (\<lambda>total w. statement (\<lambda>w. (Inr (loan_page bid page limit w, total), w)) w)"

definition listLoans :: "nat \<Rightarrow> int \<Rightarrow> int \<Rightarrow> world \<Rightarrow> (loan list \<times> nat) res \<times> world" where
  "listLoans bid page limit w =
     loan_FindByBusinessID bid (if page \<le> 0 then 1 else nat page) (if limit \<le> 0 then 20 else nat limit) w"

definition getActiveLoans :: "nat \<Rightarrow> world \<Rightarrow> loan list res \<times> world" where
  "getActiveLoans emp w = loan_FindActiveByEmployeeID emp w"

definition cancelLoan :: "nat \<Rightarrow> nat \<Rightarrow> world \<Rightarrow> unit res \<times> world" where
  "cancelLoan i bid w =
     attempt (loan_FindByID i w)
       (\<lambda>_ w. (Inl (Sentinel ErrNotFound), w))
       (\<lambda>l w.
          if l_BusinessID l \<noteq> bid then (Inl (Sentinel ErrForbidden), w)
          else if l_Status l \<noteq> LoanActive
          then (Inl (Wrap [] (Sentinel ErrValidationFailed) '': can only cancel active loans''), w)
          else loan_Update (l\<lparr>l_Status := LoanCancelled\<rparr>) w)"

section \<open>Repayment\<close>

definition repayment :: "loan \<Rightarrow> int64" where
  "repayment l = (if l_MonthlyDeduction l > l_RemainingBalance l then l_RemainingBalance l else l_MonthlyDeduction l)"

definition repay :: "loan \<Rightarrow> loan" where
  "repay l =
     (let a = repayment l;
          l = l\<lparr>l_TotalRepaid := add64 (l_TotalRepaid l) a, l_RemainingBalance := sub64 (l_RemainingBalance l) a\<rparr>
      in if l_RemainingBalance l \<le> 0 then l\<lparr>l_Status := LoanCompleted\<rparr> else l)"

text \<open>The loop over the active loans of one employee; the error of an update is only logged.\<close>

fun repay_loans :: "loan list \<Rightarrow> world \<Rightarrow> world" where
  "repay_loans [] w = w"
| "repay_loans (l # ls) w =
     (if l_RemainingBalance l \<le> 0 then repay_loans ls w
      else repay_loans ls (snd (loan_Update (repay l) w)))"

fun updateLoanBalances :: "payroll_entry list \<Rightarrow> world \<Rightarrow> world" where
  "updateLoanBalances [] w = w"
| "updateLoanBalances (en # ens) w =
     (if pe_Employee en = None then updateLoanBalances ens w
      else attempt (loan_FindActiveByEmployeeID (pe_EmployeeID en) w)
             (\<lambda>_ w. updateLoanBalances ens w) (\<lambda>ls w. updateLoanBalances ens (repay_loans ls w)))"

context table_invariant
begin

lemma loan_page_keeps: "I w \<Longrightarrow> I (snd (loan_FindByBusinessID bid page limit w))"
  unfolding loan_FindByBusinessID_def by (rule keeps_attempt) (auto intro!: keepsD [OF query_keeps(1)])

lemma repay_loans_keeps: "I w \<Longrightarrow> I (repay_loans ls w)"
proof (induction ls arbitrary: w)
  case (Cons l ls)
  have "I (snd (loan_Update (repay l) w))" by (rule loan_writes_keep(2) [THEN keepsD, OF Cons.prems])
  from Cons.IH [OF this] Cons.IH [OF Cons.prems] show ?case by (simp only: repay_loans.simps if_split simp_thms)
qed (simp only: repay_loans.simps)

lemma updateLoanBalances_keeps: "I w \<Longrightarrow> I (updateLoanBalances ens w)"
proof (induction ens arbitrary: w)
  case (Cons en ens)
  have "I (snd (loan_FindActiveByEmployeeID (pe_EmployeeID en) w))" using Cons.prems by (rule store_results)
  then show ?case
    using Cons.IH [OF Cons.prems] Cons.IH [OF repay_loans_keeps] Cons.IH
    by (cases "loan_FindActiveByEmployeeID (pe_EmployeeID en) w"; cases "fst (loan_FindActiveByEmployeeID (pe_EmployeeID en) w)")
      (simp_all only: updateLoanBalances.simps attempt_simps fst_conv snd_conv if_split simp_thms)
qed (simp only: updateLoanBalances.simps)

lemma loan_service_keeps:
  "I w \<Longrightarrow> I (snd (createLoan l w))" "I w \<Longrightarrow> I (snd (cancelLoan i bid w))"
  unfolding createLoan_def cancelLoan_def
  by (auto intro!: results loan_writes_keep [THEN keepsD])

end

text \<open>
  The contract of the loan service with the invariants of the payroll services, which may speak
  of the loans. An invariant that does not is a special case.
\<close>

locale loan_invariant = run_invariant +
  assumes inv_create: "\<And>l w. I w \<Longrightarrow> 0 \<le> l_LoanAmount l \<Longrightarrow> 0 \<le> l_MonthlyDeduction l \<Longrightarrow>
      in64 (l_LoanAmount l) \<Longrightarrow> I (snd (createLoan l w))"
    and inv_cancel: "\<And>i bid w. I w \<Longrightarrow> I (snd (cancelLoan i bid w))"
    and inv_repay: "\<And>ens w. I w \<Longrightarrow> I (updateLoanBalances ens w)"

sublocale table_invariant < loan_invariant
  by unfold_locales (simp_all add: loan_service_keeps updateLoanBalances_keeps)

section \<open>The loan book\<close>

definition loan_ok :: "loan \<Rightarrow> bool" where
  "loan_ok l \<longleftrightarrow> 0 \<le> l_TotalRepaid l \<and> 0 \<le> l_RemainingBalance l \<and> 0 \<le> l_MonthlyDeduction l \<and>
     l_TotalRepaid l + l_RemainingBalance l = l_LoanAmount l \<and> in64 (l_LoanAmount l) \<and>
     (l_Status l = LoanCompleted \<longrightarrow> l_RemainingBalance l = 0)"

definition loans_ok :: "world \<Rightarrow> bool" where
  "loans_ok w \<longleftrightarrow> (\<forall>l \<in> set (loans w). loan_ok l)"

lemma loan_ok_new: "0 \<le> l_LoanAmount l \<Longrightarrow> 0 \<le> l_MonthlyDeduction l \<Longrightarrow> in64 (l_LoanAmount l) \<Longrightarrow> loan_ok (loan_new l)"
  by (simp add: loan_ok_def loan_new_def)

lemma loan_ok_ID [simp]: "loan_ok (l\<lparr>l_ID := n\<rparr>) = loan_ok l"
  by (simp add: loan_ok_def)

lemma repay_fields:
  assumes "loan_ok l"
  shows "l_RemainingBalance (repay l) = l_RemainingBalance l - repayment l"
    and "l_TotalRepaid (repay l) = l_TotalRepaid l + repayment l"
    and "l_LoanAmount (repay l) = l_LoanAmount l" and "l_EmployeeID (repay l) = l_EmployeeID l"
    and "l_ID (repay l) = l_ID l" and "l_MonthlyDeduction (repay l) = l_MonthlyDeduction l"
    and "0 \<le> repayment l" and "repayment l \<le> l_RemainingBalance l"
    and "l_Status (repay l) = (if l_RemainingBalance l = repayment l then LoanCompleted else l_Status l)"
proof -
  have "in64 (l_TotalRepaid l + repayment l)" "in64 (l_RemainingBalance l - repayment l)"
    using assms by (auto simp: loan_ok_def repayment_def in64_def)
  then show "l_RemainingBalance (repay l) = l_RemainingBalance l - repayment l"
    "l_TotalRepaid (repay l) = l_TotalRepaid l + repayment l"
    by (simp_all add: repay_def Let_def i64)
  show "l_LoanAmount (repay l) = l_LoanAmount l" "l_EmployeeID (repay l) = l_EmployeeID l"
    "l_ID (repay l) = l_ID l" "l_MonthlyDeduction (repay l) = l_MonthlyDeduction l"
    by (simp_all add: repay_def Let_def)
  show b: "0 \<le> repayment l" "repayment l \<le> l_RemainingBalance l"
    using assms by (auto simp: loan_ok_def repayment_def)
  show "l_Status (repay l) = (if l_RemainingBalance l = repayment l then LoanCompleted else l_Status l)"
    using b \<open>in64 (l_RemainingBalance l - repayment l)\<close> by (auto simp: repay_def Let_def i64)
qed

lemma loan_ok_repay: "loan_ok l \<Longrightarrow> loan_ok (repay l)"
  using repay_fields [of l] by (auto simp: loan_ok_def)

lemma loans_ok_frame [simp]:
  "loans_ok (w\<lparr>faults := fs\<rparr>) = loans_ok w" "loans_ok (w\<lparr>tick := n\<rparr>) = loans_ok w"
  "loans_ok (w\<lparr>provider_breakers := brk\<rparr>) = loans_ok w" "loans_ok (w\<lparr>calls := cs\<rparr>) = loans_ok w"
  "loans_ok (w\<lparr>wallets := ws\<rparr>) = loans_ok w" "loans_ok (w\<lparr>wallet_txs := ts\<rparr>) = loans_ok w"
  "loans_ok (w\<lparr>ledger := ls\<rparr>) = loans_ok w" "loans_ok (w\<lparr>transfers := xs\<rparr>) = loans_ok w"
  "loans_ok (w\<lparr>scheduled := js\<rparr>) = loans_ok w" "loans_ok (w\<lparr>runs := rs\<rparr>) = loans_ok w"
  by (simp_all add: loans_ok_def)

lemma loans_ok_update: "loans_ok w \<Longrightarrow> loan_ok l \<Longrightarrow> post (\<lambda>_. loans_ok) (loan_Update l w)"
  by (rule wp_loan_Update) (auto simp: loans_ok_def)

lemma repay_loans_ok: "loans_ok w \<Longrightarrow> \<forall>l \<in> set ls. loan_ok l \<Longrightarrow> loans_ok (repay_loans ls w)"
proof (induction ls arbitrary: w)
  case (Cons l ls)
  have "loans_ok (snd (loan_Update (repay l) w))"
    using loans_ok_update [OF Cons.prems(1) loan_ok_repay] Cons.prems(2) by (simp add: post_def)
  then show ?case using Cons by simp
qed simp

lemma updateLoanBalances_ok: "loans_ok w \<Longrightarrow> loans_ok (updateLoanBalances ens w)"
proof (induction ens arbitrary: w)
  case (Cons en ens)
  have "post (\<lambda>r w'. loans_ok w' \<and> (\<forall>ls. r = Inr ls \<longrightarrow> (\<forall>l \<in> set ls. loan_ok l)))
      (loan_FindActiveByEmployeeID (pe_EmployeeID en) w)"
    using Cons.prems by (intro wp_lists) (auto simp: loans_ok_def)
  then show ?case using Cons.prems
    by (auto simp: post_def split: attempt_split intro!: Cons.IH repay_loans_ok)
qed simp

lemma createLoan_ok:
  "loans_ok w \<Longrightarrow> 0 \<le> l_LoanAmount l \<Longrightarrow> 0 \<le> l_MonthlyDeduction l \<Longrightarrow> in64 (l_LoanAmount l) \<Longrightarrow>
   post (\<lambda>_. loans_ok) (createLoan l w)"
  using loan_ok_new [of l] unfolding createLoan_def by (auto intro!: wp simp: loans_ok_def)

lemma cancelLoan_ok: "loans_ok w \<Longrightarrow> post (\<lambda>_. loans_ok) (cancelLoan i bid w)"
  unfolding cancelLoan_def by (auto intro!: wp simp: loans_ok_def loan_ok_def)

interpretation loan_book: loan_invariant loans_ok
  by unfold_locales
    (simp_all add: updateLoanBalances_ok createLoan_ok [unfolded post_def] cancelLoan_ok [unfolded post_def])

text \<open>Without faults, each active loan of a paid employee is repaid once.\<close>

definition repaid :: "nat set \<Rightarrow> loan \<Rightarrow> loan" where
  "repaid emps l = (if l_EmployeeID l \<in> emps \<and> l_Status l = LoanActive \<and> 0 < l_RemainingBalance l then repay l else l)"

lemma repay_keys [simp]: "l_EmployeeID (repay l) = l_EmployeeID l" "l_ID (repay l) = l_ID l"
  by (simp_all add: repay_def Let_def)

lemma repaid_keys [simp]: "l_EmployeeID (repaid emps l) = l_EmployeeID l" "l_ID (repaid emps l) = l_ID l"
  by (simp_all add: repaid_def)

lemma repaid_empty [simp]: "repaid {} = (\<lambda>l. l)"
  by (simp add: repaid_def fun_eq_iff)

lemma repaid_twice: "emp \<notin> emps \<Longrightarrow> repaid emps (repaid {emp} l) = repaid (insert emp emps) l"
  by (cases "l_EmployeeID l = emp") (auto simp: repaid_def)

lemma repay_loans_clean:
  assumes "faults w = []" and "distinct (map l_ID (loans w))" and "set ls \<subseteq> set (loans w)" and "distinct ls"
  shows "repay_loans ls w = w\<lparr>loans := map (\<lambda>u. if u \<in> set ls \<and> 0 < l_RemainingBalance u then repay u else u) (loans w)\<rparr>"
  using assms
proof (induction ls arbitrary: w)
  case (Cons l ls)
  have inj: "\<And>u. u \<in> set (loans w) \<Longrightarrow> l_ID u = l_ID l \<Longrightarrow> u = l"
    using Cons.prems(2,3) by (auto simp: distinct_map inj_on_def)
  show ?case
  proof (cases "l_RemainingBalance l \<le> 0")
    case True
    with Cons show ?thesis by (auto intro!: map_cong arg_cong [where f = "\<lambda>x. w\<lparr>loans := x\<rparr>"])
  next
    case False
    let ?w = "w\<lparr>loans := map (\<lambda>u. if l_ID u = l_ID l then repay l else u) (loans w)\<rparr>"
    have upd: "snd (loan_Update (repay l) w) = ?w" using Cons.prems(1) by (simp add: loan_Update_def)
    have ids: "map l_ID (loans ?w) = map l_ID (loans w)" by simp
    have dist: "distinct (map l_ID (loans ?w))" unfolding ids by (rule Cons.prems(2))
    have sub: "set ls \<subseteq> set (loans ?w)"
    proof
      fix x assume x: "x \<in> set ls"
      with Cons.prems(3,4) have "x \<in> set (loans w)" "x \<noteq> l" by auto
      with inj have "l_ID x \<noteq> l_ID l" by blast
      with \<open>x \<in> set (loans w)\<close> show "x \<in> set (loans ?w)" by (auto simp: image_iff intro!: bexI [of _ x])
    qed
    have IH: "repay_loans ls ?w =
        ?w\<lparr>loans := map (\<lambda>u. if u \<in> set ls \<and> 0 < l_RemainingBalance u then repay u else u) (loans ?w)\<rparr>"
      using Cons.prems(1,4) by (intro Cons.IH [OF _ dist sub]) simp_all
    have new: "repay l \<notin> set ls"
    proof
      assume "repay l \<in> set ls"
      with Cons.prems(3) have "repay l \<in> set (loans w)" by auto
      from inj [OF this] have "repay l = l" by simp
      with \<open>repay l \<in> set ls\<close> Cons.prems(4) show False by simp
    qed
    let ?f = "\<lambda>ls u. if u \<in> set ls \<and> 0 < l_RemainingBalance u then repay u else u"
    have "map (?f ls) (loans ?w) = map (?f (l # ls)) (loans w)"
    proof -
      have "?f ls (if l_ID u = l_ID l then repay l else u) = ?f (l # ls) u" if "u \<in> set (loans w)" for u
        using inj [OF that] new False by (cases "u = l") auto
      then show ?thesis by simp
    qed
    with False upd IH show ?thesis by simp
  qed
qed simp

definition paid_employees :: "payroll_entry list \<Rightarrow> nat list" where
  "paid_employees ens = map pe_EmployeeID (filter (\<lambda>en. pe_Employee en \<noteq> None) ens)"

lemma paid_employees_simps [simp]:
  "paid_employees [] = []"
  "paid_employees (en # ens) = (if pe_Employee en = None then [] else [pe_EmployeeID en]) @ paid_employees ens"
  by (simp_all add: paid_employees_def)

lemma updateLoanBalances_clean:
  assumes "faults w = []" and "distinct (map l_ID (loans w))" and "distinct (paid_employees ens)"
  shows "updateLoanBalances ens w = w\<lparr>loans := map (repaid (set (paid_employees ens))) (loans w)\<rparr>"
  using assms
proof (induction ens arbitrary: w)
  case (Cons en ens)
  show ?case
  proof (cases "pe_Employee en = None")
    case True
    with Cons show ?thesis by simp
  next
    case False
    then obtain y where y: "pe_Employee en = Some y" by blast
    let ?emp = "pe_EmployeeID en"
    let ?ls = "filter (\<lambda>l. l_EmployeeID l = ?emp \<and> l_Status l = LoanActive) (loans w)"
    let ?w = "w\<lparr>loans := map (repaid {?emp}) (loans w)\<rparr>"
    have "distinct ?ls" using Cons.prems(2) by (simp add: distinct_map)
    then have "repay_loans ?ls w = ?w"
      using Cons.prems(1,2) by (subst repay_loans_clean) (auto simp: repaid_def)
    moreover have "loan_FindActiveByEmployeeID ?emp w = (Inr ?ls, w)"
      using Cons.prems(1) by (simp add: loan_FindActiveByEmployeeID_def)
    moreover have "updateLoanBalances ens ?w = ?w\<lparr>loans := map (repaid (set (paid_employees ens))) (loans ?w)\<rparr>"
      using Cons.prems False by (intro Cons.IH) (simp_all add: comp_def)
    moreover have "?emp \<notin> set (paid_employees ens)" using False Cons.prems(3) by auto
    ultimately show ?thesis using y by (simp add: repaid_twice comp_def)
  qed
qed simp

section \<open>Properties\<close>

text \<open>
  The loan book stays consistent. Creating a loan with a non-negative amount and
  instalment, cancelling one and the repayments of a payroll run keep, under every schedule of
  faults, every loan well formed: what is repaid and what remains are non-negative and add up
  to the amount of the loan, and a completed loan has nothing left.
\<close>

theorem loan_book_consistent:
  assumes "loans_ok w" and "0 \<le> l_LoanAmount l" and "in64 (l_LoanAmount l)" and "0 \<le> l_MonthlyDeduction l"
  shows "loans_ok (snd (createLoan l w)) \<and> loans_ok (snd (cancelLoan i bid w)) \<and> loans_ok (updateLoanBalances ens w)"
  using loan_book.inv_create [OF assms(1,2,4,3)] loan_book.inv_cancel [OF assms(1)] loan_book.inv_repay [OF assms(1)]
  by blast

text \<open>
  A payroll run repays each loan once. When no statement fails and no employee is paid
  twice in the run, the loans afterwards are those before, where each active loan with a
  balance of an employee who was paid has repaid the instalment, or what was left of it, and is
  completed exactly when nothing is left; no other loan changes.
\<close>

theorem run_repays_once:
  assumes "faults w = []" and "distinct (map l_ID (loans w))" and "distinct (paid_employees ens)" and "loans_ok w"
  shows "loans (updateLoanBalances ens w) = map (repaid (set (paid_employees ens))) (loans w) \<and>
    (\<forall>l \<in> set (loans w). l_EmployeeID l \<in> set (paid_employees ens) \<and> l_Status l = LoanActive \<and> 0 < l_RemainingBalance l \<longrightarrow>
       l_TotalRepaid (repay l) = l_TotalRepaid l + min (l_MonthlyDeduction l) (l_RemainingBalance l) \<and>
       l_RemainingBalance (repay l) = l_RemainingBalance l - min (l_MonthlyDeduction l) (l_RemainingBalance l) \<and>
       (l_Status (repay l) = LoanCompleted \<longleftrightarrow> l_RemainingBalance (repay l) = 0))"
proof -
  have "repayment l = min (l_MonthlyDeduction l) (l_RemainingBalance l)" for l
    by (simp add: repayment_def min_def)
  then show ?thesis
    using updateLoanBalances_clean [OF assms(1-3)] assms(4) repay_fields by (auto simp: loans_ok_def)
qed

definition sample_loan :: loan where
  "sample_loan = \<lparr>l_ID = 1, l_BusinessID = 1, l_EmployeeID = 7, l_LoanAmount = 500, l_MonthlyDeduction = 300,
     l_TotalRepaid = 300, l_RemainingBalance = 200, l_Status = LoanActive, l_Description = ''laptop''\<rparr>"

definition loan_world :: "world \<Rightarrow> world" where
  "loan_world w = w\<lparr>loans := [sample_loan], faults := []\<rparr>"

definition sample_entry :: payroll_entry where
  "sample_entry = \<lparr>pe_ID = 1, pe_EmployeeID = 7, pe_GrossPay = 1000, pe_TotalDeductions = 200, pe_Bonuses = 0,
     pe_NetPay = 800, pe_EmployerPension = 0, pe_EmployerNSITF = 0, pe_TotalEmployerCost = 0,
     pe_TotalCostToCompany = 1000,
     pe_Employee = Some \<lparr>e_ID = 7, e_BusinessID = 1, e_CadreID = 1, e_FullName = ''Ada'', e_Email = ''a@b.c'',
       e_BankName = ''GTBank'', e_BankCode = ''058'', e_BankAccountNumber = ''0123456789'',
     e_PhoneNumber = [], e_IsActive = True,
       e_BankAccountVerified = True, e_BankAccountName = ''ADA'', e_TIN = None, e_PensionRSAPIN = None,
     e_NHFNumber = None, e_AnnualRentPaid = 0, e_UserID = None, e_StartDate = None, e_Cadre = None\<rparr>,
     pe_Details = []\<rparr>"

theorem loan_book_consistent_witness:
  "\<forall>w. loans_ok (snd (createLoan (sample_loan\<lparr>l_LoanAmount := 900\<rparr>) (loan_world w)))"
  using loan_book_consistent [of "loan_world w" "sample_loan\<lparr>l_LoanAmount := 900\<rparr>" for w]
  by (simp add: loan_world_def loans_ok_def loan_ok_def sample_loan_def in64_def)

theorem run_repays_once_witness:
  "\<forall>w. map l_Status (loans (updateLoanBalances [sample_entry] (loan_world w))) = [LoanCompleted]"
  using run_repays_once [of "loan_world w" "[sample_entry]" for w]
  by (simp add: loan_world_def loans_ok_def loan_ok_def sample_loan_def sample_entry_def in64_def repaid_def
      repay_def repayment_def sub64_def)

end
