(* ===== verification/Ledger.thy ===== *)
theory Ledger
  imports Loans
begin

text \<open>
  The double-entry ledger of \<^verbatim>\<open>internal/service/ledger_service.go\<close>. Every operation
  writes a debit and a credit of the same amount under one random transaction identifier, in
  one database transaction. \<open>RecordDeposit\<close> and \<open>RecordWithdrawal\<close> of this service
  are called \<open>ledger_RecordDeposit\<close> and \<open>ledger_RecordWithdrawal\<close> here, as the wallet
  service has operations of the same names.
\<close>

definition generateLedgerTxnID :: "world \<Rightarrow> string \<times> world" where
  "generateLedgerTxnID w = (let (b, w) = rand_hex w in (''TXN-'' @ take 16 b, w))"

definition ledger_row :: "nat \<Rightarrow> string \<Rightarrow> AccountType \<Rightarrow> EntryType \<Rightarrow> int64 \<Rightarrow> string \<Rightarrow> string \<Rightarrow> ledger_entry" where
  "ledger_row bid txn acc ty amount ref desc =
     \<lparr>le_BusinessID = bid, le_TransactionID = txn, le_AccountType = acc, le_EntryType = ty,
      le_Amount = amount, le_Description = desc, le_Reference = ref\<rparr>"

definition ledger_RecordDeposit :: "nat \<Rightarrow> int64 \<Rightarrow> string \<Rightarrow> string \<Rightarrow> world \<Rightarrow> unit res \<times> world" where
  "ledger_RecordDeposit bid amount ref desc w =
     (let (txn, w) = generateLedgerTxnID w;
          credit = ledger_row bid txn AccountWallet EntryCredit amount ref desc;
          debit = ledger_row bid txn AccountExternal EntryDebit amount ref desc
      in ledger_CreatePair debit credit w)"

definition ledger_RecordWithdrawal :: "nat \<Rightarrow> int64 \<Rightarrow> string \<Rightarrow> string \<Rightarrow> world \<Rightarrow> unit res \<times> world" where
  "ledger_RecordWithdrawal bid amount ref desc w =
     (let (txn, w) = generateLedgerTxnID w;
          debit = ledger_row bid txn AccountWallet EntryDebit amount ref desc;
          credit = ledger_row bid txn AccountExternal EntryCredit amount ref desc
      in ledger_CreatePair debit credit w)"

definition RecordFee :: "nat \<Rightarrow> int64 \<Rightarrow> string \<Rightarrow> string \<Rightarrow> world \<Rightarrow> unit res \<times> world" where
  "RecordFee bid amount ref desc w =
     (let (txn, w) = generateLedgerTxnID w;
          debit = ledger_row bid txn AccountWallet EntryDebit amount ref desc;
          credit = ledger_row bid txn AccountRevenue EntryCredit amount ref desc
      in ledger_CreatePair debit credit w)"

record ReconciliationResult =
  rc_BusinessID :: nat
  rc_WalletBalance :: int64
  rc_LedgerCredits :: int64
  rc_LedgerDebits :: int64
  rc_LedgerBalance :: int64
  rc_Discrepancy :: int64
  rc_IsReconciled :: bool

definition Reconcile :: "nat \<Rightarrow> int64 \<Rightarrow> world \<Rightarrow> ReconciliationResult res \<times> world" where
  "Reconcile bid walletBalance w =
     attempt (ledger_Reconcile bid w)
       (\<lambda>e w. (Inl (Wrap ''reconciliation failed: '' e []), w))
       (\<lambda>(credits, debits, ledgerBalance) w.
          (let discrepancy = sub64 walletBalance ledgerBalance
           in (Inr \<lparr>rc_BusinessID = bid, rc_WalletBalance = walletBalance, rc_LedgerCredits = credits,
                    rc_LedgerDebits = debits, rc_LedgerBalance = ledgerBalance,
                    rc_Discrepancy = discrepancy, rc_IsReconciled = (discrepancy = 0)\<rparr>, w)))"

lemmas ledger_op_defs = ledger_RecordDeposit_def ledger_RecordWithdrawal_def RecordFee_def

text \<open>The pairs an invariant has to accept are exactly those the three operations write.\<close>

context payment_invariant
begin

lemma pair_keeps:
  "keeps I (\<lambda>w. ledger_CreatePair (ledger_row bid txn a1 EntryDebit amount ref desc)
                  (ledger_row bid txn a2 EntryCredit amount ref desc) w)"
  unfolding ledger_CreatePair_def
  by (rule statement_keeps) (auto simp: keeps_def ledger_row_def intro!: inv_ledger)

lemma txn_keeps [keeps_rules]: "keeps I generateLedgerTxnID"
  by (simp add: keeps_def generateLedgerTxnID_def rand_hex_def inv_tick)

lemma ledger_ops_keep [keeps_rules]:
  "keeps I (ledger_RecordDeposit bid amount ref desc)"
  "keeps I (ledger_RecordWithdrawal bid amount ref desc)"
  "keeps I (RecordFee bid amount ref desc)"
  unfolding ledger_op_defs Let_def
  by (rule keepsI, rule keeps_case, erule keepsD [OF txn_keeps], rule keepsD [OF pair_keeps], assumption)+

lemmas ledger_results = ledger_ops_keep [THEN keepsD]

end

lemma ledger_row_amount [simp]: "le_Amount (ledger_row bid txn acc ty a ref desc) = a"
  by (simp add: ledger_row_def)

lemma clean_pair [clean]:
  assumes "faults w = []"
    and "a \<le> 0 \<Longrightarrow> Q (Inl db_error) w"
    and "0 < a \<Longrightarrow> Q (Inr ()) (w\<lparr>ledger := ledger w @ [ledger_row bid txn a1 t1 a ref desc,
                                                    ledger_row bid txn a2 t2 a ref desc]\<rparr>)"
  shows "post Q (ledger_CreatePair (ledger_row bid txn a1 t1 a ref desc) (ledger_row bid txn a2 t2 a ref desc) w)"
  using assms by (cases "0 < a") (auto intro!: clean_ledger_CreatePair)

section \<open>Sums over the entries\<close>

lemma entry_sum_Nil [simp]: "entry_sum bid acc ty [] = 0"
  by (simp add: entry_sum_def)

lemma entry_sum_append [simp]:
  "entry_sum bid acc ty (xs @ ys) = entry_sum bid acc ty xs + entry_sum bid acc ty ys"
  by (simp add: entry_sum_def)

lemma entry_sum_Cons [simp]:
  "entry_sum bid acc ty (e # es) =
     (if le_BusinessID e = bid \<and> le_AccountType e = acc \<and> le_EntryType e = ty then le_Amount e else 0) +
     entry_sum bid acc ty es"
  by (simp add: entry_sum_def)

definition wallet_net :: "nat \<Rightarrow> ledger_entry list \<Rightarrow> int" where
  "wallet_net bid es = entry_sum bid AccountWallet EntryCredit es - entry_sum bid AccountWallet EntryDebit es"

lemma wallet_net_append [simp]: "wallet_net bid (xs @ ys) = wallet_net bid xs + wallet_net bid ys"
  by (simp add: wallet_net_def)

text \<open>All entries of one kind of one ledger transaction of one business.\<close>

definition txn_sum :: "nat \<Rightarrow> string \<Rightarrow> EntryType \<Rightarrow> ledger_entry list \<Rightarrow> int" where
  "txn_sum bid txn ty es =
     (\<Sum>e\<leftarrow>filter (\<lambda>e. le_BusinessID e = bid \<and> le_TransactionID e = txn \<and> le_EntryType e = ty) es. le_Amount e)"

definition ledger_balanced :: "world \<Rightarrow> bool" where
  "ledger_balanced w \<longleftrightarrow>
     (\<forall>e \<in> set (ledger w). le_Amount e > 0) \<and>
     (\<forall>bid txn. txn_sum bid txn EntryDebit (ledger w) = txn_sum bid txn EntryCredit (ledger w))"

interpretation ledger_inv: table_invariant ledger_balanced
  by unfold_locales (auto simp: ledger_balanced_def txn_sum_def)

section \<open>Wallet balances and unique keys\<close>

definition wallets_ok :: "world \<Rightarrow> bool" where
  "wallets_ok w \<longleftrightarrow> distinct (map fst (wallets w)) \<and>
     (\<forall>(b, x) \<in> set (wallets w). bigint_nonneg (w_Balance x) \<and> bigint_nonneg (w_LockedBalance x))"

lemma set_update_pairs: "p \<in> set (AList.update k v ps) \<Longrightarrow> p = (k, v) \<or> p \<in> set ps"
  by (induction ps) (auto split: if_splits)

interpretation wallet_inv: table_invariant wallets_ok
  by unfold_locales
    (auto simp: wallets_ok_def distinct_update dest!: set_update_pairs)

definition keys_ok :: "world \<Rightarrow> bool" where
  "keys_ok w \<longleftrightarrow> distinct (map wt_Reference (wallet_txs w)) \<and> distinct (map t_Reference (transfers w)) \<and>
     map t_ID (transfers w) = [1..<Suc (length (transfers w))]"

lemma distinct_update_row:
  assumes "distinct (map f ts)" and "distinct (map g ts)"
    and "\<forall>u \<in> set ts. g u \<noteq> g t \<longrightarrow> f u \<noteq> f t"
  shows "distinct (map (\<lambda>u. f (if g u = g t then t else u)) ts)"
  using assms by (induction ts) (auto simp: image_iff split: if_splits)

interpretation key_inv: table_invariant keys_ok
proof unfold_locales
  fix t :: transfer and w
  assume "keys_ok w" and "\<forall>u \<in> set (transfers w). t_ID u \<noteq> t_ID t \<longrightarrow> t_Reference u \<noteq> t_Reference t"
  moreover have "map t_ID (map (\<lambda>u. if t_ID u = t_ID t then t else u) (transfers w)) = map t_ID (transfers w)"
    by simp
  ultimately show "keys_ok (w\<lparr>transfers := map (\<lambda>u. if t_ID u = t_ID t then t else u) (transfers w)\<rparr>)"
    using distinct_update_row [of t_Reference "transfers w" t_ID t]
    by (simp add: keys_ok_def comp_def)
qed (auto simp: keys_ok_def has_reference_def)

end
