(* ===== verification/Wallet_Service.thy ===== *)
theory Wallet_Service
  imports Ledger
begin

text \<open>
  The wallet service, \<^verbatim>\<open>internal/service/wallet_service.go\<close>: reads, locks, deposits
  and withdrawals. The ledger is written after the wallet and its errors are only logged, so
  it is a separate step whose result is dropped. The provider of virtual accounts is a
  parameter. First the operations, then what deposits and withdrawals do under every schedule
  of faults, then the abstract accounts they implement, then the agreement of wallet and
  ledger.
\<close>

section \<open>Operations\<close>

definition CreateVirtualAccount ::
  "(va_request \<Rightarrow> va_result res) \<Rightarrow> nat \<Rightarrow> va_request \<Rightarrow> world \<Rightarrow> va_result res \<times> world" where
  "CreateVirtualAccount provider bid req w =
     attempt (wallet_FindByBusinessID bid w)
       (\<lambda>_ w.
          (let (req, w) =
             (if vq_AccountReference req = []
              then (let (t, w) = now w
                    in (req\<lparr>vq_AccountReference :=
                          ''payflow-va-'' @ show_nat bid @ ''-'' @ show_int (t div 1000000000)\<rparr>, w))
              else (req, w));
             req = req\<lparr>vq_BusinessID := bid\<rparr>
           in (case provider req of
                 Inl e \<Rightarrow> (Inl (Wrap ''failed to create virtual account: '' e []), w)
               | Inr result \<Rightarrow>
                   attempt (wallet_Create bid
                     \<lparr>w_Balance = 0, w_LockedBalance = 0,
                      w_Currency = (if va_Currency result = [] then ''NGN'' else va_Currency result),
                      w_AccountNumber = va_AccountNumber result, w_BankCode = va_BankCode result,
                      w_BankName = va_BankName result,
                      w_AccountReference = va_AccountReference result, w_UniqueID = va_UniqueID result,
                      w_AccountStatus =
                        (if va_AccountStatus result = [] then ''active'' else va_AccountStatus result),
                      w_Provider = va_Provider result\<rparr> w)
                     (\<lambda>e w. (Inl (Wrap ''failed to save wallet to database: '' e []), w))
                     (\<lambda>_ w. (Inr result, w)))))
       (\<lambda>_ w. (Inl (Plain (''wallet already exists for business '' @ show_nat bid)), w))"

definition GetWallet :: "nat \<Rightarrow> world \<Rightarrow> wallet res \<times> world" where
  "GetWallet bid w =
     attempt (wallet_FindByBusinessID bid w)
       (\<lambda>e w. (Inl (Wrap ''failed to get wallet: '' e []), w)) (\<lambda>x w. (Inr x, w))"

text \<open>\<open>cached\<close> is what the cache holds for the business: None without a cache or on a miss.\<close>

definition GetBalance :: "int64 option \<Rightarrow> nat \<Rightarrow> world \<Rightarrow> int64 res \<times> world" where
  "GetBalance cached bid w =
     (case cached of
        Some b \<Rightarrow> (Inr b, w)
      | None \<Rightarrow>
          attempt (wallet_FindByBusinessID bid w)
            (\<lambda>e w. (Inl (Wrap ''failed to get wallet balance: '' e []), w))
            (\<lambda>x w. (Inr (w_Balance x), w)))"

definition CheckBalance :: "nat \<Rightarrow> int64 \<Rightarrow> world \<Rightarrow> unit res \<times> world" where
  "CheckBalance bid amount w =
     attempt (wallet_FindByBusinessID bid w)
       (\<lambda>e w. (Inl (Wrap ''wallet not found: '' e []), w))
       (\<lambda>x w.
          (let availableBalance = sub64 (w_Balance x) (w_LockedBalance x)
           in if availableBalance < amount
              then (Inl (Plain (''insufficient balance: available '' @ show_int availableBalance @
                                '', required '' @ show_int amount)), w)
              else (Inr (), w)))"

definition LockBalance :: "nat \<Rightarrow> int64 \<Rightarrow> world \<Rightarrow> unit res \<times> world" where
  "LockBalance bid amount w =
     attempt (IncrementLocked bid amount w)
       (\<lambda>e w. (Inl (Wrap ''insufficient balance or failed to lock: '' e []), w)) (\<lambda>_ w. (Inr (), w))"

definition UnlockBalance :: "nat \<Rightarrow> int64 \<Rightarrow> world \<Rightarrow> unit res \<times> world" where
  "UnlockBalance bid amount w =
     attempt (DecrementLocked bid amount w)
       (\<lambda>e w. (Inl (Wrap ''failed to unlock balance: '' e []), w)) (\<lambda>_ w. (Inr (), w))"

definition deposit_tx :: "nat \<Rightarrow> deposit_notification \<Rightarrow> int64 \<Rightarrow> int64 \<Rightarrow> wallet_tx" where
  "deposit_tx bid n before after =
     \<lparr>wt_BusinessID = bid, wt_Type = WalletTransactionDeposit, wt_Amount = dn_Amount n,
      wt_BalanceBefore = before, wt_BalanceAfter = after, wt_Currency = dn_Currency n,
      wt_Reference = dn_Reference n, wt_ProviderReference = dn_Reference n,
      wt_Description = dn_Description n, wt_TransferID = None, wt_Status = dn_Status n\<rparr>"

definition RecordDeposit :: "nat \<Rightarrow> deposit_notification \<Rightarrow> world \<Rightarrow> unit res \<times> world" where
  "RecordDeposit bid n w =
     attempt (walletTx_FindByReference (dn_Reference n) w)
       (\<lambda>_ w.
          attempt (wallet_FindByBusinessID bid w)
            (\<lambda>e w. (Inl (Wrap ''wallet not found: '' e []), w))
            (\<lambda>x w.
               attempt (IncrementBalance bid (dn_Amount n) w)
                 (\<lambda>e w. (Inl (Wrap ''failed to update wallet balance: '' e []), w))
                 (\<lambda>y w.
                    (let tx = deposit_tx bid n (w_Balance x) (w_Balance y);
                         finish = (\<lambda>w.
                           (let (_, w) = ledger_RecordDeposit bid (dn_Amount n) (dn_Reference n) (dn_Description n) w
                            in (Inr (), w)))
                     in attempt (walletTx_Create tx w)
                          (\<lambda>_ w.
                             attempt (walletTx_Create tx w)
                               (\<lambda>retryErr w.
                                  (let (_, w) = IncrementBalance bid (neg64 (dn_Amount n)) w
                                   in (Inl (Wrap ''failed to record deposit transaction: '' retryErr []), w)))
                               (\<lambda>_ w. finish w))
                          (\<lambda>_ w. finish w)))))
       (\<lambda>_ w. (Inr (), w))"

definition withdrawal_tx ::
  "nat \<Rightarrow> nat \<Rightarrow> int64 \<Rightarrow> string \<Rightarrow> string \<Rightarrow> int64 \<Rightarrow> wallet \<Rightarrow> wallet_tx" where
  "withdrawal_tx bid transferID totalDebit reference providerReference before y =
     \<lparr>wt_BusinessID = bid, wt_Type = WalletTransactionWithdrawal, wt_Amount = totalDebit,
      wt_BalanceBefore = before, wt_BalanceAfter = w_Balance y, wt_Currency = w_Currency y,
      wt_Reference = reference, wt_ProviderReference = providerReference,
      wt_Description = ''Transfer withdrawal: '' @ reference, wt_TransferID = Some transferID,
      wt_Status = ''completed''\<rparr>"

definition withdrawal_ledger :: "nat \<Rightarrow> int64 \<Rightarrow> int64 \<Rightarrow> string \<Rightarrow> world \<Rightarrow> unit \<times> world" where
  "withdrawal_ledger bid amount fee reference w =
     (let (_, w) = ledger_RecordWithdrawal bid amount reference (''Transfer withdrawal: '' @ reference) w
      in if fee > 0
         then (let (_, w) = RecordFee bid fee (reference @ ''-fee'') (''Transfer fee: '' @ reference) w
               in ((), w))
         else ((), w))"

definition RecordWithdrawal ::
  "nat \<Rightarrow> nat \<Rightarrow> int64 \<Rightarrow> int64 \<Rightarrow> string \<Rightarrow> string \<Rightarrow> world \<Rightarrow> unit res \<times> world" where
  "RecordWithdrawal bid transferID amount fee reference providerReference w =
     attempt (walletTx_FindByReference reference w)
       (\<lambda>_ w.
          (let totalDebit = add64 amount fee
           in attempt (wallet_FindByBusinessID bid w)
                (\<lambda>e w. (Inl (Wrap ''wallet not found: '' e []), w))
                (\<lambda>x w.
                   if w_Balance x < totalDebit
                   then (Inl (Plain (''insufficient balance for withdrawal: balance '' @ show_int (w_Balance x) @
                                     '', required '' @ show_int totalDebit)), w)
                   else
                     attempt (DecrementBalanceAndLocked bid totalDebit amount w)
                       (\<lambda>e w. (Inl (Wrap ''failed to update wallet balance: '' e []), w))
                       (\<lambda>y w.
                          (let (_, w) = now w;
                               tx = withdrawal_tx bid transferID totalDebit reference providerReference
                                      (w_Balance x) y
                           in attempt (walletTx_Create tx w)
                                (\<lambda>e w.
                                   (let (_, w) = IncrementBalance bid totalDebit w
                                    in (Inl (Wrap ''failed to record withdrawal transaction: '' e []), w)))
                                (\<lambda>_ w.
                                   (let (_, w) = withdrawal_ledger bid amount fee reference w
                                    in (Inr (), w))))))))
       (\<lambda>_ w. (Inr (), w))"

definition RecordDepositByAccountReference ::
  "string \<Rightarrow> deposit_notification \<Rightarrow> world \<Rightarrow> unit res \<times> world" where
  "RecordDepositByAccountReference ref n w =
     attempt (wallet_FindByAccountReference ref w)
       (\<lambda>e w. (Inl (Wrap (''wallet not found for account reference '' @ ref @ '': '') e []), w))
       (\<lambda>(bid, _) w. RecordDeposit bid n w)"

definition GetTransactions :: "nat \<Rightarrow> int \<Rightarrow> int \<Rightarrow> world \<Rightarrow> (wallet_tx list \<times> nat) res \<times> world" where
  "GetTransactions bid page limit w =
     (let page = (if page \<le> 0 then 1 else page); limit = (if limit \<le> 0 then 10 else limit)
      in attempt (walletTx_FindByBusinessID bid (nat page) (nat limit) w)
           (\<lambda>e w. (Inl (Wrap ''failed to get transactions: '' e []), w)) (\<lambda>r w. (Inr r, w)))"


section \<open>Every operation keeps every table invariant\<close>

context payment_invariant
begin

lemma LockBalance_keeps [keeps_rules]: "keeps I (LockBalance bid a)"
  and UnlockBalance_keeps [keeps_rules]: "keeps I (UnlockBalance bid a)"
  by (rule keepsI, auto simp: LockBalance_def UnlockBalance_def intro!: results)+

lemma wallet_reads_keep [keeps_rules]:
  "keeps I (GetWallet bid)" "keeps I (CheckBalance bid a)" "keeps I (GetTransactions bid page limit)"
  by (rule keepsI, auto simp: GetWallet_def CheckBalance_def GetTransactions_def Let_def intro!: results)+

lemma RecordDeposit_keeps [keeps_rules]: "keeps I (RecordDeposit bid n)"
  unfolding RecordDeposit_def Let_def
  by (rule keepsI) (auto intro!: results ledger_results)

lemma withdrawal_ledger_keeps: "I w \<Longrightarrow> I (snd (withdrawal_ledger bid a fee ref w))"
  unfolding withdrawal_ledger_def Let_def by (auto intro!: results ledger_results)

lemma RecordWithdrawal_keeps [keeps_rules]: "keeps I (RecordWithdrawal bid i a fee ref pref)"
  unfolding RecordWithdrawal_def Let_def
  by (rule keepsI) (auto intro!: results withdrawal_ledger_keeps)

lemma RecordDepositByAccountReference_keeps [keeps_rules]:
  "keeps I (RecordDepositByAccountReference ref n)"
  unfolding RecordDepositByAccountReference_def
  by (rule keepsI) (auto intro!: results RecordDeposit_keeps [THEN keepsD])

lemma CreateVirtualAccount_keeps [keeps_rules]: "keeps I (CreateVirtualAccount provider bid req)"
  unfolding CreateVirtualAccount_def Let_def
  by (rule keepsI) (auto intro!: results split: sum.splits simp: now_def inv_tick)

lemmas wallet_results = LockBalance_keeps [THEN keepsD] UnlockBalance_keeps [THEN keepsD]
  wallet_reads_keep [THEN keepsD] RecordDeposit_keeps [THEN keepsD]
  RecordWithdrawal_keeps [THEN keepsD] RecordDepositByAccountReference_keeps [THEN keepsD]
  CreateVirtualAccount_keeps [THEN keepsD]

end

section \<open>Deposits and withdrawals under every schedule\<close>

text \<open>The references already used, and the effect of one credit or debit on the wallets.\<close>

definition references :: "world \<Rightarrow> string set" where
  "references w = wt_Reference ` set (wallet_txs w)"

definition credited :: "nat \<Rightarrow> int \<Rightarrow> world \<Rightarrow> world \<Rightarrow> bool" where
  "credited bid a w w' \<longleftrightarrow> (\<exists>x. map_of (wallets w) bid = Some x \<and>
     wallets w' = AList.update bid (x\<lparr>w_Balance := w_Balance x + a\<rparr>) (wallets w))"

definition debited :: "nat \<Rightarrow> int \<Rightarrow> int \<Rightarrow> world \<Rightarrow> world \<Rightarrow> bool" where
  "debited bid amt lk w w' \<longleftrightarrow> (\<exists>x. map_of (wallets w) bid = Some x \<and> amt \<le> w_Balance x \<and>
     wallets w' = AList.update bid (x\<lparr>w_Balance := w_Balance x - amt,
                                      w_LockedBalance := max (w_LockedBalance x - lk) 0\<rparr>) (wallets w))"

lemma wp_txn [wp, clean]: "(\<And>txn. Q txn (w\<lparr>tick := Suc (tick w)\<rparr>)) \<Longrightarrow> post Q (generateLedgerTxnID w)"
  by (simp add: generateLedgerTxnID_def rand_hex_def)

definition deposit_outcome :: "nat \<Rightarrow> deposit_notification \<Rightarrow> world \<Rightarrow> unit res \<Rightarrow> world \<Rightarrow> bool" where
  "deposit_outcome bid n w r w' \<longleftrightarrow>
    (case r of
       Inr _ \<Rightarrow>
         (dn_Reference n \<in> references w \<and> wallets w' = wallets w \<and> wallet_txs w' = wallet_txs w \<and>
          ledger w' = ledger w) \<or>
         (dn_Reference n \<notin> references w \<and> credited bid (dn_Amount n) w w' \<and>
          map wt_Reference (wallet_txs w') = map wt_Reference (wallet_txs w) @ [dn_Reference n])
     | Inl _ \<Rightarrow>
         (wallets w' = wallets w \<or> credited bid (dn_Amount n) w w') \<and>
         wallet_txs w' = wallet_txs w \<and> ledger w' = ledger w)"

lemma RecordDeposit_outcome:
  assumes "in64 (dn_Amount n)" and "0 \<le> dn_Amount n"
  shows "post (deposit_outcome bid n w) (RecordDeposit bid n w)"
proof -
  have "neg64 (dn_Amount n) = - dn_Amount n"
    using assms by (intro neg64_id) (simp add: in64_def)
  then show ?thesis
    unfolding RecordDeposit_def ledger_op_defs Let_def
    by (auto intro!: wp simp: deposit_outcome_def credited_def references_def frame
        update_conv update_triv deposit_tx_def with_defaults_def) (metis image_eqI)
qed

definition withdrawal_outcome ::
  "nat \<Rightarrow> int64 \<Rightarrow> int64 \<Rightarrow> string \<Rightarrow> world \<Rightarrow> unit res \<Rightarrow> world \<Rightarrow> bool" where
  "withdrawal_outcome bid amount fee ref w r w' \<longleftrightarrow>
    (case r of
       Inr _ \<Rightarrow>
         (ref \<in> references w \<and> wallets w' = wallets w \<and> wallet_txs w' = wallet_txs w \<and>
          ledger w' = ledger w) \<or>
         (ref \<notin> references w \<and> debited bid (add64 amount fee) amount w w' \<and>
          map wt_Reference (wallet_txs w') = map wt_Reference (wallet_txs w) @ [ref])
     | Inl _ \<Rightarrow>
         (wallets w' = wallets w \<or> debited bid (add64 amount fee) amount w w' \<or>
          debited bid 0 amount w w') \<and>
         wallet_txs w' = wallet_txs w \<and> ledger w' = ledger w)"

lemma RecordWithdrawal_outcome:
  assumes "0 \<le> add64 amount fee"
  shows "post (withdrawal_outcome bid amount fee ref w) (RecordWithdrawal bid i amount fee ref pref w)"
  using assms
  unfolding RecordWithdrawal_def withdrawal_ledger_def ledger_op_defs Let_def
  by (auto intro!: wp simp: withdrawal_outcome_def debited_def references_def
      update_conv withdrawal_tx_def with_defaults_def intro: rev_image_eqI)

definition lock_outcome :: "nat \<Rightarrow> (wallet \<Rightarrow> bool) \<Rightarrow> (int \<Rightarrow> int) \<Rightarrow> world \<Rightarrow> unit res \<Rightarrow> world \<Rightarrow> bool" where
  "lock_outcome bid cond f w r w' \<longleftrightarrow>
     wallet_txs w' = wallet_txs w \<and> ledger w' = ledger w \<and>
     ((wallets w' = wallets w \<and> (\<exists>e. r = Inl e)) \<or>
      (\<exists>x. map_of (wallets w) bid = Some x \<and> cond x \<and>
           wallets w' = AList.update bid (x\<lparr>w_LockedBalance := f (w_LockedBalance x)\<rparr>) (wallets w)))"

lemma LockBalance_outcome:
  "post (lock_outcome bid (\<lambda>x. w_LockedBalance x + a \<le> w_Balance x) (\<lambda>l. l + a) w) (LockBalance bid a w)"
  unfolding LockBalance_def by (auto intro!: wp simp: lock_outcome_def algebra_simps)

lemma UnlockBalance_outcome:
  "post (lock_outcome bid (\<lambda>x. True) (\<lambda>l. max (l - a) 0) w) (UnlockBalance bid a w)"
  unfolding UnlockBalance_def by (auto intro!: wp simp: lock_outcome_def)

section \<open>The abstract accounts\<close>

text \<open>
  What the service promises to its clients: an account is a balance and the part of it that
  is locked, and a reference is used once. When no statement fails, each operation is the
  operation on accounts, and it returns an error exactly when that one is refused.
\<close>

type_synonym account = "int \<times> int"

type_synonym bank = "(nat \<Rightarrow> account option) \<times> string set"

definition accounts :: "(nat \<times> wallet) list \<Rightarrow> nat \<Rightarrow> account option" where
  "accounts ws = (\<lambda>bid. map_option (\<lambda>x. (w_Balance x, w_LockedBalance x)) (map_of ws bid))"

definition bank_of :: "world \<Rightarrow> bank" where
  "bank_of w = (accounts (wallets w), references w)"

definition in_range :: "account \<Rightarrow> bool" where
  "in_range = (\<lambda>(b, l). bigint_nonneg b \<and> bigint_nonneg l)"

text \<open>An operation on the account of one business; None: refused, nothing changes.\<close>

definition on_account :: "(account \<Rightarrow> account option) \<Rightarrow> nat \<Rightarrow> bank \<Rightarrow> bank option" where
  "on_account f bid = (\<lambda>(as, refs).
     (case as bid of None \<Rightarrow> None | Some x \<Rightarrow> map_option (\<lambda>y. (as(bid \<mapsto> y), refs)) (f x)))"

definition bank_lock :: "int \<Rightarrow> nat \<Rightarrow> bank \<Rightarrow> bank option" where
  "bank_lock a = on_account (\<lambda>(b, l). if a \<le> b - l \<and> in_range (b, l + a) then Some (b, l + a) else None)"

definition bank_unlock :: "int \<Rightarrow> nat \<Rightarrow> bank \<Rightarrow> bank option" where
  "bank_unlock a = on_account (\<lambda>(b, l).
     if in_range (b, max (l - a) 0) then Some (b, max (l - a) 0) else None)"

definition once :: "string \<Rightarrow> (bank \<Rightarrow> bank option) \<Rightarrow> bank \<Rightarrow> bank option" where
  "once ref f bk = (if ref \<in> snd bk then Some bk else map_option (\<lambda>(as, refs). (as, insert ref refs)) (f bk))"

definition bank_deposit :: "string \<Rightarrow> int \<Rightarrow> nat \<Rightarrow> bank \<Rightarrow> bank option" where
  "bank_deposit ref a bid = once ref (on_account (\<lambda>(b, l).
     if in_range (b + a, l) then Some (b + a, l) else None) bid)"

definition bank_withdraw :: "string \<Rightarrow> int \<Rightarrow> int \<Rightarrow> nat \<Rightarrow> bank \<Rightarrow> bank option" where
  "bank_withdraw ref amt a bid = once ref (on_account (\<lambda>(b, l).
     if amt \<le> b \<and> in_range (b - amt, max (l - a) 0) then Some (b - amt, max (l - a) 0) else None) bid)"

definition refines :: "bank option \<Rightarrow> world \<Rightarrow> unit res \<times> world \<Rightarrow> bool" where
  "refines spec w r \<longleftrightarrow> faults (snd r) = faults w \<and>
     (case spec of None \<Rightarrow> (\<exists>e. fst r = Inl e) \<and> bank_of (snd r) = bank_of w
                 | Some bk \<Rightarrow> fst r = Inr () \<and> bank_of (snd r) = bk)"

lemmas bank_defs = bank_of_def references_def on_account_def in_range_def once_def

lemma accounts_update [simp]:
  "accounts (AList.update bid x ws) = (accounts ws)(bid \<mapsto> (w_Balance x, w_LockedBalance x))"
  by (auto simp: accounts_def update_conv)

lemma accounts_lookup:
  "map_of ws bid = None \<Longrightarrow> accounts ws bid = None"
  "map_of ws bid = Some x \<Longrightarrow> accounts ws bid = Some (w_Balance x, w_LockedBalance x)"
  by (simp_all add: accounts_def)

lemma refines_post:
  "refines spec w r \<longleftrightarrow>
    post (\<lambda>x w'. faults w' = faults w \<and>
      (case spec of None \<Rightarrow> (\<exists>e. x = Inl e) \<and> bank_of w' = bank_of w
                  | Some bk \<Rightarrow> x = Inr () \<and> bank_of w' = bk)) r"
  by (simp add: refines_def post_def)

lemma LockBalance_refines:
  "faults w = [] \<Longrightarrow> refines (bank_lock a bid (bank_of w)) w (LockBalance bid a w)"
  unfolding refines_post LockBalance_def
  by (auto intro!: clean simp: bank_lock_def bank_defs accounts_lookup)

lemma UnlockBalance_refines:
  "faults w = [] \<Longrightarrow> refines (bank_unlock a bid (bank_of w)) w (UnlockBalance bid a w)"
  unfolding refines_post UnlockBalance_def
  by (auto intro!: clean simp: bank_unlock_def bank_defs accounts_lookup)

lemma RecordDeposit_refines:
  "faults w = [] \<Longrightarrow>
   refines (bank_deposit (dn_Reference n) (dn_Amount n) bid (bank_of w)) w (RecordDeposit bid n w)"
  unfolding refines_post RecordDeposit_def Let_def ledger_op_defs
  by (auto intro!: clean simp: bank_deposit_def bank_defs deposit_tx_def with_defaults_def accounts_lookup)

lemma RecordWithdrawal_refines:
  "faults w = [] \<Longrightarrow>
   refines (bank_withdraw ref (add64 a fee) a bid (bank_of w)) w (RecordWithdrawal bid i a fee ref pref w)"
  unfolding refines_post RecordWithdrawal_def Let_def withdrawal_ledger_def ledger_op_defs
  by (auto intro!: clean simp: bank_withdraw_def bank_defs withdrawal_tx_def with_defaults_def accounts_lookup)

section \<open>Wallet and ledger agree\<close>

definition balance_of :: "(nat \<times> wallet) list \<Rightarrow> nat \<Rightarrow> int" where
  "balance_of ws bid = (case map_of ws bid of None \<Rightarrow> 0 | Some x \<Rightarrow> w_Balance x)"

lemma balance_of_update [simp]:
  "balance_of (AList.update bid x ws) b = (if b = bid then w_Balance x else balance_of ws b)"
  by (simp add: balance_of_def update_conv)

lemma balance_of_Some: "map_of ws bid = Some x \<Longrightarrow> balance_of ws bid = w_Balance x"
  by (simp add: balance_of_def)

definition reconciled :: "world \<Rightarrow> bool" where
  "reconciled w \<longleftrightarrow> (\<forall>bid. wallet_net bid (ledger w) = balance_of (wallets w) bid)"

lemma wallet_net_row [simp]:
  "wallet_net b [] = 0"
  "wallet_net b (ledger_row bid txn acc ty a ref desc # es) =
     (if b = bid \<and> acc = AccountWallet then (if ty = EntryCredit then a else - a) else 0) + wallet_net b es"
  by (cases ty; simp add: wallet_net_def ledger_row_def)+

lemma deposit_reconciled:
  assumes "faults w = []" and "reconciled w" and "0 \<le> dn_Amount n"
  shows "post (\<lambda>_. reconciled) (RecordDeposit bid n w)"
  using assms
  unfolding RecordDeposit_def Let_def ledger_op_defs reconciled_def
  by (auto intro!: clean simp: balance_of_Some deposit_tx_def)

lemma withdrawal_reconciled:
  assumes "faults w = []" and "reconciled w" and "0 \<le> a" and "0 \<le> fee" and "in64 (a + fee)"
  shows "post (\<lambda>_. reconciled) (RecordWithdrawal bid i a fee ref pref w)"
proof -
  have "add64 a fee = a + fee" using assms(5) by (simp add: i64)
  then show ?thesis
    using assms(1-4)
    unfolding RecordWithdrawal_def Let_def withdrawal_ledger_def ledger_op_defs reconciled_def
    by (auto intro!: clean simp: balance_of_Some withdrawal_tx_def)
qed

lemma locks_reconciled:
  assumes "faults w = []" and "reconciled w"
  shows "post (\<lambda>_. reconciled) (LockBalance bid a w)" and "post (\<lambda>_. reconciled) (UnlockBalance bid a w)"
  using assms unfolding LockBalance_def UnlockBalance_def reconciled_def
  by (auto intro!: clean simp: balance_of_Some)

text \<open>The report of the ledger service is right about the wallet it is given.\<close>

lemma Reconcile_reports:
  assumes "faults w = []" and "in64 walletBalance" and "in64 (walletBalance - wallet_net bid (ledger w))"
    and "in64 (entry_sum bid AccountWallet EntryCredit (ledger w))"
    and "in64 (entry_sum bid AccountWallet EntryDebit (ledger w))"
    and "in64 (wallet_net bid (ledger w))"
  shows "\<exists>r. Reconcile bid walletBalance w = (Inr r, w) \<and>
    rc_Discrepancy r = walletBalance - wallet_net bid (ledger w) \<and>
    rc_IsReconciled r = (walletBalance = wallet_net bid (ledger w))"
  using assms
  by (simp add: Reconcile_def ledger_Reconcile_def query_sum_def fault_eq wallet_net_def i64)

section \<open>Solvency\<close>

text \<open>No more is locked than is there.\<close>

definition solvent :: "world \<Rightarrow> bool" where
  "solvent w \<longleftrightarrow> (\<forall>bid x. map_of (wallets w) bid = Some x \<longrightarrow>
     0 \<le> w_LockedBalance x \<and> w_LockedBalance x \<le> w_Balance x)"

lemma lock_solvent: "solvent w \<Longrightarrow> 0 \<le> a \<Longrightarrow> post (\<lambda>_. solvent) (LockBalance bid a w)"
  unfolding LockBalance_def solvent_def by (auto intro!: wp simp: update_conv split: if_splits)

lemma unlock_solvent: "solvent w \<Longrightarrow> 0 \<le> a \<Longrightarrow> post (\<lambda>_. solvent) (UnlockBalance bid a w)"
  unfolding UnlockBalance_def solvent_def
  by (auto intro!: wp simp: update_conv split: if_splits) (meson diff_le_eq le_add_same_cancel1 order_trans)+

section \<open>A wallet to compute with\<close>

definition sample_wallet :: wallet where
  "sample_wallet = \<lparr>w_Balance = 1000, w_LockedBalance = 300, w_Currency = ''NGN'', w_AccountNumber = ''0123456789'',
     w_BankCode = ''058'', w_BankName = ''GTBank'', w_AccountReference = ''va-1'', w_UniqueID = ''u-1'',
     w_AccountStatus = ''active'', w_Provider = ''vfd''\<rparr>"

definition sample_world :: world where
  "sample_world = \<lparr>wallets = [(1, sample_wallet)], wallet_txs = [],
     ledger = [ledger_row 1 ''TXN-0'' AccountExternal EntryDebit 1000 ''open'' ''open'',
               ledger_row 1 ''TXN-0'' AccountWallet EntryCredit 1000 ''open'' ''open''],
     transfers = [], loans = [], runs = [], employees = [], cadres = [], deleted_cadres = [], deduction_rules = [], deleted_rules = [], businesses = [], users = [], plans = [],
     subscriptions = [], invoices = [], leave_types = [], leave_requests = [], leave_balances = [],
     vfd_records = [], vfd_notifications = [], platform_settings = [], org_settings = [],
     scheduled = [], provider_breakers = [], calls = [], vfd_calls = [], faults = [], clock = (\<lambda>n. int n),
     entropy = (\<lambda>n. ''0123456789abcdef''), tick = 0\<rparr>"

definition sample_deposit :: deposit_notification where
  "sample_deposit = \<lparr>dn_Reference = ''dep-1'', dn_AccountReference = ''va-1'', dn_Amount = 500,
     dn_Currency = ''NGN'', dn_Status = ''success'', dn_Description = ''top up''\<rparr>"

section \<open>Properties\<close>

text \<open>
  C6: A deposit counts exactly once. When \<open>RecordDeposit\<close> returns without an error, whatever
  statements failed on the way, either its reference was recorded before and nothing changed,
  or it was new: then exactly the amount was added to the balance of that one business, and
  the reference is recorded. When it returns an error, no history is written and the balance
  is the old one or, if the compensating update failed, the old one and the amount.
\<close>

theorem deposit_exactly_once:
  assumes "in64 (dn_Amount n)" and "0 \<le> dn_Amount n"
  shows "case RecordDeposit bid n w of
      (Inr _, w') \<Rightarrow>
        (dn_Reference n \<in> references w \<and> wallets w' = wallets w \<and> wallet_txs w' = wallet_txs w \<and>
         ledger w' = ledger w) \<or>
        (dn_Reference n \<notin> references w \<and> credited bid (dn_Amount n) w w' \<and>
         map wt_Reference (wallet_txs w') = map wt_Reference (wallet_txs w) @ [dn_Reference n])
    | (Inl _, w') \<Rightarrow>
        (wallets w' = wallets w \<or> credited bid (dn_Amount n) w w') \<and>
        wallet_txs w' = wallet_txs w \<and> ledger w' = ledger w"
  using RecordDeposit_outcome [OF assms, of bid w]
  by (cases "RecordDeposit bid n w"; cases "fst (RecordDeposit bid n w)") (simp_all add: deposit_outcome_def)

theorem deposit_exactly_once_witness:
  "case RecordDeposit 1 sample_deposit sample_world of
      (Inr _, w') \<Rightarrow> credited 1 500 sample_world w' \<and> ''dep-1'' \<in> references w' | (Inl _, w') \<Rightarrow> False"
proof -
  have "in64 (dn_Amount sample_deposit)" and "0 \<le> dn_Amount sample_deposit"
    by (simp_all add: sample_deposit_def in64_def)
  note outcome = deposit_exactly_once [where bid = 1 and w = sample_world, OF this]
  have "post (\<lambda>r w'. r = Inr ()) (RecordDeposit 1 sample_deposit sample_world)"
    unfolding RecordDeposit_def Let_def ledger_op_defs
    by (auto intro!: clean simp: sample_world_def sample_deposit_def deposit_tx_def sample_wallet_def
        bigint_nonneg_def)
  then have "fst (RecordDeposit 1 sample_deposit sample_world) = Inr ()" by (simp add: post_def)
  with outcome show ?thesis
    by (cases "RecordDeposit 1 sample_deposit sample_world")
      (auto simp: sample_deposit_def references_def sample_world_def dest!: arg_cong [where f = set])
qed

text \<open>
  C9: The wallet service implements its abstract accounts. When no statement fails, locking,
  unlocking, deposits and withdrawals are the operations of \<open>bank\<close>: an account is a balance
  and a locked part, a lock needs enough unlocked balance, a withdrawal enough balance, a
  reference is used once, a refused operation returns an error and changes no account.
\<close>

theorem wallet_refines_bank:
  assumes "faults w = []"
  shows "refines (bank_lock a bid (bank_of w)) w (LockBalance bid a w) \<and>
    refines (bank_unlock a bid (bank_of w)) w (UnlockBalance bid a w) \<and>
    refines (bank_deposit (dn_Reference n) (dn_Amount n) bid (bank_of w)) w (RecordDeposit bid n w) \<and>
    refines (bank_withdraw ref (add64 a fee) a bid (bank_of w)) w
           (RecordWithdrawal bid i a fee ref pref w)"
  using assms LockBalance_refines UnlockBalance_refines RecordDeposit_refines RecordWithdrawal_refines
  by simp_all

theorem wallet_refines_bank_witness:
  "fst (LockBalance 1 700 sample_world) = Inr () \<and> (\<exists>e. fst (LockBalance 1 701 sample_world) = Inl e)"
  using wallet_refines_bank [of sample_world 700 1] wallet_refines_bank [of sample_world 701 1]
  by (auto simp: refines_def bank_lock_def bank_defs sample_world_def sample_wallet_def accounts_def
      bigint_nonneg_def)

text \<open>
  C12: Wallet and ledger agree. When no statement fails, deposits, withdrawals with their fee,
  locks and unlocks keep, for every business, the balance of its wallet equal to the credits
  less the debits of its wallet account in the ledger.
\<close>

theorem wallet_ledger_agree:
  assumes "faults w = []" and "reconciled w" and "0 \<le> dn_Amount n" and "0 \<le> a" and "0 \<le> fee" and "in64 (a + fee)"
  shows "reconciled (snd (RecordDeposit bid n w)) \<and>
    reconciled (snd (RecordWithdrawal bid i a fee ref pref w)) \<and>
    reconciled (snd (LockBalance bid lk w)) \<and> reconciled (snd (UnlockBalance bid lk w))"
  using deposit_reconciled [OF assms(1,2)] withdrawal_reconciled [OF assms(1,2)] locks_reconciled [OF assms(1,2)]
    assms(3-6)
  by (simp_all add: post_def)

lemma sample_reconciled: "reconciled sample_world"
  by (simp add: reconciled_def sample_world_def sample_wallet_def balance_of_def)

theorem wallet_ledger_agree_witness:
  "reconciled (snd (RecordDeposit 1 sample_deposit sample_world)) \<and>
   reconciled (snd (RecordWithdrawal 1 7 200 50 ''t-1'' ''p-1'' sample_world))"
  using wallet_ledger_agree [of sample_world sample_deposit 200 50 1 7 "''t-1''" "''p-1''"]
  by (simp add: sample_reconciled sample_deposit_def in64_def) (simp add: sample_world_def)

text \<open>
  No more is ever locked than is there: under every schedule of faults, locking and
  unlocking a non-negative amount keep the locked part of every wallet between 0 and its
  balance, and an error of \<open>LockBalance\<close> or a success both leave the balance itself alone.
\<close>

theorem locks_stay_within_balance:
  assumes "solvent w" and "0 \<le> a"
  shows "solvent (snd (LockBalance bid a w)) \<and> solvent (snd (UnlockBalance bid a w)) \<and>
    (\<forall>b. balance_of (wallets (snd (LockBalance bid a w))) b = balance_of (wallets w) b)"
  using lock_solvent [OF assms] unlock_solvent [OF assms] LockBalance_outcome [of bid a w]
  by (auto simp: post_def lock_outcome_def balance_of_Some)

theorem locks_stay_within_balance_witness:
  "solvent (snd (LockBalance 1 700 sample_world)) \<and> solvent (snd (UnlockBalance 1 300 sample_world))"
proof -
  have "solvent sample_world"
    by (simp add: solvent_def sample_world_def sample_wallet_def)
  then show ?thesis
    using locks_stay_within_balance [of sample_world 700 1] locks_stay_within_balance [of sample_world 300 1] by simp
qed

end
