(* ===== verification/Provider_Manager.thy ===== *)
theory Provider_Manager
  imports Wallet_Service "HOL-Library.Sublist" "HOL-Library.Multiset"
begin

text \<open>
  The provider manager, \<^verbatim>\<open>internal/service/provider/manager.go\<close>: one default provider
  and fallbacks tried in order behind circuit breakers, native bulk transfers in chunks, and
  single transfers by a pool of workers. Providers are external services: a provider is a
  name and an arbitrary function from the request (and the number of calls made so far, as it
  may answer differently each time) to a result or an error. Every call is appended to the log
  \<open>calls\<close> of the world, so that theorems can speak of payments that were ordered.
\<close>

record bulk_api =
  MinBatchSize :: nat
  MaxBatchSize :: nat
  bulk_answer :: "nat \<Rightarrow> bulk_req \<Rightarrow> bulk_result res"

record provider =
  p_name :: provider_name
  p_answer :: "nat \<Rightarrow> single_req \<Rightarrow> transfer_result res"
  p_bulk :: "bulk_api option"

record manager =
  defaultProvider :: provider
  fallbackProviders :: "provider list"
  allProviders :: "(provider_name \<times> provider) list"

section \<open>Construction\<close>

fun split_on :: "char \<Rightarrow> string \<Rightarrow> string list" where
  "split_on c [] = [[]]"
| "split_on c (x # xs) =
     (if x = c then [] # split_on c xs
      else (case split_on c xs of [] \<Rightarrow> [[x]] | y # ys \<Rightarrow> (x # y) # ys))"

fun fallback_names :: "string list \<Rightarrow> provider_name \<Rightarrow> (provider_name \<times> provider) list \<Rightarrow> provider list" where
  "fallback_names [] dflt ps = []"
| "fallback_names (n # ns) dflt ps =
     (let name = trim_space n
      in if name = dflt then fallback_names ns dflt ps
         else (case map_of ps name of
                 Some p \<Rightarrow> p # fallback_names ns dflt ps
               | None \<Rightarrow> fallback_names ns dflt ps))"

definition parseFallbackProviders :: "string \<Rightarrow> provider_name \<Rightarrow> (provider_name \<times> provider) list \<Rightarrow> provider list" where
  "parseFallbackProviders order dflt ps =
     (if order = [] then [] else fallback_names (split_on CHR '','' (trim_space order)) dflt ps)"

definition NewTransferProviderManager :: "provider_name \<Rightarrow> string \<Rightarrow> (provider_name \<times> provider) list \<Rightarrow> manager res" where
  "NewTransferProviderManager dflt order ps =
     (case map_of ps dflt of
        None \<Rightarrow> Inl (Plain (''default provider '' @ [CHR 0x27] @ dflt @ [CHR 0x27] @ '' not found in available providers''))
      | Some p \<Rightarrow> Inr \<lparr>defaultProvider = p, fallbackProviders = parseFallbackProviders order dflt ps,
                       allProviders = ps\<rparr>)"

definition getDefaultAndFallbackProviders :: "manager \<Rightarrow> provider list" where
  "getDefaultAndFallbackProviders m = defaultProvider m # fallbackProviders m"

definition GetProvider :: "manager \<Rightarrow> provider_name \<Rightarrow> provider option" where
  "GetProvider m name = map_of (allProviders m) name"

section \<open>Single transfers\<close>

text \<open>One call of \<^verbatim>\<open>provider.InitiateTransfer\<close>.\<close>

definition contact :: "provider \<Rightarrow> single_req \<Rightarrow> world \<Rightarrow> transfer_result res \<times> world" where
  "contact p req w = (p_answer p (length (calls w)) req, w\<lparr>calls := calls w @ [(p_name p, req)]\<rparr>)"

definition ErrCircuitOpen :: gerror where
  "ErrCircuitOpen = Plain ''circuit breaker open: provider temporarily unavailable''"

definition set_breaker :: "provider_name \<Rightarrow> circuitBreaker \<Rightarrow> world \<Rightarrow> world" where
  "set_breaker name cb w = w\<lparr>provider_breakers := AList.update name cb (provider_breakers w)\<rparr>"

definition the_breaker :: "provider_name \<Rightarrow> world \<Rightarrow> circuitBreaker" where
  "the_breaker name w = fst (breaker_Get name (provider_breakers w))"

definition attemptTransfer :: "provider \<Rightarrow> single_req \<Rightarrow> world \<Rightarrow> transfer_result res \<times> world" where
  "attemptTransfer p req w =
     (let (t, w) = now w;
          (allowed, cb) = Allow t (the_breaker (p_name p) w);
          w = set_breaker (p_name p) cb w
      in if \<not> allowed then (Inl (Wrap (p_name p @ '': '') ErrCircuitOpen []), w)
         else
           attempt (contact p req w)
             (\<lambda>e w. (let (t, w) = now w
                     in (Inl (Wrap (p_name p @ '': '') e []),
                         set_breaker (p_name p) (RecordFailure t (the_breaker (p_name p) w)) w)))
             (\<lambda>result w. (Inr result,
                         set_breaker (p_name p) (RecordSuccess (the_breaker (p_name p) w)) w)))"

fun tryTransfer :: "provider list \<Rightarrow> gerror option \<Rightarrow> single_req \<Rightarrow> world \<Rightarrow> transfer_result res \<times> world" where
  "tryTransfer [] lastErr req w =
     (Inl (case lastErr of None \<Rightarrow> Plain ''all providers failed: %!w(<nil>)''
                         | Some e \<Rightarrow> Wrap ''all providers failed: '' e []), w)"
| "tryTransfer (p # ps) lastErr req w =
     attempt (attemptTransfer p req w)
       (\<lambda>e w. tryTransfer ps (Some e) req w) (\<lambda>result w. (Inr result, w))"

definition InitiateTransfer :: "manager \<Rightarrow> single_req \<Rightarrow> world \<Rightarrow> transfer_result res \<times> world" where
  "InitiateTransfer m req w = tryTransfer (getDefaultAndFallbackProviders m) None req w"

section \<open>Bulk transfers\<close>

definition aggregateBulkResults :: "string \<Rightarrow> provider_name \<Rightarrow> transfer_result list \<Rightarrow> gerror option \<Rightarrow> bulk_result" where
  "aggregateBulkResults batchReference name results firstError =
     (let successCount = length (filter tr_Success results);
          failedCount = length (filter (\<lambda>r. \<not> tr_Success r) results);
          status = (if failedCount > 0 \<and> successCount = 0 then ''failed''
                    else if failedCount > 0 then ''partial'' else ''complete'')
      in \<lparr>br_Success = (failedCount = 0), br_BatchReference = batchReference, br_Provider = name,
          br_Status = status,
          br_Message = (case firstError of
              Some e \<Rightarrow> err_text e
            | None \<Rightarrow> if failedCount > 0
                     then show_nat failedCount @ '' of '' @ show_nat (length results) @ '' transfers failed''
                     else ''All '' @ show_nat (length results) @ '' transfers successful''),
          br_TransferResults = results\<rparr>)"

text \<open>The result a worker sends for one job.\<close>

definition worker_result :: "provider \<Rightarrow> single_req \<Rightarrow> transfer_result res \<Rightarrow> transfer_result" where
  "worker_result p req r =
     (case r of
        Inr result \<Rightarrow> result
      | Inl e \<Rightarrow> \<lparr>tr_Success = False, tr_Reference = rq_Reference req, tr_TransactionID = [],
                 tr_Status = ''failed'', tr_Message = err_text e, tr_Provider = p_name p, tr_Fee = []\<rparr>)"

text \<open>The enrichment of a job before it is sent.\<close>

definition enrich :: "bulk_req \<Rightarrow> single_req \<Rightarrow> single_req" where
  "enrich req t =
     t\<lparr>rq_BusinessID := bq_BusinessID req, rq_BusinessEmail := bq_BusinessEmail req,
        rq_Currency := (if rq_Currency t = [] then bq_Currency req else rq_Currency t)\<rparr>"

text \<open>
  The workers run concurrently; here is the schedule in which one takes all the jobs. The
  section on workers below treats all the others.
\<close>

fun run_jobs :: "provider \<Rightarrow> single_req list \<Rightarrow> world \<Rightarrow> transfer_result list \<times> world" where
  "run_jobs p [] w = ([], w)"
| "run_jobs p (t # ts) w =
     (let (r, w) = contact p t w; (rs, w) = run_jobs p ts w in (worker_result p t r # rs, w))"

definition executeBulkAsConcurrentSingles :: "provider \<Rightarrow> bulk_req \<Rightarrow> world \<Rightarrow> bulk_result res \<times> world" where
  "executeBulkAsConcurrentSingles p req w =
     (let (rs, w) = run_jobs p (map (enrich req) (bq_Transfers req)) w
      in (Inr (aggregateBulkResults (bq_BatchReference req) (p_name p) rs None), w))"

definition contact_bulk :: "provider \<Rightarrow> bulk_api \<Rightarrow> bulk_req \<Rightarrow> world \<Rightarrow> bulk_result res \<times> world" where
  "contact_bulk p api req w =
     (bulk_answer api (length (calls w)) req, w\<lparr>calls := calls w @ map (Pair (p_name p)) (bq_Transfers req)\<rparr>)"

text \<open>
  The loop over the chunks: \<open>k\<close> is the number of chunks done, \<open>rest\<close> what is left of the
  transfers. With \<open>maxBatch\<close> 0 the index of the Go loop never moves and it does not end, so
  the loop is partial: None is "does not return".
\<close>

definition chunk_request :: "bulk_req \<Rightarrow> nat \<Rightarrow> single_req list \<Rightarrow> bulk_req" where
  "chunk_request req k chunk =
     req\<lparr>bq_BatchReference := bq_BatchReference req @ ''-chunk-'' @ show_nat (k + 1),
          bq_Transfers := chunk\<rparr>"

definition run_chunk :: "provider \<Rightarrow> bulk_api \<Rightarrow> bulk_req \<Rightarrow> world \<Rightarrow> bulk_result res \<times> world" where
  "run_chunk p api req w =
     (if length (bq_Transfers req) < MinBatchSize api then executeBulkAsConcurrentSingles p req w
      else contact_bulk p api req w)"

partial_function (option) chunk_loop ::
  "provider \<Rightarrow> bulk_api \<Rightarrow> bulk_req \<Rightarrow> nat \<Rightarrow> nat \<Rightarrow> single_req list \<Rightarrow> transfer_result list \<Rightarrow> gerror option \<Rightarrow> world \<Rightarrow>
   (transfer_result list \<times> gerror option \<times> world) option" where
  "chunk_loop p api req maxBatch k rest acc firstError w =
     (if rest = [] then Some (acc, firstError, w)
      else (case run_chunk p api (chunk_request req k (take maxBatch rest)) w of
              (Inl e, w) \<Rightarrow>
                chunk_loop p api req maxBatch (k + 1) (drop maxBatch rest) acc
                  (if firstError = None then Some e else firstError) w
            | (Inr r, w) \<Rightarrow>
                chunk_loop p api req maxBatch (k + 1) (drop maxBatch rest)
                  (acc @ br_TransferResults r) firstError w))"

definition splitAndProcessBulk :: "provider \<Rightarrow> bulk_api \<Rightarrow> bulk_req \<Rightarrow> nat \<Rightarrow> world \<Rightarrow> (bulk_result res \<times> world) option" where
  "splitAndProcessBulk p api req maxBatch w =
     (case chunk_loop p api req maxBatch 0 (bq_Transfers req) [] None w of
        None \<Rightarrow> None
      | Some (results, firstError, w) \<Rightarrow>
          Some (Inr (aggregateBulkResults (bq_BatchReference req) (p_name p) results firstError), w))"

definition handleBulkWithNativeSupport :: "provider \<Rightarrow> bulk_api \<Rightarrow> bulk_req \<Rightarrow> world \<Rightarrow> (bulk_result res \<times> world) option" where
  "handleBulkWithNativeSupport p api req w =
     (if length (bq_Transfers req) < MinBatchSize api then Some (executeBulkAsConcurrentSingles p req w)
      else if length (bq_Transfers req) \<le> MaxBatchSize api then Some (contact_bulk p api req w)
      else splitAndProcessBulk p api req (MaxBatchSize api) w)"

definition InitiateBulkTransfer :: "manager \<Rightarrow> bulk_req \<Rightarrow> world \<Rightarrow> (bulk_result res \<times> world) option" where
  "InitiateBulkTransfer m req w =
     (case p_bulk (defaultProvider m) of
        Some api \<Rightarrow> handleBulkWithNativeSupport (defaultProvider m) api req w
      | None \<Rightarrow> Some (executeBulkAsConcurrentSingles (defaultProvider m) req w))"

section \<open>Invariants of the tables\<close>

context payment_invariant
begin

lemma contact_keeps: "I w \<Longrightarrow> I (snd (contact p req w))" "I w \<Longrightarrow> I (snd (contact_bulk p api breq w))"
  by (simp_all add: contact_def contact_bulk_def inv_calls)

lemma attemptTransfer_keeps: "I w \<Longrightarrow> I (snd (attemptTransfer p req w))"
  by (auto simp: attemptTransfer_def contact_def now_def set_breaker_def Let_def
      inv_calls inv_tick inv_breakers attempt_def split: prod.splits sum.splits)

lemma tryTransfer_keeps: "I w \<Longrightarrow> I (snd (tryTransfer ps e req w))"
proof (induction ps arbitrary: e w)
  case (Cons p ps)
  then show ?case using attemptTransfer_keeps [OF Cons.prems, of p req]
    by (auto split: attempt_split)
qed simp

lemma InitiateTransfer_keeps: "I w \<Longrightarrow> I (snd (InitiateTransfer m req w))"
  by (simp add: InitiateTransfer_def tryTransfer_keeps)

lemma run_jobs_keeps: "I w \<Longrightarrow> I (snd (run_jobs p ts w))"
proof (induction ts arbitrary: w)
  case (Cons t ts)
  have "I (snd (run_jobs p ts (snd (contact p t w))))" by (intro Cons contact_keeps)
  then show ?case by (auto simp: split_beta Let_def)
qed simp

lemma singles_keep: "I w \<Longrightarrow> I (snd (executeBulkAsConcurrentSingles p req w))"
  using run_jobs_keeps [of w p "map (enrich req) (bq_Transfers req)"]
  by (auto simp: executeBulkAsConcurrentSingles_def split: prod.splits)

lemma run_chunk_keeps: "I w \<Longrightarrow> I (snd (run_chunk p api req w))"
  by (simp add: run_chunk_def singles_keep contact_keeps)

end

section \<open>Single transfers: who is called\<close>

text \<open>\<open>all_fail n qs\<close>: asked in turn from call \<open>n\<close> on, all of \<open>qs\<close> answer with an error.\<close>

fun all_fail :: "nat \<Rightarrow> single_req \<Rightarrow> provider list \<Rightarrow> bool" where
  "all_fail n req [] = True"
| "all_fail n req (q # qs) = ((\<exists>e. p_answer q n req = Inl e) \<and> all_fail (Suc n) req qs)"

text \<open>
  The outcome of asking in order: those asked are a subsequence of the providers, all of them
  failed, or all but the last and the result is the last one's.
\<close>

definition tried :: "provider list \<Rightarrow> single_req \<Rightarrow> world \<Rightarrow> transfer_result res \<Rightarrow> world \<Rightarrow> bool" where
  "tried ps req w r w' \<longleftrightarrow>
     (case r of
        Inr result \<Rightarrow> \<exists>qs q. subseq (qs @ [q]) ps \<and> all_fail (length (calls w)) req qs \<and>
          p_answer q (length (calls w) + length qs) req = Inr result \<and>
          calls w' = calls w @ map (\<lambda>q. (p_name q, req)) (qs @ [q])
      | Inl _ \<Rightarrow> \<exists>qs. subseq qs ps \<and> all_fail (length (calls w)) req qs \<and>
          calls w' = calls w @ map (\<lambda>q. (p_name q, req)) qs)"

lemma attemptTransfer_cases:
  obtains (blocked) e w' where "attemptTransfer p req w = (Inl e, w')" "calls w' = calls w"
  | (failed) e e' w' where "attemptTransfer p req w = (Inl e, w')" "p_answer p (length (calls w)) req = Inl e'"
      "calls w' = calls w @ [(p_name p, req)]"
  | (sent) r w' where "attemptTransfer p req w = (Inr r, w')" "p_answer p (length (calls w)) req = Inr r"
      "calls w' = calls w @ [(p_name p, req)]"
  by (cases "attemptTransfer p req w"; cases "p_answer p (length (calls w)) req")
    (auto simp: attemptTransfer_def contact_def now_def set_breaker_def Let_def split: prod.splits if_splits
      dest: sym [where t = "p_answer p n r" for n r])

lemma tryTransfer_tried: "post (tried ps req w) (tryTransfer ps e req w)"
proof (induction ps arbitrary: e w)
  case Nil
  then show ?case by (simp add: tried_def)
next
  case (Cons p ps)
  show ?case
  proof (cases rule: attemptTransfer_cases [of p req w])
    case (blocked e' w')
    then show ?thesis using Cons [of w' "Some e'"]
      by (auto simp: tried_def post_def split: sum.splits intro: list_emb_Cons)
  next
    case (failed e1 e2 w')
    show ?thesis
    proof (cases "fst (tryTransfer ps (Some e1) req w')")
      case (Inl e3)
      then obtain qs where "subseq qs ps" "all_fail (length (calls w')) req qs"
        "calls (snd (tryTransfer ps (Some e1) req w')) = calls w' @ map (\<lambda>q. (p_name q, req)) qs"
        using Cons [of w' "Some e1"] by (auto simp: tried_def post_def)
      then show ?thesis using failed Inl
        by (auto simp: tried_def post_def intro!: exI [of _ "p # qs"])
    next
      case (Inr r)
      then obtain qs q where "subseq (qs @ [q]) ps" "all_fail (length (calls w')) req qs"
        "p_answer q (length (calls w') + length qs) req = Inr r"
        "calls (snd (tryTransfer ps (Some e1) req w')) = calls w' @ map (\<lambda>q. (p_name q, req)) (qs @ [q])"
        using Cons [of w' "Some e1"] by (auto simp: tried_def post_def)
      then show ?thesis using failed Inr
        by (auto simp: tried_def post_def intro!: exI [of _ "p # qs"] exI [of _ q])
    qed
  next
    case (sent r w')
    then show ?thesis
      by (auto simp: tried_def intro!: exI [of _ "[]"] exI [of _ p])
  qed
qed

text \<open>A provider whose breaker is open and has not timed out is not called.\<close>

definition blocked :: "provider_name \<Rightarrow> world \<Rightarrow> bool" where
  "blocked name w \<longleftrightarrow> cb_state (the_breaker name w) = CircuitOpen \<and>
     (\<forall>n. clock w n - cb_lastFailure (the_breaker name w) \<le> ResetTimeout (cb_config (the_breaker name w)))"

lemma the_breaker_set [simp]:
  "the_breaker name (set_breaker name' cb w) = (if name = name' then cb else the_breaker name w)"
  by (simp add: the_breaker_def set_breaker_def breaker_Get_def update_conv Let_def split: option.splits)

lemma set_breaker_frame [simp]:
  "calls (set_breaker name cb w) = calls w" "clock (set_breaker name cb w) = clock w"
  "tick (set_breaker name cb w) = tick w"
  by (simp_all add: set_breaker_def)

lemma the_breaker_frame [simp]:
  "the_breaker name (w\<lparr>tick := n\<rparr>) = the_breaker name w"
  "the_breaker name (w\<lparr>calls := c\<rparr>) = the_breaker name w"
  by (simp_all add: the_breaker_def)

lemma attemptTransfer_blocked:
  assumes "blocked name w"
  shows "post (\<lambda>_ w'. blocked name w' \<and> filter (\<lambda>c. fst c = name) (calls w') = filter (\<lambda>c. fst c = name) (calls w))
    (attemptTransfer p req w)"
proof (cases "p_name p = name")
  case True
  have "\<not> clock w (tick w) - cb_lastFailure (the_breaker name w) > ResetTimeout (cb_config (the_breaker name w))"
    using assms unfolding blocked_def by (simp add: not_less)
  then have "Allow (clock w (tick w)) (the_breaker name w) = (False, the_breaker name w)"
    using assms by (simp add: Allow_def blocked_def)
  then show ?thesis using assms True
    by (simp add: attemptTransfer_def now_def Let_def blocked_def)
next
  case False
  then show ?thesis using assms
    by (auto simp: attemptTransfer_def now_def contact_def Let_def blocked_def attempt_def
        split: prod.splits sum.splits)
qed

lemma tryTransfer_blocked:
  "blocked name w \<Longrightarrow>
   filter (\<lambda>c. fst c = name) (calls (snd (tryTransfer ps e req w))) = filter (\<lambda>c. fst c = name) (calls w)"
proof (induction ps arbitrary: e w)
  case (Cons p ps)
  obtain r w' where step: "attemptTransfer p req w = (r, w')" by (cases "attemptTransfer p req w")
  with attemptTransfer_blocked [OF Cons.prems, of p req]
  have "blocked name w'" "filter (\<lambda>c. fst c = name) (calls w') = filter (\<lambda>c. fst c = name) (calls w)"
    by simp_all
  with step Cons.IH [of w'] show ?case by (cases r) simp_all
qed simp

section \<open>Bulk transfers: what is ordered\<close>

text \<open>The references of the payments ordered between two worlds, in order.\<close>

definition ordered :: "world \<Rightarrow> world \<Rightarrow> string list" where
  "ordered w w' = map (\<lambda>c. rq_Reference (snd c)) (drop (length (calls w)) (calls w'))"

definition extends_calls :: "provider_name \<Rightarrow> string list \<Rightarrow> world \<Rightarrow> world \<Rightarrow> bool" where
  "extends_calls name refs w w' \<longleftrightarrow>
     (\<exists>ts. calls w' = calls w @ map (Pair name) ts \<and> map rq_Reference ts = refs)"

lemma extends_calls_trans:
  "extends_calls name rs w w' \<Longrightarrow> extends_calls name rs' w' w'' \<Longrightarrow> extends_calls name (rs @ rs') w w''"
  unfolding extends_calls_def by (elim exE conjE) (metis append.assoc map_append)

lemma extends_calls_ordered: "extends_calls name refs w w' \<Longrightarrow> ordered w w' = refs"
  by (auto simp: extends_calls_def ordered_def)

lemma run_jobs_calls:
  "calls (snd (run_jobs p ts w)) = calls w @ map (Pair (p_name p)) ts"
  "length (fst (run_jobs p ts w)) = length ts"
  by (induction ts arbitrary: w) (simp_all add: contact_def split_beta Let_def)

lemma singles_calls:
  "extends_calls (p_name p) (map rq_Reference (bq_Transfers req)) w (snd (executeBulkAsConcurrentSingles p req w))"
  by (auto simp: extends_calls_def executeBulkAsConcurrentSingles_def run_jobs_calls split_beta Let_def
      enrich_def intro!: exI [of _ "map (enrich req) (bq_Transfers req)"])

lemma contact_bulk_ordered: "ordered w (snd (contact_bulk p api req w)) = map rq_Reference (bq_Transfers req)"
  by (simp add: ordered_def contact_bulk_def comp_def)

lemma run_chunk_calls:
  "extends_calls (p_name p) (map rq_Reference (bq_Transfers req)) w (snd (run_chunk p api req w))"
  using singles_calls [of p req w] by (auto simp: run_chunk_def contact_bulk_def extends_calls_def)

lemma chunk_loop_unfold:
  "rest = [] \<Longrightarrow> chunk_loop p api req n k rest acc e w = Some (acc, e, w)"
  "rest \<noteq> [] \<Longrightarrow> run_chunk p api (chunk_request req k (take n rest)) w = (Inl e', w') \<Longrightarrow>
     chunk_loop p api req n k rest acc e w =
     chunk_loop p api req n (k + 1) (drop n rest) acc (if e = None then Some e' else e) w'"
  "rest \<noteq> [] \<Longrightarrow> run_chunk p api (chunk_request req k (take n rest)) w = (Inr r, w') \<Longrightarrow>
     chunk_loop p api req n k rest acc e w =
     chunk_loop p api req n (k + 1) (drop n rest) (acc @ br_TransferResults r) e w'"
  by (subst chunk_loop.simps, simp)+

lemma chunk_loop_returns:
  assumes "0 < n"
  shows "\<exists>acc' e' w'. chunk_loop p api req n k rest acc e w = Some (acc', e', w') \<and>
    extends_calls (p_name p) (map rq_Reference rest) w w'"
proof (induction "length rest" arbitrary: rest k acc e w rule: less_induct)
  case less
  show ?case
  proof (cases "rest = []")
    case True
    then show ?thesis by (auto simp: chunk_loop_unfold extends_calls_def)
  next
    case False
    with assms have shorter: "length (drop n rest) < length rest" by (simp add: Suc_le_eq)
    have calls: "extends_calls (p_name p) (map rq_Reference (take n rest)) w
        (snd (run_chunk p api (chunk_request req k (take n rest)) w))"
      using run_chunk_calls [of p "chunk_request req k (take n rest)"] by (simp add: chunk_request_def)
    have whole: "map rq_Reference rest = map rq_Reference (take n rest) @ map rq_Reference (drop n rest)"
      by (simp flip: map_append)
    show ?thesis
    proof (cases "run_chunk p api (chunk_request req k (take n rest)) w")
      case (Pair r w')
      then show ?thesis
        using calls less [OF shorter, of "k + 1" _ _ w'] False
        by (cases r) (fastforce simp: chunk_loop_unfold whole intro: extends_calls_trans)+
    qed
  qed
qed

text \<open>A chunk size of 0: the loop does not end.\<close>

lemma chunk_loop_zero_stuck:
  assumes "chunk_loop p api req n k rest acc e w = Some y"
  shows "n = 0 \<longrightarrow> rest = []"
  by (rule chunk_loop.raw_induct [where P = "\<lambda>p api req n k rest acc e w y. n = 0 \<longrightarrow> rest = []",
        OF _ assms])
    (fastforce split: if_splits prod.splits sum.splits)

lemma chunk_loop_zero: "rest \<noteq> [] \<Longrightarrow> chunk_loop p api req 0 k rest acc e w = None"
  using chunk_loop_zero_stuck by (cases "chunk_loop p api req 0 k rest acc e w") auto

lemma bulk_returns:
  assumes "\<And>api. p_bulk (defaultProvider m) = Some api \<Longrightarrow> 0 < MaxBatchSize api"
  shows "\<exists>r w'. InitiateBulkTransfer m req w = Some (r, w') \<and>
    ordered w w' = map rq_Reference (bq_Transfers req)"
proof (cases "p_bulk (defaultProvider m)")
  case None
  then show ?thesis
    using singles_calls [of "defaultProvider m" req w]
    by (cases "executeBulkAsConcurrentSingles (defaultProvider m) req w")
      (simp add: InitiateBulkTransfer_def extends_calls_ordered)
next
  case (Some api)
  obtain acc e w' where "chunk_loop (defaultProvider m) api req (MaxBatchSize api) 0 (bq_Transfers req) [] None w =
      Some (acc, e, w')" "extends_calls (p_name (defaultProvider m)) (map rq_Reference (bq_Transfers req)) w w'"
    using chunk_loop_returns [OF assms [OF Some]] by blast
  then show ?thesis
    using Some singles_calls [of "defaultProvider m" req w]
    by (cases "executeBulkAsConcurrentSingles (defaultProvider m) req w";
        cases "contact_bulk (defaultProvider m) api req w")
      (auto simp: InitiateBulkTransfer_def handleBulkWithNativeSupport_def splitAndProcessBulk_def
        extends_calls_ordered contact_bulk_ordered
        dest!: arg_cong [where f = "\<lambda>x. ordered w (snd x)"])
qed

text \<open>Chunks that fail leave no result behind, and the aggregate looks successful.\<close>

lemma chunk_loop_all_fail:
  assumes "0 < n" and "\<And>m b. \<exists>e. bulk_answer api m b = Inl e" and "MinBatchSize api \<le> 1"
  shows "\<exists>e' w'. chunk_loop p api req n k rest acc e w = Some (acc, e', w')"
proof (induction "length rest" arbitrary: rest k e w rule: less_induct)
  case less
  show ?case
  proof (cases "rest = []")
    case True
    then show ?thesis by (simp add: chunk_loop_unfold)
  next
    case False
    with assms(1) have shorter: "length (drop n rest) < length rest" by (simp add: Suc_le_eq)
    have "\<not> length (take n rest) < MinBatchSize api" using False assms(1,3)
      by (cases rest) (auto simp: min_def)
    then obtain e' w' where "run_chunk p api (chunk_request req k (take n rest)) w = (Inl e', w')"
      using assms(2) [of "length (calls w)" "chunk_request req k (take n rest)"]
      by (auto simp: run_chunk_def chunk_request_def contact_bulk_def)
    then show ?thesis using less [OF shorter] False by (simp add: chunk_loop_unfold)
  qed
qed

context payment_invariant
begin

lemma chunk_loop_keeps:
  assumes "chunk_loop p api req n k rest acc e w = Some y"
  shows "I w \<longrightarrow> I (snd (snd y))"
proof (rule chunk_loop.raw_induct [where P = "\<lambda>p api req n k rest acc e w y. I w \<longrightarrow> I (snd (snd y))",
      OF _ assms])
  fix f :: "provider \<Rightarrow> bulk_api \<Rightarrow> bulk_req \<Rightarrow> nat \<Rightarrow> nat \<Rightarrow> single_req list \<Rightarrow> transfer_result list \<Rightarrow>
      gerror option \<Rightarrow> world \<Rightarrow> (transfer_result list \<times> gerror option \<times> world) option"
    and p api req n k rest acc e w y
  assume IH: "\<And>p api req n k rest acc e w y. f p api req n k rest acc e w = Some y \<Longrightarrow>
      I w \<longrightarrow> I (snd (snd y))"
    and step: "(if rest = [] then Some (acc, e, w)
      else case run_chunk p api (chunk_request req k (take n rest)) w of
        (Inl e', w) \<Rightarrow> f p api req n (k + 1) (drop n rest) acc (if e = None then Some e' else e) w
      | (Inr r, w) \<Rightarrow> f p api req n (k + 1) (drop n rest) (acc @ br_TransferResults r) e w) = Some y"
  show "I w \<longrightarrow> I (snd (snd y))"
    using step run_chunk_keeps [of w p api "chunk_request req k (take n rest)"]
    by (auto split: if_splits prod.splits sum.splits dest: IH)
qed

lemma InitiateBulkTransfer_keeps:
  "InitiateBulkTransfer m req w = Some r \<Longrightarrow> I w \<Longrightarrow> I (snd r)"
  unfolding InitiateBulkTransfer_def handleBulkWithNativeSupport_def splitAndProcessBulk_def
  by (auto simp: singles_keep contact_keeps split: option.splits if_splits dest: chunk_loop_keeps)

end

section \<open>The worker pool\<close>

text \<open>
  All interleavings of the main goroutine and the workers. The jobs channel is buffered for
  all the transfers, so a send never waits; a worker takes a job, calls the provider and sends
  the result. \<open>unsent\<close> is what main has still to send, \<open>busy\<close> the job each worker holds. The
  provider answers by the request here, whatever the order of the calls.
\<close>

record pool =
  unsent :: "single_req list"
  jobs :: "single_req list"
  busy :: "single_req option list"
  results_sent :: "transfer_result list"

definition DefaultConcurrentWorkers :: nat where
  "DefaultConcurrentWorkers = 5"

definition start_pool :: "nat \<Rightarrow> single_req list \<Rightarrow> pool" where
  "start_pool n ts = \<lparr>unsent = ts, jobs = [], busy = replicate n None, results_sent = []\<rparr>"

inductive pool_step :: "(single_req \<Rightarrow> transfer_result) \<Rightarrow> pool \<Rightarrow> pool \<Rightarrow> bool" for answer where
  send: "unsent s = t # ts \<Longrightarrow> pool_step answer s (s\<lparr>unsent := ts, jobs := jobs s @ [t]\<rparr>)"
| take_job: "jobs s = t # ts \<Longrightarrow> i < length (busy s) \<Longrightarrow> busy s ! i = None \<Longrightarrow>
    pool_step answer s (s\<lparr>jobs := ts, busy := (busy s)[i := Some t]\<rparr>)"
| finish: "i < length (busy s) \<Longrightarrow> busy s ! i = Some t \<Longrightarrow>
    pool_step answer s (s\<lparr>busy := (busy s)[i := None], results_sent := results_sent s @ [answer t]\<rparr>)"

inductive_cases pool_stepE: "pool_step answer s s'"

text \<open>The pool is done when everything is sent and taken and no worker is busy.\<close>

definition pool_done :: "pool \<Rightarrow> bool" where
  "pool_done s \<longleftrightarrow> unsent s = [] \<and> jobs s = [] \<and> (\<forall>b \<in> set (busy s). b = None)"

definition held :: "single_req option list \<Rightarrow> single_req multiset" where
  "held bs = (\<Sum>b \<in># mset bs. case b of None \<Rightarrow> {#} | Some t \<Rightarrow> {#t#})"

lemma held_update:
  "i < length bs \<Longrightarrow> held (bs[i := b]) + (case bs ! i of None \<Rightarrow> {#} | Some t \<Rightarrow> {#t#}) =
     held bs + (case b of None \<Rightarrow> {#} | Some t \<Rightarrow> {#t#})"
  by (induction bs arbitrary: i) (auto simp: held_def nth_Cons split: nat.splits option.splits)

definition pool_content :: "(single_req \<Rightarrow> transfer_result) \<Rightarrow> pool \<Rightarrow> transfer_result multiset" where
  "pool_content answer s = image_mset answer (mset (unsent s) + mset (jobs s) + held (busy s)) + mset (results_sent s)"

lemma pool_step_content: "pool_step answer s s' \<Longrightarrow> pool_content answer s' = pool_content answer s"
proof (induction rule: pool_step.induct)
  case (take_job s t ts i)
  then have "held ((busy s)[i := Some t]) = add_mset t (held (busy s))"
    using held_update [of i "busy s" "Some t"] by simp
  with take_job show ?case by (simp add: pool_content_def)
next
  case (finish i s t)
  then have "add_mset t (held ((busy s)[i := None])) = held (busy s)"
    using held_update [of i "busy s" None] by simp
  then have "image_mset answer (held (busy s)) = add_mset (answer t) (image_mset answer (held ((busy s)[i := None])))"
    by (metis image_mset_add_mset)
  then show ?case by (simp add: pool_content_def)
qed (simp add: pool_content_def)

lemma pool_steps_content: "(pool_step answer)\<^sup>*\<^sup>* s s' \<Longrightarrow> pool_content answer s' = pool_content answer s"
  by (induction rule: rtranclp_induct) (auto dest: pool_step_content)

lemma pool_done_results: "pool_done s \<Longrightarrow> pool_content answer s = mset (results_sent s)"
proof -
  have "(\<forall>b \<in> set bs. b = None) \<Longrightarrow> held bs = {#}" for bs
    by (induction bs) (auto simp: held_def)
  then show "pool_done s \<Longrightarrow> pool_content answer s = mset (results_sent s)"
    by (simp add: pool_done_def pool_content_def)
qed

lemma pool_content_start: "pool_content answer (start_pool n ts) = image_mset answer (mset ts)"
  by (simp add: pool_content_def start_pool_def held_def)

text \<open>No deadlock and no infinite run.\<close>

lemma pool_step_busy: "pool_step answer s s' \<Longrightarrow> length (busy s') = length (busy s)"
  by (auto elim: pool_stepE)

lemma pool_progress:
  assumes "\<not> pool_done s" and "busy s \<noteq> []"
  shows "\<exists>s'. pool_step answer s s'"
proof (cases "\<exists>b \<in> set (busy s). b \<noteq> None")
  case True
  then obtain i t where "i < length (busy s)" "busy s ! i = Some t"
    by (auto simp: in_set_conv_nth)
  then show ?thesis by (blast intro: finish)
next
  case False
  with assms(2) have idle: "0 < length (busy s)" "busy s ! 0 = None" by (cases "busy s"; auto)+
  from False assms(1) consider t ts where "unsent s = t # ts" | t ts where "jobs s = t # ts"
    by (cases "unsent s"; cases "jobs s") (auto simp: pool_done_def)
  then show ?thesis using send take_job idle by cases blast+
qed

definition pool_work :: "pool \<Rightarrow> nat" where
  "pool_work s = 3 * length (unsent s) + 2 * length (jobs s) + size (held (busy s))"

lemma pool_step_work: "pool_step answer s s' \<Longrightarrow> pool_work s' < pool_work s"
proof (induction rule: pool_step.induct)
  case (take_job s t ts i)
  then show ?case using held_update [of i "busy s" "Some t"] by (simp add: pool_work_def)
next
  case (finish i s t)
  then have "add_mset t (held ((busy s)[i := None])) = held (busy s)"
    using held_update [of i "busy s" None] by simp
  then have "size (held (busy s)) = Suc (size (held ((busy s)[i := None])))"
    by (metis size_add_mset)
  then show ?case by (simp add: pool_work_def)
qed (simp add: pool_work_def)

section \<open>Samples\<close>

definition sample_req :: single_req where
  "sample_req = \<lparr>rq_Reference = ''ref-1'', rq_Amount = ''2500'', rq_BankCode = ''058'',
     rq_AccountNumber = ''0123456789'', rq_AccountName = ''Ada'', rq_Narration = ''pay'', rq_Currency = ''NGN'',
     rq_PreferredProvider = [], rq_BusinessID = 1, rq_BusinessEmail = ''a@b.c''\<rparr>"

definition success_result :: "provider_name \<Rightarrow> single_req \<Rightarrow> transfer_result" where
  "success_result name req = \<lparr>tr_Success = True, tr_Reference = rq_Reference req, tr_TransactionID = ''tx-1'',
     tr_Status = ''success'', tr_Message = ''ok'', tr_Provider = name, tr_Fee = []\<rparr>"

definition good_provider :: "provider_name \<Rightarrow> provider" where
  "good_provider name = \<lparr>p_name = name, p_answer = (\<lambda>_ req. Inr (success_result name req)), p_bulk = None\<rparr>"

definition failing_api :: bulk_api where
  "failing_api = \<lparr>MinBatchSize = 1, MaxBatchSize = 2, bulk_answer = (\<lambda>_ _. Inl (Plain ''timeout''))\<rparr>"

definition sample_manager :: manager where
  "sample_manager = \<lparr>defaultProvider = good_provider ''vfd'', fallbackProviders = [good_provider ''korapay''],
     allProviders = [(''vfd'', good_provider ''vfd''), (''korapay'', good_provider ''korapay'')]\<rparr>"

definition failing_manager :: manager where
  "failing_manager = sample_manager\<lparr>defaultProvider := (good_provider ''vfd'')\<lparr>p_bulk := Some failing_api\<rparr>\<rparr>"

definition sample_bulk :: bulk_req where
  "sample_bulk = \<lparr>bq_BatchReference = ''b-1'', bq_Description = ''salaries'', bq_Currency = ''NGN'',
     bq_MerchantBearsCost = False,
     bq_Transfers = [sample_req, sample_req\<lparr>rq_Reference := ''ref-2''\<rparr>, sample_req\<lparr>rq_Reference := ''ref-3''\<rparr>],
     bq_BusinessID = 1, bq_BusinessEmail = ''a@b.c''\<rparr>"

section \<open>Properties\<close>

text \<open>
  A transfer goes to the providers in order, and stops at the first success. The
  providers called for a request are a subsequence of the default and the fallbacks (the
  others were skipped by their breaker), each called at most as often as it occurs there; all
  of them failed, or all but the last, whose result is returned. So no provider is called
  after one has accepted the payment.
\<close>

theorem transfer_tried_in_order:
  "tried (getDefaultAndFallbackProviders m) req w (fst (InitiateTransfer m req w)) (snd (InitiateTransfer m req w))"
  using tryTransfer_tried by (simp add: InitiateTransfer_def post_def)

text \<open>
  C30: A provider whose circuit breaker is open and whose reset timeout has not passed is not
  called by a transfer, whatever the other providers answer.
\<close>

theorem open_breaker_not_called:
  assumes "blocked name w"
  shows "filter (\<lambda>c. fst c = name) (calls (snd (InitiateTransfer m req w))) = filter (\<lambda>c. fst c = name) (calls w)"
  using assms by (simp add: InitiateTransfer_def tryTransfer_blocked)

theorem open_breaker_not_called_witness:
  "filter (\<lambda>c. fst c = ''vfd'')
     (calls (snd (InitiateTransfer sample_manager sample_req
        (sample_world\<lparr>provider_breakers :=
           [(''vfd'', fail_at [0, 0, 0, 0, 0] (newCircuitBreaker DefaultCircuitBreakerConfig))],
           clock := (\<lambda>_. 7)\<rparr>)))) = []"
proof -
  let ?w = "sample_world\<lparr>provider_breakers :=
      [(''vfd'', fail_at [0, 0, 0, 0, 0] (newCircuitBreaker DefaultCircuitBreakerConfig))], clock := (\<lambda>_. 7)\<rparr>"
  have "blocked ''vfd'' ?w"
    by (simp add: blocked_def the_breaker_def breaker_Get_def RecordFailure_def newCircuitBreaker_def
        DefaultCircuitBreakerConfig_def)
  then show ?thesis
    using open_breaker_not_called [of "''vfd''" ?w sample_manager sample_req] by (simp add: sample_world_def)
qed

text \<open>
  A bulk transfer returns, and orders every one of its transfers exactly once and in the
  order given, whether it is sent natively, in chunks, or as single transfers, and whatever
  the provider answers. The chunk size must not be 0: then the loop over the chunks does not
  end.
\<close>

theorem bulk_orders_each_once:
  assumes "\<And>api. p_bulk (defaultProvider m) = Some api \<Longrightarrow> 0 < MaxBatchSize api"
  shows "\<exists>r w'. InitiateBulkTransfer m req w = Some (r, w') \<and>
    ordered w w' = map rq_Reference (bq_Transfers req)"
  using bulk_returns assms by blast

theorem bulk_orders_each_once_witness:
  "\<exists>r w'. InitiateBulkTransfer failing_manager sample_bulk sample_world = Some (r, w') \<and>
    ordered sample_world w' = [''ref-1'', ''ref-2'', ''ref-3'']"
  using bulk_orders_each_once [of failing_manager sample_bulk sample_world]
  by (simp add: failing_manager_def failing_api_def sample_bulk_def sample_req_def)



text \<open>
  Chunks that fail are lost. When a batch larger than the provider's maximum is sent in
  chunks and the provider rejects every chunk, the manager still returns a bulk result that
  says success, with status complete and without a single transfer result.
\<close>

theorem failed_chunks_look_successful:
  assumes "p_bulk (defaultProvider m) = Some api" and "\<And>n b. \<exists>e. bulk_answer api n b = Inl e"
    and "0 < MaxBatchSize api" and "MaxBatchSize api < length (bq_Transfers req)" and "MinBatchSize api \<le> 1"
  shows "\<exists>r w'. InitiateBulkTransfer m req w = Some (Inr r, w') \<and>
    br_Success r \<and> br_Status r = ''complete'' \<and> br_TransferResults r = []"
  using chunk_loop_all_fail [OF assms(3,2,5), of "defaultProvider m" req 0 "bq_Transfers req" "[]" None w] assms
  by (auto simp: InitiateBulkTransfer_def handleBulkWithNativeSupport_def splitAndProcessBulk_def
      aggregateBulkResults_def Let_def)

theorem failed_chunks_look_successful_witness:
  "\<exists>r w'. InitiateBulkTransfer failing_manager sample_bulk sample_world = Some (Inr r, w') \<and>
    br_Success r \<and> br_TransferResults r = []"
  using failed_chunks_look_successful [of failing_manager failing_api sample_bulk sample_world]
  by (auto simp: failing_manager_def failing_api_def sample_bulk_def)

end
