(* ===== verification/Transfer_Service.thy ===== *)
theory Transfer_Service
  imports Provider_Manager
begin

text \<open>
  Single transfers, \<^verbatim>\<open>internal/service/transfer_service.go\<close>: validation of the amount,
  check and lock of the balance, the transfer's record, the call of the provider, the
  withdrawal, and the deferred unlock. \<open>ExecuteTransfer\<close> reports every failure in its
  response and never returns a Go error, so its result is the response. The durations it
  reports are not modelled.
\<close>

record transfer_config =
  MinAmount :: int64
  MaxAmount :: int64

text \<open>The service: the manager, the limits, and whether a wallet service is wired in.\<close>

record transfer_service =
  ts_manager :: manager
  ts_config :: transfer_config
  ts_wallet :: bool

section \<open>Amounts\<close>

text \<open>Kobo from an amount in naira such as 1000 or 999.99.\<close>

definition parseAmountToKobo :: "string \<Rightarrow> int64 res" where
  "parseAmountToKobo amountStr =
     (case parse_float amountStr of
        None \<Rightarrow> Inl (Plain (''invalid amount format: '' @ amountStr))
      | Some f \<Rightarrow> Inr (int64_of_round (fmul f (Fin 100))))"

text \<open>\<^verbatim>\<open>ParseInt\<close> first, then \<^verbatim>\<open>ParseFloat\<close> and rounding.\<close>

definition whole_amount :: "string \<Rightarrow> int64 option" where
  "whole_amount amountStr =
     (case parse_int amountStr of
        Some i \<Rightarrow> if in64 i then Some i else map_option int64_of_round (parse_float amountStr)
      | None \<Rightarrow> map_option int64_of_round (parse_float amountStr))"

definition validateTransferAmount :: "transfer_config \<Rightarrow> string \<Rightarrow> unit res" where
  "validateTransferAmount cfg amountStr =
     (case whole_amount amountStr of
        None \<Rightarrow> Inl (Plain (''invalid amount format: '' @ amountStr))
      | Some amount \<Rightarrow>
          if MinAmount cfg > 0 \<and> amount < MinAmount cfg
          then Inl (NewTransferAmountBelowMinError amountStr (MinAmount cfg))
          else if MaxAmount cfg > 0 \<and> amount > MaxAmount cfg
          then Inl (NewTransferAmountAboveMaxError amountStr (MaxAmount cfg))
          else Inr ())"

section \<open>Preparing a request\<close>

definition generateReference :: "nat \<Rightarrow> world \<Rightarrow> string \<times> world" where
  "generateReference bid w =
     (let (t, w) = now w; (r, w) = rand_hex w
      in (''TRF-'' @ show_nat bid @ ''-'' @ show_int (t div 1000000) @ ''-'' @ take 8 r, w))"

definition prepareTransferRequest :: "nat \<Rightarrow> single_req \<Rightarrow> world \<Rightarrow> single_req \<times> world" where
  "prepareTransferRequest bid req w =
     (let (ref, w) = (if rq_Reference req = [] then generateReference bid w else (rq_Reference req, w))
      in (req\<lparr>rq_Reference := ref,
             rq_Currency := (if rq_Currency req = [] then ''NGN'' else rq_Currency req),
             rq_Narration := (if rq_Narration req = [] then ''Transfer'' else rq_Narration req),
             rq_BusinessID := bid\<rparr>, w))"

definition business_email :: "nat \<Rightarrow> world \<Rightarrow> string \<times> world" where
  "business_email bid w =
     attempt (user_FindBusinessAdmin bid w)
       (\<lambda>_ w. (''business-'' @ show_nat bid @ ''@payflow.local'', w)) (\<lambda>u w. (u_Email u, w))"

definition enrichWithBusinessEmail :: "nat \<Rightarrow> single_req \<Rightarrow> world \<Rightarrow> single_req \<times> world" where
  "enrichWithBusinessEmail bid req w =
     (let (email, w) = business_email bid w in (req\<lparr>rq_BusinessEmail := email\<rparr>, w))"

section \<open>ExecuteTransfer\<close>

definition failed_response :: "single_req \<Rightarrow> nat \<Rightarrow> string \<Rightarrow> single_resp" where
  "failed_response req transferID msg =
     \<lparr>rs_Success = False, rs_TransferID = transferID, rs_Reference = rq_Reference req, rs_TransactionID = [],
      rs_Status = ''failed'', rs_Message = [], rs_Provider = [], rs_Fee = [], rs_Error = msg\<rparr>"

definition transfer_row :: "nat \<Rightarrow> single_req \<Rightarrow> transfer" where
  "transfer_row bid req =
     \<lparr>t_ID = 0, t_CreatedAt = 0, t_BusinessID = bid, t_Reference = rq_Reference req, t_Amount = rq_Amount req,
      t_Currency = rq_Currency req, t_Narration = rq_Narration req, t_BankCode = rq_BankCode req,
      t_AccountNumber = rq_AccountNumber req, t_AccountName = rq_AccountName req, t_Provider = [],
      t_Status = ''pending'', t_TransactionID = [], t_ProviderStatus = [], t_ProviderMessage = [], t_Fee = [],
      t_ProcessedAt = None, t_ProcessingError = None\<rparr>"

text \<open>The balance is checked before the lock is taken; an Inl is the response to return.\<close>

definition check_balance :: "transfer_service \<Rightarrow> nat \<Rightarrow> single_req \<Rightarrow> world \<Rightarrow> (single_resp + unit) \<times> world" where
  "check_balance s bid req w =
     (if \<not> ts_wallet s then (Inr (), w)
      else case parseAmountToKobo (rq_Amount req) of
             Inl e \<Rightarrow> (Inl (failed_response req 0 (''Invalid amount format: '' @ err_text e)), w)
           | Inr amount \<Rightarrow>
               attempt (CheckBalance bid amount w)
                 (\<lambda>e w. (Inl (failed_response req 0 (err_text e)), w)) (\<lambda>_ w. (Inr (), w)))"

text \<open>The amount in kobo and whether it is locked.\<close>

definition lock_amount :: "transfer_service \<Rightarrow> nat \<Rightarrow> single_req \<Rightarrow> world \<Rightarrow> (single_resp + int64 \<times> bool) \<times> world" where
  "lock_amount s bid req w =
     (if \<not> ts_wallet s then (Inr (0, False), w)
      else case parseAmountToKobo (rq_Amount req) of
             Inl e \<Rightarrow> (Inr (0, False), w)
           | Inr amount \<Rightarrow>
               attempt (LockBalance bid amount w)
                 (\<lambda>e w. (Inl (failed_response req 0 (''Failed to lock balance: '' @ err_text e)), w))
                 (\<lambda>_ w. (Inr (amount, True), w)))"

definition result_fee :: "transfer_result \<Rightarrow> int64" where
  "result_fee result =
     (if tr_Fee result = [] then 0
      else case parseAmountToKobo (tr_Fee result) of Inl _ \<Rightarrow> 0 | Inr f \<Rightarrow> f)"

text \<open>After a provider accepted: the record, the withdrawal, the response, and whether the withdrawal is recorded.\<close>

definition complete_transfer ::
  "transfer_service \<Rightarrow> nat \<Rightarrow> single_req \<Rightarrow> int64 \<Rightarrow> transfer \<Rightarrow> transfer_result \<Rightarrow> world \<Rightarrow> (single_resp \<times> bool) \<times> world" where
  "complete_transfer s bid req amount t result w =
     (let (processed, w) = now w;
          t = t\<lparr>t_Provider := tr_Provider result, t_Status := tr_Status result,
                t_TransactionID := tr_TransactionID result, t_ProviderStatus := tr_Status result,
                t_ProviderMessage := tr_Message result, t_Fee := tr_Fee result,
                t_ProcessedAt := Some processed\<rparr>;
          (_, w) = transfer_Update t w;
          (recorded, w) =
            (if ts_wallet s \<and> tr_Success result \<and> tr_Status result = ''success''
             then attempt (RecordWithdrawal bid (t_ID t) amount (result_fee result) (rq_Reference req)
                             (tr_TransactionID result) w)
                    (\<lambda>_ w. (False, w)) (\<lambda>_ w. (True, w))
             else (False, w))
      in ((\<lparr>rs_Success = tr_Success result, rs_TransferID = t_ID t, rs_Reference = rq_Reference req,
            rs_TransactionID = tr_TransactionID result, rs_Status = tr_Status result,
            rs_Message = tr_Message result, rs_Provider = tr_Provider result, rs_Fee = tr_Fee result,
            rs_Error = []\<rparr>, recorded), w))"

definition fail_transfer ::
  "single_req \<Rightarrow> transfer \<Rightarrow> nat \<Rightarrow> int option \<Rightarrow> string \<Rightarrow> world \<Rightarrow> (single_resp \<times> bool) \<times> world" where
  "fail_transfer req t transferID processed msg w =
     (let (_, w) = transfer_Update (t\<lparr>t_Status := ''failed'', t_ProcessingError := Some msg,
                                       t_ProcessedAt := processed\<rparr>) w
      in ((failed_response req transferID msg, False), w))"

text \<open>The preferred provider if the request names one, else the default and the fallbacks.\<close>

definition dispatch ::
  "transfer_service \<Rightarrow> nat \<Rightarrow> single_req \<Rightarrow> int64 \<Rightarrow> transfer \<Rightarrow> world \<Rightarrow> (single_resp \<times> bool) \<times> world" where
  "dispatch s bid req amount t w =
     (let call = (\<lambda>r. attempt r
            (\<lambda>e w. (let (processed, w) = now w
                    in fail_transfer req t (t_ID t) (Some processed) (err_text e) w))
            (\<lambda>result w. complete_transfer s bid req amount t result w))
      in if rq_PreferredProvider req \<noteq> []
         then (case GetProvider (ts_manager s) (rq_PreferredProvider req) of
                 None \<Rightarrow> fail_transfer req t 0 None
                   (''provider '' @ [CHR 0x27] @ rq_PreferredProvider req @ [CHR 0x27] @ '' not available'') w
               | Some p \<Rightarrow> call (contact p req w))
         else call (InitiateTransfer (ts_manager s) req w))"

definition send_transfer ::
  "transfer_service \<Rightarrow> nat \<Rightarrow> single_req \<Rightarrow> int64 \<Rightarrow> world \<Rightarrow> (single_resp \<times> bool) \<times> world" where
  "send_transfer s bid req amount w =
     attempt (transfer_Create (transfer_row bid req) w)
       (\<lambda>e w. ((failed_response req 0 (''Failed to create transfer record: '' @ err_text e), False), w))
       (\<lambda>t w. dispatch s bid req amount t w)"

definition ExecuteTransfer :: "transfer_service \<Rightarrow> nat \<Rightarrow> single_req \<Rightarrow> world \<Rightarrow> single_resp \<times> world" where
  "ExecuteTransfer s bid req w =
     (let (req, w) = prepareTransferRequest bid req w
      in case validateTransferAmount (ts_config s) (rq_Amount req) of
           Inl e \<Rightarrow> (failed_response req 0 (err_text e), w)
         | Inr _ \<Rightarrow>
             (case check_balance s bid req w of
                (Inl resp, w) \<Rightarrow> (resp, w)
              | (Inr _, w) \<Rightarrow>
                  (let (req, w) = enrichWithBusinessEmail bid req w
                   in case lock_amount s bid req w of
                        (Inl resp, w) \<Rightarrow> (resp, w)
                      | (Inr (amount, locked), w) \<Rightarrow>
                          (let ((resp, recorded), w) = send_transfer s bid req amount w
                           in if locked \<and> \<not> recorded
                              then (let (_, w) = UnlockBalance bid amount w in (resp, w))
                              else (resp, w)))))"

section \<open>Reading and retrying\<close>

definition GetTransferByID :: "nat \<Rightarrow> world \<Rightarrow> transfer res \<times> world" where
  "GetTransferByID i w = transfer_FindByID i w"

definition ListTransfers :: "nat \<Rightarrow> nat \<Rightarrow> nat \<Rightarrow> world \<Rightarrow> (transfer list \<times> nat) res \<times> world" where
  "ListTransfers bid page limit w = transfer_FindByBusinessID bid page limit w"

definition retry_request :: "transfer \<Rightarrow> single_req" where
  "retry_request t =
     \<lparr>rq_Reference = t_Reference t @ ''-retry'', rq_Amount = t_Amount t, rq_BankCode = t_BankCode t,
      rq_AccountNumber = t_AccountNumber t, rq_AccountName = t_AccountName t, rq_Narration = t_Narration t,
      rq_Currency = t_Currency t, rq_PreferredProvider = [], rq_BusinessID = 0, rq_BusinessEmail = []\<rparr>"

lemma retry_reference [simp]: "rq_Reference (retry_request t) = t_Reference t @ ''-retry''"
  by (simp add: retry_request_def)

definition RetryTransfer :: "transfer_service \<Rightarrow> nat \<Rightarrow> nat \<Rightarrow> world \<Rightarrow> single_resp res \<times> world" where
  "RetryTransfer s bid i w =
     attempt (transfer_FindByID i w)
       (\<lambda>_ w. (Inl (Sentinel ErrNotFound), w))
       (\<lambda>t w.
          if t_BusinessID t \<noteq> bid then (Inl (Sentinel ErrForbidden), w)
          else if t_Status t \<noteq> ''failed''
          then (Inl (Wrap [] (Sentinel ErrValidationFailed)
                 ('': only failed transfers can be retried (current status: '' @ t_Status t @ '')'')), w)
          else (let (resp, w) = ExecuteTransfer s bid (retry_request t) w in (Inr resp, w)))"

section \<open>Invariants of the tables\<close>

lemma keeps_sum: "I (snd r) \<Longrightarrow> (\<And>e w. I w \<Longrightarrow> I (snd (f e w))) \<Longrightarrow> (\<And>y w. I w \<Longrightarrow> I (snd (g y w))) \<Longrightarrow>
  I (snd (case r of (Inl e, w) \<Rightarrow> f e w | (Inr y, w) \<Rightarrow> g y w))"
  by (cases r; cases "fst r") auto

context payment_invariant
begin

lemma rand_results: "I w \<Longrightarrow> I (snd (generateReference bid w))" "I w \<Longrightarrow> I (snd (prepareTransferRequest bid req w))"
  "I w \<Longrightarrow> I (snd (business_email bid w))" "I w \<Longrightarrow> I (snd (enrichWithBusinessEmail bid req w))"
proof -
  show ref: "I w \<Longrightarrow> I (snd (generateReference bid w))" for w
    by (simp add: generateReference_def now_def rand_hex_def Let_def inv_tick)
  show "I w \<Longrightarrow> I (snd (prepareTransferRequest bid req w))"
    using ref by (simp add: prepareTransferRequest_def Let_def split_beta)
  show mail: "I w \<Longrightarrow> I (snd (business_email bid w))" for w
    by (auto simp: business_email_def intro!: results)
  show "I w \<Longrightarrow> I (snd (enrichWithBusinessEmail bid req w))"
    using mail by (simp add: enrichWithBusinessEmail_def Let_def split_beta)
qed

lemma complete_transfer_keeps: "I w \<Longrightarrow> I (snd (complete_transfer s bid req amount t result w))"
  unfolding complete_transfer_def Let_def by (auto intro!: results wallet_results)

lemma fail_transfer_keeps: "I w \<Longrightarrow> I (snd (fail_transfer req t i processed msg w))"
  unfolding fail_transfer_def Let_def by (auto intro!: results)

lemma send_transfer_keeps: "I w \<Longrightarrow> I (snd (send_transfer s bid req amount w))"
  unfolding send_transfer_def dispatch_def Let_def
  by (auto intro!: results fail_transfer_keeps complete_transfer_keeps contact_keeps InitiateTransfer_keeps
      split: option.splits)

lemma ExecuteTransfer_keeps: "I w \<Longrightarrow> I (snd (ExecuteTransfer s bid req w))"
  unfolding ExecuteTransfer_def check_balance_def lock_amount_def Let_def
  by (auto intro!: results wallet_results rand_results send_transfer_keeps keeps_sum [where I = I]
      split: sum.splits)

lemma RetryTransfer_keeps: "I w \<Longrightarrow> I (snd (RetryTransfer s bid i w))"
  unfolding RetryTransfer_def Let_def by (auto intro!: results ExecuteTransfer_keeps)

end

section \<open>What a transfer does\<close>

text \<open>Calling providers changes only the call log, the breakers and the clock.\<close>

definition only_calls :: "world \<Rightarrow> world \<Rightarrow> bool" where
  "only_calls w w' \<longleftrightarrow> wallets w' = wallets w \<and> wallet_txs w' = wallet_txs w \<and> ledger w' = ledger w \<and>
     transfers w' = transfers w \<and> loans w' = loans w \<and> runs w' = runs w \<and> faults w' = faults w \<and>
     clock w' = clock w \<and> entropy w' = entropy w"

lemma only_calls_trans: "only_calls w w' \<Longrightarrow> only_calls w' w'' \<Longrightarrow> only_calls w w''"
  by (simp add: only_calls_def)

lemma contact_only_calls: "only_calls w (snd (contact p req w))"
  by (simp add: only_calls_def contact_def)

lemma attemptTransfer_only_calls: "only_calls w (snd (attemptTransfer p req w))"
  by (cases "p_answer p (length (calls w)) req")
    (simp_all add: only_calls_def attemptTransfer_def now_def set_breaker_def contact_def Let_def split_beta)

lemma tryTransfer_only_calls: "only_calls w (snd (tryTransfer ps e req w))"
proof (induction ps arbitrary: e w)
  case Nil
  then show ?case by (simp add: only_calls_def)
next
  case (Cons p ps)
  obtain r w' where step: "attemptTransfer p req w = (r, w')" by (cases "attemptTransfer p req w")
  with attemptTransfer_only_calls [of w p req] have "only_calls w w'" by simp
  with step Cons [of w'] show ?case by (cases r) (auto intro: only_calls_trans)
qed

lemma wp_contact: "(\<And>r w'. only_calls w w' \<Longrightarrow> Q r w') \<Longrightarrow> post Q (contact p req w)"
  using contact_only_calls [of w p req] by (simp add: post_def)

lemma wp_InitiateTransfer:
  "(\<And>r w'. only_calls w w' \<Longrightarrow> Q r w') \<Longrightarrow> post Q (InitiateTransfer m req w)"
  using tryTransfer_only_calls [of w] by (simp add: post_def InitiateTransfer_def)

text \<open>The response says that the payment succeeded.\<close>

definition paid :: "single_resp \<Rightarrow> bool" where
  "paid resp \<longleftrightarrow> rs_Success resp \<and> rs_Status resp = ''success''"

lemma not_paid_failed [simp]: "\<not> paid (failed_response req i msg)"
  by (simp add: paid_def failed_response_def)

definition same_money :: "world \<Rightarrow> world \<Rightarrow> bool" where
  "same_money w w' \<longleftrightarrow> (\<forall>b. balance_of (wallets w') b = balance_of (wallets w) b) \<and>
     wallet_txs w' = wallet_txs w \<and> ledger w' = ledger w"

lemma same_money_refl [simp]: "same_money w w"
  and same_money_trans: "same_money w w' \<Longrightarrow> same_money w' w'' \<Longrightarrow> same_money w w''"
  by (simp_all add: same_money_def)

lemma same_money_frame [simp]:
  "same_money v (w\<lparr>faults := fs\<rparr>) = same_money v w" "same_money v (w\<lparr>transfers := ts\<rparr>) = same_money v w"
  "same_money v (w\<lparr>tick := n\<rparr>) = same_money v w"
  by (simp_all add: same_money_def)

lemma calls_same:
  "same_money v w \<Longrightarrow> post (\<lambda>_. same_money v) (contact p req w)"
  "same_money v w \<Longrightarrow> post (\<lambda>_. same_money v) (InitiateTransfer m req w)"
  by (rule wp_contact, simp add: same_money_def only_calls_def)
    (rule wp_InitiateTransfer, simp add: same_money_def only_calls_def)

lemma fail_transfer_unpaid: "same_money v w \<Longrightarrow> post (\<lambda>(resp, rec) w'. \<not> paid resp \<and> same_money v w')
    (fail_transfer req t i processed msg w)"
  unfolding fail_transfer_def Let_def
  by (auto intro!: wp)

lemma wp_any: "(\<And>x w. Q x w) \<Longrightarrow> post Q r"
  by (simp add: post_def)

lemma complete_transfer_unpaid:
  "same_money v w \<Longrightarrow> post (\<lambda>(resp, rec) w'. paid resp \<or> (\<not> rec \<and> same_money v w'))
    (complete_transfer s bid req amount t result w)"
  unfolding complete_transfer_def Let_def
  by (intro wp) (auto simp: paid_def same_money_def intro: wp_any)

lemma send_transfer_unpaid:
  "same_money v w \<Longrightarrow> post (\<lambda>(resp, rec) w'. paid resp \<or> (\<not> rec \<and> same_money v w'))
    (send_transfer s bid req amount w)"
proof -
  have fail: "post (\<lambda>(resp, rec) w'. paid resp \<or> (\<not> rec \<and> same_money v w')) (fail_transfer req t i pr msg w)"
    if "same_money v w" for t i pr msg w
  proof -
    have "snd (fst (fail_transfer req t i pr msg w)) = False"
      by (simp add: fail_transfer_def Let_def split_beta)
    then show ?thesis using fail_transfer_unpaid [OF that, of req t i pr msg]
      by (simp add: post_def split_beta)
  qed
  show "same_money v w \<Longrightarrow> ?thesis"
    unfolding send_transfer_def dispatch_def Let_def
    by (auto intro!: wp fail complete_transfer_unpaid calls_same [THEN post_mono])
qed

lemma unlock_same_money:
  "c \<or> same_money v w \<Longrightarrow> post (\<lambda>_ w'. c \<or> same_money v w') (UnlockBalance bid a w)"
  unfolding UnlockBalance_def same_money_def by (auto intro!: wp dest: balance_of_Some intro: wp_any)

lemma lock_same_money: "same_money v w \<Longrightarrow> post (\<lambda>_. same_money v) (LockBalance bid a w)"
  unfolding LockBalance_def same_money_def by (auto intro!: wp dest: balance_of_Some)

lemma check_balance_same:
  "same_money v w \<Longrightarrow> post (\<lambda>r w'. same_money v w' \<and> (\<forall>resp. r = Inl resp \<longrightarrow> \<not> paid resp))
    (check_balance s bid req w)"
  unfolding check_balance_def CheckBalance_def Let_def
  by (auto intro!: wp)

lemma lock_amount_same:
  "same_money v w \<Longrightarrow> post (\<lambda>r w'. same_money v w' \<and> (\<forall>resp. r = Inl resp \<longrightarrow> \<not> paid resp))
    (lock_amount s bid req w)"
  unfolding lock_amount_def
  by (auto intro!: wp lock_same_money [THEN post_mono])

lemma prepare_same: "same_money v w \<Longrightarrow> post (\<lambda>_. same_money v) (prepareTransferRequest bid req w)"
  unfolding prepareTransferRequest_def generateReference_def Let_def by (auto intro!: wp)

lemma email_same: "same_money v w \<Longrightarrow> post (\<lambda>_. same_money v) (enrichWithBusinessEmail bid req w)"
  unfolding enrichWithBusinessEmail_def business_email_def Let_def by (auto intro!: wp)

lemma unlock_response:
  "paid resp \<or> same_money v w \<Longrightarrow>
   post (\<lambda>resp w'. paid resp \<or> same_money v w') (case UnlockBalance bid a w of (_, w) \<Rightarrow> (resp, w))"
  by (rule wp_case, rule unlock_same_money [THEN post_mono]) auto

lemma ExecuteTransfer_unpaid:
  "post (\<lambda>resp w'. paid resp \<or> same_money w w') (ExecuteTransfer s bid req w)"
  unfolding ExecuteTransfer_def Let_def
  by (auto intro!: wp prepare_same [THEN post_mono] check_balance_same [THEN post_mono]
      email_same [THEN post_mono] lock_amount_same [THEN post_mono] send_transfer_unpaid [THEN post_mono]
      unlock_response)

section \<open>When a provider is called\<close>

definition available :: "transfer_service \<Rightarrow> nat \<Rightarrow> string \<Rightarrow> world \<Rightarrow> bool" where
  "available s bid amountStr w \<longleftrightarrow>
     (ts_wallet s \<longrightarrow> (\<exists>amount x. parseAmountToKobo amountStr = Inr amount \<and>
        map_of (wallets w) bid = Some x \<and> amount \<le> w_Balance x - w_LockedBalance x))"

text \<open>Nothing sent and nothing recorded yet; \<open>idle\<close> also leaves the wallets alone.\<close>

definition unsent_yet :: "world \<Rightarrow> world \<Rightarrow> bool" where
  "unsent_yet v w \<longleftrightarrow> calls w = calls v \<and> transfers w = transfers v"

definition idle :: "world \<Rightarrow> world \<Rightarrow> bool" where
  "idle v w \<longleftrightarrow> unsent_yet v w \<and> wallets w = wallets v"

definition sent_fresh :: "string \<Rightarrow> world \<Rightarrow> world \<Rightarrow> bool" where
  "sent_fresh ref v w \<longleftrightarrow> calls w = calls v \<or> (\<not> has_reference ref v \<and> has_reference ref w)"

lemmas stage_defs = unsent_yet_def idle_def sent_fresh_def

lemma prepare_idle:
  "idle v w \<Longrightarrow> rq_Reference req \<noteq> [] \<Longrightarrow>
   post (\<lambda>r w'. idle v w' \<and> rq_Reference r = rq_Reference req \<and> rq_Amount r = rq_Amount req)
     (prepareTransferRequest bid req w)"
  unfolding prepareTransferRequest_def Let_def by (auto intro!: wp)

lemma check_idle:
  "idle v w \<Longrightarrow> post (\<lambda>r w'. idle v w' \<and>
      (r = Inr () \<longrightarrow> ts_wallet s \<longrightarrow> (\<exists>a. parseAmountToKobo (rq_Amount req) = Inr a)))
    (check_balance s bid req w)"
  unfolding check_balance_def CheckBalance_def Let_def by (auto intro!: wp simp: stage_defs)

lemma email_idle:
  "idle v w \<Longrightarrow> post (\<lambda>r w'. idle v w' \<and> rq_Reference r = rq_Reference req \<and> rq_Amount r = rq_Amount req)
     (enrichWithBusinessEmail bid req w)"
  unfolding enrichWithBusinessEmail_def business_email_def Let_def by (auto intro!: wp simp: stage_defs)

lemma lock_idle:
  "idle v w \<Longrightarrow> (ts_wallet s \<longrightarrow> (\<exists>a. parseAmountToKobo (rq_Amount req) = Inr a)) \<Longrightarrow>
   post (\<lambda>r w'. unsent_yet v w' \<and> (\<forall>y. r = Inr y \<longrightarrow> available s bid (rq_Amount req) v))
     (lock_amount s bid req w)"
  unfolding lock_amount_def LockBalance_def by (auto intro!: wp simp: stage_defs available_def)

lemma has_reference_replace:
  "has_reference ref w \<Longrightarrow> t_Reference t = ref \<Longrightarrow>
   (\<forall>u \<in> set (transfers w). t_ID u = t_ID t \<or> t_Reference u \<noteq> t_Reference t) \<Longrightarrow>
   has_reference ref (w'\<lparr>transfers := map (\<lambda>u. if t_ID u = t_ID t then t else u) (transfers w)\<rparr>)"
  by (fastforce simp: has_reference_def image_iff)

lemma update_sent:
  assumes "has_reference (t_Reference t) w"
  shows "post (\<lambda>_ w'. has_reference (t_Reference t) w' \<and> calls w' = calls w) (transfer_Update t w)"
proof (intro wp, goal_cases)
  case 3
  then show ?case using has_reference_replace [OF assms refl] by simp
qed (use assms in \<open>auto simp: has_reference_def\<close>)

text \<open>After the record is created, its reference stays in the table.\<close>

lemma fail_sent:
  "has_reference (t_Reference t) w \<Longrightarrow>
   post (\<lambda>_. has_reference (t_Reference t)) (fail_transfer req t i processed msg w)"
  unfolding fail_transfer_def Let_def
  using update_sent [of "t\<lparr>t_Status := ''failed'', t_ProcessingError := Some msg, t_ProcessedAt := processed\<rparr>" w]
  by (auto intro!: wp_case elim: post_mono)

lemma withdrawal_transfers:
  "post (\<lambda>_ w'. transfers w' = transfers w \<and> calls w' = calls w) (RecordWithdrawal bid i a fee ref pref w)"
  unfolding RecordWithdrawal_def withdrawal_ledger_def ledger_op_defs Let_def by (auto intro!: wp)

lemma complete_sent:
  assumes "has_reference (t_Reference t) w"
  shows "post (\<lambda>_. has_reference (t_Reference t)) (complete_transfer s bid req amount t result w)"
proof -
  let ?t = "\<lambda>p. t\<lparr>t_Provider := tr_Provider result, t_Status := tr_Status result,
                t_TransactionID := tr_TransactionID result, t_ProviderStatus := tr_Status result,
                t_ProviderMessage := tr_Message result, t_Fee := tr_Fee result, t_ProcessedAt := Some p\<rparr>"
  have upd: "post (\<lambda>_ w'. has_reference (t_Reference t) w' \<and> calls w' = calls w) (transfer_Update (?t p) w)"
    if "has_reference (t_Reference t) w" for p w
    using update_sent [of "?t p" w] that by simp
  have same: "post (\<lambda>_. has_reference (t_Reference t)) (RecordWithdrawal bid i a fee ref pref w)"
    if "has_reference (t_Reference t) w" for i a fee ref pref w
    using withdrawal_transfers [of w bid i a fee ref pref] that by (simp add: post_def has_reference_def)
  show ?thesis
    unfolding complete_transfer_def Let_def
    by (rule wp_case wp_now)+ (use assms in \<open>auto intro!: wp_case wp_if wp_attempt upd [THEN post_mono] same [THEN post_mono]
        simp: has_reference_def\<close>)
qed

lemma calls_sent:
  "has_reference ref w \<Longrightarrow> post (\<lambda>_. has_reference ref) (contact p req w)"
  "has_reference ref w \<Longrightarrow> post (\<lambda>_. has_reference ref) (InitiateTransfer m req w)"
  by (rule wp_contact, simp add: has_reference_def only_calls_def)
    (rule wp_InitiateTransfer, simp add: has_reference_def only_calls_def)

lemma has_reference_frame [simp]:
  "has_reference ref (w\<lparr>tick := n\<rparr>) = has_reference ref w"
  "has_reference ref (w\<lparr>faults := fs\<rparr>) = has_reference ref w"
  by (simp_all add: has_reference_def)

lemma dispatch_sent:
  "has_reference (t_Reference t) w \<Longrightarrow>
   post (\<lambda>_. has_reference (t_Reference t)) (dispatch s bid req amount t w)"
  unfolding dispatch_def Let_def
  by (auto intro!: wp fail_sent complete_sent calls_sent [THEN post_mono])

lemma send_fresh:
  assumes "unsent_yet v w"
  shows "post (\<lambda>_. sent_fresh (rq_Reference req) v) (send_transfer s bid req amount w)"
  unfolding send_transfer_def
proof (rule wp_attempt, rule wp_transfer_Create, goal_cases)
  case (1 e fs)
  then show ?case using assms by (simp add: stage_defs)
next
  case (2 fs)
  let ?w = "w\<lparr>faults := fs, transfers := transfers w @ [new_row w (transfer_row bid req)]\<rparr>"
  have "t_Reference (new_row w (transfer_row bid req)) = rq_Reference req"
    by (simp add: new_row_def transfer_row_def)
  then have "post (\<lambda>_. has_reference (rq_Reference req))
      (dispatch s bid req amount (new_row w (transfer_row bid req)) ?w)"
    using dispatch_sent [of "new_row w (transfer_row bid req)" ?w] by (simp add: has_reference_def)
  moreover have "\<not> has_reference (rq_Reference req) v"
    using 2 assms by (simp add: has_reference_def transfer_row_def stage_defs)
  ultimately show ?case by (auto simp: sent_fresh_def elim: post_mono)
qed

lemma unlock_sent: "sent_fresh ref v w \<Longrightarrow> post (\<lambda>_. sent_fresh ref v) (UnlockBalance bid a w)"
  unfolding UnlockBalance_def by (auto intro!: wp simp: sent_fresh_def has_reference_def)

definition payment_guard :: "transfer_service \<Rightarrow> nat \<Rightarrow> single_req \<Rightarrow> world \<Rightarrow> world \<Rightarrow> bool" where
  "payment_guard s bid req v w \<longleftrightarrow> calls w = calls v \<or>
     (validateTransferAmount (ts_config s) (rq_Amount req) = Inr () \<and> available s bid (rq_Amount req) v \<and>
      \<not> has_reference (rq_Reference req) v \<and> has_reference (rq_Reference req) w)"

lemma guard_idle: "idle v w \<Longrightarrow> payment_guard s bid req v w"
  and guard_unsent: "unsent_yet v w \<Longrightarrow> payment_guard s bid req v w"
  by (simp_all add: stage_defs payment_guard_def)

lemma guard_sent:
  "sent_fresh (rq_Reference req) v w \<Longrightarrow> validateTransferAmount (ts_config s) (rq_Amount req) = Inr () \<Longrightarrow>
   available s bid (rq_Amount req) v \<Longrightarrow> payment_guard s bid req v w"
  by (auto simp: sent_fresh_def payment_guard_def)

lemma ExecuteTransfer_guard:
  assumes "rq_Reference req \<noteq> []"
  shows "post (\<lambda>_. payment_guard s bid req w) (ExecuteTransfer s bid req w)"
proof -
  have start: "idle w w" by (simp add: stage_defs)
  have send: "post (\<lambda>_. sent_fresh (rq_Reference req) w) (send_transfer s bid r amount w')"
    if "unsent_yet w w'" and "rq_Reference r = rq_Reference req" for r amount w'
    using send_fresh [OF that(1), of r s bid amount] that(2) by simp
  show ?thesis
    unfolding ExecuteTransfer_def Let_def
    by (auto intro!: wp prepare_idle [OF start assms, THEN post_mono] check_idle [THEN post_mono]
        email_idle [THEN post_mono] lock_idle [THEN post_mono] send [THEN post_mono]
        unlock_sent [THEN post_mono] intro: guard_idle guard_unsent guard_sent)
qed

section \<open>Where the money goes\<close>

text \<open>With no faults left, the operations of the wallet are those of the abstract bank.\<close>

lemmas bank_steps = LockBalance_refines [unfolded refines_post] UnlockBalance_refines [unfolded refines_post]
  RecordWithdrawal_refines [unfolded refines_post]

definition settled :: "bank \<Rightarrow> world \<Rightarrow> bool" where
  "settled bk w \<longleftrightarrow> faults w = [] \<and> bank_of w = bk"

lemma settled_frame [simp]:
  "settled bk (w\<lparr>tick := n\<rparr>) = settled bk w" "settled bk (w\<lparr>transfers := ts\<rparr>) = settled bk w"
  by (simp_all add: settled_def bank_of_def references_def)

lemma settled_calls: "settled bk w \<Longrightarrow> post (\<lambda>_. settled bk) (contact p req w)"
  "settled bk w \<Longrightarrow> post (\<lambda>_. settled bk) (InitiateTransfer m req w)"
  by (rule wp_contact, simp add: settled_def only_calls_def bank_of_def references_def)
    (rule wp_InitiateTransfer, simp add: settled_def only_calls_def bank_of_def references_def)

lemma settled_update: "settled bk w \<Longrightarrow> post (\<lambda>_. settled bk) (transfer_Update t w)"
  by (rule clean_transfer_Update) (simp_all add: settled_def bank_of_def references_def)

lemma settled_prepare:
  "settled bk w \<Longrightarrow> rq_Reference req \<noteq> [] \<Longrightarrow>
   post (\<lambda>r w'. settled bk w' \<and> rq_Reference r = rq_Reference req \<and> rq_Amount r = rq_Amount req)
     (prepareTransferRequest bid req w)"
  unfolding prepareTransferRequest_def Let_def by (auto intro!: wp)

lemma settled_email:
  "settled bk w \<Longrightarrow>
   post (\<lambda>r w'. settled bk w' \<and> rq_Reference r = rq_Reference req \<and> rq_Amount r = rq_Amount req)
     (enrichWithBusinessEmail bid req w)"
  unfolding enrichWithBusinessEmail_def business_email_def Let_def
  by (auto intro!: clean_control clean_user_FindBusinessAdmin simp: settled_def)

lemma settled_check:
  "settled bk w \<Longrightarrow> post (\<lambda>r w'. settled bk w' \<and> (\<forall>resp. r = Inl resp \<longrightarrow> \<not> paid resp)) (check_balance s bid req w)"
  unfolding check_balance_def CheckBalance_def Let_def
  by (auto intro!: clean simp: settled_def)

definition withdrawn :: "string \<Rightarrow> int \<Rightarrow> nat \<Rightarrow> bank \<Rightarrow> world \<Rightarrow> bool" where
  "withdrawn ref amount bid bk w \<longleftrightarrow>
     faults w = [] \<and> (\<exists>fee. bank_withdraw ref (add64 amount fee) amount bid bk = Some (bank_of w))"

definition outcome_of_send :: "string \<Rightarrow> int \<Rightarrow> nat \<Rightarrow> bank \<Rightarrow> single_resp \<times> bool \<Rightarrow> world \<Rightarrow> bool" where
  "outcome_of_send ref amount bid bk = (\<lambda>(resp, rec) w.
     if rec then paid resp \<and> withdrawn ref amount bid bk w else settled bk w)"

lemma outcome_unrecorded [simp]: "outcome_of_send ref a bid bk (resp, False) w = settled bk w"
  by (simp add: outcome_of_send_def)

lemma settled_fail:
  "settled bk w \<Longrightarrow> post (outcome_of_send ref a bid bk) (fail_transfer req t i processed msg w)"
  unfolding fail_transfer_def Let_def by (auto intro!: wp_case settled_update [THEN post_mono])

lemma settled_withdraw:
  assumes "settled bk w"
  shows "post (\<lambda>r w'. if r then withdrawn ref a bid bk w' else settled bk w')
    (attempt (RecordWithdrawal bid i a fee ref pref w) (\<lambda>_ w. (False, w)) (\<lambda>_ w. (True, w)))"
proof -
  have "post (\<lambda>x w'. faults w' = [] \<and> (case bank_withdraw ref (add64 a fee) a bid bk of
      None \<Rightarrow> (\<exists>e. x = Inl e) \<and> bank_of w' = bk | Some bk' \<Rightarrow> x = Inr () \<and> bank_of w' = bk'))
    (RecordWithdrawal bid i a fee ref pref w)"
    using assms bank_steps(3) [of w ref a fee bid i pref] by (auto simp: settled_def)
  then show ?thesis
    by (intro wp_attempt, elim post_mono)
      (cases "bank_withdraw ref (add64 a fee) a bid bk"; auto simp: settled_def withdrawn_def)
qed

lemma complete_settled:
  assumes "settled bk w" and "ts_wallet s"
  shows "post (outcome_of_send (rq_Reference req) a bid bk) (complete_transfer s bid req a t result w)"
  unfolding complete_transfer_def Let_def
  using assms
  by (auto intro!: wp_case wp_now wp_if settled_update [THEN post_mono] settled_withdraw [THEN post_mono]
      simp: outcome_of_send_def paid_def)

lemma settled_faults: "settled bk w \<Longrightarrow> faults w = []"
  by (simp add: settled_def)

lemma send_settled:
  assumes "settled bk w" and "ts_wallet s"
  shows "post (outcome_of_send (rq_Reference req) a bid bk) (send_transfer s bid req a w)"
  unfolding send_transfer_def dispatch_def Let_def
  using assms
  by (auto intro!: clean_control clean_transfer_Create settled_faults settled_calls [THEN post_mono]
      complete_settled settled_fail)

lemma settled_lock:
  assumes "settled bk w" and "ts_wallet s" and "parseAmountToKobo (rq_Amount req) = Inr a"
  shows "post (\<lambda>r w'. case r of
      Inl resp \<Rightarrow> \<not> paid resp \<and> settled bk w'
    | Inr y \<Rightarrow> y = (a, True) \<and> (\<exists>bk'. bank_lock a bid bk = Some bk' \<and> settled bk' w'))
    (lock_amount s bid req w)"
proof -
  have "post (\<lambda>x w'. faults w' = [] \<and> (case bank_lock a bid bk of
      None \<Rightarrow> (\<exists>e. x = Inl e) \<and> bank_of w' = bk | Some bk' \<Rightarrow> x = Inr () \<and> bank_of w' = bk'))
    (LockBalance bid a w)"
    using assms bank_steps(1) [of w a bid] by (auto simp: settled_def)
  then show ?thesis
    using assms(2,3)
    by (simp add: lock_amount_def, intro wp_attempt, elim post_mono)
      (cases "bank_lock a bid bk"; auto simp: settled_def)
qed

text \<open>Unlocking what was locked.\<close>

lemma bank_lock_unlock:
  assumes "bank_lock a bid bk = Some bk'" and "\<And>b l. fst bk bid = Some (b, l) \<Longrightarrow> in_range (b, l)"
  shows "bank_unlock a bid bk' = Some bk"
  using assms
  by (cases bk) (auto simp: bank_lock_def bank_unlock_def on_account_def in_range_def bigint_nonneg_def max_def
      fun_upd_idem split: option.splits if_splits)

lemma settled_unlock:
  assumes "settled bk' w" and "bank_unlock a bid bk' = Some bk"
  shows "post (\<lambda>_. settled bk) (UnlockBalance bid a w)"
  using bank_steps(2) [of w a bid] assms by (auto simp: settled_def elim!: post_mono)

definition money_flow :: "string \<Rightarrow> int \<Rightarrow> nat \<Rightarrow> bank \<Rightarrow> single_resp \<Rightarrow> world \<Rightarrow> bool" where
  "money_flow ref a bid bk resp w' \<longleftrightarrow> settled bk w' \<or>
     (paid resp \<and> (\<exists>bk'. bank_lock a bid bk = Some bk' \<and> withdrawn ref a bid bk' w'))"

lemma flow_settled [simp]: "settled bk w \<Longrightarrow> money_flow ref a bid bk resp w"
  by (simp add: money_flow_def)

definition locked_from :: "int \<Rightarrow> nat \<Rightarrow> bank \<Rightarrow> world \<Rightarrow> bool" where
  "locked_from a bid bk w \<longleftrightarrow> (\<exists>bk'. bank_lock a bid bk = Some bk' \<and> settled bk' w)"

lemma ExecuteTransfer_flow:
  assumes "faults w = []" and "ts_wallet s" and "parseAmountToKobo (rq_Amount req) = Inr a"
    and "rq_Reference req \<noteq> []" and range: "\<And>b l. accounts (wallets w) bid = Some (b, l) \<Longrightarrow> in_range (b, l)"
  shows "post (money_flow (rq_Reference req) a bid (bank_of w)) (ExecuteTransfer s bid req w)"
proof -
  let ?bk = "bank_of w" and ?ref = "rq_Reference req"
  have start: "settled ?bk w" using assms(1) by (simp add: settled_def)
  have lock: "post (\<lambda>x w. (\<forall>resp. x = Inl resp \<longrightarrow> settled ?bk w) \<and>
      (\<forall>y. x = Inr y \<longrightarrow> y = (a, True) \<and> locked_from a bid ?bk w)) (lock_amount s bid r w')"
    if "settled ?bk w'" "rq_Amount r = rq_Amount req" for r w'
    using settled_lock [OF that(1) assms(2), of r a bid] assms(3) that(2)
    by (auto simp: locked_from_def elim!: post_mono split: sum.splits)
  have send: "post (\<lambda>(resp, rec) w'. if rec then money_flow ?ref a bid ?bk resp w' else locked_from a bid ?bk w')
      (send_transfer s bid r a w')"
    if locked: "locked_from a bid ?bk w'" and "rq_Reference r = ?ref" for r w'
  proof -
    obtain bk' where bk': "bank_lock a bid ?bk = Some bk'" "settled bk' w'"
      using locked unfolding locked_from_def by blast
    have imp: "outcome_of_send ?ref a bid bk' x w'' \<Longrightarrow>
        (case x of (resp, rec) \<Rightarrow> if rec then money_flow ?ref a bid ?bk resp w'' else locked_from a bid ?bk w'')" for x w''
      using bk'(1) by (cases x) (auto simp: outcome_of_send_def money_flow_def locked_from_def)
    have "post (outcome_of_send ?ref a bid bk') (send_transfer s bid r a w')"
      using send_settled [OF bk'(2) assms(2), of r a bid] that(2) by simp
    then show ?thesis by (rule post_mono) (auto dest: imp split: prod.splits)
  qed
  have unlock: "post (\<lambda>_. settled ?bk) (UnlockBalance bid a w')" if locked: "locked_from a bid ?bk w'" for w'
  proof -
    obtain bk' where "bank_lock a bid ?bk = Some bk'" "settled bk' w'"
      using locked unfolding locked_from_def by blast
    then show ?thesis
      using settled_unlock bank_lock_unlock range by (metis bank_of_def fst_conv)
  qed
  show ?thesis
    unfolding ExecuteTransfer_def Let_def
    by (auto intro!: wp settled_prepare [OF start assms(4), THEN post_mono] settled_check [THEN post_mono]
        settled_email [THEN post_mono] lock [THEN post_mono] send [THEN post_mono] unlock [THEN post_mono]
        split: if_splits)
qed

section \<open>Properties\<close>

definition sample_service :: transfer_service where
  "sample_service = \<lparr>ts_manager = sample_manager, ts_config = \<lparr>MinAmount = 0, MaxAmount = 0\<rparr>, ts_wallet = True\<rparr>"

text \<open>A wallet with enough for the sample request of 2500 naira.\<close>

definition rich_world :: world where
  "rich_world = sample_world\<lparr>wallets := [(1, sample_wallet\<lparr>w_Balance := 1000000\<rparr>)]\<rparr>"

lemma sample_kobo: "parseAmountToKobo (rq_Amount sample_req) = Inr 250000"
proof -
  have "rq_Amount sample_req = show_int 2500" by code_simp
  moreover have "fmul (Fin 2500) (Fin 100) = Fin (rnd (of_int 250000))" by (simp add: fl64_finite)
  moreover have "rnd (of_int 250000) = of_int 250000" by (rule rnd_int) simp
  moreover have "int64_of_round (Fin 250000) = 250000" by (simp add: round_away_def in64_def floor_eq_iff)
  ultimately show ?thesis using parse_float_show_int [of 2500] by (simp add: parseAmountToKobo_def)
qed



text \<open>
  Without a reported success no money moves. Under every schedule of faults, unless the
  response says success, the balance of every wallet, the wallet history and the ledger are
  the same after \<open>ExecuteTransfer\<close> as before.
\<close>

theorem unpaid_transfer_keeps_balances:
  "case ExecuteTransfer s bid req w of (resp, w') \<Rightarrow>
     paid resp \<or> ((\<forall>b. balance_of (wallets w') b = balance_of (wallets w) b) \<and>
       wallet_txs w' = wallet_txs w \<and> ledger w' = ledger w)"
  using ExecuteTransfer_unpaid [of w s bid req] by (simp add: post_def same_money_def split_beta)

text \<open>
  C1: A payment is ordered only under guard. Under every schedule of faults, if
  \<open>ExecuteTransfer\<close> calls any provider, then the amount passed the limits, it was available
  (balance less locked) when the call began, no transfer had this reference before, and the
  transfer is on record with this reference afterwards. So a reference is never paid twice.
\<close>

theorem payments_are_guarded:
  assumes "rq_Reference req \<noteq> []"
  shows "case ExecuteTransfer s bid req w of (resp, w') \<Rightarrow> calls w' = calls w \<or>
     (validateTransferAmount (ts_config s) (rq_Amount req) = Inr () \<and> available s bid (rq_Amount req) w \<and>
      \<not> has_reference (rq_Reference req) w \<and> has_reference (rq_Reference req) w')"
  using ExecuteTransfer_guard [OF assms, of s bid w] by (simp add: post_def payment_guard_def split_beta)

theorem payments_are_guarded_witness:
  "calls (snd (ExecuteTransfer sample_service 1 sample_req
     (rich_world\<lparr>transfers := [transfer_row 1 sample_req]\<rparr>))) = []"
proof -
  let ?w = "rich_world\<lparr>transfers := [transfer_row 1 sample_req]\<rparr>"
  have "has_reference (rq_Reference sample_req) ?w" by (simp add: has_reference_def transfer_row_def)
  moreover have "calls ?w = []" by (simp add: rich_world_def sample_world_def)
  ultimately show ?thesis
    using payments_are_guarded [where req = sample_req and s = sample_service and bid = 1 and w = ?w]
    by (simp add: sample_req_def split_beta)
qed

text \<open>
  C20: A transfer is retried only if it failed, by its own business, and once. If
  \<open>RetryTransfer\<close> calls a provider, the transfer exists, belongs to the business and is marked
  failed, and the reference of the retry was unused before and is used afterwards.
\<close>

theorem retry_at_most_once:
  "case RetryTransfer s bid i w of (r, w') \<Rightarrow> calls w' = calls w \<or>
     (\<exists>t \<in> set (transfers w). t_ID t = i \<and> t_BusinessID t = bid \<and> t_Status t = ''failed'' \<and>
        \<not> has_reference (t_Reference t @ ''-retry'') w \<and> has_reference (t_Reference t @ ''-retry'') w')"
proof -
  have guard: "post (\<lambda>_. payment_guard s b (retry_request t) (w\<lparr>faults := fs\<rparr>))
      (ExecuteTransfer s b (retry_request t) (w\<lparr>faults := fs\<rparr>))" for b t fs
    by (rule ExecuteTransfer_guard) (simp add: retry_request_def)
  have "post (\<lambda>r w'. calls w' = calls w \<or>
     (\<exists>t \<in> set (transfers w). t_ID t = i \<and> t_BusinessID t = bid \<and> t_Status t = ''failed'' \<and>
        \<not> has_reference (t_Reference t @ ''-retry'') w \<and> has_reference (t_Reference t @ ''-retry'') w'))
     (RetryTransfer s bid i w)"
    unfolding RetryTransfer_def Let_def
    by (auto intro!: wp guard [THEN post_mono] simp: payment_guard_def)
  then show ?thesis by (simp add: post_def split_beta)
qed

text \<open>
  Amounts are read exactly. A naira amount written with two decimals, as the API and the
  fees of providers write it, is read back to the kobo it stands for, although the code goes
  through binary floating point; up to 2 to the 50 kobo.
\<close>

theorem kobo_read_exactly:
  assumes "k \<le> 2 ^ 50"
  shows "parseAmountToKobo (naira_string k) = Inr (int k)"
proof -
  have "k < 2 ^ 53" using assms by simp
  moreover have "\<bar>int k\<bar> \<le> 2 ^ 50"
    using assms by (metis abs_of_nat of_nat_le_iff of_nat_numeral of_nat_power)
  ultimately show ?thesis
    using parse_float_naira [of k] hundredths_exact [of "int k"] by (simp add: parseAmountToKobo_def)
qed

theorem kobo_read_exactly_witness: "parseAmountToKobo ''999.99'' = Inr 99999"
proof -
  have "show_nat 999 = ''999''" and "digit_char 9 = CHR ''9''" by code_simp+
  then have "naira_string 99999 = ''999.99''" by (simp add: naira_string_def)
  then show ?thesis using kobo_read_exactly [of 99999] by simp
qed

end
