(* ===== verification/Transfer_Batch.thy ===== *)
theory Transfer_Batch
  imports Transfer_Service
begin

text \<open>
  Batches of transfers, \<^verbatim>\<open>internal/service/transfer_batch.go\<close>: every amount is
  validated, the records are inserted in one statement, the provider manager sends the batch,
  the records are updated with the results, and the wallet is settled: a withdrawal for each
  accepted transfer, an unlock for each rejected one. \<open>None\<close> as the outcome means that the
  call does not return, which only the loop over the chunks of the manager can cause.
\<close>

section \<open>Preparing a batch\<close>

definition generateBatchReference :: "nat \<Rightarrow> world \<Rightarrow> string \<times> world" where
  "generateBatchReference bid w =
     (let (t, w) = now w; (r, w) = rand_hex w
      in (''BATCH-'' @ show_nat bid @ ''-'' @ show_int (t div 1000000) @ ''-'' @ take 8 r, w))"

fun prepare_all :: "nat \<Rightarrow> single_req list \<Rightarrow> world \<Rightarrow> single_req list \<times> world" where
  "prepare_all bid [] w = ([], w)"
| "prepare_all bid (t # ts) w =
     (let (t, w) = prepareTransferRequest bid t w; (ts, w) = prepare_all bid ts w in (t # ts, w))"

definition prepareBulkTransferRequest :: "nat \<Rightarrow> bulk_req \<Rightarrow> world \<Rightarrow> bulk_req \<times> world" where
  "prepareBulkTransferRequest bid req w =
     (let (ref, w) = (if bq_BatchReference req = [] then generateBatchReference bid w
                      else (bq_BatchReference req, w));
          (email, w) = business_email bid w;
          (ts, w) = prepare_all bid (bq_Transfers req) w
      in (req\<lparr>bq_BatchReference := ref,
              bq_Currency := (if bq_Currency req = [] then ''NGN'' else bq_Currency req),
              bq_Transfers := ts, bq_BusinessID := bid, bq_BusinessEmail := email\<rparr>, w))"

text \<open>The first transfer whose amount the limits reject.\<close>

fun first_invalid :: "transfer_config \<Rightarrow> single_req list \<Rightarrow> (single_req \<times> gerror) option" where
  "first_invalid cfg [] = None"
| "first_invalid cfg (t # ts) =
     (case validateTransferAmount cfg (rq_Amount t) of
        Inl e \<Rightarrow> Some (t, e) | Inr _ \<Rightarrow> first_invalid cfg ts)"

section \<open>Results\<close>

text \<open>The map by reference: a later result replaces an earlier one.\<close>

definition result_for :: "transfer_result list \<Rightarrow> string \<Rightarrow> transfer_result option" where
  "result_for results ref = map_of (rev (map (\<lambda>r. (tr_Reference r, r)) results)) ref"

definition apply_result :: "bulk_result \<Rightarrow> int \<Rightarrow> transfer \<Rightarrow> transfer \<times> single_resp" where
  "apply_result result time t =
     (case result_for (br_TransferResults result) (t_Reference t) of
        Some tr \<Rightarrow>
          (t\<lparr>t_Provider := tr_Provider tr, t_Status := tr_Status tr, t_TransactionID := tr_TransactionID tr,
             t_ProviderStatus := tr_Status tr, t_ProviderMessage := tr_Message tr, t_Fee := tr_Fee tr,
             t_ProcessedAt := Some time,
             t_ProcessingError := (if tr_Success tr then t_ProcessingError t else Some (tr_Message tr))\<rparr>,
           \<lparr>rs_Success = tr_Success tr, rs_TransferID = t_ID t, rs_Reference = t_Reference t,
            rs_TransactionID = tr_TransactionID tr, rs_Status = tr_Status tr, rs_Message = tr_Message tr,
            rs_Provider = tr_Provider tr, rs_Fee = tr_Fee tr, rs_Error = []\<rparr>)
      | None \<Rightarrow>
          (t\<lparr>t_Provider := br_Provider result, t_Status := ''pending'', t_ProcessedAt := Some time\<rparr>,
           \<lparr>rs_Success = True, rs_TransferID = t_ID t, rs_Reference = t_Reference t, rs_TransactionID = [],
            rs_Status = ''pending'', rs_Message = [], rs_Provider = br_Provider result, rs_Fee = [],
            rs_Error = []\<rparr>))"

fun update_records :: "bulk_result \<Rightarrow> int \<Rightarrow> transfer list \<Rightarrow> world \<Rightarrow> (transfer \<times> single_resp) list \<times> world" where
  "update_records result time [] w = ([], w)"
| "update_records result time (t # ts) w =
     (let (t, resp) = apply_result result time t;
          (saved, w) = transfer_Update t w;
          t = (case saved of Inl _ \<Rightarrow> t | Inr u \<Rightarrow> u);
          (rows, w) = update_records result time ts w
      in ((t, resp) # rows, w))"

text \<open>The responses, each with the record it is about.\<close>

definition updateTransferRecordsWithResults ::
  "transfer list \<Rightarrow> bulk_result \<Rightarrow> world \<Rightarrow> (transfer \<times> single_resp) list \<times> world" where
  "updateTransferRecordsWithResults records result w =
     (let (time, w) = now w in update_records result time records w)"

section \<open>Settling the wallet\<close>

definition is_pending :: "single_resp \<Rightarrow> bool" where
  "is_pending r \<longleftrightarrow> rs_Status r = ''pending'' \<or> rs_Status r = ''processing''"

definition kobo_or_zero :: "string \<Rightarrow> int64" where
  "kobo_or_zero amount = (case parseAmountToKobo amount of Inl _ \<Rightarrow> 0 | Inr a \<Rightarrow> a)"

definition settle_response :: "nat \<Rightarrow> string \<Rightarrow> transfer \<times> single_resp \<Rightarrow> world \<Rightarrow> world" where
  "settle_response bid batch = (\<lambda>(t, r) w.
     (let amount = kobo_or_zero (t_Amount t)
      in if rs_Success r \<or> is_pending r
         then snd (RecordWithdrawal bid (t_ID t) amount 0 (''batch-'' @ batch @ ''-'' @ rs_Reference r)
                (rs_TransactionID r) w)
         else if amount > 0 then snd (UnlockBalance bid amount w) else w))"

definition settle_all :: "nat \<Rightarrow> string \<Rightarrow> (transfer \<times> single_resp) list \<Rightarrow> world \<Rightarrow> world" where
  "settle_all bid batch rows w = fold (settle_response bid batch) rows w"

section \<open>ExecuteBatchTransfer\<close>

text \<open>A batch that failed as a whole.\<close>

definition failed_batch :: "bulk_req \<Rightarrow> single_resp list \<Rightarrow> bulk_resp" where
  "failed_batch req rs =
     \<lparr>bp_Success = False, bp_BatchReference = bq_BatchReference req,
      bp_TotalTransfers = length (bq_Transfers req), bp_SuccessfulTransfers = 0,
      bp_FailedTransfers = length (bq_Transfers req), bp_PendingTransfers = 0, bp_Provider = [], bp_Transfers = rs\<rparr>"

definition batch_response :: "bulk_req \<Rightarrow> provider_name \<Rightarrow> single_resp list \<Rightarrow> bulk_resp" where
  "batch_response req name responses =
     (let failed = length (filter (\<lambda>r. \<not> rs_Success r \<and> \<not> is_pending r) responses)
      in \<lparr>bp_Success = (failed = 0), bp_BatchReference = bq_BatchReference req,
          bp_TotalTransfers = length (bq_Transfers req),
          bp_SuccessfulTransfers = length (filter rs_Success responses),
          bp_FailedTransfers = failed,
          bp_PendingTransfers = length (filter (\<lambda>r. \<not> rs_Success r \<and> is_pending r) responses),
          bp_Provider = name, bp_Transfers = responses\<rparr>)"

definition send_batch :: "transfer_service \<Rightarrow> nat \<Rightarrow> bulk_req \<Rightarrow> world \<Rightarrow> (bulk_resp \<times> world) option" where
  "send_batch s bid req w =
     (let records = map (transfer_row bid) (bq_Transfers req);
          (created, w) = transfer_CreateBatch records w;
          records = (case created of Inl _ \<Rightarrow> records | Inr rows \<Rightarrow> rows)
      in case InitiateBulkTransfer (ts_manager s) req w of
           None \<Rightarrow> None
         | Some (Inl e, w) \<Rightarrow> Some (failed_batch req [], w)
         | Some (Inr result, w) \<Rightarrow>
             (let (rows, w) = updateTransferRecordsWithResults records result w;
                  w = (if ts_wallet s then settle_all bid (bq_BatchReference req) rows w else w)
              in Some (batch_response req (br_Provider result) (map snd rows), w)))"

definition ExecuteBatchTransfer :: "transfer_service \<Rightarrow> nat \<Rightarrow> bulk_req \<Rightarrow> world \<Rightarrow> (bulk_resp \<times> world) option" where
  "ExecuteBatchTransfer s bid req w =
     (let (req, w) = prepareBulkTransferRequest bid req w
      in case first_invalid (ts_config s) (bq_Transfers req) of
           Some (t, e) \<Rightarrow> Some (failed_batch req [failed_response t 0 (err_text e)], w)
         | None \<Rightarrow> send_batch s bid req w)"

section \<open>Invariants of the tables\<close>

context payment_invariant
begin

lemma prepare_all_keeps: "I w \<Longrightarrow> I (snd (prepare_all bid ts w))"
proof (induction ts arbitrary: w)
  case (Cons t ts)
  from Cons.IH [OF rand_results(2) [OF Cons.prems]] show ?case by (auto simp: split_beta Let_def)
qed simp

lemma prepareBulk_keeps: "I w \<Longrightarrow> I (snd (prepareBulkTransferRequest bid req w))"
  unfolding prepareBulkTransferRequest_def generateBatchReference_def Let_def
  by (auto intro!: results rand_results prepare_all_keeps)

lemma update_records_keeps: "I w \<Longrightarrow> I (snd (update_records result time ts w))"
proof (induction ts arbitrary: w)
  case (Cons t ts)
  from Cons.IH [OF transfer_Update_keeps [THEN keepsD, OF Cons.prems]]
  show ?case by (auto simp: split_beta Let_def)
qed simp

lemma settle_all_keeps: "I w \<Longrightarrow> I (settle_all bid batch rows w)"
  unfolding settle_all_def
  by (induction rows arbitrary: w) (auto simp: settle_response_def split_beta Let_def intro!: wallet_results)

lemma send_batch_keeps: "send_batch s bid req w = Some r \<Longrightarrow> I w \<Longrightarrow> I (snd r)"
  using transfer_CreateBatch_keeps [THEN keepsD, of w]
  by (auto simp: send_batch_def updateTransferRecordsWithResults_def now_def split_beta Let_def inv_tick
      intro!: settle_all_keeps update_records_keeps
      dest!: InitiateBulkTransfer_keeps split: option.splits prod.splits sum.splits if_splits)

lemma ExecuteBatchTransfer_keeps: "ExecuteBatchTransfer s bid req w = Some r \<Longrightarrow> I w \<Longrightarrow> I (snd r)"
  using prepareBulk_keeps [of w bid req] send_batch_keeps
  by (fastforce simp: ExecuteBatchTransfer_def split_beta Let_def split: option.splits)

end

section \<open>What a batch keeps and changes\<close>

lemma prepareTransferRequest_amount [simp]:
  "rq_Amount (fst (prepareTransferRequest bid req w)) = rq_Amount req"
  "rq_Reference req \<noteq> [] \<Longrightarrow> rq_Reference (fst (prepareTransferRequest bid req w)) = rq_Reference req"
  by (simp_all add: prepareTransferRequest_def split_beta Let_def)

lemma prepare_all_amounts [simp]:
  "map rq_Amount (fst (prepare_all bid ts w)) = map rq_Amount ts"
  by (induction ts arbitrary: w) (simp_all add: split_beta Let_def)

lemma prepare_all_length [simp]: "length (fst (prepare_all bid ts w)) = length ts"
  by (induction ts arbitrary: w) (simp_all add: split_beta Let_def)

lemma prepare_all_references:
  "\<forall>t \<in> set ts. rq_Reference t \<noteq> [] \<Longrightarrow> map rq_Reference (fst (prepare_all bid ts w)) = map rq_Reference ts"
  by (induction ts arbitrary: w) (simp_all add: split_beta Let_def)

lemma first_invalid_amounts:
  "map rq_Amount ts = map rq_Amount us \<Longrightarrow> (first_invalid cfg ts = None) = (first_invalid cfg us = None)"
proof (induction ts arbitrary: us)
  case (Cons t ts)
  then show ?case by (cases us) (auto split: sum.splits)
qed simp

lemma first_invalid_None:
  "first_invalid cfg ts = None \<longleftrightarrow> (\<forall>t \<in> set ts. validateTransferAmount cfg (rq_Amount t) = Inr ())"
  by (induction ts) (auto split: sum.splits)

lemma prepareBulk_fields:
  "map rq_Amount (bq_Transfers (fst (prepareBulkTransferRequest bid req w))) = map rq_Amount (bq_Transfers req)"
  "length (bq_Transfers (fst (prepareBulkTransferRequest bid req w))) = length (bq_Transfers req)"
  "\<forall>t \<in> set (bq_Transfers req). rq_Reference t \<noteq> [] \<Longrightarrow>
    map rq_Reference (bq_Transfers (fst (prepareBulkTransferRequest bid req w))) = map rq_Reference (bq_Transfers req)"
  by (simp_all add: prepareBulkTransferRequest_def split_beta Let_def prepare_all_references)

text \<open>Preparing reads the clock and the administrator's row, and nothing else.\<close>

definition same_tables :: "world \<Rightarrow> world \<Rightarrow> bool" where
  "same_tables w w' \<longleftrightarrow> only_calls w (w'\<lparr>faults := faults w\<rparr>) \<and> calls w' = calls w \<and> (faults w = [] \<longrightarrow> faults w' = [])"

lemma same_tables_refl [simp]: "same_tables w w"
  by (simp add: same_tables_def only_calls_def)

lemma same_tables_trans: "same_tables w w' \<Longrightarrow> same_tables w' w'' \<Longrightarrow> same_tables w w''"
  by (simp add: same_tables_def only_calls_def)

lemma prepareTransferRequest_tables: "same_tables w (snd (prepareTransferRequest bid req w))"
  by (simp add: prepareTransferRequest_def generateReference_def now_def rand_hex_def split_beta Let_def
      same_tables_def only_calls_def)

lemma prepare_all_tables: "same_tables w (snd (prepare_all bid ts w))"
proof (induction ts arbitrary: w)
  case (Cons t ts)
  show ?case
    using same_tables_trans [OF prepareTransferRequest_tables [of w bid t] Cons.IH]
    by (simp add: split_beta Let_def)
qed simp

lemma business_email_tables: "same_tables w (snd (business_email bid w))"
  by (simp add: business_email_def user_FindBusinessAdmin_def statement_def fault_def attempt_def
      same_tables_def only_calls_def split: list.splits option.splits)

lemma prepareBulk_tables: "same_tables w (snd (prepareBulkTransferRequest bid req w))"
proof -
  have "same_tables w (snd (if bq_BatchReference req = [] then generateBatchReference bid w
      else (bq_BatchReference req, w)))"
    by (simp add: generateBatchReference_def now_def rand_hex_def Let_def same_tables_def only_calls_def)
  from same_tables_trans [OF same_tables_trans [OF this business_email_tables] prepare_all_tables]
  show ?thesis by (simp add: prepareBulkTransferRequest_def split_beta Let_def)
qed

text \<open>Sending a batch through the manager is only calls, too.\<close>

lemma run_jobs_only_calls: "only_calls w (snd (run_jobs p ts w))"
proof (induction ts arbitrary: w)
  case Nil
  then show ?case by (simp add: only_calls_def)
next
  case (Cons t ts)
  show ?case
    using only_calls_trans [OF contact_only_calls [of w p t] Cons.IH] by (simp add: split_beta Let_def)
qed

lemma singles_only_calls: "only_calls w (snd (executeBulkAsConcurrentSingles p req w))"
  using run_jobs_only_calls by (simp add: executeBulkAsConcurrentSingles_def split_beta Let_def)

lemma contact_bulk_only_calls: "only_calls w (snd (contact_bulk p api req w))"
  by (simp add: only_calls_def contact_bulk_def)

lemma run_chunk_only_calls: "only_calls w (snd (run_chunk p api req w))"
  by (simp add: run_chunk_def singles_only_calls contact_bulk_only_calls)

lemma chunk_loop_only_calls:
  assumes "chunk_loop p api req n k rest acc e w = Some y"
  shows "only_calls w (snd (snd y))"
proof (rule chunk_loop.raw_induct [where P = "\<lambda>p api req n k rest acc e w y. only_calls w (snd (snd y))",
      OF _ assms])
  fix f :: "provider \<Rightarrow> bulk_api \<Rightarrow> bulk_req \<Rightarrow> nat \<Rightarrow> nat \<Rightarrow> single_req list \<Rightarrow> transfer_result list \<Rightarrow>
      gerror option \<Rightarrow> world \<Rightarrow> (transfer_result list \<times> gerror option \<times> world) option"
    and p api req n k rest acc e w y
  assume IH: "\<And>p api req n k rest acc e w y. f p api req n k rest acc e w = Some y \<Longrightarrow>
      only_calls w (snd (snd y))"
    and step: "(if rest = [] then Some (acc, e, w)
      else case run_chunk p api (chunk_request req k (take n rest)) w of
        (Inl e', w) \<Rightarrow> f p api req n (k + 1) (drop n rest) acc (if e = None then Some e' else e) w
      | (Inr r, w) \<Rightarrow> f p api req n (k + 1) (drop n rest) (acc @ br_TransferResults r) e w) = Some y"
  show "only_calls w (snd (snd y))"
    using step run_chunk_only_calls [of w p api "chunk_request req k (take n rest)"]
    by (auto split: if_splits prod.splits sum.splits dest!: IH intro: only_calls_trans)
      (simp add: only_calls_def)
qed

lemma InitiateBulkTransfer_only_calls: "InitiateBulkTransfer m req w = Some (r, w') \<Longrightarrow> only_calls w w'"
  using singles_only_calls [of w "defaultProvider m" req] contact_bulk_only_calls [of w "defaultProvider m"]
  unfolding InitiateBulkTransfer_def handleBulkWithNativeSupport_def splitAndProcessBulk_def
  by (auto split: option.splits if_splits prod.splits dest!: chunk_loop_only_calls) (metis snd_conv)+

lemma apply_result_fields [simp]:
  "t_Amount (fst (apply_result result time t)) = t_Amount t"
  "t_Reference (fst (apply_result result time t)) = t_Reference t"
  "t_ID (fst (apply_result result time t)) = t_ID t"
  "rs_Reference (snd (apply_result result time t)) = t_Reference t"
  by (simp_all add: apply_result_def split: option.splits)

text \<open>Saving a record keeps what the caller holds of it, up to the new identifier.\<close>

lemma transfer_Update_result: "fst (transfer_Update t w) = Inr u \<Longrightarrow> t_Amount u = t_Amount t \<and> t_Reference u = t_Reference t"
  by (auto simp: transfer_Update_def transfer_Create_def statement_def Let_def new_row_def split: if_splits prod.splits)

lemma update_records_rows:
  "map (\<lambda>x. t_Amount (fst x)) (fst (update_records result time ts w)) = map t_Amount ts"
  "map (\<lambda>x. snd x) (fst (update_records result time ts w)) = map (\<lambda>t. snd (apply_result result time t)) ts"
  by (induction ts arbitrary: w)
    (auto simp: split_beta Let_def split: sum.splits dest!: transfer_Update_result)

lemma CreateBatch_rows:
  assumes "transfer_CreateBatch ts w = (Inr rows, w')"
  shows "map t_Amount rows = map t_Amount ts" and "map t_Reference rows = map t_Reference ts"
proof -
  have "map t_Amount (fst (insert_all ts w)) = map t_Amount ts"
    "map t_Reference (fst (insert_all ts w)) = map t_Reference ts" for w
    by (induction ts arbitrary: w) (simp_all add: split_beta Let_def new_row_def)
  with assms show "map t_Amount rows = map t_Amount ts" and "map t_Reference rows = map t_Reference ts"
    by (auto simp: transfer_CreateBatch_def statement_def split_beta Let_def split: if_splits prod.splits)
qed

section \<open>Counting and money\<close>

lemma three_way_count:
  "length (filter p xs) + length (filter (\<lambda>x. \<not> p x \<and> \<not> q x) xs) + length (filter (\<lambda>x. \<not> p x \<and> q x) xs) = length xs"
  by (induction xs) auto

lemma batch_response_counts:
  "length rs = length (bq_Transfers req) \<Longrightarrow>
   bp_SuccessfulTransfers (batch_response req name rs) + bp_FailedTransfers (batch_response req name rs) +
   bp_PendingTransfers (batch_response req name rs) = bp_TotalTransfers (batch_response req name rs)"
  using three_way_count [of rs_Success rs is_pending] by (simp add: batch_response_def Let_def)

text \<open>What settling one response means for the accounts; a refused step changes nothing.\<close>

definition accepted :: "single_resp \<Rightarrow> bool" where
  "accepted r \<longleftrightarrow> rs_Success r \<or> is_pending r"

definition settle_account :: "nat \<Rightarrow> string \<Rightarrow> string \<times> single_resp \<Rightarrow> bank \<Rightarrow> bank" where
  "settle_account bid batch = (\<lambda>(amount, r) bk.
     (let a = kobo_or_zero amount
      in case (if accepted r then bank_withdraw (''batch-'' @ batch @ ''-'' @ rs_Reference r) (add64 a 0) a bid bk
               else if a > 0 then bank_unlock a bid bk else Some bk) of
           None \<Rightarrow> bk | Some bk' \<Rightarrow> bk'))"

lemma settle_response_account:
  assumes "settled bk w"
  shows "settled (settle_account bid batch (t_Amount (fst x), snd x) bk) (settle_response bid batch x w)"
proof -
  obtain t r where x: "x = (t, r)" by (cases x)
  let ?a = "kobo_or_zero (t_Amount t)" and ?ref = "''batch-'' @ batch @ ''-'' @ rs_Reference r"
  have f: "faults w = []" and b: "bank_of w = bk" using assms by (simp_all add: settled_def)
  show ?thesis
    using RecordWithdrawal_refines [OF f, of ?ref ?a 0 bid "t_ID t" "rs_TransactionID r"]
      UnlockBalance_refines [OF f, of ?a bid]
    by (simp add: x b f settle_response_def settle_account_def accepted_def refines_def settled_def Let_def
        split: option.splits)
qed

lemma settle_all_account:
  assumes "settled bk w"
  shows "settled (fold (settle_account bid batch) (map (\<lambda>x. (t_Amount (fst x), snd x)) rows) bk)
    (settle_all bid batch rows w)"
  using assms unfolding settle_all_def
  by (induction rows arbitrary: bk w) (simp_all add: settle_response_account)

lemma settle_account_other: "b \<noteq> bid \<Longrightarrow> fst (settle_account bid batch x bk) b = fst bk b"
  by (auto simp: settle_account_def bank_withdraw_def bank_unlock_def on_account_def once_def split_beta Let_def
      split: option.splits if_splits)

lemma settle_accounts_other: "b \<noteq> bid \<Longrightarrow> fst (fold (settle_account bid batch) xs bk) b = fst bk b"
  by (induction xs arbitrary: bk) (simp_all add: settle_account_other)

lemma bank_accounts:
  assumes "bank_of w' = fold (settle_account bid batch) xs (bank_of w)" and "b \<noteq> bid"
  shows "accounts (wallets w') b = accounts (wallets w) b"
proof -
  have "fst (bank_of w') b = fst (bank_of w) b"
    unfolding assms(1) by (rule settle_accounts_other [OF assms(2)])
  then show ?thesis by (simp add: bank_of_def)
qed

lemma settled_update_records: "settled bk w \<Longrightarrow> settled bk (snd (update_records result time ts w))"
proof (induction ts arbitrary: w)
  case (Cons t ts)
  show ?case
    using Cons.IH settled_update [OF Cons.prems, of "fst (apply_result result time t)"]
    by (simp add: split_beta Let_def post_def)
qed simp

lemma settled_only_calls: "settled bk w \<Longrightarrow> only_calls w w' \<Longrightarrow> settled bk w'"
  by (simp add: settled_def only_calls_def bank_of_def references_def)

lemma settled_same_tables: "settled bk w \<Longrightarrow> same_tables w w' \<Longrightarrow> settled bk w'"
  by (simp add: settled_def same_tables_def only_calls_def bank_of_def references_def)

lemma settled_CreateBatch: "settled bk w \<Longrightarrow> settled bk (snd (transfer_CreateBatch ts w))"
proof -
  have "settled bk w \<Longrightarrow> settled bk (snd (insert_all ts w))" for w
    by (induction ts arbitrary: w) (simp_all add: split_beta Let_def)
  then show "settled bk w \<Longrightarrow> settled bk (snd (transfer_CreateBatch ts w))"
    by (simp add: transfer_CreateBatch_def split_beta Let_def settled_def)
qed

text \<open>The two ways in which a batch that was sent can end.\<close>

definition batch_records :: "nat \<Rightarrow> bulk_req \<Rightarrow> world \<Rightarrow> transfer list" where
  "batch_records bid req w =
     (let records = map (transfer_row bid) (bq_Transfers req)
      in case fst (transfer_CreateBatch records w) of Inl _ \<Rightarrow> records | Inr rows \<Rightarrow> rows)"

definition batch_created :: "nat \<Rightarrow> bulk_req \<Rightarrow> world \<Rightarrow> world" where
  "batch_created bid req w = snd (transfer_CreateBatch (map (transfer_row bid) (bq_Transfers req)) w)"

lemma send_batch_cases:
  assumes "send_batch s bid req w = Some (resp, w')"
  obtains (failed) e where "InitiateBulkTransfer (ts_manager s) req (batch_created bid req w) = Some (Inl e, w')"
      "resp = failed_batch req []"
  | (sent) result w2 rows w3 where
      "InitiateBulkTransfer (ts_manager s) req (batch_created bid req w) = Some (Inr result, w2)"
      "update_records result (clock w2 (tick w2)) (batch_records bid req w) (w2\<lparr>tick := Suc (tick w2)\<rparr>) = (rows, w3)"
      "resp = batch_response req (br_Provider result) (map snd rows)"
      "w' = (if ts_wallet s then settle_all bid (bq_BatchReference req) rows w3 else w3)"
proof -
  obtain created w1 where create: "transfer_CreateBatch (map (transfer_row bid) (bq_Transfers req)) w = (created, w1)"
    by fastforce
  then have defs: "batch_created bid req w = w1"
    "batch_records bid req w = (case created of Inl _ \<Rightarrow> map (transfer_row bid) (bq_Transfers req) | Inr rows \<Rightarrow> rows)"
    by (simp_all add: batch_records_def batch_created_def Let_def)
  obtain r w2 where call: "InitiateBulkTransfer (ts_manager s) req w1 = Some (r, w2)"
    using assms create by (auto simp: send_batch_def Let_def split: option.splits)
  show thesis
  proof (cases r)
    case (Inl e)
    then show thesis using assms create call failed defs by (simp add: send_batch_def Let_def)
  next
    case (Inr result)
    obtain rows w3 where upd: "update_records result (clock w2 (tick w2)) (batch_records bid req w)
        (w2\<lparr>tick := Suc (tick w2)\<rparr>) = (rows, w3)" by fastforce
    show thesis
      using assms create call upd sent [OF _ upd] Inr defs
      by (simp add: send_batch_def updateTransferRecordsWithResults_def now_def Let_def split: sum.splits)
  qed
qed

lemma batch_records_fields:
  "map t_Amount (batch_records bid req w) = map rq_Amount (bq_Transfers req)"
  "map t_Reference (batch_records bid req w) = map rq_Reference (bq_Transfers req)"
  using CreateBatch_rows [of "map (transfer_row bid) (bq_Transfers req)" w]
  by (cases "transfer_CreateBatch (map (transfer_row bid) (bq_Transfers req)) w";
      auto simp: batch_records_def transfer_row_def comp_def split: sum.splits)+

lemma update_records_zip:
  assumes "update_records result time records w = (rows, w')"
  shows "map (\<lambda>x. (t_Amount (fst x), snd x)) rows = zip (map t_Amount records) (map snd rows)"
proof -
  have "map t_Amount records = map (\<lambda>x. t_Amount (fst x)) rows"
    using update_records_rows(1) [of result time records w] assms by simp
  then show ?thesis by (simp only: zip_map_map) (simp add: zip_same_conv_map)
qed

lemma send_batch_money:
  assumes w: "settled bk w" and s: "ts_wallet s" and sent: "send_batch s bid req w = Some (resp, w')"
  shows "(resp = failed_batch req [] \<and> settled bk w') \<or>
    (bp_BatchReference resp = bq_BatchReference req \<and> length (bp_Transfers resp) = length (bq_Transfers req) \<and>
     settled (fold (settle_account bid (bq_BatchReference req))
       (zip (map rq_Amount (bq_Transfers req)) (bp_Transfers resp)) bk) w')"
proof -
  have w1: "settled bk (batch_created bid req w)"
    using settled_CreateBatch [OF w] by (simp add: batch_created_def)
  from sent show ?thesis
  proof (cases rule: send_batch_cases)
    case failed
    then show ?thesis using settled_only_calls [OF w1 InitiateBulkTransfer_only_calls] by blast
  next
    case (sent result w2 rows w3)
    have w3: "settled bk w3"
      using settled_update_records [of bk "w2\<lparr>tick := Suc (tick w2)\<rparr>" result _ "batch_records bid req w"]
        settled_only_calls [OF w1 InitiateBulkTransfer_only_calls [OF sent(1)]] sent(2) by (metis settled_frame(1) snd_conv)
    have "length rows = length (bq_Transfers req)"
      using update_records_rows(2) [of result _ "batch_records bid req w"] sent(2) batch_records_fields(1)
      by (metis fst_conv length_map)
    then show ?thesis
      using settle_all_account [OF w3, of bid "bq_BatchReference req" rows] s sent(3,4)
        update_records_zip [OF sent(2)] batch_records_fields(1) [of bid req w]
      by (simp add: batch_response_def Let_def)
  qed
qed

text \<open>Only the manager calls providers.\<close>

lemma post_calls: "post (\<lambda>_ w'. calls w' = calls w) r \<Longrightarrow> calls (snd r) = calls w"
  by (simp add: post_def)

lemma calls_transfer_Update [simp]: "calls (snd (transfer_Update t w)) = calls w"
  by (rule post_calls, rule wp_transfer_Update) simp_all

lemma calls_batch_created [simp]: "calls (batch_created bid req w) = calls w"
proof -
  have "calls (snd (insert_all ts w)) = calls w" for ts w
    by (induction ts arbitrary: w) (simp_all add: split_beta Let_def)
  then have "calls (snd (transfer_CreateBatch ts w)) = calls w" for ts w
    by (simp add: transfer_CreateBatch_def statement_def fault_def split_beta Let_def split: list.splits)
  then show ?thesis by (simp add: batch_created_def)
qed

lemma calls_update_records [simp]: "calls (snd (update_records result time ts w)) = calls w"
  by (induction ts arbitrary: w) (simp_all add: split_beta Let_def)

lemma calls_settle_all [simp]: "calls (settle_all bid batch rows w) = calls w"
proof -
  have "calls (snd (RecordWithdrawal bid i a fee ref pref w)) = calls w" for i a fee ref pref w
    using withdrawal_transfers [of w] by (simp add: post_def)
  moreover have "calls (snd (UnlockBalance bid a w)) = calls w" for a w
    by (rule post_calls) (auto simp: UnlockBalance_def intro!: wp)
  ultimately have "calls (settle_response bid batch x w) = calls w" for x w
    by (simp add: settle_response_def split_beta Let_def)
  then show ?thesis by (induction rows arbitrary: w) (simp_all add: settle_all_def)
qed

lemma ordered_calls: "calls w = calls v \<Longrightarrow> calls w' = calls v' \<Longrightarrow> ordered w w' = ordered v v'"
  by (simp add: ordered_def)

definition chunks_positive :: "transfer_service \<Rightarrow> bool" where
  "chunks_positive s \<longleftrightarrow> (case p_bulk (defaultProvider (ts_manager s)) of None \<Rightarrow> True | Some api \<Rightarrow> 0 < MaxBatchSize api)"

lemma send_batch_returns:
  assumes "chunks_positive s"
  shows "\<exists>resp w'. send_batch s bid req w = Some (resp, w') \<and> ordered w w' = map rq_Reference (bq_Transfers req) \<and>
    bp_SuccessfulTransfers resp + bp_FailedTransfers resp + bp_PendingTransfers resp = length (bq_Transfers req) \<and>
    (bp_Success resp \<longrightarrow> bp_FailedTransfers resp = 0)"
proof -
  have pos: "0 < MaxBatchSize api" if "p_bulk (defaultProvider (ts_manager s)) = Some api" for api
    using assms that by (simp add: chunks_positive_def)
  obtain r w2 where call: "InitiateBulkTransfer (ts_manager s) req (batch_created bid req w) = Some (r, w2)"
    and order: "ordered (batch_created bid req w) w2 = map rq_Reference (bq_Transfers req)"
    using bulk_returns [OF pos] by blast
  then obtain resp w' where sent: "send_batch s bid req w = Some (resp, w')"
    by (cases r) (auto simp: send_batch_def batch_created_def split_beta Let_def)
  from sent show ?thesis
  proof (cases rule: send_batch_cases)
    case failed
    then show ?thesis
      using sent call order ordered_calls [of w "batch_created bid req w" w' w'] by (simp add: failed_batch_def)
  next
    case (sent result w2' rows w3)
    have "length rows = length (bq_Transfers req)"
      using update_records_rows(2) [of result _ "batch_records bid req w"] sent(2) batch_records_fields(1)
      by (metis fst_conv length_map)
    moreover have "calls w3 = calls w2'"
      using arg_cong [OF sent(2), of "\<lambda>x. calls (snd x)"] by simp
    then have "calls w' = calls w2'" using sent(4) by simp
    ultimately show ?thesis
      using \<open>send_batch s bid req w = _\<close> sent(1,3) call order
        batch_response_counts [of "map snd rows" req "br_Provider result"]
      by (simp add: ordered_calls [of w "batch_created bid req w" w' w2])
        (simp add: batch_response_def Let_def)
  qed
qed

lemma ExecuteBatchTransfer_returns:
  assumes "chunks_positive s" and "\<forall>t \<in> set (bq_Transfers req). rq_Reference t \<noteq> []"
  shows "\<exists>resp w'. ExecuteBatchTransfer s bid req w = Some (resp, w') \<and>
    ordered w w' = (if \<forall>t \<in> set (bq_Transfers req). validateTransferAmount (ts_config s) (rq_Amount t) = Inr ()
                    then map rq_Reference (bq_Transfers req) else []) \<and>
    bp_SuccessfulTransfers resp + bp_FailedTransfers resp + bp_PendingTransfers resp = length (bq_Transfers req) \<and>
    (bp_Success resp \<longrightarrow> bp_FailedTransfers resp = 0)"
proof -
  obtain req' w1 where prep: "prepareBulkTransferRequest bid req w = (req', w1)" by fastforce
  have req': "map rq_Amount (bq_Transfers req') = map rq_Amount (bq_Transfers req)"
    "map rq_Reference (bq_Transfers req') = map rq_Reference (bq_Transfers req)"
    "length (bq_Transfers req') = length (bq_Transfers req)"
    using prepareBulk_fields [where bid = bid and w = w and req = req] assms(2) prep by simp_all
  have w1: "calls w1 = calls w" using prepareBulk_tables [of w bid req] prep by (simp add: same_tables_def)
  have valid: "first_invalid (ts_config s) (bq_Transfers req') = None \<longleftrightarrow>
      (\<forall>t \<in> set (bq_Transfers req). validateTransferAmount (ts_config s) (rq_Amount t) = Inr ())"
    using first_invalid_amounts [OF req'(1)] by (simp add: first_invalid_None)
  show ?thesis
  proof (cases "first_invalid (ts_config s) (bq_Transfers req')")
    case None
    then show ?thesis
      using send_batch_returns [OF assms(1), of bid req' w1] valid req' prep w1
      by (auto simp: ExecuteBatchTransfer_def ordered_def)
  next
    case (Some x)
    then show ?thesis using valid req' prep w1
      by (auto simp: ExecuteBatchTransfer_def failed_batch_def ordered_def split: prod.splits)
  qed
qed

text \<open>A provider that rejects every chunk: the manager's result is empty, and every record is pending.\<close>

lemma rejected_chunks:
  assumes "p_bulk (defaultProvider m) = Some api" and "\<And>n b. \<exists>e. bulk_answer api n b = Inl e"
    and "0 < MaxBatchSize api" and "MaxBatchSize api < length (bq_Transfers req)" and "MinBatchSize api \<le> 1"
  shows "\<exists>r w'. InitiateBulkTransfer m req w = Some (Inr r, w') \<and> br_TransferResults r = []"
  using chunk_loop_all_fail [OF assms(3,2,5), of "defaultProvider m" req 0 "bq_Transfers req" "[]" None w] assms
  by (auto simp: InitiateBulkTransfer_def handleBulkWithNativeSupport_def splitAndProcessBulk_def
      aggregateBulkResults_def Let_def)

lemma pending_rows:
  assumes "update_records result time ts w = (rows, w')" and "br_TransferResults result = []"
  shows "\<forall>x \<in> set rows. rs_Success (snd x) \<and> is_pending (snd x)"
proof -
  have "map snd rows = map (\<lambda>t. snd (apply_result result time t)) ts"
    using update_records_rows(2) [of result time ts w] assms(1) by simp
  moreover have "rs_Success r \<and> is_pending r" if "r \<in> set (map (\<lambda>t. snd (apply_result result time t)) ts)" for r
    using that assms(2) by (auto simp: apply_result_def result_for_def is_pending_def)
  ultimately show ?thesis by (metis image_eqI set_map)
qed

lemma all_successful: "\<forall>r \<in> set rs. rs_Success r \<Longrightarrow> length rs = length (bq_Transfers req) \<Longrightarrow>
    bp_Success (batch_response req name rs) \<and> bp_SuccessfulTransfers (batch_response req name rs) = length (bq_Transfers req)"
  by (auto simp: batch_response_def Let_def filter_id_conv filter_empty_conv)

section \<open>Properties\<close>

lemma sample_valid: "validateTransferAmount (ts_config sample_service) (rq_Amount sample_req) = Inr ()"
proof -
  have "rq_Amount sample_req = show_int 2500" by code_simp
  then show ?thesis by (simp add: validateTransferAmount_def whole_amount_def parse_show_int in64_def sample_service_def)
qed

lemma sample_chunks: "chunks_positive sample_service"
  by (simp add: chunks_positive_def sample_service_def sample_manager_def good_provider_def)

lemma sample_bulk_transfers:
  "\<forall>t \<in> set (bq_Transfers sample_bulk). rq_Reference t \<noteq> [] \<and> rq_Amount t = rq_Amount sample_req"
  by (simp add: sample_bulk_def sample_req_def)



text \<open>
  C19: Where the money of a batch goes. When no statement fails, a batch that is refused or
  fails as a whole leaves every account as it was; else the accounts afterwards are those
  before, with one withdrawal for every transfer the response calls successful or pending,
  under a reference of its own that counts once, and one unlock for every other, in the order
  of the batch; a step the account cannot cover changes nothing. No other business's account
  changes.
\<close>

theorem batch_money_flow:
  assumes "faults w = []" and "ts_wallet s" and "ExecuteBatchTransfer s bid req w = Some (resp, w')"
  shows "(\<not> bp_Success resp \<and> bp_SuccessfulTransfers resp = 0 \<and> bank_of w' = bank_of w) \<or>
    (length (bp_Transfers resp) = length (bq_Transfers req) \<and>
     bank_of w' = fold (settle_account bid (bp_BatchReference resp))
       (zip (map rq_Amount (bq_Transfers req)) (bp_Transfers resp)) (bank_of w) \<and>
     (\<forall>b. b \<noteq> bid \<longrightarrow> accounts (wallets w') b = accounts (wallets w) b))"
proof -
  obtain req' w1 where prep: "prepareBulkTransferRequest bid req w = (req', w1)" by fastforce
  have w1: "settled (bank_of w) w1"
    using settled_same_tables [OF _ prepareBulk_tables, of "bank_of w" w bid req] assms(1) prep
    by (simp add: settled_def)
  have amounts: "map rq_Amount (bq_Transfers req') = map rq_Amount (bq_Transfers req)"
    and len: "length (bq_Transfers req') = length (bq_Transfers req)"
    using prepareBulk_fields(1,2) [of bid req w] prep by simp_all
  show ?thesis
  proof (cases "first_invalid (ts_config s) (bq_Transfers req')")
    case None
    then have "send_batch s bid req' w1 = Some (resp, w')"
      using assms(3) prep by (simp add: ExecuteBatchTransfer_def)
    from send_batch_money [OF w1 assms(2) this] amounts len show ?thesis
      by (auto simp: settled_def failed_batch_def dest: bank_accounts)
  next
    case (Some x)
    then show ?thesis using assms(3) prep w1
      by (auto simp: ExecuteBatchTransfer_def failed_batch_def settled_def split: prod.splits)
  qed
qed

theorem batch_money_flow_witness:
  "\<exists>resp w'. ExecuteBatchTransfer sample_service 1 sample_bulk rich_world = Some (resp, w') \<and>
    accounts (wallets w') 2 = accounts (wallets rich_world) 2"
proof -
  obtain resp w' where exec: "ExecuteBatchTransfer sample_service 1 sample_bulk rich_world = Some (resp, w')"
    using ExecuteBatchTransfer_returns [OF sample_chunks, of sample_bulk 1 rich_world] sample_bulk_transfers by auto
  show ?thesis
    using batch_money_flow [of rich_world sample_service 1 sample_bulk resp w'] exec
    by (auto simp: rich_world_def sample_world_def sample_service_def bank_of_def)
qed

text \<open>
  A batch the provider rejects is reported as paid. When a batch is larger than the
  provider's maximum, so that it goes out in chunks, and the provider rejects every chunk, the
  response still says success with every transfer successful, and each of them is one that
  the wallet is debited for.
\<close>

theorem rejected_batch_reported_paid:
  assumes "p_bulk (defaultProvider (ts_manager s)) = Some api" and "\<And>n b. \<exists>e. bulk_answer api n b = Inl e"
    and "0 < MaxBatchSize api" and "MaxBatchSize api < length (bq_Transfers req)" and "MinBatchSize api \<le> 1"
    and "\<forall>t \<in> set (bq_Transfers req). validateTransferAmount (ts_config s) (rq_Amount t) = Inr ()"
  shows "\<exists>resp w'. ExecuteBatchTransfer s bid req w = Some (resp, w') \<and> bp_Success resp \<and>
    bp_SuccessfulTransfers resp = length (bq_Transfers req) \<and>
    length (bp_Transfers resp) = length (bq_Transfers req) \<and> (\<forall>r \<in> set (bp_Transfers resp). accepted r)"
proof -
  obtain req' w1 where prep: "prepareBulkTransferRequest bid req w = (req', w1)" by fastforce
  have amounts: "map rq_Amount (bq_Transfers req') = map rq_Amount (bq_Transfers req)"
    and len: "length (bq_Transfers req') = length (bq_Transfers req)"
    using prepareBulk_fields(1,2) [of bid req w] prep by simp_all
  have valid: "first_invalid (ts_config s) (bq_Transfers req') = None"
    using first_invalid_amounts [OF amounts] assms(6) by (simp add: first_invalid_None)
  obtain result w2 where call: "InitiateBulkTransfer (ts_manager s) req' (batch_created bid req' w1) = Some (Inr result, w2)"
    and empty: "br_TransferResults result = []"
    using rejected_chunks [OF assms(1,2,3), of req' "batch_created bid req' w1"] assms(4,5) len by auto
  obtain resp w' where sent: "send_batch s bid req' w1 = Some (resp, w')"
    using call by (auto simp: send_batch_def batch_created_def split_beta Let_def)
  then have exec: "ExecuteBatchTransfer s bid req w = Some (resp, w')"
    using valid prep by (simp add: ExecuteBatchTransfer_def)
  from sent show ?thesis
  proof (cases rule: send_batch_cases)
    case failed
    then show ?thesis using call by simp
  next
    case (sent result' w2' rows w3)
    then have "result' = result" using call by simp
    moreover have "length rows = length (bq_Transfers req')"
      using update_records_rows(2) [of result' _ "batch_records bid req' w1"] sent(2) batch_records_fields(1)
      by (metis fst_conv length_map)
    ultimately show ?thesis
      using exec sent(3) pending_rows [OF sent(2)] empty len
        all_successful [of "map snd rows" req' "br_Provider result"]
      by (auto simp: batch_response_def accepted_def Let_def)
  qed
qed

theorem rejected_batch_reported_paid_witness:
  "\<exists>resp w'. ExecuteBatchTransfer (sample_service\<lparr>ts_manager := failing_manager\<rparr>) 1 sample_bulk sample_world = Some (resp, w') \<and>
    bp_Success resp \<and> bp_SuccessfulTransfers resp = 3"
proof -
  have "\<forall>t \<in> set (bq_Transfers sample_bulk).
      validateTransferAmount (ts_config (sample_service\<lparr>ts_manager := failing_manager\<rparr>)) (rq_Amount t) = Inr ()"
    using sample_bulk_transfers sample_valid by simp
  then show ?thesis
    using rejected_batch_reported_paid [of "sample_service\<lparr>ts_manager := failing_manager\<rparr>" failing_api sample_bulk 1 sample_world]
    by (auto simp: failing_manager_def failing_api_def sample_bulk_def)
qed

end
