(* ===== verification/Payroll_Calculation.thy ===== *)
theory Payroll_Calculation
  imports Loans Tax_Engine
begin

text \<open>
  The computation of a payroll run, \<^verbatim>\<open>internal/service/payroll_calculation.go\<close>: the
  earnings of the employee's cadre, custom and statutory deductions, loan repayments and
  adjustments make up an entry with its itemised details; the entries of the active employees
  make up a run with its totals. All amounts are wrapping 64-bit integers, percentages go
  through binary floating point.
\<close>

section \<open>The running totals of one entry\<close>

text \<open>The local variables entryGross, entryDeductions, entryBonus and details.\<close>

record tally =
  tl_Gross :: int64
  tl_Deductions :: int64
  tl_Bonus :: int64
  tl_Details :: "entry_detail list"

definition detail :: "DetailType \<Rightarrow> string \<Rightarrow> int64 \<Rightarrow> string \<Rightarrow> entry_detail" where
  "detail ty name amount desc = \<lparr>d_Type = ty, d_Name = name, d_Amount = amount, d_Description = desc\<rparr>"

definition item :: "entry_detail \<Rightarrow> tally \<Rightarrow> tally" where
  "item d t = t\<lparr>tl_Details := tl_Details t @ [d]\<rparr>"

text \<open>An item that is added to the total of its kind.\<close>

definition book :: "entry_detail \<Rightarrow> tally \<Rightarrow> tally" where
  "book d t = item d (case d_Type d of
       DetailTypeEarning \<Rightarrow> t\<lparr>tl_Gross := add64 (tl_Gross t) (d_Amount d)\<rparr>
     | DetailTypeBonus \<Rightarrow> t\<lparr>tl_Bonus := add64 (tl_Bonus t) (d_Amount d)\<rparr>
     | DetailTypeEmployerCost \<Rightarrow> t
     | _ \<Rightarrow> t\<lparr>tl_Deductions := add64 (tl_Deductions t) (d_Amount d)\<rparr>)"

section \<open>Earnings\<close>

record pay_parts =
  pp_Basic :: int64
  pp_Housing :: int64
  pp_Transport :: int64
  pp_Other :: int64

definition classify :: "earning_component \<Rightarrow> pay_parts \<Rightarrow> pay_parts" where
  "classify ec p = (case ec_ComponentType ec of
       ComponentBasic \<Rightarrow> p\<lparr>pp_Basic := ec_Amount ec\<rparr>
     | ComponentHousing \<Rightarrow> p\<lparr>pp_Housing := ec_Amount ec\<rparr>
     | ComponentTransport \<Rightarrow> p\<lparr>pp_Transport := ec_Amount ec\<rparr>
     | ComponentOther \<Rightarrow> p\<lparr>pp_Other := add64 (pp_Other p) (ec_Amount ec)\<rparr>)"

definition earn :: "earning_component \<Rightarrow> pay_parts \<times> tally \<Rightarrow> pay_parts \<times> tally" where
  "earn ec = (\<lambda>(p, t). (classify ec p, book (detail DetailTypeEarning (ec_Name ec) (ec_Amount ec) []) t))"

definition named_basic :: "earning_component \<Rightarrow> bool" where
  "named_basic ec \<longleftrightarrow> equal_fold (ec_Name ec) ''basic pay'' \<or> equal_fold (ec_Name ec) ''basic salary'' \<or>
     equal_fold (ec_Name ec) ''basic''"

text \<open>Without a component tagged as basic pay, the first one with the name of one counts.\<close>

definition basic_fallback :: "earning_component list \<Rightarrow> pay_parts \<Rightarrow> pay_parts" where
  "basic_fallback ecs p =
     (if pp_Basic p = 0
      then (case find named_basic ecs of None \<Rightarrow> p | Some ec \<Rightarrow> p\<lparr>pp_Basic := ec_Amount ec\<rparr>) else p)"

section \<open>Deductions\<close>

definition custom_deduction :: "int64 \<Rightarrow> int64 \<Rightarrow> deduction_rule \<Rightarrow> int64" where
  "custom_deduction gross basic dr =
     (case dr_Type dr of
        DeductionTypePercentage \<Rightarrow>
          percent_of (if dr_CalculationBasis dr = BasisBasicPay \<and> basic > 0 then basic else gross) (dr_Value dr)
      | DeductionTypeFlat \<Rightarrow> int64_of_float (dr_Value dr))"

definition deduct_rule :: "int64 \<Rightarrow> int64 \<Rightarrow> deduction_rule \<Rightarrow> tally \<Rightarrow> tally" where
  "deduct_rule gross basic dr t =
     book (detail DetailTypeDeduction (dr_Name dr) (custom_deduction gross basic dr) []) t"

definition entry_tax_input :: "employee \<Rightarrow> business \<Rightarrow> pay_parts \<Rightarrow> int64 \<Rightarrow> tax_input" where
  "entry_tax_input emp b p gross =
     \<lparr>in_BasicPay = pp_Basic p, in_HousingPay = pp_Housing p, in_TransportPay = pp_Transport p,
      in_OtherPay = pp_Other p, in_GrossPay = gross, in_AnnualRentPaid = e_AnnualRentPaid emp,
      in_PensionEnabled = b_PensionEnabled b, in_NHFEnabled = b_NHFEnabled b,
      in_NSITFEnabled = b_NSITFEnabled b, in_PAYEEnabled = b_PAYEEnabled b\<rparr>"

definition book_positive :: "entry_detail \<Rightarrow> tally \<Rightarrow> tally" where
  "book_positive d t = (if d_Amount d > 0 then book d t else t)"

definition statutory_items :: "tax_result \<Rightarrow> entry_detail list" where
  "statutory_items r =
     [detail DetailTypeStatutoryDeduction ''PAYE Income Tax'' (r_PAYE r)
        (''Monthly PAYE (annual taxable: '' @ show_int (r_AnnualTaxableIncome r) @ '' kobo, rent relief: '' @
         show_int (r_RentRelief r) @ '' kobo)''),
      detail DetailTypeStatutoryDeduction ''Pension (Employee 8%)'' (r_EmployeePension r)
        (''RSA contribution (pension base: '' @ show_int (r_PensionBase r) @ '' kobo)''),
      detail DetailTypeStatutoryDeduction ''NHF (2.5%)'' (r_NHF r) [],
      detail DetailTypeEmployerCost ''Pension (Employer 10%)'' (r_EmployerPension r)
        (''Employer RSA contribution (pension base: '' @ show_int (r_PensionBase r) @ '' kobo)''),
      detail DetailTypeEmployerCost ''NSITF (Employer 1%)'' (r_NSITF r) []]"

definition loan_item :: "loan \<Rightarrow> entry_detail" where
  "loan_item l =
     detail DetailTypeDeduction (''Loan Repayment: '' @ l_Description l) (repayment l)
       (''Loan #'' @ show_nat (l_ID l) @ '' '' @ [char_of (226::nat), char_of (128::nat), char_of (148::nat)] @ '' remaining: '' @
        show_int (sub64 (l_RemainingBalance l) (repayment l)) @ '' kobo'')"

definition deduct_loan :: "loan \<Rightarrow> tally \<Rightarrow> tally" where
  "deduct_loan l t = (if l_RemainingBalance l \<le> 0 then t else book (loan_item l) t)"

section \<open>Adjustments\<close>

definition adjustment_type :: "adjustment \<Rightarrow> DetailType" where
  "adjustment_type adj =
     (let componentType = (if adj_ComponentType adj = []
             then (if adj_Amount adj \<ge> 0 then ''earnings'' else ''deduction'') else adj_ComponentType adj)
      in if adj_Amount adj \<ge> 0
         then (if componentType = ''earnings'' then DetailTypeEarning else DetailTypeBonus)
         else DetailTypeDeduction)"

definition adjust :: "adjustment \<Rightarrow> tally \<Rightarrow> tally" where
  "adjust adj t =
     book (detail (adjustment_type adj) (adj_ItemName adj)
       (if adj_Amount adj < 0 then neg64 (adj_Amount adj) else adj_Amount adj) (adj_Description adj)) t"

section \<open>One entry\<close>

text \<open>The part before the loans: the tally and the statutory result.\<close>

definition cadre_tally :: "employee \<Rightarrow> cadre \<Rightarrow> business \<Rightarrow> tally \<times> tax_result" where
  "cadre_tally emp c b =
     (let ecs = c_EarningComponents c;
          (p, t) = fold earn ecs (\<lparr>pp_Basic = 0, pp_Housing = 0, pp_Transport = 0, pp_Other = 0\<rparr>,
                                  \<lparr>tl_Gross = 0, tl_Deductions = 0, tl_Bonus = 0, tl_Details = []\<rparr>);
          p = basic_fallback ecs p;
          gross = tl_Gross t;
          t = fold (deduct_rule gross (pp_Basic p)) (c_DeductionRules c) t;
          r = CalculateForCountry (b_Currency b) (entry_tax_input emp b p gross)
      in (fold book_positive (statutory_items r) t, r))"

text \<open>A failure to load the loans is only logged.\<close>

definition calculateEmployeeEntry ::
  "bool \<Rightarrow> employee \<Rightarrow> cadre \<Rightarrow> business \<Rightarrow> adjustment list \<Rightarrow> world \<Rightarrow> (payroll_entry \<times> tax_result) \<times> world" where
  "calculateEmployeeEntry loanRepo emp c b adjs w =
     (let (t, r) = cadre_tally emp c b;
          (t, w) = (if loanRepo
                    then attempt (loan_FindActiveByEmployeeID (e_ID emp) w)
                           (\<lambda>_ w. (t, w)) (\<lambda>ls w. (fold deduct_loan ls t, w))
                    else (t, w));
          t = fold adjust adjs t
      in ((\<lparr>pe_ID = 0, pe_EmployeeID = e_ID emp, pe_GrossPay = tl_Gross t, pe_TotalDeductions = tl_Deductions t,
            pe_Bonuses = tl_Bonus t,
            pe_NetPay = sub64 (add64 (tl_Gross t) (tl_Bonus t)) (tl_Deductions t),
            pe_EmployerPension = r_EmployerPension r, pe_EmployerNSITF = r_NSITF r,
            pe_TotalEmployerCost = r_TotalEmployerCosts r,
            pe_TotalCostToCompany = add64 (tl_Gross t) (r_TotalEmployerCosts r),
            pe_Employee = Some (emp\<lparr>e_Cadre := Some c\<rparr>), pe_Details = tl_Details t\<rparr>, r), w))"

section \<open>A run\<close>

text \<open>The local variables of the loop over the employees.\<close>

record run_tally =
  rt_Gross :: int64
  rt_Deductions :: int64
  rt_Net :: int64
  rt_EmployerCosts :: int64
  rt_Entries :: "payroll_entry list"
  rt_Skipped :: "string list"

fun calc_employees ::
  "bool \<Rightarrow> business \<Rightarrow> (nat \<Rightarrow> adjustment list) \<Rightarrow> (employee \<times> cadre) list \<Rightarrow> run_tally \<Rightarrow> world \<Rightarrow> run_tally \<times> world" where
  "calc_employees loanRepo b adjs [] t w = (t, w)"
| "calc_employees loanRepo b adjs ((emp, c) # es) t w =
     (if c_EarningComponents c = []
      then calc_employees loanRepo b adjs es
             (t\<lparr>rt_Skipped := rt_Skipped t @ [e_FullName emp @ '' (cadre '' @ [CHR 0x27] @ c_Name c @ [CHR 0x27] @
                               '' has no earning components)'']\<rparr>) w
      else (let ((entry, r), w) = calculateEmployeeEntry loanRepo emp c b (adjs (e_ID emp)) w
            in calc_employees loanRepo b adjs es
                 (t\<lparr>rt_Gross := add64 (rt_Gross t) (pe_GrossPay entry),
                    rt_Deductions := add64 (rt_Deductions t) (pe_TotalDeductions entry),
                    rt_Net := add64 (rt_Net t) (pe_NetPay entry),
                    rt_EmployerCosts := add64 (rt_EmployerCosts t) (r_TotalEmployerCosts r),
                    rt_Entries := rt_Entries t @ [entry]\<rparr>) w))"

text \<open>The active employees whose cadre was loaded, with it.\<close>

definition with_cadre :: "cadre list \<Rightarrow> employee list \<Rightarrow> (employee \<times> cadre) list" where
  "with_cadre cs es =
     List.map_filter (\<lambda>e. map_option (Pair e) (find (\<lambda>c. c_ID c = e_CadreID e) cs)) es"

fun join :: "string \<Rightarrow> string list \<Rightarrow> string" where
  "join sep [] = []"
| "join sep [s] = s"
| "join sep (s # ss) = s @ sep @ join sep ss"

definition nobody_processed :: "string list \<Rightarrow> gerror" where
  "nobody_processed skipped =
     Wrap [] (Sentinel ErrValidationFailed) ('': '' @
       (if skipped = [] then ''no employees could be processed for payroll''
        else ''all employees were skipped: ['' @ join '' '' skipped @ '']''))"

definition five_days :: int where
  "five_days = 5 * 24 * 3600 * 1000000000"

definition CalculatePayrollRun ::
  "bool \<Rightarrow> nat \<Rightarrow> period \<Rightarrow> (nat \<Rightarrow> adjustment list) \<Rightarrow> world \<Rightarrow> payroll_run res \<times> world" where
  "CalculatePayrollRun loanRepo bid period adjs w =
     attempt (business_FindByID bid w)
       (\<lambda>e w. (Inl (Wrap ''failed to fetch business: '' e []), w))
       (\<lambda>b w. attempt (employee_FindByBusinessID bid w)
         (\<lambda>e w. (Inl (Wrap ''failed to fetch employees: '' e []), w))
         (\<lambda>emps w.
            (let active = filter e_IsActive emps
             in attempt (cadre_FindByIDs (remdups (map e_CadreID active)) bid w)
                  (\<lambda>e w. (Inl (Wrap ''failed to load cadres: '' e []), w))
                  (\<lambda>cs w.
                     (let es = with_cadre cs active
                      in if es = [] then (Inl (Plain ''no active employees found for business to run payroll''), w)
                         else
                           (let (t, w) = calc_employees loanRepo b adjs es
                                  \<lparr>rt_Gross = 0, rt_Deductions = 0, rt_Net = 0, rt_EmployerCosts = 0,
                                   rt_Entries = [], rt_Skipped = []\<rparr> w;
                                (time, w) = now w
                            in if rt_Entries t = [] then (Inl (nobody_processed (rt_Skipped t)), w)
                               else (Inr \<lparr>pr_ID = 0, pr_BusinessID = bid, pr_Period = period,
                                          pr_Status = StatusDraft, pr_TotalGrossPay = rt_Gross t,
                                          pr_TotalDeductions = rt_Deductions t, pr_TotalNetPay = rt_Net t,
                                          pr_TotalEmployerCosts = rt_EmployerCosts t,
                                          pr_TotalCostToCompany = add64 (rt_Gross t) (rt_EmployerCosts t),
                                          pr_ScheduledFor = time + five_days, pr_ProcessedAt = None,
                                          pr_PaymentReference = [], pr_RejectionReason = [],
                                          pr_Entries = rt_Entries t\<rparr>, w)))))))"

definition CreateAndStorePayrollRun ::
  "bool \<Rightarrow> nat \<Rightarrow> period \<Rightarrow> (nat \<Rightarrow> adjustment list) \<Rightarrow> world \<Rightarrow> payroll_run res \<times> world" where
  "CreateAndStorePayrollRun loanRepo bid period adjs w =
     attempt (CalculatePayrollRun loanRepo bid period adjs w)
       (\<lambda>e w. (Inl e, w))
       (\<lambda>r w. attempt (payroll_Create r w)
         (\<lambda>e w. (Inl (Wrap ''failed to save payroll run: '' e []), w)) (\<lambda>r w. (Inr r, w)))"

section \<open>Invariants of the tables\<close>

context payment_invariant
begin

lemma calculateEmployeeEntry_keeps: "I w \<Longrightarrow> I (snd (calculateEmployeeEntry lr emp c b adjs w))"
  using finders_keep(7) [THEN keepsD, of w "e_ID emp"]
  by (auto simp: calculateEmployeeEntry_def attempt_def split_beta Let_def split: sum.splits)

lemma calc_employees_keeps: "I w \<Longrightarrow> I (snd (calc_employees lr b adjs es t w))"
proof (induction es arbitrary: t w)
  case (Cons x es)
  obtain emp c where x: "x = (emp, c)" by (cases x)
  show ?case using Cons.IH [OF Cons.prems] Cons.IH [OF calculateEmployeeEntry_keeps [OF Cons.prems]]
    by (simp add: x split_beta Let_def)
qed simp

lemma CalculatePayrollRun_keeps: "I w \<Longrightarrow> I (snd (CalculatePayrollRun lr bid period adjs w))"
  unfolding CalculatePayrollRun_def Let_def by (auto intro!: results calc_employees_keeps)

end

context run_invariant
begin

lemma CreateAndStorePayrollRun_keeps: "I w \<Longrightarrow> I (snd (CreateAndStorePayrollRun lr bid period adjs w))"
  unfolding CreateAndStorePayrollRun_def by (auto intro!: run_results CalculatePayrollRun_keeps)

end

section \<open>An entry adds up\<close>

definition total_of :: "DetailType set \<Rightarrow> entry_detail list \<Rightarrow> int" where
  "total_of kinds ds = sum_list (map d_Amount (filter (\<lambda>d. d_Type d \<in> kinds) ds))"

lemma total_of_simps [simp]:
  "total_of ks [] = 0"
  "total_of ks (d # ds) = (if d_Type d \<in> ks then d_Amount d else 0) + total_of ks ds"
  "total_of ks (ds @ es) = total_of ks ds + total_of ks es"
  by (simp_all add: total_of_def)

definition tally_ok :: "tally \<Rightarrow> bool" where
  "tally_ok t \<longleftrightarrow> tl_Gross t = wrap64 (total_of {DetailTypeEarning} (tl_Details t)) \<and>
     tl_Bonus t = wrap64 (total_of {DetailTypeBonus} (tl_Details t)) \<and>
     tl_Deductions t = wrap64 (total_of {DetailTypeDeduction, DetailTypeStatutoryDeduction} (tl_Details t))"

lemma tally_ok_book: "tally_ok t \<Longrightarrow> tally_ok (book d t)"
  by (cases "d_Type d") (simp_all add: tally_ok_def book_def item_def add64_def)

lemma tally_ok_fold: "tally_ok t \<Longrightarrow> (\<And>x t. tally_ok t \<Longrightarrow> tally_ok (f x t)) \<Longrightarrow> tally_ok (fold f xs t)"
  by (induction xs arbitrary: t) simp_all

lemma tally_ok_earn: "tally_ok (snd pt) \<Longrightarrow> tally_ok (snd (fold earn ecs pt))"
  by (induction ecs arbitrary: pt) (simp_all add: earn_def split_beta tally_ok_book)

lemma tally_ok_steps:
  "tally_ok t \<Longrightarrow> tally_ok (deduct_rule g p dr t)" "tally_ok t \<Longrightarrow> tally_ok (book_positive d t)"
  "tally_ok t \<Longrightarrow> tally_ok (deduct_loan l t)" "tally_ok t \<Longrightarrow> tally_ok (adjust adj t)"
  by (simp_all add: deduct_rule_def book_positive_def deduct_loan_def adjust_def tally_ok_book)

lemma tally_ok_cadre: "tally_ok (fst (cadre_tally emp c b))"
proof -
  have "tally_ok \<lparr>tl_Gross = 0, tl_Deductions = 0, tl_Bonus = 0, tl_Details = []\<rparr>"
    by (simp add: tally_ok_def)
  then show ?thesis
    unfolding cadre_tally_def Let_def split_beta fst_conv
    by (intro tally_ok_fold tally_ok_steps tally_ok_earn) simp_all
qed

text \<open>An entry against its own itemised details.\<close>

definition payslip_ok :: "payroll_entry \<Rightarrow> bool" where
  "payslip_ok e \<longleftrightarrow>
     pe_GrossPay e = wrap64 (total_of {DetailTypeEarning} (pe_Details e)) \<and>
     pe_Bonuses e = wrap64 (total_of {DetailTypeBonus} (pe_Details e)) \<and>
     pe_TotalDeductions e = wrap64 (total_of {DetailTypeDeduction, DetailTypeStatutoryDeduction} (pe_Details e)) \<and>
     pe_NetPay e = wrap64 (pe_GrossPay e + pe_Bonuses e - pe_TotalDeductions e) \<and>
     pe_TotalCostToCompany e = wrap64 (pe_GrossPay e + pe_TotalEmployerCost e)"

lemma entry_fields:
  "pe_EmployeeID (fst (fst (calculateEmployeeEntry lr emp c b adjs w))) = e_ID emp"
  "pe_ID (fst (fst (calculateEmployeeEntry lr emp c b adjs w))) = 0"
  "pe_TotalEmployerCost (fst (fst (calculateEmployeeEntry lr emp c b adjs w))) =
    r_TotalEmployerCosts (snd (fst (calculateEmployeeEntry lr emp c b adjs w)))"
  by (simp_all add: calculateEmployeeEntry_def split_beta Let_def)

lemma entry_payslip: "payslip_ok (fst (fst (calculateEmployeeEntry lr emp c b adjs w)))"
proof -
  have "tally_ok (fst (if lr then attempt (loan_FindActiveByEmployeeID (e_ID emp) w)
      (\<lambda>_ w. (t, w)) (\<lambda>ls w. (fold deduct_loan ls t, w)) else (t, w)))" if "tally_ok t" for t
    using that by (auto split: attempt_split intro!: tally_ok_fold tally_ok_steps)
  from tally_ok_fold [OF this [OF tally_ok_cadre], of adjust adjs, OF tally_ok_steps(4)]
  show ?thesis
    by (simp add: calculateEmployeeEntry_def payslip_ok_def tally_ok_def split_beta Let_def add64_def sub64_def)
qed

section \<open>A run adds up\<close>

definition run_tally_ok :: "run_tally \<Rightarrow> bool" where
  "run_tally_ok t \<longleftrightarrow> (\<forall>e \<in> set (rt_Entries t). payslip_ok e \<and> pe_ID e = 0) \<and>
     rt_Gross t = wrap64 (\<Sum>e\<leftarrow>rt_Entries t. pe_GrossPay e) \<and>
     rt_Deductions t = wrap64 (\<Sum>e\<leftarrow>rt_Entries t. pe_TotalDeductions e) \<and>
     rt_Net t = wrap64 (\<Sum>e\<leftarrow>rt_Entries t. pe_NetPay e) \<and>
     rt_EmployerCosts t = wrap64 (\<Sum>e\<leftarrow>rt_Entries t. pe_TotalEmployerCost e)"

lemma calc_employees_ok:
  "run_tally_ok t \<Longrightarrow> run_tally_ok (fst (calc_employees lr b adjs es t w)) \<and>
    map pe_EmployeeID (rt_Entries (fst (calc_employees lr b adjs es t w))) =
      map pe_EmployeeID (rt_Entries t) @ map (e_ID \<circ> fst) (filter (\<lambda>x. c_EarningComponents (snd x) \<noteq> []) es)"
proof (induction es arbitrary: t w)
  case (Cons x es)
  obtain emp c where x: "x = (emp, c)" by (cases x)
  obtain entry r w' where calc: "calculateEmployeeEntry lr emp c b (adjs (e_ID emp)) w = ((entry, r), w')"
    by (metis prod.collapse)
  let ?t = "t\<lparr>rt_Gross := add64 (rt_Gross t) (pe_GrossPay entry),
      rt_Deductions := add64 (rt_Deductions t) (pe_TotalDeductions entry),
      rt_Net := add64 (rt_Net t) (pe_NetPay entry),
      rt_EmployerCosts := add64 (rt_EmployerCosts t) (r_TotalEmployerCosts r),
      rt_Entries := rt_Entries t @ [entry]\<rparr>"
  have "run_tally_ok ?t"
    using Cons.prems entry_payslip [of lr emp c b "adjs (e_ID emp)" w] entry_fields [of lr emp c b "adjs (e_ID emp)" w] calc
    by (auto simp: run_tally_ok_def add64_def)
  moreover have "run_tally_ok (t\<lparr>rt_Skipped := ss\<rparr>)" for ss using Cons.prems by (simp add: run_tally_ok_def)
  ultimately show ?case
    using Cons.IH entry_fields(1) [of lr emp c b "adjs (e_ID emp)" w] calc by (simp add: x)
qed simp

lemma wrap64_sum_list: "wrap64 (\<Sum>x\<leftarrow>xs. wrap64 (f x)) = wrap64 (\<Sum>x\<leftarrow>xs. f x)"
proof (induction xs)
  case (Cons x xs)
  then show ?case by (metis list.map(2) sum_list.Cons wrap64_add_left wrap64_add_right)
qed simp

text \<open>Who is to be paid: the active employees of the business with a cadre that has earnings.\<close>

definition cadre_of :: "world \<Rightarrow> nat \<Rightarrow> employee \<Rightarrow> cadre option" where
  "cadre_of w bid e = find (\<lambda>c. c_ID c = e_CadreID e \<and> c_BusinessID c = bid) (all_cadres w)"

definition payable :: "world \<Rightarrow> nat \<Rightarrow> employee list" where
  "payable w bid = filter (\<lambda>e. e_BusinessID e = bid \<and> e_IsActive e \<and>
     (case cadre_of w bid e of None \<Rightarrow> False | Some c \<Rightarrow> c_EarningComponents c \<noteq> [])) (employees w)"

lemma find_filter: "find P (filter Q xs) = find (\<lambda>x. P x \<and> Q x) xs"
  by (induction xs) auto

definition found_cadres :: "world \<Rightarrow> nat \<Rightarrow> (employee \<times> cadre) list" where
  "found_cadres w bid =
     (let active = filter e_IsActive (filter (\<lambda>e. e_BusinessID e = bid) (employees w))
      in with_cadre (filter (\<lambda>c. c_ID c \<in> set (remdups (map e_CadreID active)) \<and> c_BusinessID c = bid) (all_cadres w)) active)"

lemma with_cadre_payable:
  assumes "\<And>e. e \<in> set es \<Longrightarrow> find (\<lambda>c. c_ID c = e_CadreID e) cs = look e"
  shows "map fst (filter (\<lambda>x. c_EarningComponents (snd x) \<noteq> []) (with_cadre cs es)) =
    filter (\<lambda>e. case look e of None \<Rightarrow> False | Some c \<Rightarrow> c_EarningComponents c \<noteq> []) es"
  using assms
  by (induction es) (auto simp: with_cadre_def List.map_filter_def split: option.splits)

lemma found_payable:
  "map fst (filter (\<lambda>x. c_EarningComponents (snd x) \<noteq> []) (found_cadres w bid)) = payable w bid"
proof -
  let ?active = "filter e_IsActive (filter (\<lambda>e. e_BusinessID e = bid) (employees w))"
  have "find (\<lambda>c. c_ID c = e_CadreID e)
      (filter (\<lambda>c. c_ID c \<in> set (remdups (map e_CadreID ?active)) \<and> c_BusinessID c = bid) (all_cadres w)) = cadre_of w bid e"
    if "e \<in> set ?active" for e
    unfolding find_filter cadre_of_def using that by (intro arg_cong2 [where f = find]) (auto simp: fun_eq_iff)
  from with_cadre_payable [of ?active, OF this]
  have "map fst (filter (\<lambda>x. c_EarningComponents (snd x) \<noteq> []) (found_cadres w bid)) =
      filter (\<lambda>e. case cadre_of w bid e of None \<Rightarrow> False | Some c \<Rightarrow> c_EarningComponents c \<noteq> []) ?active"
    unfolding found_cadres_def Let_def .
  also have "\<dots> = payable w bid"
    unfolding payable_def filter_filter by (rule filter_cong) auto
  finally show ?thesis .
qed

definition run_ok :: "nat \<Rightarrow> payroll_run \<Rightarrow> bool" where
  "run_ok bid r \<longleftrightarrow> pr_BusinessID r = bid \<and> pr_Status r = StatusDraft \<and> pr_Entries r \<noteq> [] \<and>
     (\<forall>e \<in> set (pr_Entries r). payslip_ok e \<and> pe_ID e = 0) \<and>
     pr_TotalGrossPay r = wrap64 (\<Sum>e\<leftarrow>pr_Entries r. pe_GrossPay e) \<and>
     pr_TotalDeductions r = wrap64 (\<Sum>e\<leftarrow>pr_Entries r. pe_TotalDeductions e) \<and>
     pr_TotalNetPay r = wrap64 (\<Sum>e\<leftarrow>pr_Entries r. pe_NetPay e) \<and>
     pr_TotalEmployerCosts r = wrap64 (\<Sum>e\<leftarrow>pr_Entries r. pe_TotalEmployerCost e) \<and>
     pr_TotalCostToCompany r = wrap64 (\<Sum>e\<leftarrow>pr_Entries r. pe_TotalCostToCompany e)"

lemma total_cost_to_company:
  assumes "\<forall>e \<in> set es. payslip_ok e"
  shows "wrap64 (\<Sum>e\<leftarrow>es. pe_TotalCostToCompany e) = wrap64 ((\<Sum>e\<leftarrow>es. pe_GrossPay e) + (\<Sum>e\<leftarrow>es. pe_TotalEmployerCost e))"
proof -
  have "map pe_TotalCostToCompany es = map (\<lambda>e. wrap64 (pe_GrossPay e + pe_TotalEmployerCost e)) es"
    using assms by (simp add: payslip_ok_def)
  then show ?thesis by (simp only: wrap64_sum_list sum_list_addf)
qed

lemma calculate_outcome:
  "post (\<lambda>x _. \<forall>r. x = Inr r \<longrightarrow> run_ok bid r \<and> map pe_EmployeeID (pr_Entries r) = map e_ID (payable w bid))
    (CalculatePayrollRun lr bid period adjs w)"
proof -
  let ?t0 = "\<lparr>rt_Gross = 0, rt_Deductions = 0, rt_Net = 0, rt_EmployerCosts = 0, rt_Entries = [], rt_Skipped = []\<rparr>"
  have t0: "run_tally_ok ?t0" by (simp add: run_tally_ok_def)
  have calc: "post (\<lambda>t _. run_tally_ok t \<and> map pe_EmployeeID (rt_Entries t) = map e_ID (payable w bid))
      (calc_employees lr b adjs es ?t0 v)"
    if "map fst (filter (\<lambda>x. c_EarningComponents (snd x) \<noteq> []) es) = payable w bid" for b es v bid
    using calc_employees_ok [OF t0, of lr b adjs es v] that by (simp add: post_def flip: map_map)
  have run: "run_ok bid r" if "run_tally_ok t" "rt_Entries t \<noteq> []"
    "r = \<lparr>pr_ID = 0, pr_BusinessID = bid, pr_Period = period, pr_Status = StatusDraft, pr_TotalGrossPay = rt_Gross t,
          pr_TotalDeductions = rt_Deductions t, pr_TotalNetPay = rt_Net t, pr_TotalEmployerCosts = rt_EmployerCosts t,
          pr_TotalCostToCompany = add64 (rt_Gross t) (rt_EmployerCosts t), pr_ScheduledFor = time + five_days,
          pr_ProcessedAt = None, pr_PaymentReference = [], pr_RejectionReason = [], pr_Entries = rt_Entries t\<rparr>" for r t time bid
    using that total_cost_to_company [of "rt_Entries t"] by (auto simp: run_ok_def run_tally_ok_def add64_def)
  show ?thesis
    unfolding CalculatePayrollRun_def Let_def
    by (auto intro!: wp calc [THEN post_mono] intro: run simp: found_payable [unfolded found_cadres_def Let_def, simplified])
qed

lemma cadre_FindByIDs_clean:
  "faults w = [] \<Longrightarrow>
   cadre_FindByIDs ids bid w = (Inr (filter (\<lambda>c. c_ID c \<in> set ids \<and> c_BusinessID c = bid) (all_cadres w)), w)"
  by (simp add: cadre_FindByIDs_def)

lemma calculate_succeeds:
  assumes "faults w = []" and "find (\<lambda>b. b_ID b = bid) (businesses w) = Some b" and "payable w bid \<noteq> []"
  shows "\<exists>r w'. CalculatePayrollRun lr bid period adjs w = (Inr r, w')"
proof -
  let ?t0 = "\<lparr>rt_Gross = 0, rt_Deductions = 0, rt_Net = 0, rt_EmployerCosts = 0, rt_Entries = [], rt_Skipped = []\<rparr>"
  let ?es = "found_cadres w bid"
  let ?active = "filter e_IsActive (filter (\<lambda>e. e_BusinessID e = bid) (employees w))"
  have es: "?es \<noteq> []" using found_payable [of w bid] assms(3) by (cases "?es") auto
  have "run_tally_ok ?t0" by (simp add: run_tally_ok_def)
  from calc_employees_ok [OF this, of lr b adjs ?es w]
  have entries: "rt_Entries (fst (calc_employees lr b adjs ?es ?t0 w)) \<noteq> []"
    using assms(3) found_payable [of w bid] by (auto simp flip: map_map)
  have cadres: "cadre_FindByIDs (remdups (map e_CadreID ?active)) bid w =
      (Inr (filter (\<lambda>c. c_ID c \<in> set (remdups (map e_CadreID ?active)) \<and> c_BusinessID c = bid) (all_cadres w)), w)"
    by (rule cadre_FindByIDs_clean [OF assms(1)])
  obtain t w1 where t: "calc_employees lr b adjs ?es ?t0 w = (t, w1)" by fastforce
  have "business_FindByID bid w = (Inr b, w)"
    "employee_FindByBusinessID bid w = (Inr (filter (\<lambda>e. e_BusinessID e = bid) (employees w)), w)"
    using assms(1,2) by (simp_all add: business_FindByID_def employee_FindByBusinessID_def)
  then show ?thesis
    unfolding CalculatePayrollRun_def
    by (simp only: attempt_simps Let_def cadres found_cadres_def [unfolded Let_def, symmetric] es if_False t prod.case)
      (use entries t in \<open>simp add: now_def\<close>)
qed

section \<open>Take-home pay\<close>

definition sum_kind :: "EarningComponentType \<Rightarrow> earning_component list \<Rightarrow> int" where
  "sum_kind k ecs = sum_list (map ec_Amount (filter (\<lambda>ec. ec_ComponentType ec = k) ecs))"

definition cadre_pay :: "earning_component list \<Rightarrow> int" where
  "cadre_pay ecs = sum_list (map ec_Amount ecs)"

lemma sum_kind_simps [simp]:
  "sum_kind k [] = 0"
  "sum_kind k (ec # ecs) = (if ec_ComponentType ec = k then ec_Amount ec else 0) + sum_kind k ecs"
  by (simp_all add: sum_kind_def)

lemma cadre_pay_simps [simp]: "cadre_pay [] = 0" "cadre_pay (ec # ecs) = ec_Amount ec + cadre_pay ecs"
  by (simp_all add: cadre_pay_def)

lemma cadre_pay_kinds:
  "cadre_pay ecs = sum_kind ComponentBasic ecs + sum_kind ComponentHousing ecs + sum_kind ComponentTransport ecs +
    sum_kind ComponentOther ecs"
proof (induction ecs)
  case (Cons ec ecs)
  then show ?case by (cases "ec_ComponentType ec") simp_all
qed simp

lemma sums_nonneg:
  assumes "\<forall>ec \<in> set ecs. 0 \<le> ec_Amount ec"
  shows "0 \<le> sum_kind k ecs" and "0 \<le> cadre_pay ecs"
  using assms by (induction ecs) auto

lemma sum_kind_bounds:
  assumes "\<forall>ec \<in> set ecs. 0 \<le> ec_Amount ec"
  shows "\<forall>ec \<in> set ecs. ec_ComponentType ec = k \<longrightarrow> ec_Amount ec \<le> sum_kind k ecs"
  using assms
proof (induction ecs)
  case (Cons ec ecs)
  then show ?case using sums_nonneg(1) [of ecs k] by auto
qed simp

lemma earn_parts:
  assumes "\<forall>ec \<in> set ecs. 0 \<le> ec_Amount ec" and "0 \<le> pp_Basic p" "0 \<le> pp_Housing p" "0 \<le> pp_Transport p"
  shows "0 \<le> pp_Basic (fst (fold earn ecs (p, t))) \<and> 0 \<le> pp_Housing (fst (fold earn ecs (p, t))) \<and>
    0 \<le> pp_Transport (fst (fold earn ecs (p, t))) \<and>
    pp_Basic (fst (fold earn ecs (p, t))) \<le> pp_Basic p + sum_kind ComponentBasic ecs \<and>
    pp_Housing (fst (fold earn ecs (p, t))) \<le> pp_Housing p + sum_kind ComponentHousing ecs \<and>
    pp_Transport (fst (fold earn ecs (p, t))) \<le> pp_Transport p + sum_kind ComponentTransport ecs"
  using assms
proof (induction ecs arbitrary: p t)
  case (Cons ec ecs)
  have nonneg: "0 \<le> ec_Amount ec" using Cons.prems by simp
  have "0 \<le> pp_Basic (classify ec p)" "0 \<le> pp_Housing (classify ec p)" "0 \<le> pp_Transport (classify ec p)"
    "pp_Basic (classify ec p) \<le> pp_Basic p + (if ec_ComponentType ec = ComponentBasic then ec_Amount ec else 0)"
    "pp_Housing (classify ec p) \<le> pp_Housing p + (if ec_ComponentType ec = ComponentHousing then ec_Amount ec else 0)"
    "pp_Transport (classify ec p) \<le> pp_Transport p + (if ec_ComponentType ec = ComponentTransport then ec_Amount ec else 0)"
    using Cons.prems nonneg by (cases "ec_ComponentType ec"; simp add: classify_def)+
  with Cons.IH [of "classify ec p" "book (detail DetailTypeEarning (ec_Name ec) (ec_Amount ec) []) t"] Cons.prems(1)
  show ?case by (simp add: earn_def)
qed simp

lemma earn_gross:
  assumes "\<forall>ec \<in> set ecs. 0 \<le> ec_Amount ec" and "0 \<le> tl_Gross t" and "tl_Gross t + cadre_pay ecs \<le> money_max"
  shows "tl_Gross (snd (fold earn ecs (p, t))) = tl_Gross t + cadre_pay ecs \<and>
    tl_Deductions (snd (fold earn ecs (p, t))) = tl_Deductions t \<and> tl_Bonus (snd (fold earn ecs (p, t))) = tl_Bonus t"
  using assms
proof (induction ecs arbitrary: p t)
  case (Cons ec ecs)
  let ?t = "book (detail DetailTypeEarning (ec_Name ec) (ec_Amount ec) []) t"
  have "0 \<le> cadre_pay ecs" using Cons.prems(1) by (simp add: sums_nonneg)
  then have "tl_Gross ?t = tl_Gross t + ec_Amount ec" "tl_Deductions ?t = tl_Deductions t" "tl_Bonus ?t = tl_Bonus t"
    using Cons.prems by (simp_all add: book_def item_def detail_def add64_id in64_def money_max_def)
  then show ?case using Cons.IH [of ?t "classify ec p"] Cons.prems by (simp add: earn_def add.assoc)
qed simp

text \<open>
  Plain pay: no amount is negative, the earnings are within the tax engine's range, there are no
  custom rules, and a component named basic pay is not tagged as housing or transport.
\<close>

definition plain_pay :: "employee \<Rightarrow> cadre \<Rightarrow> bool" where
  "plain_pay emp c \<longleftrightarrow> (\<forall>ec \<in> set (c_EarningComponents c). 0 \<le> ec_Amount ec \<and>
       (named_basic ec \<longrightarrow> ec_ComponentType ec \<noteq> ComponentHousing \<and> ec_ComponentType ec \<noteq> ComponentTransport)) \<and>
     cadre_pay (c_EarningComponents c) \<le> money_max \<and> c_DeductionRules c = [] \<and>
     0 \<le> e_AnnualRentPaid emp \<and> e_AnnualRentPaid emp \<le> money_max"

definition cadre_parts :: "cadre \<Rightarrow> pay_parts" where
  "cadre_parts c = basic_fallback (c_EarningComponents c)
     (fst (fold earn (c_EarningComponents c) (\<lparr>pp_Basic = 0, pp_Housing = 0, pp_Transport = 0, pp_Other = 0\<rparr>,
        \<lparr>tl_Gross = 0, tl_Deductions = 0, tl_Bonus = 0, tl_Details = []\<rparr>)))"

lemma entry_gross [simp]: "in_GrossPay (entry_tax_input emp b p gross) = gross"
  by (simp add: entry_tax_input_def)

lemma plain_tax_input:
  assumes "plain_pay emp c"
  shows "tax_input_ok (entry_tax_input emp b (cadre_parts c) (cadre_pay (c_EarningComponents c)))"
proof -
  let ?ecs = "c_EarningComponents c"
  let ?p = "fst (fold earn ?ecs (\<lparr>pp_Basic = 0, pp_Housing = 0, pp_Transport = 0, pp_Other = 0\<rparr>,
        \<lparr>tl_Gross = 0, tl_Deductions = 0, tl_Bonus = 0, tl_Details = []\<rparr>))"
  have nonneg: "\<forall>ec \<in> set ?ecs. 0 \<le> ec_Amount ec" using assms by (simp add: plain_pay_def)
  have p: "0 \<le> pp_Basic ?p \<and> 0 \<le> pp_Housing ?p \<and> 0 \<le> pp_Transport ?p \<and> pp_Basic ?p \<le> sum_kind ComponentBasic ?ecs \<and>
      pp_Housing ?p \<le> sum_kind ComponentHousing ?ecs \<and> pp_Transport ?p \<le> sum_kind ComponentTransport ?ecs"
    using earn_parts [OF nonneg, of "\<lparr>pp_Basic = 0, pp_Housing = 0, pp_Transport = 0, pp_Other = 0\<rparr>"] by simp
  have other: "pp_Housing (cadre_parts c) = pp_Housing ?p" "pp_Transport (cadre_parts c) = pp_Transport ?p"
    by (simp_all add: cadre_parts_def basic_fallback_def split: option.splits)
  have basic: "0 \<le> pp_Basic (cadre_parts c) \<and>
      pp_Basic (cadre_parts c) \<le> sum_kind ComponentBasic ?ecs + sum_kind ComponentOther ?ecs"
  proof (cases "pp_Basic ?p = 0 \<and> find named_basic ?ecs \<noteq> None")
    case True
    then obtain ec where ec: "find named_basic ?ecs = Some ec" by blast
    then have mem: "ec \<in> set ?ecs" "named_basic ec" by (auto dest: find_SomeD)
    then have "ec_ComponentType ec = ComponentBasic \<or> ec_ComponentType ec = ComponentOther"
      using assms by (cases "ec_ComponentType ec") (auto simp: plain_pay_def)
    moreover have "pp_Basic (cadre_parts c) = ec_Amount ec" using True ec by (simp add: cadre_parts_def basic_fallback_def)
    ultimately show ?thesis
      using sum_kind_bounds [OF nonneg, of ComponentBasic] sum_kind_bounds [OF nonneg, of ComponentOther] mem nonneg
        sums_nonneg(1) [OF nonneg, of ComponentBasic] sums_nonneg(1) [OF nonneg, of ComponentOther] by fastforce
  next
    case False
    then have "pp_Basic (cadre_parts c) = pp_Basic ?p"
      by (auto simp: cadre_parts_def basic_fallback_def split: option.splits)
    then show ?thesis using p sums_nonneg(1) [OF nonneg, of ComponentOther] by simp
  qed
  show ?thesis
    using p other basic assms cadre_pay_kinds [of ?ecs]
    by (simp add: tax_input_ok_def entry_tax_input_def plain_pay_def)
qed

lemma book_positive_totals:
  "tl_Gross (book_positive (detail ty name a desc) t) = (if a > 0 \<and> ty = DetailTypeEarning then add64 (tl_Gross t) a else tl_Gross t)"
  "tl_Bonus (book_positive (detail ty name a desc) t) = (if a > 0 \<and> ty = DetailTypeBonus then add64 (tl_Bonus t) a else tl_Bonus t)"
  "tl_Deductions (book_positive (detail ty name a desc) t) =
    (if a > 0 \<and> ty \<in> {DetailTypeDeduction, DetailTypeStatutoryDeduction} then add64 (tl_Deductions t) a else tl_Deductions t)"
  by (cases ty; simp add: book_positive_def book_def item_def detail_def)+

lemma statutory_totals:
  assumes "tl_Deductions t = 0" and "0 \<le> r_PAYE r" "0 \<le> r_EmployeePension r" "0 \<le> r_NHF r"
    and "r_PAYE r + r_EmployeePension r + r_NHF r \<le> money_max"
  shows "tl_Deductions (fold book_positive (statutory_items r) t) = r_PAYE r + r_EmployeePension r + r_NHF r"
    and "tl_Gross (fold book_positive (statutory_items r) t) = tl_Gross t"
    and "tl_Bonus (fold book_positive (statutory_items r) t) = tl_Bonus t"
  using assms by (auto simp: statutory_items_def book_positive_totals add64_id in64_def money_max_def)

lemma plain_cadre_tally:
  assumes "plain_pay emp c" and "cadre_tally emp c b = (t, r)"
  shows "tl_Gross t = cadre_pay (c_EarningComponents c)" and "tl_Bonus t = 0"
    and "tl_Deductions t = r_TotalEmployeeDeductions r"
    and "r = CalculateForCountry (b_Currency b) (entry_tax_input emp b (cadre_parts c) (cadre_pay (c_EarningComponents c)))"
proof -
  let ?ecs = "c_EarningComponents c"
  let ?t0 = "\<lparr>tl_Gross = 0, tl_Deductions = 0, tl_Bonus = 0, tl_Details = []\<rparr>"
  let ?p0 = "\<lparr>pp_Basic = 0, pp_Housing = 0, pp_Transport = 0, pp_Other = 0\<rparr>"
  let ?t1 = "snd (fold earn ?ecs (?p0, ?t0))"
  have nonneg: "\<forall>ec \<in> set ?ecs. 0 \<le> ec_Amount ec" using assms(1) by (simp add: plain_pay_def)
  have t1: "tl_Gross ?t1 = cadre_pay ?ecs" "tl_Deductions ?t1 = 0" "tl_Bonus ?t1 = 0"
    using earn_gross [OF nonneg, of ?t0 ?p0] assms(1) by (simp_all add: plain_pay_def)
  let ?i = "entry_tax_input emp b (cadre_parts c) (cadre_pay ?ecs)"
  have t: "t = fold book_positive (statutory_items r) ?t1" and r: "r = CalculateForCountry (b_Currency b) ?i"
    using assms t1(1) by (auto simp: cadre_tally_def cadre_parts_def plain_pay_def split_beta Let_def)
  have ok: "tax_input_ok ?i" by (rule plain_tax_input [OF assms(1)])
  have "r_PAYE r + r_EmployeePension r + r_NHF r \<le> money_max"
    using country.employee_total [OF ok, of "b_Currency b"] country.deductions_within_gross [OF ok, of "b_Currency b"] assms(1)
    by (simp add: r plain_pay_def)
  with statutory_totals [OF t1(2), of r] country.employee_parts [OF ok, of "b_Currency b"]
    country.employee_total [OF ok, of "b_Currency b"] t1
  show "tl_Gross t = cadre_pay ?ecs" "tl_Bonus t = 0" "tl_Deductions t = r_TotalEmployeeDeductions r"
    by (simp_all add: t r)
  show "r = CalculateForCountry (b_Currency b) ?i" by (rule r)
qed

lemma take_home:
  fixes b :: business
  assumes "plain_pay emp c" and "lr \<longrightarrow> (\<forall>l \<in> set (loans w). l_EmployeeID l = e_ID emp \<longrightarrow> l_Status l \<noteq> LoanActive)"
  defines "e \<equiv> fst (fst (calculateEmployeeEntry lr emp c b [] w))"
  shows "pe_GrossPay e = cadre_pay (c_EarningComponents c) \<and> pe_NetPay e \<le> pe_GrossPay e \<and>
    545 * pe_GrossPay e \<le> 1000 * pe_NetPay e \<and> pe_NetPay e = pe_GrossPay e - pe_TotalDeductions e"
proof -
  obtain t r where tr: "cadre_tally emp c b = (t, r)" by fastforce
  note parts = plain_cadre_tally [OF assms(1) tr]
  let ?i = "entry_tax_input emp b (cadre_parts c) (cadre_pay (c_EarningComponents c))"
  have ok: "tax_input_ok ?i" by (rule plain_tax_input [OF assms(1)])
  have e: "pe_GrossPay e = tl_Gross t \<and> pe_TotalDeductions e = tl_Deductions t \<and>
      pe_NetPay e = sub64 (add64 (tl_Gross t) (tl_Bonus t)) (tl_Deductions t)"
  proof (cases lr)
    case True
    then have "filter (\<lambda>l. l_EmployeeID l = e_ID emp \<and> l_Status l = LoanActive) (loans w) = []"
      using assms(2) by (auto simp: filter_empty_conv)
    then show ?thesis
      unfolding e_def calculateEmployeeEntry_def tr loan_FindActiveByEmployeeID_def statement_def
      by (simp add: fault_eq split_beta Let_def)
  next
    case False
    then show ?thesis by (simp add: e_def calculateEmployeeEntry_def tr)
  qed
  have bounds: "0 \<le> r_TotalEmployeeDeductions r" "r_TotalEmployeeDeductions r \<le> cadre_pay (c_EarningComponents c)"
    "545 * cadre_pay (c_EarningComponents c) \<le> 1000 * (cadre_pay (c_EarningComponents c) - r_TotalEmployeeDeductions r)"
    "cadre_pay (c_EarningComponents c) \<le> money_max"
    using country.employee_parts [OF ok, of "b_Currency b"] country.employee_total [OF ok, of "b_Currency b"]
      country.deductions_within_gross [OF ok, of "b_Currency b"] country.take_home_share [OF ok, of "b_Currency b"] assms(1)
    by (simp_all add: parts(4) plain_pay_def)
  with e parts show ?thesis
    by (simp add: add64_id sub64_id in64_def money_max_def)
qed

section \<open>Properties\<close>

text \<open>
  C16: Payslips and run add up. In every run that \<open>CalculatePayrollRun\<close> returns, under any
  schedule of faults: the gross pay, bonuses and deductions of each entry are the sums of its
  itemised earnings, bonuses and deductions (custom, statutory, loans and adjustments), the net
  pay is gross plus bonuses less deductions, and the totals of the run, employer costs and
  cost to company included, are the sums over its entries. All in 64-bit arithmetic.
\<close>

theorem run_adds_up:
  assumes "CalculatePayrollRun lr bid period adjs w = (Inr r, w')"
  shows "run_ok bid r"
  using calculate_outcome [of bid w lr period adjs] assms by (simp add: post_def)

text \<open>
  Everyone is paid, and only once. The entries of a run are, in order, those of the active
  employees of the business whose cadre belongs to the business and has earnings: nobody else,
  and nobody left out, whatever statements fail. If no statement fails and there is somebody
  to be paid, the run is computed.
\<close>

theorem run_pays_everyone_once:
  "(\<forall>r. fst (CalculatePayrollRun lr bid period adjs w) = Inr r \<longrightarrow>
      map pe_EmployeeID (pr_Entries r) = map e_ID (payable w bid)) \<and>
   (faults w = [] \<and> find (\<lambda>b. b_ID b = bid) (businesses w) \<noteq> None \<and> payable w bid \<noteq> [] \<longrightarrow>
      (\<exists>r. fst (CalculatePayrollRun lr bid period adjs w) = Inr r))"
proof -
  have "\<exists>r. fst (CalculatePayrollRun lr bid period adjs w) = Inr r"
    if "faults w = []" "find (\<lambda>b. b_ID b = bid) (businesses w) = Some b" "payable w bid \<noteq> []" for b
    using calculate_succeeds [OF that] by (metis fst_conv)
  then show ?thesis using calculate_outcome [of bid w lr period adjs] by (auto simp: post_def)
qed

text \<open>
  C23: Statutory deductions leave at least 54.5 percent of the pay. For an employee on a plain
  cadre (non-negative amounts within range, no custom rules) without active loans and
  adjustments, the gross pay of the entry is the exact sum of the cadre's earnings, and the net
  pay is between 54.5 and 100 percent of it, in every country of the selector and for every
  choice of the business's statutory switches.
\<close>

theorem take_home_bounded:
  assumes "plain_pay emp c" and "\<forall>l \<in> set (loans w). l_EmployeeID l = e_ID emp \<longrightarrow> l_Status l \<noteq> LoanActive"
  shows "case calculateEmployeeEntry lr emp c b [] w of ((e, r), w') \<Rightarrow>
    pe_GrossPay e = cadre_pay (c_EarningComponents c) \<and> pe_NetPay e \<le> pe_GrossPay e \<and>
    545 * pe_GrossPay e \<le> 1000 * pe_NetPay e"
  using take_home [of emp c lr w b] assms by (simp add: split_beta)

definition sample_employee :: employee where
  "sample_employee = \<lparr>e_ID = 7, e_BusinessID = 1, e_CadreID = 3, e_FullName = ''Ada'', e_Email = ''a@b.c'',
     e_BankName = ''GTBank'', e_BankCode = ''058'', e_BankAccountNumber = ''0123456789'',
     e_PhoneNumber = [], e_IsActive = True,
     e_BankAccountVerified = True, e_BankAccountName = ''ADA'', e_TIN = None, e_PensionRSAPIN = None,
     e_NHFNumber = None, e_AnnualRentPaid = 0, e_UserID = None, e_StartDate = None, e_Cadre = None\<rparr>"

definition sample_cadre :: cadre where
  "sample_cadre = \<lparr>c_ID = 3, c_BusinessID = 1, c_Name = ''Engineer'',
     c_EarningComponents = [\<lparr>ec_ID = 0, ec_Name = ''Base'', ec_Amount = 30000000, ec_ComponentType = ComponentBasic\<rparr>,
       \<lparr>ec_ID = 0, ec_Name = ''Flat'', ec_Amount = 10000000, ec_ComponentType = ComponentHousing\<rparr>],
     c_DeductionRules = []\<rparr>"

definition sample_business :: business where
  "sample_business = \<lparr>b_ID = 1, b_AdminID = 2, b_Name = ''Acme'', b_RCNumber = None, b_IncorporationDate = None,
     b_DirectorBVN = None, b_DirectorBVNLast4 = [], b_BVNVerified = False, b_RCVerified = False, b_IsVerified = False,
     b_VFDAccountNumber = None, b_VFDAccountName = None, b_PayrollRequiresApproval = True,
     b_PayrollAutoProcess = False, b_PensionEnabled = True, b_NHFEnabled = True, b_NSITFEnabled = True,
     b_PAYEEnabled = True, b_Currency = ''NGN'', b_SubscriptionTier = PlanFree, b_SubscriptionStatus = ''active'',
     b_IsSuspended = False\<rparr>"

text \<open>Any world with this reference data and no loans.\<close>

definition payroll_world :: "world \<Rightarrow> world" where
  "payroll_world w = w\<lparr>businesses := [sample_business], employees := [sample_employee], cadres := [sample_cadre],
     deduction_rules := [], loans := [], faults := []\<rparr>"

lemma payroll_world_payable: "map e_ID (payable (payroll_world w) 1) = [7]"
  by (simp add: payable_def cadre_of_def payroll_world_def sample_employee_def sample_cadre_def all_cadres_def with_rules_def)

lemma payroll_world_run: "\<exists>r w'. CalculatePayrollRun lr 1 period adjs (payroll_world w) = (Inr r, w')"
  using payroll_world_payable [of w]
  by (intro calculate_succeeds [where b = sample_business]) (auto simp: payroll_world_def sample_business_def)

theorem run_adds_up_witness:
  "\<forall>w. \<exists>r w'. CalculatePayrollRun True 1 (2026, 1) (\<lambda>_. []) (payroll_world w) = (Inr r, w') \<and> run_ok 1 r"
  using payroll_world_run [of True "(2026, 1)" "\<lambda>_. []"] run_adds_up by blast

theorem run_pays_everyone_once_witness:
  "\<forall>w. \<exists>r. fst (CalculatePayrollRun True 1 (2026, 1) (\<lambda>_. []) (payroll_world w)) = Inr r \<and>
    map pe_EmployeeID (pr_Entries r) = [7]"
proof
  fix w
  have "faults (payroll_world w) = []" "find (\<lambda>b. b_ID b = 1) (businesses (payroll_world w)) \<noteq> None"
    by (simp_all add: payroll_world_def sample_business_def)
  then show "\<exists>r. fst (CalculatePayrollRun True 1 (2026, 1) (\<lambda>_. []) (payroll_world w)) = Inr r \<and>
      map pe_EmployeeID (pr_Entries r) = [7]"
    using run_pays_everyone_once [of True 1 "(2026, 1)" "\<lambda>_. []" "payroll_world w"] payroll_world_payable [of w] by auto
qed

theorem take_home_bounded_witness:
  "\<forall>w. case calculateEmployeeEntry True sample_employee sample_cadre sample_business [] (payroll_world w) of ((e, r), w') \<Rightarrow>
    pe_GrossPay e = 40000000 \<and> 21800000 \<le> pe_NetPay e"
proof -
  have "\<not> named_basic \<lparr>ec_ID = 0, ec_Name = ''Flat'', ec_Amount = 10000000, ec_ComponentType = ComponentHousing\<rparr>" by code_simp
  then have "plain_pay sample_employee sample_cadre"
    by (simp add: plain_pay_def sample_employee_def sample_cadre_def money_max_def)
  note bound = take_home_bounded [OF this, of "payroll_world w" True sample_business for w]
  show ?thesis
  proof
    fix w
    show "case calculateEmployeeEntry True sample_employee sample_cadre sample_business [] (payroll_world w) of ((e, r), w') \<Rightarrow>
        pe_GrossPay e = 40000000 \<and> 21800000 \<le> pe_NetPay e"
      using bound [of w] by (auto simp: payroll_world_def sample_cadre_def split: prod.splits)
  qed
qed

end
