(* ===== verification/Payroll_Service.thy ===== *)
theory Payroll_Service
  imports Transfer_Batch Payroll_Calculation "HOL-Library.Sublist"
begin

text \<open>
  The life of a payroll run: submission, approval and rejection, amendment and reversal
  (\<^verbatim>\<open>internal/service/payroll_service.go\<close>), and its processing, the payment of
  the entries as one batch, the check against the transfer records and the repayment of loans
  (\<^verbatim>\<open>payroll_processing.go\<close>). E-mail is not modelled. \<open>None\<close> as the outcome
  means that the call does not return, as for batches of transfers.
\<close>

record payroll_service =
  ps_transfers :: transfer_service
  ps_loans :: bool

section \<open>Text\<close>

definition month_name :: "nat \<Rightarrow> string" where
  "month_name m = [''January'', ''February'', ''March'', ''April'', ''May'', ''June'', ''July'', ''August'',
     ''September'', ''October'', ''November'', ''December''] ! ((m - 1) mod 12)"

definition pad4 :: "string \<Rightarrow> string" where
  "pad4 s = replicate (4 - length s) (CHR ''0'') @ s"

text \<open>\<^verbatim>\<open>Format("January 2006")\<close>.\<close>

definition period_text :: "period \<Rightarrow> string" where
  "period_text = (\<lambda>(y, m). month_name m @ '' '' @ pad4 (show_int y))"

section \<open>Building the batch\<close>

definition bankMap :: "(string \<times> string) list" where
  "bankMap = [(''access bank'', ''044''), (''access'', ''044''), (''united bank for africa'', ''033''),
     (''uba'', ''033''), (''guaranty trust bank'', ''058''), (''gtb'', ''058''), (''gtbank'', ''058''),
     (''first bank'', ''011''), (''zenith bank'', ''057''), (''zenith'', ''057''), (''fidelity bank'', ''070''),
     (''union bank'', ''032''), (''stanbic ibtc'', ''221''), (''ecobank'', ''050'')]"

text \<open>Go iterates over a map in no fixed order: the order is an argument here.\<close>

definition map_bank :: "(string \<times> string) list \<Rightarrow> string \<Rightarrow> string option" where
  "map_bank order bankName =
     (let name = to_lower (trim_space bankName)
      in case map_of order name of
           Some code \<Rightarrow> Some code
         | None \<Rightarrow> map_option snd (find (\<lambda>(n, code). has_prefix name n) order))"

definition mapBankNameToCode :: "string \<Rightarrow> string option" where
  "mapBankNameToCode bankName = map_bank bankMap bankName"

definition account_number :: "string \<Rightarrow> string" where
  "account_number n = (if length n > 10 then drop (length n - 10) n else if length n < 10 then pad10 n else n)"

definition salary_reference :: "nat \<Rightarrow> nat \<Rightarrow> string" where
  "salary_reference run emp = ''PAYROLL-'' @ show_nat run @ ''-EMP-'' @ show_nat emp"

definition transfer_request :: "payroll_run \<Rightarrow> payroll_entry \<Rightarrow> single_req option" where
  "transfer_request run en =
     (case pe_Employee en of
        None \<Rightarrow> None
      | Some e \<Rightarrow>
          (case mapBankNameToCode (e_BankName e) of
             None \<Rightarrow> None
           | Some code \<Rightarrow>
               Some \<lparr>rq_Reference = salary_reference (pr_ID run) (pe_EmployeeID en),
                     rq_Amount = show_int (pe_NetPay en), rq_BankCode = code,
                     rq_AccountNumber = account_number (e_BankAccountNumber e), rq_AccountName = e_FullName e,
                     rq_Narration = ''Salary payment for '' @ period_text (pr_Period run), rq_Currency = ''NGN'',
                     rq_PreferredProvider = [], rq_BusinessID = 0, rq_BusinessEmail = []\<rparr>))"

definition buildTransferRequests :: "payroll_run \<Rightarrow> single_req list" where
  "buildTransferRequests run = List.map_filter (transfer_request run) (pr_Entries run)"

text \<open>Employees of entries that were loaded without; a failure to load them is only logged.\<close>

definition attach_employees :: "employee list \<Rightarrow> payroll_entry list \<Rightarrow> payroll_entry list" where
  "attach_employees emps = map (\<lambda>en.
     if pe_Employee en = None then en\<lparr>pe_Employee := find (\<lambda>e. e_ID e = pe_EmployeeID en) emps\<rparr> else en)"

definition batchLoadEmployeesForEntries :: "payroll_run \<Rightarrow> nat \<Rightarrow> world \<Rightarrow> payroll_run \<times> world" where
  "batchLoadEmployeesForEntries run bid w =
     (let missing = map pe_EmployeeID (filter (\<lambda>en. pe_Employee en = None) (pr_Entries run))
      in if missing = [] then (run, w)
         else attempt (employee_FindByIDs missing bid w)
                (\<lambda>_ w. (run, w))
                (\<lambda>emps w. (run\<lparr>pr_Entries := attach_employees emps (pr_Entries run)\<rparr>, w)))"

section \<open>Processing\<close>

definition two_minutes :: int where
  "two_minutes = 2 * 60 * 1000000000"

text \<open>AllVerified of the result, all that the caller uses of it.\<close>

definition verifyTransfersInDatabase :: "nat \<Rightarrow> nat \<Rightarrow> nat \<Rightarrow> world \<Rightarrow> bool \<times> world" where
  "verifyTransfersInDatabase bid runID expected w =
     attempt (transfer_FindByBusinessID bid 1 200 w)
       (\<lambda>_ w. (False, w))
       (\<lambda>(ts, total) w.
          (let (time, w) = now w;
               verified = filter (\<lambda>t. t_CreatedAt t > time - two_minutes \<and> t_Reference t \<noteq> [] \<and>
                            has_prefix (t_Reference t) (''PAYROLL-'' @ show_nat runID @ ''-EMP-'')) ts
           in (length verified \<ge> expected, w)))"

definition salary_batch :: "payroll_run \<Rightarrow> nat \<Rightarrow> bulk_req" where
  "salary_batch run bid =
     \<lparr>bq_BatchReference = ''PAYROLL-RUN-'' @ show_nat (pr_ID run),
      bq_Description = ''Payroll for '' @ period_text (pr_Period run), bq_Currency = ''NGN'',
      bq_MerchantBearsCost = False, bq_Transfers = buildTransferRequests run, bq_BusinessID = bid,
      bq_BusinessEmail = []\<rparr>"

definition conclude_run :: "payroll_run \<Rightarrow> bool \<Rightarrow> world \<Rightarrow> payroll_run \<times> world" where
  "conclude_run run ok w =
     (if ok
      then (let (time, w) = now w
            in (run\<lparr>pr_Status := StatusCompleted, pr_ProcessedAt := Some time,
                    pr_PaymentReference := ''PAYROLL-RUN-'' @ show_nat (pr_ID run)\<rparr>, w))
      else (run\<lparr>pr_Status := StatusFailed\<rparr>, w))"

text \<open>
  What follows the batch. \<^verbatim>\<open>ExecuteBatchTransfer\<close> never returns an error, so the
  branch for one is not modelled.
\<close>

definition finish_processing :: "payroll_service \<Rightarrow> nat \<Rightarrow> payroll_run \<Rightarrow> bulk_resp \<Rightarrow> world \<Rightarrow> payroll_run res \<times> world" where
  "finish_processing s bid run resp w =
     (let n = length (buildTransferRequests run);
          (verified, w) = verifyTransfersInDatabase bid (pr_ID run) n w;
          (run, w) = conclude_run run (bp_SuccessfulTransfers resp = n \<or> verified) w
      in attempt (payroll_Update run w)
           (\<lambda>e w. (Inl (Wrap ''failed to update payroll run: '' e []), w))
           (\<lambda>_ w. (Inr run, if pr_Status run = StatusCompleted \<and> ps_loans s
                            then updateLoanBalances (pr_Entries run) w else w)))"

definition process_loaded :: "payroll_service \<Rightarrow> nat \<Rightarrow> payroll_run \<Rightarrow> world \<Rightarrow> (payroll_run res \<times> world) option" where
  "process_loaded s bid run w =
     (let (run, w) = batchLoadEmployeesForEntries run bid w
      in if buildTransferRequests run = [] then Some (Inl (Plain ''no valid transfers to process''), w)
         else (case ExecuteBatchTransfer (ps_transfers s) bid (salary_batch run bid) w of
                 None \<Rightarrow> None
               | Some (resp, w) \<Rightarrow> Some (finish_processing s bid run resp w)))"

definition ProcessPayrollRunInstantly :: "payroll_service \<Rightarrow> nat \<Rightarrow> nat \<Rightarrow> world \<Rightarrow> (payroll_run res \<times> world) option" where
  "ProcessPayrollRunInstantly s runID bid w =
     attempt (payroll_FindByID runID bid w)
       (\<lambda>e w. Some (Inl (Wrap ''failed to fetch payroll run: '' e []), w))
       (\<lambda>run w.
          if pr_Status run \<noteq> StatusApproved \<and> pr_Status run \<noteq> StatusDraft
          then Some (Inl (Wrap [] (Sentinel ErrValidationFailed) '': can only process approved or draft payroll runs''), w)
          else (let run = run\<lparr>pr_Status := StatusProcessing\<rparr>
                in attempt (payroll_Update run w)
                     (\<lambda>e w. Some (Inl (Wrap ''failed to update payroll run status: '' e []), w))
                     (\<lambda>_ w. process_loaded s bid run w)))"

definition ProcessApprovedPayroll :: "payroll_service \<Rightarrow> nat \<Rightarrow> world \<Rightarrow> (unit res \<times> world) option" where
  "ProcessApprovedPayroll s runID w =
     attempt (payroll_FindByID runID 0 w)
       (\<lambda>e w. Some (Inl (Wrap ''failed to fetch payroll run: '' e []), w))
       (\<lambda>run w.
          if pr_Status run \<noteq> StatusApproved then Some (Inr (), w)
          else (case ProcessPayrollRunInstantly s runID (pr_BusinessID run) w of
                  None \<Rightarrow> None
                | Some (Inl e, w) \<Rightarrow> Some (Inl (Wrap ''failed to process approved payroll: '' e []), w)
                | Some (Inr _, w) \<Rightarrow> Some (Inr (), w)))"

text \<open>\<^verbatim>\<open>processPayrollRunInstantly\<close>, called on a run in memory.\<close>

definition process_run :: "payroll_service \<Rightarrow> payroll_run \<Rightarrow> nat \<Rightarrow> world \<Rightarrow> (payroll_run res \<times> world) option" where
  "process_run s run bid w =
     attempt (payroll_FindByID (pr_ID run) bid w)
       (\<lambda>e w. Some (Inl e, w)) (\<lambda>full w. ProcessPayrollRunInstantly s (pr_ID full) bid w)"

section \<open>Calls by the job queue\<close>

definition GetPayrollRunForDisbursement :: "nat \<Rightarrow> world \<Rightarrow> payroll_run res \<times> world" where
  "GetPayrollRunForDisbursement runID w = payroll_FindByID runID 0 w"

definition UpdateRunStatus :: "nat \<Rightarrow> PayrollStatus \<Rightarrow> world \<Rightarrow> unit res \<times> world" where
  "UpdateRunStatus runID status w =
     attempt (payroll_FindByID runID 0 w) (\<lambda>e w. (Inl e, w)) (\<lambda>run w. payroll_Update (run\<lparr>pr_Status := status\<rparr>) w)"

definition MarkRunAsFailed :: "nat \<Rightarrow> string \<Rightarrow> world \<Rightarrow> unit res \<times> world" where
  "MarkRunAsFailed runID reason w =
     attempt (payroll_FindByID runID 0 w) (\<lambda>e w. (Inl e, w))
       (\<lambda>run w. payroll_Update (run\<lparr>pr_Status := StatusFailed, pr_RejectionReason := reason\<rparr>) w)"

definition MarkRunAsCompleted :: "payroll_service \<Rightarrow> nat \<Rightarrow> string \<Rightarrow> world \<Rightarrow> unit res \<times> world" where
  "MarkRunAsCompleted s runID reference w =
     attempt (payroll_FindByID runID 0 w) (\<lambda>e w. (Inl e, w))
       (\<lambda>run w.
          (let (time, w) = now w;
               run = run\<lparr>pr_Status := StatusCompleted, pr_ProcessedAt := Some time, pr_PaymentReference := reference\<rparr>
           in attempt (payroll_Update run w) (\<lambda>e w. (Inl e, w))
                (\<lambda>_ w. (Inr (), if ps_loans s then updateLoanBalances (pr_Entries run) w else w))))"

text \<open>The queue is an external service: enqueueing appends the run's job, or fails.\<close>

definition SchedulePayout :: "payroll_run \<Rightarrow> world \<Rightarrow> unit res \<times> world" where
  "SchedulePayout run w =
     attempt (statement (\<lambda>w. (Inr (), w\<lparr>scheduled := scheduled w @ [pr_ID run]\<rparr>)) w)
       (\<lambda>e w. (Inl (Wrap (''failed to enqueue payroll job for run '' @ show_nat (pr_ID run) @ '': '') e []), w))
       (\<lambda>_ w. (Inr (), w))"

section \<open>Submission and approval\<close>

definition ListByBusinessID :: "nat \<Rightarrow> world \<Rightarrow> payroll_run list res \<times> world" where
  "ListByBusinessID bid w = payroll_FindByBusinessID bid w"

definition GetByID :: "nat \<Rightarrow> nat \<Rightarrow> world \<Rightarrow> payroll_run res \<times> world" where
  "GetByID runID bid w = payroll_FindByID runID bid w"

definition unverified_names :: "payroll_run \<Rightarrow> string list" where
  "unverified_names run = List.map_filter (\<lambda>en. case pe_Employee en of
       None \<Rightarrow> None | Some e \<Rightarrow> if e_BankAccountVerified e then None else Some (e_FullName e)) (pr_Entries run)"

text \<open>The verification gate, which blocks on paid plans.\<close>

definition gate_error :: "payroll_run \<Rightarrow> business \<Rightarrow> gerror option" where
  "gate_error run b =
     (let names = unverified_names run
      in if names \<noteq> [] \<and> b_SubscriptionTier b \<noteq> PlanFree
         then Some (Wrap [] (Sentinel ErrValidationFailed) ('': '' @ show_nat (length names) @
                '' employees have unverified bank accounts: '' @ join '', '' names))
         else None)"

definition save_submitted :: "payroll_run \<Rightarrow> world \<Rightarrow> (payroll_run res \<times> world) option" where
  "save_submitted run w =
     attempt (payroll_Update run w)
       (\<lambda>e w. Some (Inl (Wrap ''failed to update payroll run status: '' e []), w)) (\<lambda>_ w. Some (Inr run, w))"

definition submit_run :: "payroll_service \<Rightarrow> nat \<Rightarrow> business \<Rightarrow> payroll_run \<Rightarrow> world \<Rightarrow> (payroll_run res \<times> world) option" where
  "submit_run s bid b run w =
     (let (run, w) = batchLoadEmployeesForEntries run bid w
      in case gate_error run b of
           Some e \<Rightarrow> Some (Inl e, w)
         | None \<Rightarrow>
             if b_PayrollRequiresApproval b then save_submitted (run\<lparr>pr_Status := StatusPendingApproval\<rparr>) w
             else (let run = run\<lparr>pr_Status := StatusApproved\<rparr>
                   in if b_PayrollAutoProcess b then process_run s run bid w
                      else attempt (SchedulePayout run w)
                             (\<lambda>e w. Some (Inl (Wrap ''failed to schedule payout: '' e []), w))
                             (\<lambda>_ w. save_submitted run w)))"

definition SubmitForApproval :: "payroll_service \<Rightarrow> nat \<Rightarrow> nat \<Rightarrow> world \<Rightarrow> (payroll_run res \<times> world) option" where
  "SubmitForApproval s runID userID w =
     attempt (user_FindByID userID w)
       (\<lambda>e w. Some (Inl (Wrap ''failed to fetch user: '' e []), w))
       (\<lambda>u w. attempt (payroll_FindByID runID (u_BusinessID u) w)
         (\<lambda>e w. Some (Inl (Wrap ''failed to fetch payroll run: '' e []), w))
         (\<lambda>run w.
            if pr_Status run \<noteq> StatusDraft
            then Some (Inl (Wrap [] (Sentinel ErrValidationFailed) '': cannot submit non-draft run''), w)
            else attempt (business_FindByID (u_BusinessID u) w)
                   (\<lambda>e w. Some (Inl (Wrap ''failed to fetch business: '' e []), w))
                   (\<lambda>b w. submit_run s (u_BusinessID u) b run w)))"

definition approve_run :: "payroll_service \<Rightarrow> nat \<Rightarrow> business \<Rightarrow> payroll_run \<Rightarrow> world \<Rightarrow> (payroll_run res \<times> world) option" where
  "approve_run s bid b run w =
     (let run = run\<lparr>pr_Status := StatusApproved\<rparr>
      in attempt (payroll_Update run w)
           (\<lambda>e w. Some (Inl e, w))
           (\<lambda>_ w.
              if b_PayrollAutoProcess b then process_run s run bid w
              else attempt (SchedulePayout run w)
                     (\<lambda>e w. (let (_, w) = payroll_Update (run\<lparr>pr_Status := StatusPendingApproval\<rparr>) w
                             in Some (Inl (Wrap ''could not schedule payout job: '' e []), w)))
                     (\<lambda>_ w. Some (Inr run, w))))"

definition ApprovePayrollRun :: "payroll_service \<Rightarrow> nat \<Rightarrow> nat \<Rightarrow> world \<Rightarrow> (payroll_run res \<times> world) option" where
  "ApprovePayrollRun s runID approverID w =
     attempt (user_FindByID approverID w)
       (\<lambda>e w. Some (Inl (Wrap ''failed to fetch approver: '' e []), w))
       (\<lambda>u w. attempt (payroll_FindByID runID (u_BusinessID u) w)
         (\<lambda>e w. Some (Inl (Wrap ''failed to fetch payroll run: '' e []), w))
         (\<lambda>run w.
            if pr_Status run \<noteq> StatusPendingApproval then Some (Inl (Sentinel ErrValidationFailed), w)
            else attempt (business_FindByID (u_BusinessID u) w)
                   (\<lambda>e w. Some (Inl (Wrap ''failed to fetch business: '' e []), w))
                   (\<lambda>b w. approve_run s (u_BusinessID u) b run w)))"

text \<open>The operators are read for the e-mail; the result of that read does not matter.\<close>

definition RejectPayrollRun :: "nat \<Rightarrow> nat \<Rightarrow> string \<Rightarrow> world \<Rightarrow> payroll_run res \<times> world" where
  "RejectPayrollRun runID rejecterID reason w =
     (if reason = [] then (Inl (Wrap [] (Sentinel ErrValidationFailed) '': rejection requires a reason''), w)
      else attempt (user_FindByID rejecterID w)
        (\<lambda>_ w. (Inl (Sentinel ErrInternalServer), w))
        (\<lambda>u w. attempt (payroll_FindByID runID (u_BusinessID u) w)
          (\<lambda>e w. (Inl e, w))
          (\<lambda>run w.
             if pr_Status run \<noteq> StatusPendingApproval
             then (Inl (Wrap [] (Sentinel ErrValidationFailed) ('': cannot reject a payroll run with status '' @
                     [CHR 0x27] @ status_text (pr_Status run) @ [CHR 0x27])), w)
             else if u_BusinessID u \<noteq> pr_BusinessID run then (Inl (Sentinel ErrForbidden), w)
             else (let run = run\<lparr>pr_Status := StatusRejected, pr_RejectionReason := reason\<rparr>; (_, w) = now w
                   in attempt (payroll_Update run w)
                        (\<lambda>e w. (Inl e, w))
                        (\<lambda>_ w. (let (_, w) = user_FindByBusinessID (pr_BusinessID run) w in (Inr run, w)))))))"

definition amended :: "payroll_run \<Rightarrow> payroll_run \<Rightarrow> payroll_run" where
  "amended run new = run\<lparr>pr_TotalGrossPay := pr_TotalGrossPay new, pr_TotalDeductions := pr_TotalDeductions new,
     pr_TotalNetPay := pr_TotalNetPay new, pr_TotalEmployerCosts := pr_TotalEmployerCosts new,
     pr_TotalCostToCompany := pr_TotalCostToCompany new, pr_Entries := pr_Entries new\<rparr>"

definition AmendPayrollRun ::
  "payroll_service \<Rightarrow> nat \<Rightarrow> nat \<Rightarrow> (nat \<Rightarrow> adjustment list) \<Rightarrow> world \<Rightarrow> payroll_run res \<times> world" where
  "AmendPayrollRun s runID bid adjs w =
     attempt (payroll_FindByID runID bid w)
       (\<lambda>e w. (Inl (Wrap ''failed to fetch payroll run: '' e []), w))
       (\<lambda>run w.
          if pr_Status run \<noteq> StatusDraft
          then (Inl (Wrap [] (Sentinel ErrValidationFailed) ('': can only amend draft payroll runs (current status: '' @
                  status_text (pr_Status run) @ '')'')), w)
          else attempt (CalculatePayrollRun (ps_loans s) bid (pr_Period run) adjs w)
                 (\<lambda>e w. (Inl (Wrap ''failed to recalculate payroll: '' e []), w))
                 (\<lambda>new w.
                    (let run = amended run new; (_, w) = now w
                     in attempt (payroll_Update run w)
                          (\<lambda>e w. (Inl (Wrap ''failed to save amended payroll: '' e []), w))
                          (\<lambda>_ w. (Inr run, w)))))"

definition ReversePayrollRun :: "nat \<Rightarrow> nat \<Rightarrow> string \<Rightarrow> world \<Rightarrow> payroll_run res \<times> world" where
  "ReversePayrollRun runID userID reason w =
     (if reason = [] then (Inl (Wrap [] (Sentinel ErrValidationFailed) '': reversal requires a reason''), w)
      else attempt (user_FindByID userID w)
        (\<lambda>e w. (Inl (Wrap ''failed to fetch user: '' e []), w))
        (\<lambda>u w. attempt (payroll_FindByID runID (u_BusinessID u) w)
          (\<lambda>e w. (Inl (Wrap ''failed to fetch payroll run: '' e []), w))
          (\<lambda>run w.
             if pr_Status run \<noteq> StatusCompleted
             then (Inl (Wrap [] (Sentinel ErrValidationFailed) '': can only reverse completed payroll runs''), w)
             else (let run = run\<lparr>pr_Status := StatusRejected, pr_RejectionReason := ''REVERSED: '' @ reason\<rparr>;
                       (_, w) = now w
                   in attempt (payroll_Update run w)
                        (\<lambda>e w. (Inl (Wrap ''failed to save reversed payroll: '' e []), w))
                        (\<lambda>_ w. (Inr run, w))))))"

section \<open>Invariants of the tables\<close>

context payment_invariant
begin

lemma batchLoad_keeps: "I w \<Longrightarrow> I (snd (batchLoadEmployeesForEntries run bid w))"
  unfolding batchLoadEmployeesForEntries_def Let_def by (auto intro!: results)

lemma verify_keeps: "I w \<Longrightarrow> I (snd (verifyTransfersInDatabase bid i n w))"
  unfolding verifyTransfersInDatabase_def Let_def by (auto intro!: results split: prod.splits)

end

context loan_invariant
begin

lemma conclude_keeps: "I w \<Longrightarrow> I (snd (conclude_run run ok w))"
  unfolding conclude_run_def Let_def by (auto intro!: run_results)

lemma finish_keeps: "I w \<Longrightarrow> I (snd (finish_processing s bid run resp w))"
  unfolding finish_processing_def Let_def
  by (auto intro!: run_results verify_keeps conclude_keeps inv_repay)

lemma SchedulePayout_keeps: "I w \<Longrightarrow> I (snd (SchedulePayout run w))"
proof -
  assume "I w"
  have "keeps I (statement (\<lambda>w. (Inr () :: unit res, w\<lparr>scheduled := scheduled w @ [pr_ID run]\<rparr>)))"
    by (rule statement_keeps) (simp add: keeps_def inv_scheduled)
  from keepsD [OF this \<open>I w\<close>] show ?thesis
    unfolding SchedulePayout_def by (rule keeps_attempt) simp_all
qed

end

section \<open>Outcomes of operations that may not return\<close>

definition opost :: "('a \<Rightarrow> world \<Rightarrow> bool) \<Rightarrow> ('a \<times> world) option \<Rightarrow> bool" where
  "opost Q r \<longleftrightarrow> (\<forall>y. r = Some y \<longrightarrow> post Q y)"

named_theorems ow

lemma opost_None [simp]: "opost Q None"
  by (simp add: opost_def)

lemma opost_Some [simp]: "opost Q (Some y) = post Q y"
  by (simp add: opost_def)

lemma opostD: "opost Q r \<Longrightarrow> r = Some (x, w) \<Longrightarrow> Q x w"
  by (simp add: opost_def)

lemma opost_mono: "opost P r \<Longrightarrow> (\<And>x w. P x w \<Longrightarrow> Q x w) \<Longrightarrow> opost Q r"
  by (auto simp: opost_def post_def)

lemma opost_attempt [ow]:
  "post (\<lambda>r w. (\<forall>e. r = Inl e \<longrightarrow> opost Q (h e w)) \<and> (\<forall>x. r = Inr x \<longrightarrow> opost Q (k x w))) r \<Longrightarrow>
   opost Q (attempt r h k)"
  by (cases r; cases "fst r") (auto simp: post_def)

lemma opost_case [ow]: "post (\<lambda>x w. opost Q (k x w)) r \<Longrightarrow> opost Q (case r of (x, w) \<Rightarrow> k x w)"
  by (cases r) simp

lemma opost_if [ow]: "(c \<Longrightarrow> opost Q a) \<Longrightarrow> (\<not> c \<Longrightarrow> opost Q b) \<Longrightarrow> opost Q (if c then a else b)"
  by simp

lemma opost_option [ow]:
  "(x = None \<Longrightarrow> opost Q f) \<Longrightarrow> (\<And>y. x = Some y \<Longrightarrow> opost Q (g y)) \<Longrightarrow>
   opost Q (case x of None \<Rightarrow> f | Some y \<Rightarrow> g y)"
  by (cases x) simp_all

lemma opost_bind [ow]:
  "opost (\<lambda>x w. post Q (k x w)) r \<Longrightarrow> opost Q (case r of None \<Rightarrow> None | Some (x, w) \<Rightarrow> Some (k x w))"
  by (auto simp: opost_def post_def split: option.splits prod.splits)

section \<open>The life of a run\<close>

text \<open>The status and the business of each run.\<close>

definition life :: "world \<Rightarrow> nat \<Rightarrow> (PayrollStatus \<times> nat) option" where
  "life w = map_of (map (\<lambda>r. (pr_ID r, pr_Status r, pr_BusinessID r)) (runs w))"

inductive status_step :: "PayrollStatus \<Rightarrow> PayrollStatus \<Rightarrow> bool" where
  submit: "status_step StatusDraft StatusPendingApproval"
| auto_approve: "status_step StatusDraft StatusApproved"
| process_draft: "status_step StatusDraft StatusProcessing"
| approve: "status_step StatusPendingApproval StatusApproved"
| reject: "status_step StatusPendingApproval StatusRejected"
| unschedule: "status_step StatusApproved StatusPendingApproval"
| process: "status_step StatusApproved StatusProcessing"
| complete: "status_step StatusProcessing StatusCompleted"
| fail: "status_step StatusProcessing StatusFailed"
| reverse: "status_step StatusCompleted StatusRejected"

inductive_simps status_step_simps: "status_step x y"

text \<open>
  No run disappears or changes its business, the status of each has moved along the life
  cycle, and that of a new one has done so from draft.
\<close>

definition origin :: "world \<Rightarrow> nat \<Rightarrow> PayrollStatus" where
  "origin w i = (case life w i of None \<Rightarrow> StatusDraft | Some (s, b) \<Rightarrow> s)"

definition follows :: "world \<Rightarrow> world \<Rightarrow> bool" where
  "follows w w' \<longleftrightarrow> (\<forall>i s b. life w i = Some (s, b) \<longrightarrow> (\<exists>s'. life w' i = Some (s', b))) \<and>
     (\<forall>i s b. life w' i = Some (s, b) \<longrightarrow> status_step\<^sup>*\<^sup>* (origin w i) s)"

lemma follows_refl [simp]: "follows w w"
  by (auto simp: follows_def origin_def)

lemma life_frame: "runs w' = runs w \<Longrightarrow> life w' = life w"
  by (simp add: life_def)

lemma follows_frame: "runs w' = runs w \<Longrightarrow> follows v w' = follows v w"
  by (simp add: follows_def life_def)

lemma map_of_update_runs:
  "map_of (map (\<lambda>r. (pr_ID r, pr_Status r, pr_BusinessID r))
     (map (\<lambda>u. if pr_ID u = pr_ID r then merge_run n r u else u) rs)) i =
   (if i = pr_ID r then map_option (\<lambda>_. (pr_Status r, pr_BusinessID r)) (map_of (map (\<lambda>r. (pr_ID r, pr_Status r, pr_BusinessID r)) rs) i)
    else map_of (map (\<lambda>r. (pr_ID r, pr_Status r, pr_BusinessID r)) rs) i)"
  by (induction rs) (auto simp: merge_run_def)

lemma life_update:
  "life (w\<lparr>runs := map (\<lambda>u. if pr_ID u = pr_ID r then merge_run n r u else u) (runs w)\<rparr>) =
   (\<lambda>i. if i = pr_ID r then map_option (\<lambda>_. (pr_Status r, pr_BusinessID r)) (life w i) else life w i)"
  by (rule ext) (simp add: life_def map_of_update_runs del: map_map)

text \<open>
  \<open>on_track v w\<close>: since \<open>v\<close> every run has followed the life cycle. \<open>stands i s b v w\<close>:
  besides, run \<open>i\<close> of business \<open>b\<close> now has status \<open>s\<close>.
\<close>

definition runs_numbered :: "world \<Rightarrow> bool" where
  "runs_numbered w \<longleftrightarrow> map pr_ID (runs w) = [1..<Suc (length (runs w))]"

definition on_track :: "world \<Rightarrow> world \<Rightarrow> bool" where
  "on_track v w \<longleftrightarrow> follows v w \<and> runs_numbered w"

definition stands :: "nat \<Rightarrow> PayrollStatus \<Rightarrow> nat \<Rightarrow> world \<Rightarrow> world \<Rightarrow> bool" where
  "stands i s b v w \<longleftrightarrow> on_track v w \<and> life w i = Some (s, b)"

lemma on_track_frame: "runs w' = runs w \<Longrightarrow> on_track v w' = on_track v w"
  by (simp add: on_track_def follows_def life_def runs_numbered_def)

lemma stands_frame: "runs w' = runs w \<Longrightarrow> stands i s b v w' = stands i s b v w"
  by (simp add: stands_def on_track_def follows_def life_def runs_numbered_def)

lemma track_frames [simp]:
  "on_track v (w\<lparr>faults := fs\<rparr>) = on_track v w" "on_track v (w\<lparr>tick := n\<rparr>) = on_track v w"
  "on_track v (w\<lparr>scheduled := js\<rparr>) = on_track v w"
  "stands i s b v (w\<lparr>faults := fs\<rparr>) = stands i s b v w" "stands i s b v (w\<lparr>tick := n\<rparr>) = stands i s b v w"
  "stands i s b v (w\<lparr>scheduled := js\<rparr>) = stands i s b v w"
  by (simp_all add: on_track_def stands_def follows_def life_def runs_numbered_def)

lemma stands_on_track: "stands i s b v w \<Longrightarrow> on_track v w"
  by (simp add: stands_def)

lemma stands_update:
  assumes "stands (pr_ID r) s (pr_BusinessID r) v w" and "status_step\<^sup>*\<^sup>* s (pr_Status r)"
  shows "stands (pr_ID r) (pr_Status r) (pr_BusinessID r) v
    (w\<lparr>runs := map (\<lambda>u. if pr_ID u = pr_ID r then merge_run n r u else u) (runs w)\<rparr>)"
proof -
  let ?w = "w\<lparr>runs := map (\<lambda>u. if pr_ID u = pr_ID r then merge_run n r u else u) (runs w)\<rparr>"
  have now: "life w (pr_ID r) = Some (s, pr_BusinessID r)" and ids: "runs_numbered w"
    and stay: "\<And>i s b. life v i = Some (s, b) \<Longrightarrow> \<exists>s'. life w i = Some (s', b)"
    and path: "\<And>i s b. life w i = Some (s, b) \<Longrightarrow> status_step\<^sup>*\<^sup>* (origin v i) s"
    using assms(1) by (auto simp: stands_def on_track_def follows_def)
  have life: "life ?w i = (if i = pr_ID r then Some (pr_Status r, pr_BusinessID r) else life w i)" for i
    by (simp add: life_update now)
  have "map pr_ID (runs ?w) = map pr_ID (runs w)"
    by (simp add: merge_run_def cong: if_cong)
  then have ids': "runs_numbered ?w" using ids unfolding runs_numbered_def by (simp only:) simp
  have "\<exists>s'. life ?w i = Some (s', b)" if "life v i = Some (t, b)" for i t b
    using stay [OF that] now by (cases "i = pr_ID r") (simp_all only: life if_True if_False, auto)
  moreover have "status_step\<^sup>*\<^sup>* (origin v i) t" if "life ?w i = Some (t, b)" for i t b
  proof (cases "i = pr_ID r")
    case True
    then have "t = pr_Status r" using that by (simp only: life if_True) simp
    then show ?thesis using path [OF now] assms(2) True by (simp add: rtranclp_trans)
  next
    case False
    then show ?thesis using that path by (simp only: life if_False)
  qed
  moreover have "life ?w (pr_ID r) = Some (pr_Status r, pr_BusinessID r)"
    by (simp only: life simp_thms if_True)
  ultimately show ?thesis
    unfolding stands_def on_track_def follows_def using ids' by (intro conjI allI impI) assumption+
qed

lemma runs_payments:
  "ExecuteBatchTransfer s bid req w = Some (resp, w') \<Longrightarrow> runs w' = runs w \<and> loans w' = loans w"
  "runs (snd (verifyTransfersInDatabase bid i n w)) = runs w \<and> loans (snd (verifyTransfersInDatabase bid i n w)) = loans w"
  "runs (snd (batchLoadEmployeesForEntries run bid w)) = runs w \<and> loans (snd (batchLoadEmployeesForEntries run bid w)) = loans w"
  "runs (snd (CalculatePayrollRun lr bid period adjs w)) = runs w"
  using payroll_frame.ExecuteBatchTransfer_keeps [of s bid req w "(resp, w')" "runs w" "loans w" "scheduled w"]
    payroll_frame.verify_keeps [of w "runs w" "loans w" "scheduled w" bid i n]
    payroll_frame.batchLoad_keeps [of w "runs w" "loans w" "scheduled w" run bid]
    payroll_frame.CalculatePayrollRun_keeps [of w "runs w" "loans w" "scheduled w" lr bid period adjs]
  by simp_all

lemma runs_loan_Update [simp]: "runs (snd (loan_Update l w)) = runs w"
  using wp_loan_Update [of "\<lambda>_ w'. runs w' = runs w" w l] by (simp add: post_def)

lemma runs_repay_loans [simp]: "runs (repay_loans ls w) = runs w"
  by (induction ls arbitrary: w) simp_all

lemma runs_updateLoanBalances [simp]: "runs (updateLoanBalances ens w) = runs w"
proof (induction ens arbitrary: w)
  case (Cons en ens)
  have "runs (snd (loan_FindActiveByEmployeeID (pe_EmployeeID en) w)) = runs w"
    using wp_lists(3) [of "\<lambda>_ w'. runs w' = runs w" w "pe_EmployeeID en"] by (simp add: post_def)
  then show ?case using Cons by (cases "pe_Employee en") (auto split: attempt_split)
qed simp

lemma preload_fields [simp]:
  "pr_ID (preload w r) = pr_ID r" "pr_Status (preload w r) = pr_Status r"
  "pr_BusinessID (preload w r) = pr_BusinessID r"
  by (simp_all add: preload_def)

lemma runs_numbered_distinct: "runs_numbered w \<Longrightarrow> distinct (map pr_ID (runs w))"
  by (simp add: runs_numbered_def del: upt_Suc)

lemma track_find:
  assumes "on_track v w" and "\<And>e fs. Q (Inl e) (w\<lparr>faults := fs\<rparr>)"
    and "\<And>run fs. stands i (pr_Status run) (pr_BusinessID run) v w \<Longrightarrow> pr_ID run = i \<Longrightarrow>
           (bid \<noteq> 0 \<longrightarrow> pr_BusinessID run = bid) \<Longrightarrow> Q (Inr run) (w\<lparr>faults := fs\<rparr>)"
  shows "post Q (payroll_FindByID i bid w)"
proof (rule wp_finders(1))
  show "Q (Inl e) (w\<lparr>faults := fs\<rparr>)" for e fs by (rule assms(2))
  fix r fs assume r: "r \<in> set (runs w)" "pr_ID r = i \<and> (0 < bid \<longrightarrow> pr_BusinessID r = bid)"
  have "life w i = Some (pr_Status r, pr_BusinessID r)"
    using assms(1) r by (auto simp: on_track_def life_def comp_def dest!: runs_numbered_distinct intro!: map_of_is_SomeI)
  then show "Q (Inr (preload w r)) (w\<lparr>faults := fs\<rparr>)"
    using assms(1) r by (intro assms(3)) (simp_all add: stands_def life_def)
qed

lemma track_update:
  assumes "stands (pr_ID r) s (pr_BusinessID r) v w" "status_step\<^sup>*\<^sup>* s (pr_Status r)"
    and "\<And>e fs. Q (Inl e) (w\<lparr>faults := fs\<rparr>)"
    and "\<And>w'. stands (pr_ID r) (pr_Status r) (pr_BusinessID r) v w' \<Longrightarrow> calls w' = calls w \<Longrightarrow> Q (Inr ()) w'"
  shows "post Q (payroll_Update r w)"
proof (rule wp_payroll_Update)
  show "Q (Inl e) (w\<lparr>faults := fs\<rparr>)" for e fs by (rule assms(3))
  fix fs
  have "stands (pr_ID r) s (pr_BusinessID r) v (w\<lparr>faults := fs\<rparr>)"
    using assms(1) by simp
  from stands_update [OF this assms(2), of "entry_count w"]
  show "Q (Inr ()) (w\<lparr>faults := fs, runs :=
      map (\<lambda>u. if pr_ID u = pr_ID r then merge_run (entry_count w) r u else u) (runs w)\<rparr>)"
    by (intro assms(4)) simp_all
qed

lemma post_frame:
  "stands i s b v w \<Longrightarrow> runs (snd r) = runs w \<Longrightarrow> (\<And>x w'. stands i s b v w' \<Longrightarrow> Q x w') \<Longrightarrow> post Q r"
  unfolding post_def by (blast dest: stands_frame [THEN iffD2])

lemma stands_updateLoanBalances [simp]: "stands i s b v (updateLoanBalances ens w) = stands i s b v w"
  by (rule stands_frame) simp

text \<open>Whoever pays a run has found it approved or in draft, and leaves it past that.\<close>

abbreviation payable_status :: "PayrollStatus \<Rightarrow> bool" where
  "payable_status s \<equiv> s = StatusApproved \<or> s = StatusDraft"

abbreviation settled_status :: "PayrollStatus \<Rightarrow> bool" where
  "settled_status s \<equiv> s = StatusProcessing \<or> s = StatusCompleted \<or> s = StatusFailed"

lemma conclude_track:
  "stands i st b v w \<Longrightarrow> post (\<lambda>run' w'. stands i st b v w' \<and> calls w' = calls w \<and> pr_ID run' = pr_ID run \<and>
     pr_BusinessID run' = pr_BusinessID run \<and> (pr_Status run' = StatusCompleted \<or> pr_Status run' = StatusFailed))
   (conclude_run run ok w)"
  by (auto simp: conclude_run_def now_def)

lemma finish_track:
  assumes "stands (pr_ID run) StatusProcessing (pr_BusinessID run) v w"
  shows "post (\<lambda>_ w'. \<exists>s. settled_status s \<and> stands (pr_ID run) s (pr_BusinessID run) v w')
    (finish_processing s bid run resp w)"
  unfolding finish_processing_def Let_def
proof (rule wp_case, rule post_frame [OF assms])
  show "runs (snd (verifyTransfersInDatabase bid (pr_ID run) n w)) = runs w" for n
    by (simp add: runs_payments)
  fix ok w1 assume w1: "stands (pr_ID run) StatusProcessing (pr_BusinessID run) v w1"
  have step: "status_step\<^sup>*\<^sup>* StatusProcessing t" if "t = StatusCompleted \<or> t = StatusFailed" for t
    using that status_step.complete status_step.fail by blast
  show "post (\<lambda>_ w'. \<exists>s. settled_status s \<and> stands (pr_ID run) s (pr_BusinessID run) v w')
    (case conclude_run run (bp_SuccessfulTransfers resp = length (buildTransferRequests run) \<or> ok) w1 of
       (run, w) \<Rightarrow> attempt (payroll_Update run w)
           (\<lambda>e w. (Inl (Wrap ''failed to update payroll run: '' e []), w))
           (\<lambda>_ w. (Inr run, if pr_Status run = StatusCompleted \<and> ps_loans s
                            then updateLoanBalances (pr_Entries run) w else w)))"
    apply (rule wp_case, rule post_mono, rule conclude_track [OF w1])
    apply (rule wp_attempt, rule track_update [where s = StatusProcessing])
    using step by auto
qed

lemma attach_fields [simp]:
  "pr_ID (fst (batchLoadEmployeesForEntries run bid w)) = pr_ID run"
  "pr_BusinessID (fst (batchLoadEmployeesForEntries run bid w)) = pr_BusinessID run"
  "pr_Status (fst (batchLoadEmployeesForEntries run bid w)) = pr_Status run"
  unfolding batchLoadEmployeesForEntries_def Let_def by (auto split: attempt_split)

lemma process_loaded_track:
  assumes "stands (pr_ID run) StatusProcessing (pr_BusinessID run) v w"
  shows "opost (\<lambda>_ w'. \<exists>st. settled_status st \<and> stands (pr_ID run) st (pr_BusinessID run) v w')
    (process_loaded s bid run w)"
proof -
  obtain run' w1 where load: "batchLoadEmployeesForEntries run bid w = (run', w1)" by fastforce
  have run': "pr_ID run' = pr_ID run" "pr_BusinessID run' = pr_BusinessID run"
    using attach_fields [of run bid w] load by simp_all
  have w1: "stands (pr_ID run') StatusProcessing (pr_BusinessID run') v w1"
    using assms runs_payments(3) [of run bid w] stands_frame [of w1 w] by (simp add: load run')
  show ?thesis
  proof (cases "ExecuteBatchTransfer (ps_transfers s) bid (salary_batch run' bid) w1")
    case None
    then show ?thesis using w1 by (auto simp: process_loaded_def load run' intro: exI)
  next
    case (Some y)
    obtain resp w2 where y: "y = (resp, w2)" by fastforce
    have "runs w2 = runs w1" using runs_payments(1) [OF Some [unfolded y]] by simp
    then have "stands (pr_ID run') StatusProcessing (pr_BusinessID run') v w2"
      using w1 stands_frame by blast
    from finish_track [OF this, of s bid resp]
    show ?thesis using w1 by (auto simp: process_loaded_def load Some y run' intro: exI)
  qed
qed

definition paid_now :: "nat \<Rightarrow> nat \<Rightarrow> world \<Rightarrow> world \<Rightarrow> bool" where
  "paid_now i bid w w' \<longleftrightarrow> (\<exists>st b st'. life w i = Some (st, b) \<and> payable_status st \<and> (bid \<noteq> 0 \<longrightarrow> b = bid) \<and>
     settled_status st' \<and> life w' i = Some (st', b))"

lemma life_faults [simp]: "life (w\<lparr>faults := fs\<rparr>) = life w"
  by (simp add: life_def)

lemma step_processing: "payable_status st \<Longrightarrow> status_step\<^sup>*\<^sup>* st StatusProcessing"
  using status_step.process status_step.process_draft by blast

lemma opost_find:
  assumes "on_track v w" and "\<And>e fs. opost Q (h e (w\<lparr>faults := fs\<rparr>))"
    and "\<And>run fs. stands i (pr_Status run) (pr_BusinessID run) v w \<Longrightarrow> pr_ID run = i \<Longrightarrow>
           (bid \<noteq> 0 \<longrightarrow> pr_BusinessID run = bid) \<Longrightarrow> opost Q (k run (w\<lparr>faults := fs\<rparr>))"
  shows "opost Q (attempt (payroll_FindByID i bid w) h k)"
  using assms by (intro opost_attempt track_find) simp_all

lemma opost_update:
  assumes "stands (pr_ID r) s (pr_BusinessID r) v w" "status_step\<^sup>*\<^sup>* s (pr_Status r)"
    and "\<And>e fs. opost Q (h e (w\<lparr>faults := fs\<rparr>))"
    and "\<And>w'. stands (pr_ID r) (pr_Status r) (pr_BusinessID r) v w' \<Longrightarrow> calls w' = calls w \<Longrightarrow> opost Q (k () w')"
  shows "opost Q (attempt (payroll_Update r w) h k)"
  using assms by (intro opost_attempt track_update [OF assms(1,2)]) simp_all

lemma process_track:
  assumes "on_track v w"
  shows "opost (\<lambda>_ w'. on_track v w' \<and> (calls w' = calls w \<or> paid_now i bid w w')) (ProcessPayrollRunInstantly s i bid w)"
    (is "opost ?Q _")
  unfolding ProcessPayrollRunInstantly_def Let_def
proof (rule opost_find [OF assms])
  fix run :: payroll_run and fs
  assume run: "stands i (pr_Status run) (pr_BusinessID run) v w" "pr_ID run = i" "bid \<noteq> 0 \<longrightarrow> pr_BusinessID run = bid"
  let ?run = "run\<lparr>pr_Status := StatusProcessing\<rparr>"
  have "opost ?Q (attempt (payroll_Update ?run (w\<lparr>faults := fs\<rparr>))
      (\<lambda>e w. Some (Inl (Wrap ''failed to update payroll run status: '' e []), w)) (\<lambda>_ w. process_loaded s bid ?run w))"
    if st: "payable_status (pr_Status run)"
  proof (rule opost_update [where s = "pr_Status run" and v = v])
    fix w1 assume "stands (pr_ID ?run) (pr_Status ?run) (pr_BusinessID ?run) v w1"
    then have w1: "stands (pr_ID ?run) StatusProcessing (pr_BusinessID ?run) v w1" by simp
    from process_loaded_track [OF this, of s bid] show "opost ?Q (process_loaded s bid ?run w1)"
      by (rule opost_mono) (use run st in \<open>auto simp: paid_now_def stands_def\<close>)
  qed (use run st assms step_processing in auto)
  then show "opost ?Q
      (if pr_Status run \<noteq> StatusApproved \<and> pr_Status run \<noteq> StatusDraft
       then Some (Inl (Wrap [] (Sentinel ErrValidationFailed) '': can only process approved or draft payroll runs''), w\<lparr>faults := fs\<rparr>)
       else attempt (payroll_Update ?run (w\<lparr>faults := fs\<rparr>))
         (\<lambda>e w. Some (Inl (Wrap ''failed to update payroll run status: '' e []), w)) (\<lambda>_ w. process_loaded s bid ?run w))"
    using assms by simp
qed (use assms in simp)

lemma process_on_track: "on_track v w \<Longrightarrow> opost (\<lambda>_. on_track v) (ProcessPayrollRunInstantly s i bid w)"
  by (rule opost_mono, rule process_track) blast+

lemma approved_on_track: "on_track v w \<Longrightarrow> opost (\<lambda>_. on_track v) (ProcessApprovedPayroll s i w)"
  unfolding ProcessApprovedPayroll_def
proof (rule opost_find)
  fix run :: payroll_run and fs
  assume "stands i (pr_Status run) (pr_BusinessID run) v w"
  then have "on_track v (w\<lparr>faults := fs\<rparr>)" by (simp add: stands_on_track)
  from process_on_track [OF this, of s i "pr_BusinessID run"] this
  show "opost (\<lambda>_. on_track v)
      (if pr_Status run \<noteq> StatusApproved then Some (Inr (), w\<lparr>faults := fs\<rparr>)
       else case ProcessPayrollRunInstantly s i (pr_BusinessID run) (w\<lparr>faults := fs\<rparr>) of None \<Rightarrow> None
            | Some (Inl e, w) \<Rightarrow> Some (Inl (Wrap ''failed to process approved payroll: '' e []), w)
            | Some (Inr _, w) \<Rightarrow> Some (Inr (), w))"
    by (auto simp: opost_def post_def split: option.splits sum.splits)
qed simp_all

lemma process_run_on_track: "on_track v w \<Longrightarrow> opost (\<lambda>_. on_track v) (process_run s run bid w)"
  unfolding process_run_def by (rule opost_find) (simp_all add: process_on_track stands_on_track)

lemma post_find:
  assumes "on_track v w" and "\<And>e fs. post Q (h e (w\<lparr>faults := fs\<rparr>))"
    and "\<And>run fs. stands i (pr_Status run) (pr_BusinessID run) v w \<Longrightarrow> pr_ID run = i \<Longrightarrow>
           (bid \<noteq> 0 \<longrightarrow> pr_BusinessID run = bid) \<Longrightarrow> post Q (k run (w\<lparr>faults := fs\<rparr>))"
  shows "post Q (attempt (payroll_FindByID i bid w) h k)"
  using assms by (intro wp_attempt track_find) simp_all

lemma post_update:
  assumes "stands (pr_ID r) s (pr_BusinessID r) v w" "status_step\<^sup>*\<^sup>* s (pr_Status r)"
    and "\<And>e fs. post Q (h e (w\<lparr>faults := fs\<rparr>))"
    and "\<And>w'. stands (pr_ID r) (pr_Status r) (pr_BusinessID r) v w' \<Longrightarrow> calls w' = calls w \<Longrightarrow> post Q (k () w')"
  shows "post Q (attempt (payroll_Update r w) h k)"
  using assms by (intro wp_attempt track_update [OF assms(1,2)]) simp_all

lemma SchedulePayout_runs:
  "post (\<lambda>_ w'. (stands i st b v w' = stands i st b v w) \<and> on_track v w' = on_track v w \<and> calls w' = calls w) (SchedulePayout run w)"
  unfolding SchedulePayout_def by (auto intro!: wp_attempt wp_statement)

lemma step_once: "status_step s t \<Longrightarrow> status_step\<^sup>*\<^sup>* s t"
  by blast

lemmas steps_once = status_step.intros [THEN step_once]

lemma save_on_track:
  "stands (pr_ID run) s (pr_BusinessID run) v w \<Longrightarrow> status_step\<^sup>*\<^sup>* s (pr_Status run) \<Longrightarrow>
   opost (\<lambda>_. on_track v) (save_submitted run w)"
  unfolding save_submitted_def by (rule opost_update) (auto simp: stands_on_track)

lemma submit_on_track:
  assumes "stands (pr_ID run) StatusDraft (pr_BusinessID run) v w"
  shows "opost (\<lambda>_. on_track v) (submit_run s bid b run w)"
proof -
  obtain run' w1 where load: "batchLoadEmployeesForEntries run bid w = (run', w1)" by fastforce
  have run': "pr_ID run' = pr_ID run" "pr_BusinessID run' = pr_BusinessID run"
    using attach_fields [of run bid w] load by simp_all
  have w1: "stands (pr_ID run) StatusDraft (pr_BusinessID run) v w1"
    using assms runs_payments(3) [of run bid w] stands_frame [of w1 w] by (simp add: load)
  have "opost (\<lambda>_. on_track v) (attempt (SchedulePayout (run'\<lparr>pr_Status := StatusApproved\<rparr>) w1)
      (\<lambda>e w. Some (Inl (Wrap ''failed to schedule payout: '' e []), w)) (\<lambda>_ w. save_submitted (run'\<lparr>pr_Status := StatusApproved\<rparr>) w))"
    by (rule opost_attempt, rule post_mono, rule SchedulePayout_runs)
      (use w1 run' in \<open>auto intro!: save_on_track [where s = StatusDraft] simp: steps_once stands_on_track\<close>)
  moreover have "opost (\<lambda>_. on_track v) (save_submitted (run'\<lparr>pr_Status := StatusPendingApproval\<rparr>) w1)"
    by (rule save_on_track [where s = StatusDraft]) (use w1 run' in \<open>auto simp: steps_once\<close>)
  ultimately show ?thesis
    using w1 by (auto simp: submit_run_def load Let_def stands_on_track process_run_on_track split: option.splits)
qed

lemma opost_reads:
  assumes "\<And>e fs. opost Q (h e (w\<lparr>faults := fs\<rparr>))"
  shows "(\<And>u fs. opost Q (k u (w\<lparr>faults := fs\<rparr>))) \<Longrightarrow> opost Q (attempt (user_FindByID i w) h k)"
    and "(\<And>b fs. opost Q (k' b (w\<lparr>faults := fs\<rparr>))) \<Longrightarrow> opost Q (attempt (business_FindByID i w) h k')"
  using assms by (auto intro!: opost_attempt wp_finders(2,3))

lemma post_read:
  "(\<And>e fs. post Q (h e (w\<lparr>faults := fs\<rparr>))) \<Longrightarrow> (\<And>u fs. post Q (k u (w\<lparr>faults := fs\<rparr>))) \<Longrightarrow>
   post Q (attempt (user_FindByID i w) h k)"
  by (auto intro!: wp_attempt wp_finders(2))

lemma Submit_on_track:
  assumes "on_track v w"
  shows "opost (\<lambda>_. on_track v) (SubmitForApproval s i u w)"
  unfolding SubmitForApproval_def
proof (rule opost_reads, goal_cases)
  case (2 user fs)
  show ?case
  proof (rule opost_find [where v = v], goal_cases)
    case (3 run fs')
    then have "opost (\<lambda>_. on_track v)
        (attempt (business_FindByID (u_BusinessID user) (w\<lparr>faults := fs, faults := fs'\<rparr>))
          (\<lambda>e w. Some (Inl (Wrap ''failed to fetch business: '' e []), w))
          (\<lambda>b w. submit_run s (u_BusinessID user) b run w))" if "pr_Status run = StatusDraft"
      using that assms by (intro opost_reads submit_on_track) simp_all
    then show ?case using assms by simp
  qed (use assms in simp_all)
qed (use assms in simp)

lemma approve_on_track:
  assumes "stands (pr_ID run) StatusPendingApproval (pr_BusinessID run) v w"
  shows "opost (\<lambda>_. on_track v) (approve_run s bid b run w)"
  unfolding approve_run_def Let_def
proof (rule opost_update [where s = StatusPendingApproval and v = v], goal_cases)
  case (4 w1)
  let ?run = "run\<lparr>pr_Status := StatusApproved\<rparr>"
  have "opost (\<lambda>_. on_track v) (attempt (SchedulePayout ?run w1)
      (\<lambda>e w. case payroll_Update (?run\<lparr>pr_Status := StatusPendingApproval\<rparr>) w of
               (_, w) \<Rightarrow> Some (Inl (Wrap ''could not schedule payout job: '' e []), w))
      (\<lambda>_ w. Some (Inr ?run, w)))"
  proof (rule opost_attempt, rule post_mono, rule SchedulePayout_runs [of "pr_ID run" StatusApproved "pr_BusinessID run" v], goal_cases)
    case (1 r w2)
    then have w2: "stands (pr_ID run) StatusApproved (pr_BusinessID run) v w2" using 4 by simp
    have "post (\<lambda>_. on_track v) (payroll_Update (?run\<lparr>pr_Status := StatusPendingApproval\<rparr>) w2)"
      by (rule track_update [where s = StatusApproved and v = v]) (use w2 in \<open>auto simp: steps_once stands_on_track\<close>)
    then show ?case using w2 by (auto simp: stands_on_track post_def split: prod.splits)
  qed
  then show ?case using 4 by (simp add: process_run_on_track stands_on_track)
qed (use assms in \<open>simp_all add: steps_once stands_on_track\<close>)

lemma Approve_on_track:
  assumes "on_track v w"
  shows "opost (\<lambda>_. on_track v) (ApprovePayrollRun s i u w)"
  unfolding ApprovePayrollRun_def
proof (rule opost_reads, goal_cases)
  case (2 user fs)
  show ?case
  proof (rule opost_find [where v = v], goal_cases)
    case (3 run fs')
    then have "opost (\<lambda>_. on_track v)
        (attempt (business_FindByID (u_BusinessID user) (w\<lparr>faults := fs, faults := fs'\<rparr>))
          (\<lambda>e w. Some (Inl (Wrap ''failed to fetch business: '' e []), w))
          (\<lambda>b w. approve_run s (u_BusinessID user) b run w))" if "pr_Status run = StatusPendingApproval"
      using that assms by (intro opost_reads approve_on_track) simp_all
    then show ?case using assms by simp
  qed (use assms in simp_all)
qed (use assms in simp)

lemma Reverse_on_track:
  assumes "on_track v w"
  shows "on_track v (snd (ReversePayrollRun i u reason w))"
proof -
  have "post (\<lambda>_. on_track v) (ReversePayrollRun i u reason w)"
    unfolding ReversePayrollRun_def Let_def
    by (intro wp_if post_read post_find wp_case wp_now post_update [where s = StatusCompleted and v = v])
      (use assms in \<open>auto simp: steps_once stands_on_track\<close>)
  then show ?thesis by (simp add: post_def)
qed

lemma Reject_on_track:
  assumes "on_track v w"
  shows "on_track v (snd (RejectPayrollRun i u reason w))"
proof -
  have "post (\<lambda>_. on_track v) (RejectPayrollRun i u reason w)"
    unfolding RejectPayrollRun_def Let_def
    by (intro wp_if post_read post_find wp_case wp_now post_update [where s = StatusPendingApproval and v = v] wp_lists(1))
      (use assms in \<open>auto simp: steps_once stands_on_track\<close>)
  then show ?thesis by (simp add: post_def)
qed

lemma amended_fields [simp]:
  "pr_ID (amended run new) = pr_ID run" "pr_Status (amended run new) = pr_Status run"
  "pr_BusinessID (amended run new) = pr_BusinessID run" "pr_Entries (amended run new) = pr_Entries new"
  by (simp_all add: amended_def)

lemma Amend_on_track:
  assumes "on_track v w"
  shows "on_track v (snd (AmendPayrollRun s i bid adjs w))"
proof -
  have "post (\<lambda>_. on_track v) (AmendPayrollRun s i bid adjs w)"
    unfolding AmendPayrollRun_def Let_def
  proof (rule post_find [where v = v], goal_cases)
    case (3 run fs)
    have "post (\<lambda>_. on_track v)
       (attempt (CalculatePayrollRun (ps_loans s) bid (pr_Period run) adjs (w\<lparr>faults := fs\<rparr>))
         (\<lambda>e w. (Inl (Wrap ''failed to recalculate payroll: '' e []), w))
         (\<lambda>new w. case now w of (x, w) \<Rightarrow>
            attempt (payroll_Update (amended run new) w)
              (\<lambda>e w. (Inl (Wrap ''failed to save amended payroll: '' e []), w))
              (\<lambda>_ w. (Inr (amended run new), w))))"
      by (rule wp_attempt, rule post_frame [of i "pr_Status run" "pr_BusinessID run" v "w\<lparr>faults := fs\<rparr>"])
        (use 3 in \<open>auto intro!: wp_case wp_now post_update [where s = "pr_Status run" and v = v]
          simp: runs_payments stands_on_track\<close>)
    then show ?case using assms by simp
  qed (use assms in simp_all)
  then show ?thesis by (simp add: post_def)
qed

lemma on_track_append:
  assumes "on_track v w" "pr_Status r = StatusDraft" "pr_ID r = Suc (length (runs w))"
  shows "on_track v (w\<lparr>runs := runs w @ [r]\<rparr>)"
proof -
  have ids: "map pr_ID (runs w) = [1..<Suc (length (runs w))]" and fol: "follows v w"
    using assms(1) by (simp_all add: on_track_def runs_numbered_def del: upt_Suc)
  have "i \<le> length (runs w)" if "i \<in> pr_ID ` set (runs w)" for i
    using arg_cong [OF ids, of set] that by auto
  then have new: "life w (pr_ID r) = None"
    using assms(3) by (force simp: life_def map_of_eq_None_iff)
  have life: "life (w\<lparr>runs := runs w @ [r]\<rparr>) i = (if i = pr_ID r then Some (StatusDraft, pr_BusinessID r) else life w i)" for i
    using new assms(2) by (auto simp: life_def map_add_def split: option.splits)
  have "life v (pr_ID r) = None"
    using fol new unfolding follows_def by (metis option.exhaust option.distinct(1) surj_pair)
  then have "follows v (w\<lparr>runs := runs w @ [r]\<rparr>)"
    using fol unfolding follows_def life by (auto simp: origin_def)
  then show ?thesis
    using ids assms(3) by (simp add: on_track_def runs_numbered_def)
qed

lemma Create_on_track:
  assumes "on_track v w"
  shows "on_track v (snd (CreateAndStorePayrollRun lr bid period adjs w))"
proof -
  let ?c = "CalculatePayrollRun lr bid period adjs w"
  have w1: "on_track v (snd ?c)"
    using assms runs_payments(4) on_track_frame by blast
  have "on_track v (snd (payroll_Create r w'))" if "fst ?c = Inr r" and "on_track v w'" for r w'
  proof -
    have "pr_Status r = StatusDraft"
      using that(1) calculate_outcome [of bid w lr period adjs] by (simp add: post_def run_ok_def)
    then have "post (\<lambda>_. on_track v) (payroll_Create r w')"
      using that(2) on_track_append [of v "w'\<lparr>faults := fs\<rparr>" for fs] by (intro wp_payroll_Create) simp_all
    then show ?thesis by (simp add: post_def)
  qed
  then show ?thesis
    using w1 by (auto simp: CreateAndStorePayrollRun_def split: attempt_split) (metis snd_conv)+
qed

text \<open>One operation of the service, or anything else that leaves the runs alone.\<close>

inductive payroll_step :: "payroll_service \<Rightarrow> world \<Rightarrow> world \<Rightarrow> bool" for s where
  create: "payroll_step s w (snd (CreateAndStorePayrollRun (ps_loans s) bid period adjs w))"
| amend: "payroll_step s w (snd (AmendPayrollRun s i bid adjs w))"
| submit_for: "SubmitForApproval s i u w = Some (r, w') \<Longrightarrow> payroll_step s w w'"
| approve: "ApprovePayrollRun s i u w = Some (r, w') \<Longrightarrow> payroll_step s w w'"
| reject: "payroll_step s w (snd (RejectPayrollRun i u reason w))"
| reverse: "payroll_step s w (snd (ReversePayrollRun i u reason w))"
| process: "ProcessPayrollRunInstantly s i bid w = Some (r, w') \<Longrightarrow> payroll_step s w w'"
| job: "ProcessApprovedPayroll s i w = Some (r', w') \<Longrightarrow> payroll_step s w w'"
| elsewhere: "runs w' = runs w \<Longrightarrow> payroll_step s w w'"

lemma payroll_step_on_track: "payroll_step s w w' \<Longrightarrow> on_track v w \<Longrightarrow> on_track v w'"
proof (induction rule: payroll_step.induct)
  case (elsewhere w' w)
  then show ?case using on_track_frame by blast
qed (blast intro: Create_on_track Amend_on_track Reject_on_track Reverse_on_track
    opostD [OF Submit_on_track] opostD [OF Approve_on_track] opostD [OF process_on_track] opostD [OF approved_on_track])+

lemma payroll_steps_on_track: "(payroll_step s)\<^sup>*\<^sup>* w w' \<Longrightarrow> on_track v w \<Longrightarrow> on_track v w'"
  by (induction rule: rtranclp_induct) (auto dest: payroll_step_on_track)

section \<open>Salaries and approvals\<close>

lemma past_payment: "status_step\<^sup>*\<^sup>* s t \<Longrightarrow> settled_status s \<Longrightarrow> settled_status t \<or> t = StatusRejected"
  by (induction rule: rtranclp_induct) (auto simp: status_step_simps)

lemma on_track_refl: "runs_numbered w \<Longrightarrow> on_track w w"
  by (simp add: on_track_def)

lemma paid_now_origin: "paid_now i bid w w' \<Longrightarrow> payable_status (origin w i) \<and> settled_status (origin w' i)"
  by (auto simp: paid_now_def origin_def)

lemma int64_of_round_int: "0 \<le> n \<Longrightarrow> in64 n \<Longrightarrow> int64_of_round (Fin (of_int n)) = n"
proof -
  assume n: "0 \<le> n" "in64 n"
  have "\<lfloor>of_int n + (1 / 2 :: rat)\<rfloor> = n" by (simp add: floor_eq_iff)
  then show ?thesis using n by (simp add: round_away_def)
qed

lemma transfer_request_amount: "transfer_request run en = Some rq \<Longrightarrow> rq_Amount rq = show_int (pe_NetPay en)"
  by (auto simp: transfer_request_def split: option.splits)

lemma submit_quiet:
  assumes "b_PayrollRequiresApproval b"
  shows "opost (\<lambda>r w'. calls w' = calls w \<and> scheduled w' = scheduled w \<and>
      (\<forall>run. r = Inr run \<longrightarrow> pr_Status run = StatusPendingApproval)) (submit_run s bid b run w)"
proof -
  have load: "post (\<lambda>_ w'. calls w' = calls w \<and> scheduled w' = scheduled w) (batchLoadEmployeesForEntries run bid w)"
    unfolding batchLoadEmployeesForEntries_def Let_def by (auto intro!: wp)
  show ?thesis
    unfolding submit_run_def Let_def
    by (rule opost_case, rule post_mono, rule load)
      (use assms in \<open>auto simp: save_submitted_def intro!: opost_option opost_attempt wp_payroll_Update\<close>)
qed

text \<open>What a run's transfers in the database look like does not matter to the check, only that they are there.\<close>

lemma length_filter_map: "(\<And>x. P (f x) = P x) \<Longrightarrow> length (filter P (map f xs)) = length (filter P xs)"
  by (induction xs) simp_all

text \<open>A recalculation has only new entries, so saving it adds them all.\<close>

lemma amended_update:
  assumes "\<forall>e \<in> set (pr_Entries run). pe_ID e = 0"
  shows "post (\<lambda>r w'. \<forall>u \<in> set (runs w). pr_ID u = pr_ID run \<longrightarrow>
      r = Inr () \<longrightarrow> (\<exists>u' \<in> set (runs w'). \<exists>n. pr_ID u' = pr_ID run \<and> pr_Entries u' = pr_Entries u @ number_entries n (pr_Entries run)))
    (payroll_Update run w)"
proof (rule wp_payroll_Update)
  have "filter (\<lambda>e. pe_ID e = 0) (pr_Entries run) = pr_Entries run" using assms by simp
  then have "pr_ID (merge_run n run u) = pr_ID run \<and> pr_Entries (merge_run n run u) = pr_Entries u @ number_entries n (pr_Entries run)" for n u
    by (simp add: merge_run_def)
  then show "\<forall>u \<in> set (runs w). pr_ID u = pr_ID run \<longrightarrow> Inr () = Inr () \<longrightarrow>
      (\<exists>u' \<in> set (runs (w\<lparr>faults := fs, runs := map (\<lambda>u. if pr_ID u = pr_ID run then merge_run (entry_count w) run u else u) (runs w)\<rparr>)).
        \<exists>n. pr_ID u' = pr_ID run \<and> pr_Entries u' = pr_Entries u @ number_entries n (pr_Entries run))" for fs
    by auto
qed simp

lemma calculate_fresh:
  "post (\<lambda>x w'. runs w' = runs w \<and> (\<forall>r. x = Inr r \<longrightarrow> (\<forall>e \<in> set (pr_Entries r). pe_ID e = 0)))
    (CalculatePayrollRun lr bid period adjs w)"
  using calculate_outcome [of bid w lr period adjs] runs_payments(4) [of lr bid period adjs w]
  by (auto simp: post_def run_ok_def)

lemma amend_appends:
  "post (\<lambda>x w'. \<forall>run. x = Inr run \<longrightarrow> (\<forall>u \<in> set (runs w). pr_ID u = i \<longrightarrow>
      (\<exists>u' \<in> set (runs w'). \<exists>n. pr_ID u' = i \<and> pr_Entries u' = pr_Entries u @ number_entries n (pr_Entries run))))
    (AmendPayrollRun s i bid adjs w)"
proof -
  have save: "post (\<lambda>r w'. r = Inr () \<longrightarrow> (\<forall>u \<in> set (runs w). pr_ID u = i \<longrightarrow>
      (\<exists>u' \<in> set (runs w'). \<exists>n. pr_ID u' = i \<and> pr_Entries u' = pr_Entries u @ number_entries n (pr_Entries new))))
    (payroll_Update (amended run new) w1)"
    if "\<forall>e \<in> set (pr_Entries new). pe_ID e = 0" "runs w1 = runs w" "pr_ID run = i" for run new w1
    using amended_update [of "amended run new" w1] that by (auto simp: post_def)
  show ?thesis
    unfolding AmendPayrollRun_def Let_def
    by (auto intro!: wp_attempt wp_finders(1) wp_if wp_case wp_now calculate_fresh [THEN post_mono] save [THEN post_mono])
qed

text \<open>Processing returns, and orders at most one transfer for each entry.\<close>

lemma salary_references: "\<forall>rq \<in> set (buildTransferRequests run). rq_Reference rq \<noteq> []"
  by (auto simp: buildTransferRequests_def List.map_filter_def transfer_request_def salary_reference_def split: option.splits)

lemma salary_batch_transfers [simp]: "bq_Transfers (salary_batch run bid) = buildTransferRequests run"
  by (simp add: salary_batch_def)

lemma batch_returns:
  "chunks_positive s \<Longrightarrow> \<exists>resp w'. ExecuteBatchTransfer s bid (salary_batch run bid) w = Some (resp, w') \<and>
     ordered w w' \<in> {map rq_Reference (buildTransferRequests run), []}"
  using ExecuteBatchTransfer_returns [of s "salary_batch run bid" bid w] salary_references [of run] by fastforce

lemma attempt_returns: "(\<And>e w. h e w \<noteq> None) \<Longrightarrow> (\<And>x w. k x w \<noteq> None) \<Longrightarrow> attempt r h k \<noteq> None"
  by (cases r; cases "fst r") auto

lemma if_returns: "a \<noteq> None \<Longrightarrow> b \<noteq> None \<Longrightarrow> (if c then a else b) \<noteq> None"
  by simp

lemma process_loaded_returns: "chunks_positive (ps_transfers s) \<Longrightarrow> process_loaded s bid run w \<noteq> None"
proof -
  obtain run' w1 where load: "batchLoadEmployeesForEntries run bid w = (run', w1)" by fastforce
  assume "chunks_positive (ps_transfers s)"
  then obtain resp w' where "ExecuteBatchTransfer (ps_transfers s) bid (salary_batch run' bid) w1 = Some (resp, w')"
    using batch_returns by blast
  then show ?thesis by (simp add: process_loaded_def load)
qed

lemma process_returns: "chunks_positive (ps_transfers s) \<Longrightarrow> ProcessPayrollRunInstantly s i bid w \<noteq> None"
  unfolding ProcessPayrollRunInstantly_def Let_def by (intro attempt_returns if_returns process_loaded_returns) simp_all

lemma references_subseq:
  "subseq (map rq_Reference (buildTransferRequests run)) (map (salary_reference (pr_ID run)) (map pe_EmployeeID (pr_Entries run)))"
proof -
  have "subseq (map rq_Reference (List.map_filter (transfer_request run) es)) (map (\<lambda>e. salary_reference (pr_ID run) (pe_EmployeeID e)) es)" for es
    by (induction es) (auto simp: map_filter_simps transfer_request_def split: option.splits)
  then show ?thesis by (simp add: buildTransferRequests_def comp_def)
qed

lemma attach_entries [simp]:
  "map pe_EmployeeID (pr_Entries (fst (batchLoadEmployeesForEntries run bid w))) = map pe_EmployeeID (pr_Entries run)"
  unfolding batchLoadEmployeesForEntries_def Let_def attach_employees_def by (auto split: attempt_split)

lemma calls_repay_loans [simp]: "calls (repay_loans ls w) = calls w"
proof (induction ls arbitrary: w)
  case (Cons l ls)
  have "calls (snd (loan_Update (repay l) w)) = calls w"
    using wp_loan_Update [of "\<lambda>_ w'. calls w' = calls w" w "repay l"] by (simp add: post_def)
  then show ?case using Cons by simp
qed simp

lemma calls_updateLoanBalances [simp]: "calls (updateLoanBalances ens w) = calls w"
proof (induction ens arbitrary: w)
  case (Cons en ens)
  have "calls (snd (loan_FindActiveByEmployeeID (pe_EmployeeID en) w)) = calls w"
    using wp_lists(3) [of "\<lambda>_ w'. calls w' = calls w" w "pe_EmployeeID en"] by (simp add: post_def)
  then show ?case using Cons by (cases "pe_Employee en") (auto split: attempt_split)
qed simp

lemma calls_loading [simp]: "calls (snd (batchLoadEmployeesForEntries run bid w)) = calls w"
  unfolding batchLoadEmployeesForEntries_def Let_def
  by (rule post_calls) (auto intro!: wp)

lemma calls_verify [simp]: "calls (snd (verifyTransfersInDatabase bid i n w)) = calls w"
  unfolding verifyTransfersInDatabase_def transfer_FindByBusinessID_def Let_def
  by (rule post_calls) (auto intro!: wp wp_query)

lemma calls_conclude [simp]: "calls (snd (conclude_run run ok w)) = calls w"
  by (simp add: conclude_run_def now_def)

lemma calls_payroll_Update [simp]: "calls (snd (payroll_Update run w)) = calls w"
  by (rule post_calls) (auto intro!: wp)

lemma calls_finish [simp]: "calls (snd (finish_processing s bid run resp w)) = calls w"
  unfolding finish_processing_def Let_def
  by (auto simp: split_beta attempt_def split: sum.splits)

lemma ordered_same [simp]: "calls w' = calls w \<Longrightarrow> ordered w w' = []"
  by (simp add: ordered_def)

lemma process_loaded_orders:
  assumes "chunks_positive (ps_transfers s)"
  shows "opost (\<lambda>_ w'. subseq (ordered w w') (map (salary_reference (pr_ID run)) (map pe_EmployeeID (pr_Entries run))))
    (process_loaded s bid run w)"
proof -
  obtain run' w1 where load: "batchLoadEmployeesForEntries run bid w = (run', w1)" by fastforce
  have run': "pr_ID run' = pr_ID run" "map pe_EmployeeID (pr_Entries run') = map pe_EmployeeID (pr_Entries run)" "calls w1 = calls w"
    using attach_fields [of run bid w] attach_entries [of run bid w] calls_loading [of run bid w] load by simp_all
  obtain resp w2 where batch: "ExecuteBatchTransfer (ps_transfers s) bid (salary_batch run' bid) w1 = Some (resp, w2)"
    and refs: "ordered w1 w2 \<in> {map rq_Reference (buildTransferRequests run'), []}"
    using batch_returns [OF assms] by blast
  have "ordered w w' = ordered w1 w2" if "calls w' = calls w2" for w'
    using that run'(3) by (simp add: ordered_def)
  then show ?thesis
    using refs references_subseq [of run'] run' by (auto simp: process_loaded_def load batch post_def)
qed

lemma process_orders:
  assumes "chunks_positive (ps_transfers s)"
  shows "opost (\<lambda>_ w'. ordered w w' = [] \<or> (\<exists>run \<in> set (runs w). pr_ID run = i \<and> payable_status (pr_Status run) \<and>
      subseq (ordered w w') (map (salary_reference i) (map pe_EmployeeID (pr_Entries run)))))
    (ProcessPayrollRunInstantly s i bid w)" (is "opost ?Q _")
  unfolding ProcessPayrollRunInstantly_def Let_def
proof (rule opost_attempt, rule wp_finders(1), goal_cases)
  case (2 u fs)
  let ?run = "(preload w u)\<lparr>pr_Status := StatusProcessing\<rparr>"
  have entries: "map pe_EmployeeID (pr_Entries ?run) = map pe_EmployeeID (pr_Entries u)"
    by (simp add: preload_def)
  have "opost ?Q (attempt (payroll_Update ?run (w\<lparr>faults := fs\<rparr>))
      (\<lambda>e w. Some (Inl (Wrap ''failed to update payroll run status: '' e []), w)) (\<lambda>_ w. process_loaded s bid ?run w))"
    if "payable_status (pr_Status u)"
  proof (rule opost_attempt, unfold post_def, intro conjI allI impI, goal_cases)
    case (2 x)
    let ?w1 = "snd (payroll_Update ?run (w\<lparr>faults := fs\<rparr>))"
    have calls: "calls ?w1 = calls w" by simp
    then have "ordered ?w1 w' = ordered w w'" for w' by (simp only: ordered_def)
    then show ?case
      using process_loaded_orders [OF assms, of ?w1 ?run bid] that \<open>u \<in> _\<close> \<open>pr_ID u = i \<and> _\<close> entries
      by (elim opost_mono) auto
  qed simp
  then show ?case by auto
qed simp

section \<open>Properties\<close>

text \<open>
  C5: A run is paid at most once. When one call of \<open>ProcessPayrollRunInstantly\<close>, by the API
  or by the job queue, has contacted a payment provider for a run, no later call for that run
  does, whatever operations on payroll runs, retries included, whatever other changes to the
  tables and whatever faults come in between. (Two calls that overlap in time are outside the
  model.)
\<close>

theorem run_paid_at_most_once:
  assumes "runs_numbered w" and "ProcessPayrollRunInstantly s i bid w = Some (r, w1)" and "calls w1 \<noteq> calls w"
    and "(payroll_step s)\<^sup>*\<^sup>* w1 w2" and "ProcessPayrollRunInstantly s i bid' w2 = Some (r', w3)"
  shows "calls w3 = calls w2"
proof (rule ccontr)
  assume again: "calls w3 \<noteq> calls w2"
  have w1: "on_track w w1 \<and> paid_now i bid w w1"
    using opostD [OF process_track [OF on_track_refl [OF assms(1)]] assms(2)] assms(3) by blast
  have w2: "on_track w1 w2"
    using payroll_steps_on_track [OF assms(4) on_track_refl] w1 by (auto simp: on_track_def)
  then have "paid_now i bid' w2 w3"
    using opostD [OF process_track assms(5)] again by blast
  then obtain st b where st: "life w2 i = Some (st, b)" "payable_status st" by (auto simp: paid_now_def)
  have "status_step\<^sup>*\<^sup>* (origin w1 i) st" using w2 st(1) by (auto simp: on_track_def follows_def)
  then show False using past_payment [of "origin w1 i" st] paid_now_origin [of i bid w w1] w1 st(2) by blast
qed



text \<open>
  A business that requires approval pays nothing on submission. Submitting a run calls no
  provider and enqueues no job, and when it succeeds the run is pending approval.
\<close>

theorem submission_awaits_approval:
  assumes "\<forall>b \<in> set (businesses w). b_PayrollRequiresApproval b"
    and "SubmitForApproval s i u w = Some (r, w')"
  shows "calls w' = calls w \<and> scheduled w' = scheduled w \<and>
    (\<forall>run. r = Inr run \<longrightarrow> pr_Status run = StatusPendingApproval)"
proof -
  let ?Q = "\<lambda>r w'. calls w' = calls w \<and> scheduled w' = scheduled w \<and>
    (\<forall>run. r = Inr run \<longrightarrow> pr_Status run = StatusPendingApproval)"
  have "opost ?Q (submit_run s bid b run (w\<lparr>faults := fs\<rparr>))" if "b \<in> set (businesses w)" for bid b run fs
    using submit_quiet [where b = b and s = s and bid = bid and run = run and w = "w\<lparr>faults := fs\<rparr>"] assms(1) that by simp
  then have "opost ?Q (SubmitForApproval s i u w)"
    unfolding SubmitForApproval_def
    by (auto intro!: opost_attempt wp_finders)
  from opostD [OF this assms(2)] show ?thesis .
qed


text \<open>
  A run counts as paid once its transfers are on record. The check that decides whether a
  run is completed gives the same answer whatever the statuses of the transfers are, so a run
  all of whose transfers have failed is completed, and its loans are repaid.
\<close>

theorem verification_ignores_status:
  "fst (verifyTransfersInDatabase bid i n (w\<lparr>transfers := map (\<lambda>t. t\<lparr>t_Status := status t\<rparr>) (transfers w)\<rparr>)) =
   fst (verifyTransfersInDatabase bid i n w)"
  unfolding verifyTransfersInDatabase_def transfer_FindByBusinessID_def Let_def
  by (cases "faults w"; cases "tl (faults w)")
    (simp_all add: attempt_def statement_def fault_def now_def filter_map rev_map take_map drop_map comp_def)

text \<open>
  Amending a run pays its employees again. When an amendment succeeds, the stored run has
  the entries it had before and behind them the recalculated ones, not these alone as the
  totals suggest; each employee is listed, and ordered a transfer, once for every amendment
  and once more.
\<close>

theorem amended_run_keeps_old_entries:
  assumes "AmendPayrollRun s i bid adjs w = (Inr run, w')" and "u \<in> set (runs w)" and "pr_ID u = i"
  shows "\<exists>u' \<in> set (runs w'). \<exists>n. pr_ID u' = i \<and> pr_Entries u' = pr_Entries u @ number_entries n (pr_Entries run)"
  using postD [OF amend_appends assms(1)] assms(2,3) by blast

definition sample_entry :: payroll_entry where
  "sample_entry = \<lparr>pe_ID = 1, pe_EmployeeID = 7, pe_GrossPay = 3000, pe_TotalDeductions = 500, pe_Bonuses = 0,
     pe_NetPay = 2500, pe_EmployerPension = 0, pe_EmployerNSITF = 0, pe_TotalEmployerCost = 0,
     pe_TotalCostToCompany = 3000, pe_Employee = Some sample_employee, pe_Details = []\<rparr>"

definition sample_run :: "PayrollStatus \<Rightarrow> payroll_run" where
  "sample_run st = \<lparr>pr_ID = 1, pr_BusinessID = 1, pr_Period = (2026, 1), pr_Status = st, pr_TotalGrossPay = 3000,
     pr_TotalDeductions = 500, pr_TotalNetPay = 2500, pr_TotalEmployerCosts = 0, pr_TotalCostToCompany = 3000,
     pr_ScheduledFor = 0, pr_ProcessedAt = None, pr_PaymentReference = [], pr_RejectionReason = [],
     pr_Entries = [sample_entry]\<rparr>"


definition sample_user :: user where
  "sample_user = \<lparr>u_ID = 5, u_BusinessID = 1, u_Email = ''o@b.c'', u_Role = RoleOperator, u_PasswordHash = ''hash'',
     u_IsVerified = True, u_ResetToken = None, u_ResetTokenExpiry = None, u_InviteToken = None,
     u_InviteAccepted = False, u_EmailVerificationToken = None, u_EmailVerificationExpiry = None\<rparr>"

definition run_world :: "PayrollStatus \<Rightarrow> world \<Rightarrow> world" where
  "run_world st w = (payroll_world w)\<lparr>runs := [sample_run st], users := [sample_user]\<rparr>"

definition sample_payroll :: payroll_service where
  "sample_payroll = \<lparr>ps_transfers = sample_service, ps_loans = False\<rparr>"

lemma runs_numbered_run_world: "runs_numbered (run_world st w)"
  by (simp add: runs_numbered_def run_world_def sample_run_def)


lemma submit_sample:
  "\<exists>w'. SubmitForApproval s 1 5 (run_world StatusDraft w) = Some (Inr (sample_run StatusPendingApproval), w')"
proof -
  have "preload (run_world StatusDraft w) (sample_run StatusDraft) = sample_run StatusDraft"
    by (simp add: preload_def run_world_def payroll_world_def sample_run_def sample_entry_def sample_employee_def)
  then show ?thesis
    by (simp add: SubmitForApproval_def user_FindByID_def payroll_FindByID_def business_FindByID_def submit_run_def
        save_submitted_def batchLoadEmployeesForEntries_def payroll_Update_def unverified_names_def gate_error_def run_world_def sample_user_def payroll_world_def
        sample_business_def map_filter_simps)
     (simp add: sample_run_def sample_entry_def sample_employee_def map_filter_simps)
qed

theorem submission_awaits_approval_witness:
  "\<forall>w. \<exists>w'. SubmitForApproval sample_payroll 1 5 (run_world StatusDraft w) = Some (Inr (sample_run StatusPendingApproval), w') \<and>
     calls w' = calls (run_world StatusDraft w)"
proof
  fix w
  obtain w' where submit: "SubmitForApproval sample_payroll 1 5 (run_world StatusDraft w) = Some (Inr (sample_run StatusPendingApproval), w')"
    using submit_sample by blast
  have "\<forall>b \<in> set (businesses (run_world StatusDraft w)). b_PayrollRequiresApproval b"
    by (simp add: run_world_def payroll_world_def sample_business_def)
  from submission_awaits_approval [OF this submit] submit
  show "\<exists>w'. SubmitForApproval sample_payroll 1 5 (run_world StatusDraft w) = Some (Inr (sample_run StatusPendingApproval), w') \<and>
     calls w' = calls (run_world StatusDraft w)" by blast
qed

lemma sample_payroll_chunks: "chunks_positive (ps_transfers sample_payroll)"
  by (simp add: sample_payroll_def sample_chunks)


text \<open>The run of the sample world is really paid.\<close>

lemma sample_requests:
  "\<exists>rq. buildTransferRequests (sample_run st) = [rq] \<and> rq_Amount rq = ''2500''"
proof -
  have "mapBankNameToCode ''GTBank'' = Some ''058''" and "show_int 2500 = ''2500''" by code_simp+
  then show ?thesis
    by (simp add: buildTransferRequests_def transfer_request_def sample_run_def sample_entry_def sample_employee_def map_filter_simps)
qed

lemma find_sample_run: "payroll_FindByID 1 1 (run_world st w) = (Inr (sample_run st), run_world st w)"
proof -
  have "preload (run_world st w) (sample_run st) = sample_run st"
    by (simp add: preload_def run_world_def payroll_world_def sample_run_def sample_entry_def sample_employee_def)
  then show ?thesis
    by (simp add: payroll_FindByID_def run_world_def payroll_world_def) (simp add: sample_run_def)
qed

lemma sample_paid:
  "\<exists>r w'. ProcessPayrollRunInstantly sample_payroll 1 1 (run_world StatusApproved sample_world) = Some (r, w') \<and>
     calls w' \<noteq> calls (run_world StatusApproved sample_world)"
proof -
  let ?w = "run_world StatusApproved sample_world"
  let ?run = "sample_run StatusProcessing"
  note find = find_sample_run [of StatusApproved sample_world]
  have run: "(sample_run StatusApproved)\<lparr>pr_Status := StatusProcessing\<rparr> = ?run" "pr_Status (sample_run st) = st" for st
    by (simp_all add: sample_run_def)
  obtain w1 where upd: "payroll_Update ?run ?w = (Inr (), w1)"
    by (simp add: payroll_Update_def run_world_def payroll_world_def)
  have "calls w1 = calls ?w" using calls_payroll_Update [of ?run ?w] upd by simp
  have load: "batchLoadEmployeesForEntries ?run 1 w1 = (?run, w1)"
    by (simp add: batchLoadEmployeesForEntries_def sample_run_def sample_entry_def)
  obtain rq where rq: "buildTransferRequests ?run = [rq]" "rq_Amount rq = rq_Amount sample_req"
    using sample_requests [of StatusProcessing] by (auto simp: sample_req_def)
  then have "validateTransferAmount (ts_config (ps_transfers sample_payroll)) (rq_Amount t) = Inr ()"
    if "t \<in> set (bq_Transfers (salary_batch ?run 1))" for t
    using that sample_valid by (simp add: sample_payroll_def)
  then obtain resp w2 where batch: "ExecuteBatchTransfer (ps_transfers sample_payroll) 1 (salary_batch ?run 1) w1 = Some (resp, w2)"
    and "ordered w1 w2 = map rq_Reference (buildTransferRequests ?run)"
    using ExecuteBatchTransfer_returns [OF sample_payroll_chunks, of "salary_batch ?run 1" 1 w1] salary_references by fastforce
  then have "ordered w1 w2 \<noteq> []" using rq by simp
  then have "calls w2 \<noteq> calls ?w" using \<open>calls w1 = calls ?w\<close> by auto
  moreover have "ProcessPayrollRunInstantly sample_payroll 1 1 ?w = Some (finish_processing sample_payroll 1 ?run resp w2)"
    using rq by (simp add: ProcessPayrollRunInstantly_def find [simplified] run upd process_loaded_def load [simplified] batch [simplified])
  moreover obtain r w' where fin: "finish_processing sample_payroll 1 ?run resp w2 = (r, w')" by fastforce
  moreover have "calls w' = calls w2" using calls_finish [of sample_payroll 1 ?run resp w2] unfolding fin by (simp only: snd_conv)
  ultimately show ?thesis by auto
qed

theorem run_paid_at_most_once_witness:
  "\<exists>r w1 r' w3. ProcessPayrollRunInstantly sample_payroll 1 1 (run_world StatusApproved sample_world) = Some (r, w1) \<and>
     calls w1 \<noteq> calls (run_world StatusApproved sample_world) \<and>
     ProcessPayrollRunInstantly sample_payroll 1 1 w1 = Some (r', w3) \<and> calls w3 = calls w1"
proof -
  obtain r w1 where first: "ProcessPayrollRunInstantly sample_payroll 1 1 (run_world StatusApproved sample_world) = Some (r, w1)"
    "calls w1 \<noteq> calls (run_world StatusApproved sample_world)"
    using sample_paid by blast
  moreover obtain r' w3 where "ProcessPayrollRunInstantly sample_payroll 1 1 w1 = Some (r', w3)"
    using process_returns [OF sample_payroll_chunks, of 1 1 w1] by auto
  moreover from run_paid_at_most_once [OF runs_numbered_run_world first rtranclp.rtrancl_refl this]
  have "calls w3 = calls w1" .
  ultimately show ?thesis by blast
qed

text \<open>An amendment that succeeds.\<close>

lemma calc_employees_clean: "faults w = [] \<Longrightarrow> snd (calc_employees lr b adjs es t w) = w"
proof (induction es arbitrary: t)
  case (Cons x es)
  obtain emp c where x: "x = (emp, c)" by (cases x)
  have "snd (calculateEmployeeEntry lr emp c b adjs w) = w" for adjs
    using Cons.prems by (auto simp: calculateEmployeeEntry_def loan_FindActiveByEmployeeID_def split_beta Let_def)
  then show ?case using Cons.IH [OF Cons.prems] by (simp add: x split_beta Let_def)
qed simp

lemma calculate_clean:
  assumes "faults w = []" and "CalculatePayrollRun lr bid period adjs w = (r, w')"
  shows "faults w' = []"
proof -
  have "post (\<lambda>_ w'. faults w' = []) (CalculatePayrollRun lr bid period adjs w)"
    unfolding CalculatePayrollRun_def Let_def business_FindByID_def employee_FindByBusinessID_def
    using assms(1) by (auto simp: cadre_FindByIDs_clean post_def attempt_def now_def split_beta calc_employees_clean split: option.splits sum.splits)
  then show ?thesis using assms(2) by (simp add: post_def)
qed

theorem amended_run_keeps_old_entries_witness:
  "\<forall>w. \<exists>run w'. AmendPayrollRun sample_payroll 1 1 (\<lambda>_. []) (run_world StatusDraft w) = (Inr run, w') \<and>
     (\<exists>u' \<in> set (runs w'). \<exists>n. pr_ID u' = 1 \<and> pr_Entries u' = sample_entry # number_entries n (pr_Entries run))"
proof
  fix w
  let ?w = "run_world StatusDraft w"
  have period: "pr_Status (sample_run st) = st" "pr_Period (sample_run st) = (2026, 1)" for st by (simp_all add: sample_run_def)
  have w: "payroll_world ?w = ?w" by (simp add: run_world_def payroll_world_def)
  obtain new w1 where calc: "CalculatePayrollRun False 1 (2026, 1) (\<lambda>_. []) ?w = (Inr new, w1)"
    using payroll_world_run [of False "(2026, 1)" "\<lambda>_. []" ?w] by (auto simp: w)
  then have "faults w1 = []" using calculate_clean [of ?w] by (simp add: run_world_def payroll_world_def)
  then obtain run w' where amend: "AmendPayrollRun sample_payroll 1 1 (\<lambda>_. []) ?w = (Inr run, w')"
    using calc by (simp add: AmendPayrollRun_def find_sample_run [simplified] payroll_Update_def now_def sample_payroll_def period [simplified] Let_def)
  have "sample_run StatusDraft \<in> set (runs ?w)" "pr_ID (sample_run StatusDraft) = 1" "pr_Entries (sample_run StatusDraft) = [sample_entry]"
    by (simp_all add: run_world_def sample_run_def)
  from amended_run_keeps_old_entries [OF amend this(1,2)] this(3) amend
  show "\<exists>run w'. AmendPayrollRun sample_payroll 1 1 (\<lambda>_. []) ?w = (Inr run, w') \<and>
     (\<exists>u' \<in> set (runs w'). \<exists>n. pr_ID u' = 1 \<and> pr_Entries u' = sample_entry # number_entries n (pr_Entries run))"
    by auto
qed

end
