(* ===== verification/Platform.thy ===== *)
theory Platform
  imports Payroll_Service
begin

text \<open>
  The services together. Each operation of the payroll service keeps every invariant of the
  tables; \<open>system_step\<close> is one operation of any service on the shared database, and what the
  services promise one by one holds in every state they reach together.
\<close>

section \<open>Payroll operations keep the invariants of the tables\<close>

context loan_invariant
begin

lemma opost_attempt_keeps:
  "I (snd r) \<Longrightarrow> (\<And>e w. I w \<Longrightarrow> opost (\<lambda>_. I) (h e w)) \<Longrightarrow> (\<And>x w. I w \<Longrightarrow> opost (\<lambda>_. I) (k x w)) \<Longrightarrow>
   opost (\<lambda>_. I) (attempt r h k)"
  by (cases r; cases "fst r") auto

lemma opost_case_keeps:
  "I (snd r) \<Longrightarrow> (\<And>x w. I w \<Longrightarrow> opost (\<lambda>_. I) (k x w)) \<Longrightarrow> opost (\<lambda>_. I) (case r of (x, w) \<Rightarrow> k x w)"
  by (cases r) simp

lemma opost_call_keeps:
  "(\<And>y. r = Some y \<Longrightarrow> I (snd y)) \<Longrightarrow> (\<And>x w. I w \<Longrightarrow> I (snd (k x w))) \<Longrightarrow>
   opost (\<lambda>_. I) (case r of None \<Rightarrow> None | Some (x, w) \<Rightarrow> Some (k x w))"
  by (auto simp: post_def split: option.splits)

lemma opost_if_keeps: "opost Q a \<Longrightarrow> opost Q b \<Longrightarrow> opost Q (if c then a else b)"
  by simp

lemma opost_done_keeps: "I w \<Longrightarrow> opost (\<lambda>_. I) (Some (x, w))"
  by simp

lemma process_loaded_keeps: "I w \<Longrightarrow> opost (\<lambda>_. I) (process_loaded s bid run w)"
  unfolding process_loaded_def Let_def
  by (intro opost_case_keeps opost_if_keeps opost_done_keeps opost_call_keeps)
    (auto intro: batchLoad_keeps finish_keeps ExecuteBatchTransfer_keeps)

lemmas opost_keeps = opost_attempt_keeps opost_case_keeps opost_if_keeps opost_done_keeps process_loaded_keeps

lemma process_keeps: "I w \<Longrightarrow> opost (\<lambda>_. I) (ProcessPayrollRunInstantly s i bid w)"
  unfolding ProcessPayrollRunInstantly_def Let_def
  by (intro opost_keeps) (auto intro: store_results payroll_writes_keep [THEN keepsD])

lemma process_run_keeps: "I w \<Longrightarrow> opost (\<lambda>_. I) (process_run s run bid w)"
  unfolding process_run_def
  by (intro opost_keeps process_keeps) (auto intro: store_results)

lemma ProcessApproved_keeps: "I w \<Longrightarrow> opost (\<lambda>_. I) (ProcessApprovedPayroll s i w)"
  unfolding ProcessApprovedPayroll_def
proof (intro opost_attempt_keeps opost_if_keeps opost_done_keeps)
  fix run :: payroll_run and w assume "I w"
  from process_keeps [OF this, of s i "pr_BusinessID run"]
  show "opost (\<lambda>_. I) (case ProcessPayrollRunInstantly s i (pr_BusinessID run) w of None \<Rightarrow> None
      | Some (Inl e, w) \<Rightarrow> Some (Inl (Wrap ''failed to process approved payroll: '' e []), w)
      | Some (Inr _, w) \<Rightarrow> Some (Inr (), w))"
    by (auto simp: opost_def post_def split: option.splits sum.splits)
qed (auto intro: store_results)

lemma save_keeps: "I w \<Longrightarrow> opost (\<lambda>_. I) (save_submitted run w)"
  unfolding save_submitted_def by (intro opost_keeps) (auto intro: payroll_writes_keep [THEN keepsD])

lemma submit_keeps: "I w \<Longrightarrow> opost (\<lambda>_. I) (submit_run s bid b run w)"
  unfolding submit_run_def Let_def
proof (rule opost_case_keeps, erule batchLoad_keeps)
  fix run :: payroll_run and w assume "I w"
  then show "opost (\<lambda>_. I) (case gate_error run b of Some e \<Rightarrow> Some (Inl e, w)
     | None \<Rightarrow> if b_PayrollRequiresApproval b then save_submitted (run\<lparr>pr_Status := StatusPendingApproval\<rparr>) w
         else if b_PayrollAutoProcess b then process_run s (run\<lparr>pr_Status := StatusApproved\<rparr>) bid w
         else attempt (SchedulePayout (run\<lparr>pr_Status := StatusApproved\<rparr>) w)
                (\<lambda>e w. Some (Inl (Wrap ''failed to schedule payout: '' e []), w))
                (\<lambda>_ w. save_submitted (run\<lparr>pr_Status := StatusApproved\<rparr>) w))"
    by (cases "gate_error run b")
      (simp_all, intro conjI impI opost_attempt_keeps save_keeps process_run_keeps, auto intro: SchedulePayout_keeps)
qed

lemma Submit_keeps: "I w \<Longrightarrow> opost (\<lambda>_. I) (SubmitForApproval s i u w)"
  unfolding SubmitForApproval_def
  by (intro opost_keeps submit_keeps) (auto intro: store_results)

lemma approve_keeps: "I w \<Longrightarrow> opost (\<lambda>_. I) (approve_run s bid b run w)"
  unfolding approve_run_def Let_def
  by (intro opost_keeps process_run_keeps) (auto intro: payroll_writes_keep [THEN keepsD] SchedulePayout_keeps)

lemma Approve_keeps: "I w \<Longrightarrow> opost (\<lambda>_. I) (ApprovePayrollRun s i u w)"
  unfolding ApprovePayrollRun_def
  by (intro opost_keeps approve_keeps) (auto intro: store_results)

lemma run_writes_keep:
  "I w \<Longrightarrow> I (snd (RejectPayrollRun i u reason w))" "I w \<Longrightarrow> I (snd (ReversePayrollRun i u reason w))"
  "I w \<Longrightarrow> I (snd (AmendPayrollRun s i bid adjs w))"
  unfolding RejectPayrollRun_def ReversePayrollRun_def AmendPayrollRun_def Let_def
  by (auto intro!: run_results CalculatePayrollRun_keeps)

end

section \<open>Steps of the system\<close>

text \<open>The tables that hold money, orders of payment, loans, runs and the queue of jobs are the same.\<close>

definition same_books :: "world \<Rightarrow> world \<Rightarrow> bool" where
  "same_books w w' \<longleftrightarrow> wallets w' = wallets w \<and> wallet_txs w' = wallet_txs w \<and> ledger w' = ledger w \<and>
     transfers w' = transfers w \<and> loans w' = loans w \<and> runs w' = runs w \<and> scheduled w' = scheduled w"

text \<open>
  Operations of the services, with any arguments; and whatever the rest of the program and its
  environment do to the other tables, the clock, the breakers and the schedule of faults.
\<close>

inductive system_step :: "payroll_service \<Rightarrow> world \<Rightarrow> world \<Rightarrow> bool" for s where
  transfer: "system_step s w (snd (ExecuteTransfer (ps_transfers s) bid req w))"
| retry: "system_step s w (snd (RetryTransfer (ps_transfers s) bid i w))"
| batch: "ExecuteBatchTransfer (ps_transfers s) bid breq w = Some (bresp, w') \<Longrightarrow> system_step s w w'"
| account: "system_step s w (snd (CreateVirtualAccount provider bid vreq w))"
| deposit: "system_step s w (snd (RecordDepositByAccountReference aref n w))"
| payroll_create: "system_step s w (snd (CreateAndStorePayrollRun (ps_loans s) bid period adjs w))"
| payroll_amend: "system_step s w (snd (AmendPayrollRun s i bid adjs w))"
| payroll_submit: "SubmitForApproval s i u w = Some (r, w') \<Longrightarrow> system_step s w w'"
| payroll_approve: "ApprovePayrollRun s i u w = Some (r, w') \<Longrightarrow> system_step s w w'"
| payroll_reject: "system_step s w (snd (RejectPayrollRun i u reason w))"
| payroll_reverse: "system_step s w (snd (ReversePayrollRun i u reason w))"
| payroll_process: "ProcessPayrollRunInstantly s i bid w = Some (r, w') \<Longrightarrow> system_step s w w'"
| payroll_job: "ProcessApprovedPayroll s i w = Some (r', w') \<Longrightarrow> system_step s w w'"
| loan_create: "0 \<le> l_LoanAmount l \<Longrightarrow> 0 \<le> l_MonthlyDeduction l \<Longrightarrow> in64 (l_LoanAmount l) \<Longrightarrow>
    system_step s w (snd (createLoan l w))"
| loan_cancel: "system_step s w (snd (cancelLoan i bid w))"
| environment: "same_books w w' \<Longrightarrow> system_step s w w'"

inductive_cases system_stepE: "system_step s w w'"

text \<open>The contract of an invariant with the whole system: it does not read the environment.\<close>

locale system_invariant = loan_invariant +
  assumes inv_environment: "\<And>w w'. same_books w w' \<Longrightarrow> I w' = I w"
begin

lemma system_step_keeps: "system_step s w w' \<Longrightarrow> I w \<Longrightarrow> I w'"
proof (induction rule: system_step.induct)
  case (batch bid breq w bresp w')
  then show ?case using ExecuteBatchTransfer_keeps by fastforce
next
  case (environment w w')
  then show ?case by (simp only: inv_environment)
qed (blast intro: ExecuteTransfer_keeps RetryTransfer_keeps CreateAndStorePayrollRun_keeps run_writes_keep inv_create inv_cancel
    CreateVirtualAccount_keeps [THEN keepsD] RecordDepositByAccountReference_keeps [THEN keepsD]
    opostD [OF Submit_keeps] opostD [OF Approve_keeps] opostD [OF process_keeps] opostD [OF ProcessApproved_keeps])+

lemma reachable_keeps: "(system_step s)\<^sup>*\<^sup>* v w \<Longrightarrow> I v \<Longrightarrow> I w"
  by (induction rule: rtranclp_induct) (auto intro: system_step_keeps)

end

interpretation wallet_system: system_invariant wallets_ok
  by unfold_locales (simp add: same_books_def wallets_ok_def)

interpretation ledger_system: system_invariant ledger_balanced
  by unfold_locales (simp add: same_books_def ledger_balanced_def)

interpretation key_system: system_invariant keys_ok
  by unfold_locales (simp add: same_books_def keys_ok_def)

interpretation loan_system: system_invariant loans_ok
  by unfold_locales (simp add: same_books_def loans_ok_def)

text \<open>Each step of the system is one of the payroll service, or none that concerns runs.\<close>

lemma runs_createLoan: "runs (snd (createLoan l w)) = runs w"
proof -
  have "post (\<lambda>_ w'. runs w' = runs w) (createLoan l w)"
    unfolding createLoan_def by (auto intro!: wp)
  then show ?thesis by (simp add: post_def)
qed

lemma runs_cancelLoan: "runs (snd (cancelLoan i bid w)) = runs w"
proof -
  have "post (\<lambda>_ w'. runs w' = runs w) (cancelLoan i bid w)"
    unfolding cancelLoan_def by (auto intro!: wp)
  then show ?thesis by (simp add: post_def)
qed

lemma system_payroll: "system_step s w w' \<Longrightarrow> payroll_step s w w'"
proof (induction rule: system_step.induct)
  case (batch bid breq w bresp w')
  then show ?case using runs_payments(1) payroll_step.elsewhere by blast
next
  case (loan_create l w)
  then show ?case by (intro payroll_step.elsewhere runs_createLoan)
next
  case (loan_cancel w i bid)
  then show ?case by (intro payroll_step.elsewhere runs_cancelLoan)
next
  case (environment w w')
  then show ?case by (intro payroll_step.elsewhere) (simp add: same_books_def)
next
  case (transfer w bid req)
  then show ?case
    using payroll_frame.ExecuteTransfer_keeps [of w "runs w" "loans w" "scheduled w" "ps_transfers s" bid req]
    by (intro payroll_step.elsewhere) simp
next
  case (retry w bid i)
  then show ?case
    using payroll_frame.RetryTransfer_keeps [of w "runs w" "loans w" "scheduled w" "ps_transfers s" bid i]
    by (intro payroll_step.elsewhere) simp
next
  case (account w provider bid vreq)
  then show ?case
    using payroll_frame.CreateVirtualAccount_keeps [THEN keepsD, of w "runs w" "loans w" "scheduled w" provider bid vreq]
    by (intro payroll_step.elsewhere) simp
next
  case (deposit w aref n)
  then show ?case
    using payroll_frame.RecordDepositByAccountReference_keeps [THEN keepsD, of w "runs w" "loans w" "scheduled w" aref n]
    by (intro payroll_step.elsewhere) simp
qed (blast intro: payroll_step.intros)+

lemma reachable_on_track: "(system_step s)\<^sup>*\<^sup>* v w \<Longrightarrow> runs_numbered v \<Longrightarrow> on_track v w"
  by (rule payroll_steps_on_track [where s = s], erule rtranclp_mono [THEN predicate2D, rotated])
    (auto intro: system_payroll on_track_refl)

end
