(* ===== verification/Accounts.thy ===== *)
theory Accounts
  imports Store
begin

text \<open>
  User accounts: login and tokens, invitations, password reset and e-mail verification
  (\<^verbatim>\<open>internal/service/auth_service.go\<close>), with the statements on users
  (\<^verbatim>\<open>internal/repository/postgres/user_repo.go\<close>), the token functions
  (\<^verbatim>\<open>pkg/utils/jwt.go\<close>, \<^verbatim>\<open>hasher.go\<close>) and the
  middleware that reads tokens (\<^verbatim>\<open>internal/api/middleware/auth.go\<close>). The bcrypt
  and JWT libraries are parameters; e-mail and the registration of businesses are not modelled.
\<close>

section \<open>Users in the database\<close>

text \<open>
  \<^verbatim>\<open>domain.User\<close> has the identifier of an employee, for which the table of
  users has no column: the conversions drop it.
\<close>

record account = user +
  u_EmployeeID :: "nat option"

definition UserFromDomain :: "account \<Rightarrow> user" where
  "UserFromDomain u = user.truncate u"

definition ToDomain :: "user \<Rightarrow> account" where
  "ToDomain u = user.extend u (account.fields None)"

definition new_user_id :: "world \<Rightarrow> nat" where
  "new_user_id w = Suc (foldr max (map u_ID (users w)) 0)"

definition user_Create :: "account \<Rightarrow> world \<Rightarrow> account res \<times> world" where
  "user_Create u = statement (\<lambda>w.
     (if u_Email u \<in> u_Email ` set (users w) then (Inl (Sentinel ErrConflict), w)
      else (let row = (UserFromDomain u)\<lparr>u_ID := new_user_id w\<rparr>
            in (Inr (ToDomain row), w\<lparr>users := users w @ [row]\<rparr>))))"

definition user_updates :: "user \<Rightarrow> user \<Rightarrow> user" where
  "user_updates new old = old
     \<lparr>u_BusinessID := if u_BusinessID new = 0 then u_BusinessID old else u_BusinessID new,
      u_Email := if u_Email new = [] then u_Email old else u_Email new,
      u_Role := u_Role new,
      u_PasswordHash := if u_PasswordHash new = [] then u_PasswordHash old else u_PasswordHash new,
      u_IsVerified := u_IsVerified new \<or> u_IsVerified old,
      u_ResetToken := or_else (u_ResetToken new) (u_ResetToken old),
      u_ResetTokenExpiry := or_else (u_ResetTokenExpiry new) (u_ResetTokenExpiry old),
      u_InviteToken := or_else (u_InviteToken new) (u_InviteToken old),
      u_InviteAccepted := u_InviteAccepted new \<or> u_InviteAccepted old,
      u_EmailVerificationToken := or_else (u_EmailVerificationToken new) (u_EmailVerificationToken old),
      u_EmailVerificationExpiry := or_else (u_EmailVerificationExpiry new) (u_EmailVerificationExpiry old)\<rparr>"

definition user_Update :: "account \<Rightarrow> world \<Rightarrow> unit res \<times> world" where
  "user_Update u = statement (\<lambda>w.
     (if \<forall>v \<in> set (users w). u_ID v \<noteq> u_ID u then (Inl (Sentinel ErrNotFound), w)
      else if \<exists>v \<in> set (users w). u_ID v \<noteq> u_ID u \<and> u_Email v = u_Email u
      then (Inl (Plain ''duplicate key value violates unique constraint''), w)
      else (Inr (), w\<lparr>users := map (\<lambda>v. if u_ID v = u_ID u then user_updates (UserFromDomain u) v else v) (users w)\<rparr>)))"

definition user_find :: "(user \<Rightarrow> bool) \<Rightarrow> world \<Rightarrow> account res \<times> world" where
  "user_find p = statement (\<lambda>w.
     (case find p (users w) of None \<Rightarrow> (Inl (Sentinel ErrNotFound), w) | Some u \<Rightarrow> (Inr (ToDomain u), w)))"

definition account_FindByID :: "nat \<Rightarrow> world \<Rightarrow> account res \<times> world" where
  "account_FindByID i = user_find (\<lambda>u. u_ID u = i)"

definition user_FindByEmail :: "string \<Rightarrow> world \<Rightarrow> account res \<times> world" where
  "user_FindByEmail email = user_find (\<lambda>u. u_Email u = email)"

definition user_FindByResetToken :: "string \<Rightarrow> world \<Rightarrow> account res \<times> world" where
  "user_FindByResetToken token = user_find (\<lambda>u. u_ResetToken u = Some token)"

definition user_FindByInviteToken :: "string \<Rightarrow> world \<Rightarrow> account res \<times> world" where
  "user_FindByInviteToken token = user_find (\<lambda>u. u_InviteToken u = Some token)"

definition user_FindByEmailVerificationToken :: "string \<Rightarrow> world \<Rightarrow> account res \<times> world" where
  "user_FindByEmailVerificationToken token = user_find (\<lambda>u. u_EmailVerificationToken u = Some token)"

definition users_FindByRole :: "UserRole \<Rightarrow> world \<Rightarrow> account list res \<times> world" where
  "users_FindByRole role = statement (\<lambda>w. (Inr (map ToDomain (filter (\<lambda>u. u_Role u = role) (users w))), w))"

definition users_of_business :: "UserRole \<Rightarrow> nat \<Rightarrow> world \<Rightarrow> account list res \<times> world" where
  "users_of_business role bid = statement (\<lambda>w.
     (Inr (map ToDomain (filter (\<lambda>u. u_BusinessID u = bid \<and> u_Role u = role) (users w))), w))"

definition FindApproversByBusinessID :: "nat \<Rightarrow> world \<Rightarrow> account list res \<times> world" where
  "FindApproversByBusinessID = users_of_business RoleApprover"

definition FindOperatorsByBusinessID :: "nat \<Rightarrow> world \<Rightarrow> account list res \<times> world" where
  "FindOperatorsByBusinessID = users_of_business RoleOperator"

section \<open>Tokens\<close>

text \<open>The libraries: salted hashing, comparison, signing and parsing of tokens.\<close>

record jwt_claims =
  jc_UserID :: string
  jc_BusinessID :: string
  jc_Role :: string
  jc_EmployeeID :: string
  jc_ExpiresAt :: int
  jc_IssuedAt :: int

record auth_service =
  as_hash :: "nat \<Rightarrow> string \<Rightarrow> string res"
  as_check :: "string \<Rightarrow> string \<Rightarrow> bool"
  as_sign :: "jwt_claims \<Rightarrow> string \<Rightarrow> string res"
  as_parse :: "string \<Rightarrow> string \<Rightarrow> int \<Rightarrow> jwt_claims res"
  as_Secret :: string
  as_Expiry :: int
  as_EmployeeRepo :: bool

text \<open>Times in tokens are whole seconds.\<close>

definition NumericDate :: "int \<Rightarrow> int" where
  "NumericDate t = t div 1000000000"

definition HashPassword :: "auth_service \<Rightarrow> string \<Rightarrow> world \<Rightarrow> string res \<times> world" where
  "HashPassword s p w = (as_hash s (tick w) p, w\<lparr>tick := Suc (tick w)\<rparr>)"

definition GenerateTokenWithEmployee ::
  "auth_service \<Rightarrow> string \<Rightarrow> string \<Rightarrow> string \<Rightarrow> string \<Rightarrow> world \<Rightarrow> string res \<times> world" where
  "GenerateTokenWithEmployee s userID businessID role employeeID w =
     (let (expires, w) = now w; (issued, w) = now w
      in (as_sign s \<lparr>jc_UserID = userID, jc_BusinessID = businessID, jc_Role = role, jc_EmployeeID = employeeID,
            jc_ExpiresAt = NumericDate (expires + as_Expiry s), jc_IssuedAt = NumericDate issued\<rparr> (as_Secret s), w))"

definition GenerateToken :: "auth_service \<Rightarrow> string \<Rightarrow> string \<Rightarrow> string \<Rightarrow> world \<Rightarrow> string res \<times> world" where
  "GenerateToken s userID businessID role w = GenerateTokenWithEmployee s userID businessID role [] w"

definition ValidateToken :: "auth_service \<Rightarrow> string \<Rightarrow> world \<Rightarrow> jwt_claims res \<times> world" where
  "ValidateToken s token w = (let (time, w) = now w in (as_parse s token (as_Secret s) time, w))"

section \<open>Middleware\<close>

record mw_claims =
  mc_UserID :: nat
  mc_BusinessID :: nat
  mc_Role :: string
  mc_EmployeeID :: nat

text \<open>\<^verbatim>\<open>strconv.ParseUint(s, 10, 32)\<close> without its error: 0, or the maximum when out of range.\<close>

definition parse_uint32 :: "string \<Rightarrow> nat" where
  "parse_uint32 s =
     (if s = [] \<or> \<not> list_all is_digit s then 0 else min (digits_value s) (2 ^ 32 - 1))"

definition AuthMiddleware :: "auth_service \<Rightarrow> string \<Rightarrow> world \<Rightarrow> mw_claims res \<times> world" where
  "AuthMiddleware s authHeader w =
     (if authHeader = [] \<or> \<not> has_prefix authHeader ''Bearer '' then (Inl (Sentinel ErrUnauthorized), w)
      else attempt (ValidateToken s (drop 7 authHeader) w)
             (\<lambda>_ w. (Inl (Sentinel ErrUnauthorized), w))
             (\<lambda>c w. (Inr \<lparr>mc_UserID = parse_uint32 (jc_UserID c), mc_BusinessID = parse_uint32 (jc_BusinessID c),
                         mc_Role = jc_Role c,
                         mc_EmployeeID = if jc_EmployeeID c \<noteq> [] then parse_uint32 (jc_EmployeeID c) else 0\<rparr>, w)))"

text \<open>The error with which the request is refused, if it is.\<close>

definition RoleMiddleware :: "UserRole list \<Rightarrow> mw_claims option \<Rightarrow> gerror option" where
  "RoleMiddleware allowed claims =
     (case claims of
        None \<Rightarrow> Some (Sentinel ErrInternalServer)
      | Some c \<Rightarrow> if mc_Role c \<in> role_text ` set allowed then None else Some (Sentinel ErrForbidden))"

definition SuperAdminMiddleware :: "mw_claims option \<Rightarrow> gerror option" where
  "SuperAdminMiddleware claims =
     (case claims of
        None \<Rightarrow> Some (Sentinel ErrForbidden)
      | Some c \<Rightarrow> if mc_Role c = role_text RoleSuperAdmin then None else Some (Sentinel ErrForbidden))"

section \<open>Login\<close>

definition generateToken :: "world \<Rightarrow> string \<times> world" where
  "generateToken w = rand_hex w"

definition Login :: "auth_service \<Rightarrow> string \<Rightarrow> string \<Rightarrow> world \<Rightarrow> (string \<times> account) res \<times> world" where
  "Login s email password w =
     attempt (user_FindByEmail email w)
       (\<lambda>e w. (Inl (if e = Sentinel ErrNotFound then Sentinel ErrUnauthorized else e), w))
       (\<lambda>u w.
          if \<not> as_check s password (u_PasswordHash u) then (Inl (Sentinel ErrUnauthorized), w)
          else attempt (GenerateToken s (show_nat (u_ID u)) (show_nat (u_BusinessID u)) (role_text (u_Role u)) w)
                 (\<lambda>e w. (Inl (Wrap ''could not generate token: '' e []), w))
                 (\<lambda>token w. (Inr (token, u), w)))"

definition EmployeeLogin :: "auth_service \<Rightarrow> string \<Rightarrow> string \<Rightarrow> world \<Rightarrow> (string \<times> account) res \<times> world" where
  "EmployeeLogin s email password w =
     attempt (user_FindByEmail email w)
       (\<lambda>_ w. (Inl (Sentinel ErrUnauthorized), w))
       (\<lambda>u w.
          if u_Role u \<noteq> RoleEmployee then (Inl (Sentinel ErrUnauthorized), w)
          else if \<not> as_check s password (u_PasswordHash u) then (Inl (Sentinel ErrUnauthorized), w)
          else (let employeeID = (case u_EmployeeID u of None \<Rightarrow> [] | Some i \<Rightarrow> show_nat i)
                in attempt (GenerateTokenWithEmployee s (show_nat (u_ID u)) (show_nat (u_BusinessID u))
                              (role_text (u_Role u)) employeeID w)
                     (\<lambda>e w. (Inl (Wrap ''could not generate token: '' e []), w))
                     (\<lambda>token w. (Inr (token, u), w))))"

section \<open>Invitations\<close>

definition new_account :: "nat \<Rightarrow> string \<Rightarrow> string \<Rightarrow> UserRole \<Rightarrow> account" where
  "new_account bid email pwhash role =
     \<lparr>u_ID = 0, u_BusinessID = bid, u_Email = email, u_Role = role, u_PasswordHash = pwhash, u_IsVerified = False,
      u_ResetToken = None, u_ResetTokenExpiry = None, u_InviteToken = None, u_InviteAccepted = False,
      u_EmailVerificationToken = None, u_EmailVerificationExpiry = None, u_EmployeeID = None\<rparr>"

text \<open>The first password is the token; an error of the hash function is dropped.\<close>

definition invite_new :: "auth_service \<Rightarrow> nat \<Rightarrow> string \<Rightarrow> UserRole \<Rightarrow> world \<Rightarrow> unit res \<times> world" where
  "invite_new s bid email role w =
     (let (token, w) = generateToken w;
          (h, w) = HashPassword s token w;
          u = (new_account bid email (case h of Inl _ \<Rightarrow> [] | Inr x \<Rightarrow> x) role)\<lparr>u_InviteToken := Some token\<rparr>
      in attempt (user_Create u w)
           (\<lambda>e w. (Inl (Wrap ''failed to create invited user: '' e []), w)) (\<lambda>_ w. (Inr (), w)))"

definition InviteUser :: "auth_service \<Rightarrow> nat \<Rightarrow> string \<Rightarrow> UserRole \<Rightarrow> world \<Rightarrow> unit res \<times> world" where
  "InviteUser s bid email role w =
     attempt (user_FindByEmail email w)
       (\<lambda>_ w. invite_new s bid email role w) (\<lambda>_ w. (Inl (Sentinel ErrConflict), w))"

definition AcceptInvitation :: "auth_service \<Rightarrow> string \<Rightarrow> string \<Rightarrow> world \<Rightarrow> (account \<times> string) res \<times> world" where
  "AcceptInvitation s token password w =
     attempt (user_FindByInviteToken token w)
       (\<lambda>_ w. (Inl (Sentinel ErrNotFound), w))
       (\<lambda>u w.
          if u_InviteAccepted u
          then (Inl (Wrap [] (Sentinel ErrConflict) '': invitation already accepted''), w)
          else attempt (HashPassword s password w)
                 (\<lambda>e w. (Inl (Wrap ''failed to hash password: '' e []), w))
                 (\<lambda>h w.
                    (let u = u\<lparr>u_PasswordHash := h, u_InviteAccepted := True, u_InviteToken := None, u_IsVerified := True\<rparr>
                     in attempt (user_Update u w)
                          (\<lambda>e w. (Inl (Wrap ''failed to update user: '' e []), w))
                          (\<lambda>_ w. attempt (GenerateToken s (show_nat (u_ID u)) (show_nat (u_BusinessID u)) (role_text (u_Role u)) w)
                             (\<lambda>e w. (Inl (Wrap ''failed to generate token: '' e []), w))
                             (\<lambda>jwt w. (Inr (u, jwt), w))))))"

section \<open>Password reset and e-mail verification\<close>

definition one_hour :: int where
  "one_hour = 3600 * 1000000000"

definition RequestPasswordReset :: "string \<Rightarrow> world \<Rightarrow> unit res \<times> world" where
  "RequestPasswordReset email w =
     attempt (user_FindByEmail email w)
       (\<lambda>_ w. (Inr (), w))
       (\<lambda>u w.
          (let (token, w) = generateToken w; (time, w) = now w;
               u = u\<lparr>u_ResetToken := Some token, u_ResetTokenExpiry := Some (time + one_hour)\<rparr>
           in attempt (user_Update u w)
                (\<lambda>e w. (Inl (Wrap ''failed to save reset token: '' e []), w)) (\<lambda>_ w. (Inr (), w))))"

text \<open>The clock is read only when there is an expiry to compare it with.\<close>

definition expired :: "int option \<Rightarrow> world \<Rightarrow> bool \<times> world" where
  "expired expiry w =
     (case expiry of None \<Rightarrow> (False, w) | Some t \<Rightarrow> (let (time, w) = now w in (t < time, w)))"

definition ResetPassword :: "auth_service \<Rightarrow> string \<Rightarrow> string \<Rightarrow> world \<Rightarrow> unit res \<times> world" where
  "ResetPassword s token newPassword w =
     attempt (user_FindByResetToken token w)
       (\<lambda>_ w. (Inl (Sentinel ErrNotFound), w))
       (\<lambda>u w.
          (let (late, w) = expired (u_ResetTokenExpiry u) w
           in if late then (Inl (Wrap [] (Sentinel ErrValidationFailed) '': reset token has expired''), w)
              else attempt (HashPassword s newPassword w)
                     (\<lambda>e w. (Inl (Wrap ''failed to hash password: '' e []), w))
                     (\<lambda>h w.
                        (let u = u\<lparr>u_PasswordHash := h, u_ResetToken := None, u_ResetTokenExpiry := None\<rparr>
                         in attempt (user_Update u w)
                              (\<lambda>e w. (Inl (Wrap ''failed to update password: '' e []), w)) (\<lambda>_ w. (Inr (), w))))))"

definition SendVerificationEmail :: "nat \<Rightarrow> world \<Rightarrow> unit res \<times> world" where
  "SendVerificationEmail userID w =
     attempt (account_FindByID userID w)
       (\<lambda>e w. (Inl (Wrap ''user not found: '' e []), w))
       (\<lambda>u w.
          if u_IsVerified u then (Inr (), w)
          else (let (token, w) = generateToken w; (time, w) = now w;
                    u = u\<lparr>u_EmailVerificationToken := Some token, u_EmailVerificationExpiry := Some (time + 24 * one_hour)\<rparr>
                in attempt (user_Update u w)
                     (\<lambda>e w. (Inl (Wrap ''failed to save verification token: '' e []), w)) (\<lambda>_ w. (Inr (), w))))"

definition VerifyEmail :: "string \<Rightarrow> world \<Rightarrow> unit res \<times> world" where
  "VerifyEmail token w =
     attempt (user_FindByEmailVerificationToken token w)
       (\<lambda>_ w. (Inl (Sentinel ErrNotFound), w))
       (\<lambda>u w.
          (let (late, w) = expired (u_EmailVerificationExpiry u) w
           in if late then (Inl (Wrap [] (Sentinel ErrValidationFailed) '': verification link has expired''), w)
              else (let u = u\<lparr>u_IsVerified := True, u_EmailVerificationToken := None, u_EmailVerificationExpiry := None\<rparr>
                    in attempt (user_Update u w)
                         (\<lambda>e w. (Inl (Wrap ''failed to verify email: '' e []), w)) (\<lambda>_ w. (Inr (), w)))))"

section \<open>Employees' accounts\<close>

definition link_employee :: "employee \<Rightarrow> account \<Rightarrow> world \<Rightarrow> world" where
  "link_employee e u w = snd (employee_Update (e\<lparr>e_UserID := Some (u_ID u)\<rparr>) w)"

definition create_login :: "auth_service \<Rightarrow> nat \<Rightarrow> employee \<Rightarrow> string \<Rightarrow> world \<Rightarrow> account res \<times> world" where
  "create_login s bid e tempPassword w =
     attempt (HashPassword s tempPassword w)
       (\<lambda>e w. (Inl (Wrap ''failed to hash password: '' e []), w))
       (\<lambda>h w. attempt (user_Create ((new_account bid (e_Email e) h RoleEmployee)
                        \<lparr>u_IsVerified := True, u_EmployeeID := Some (e_ID e)\<rparr>) w)
          (\<lambda>err w. (Inl (if err = Sentinel ErrConflict then Wrap [] (Sentinel ErrConflict) '': email already in use''
                        else Wrap ''failed to create employee login: '' err []), w))
          (\<lambda>u w. (Inr u, link_employee e u w)))"

text \<open>The look-up by e-mail address may fail, and then counts as no user.\<close>

definition CreateEmployeeLogin :: "auth_service \<Rightarrow> nat \<Rightarrow> nat \<Rightarrow> string \<Rightarrow> world \<Rightarrow> account res \<times> world" where
  "CreateEmployeeLogin s bid i tempPassword w =
     (if \<not> as_EmployeeRepo s then (Inl (Plain ''employee repository not configured''), w)
      else attempt (employee_FindByID i bid w)
        (\<lambda>_ w. (Inl (Sentinel ErrNotFound), w))
        (\<lambda>e w. attempt (user_FindByEmail (e_Email e) w)
          (\<lambda>_ w. create_login s bid e tempPassword w)
          (\<lambda>u w. if u_EmployeeID u = Some i
                 then (Inl (Wrap [] (Sentinel ErrConflict) '': employee already has a login''), w)
                 else create_login s bid e tempPassword w)))"

section \<open>What the statements do\<close>

lemma ToDomain_fields [simp]:
  "u_ID (ToDomain u) = u_ID u" "u_BusinessID (ToDomain u) = u_BusinessID u" "u_Email (ToDomain u) = u_Email u"
  "u_Role (ToDomain u) = u_Role u" "u_PasswordHash (ToDomain u) = u_PasswordHash u"
  "u_IsVerified (ToDomain u) = u_IsVerified u" "u_ResetToken (ToDomain u) = u_ResetToken u"
  "u_ResetTokenExpiry (ToDomain u) = u_ResetTokenExpiry u" "u_InviteToken (ToDomain u) = u_InviteToken u"
  "u_InviteAccepted (ToDomain u) = u_InviteAccepted u" "u_EmployeeID (ToDomain u) = None"
  "u_EmailVerificationToken (ToDomain u) = u_EmailVerificationToken u"
  "u_EmailVerificationExpiry (ToDomain u) = u_EmailVerificationExpiry u"
  by (simp_all add: ToDomain_def user.defs account.defs)

lemma UserFromDomain_fields [simp]:
  "u_ID (UserFromDomain a) = u_ID a" "u_BusinessID (UserFromDomain a) = u_BusinessID a" "u_Email (UserFromDomain a) = u_Email a"
  "u_Role (UserFromDomain a) = u_Role a" "u_PasswordHash (UserFromDomain a) = u_PasswordHash a"
  "u_IsVerified (UserFromDomain a) = u_IsVerified a" "u_ResetToken (UserFromDomain a) = u_ResetToken a"
  "u_ResetTokenExpiry (UserFromDomain a) = u_ResetTokenExpiry a" "u_InviteToken (UserFromDomain a) = u_InviteToken a"
  "u_InviteAccepted (UserFromDomain a) = u_InviteAccepted a"
  "u_EmailVerificationToken (UserFromDomain a) = u_EmailVerificationToken a"
  "u_EmailVerificationExpiry (UserFromDomain a) = u_EmailVerificationExpiry a"
  by (simp_all add: UserFromDomain_def user.defs)

lemma user_updates_fields [simp]:
  "u_ID (user_updates new old) = u_ID old"
  "u_Email (user_updates new old) = (if u_Email new = [] then u_Email old else u_Email new)"
  "u_ResetToken (user_updates new old) = or_else (u_ResetToken new) (u_ResetToken old)"
  "u_ResetTokenExpiry (user_updates new old) = or_else (u_ResetTokenExpiry new) (u_ResetTokenExpiry old)"
  "u_InviteToken (user_updates new old) = or_else (u_InviteToken new) (u_InviteToken old)"
  "u_InviteAccepted (user_updates new old) = (u_InviteAccepted new \<or> u_InviteAccepted old)"
  by (simp_all add: user_updates_def)

lemma wp_user_find [wp]:
  assumes "\<And>e fs. Q (Inl e) (w\<lparr>faults := fs\<rparr>)"
    and "\<And>u fs. find p (users w) = Some u \<Longrightarrow> Q (Inr (ToDomain u)) (w\<lparr>faults := fs\<rparr>)"
  shows "post Q (user_find p w)"
  unfolding user_find_def using assms by (intro wp_statement) (auto split: option.splits)

lemmas user_finders = account_FindByID_def user_FindByEmail_def user_FindByResetToken_def user_FindByInviteToken_def
  user_FindByEmailVerificationToken_def

lemma wp_user_Create [wp]:
  assumes "\<And>e fs. Q (Inl e) (w\<lparr>faults := fs\<rparr>)"
    and "\<And>fs row. row = (UserFromDomain u)\<lparr>u_ID := new_user_id w\<rparr> \<Longrightarrow> u_Email u \<notin> u_Email ` set (users w) \<Longrightarrow>
           Q (Inr (ToDomain row)) (w\<lparr>faults := fs, users := users w @ [row]\<rparr>)"
  shows "post Q (user_Create u w)"
  unfolding user_Create_def using assms by (intro wp_statement) (auto simp: Let_def new_user_id_def)

lemma wp_user_Update [wp]:
  assumes "\<And>e fs. Q (Inl e) (w\<lparr>faults := fs\<rparr>)"
    and "\<And>fs. (\<exists>v \<in> set (users w). u_ID v = u_ID u) \<Longrightarrow> (\<forall>v \<in> set (users w). u_ID v \<noteq> u_ID u \<longrightarrow> u_Email v \<noteq> u_Email u) \<Longrightarrow>
           Q (Inr ()) (w\<lparr>faults := fs, users :=
             map (\<lambda>v. if u_ID v = u_ID u then user_updates (UserFromDomain u) v else v) (users w)\<rparr>)"
  shows "post Q (user_Update u w)"
  unfolding user_Update_def using assms by (intro wp_statement) (auto cong: if_cong)

lemma wp_HashPassword [wp]:
  "Q (as_hash s (tick w) p) (w\<lparr>tick := Suc (tick w)\<rparr>) \<Longrightarrow> post Q (HashPassword s p w)"
  by (simp add: HashPassword_def)

lemma wp_generateToken [wp]: "Q (entropy w (tick w)) (w\<lparr>tick := Suc (tick w)\<rparr>) \<Longrightarrow> post Q (generateToken w)"
  by (simp add: generateToken_def rand_hex_def)

lemma wp_expired [wp]:
  assumes "\<And>b n. Q b (w\<lparr>tick := n\<rparr>)"
  shows "post Q (expired t w)"
proof -
  have "Q False w" using assms [of False "tick w"] by simp
  then show ?thesis using assms by (auto simp: expired_def now_def split: option.splits)
qed

lemma token_world [simp]:
  "snd (GenerateTokenWithEmployee s a b c d w) = w\<lparr>tick := Suc (Suc (tick w))\<rparr>"
  "snd (GenerateToken s a b c w) = w\<lparr>tick := Suc (Suc (tick w))\<rparr>"
  by (simp_all add: GenerateToken_def GenerateTokenWithEmployee_def now_def)

lemma wp_token [wp]:
  "(\<And>r. Q r (w\<lparr>tick := Suc (Suc (tick w))\<rparr>)) \<Longrightarrow> post Q (GenerateToken s a b c w)"
  "(\<And>r. Q r (w\<lparr>tick := Suc (Suc (tick w))\<rparr>)) \<Longrightarrow> post Q (GenerateTokenWithEmployee s a b c d w)"
  by (simp_all add: post_def)

section \<open>Unique users\<close>

definition users_ok :: "world \<Rightarrow> bool" where
  "users_ok w \<longleftrightarrow> distinct (map u_ID (users w)) \<and> distinct (map u_Email (users w))"

lemma users_ok_frame [simp]:
  "users_ok (w\<lparr>faults := fs\<rparr>) = users_ok w" "users_ok (w\<lparr>tick := n\<rparr>) = users_ok w"
  "users_ok (w\<lparr>employees := es\<rparr>) = users_ok w"
  by (simp_all add: users_ok_def)

lemma new_user_id: "new_user_id w \<notin> u_ID ` set (users w)"
proof -
  have "x \<le> foldr max ns 0" if "x \<in> set ns" for x :: nat and ns
    using that by (induction ns) auto
  then have "u_ID u < new_user_id w" if "u \<in> set (users w)" for u
    using that by (simp add: new_user_id_def less_Suc_eq_le)
  then show ?thesis by (metis imageE less_irrefl)
qed

lemma users_ok_append:
  "users_ok w \<Longrightarrow> u_ID row = new_user_id w \<Longrightarrow> u_Email row \<notin> u_Email ` set (users w) \<Longrightarrow>
   users_ok (w\<lparr>users := users w @ [row]\<rparr>)"
  using new_user_id [of w] by (simp add: users_ok_def)

lemma users_ok_update:
  assumes "users_ok w" and "\<forall>v \<in> set (users w). u_ID v \<noteq> u_ID a \<longrightarrow> u_Email v \<noteq> u_Email a"
  shows "users_ok (w\<lparr>users := map (\<lambda>v. if u_ID v = u_ID a then user_updates (UserFromDomain a) v else v) (users w)\<rparr>)"
proof -
  let ?f = "\<lambda>v. if u_ID v = u_ID a then user_updates (UserFromDomain a) v else v"
  have ids: "inj_on u_ID (set (users w))" and emails: "inj_on u_Email (set (users w))" and us: "distinct (users w)"
    using assms(1) by (simp_all add: users_ok_def distinct_map)
  have same: "u_ID (?f v) = u_ID v" for v by simp
  have "inj_on (\<lambda>v. u_Email (?f v)) (set (users w))"
  proof (rule inj_onI)
    fix x y assume xy: "x \<in> set (users w)" "y \<in> set (users w)" "u_Email (?f x) = u_Email (?f y)"
    show "x = y"
    proof (cases "u_ID x = u_ID y")
      case True
      then show ?thesis using ids xy(1,2) by (auto dest: inj_onD)
    next
      case False
      then have "u_Email x = u_Email y" using xy assms(2) by (auto split: if_splits)
      then show ?thesis using emails xy(1,2) by (auto dest: inj_onD)
    qed
  qed
  moreover have "inj_on (\<lambda>v. u_ID (?f v)) (set (users w))" using ids by (simp only: same)
  ultimately show ?thesis using us by (simp add: users_ok_def distinct_map comp_def)
qed

lemma new_user_id_frame [simp]: "new_user_id (w\<lparr>faults := fs\<rparr>) = new_user_id w"
  by (simp add: new_user_id_def)

lemma users_ok_writes [intro]:
  "users_ok w \<Longrightarrow> users_ok (snd (user_Create a w))" "users_ok w \<Longrightarrow> users_ok (snd (user_Update a w))"
proof -
  assume ok: "users_ok w"
  have "post (\<lambda>_. users_ok) (user_Create a w)"
    using ok users_ok_append [of "w\<lparr>faults := fs\<rparr>" for fs] by (intro wp_user_Create) simp_all
  then show "users_ok (snd (user_Create a w))" by (simp add: post_def)
  have "post (\<lambda>_. users_ok) (user_Update a w)"
    using ok users_ok_update [of "w\<lparr>faults := fs\<rparr>" a for fs] by (intro wp_user_Update) simp_all
  then show "users_ok (snd (user_Update a w))" by (simp add: post_def)
qed

lemma post_users_writes:
  "users_ok w \<Longrightarrow> (\<And>r w'. users_ok w' \<Longrightarrow> Q r w') \<Longrightarrow> post Q (user_Create a w)"
  "users_ok w \<Longrightarrow> (\<And>r w'. users_ok w' \<Longrightarrow> Q' r w') \<Longrightarrow> post Q' (user_Update a w)"
  using users_ok_writes by (simp_all add: post_def)

lemma users_ok_link: "users_ok (link_employee e u w) = users_ok w"
proof -
  have "post (\<lambda>_ w'. users_ok w' = users_ok w) (employee_Update f w)" for f
    by (rule wp_employee_Update) simp_all
  then show ?thesis by (simp add: link_employee_def post_def)
qed

lemmas users_ok_rules = wp_attempt wp_case wp_if wp_user_find wp_HashPassword wp_generateToken wp_expired wp_token wp_now
  wp_employee_find post_users_writes

lemma accounts_keep_unique:
  assumes "users_ok w"
  shows "post (\<lambda>_. users_ok) (Login s email p w)" "post (\<lambda>_. users_ok) (EmployeeLogin s email p w)"
    "post (\<lambda>_. users_ok) (InviteUser s bid email role w)" "post (\<lambda>_. users_ok) (AcceptInvitation s token p w)"
    "post (\<lambda>_. users_ok) (RequestPasswordReset email w)" "post (\<lambda>_. users_ok) (ResetPassword s token p w)"
    "post (\<lambda>_. users_ok) (SendVerificationEmail i w)" "post (\<lambda>_. users_ok) (VerifyEmail token w)"
    "post (\<lambda>_. users_ok) (CreateEmployeeLogin s bid i p w)"
  using assms
  unfolding Login_def EmployeeLogin_def InviteUser_def invite_new_def AcceptInvitation_def RequestPasswordReset_def
    ResetPassword_def SendVerificationEmail_def VerifyEmail_def CreateEmployeeLogin_def create_login_def user_finders Let_def
  by (auto intro!: users_ok_rules simp: users_ok_link)

section \<open>What becomes of a token\<close>

lemma find_map_same: "(\<And>x. P (f x) = P x) \<Longrightarrow> find P (map f xs) = map_option f (find P xs)"
  by (induction xs) auto

text \<open>A reset writes no empty token over the old one, so the user is still found by it.\<close>

lemma reset_outcome:
  "post (\<lambda>r w1. r = Inr () \<longrightarrow> (\<exists>row row'. find (\<lambda>u. u_ResetToken u = Some token) (users w) = Some row \<and>
      find (\<lambda>u. u_ResetToken u = Some token) (users w1) = Some row' \<and> u_ID row' = u_ID row \<and>
      u_ResetTokenExpiry row' = u_ResetTokenExpiry row)) (ResetPassword s token p w)"
proof -
  have upd: "find (\<lambda>u. u_ResetToken u = Some token)
      (map (\<lambda>v. if u_ID v = i then user_updates (UserFromDomain a) v else v) us) =
      map_option (\<lambda>v. if u_ID v = i then user_updates (UserFromDomain a) v else v)
        (find (\<lambda>u. u_ResetToken u = Some token) us)" if "u_ResetToken a = None" for a us i
    using that by (intro find_map_same) simp
  show ?thesis
    unfolding ResetPassword_def user_FindByResetToken_def Let_def
    by (auto intro!: wp_attempt wp_user_find wp_case wp_if wp_expired wp_HashPassword wp_user_Update simp: upd)
qed

lemma reset_succeeds:
  assumes "faults w = []" and "users_ok w" and "find (\<lambda>u. u_ResetToken u = Some token) (users w) = Some row"
    and "u_ResetTokenExpiry row = Some t" and "clock w (tick w) \<le> t" and "as_hash s (Suc (tick w)) p = Inr h"
  shows "fst (ResetPassword s token p w) = Inr ()"
proof -
  have row: "row \<in> set (users w)" using assms(3) by (auto dest: find_SomeD)
  have "u_Email v \<noteq> u_Email row" if "v \<in> set (users w)" "u_ID v \<noteq> u_ID row" for v
    using assms(2) row that by (auto simp: users_ok_def distinct_map dest: inj_onD)
  then show ?thesis
    using assms row
    by (auto simp: ResetPassword_def user_FindByResetToken_def user_find_def user_Update_def HashPassword_def expired_def now_def Let_def)
qed

text \<open>An accepted invitation is marked as accepted, and keeps its token.\<close>

lemma accept_outcome:
  "post (\<lambda>r w1. \<forall>x. r = Inr x \<longrightarrow> (\<exists>row. find (\<lambda>u. u_InviteToken u = Some token) (users w1) = Some row \<and> u_InviteAccepted row))
    (AcceptInvitation s token p w)"
proof -
  have upd: "find (\<lambda>u. u_InviteToken u = Some token)
      (map (\<lambda>v. if u_ID v = i then user_updates (UserFromDomain a) v else v) us) =
      map_option (\<lambda>v. if u_ID v = i then user_updates (UserFromDomain a) v else v)
        (find (\<lambda>u. u_InviteToken u = Some token) us)" if "u_InviteToken a = None" for a us i
    using that by (intro find_map_same) simp
  show ?thesis
    unfolding AcceptInvitation_def user_FindByInviteToken_def Let_def
    by (auto intro!: wp_attempt wp_user_find wp_case wp_if wp_HashPassword wp_user_Update wp_token simp: upd)
qed

lemma accept_refused:
  assumes "find (\<lambda>u. u_InviteToken u = Some token) (users w) = Some row" and "u_InviteAccepted row"
  shows "post (\<lambda>r w'. (\<exists>e. r = Inl e) \<and> users w' = users w) (AcceptInvitation s token p w)"
  using assms unfolding AcceptInvitation_def user_FindByInviteToken_def
  by (auto intro!: wp_attempt wp_user_find wp_if)

section \<open>Properties\<close>

text \<open>The documented behaviour of the token library: what was signed is read back until it expires.\<close>

definition tokens_verify :: "auth_service \<Rightarrow> bool" where
  "tokens_verify s \<longleftrightarrow> (\<forall>c t time. as_sign s c (as_Secret s) = Inr t \<longrightarrow> time < 1000000000 * jc_ExpiresAt c \<longrightarrow>
     as_parse s t (as_Secret s) time = Inr c)"

text \<open>Identifiers in a token survive the way through decimal strings.\<close>

lemma parse_uint32_show: "n < 2 ^ 32 \<Longrightarrow> parse_uint32 (show_nat n) = n"
  using show_nat_digits [of n] by (simp add: parse_uint32_def)

lemma login_outcome:
  "post (\<lambda>r w'. \<forall>token u. r = Inr (token, u) \<longrightarrow> users w' = users w \<and>
      (\<exists>row \<in> set (users w). u = ToDomain row \<and> u_Email row = email \<and> as_check s p (u_PasswordHash row)) \<and>
      as_sign s \<lparr>jc_UserID = show_nat (u_ID u), jc_BusinessID = show_nat (u_BusinessID u), jc_Role = role_text (u_Role u),
        jc_EmployeeID = [], jc_ExpiresAt = NumericDate (clock w (tick w) + as_Expiry s),
        jc_IssuedAt = NumericDate (clock w (Suc (tick w)))\<rparr> (as_Secret s) = Inr token)
    (Login s email p w)"
  unfolding Login_def user_FindByEmail_def
  by (auto intro!: wp_attempt wp_user_find wp_if simp: GenerateToken_def GenerateTokenWithEmployee_def now_def dest: find_SomeD)

lemma employee_login_outcome:
  "post (\<lambda>r w'. \<forall>token u. r = Inr (token, u) \<longrightarrow>
      as_sign s \<lparr>jc_UserID = show_nat (u_ID u), jc_BusinessID = show_nat (u_BusinessID u), jc_Role = role_text RoleEmployee,
        jc_EmployeeID = [], jc_ExpiresAt = NumericDate (clock w (tick w) + as_Expiry s),
        jc_IssuedAt = NumericDate (clock w (Suc (tick w)))\<rparr> (as_Secret s) = Inr token)
    (EmployeeLogin s email p w)"
  unfolding EmployeeLogin_def user_FindByEmail_def Let_def
  by (auto intro!: wp_attempt wp_user_find wp_if simp: GenerateTokenWithEmployee_def now_def)

lemma middleware_reads:
  assumes "tokens_verify s" and "as_sign s c (as_Secret s) = Inr token" and "clock w (tick w) < 1000000000 * jc_ExpiresAt c"
  shows "fst (AuthMiddleware s (''Bearer '' @ token) w) =
    Inr \<lparr>mc_UserID = parse_uint32 (jc_UserID c), mc_BusinessID = parse_uint32 (jc_BusinessID c), mc_Role = jc_Role c,
         mc_EmployeeID = if jc_EmployeeID c \<noteq> [] then parse_uint32 (jc_EmployeeID c) else 0\<rparr>"
proof -
  have "as_parse s token (as_Secret s) (clock w (tick w)) = Inr c"
    using assms by (simp add: tokens_verify_def)
  then show ?thesis by (simp add: AuthMiddleware_def ValidateToken_def now_def has_prefix_def)
qed

text \<open>
  C26: A login is a session of that user. When \<open>Login\<close> gives a token, the password matched the
  hash of the user with that e-mail address, and until the token expires the middleware reads
  from it exactly the identifier, the business and the role of this user (with identifiers
  below 2 to the 32, which is what the middleware parses), and no employee.
\<close>

theorem login_session:
  assumes "tokens_verify s" and "Login s email p w = (Inr (token, u), w')"
    and "u_ID u < 2 ^ 32" and "u_BusinessID u < 2 ^ 32"
    and "clock w2 (tick w2) < 1000000000 * NumericDate (clock w (tick w) + as_Expiry s)"
  shows "(\<exists>row \<in> set (users w). u = ToDomain row \<and> u_Email row = email \<and> as_check s p (u_PasswordHash row)) \<and>
    fst (AuthMiddleware s (''Bearer '' @ token) w2) =
      Inr \<lparr>mc_UserID = u_ID u, mc_BusinessID = u_BusinessID u, mc_Role = role_text (u_Role u), mc_EmployeeID = 0\<rparr>"
  using postD [OF login_outcome assms(2)] middleware_reads [OF assms(1), of _ token w2] assms(3-5)
  by (fastforce simp: parse_uint32_show)

text \<open>
  Self-service logins carry no employee. The employee of an account is not stored, so the
  middleware never finds one in the token that \<open>EmployeeLogin\<close> gives.
\<close>

theorem employee_login_without_employee:
  assumes "tokens_verify s" and "EmployeeLogin s email p w = (Inr (token, u), w')"
    and "clock w2 (tick w2) < 1000000000 * NumericDate (clock w (tick w) + as_Expiry s)"
  shows "\<exists>c. fst (AuthMiddleware s (''Bearer '' @ token) w2) = Inr c \<and> mc_EmployeeID c = 0"
  using postD [OF employee_login_outcome assms(2)] middleware_reads [OF assms(1), of _ token w2] assms(3)
  by fastforce

text \<open>
  Accounts stay unique. No operation on accounts, under any schedule of faults, gives two
  users the same identifier or the same e-mail address.
\<close>

theorem accounts_stay_unique:
  assumes "users_ok w"
  shows "users_ok (snd (InviteUser s bid email role w)) \<and> users_ok (snd (AcceptInvitation s token p w)) \<and>
    users_ok (snd (RequestPasswordReset email w)) \<and> users_ok (snd (ResetPassword s token p w)) \<and>
    users_ok (snd (SendVerificationEmail i w)) \<and> users_ok (snd (VerifyEmail token w)) \<and>
    users_ok (snd (CreateEmployeeLogin s bid i p w)) \<and> users_ok (snd (Login s email p w)) \<and>
    users_ok (snd (EmployeeLogin s email p w))"
  using accounts_keep_unique [OF assms] by (simp add: post_def)

text \<open>
  A reset token works more than once. After a successful password reset the same token,
  as long as it has not expired, resets the password again (no statement or hash failing).
\<close>

theorem reset_token_reusable:
  assumes "users_ok w" and "ResetPassword s token p w = (Inr (), w1)" and "faults w1 = []"
    and "\<exists>row t. find (\<lambda>u. u_ResetToken u = Some token) (users w) = Some row \<and> u_ResetTokenExpiry row = Some t \<and>
           clock w1 (tick w1) \<le> t"
    and "\<exists>h. as_hash s (Suc (tick w1)) p' = Inr h"
  shows "fst (ResetPassword s token p' w1) = Inr ()"
proof -
  obtain row row' where rows: "find (\<lambda>u. u_ResetToken u = Some token) (users w) = Some row"
    "find (\<lambda>u. u_ResetToken u = Some token) (users w1) = Some row'" "u_ResetTokenExpiry row' = u_ResetTokenExpiry row"
    using postD [OF reset_outcome assms(2)] by blast
  have "users_ok w1" using accounts_keep_unique(6) [OF assms(1), of s token p] assms(2) by (simp add: post_def)
  then show ?thesis using reset_succeeds [OF assms(3) _ rows(2)] rows assms(4,5) by auto
qed

text \<open>
  C29: An invitation is accepted once. After it has been accepted, accepting it again, under any
  schedule of faults, gives an error and changes no user.
\<close>

theorem invitation_accepted_once:
  assumes "AcceptInvitation s token p w = (Inr x, w1)"
  shows "(\<exists>e. fst (AcceptInvitation s token p' w1) = Inl e) \<and> users (snd (AcceptInvitation s token p' w1)) = users w1"
proof -
  obtain row where "find (\<lambda>u. u_InviteToken u = Some token) (users w1) = Some row" "u_InviteAccepted row"
    using postD [OF accept_outcome assms] by blast
  from accept_refused [OF this, of s p'] show ?thesis by (simp add: post_def)
qed

text \<open>A service with concrete libraries, and a user who has asked for a reset and was invited.\<close>

definition demo_claims :: "string \<Rightarrow> jwt_claims" where
  "demo_claims role = \<lparr>jc_UserID = show_nat 5, jc_BusinessID = show_nat 1, jc_Role = role, jc_EmployeeID = [],
     jc_ExpiresAt = 3600, jc_IssuedAt = 0\<rparr>"

definition demo_auth :: auth_service where
  "demo_auth = \<lparr>as_hash = (\<lambda>n p. Inr (CHR ''h'' # p)), as_check = (\<lambda>p h. h = CHR ''h'' # p),
     as_sign = (\<lambda>c secret. if c = demo_claims (jc_Role c) then Inr (CHR ''t'' # jc_Role c) else Inl (Plain ''sign'')),
     as_parse = (\<lambda>t secret time. if t \<noteq> [] \<and> time < 3600000000000 then Inr (demo_claims (tl t)) else Inl (Plain ''parse'')),
     as_Secret = ''secret'', as_Expiry = one_hour, as_EmployeeRepo = True\<rparr>"

definition demo_user :: "UserRole \<Rightarrow> user" where
  "demo_user role = \<lparr>u_ID = 5, u_BusinessID = 1, u_Email = ''o@b.c'', u_Role = role, u_PasswordHash = ''hpw'',
     u_IsVerified = False, u_ResetToken = Some ''reset'', u_ResetTokenExpiry = Some one_hour, u_InviteToken = Some ''invite'',
     u_InviteAccepted = False, u_EmailVerificationToken = None, u_EmailVerificationExpiry = None\<rparr>"

definition account_world :: "UserRole \<Rightarrow> world \<Rightarrow> world" where
  "account_world role w = w\<lparr>users := [demo_user role], faults := [], clock := int, tick := 0\<rparr>"

lemmas demo_defs = demo_auth_def demo_user_def account_world_def demo_claims_def one_hour_def

lemma demo_tokens: "tokens_verify demo_auth"
proof -
  have "as_parse demo_auth t secret time = Inr c"
    if "as_sign demo_auth c secret = Inr t" "time < 1000000000 * jc_ExpiresAt c" for c t secret time
  proof -
    have c: "c = demo_claims (jc_Role c)" "t = CHR ''t'' # jc_Role c"
      using that(1) by (simp_all add: demo_auth_def split: if_splits)
    have "jc_ExpiresAt c = 3600" by (subst c(1)) (simp add: demo_claims_def)
    then show ?thesis using that(2) c by (simp add: demo_auth_def)
  qed
  then show ?thesis by (simp add: tokens_verify_def)
qed

lemma demo_login:
  "fst (Login demo_auth ''o@b.c'' ''pw'' (account_world role w)) = Inr (CHR ''t'' # role_text role, ToDomain (demo_user role))"
  by (simp add: Login_def user_FindByEmail_def user_find_def GenerateToken_def GenerateTokenWithEmployee_def now_def NumericDate_def demo_defs)

theorem login_session_witness:
  "\<forall>w. fst (AuthMiddleware demo_auth (''Bearer '' @ CHR ''t'' # ''approver'') (account_world RoleApprover w)) =
     Inr \<lparr>mc_UserID = 5, mc_BusinessID = 1, mc_Role = ''approver'', mc_EmployeeID = 0\<rparr>"
proof
  fix w
  obtain w' where "Login demo_auth ''o@b.c'' ''pw'' (account_world RoleApprover w) =
      (Inr (CHR ''t'' # ''approver'', ToDomain (demo_user RoleApprover)), w')"
    using demo_login [of RoleApprover w] by (metis role_text.simps(3) fst_conv prod.collapse)
  from login_session [OF demo_tokens this, of "account_world RoleApprover w"]
  show "fst (AuthMiddleware demo_auth (''Bearer '' @ CHR ''t'' # ''approver'') (account_world RoleApprover w)) =
     Inr \<lparr>mc_UserID = 5, mc_BusinessID = 1, mc_Role = ''approver'', mc_EmployeeID = 0\<rparr>"
    by (simp add: demo_user_def account_world_def NumericDate_def one_hour_def demo_auth_def)
qed

lemma demo_employee_login:
  "fst (EmployeeLogin demo_auth ''o@b.c'' ''pw'' (account_world RoleEmployee w)) =
     Inr (CHR ''t'' # ''employee'', ToDomain (demo_user RoleEmployee))"
  by (simp add: EmployeeLogin_def user_FindByEmail_def user_find_def GenerateTokenWithEmployee_def now_def NumericDate_def demo_defs)

theorem employee_login_without_employee_witness:
  "\<forall>w. \<exists>c. fst (AuthMiddleware demo_auth (''Bearer '' @ CHR ''t'' # ''employee'') (account_world RoleEmployee w)) = Inr c \<and>
     mc_EmployeeID c = 0"
proof
  fix w
  obtain w' where "EmployeeLogin demo_auth ''o@b.c'' ''pw'' (account_world RoleEmployee w) =
      (Inr (CHR ''t'' # ''employee'', ToDomain (demo_user RoleEmployee)), w')"
    using demo_employee_login [of w] by (metis fst_conv prod.collapse)
  from employee_login_without_employee [OF demo_tokens this, of "account_world RoleEmployee w"]
  show "\<exists>c. fst (AuthMiddleware demo_auth (''Bearer '' @ CHR ''t'' # ''employee'') (account_world RoleEmployee w)) = Inr c \<and>
     mc_EmployeeID c = 0"
    by (simp add: account_world_def NumericDate_def one_hour_def demo_auth_def)
qed

lemma demo_users_ok: "users_ok (account_world role w)"
  by (simp add: users_ok_def account_world_def)

theorem accounts_stay_unique_witness:
  "\<forall>w. users_ok (snd (InviteUser demo_auth 1 ''n@b.c'' RoleOperator (account_world RoleAdmin w)))"
  using accounts_stay_unique [OF demo_users_ok] by blast

theorem reset_token_reusable_witness:
  "\<forall>w. \<exists>w1. ResetPassword demo_auth ''reset'' ''one'' (account_world RoleAdmin w) = (Inr (), w1) \<and>
     fst (ResetPassword demo_auth ''reset'' ''two'' w1) = Inr ()"
proof
  fix w
  let ?w = "account_world RoleAdmin w"
  obtain w1 where reset: "ResetPassword demo_auth ''reset'' ''one'' ?w = (Inr (), w1)"
    and w1: "faults w1 = []" "clock w1 (tick w1) \<le> one_hour"
    by (simp add: ResetPassword_def user_FindByResetToken_def user_find_def user_Update_def HashPassword_def expired_def now_def demo_defs)
  moreover have "find (\<lambda>u. u_ResetToken u = Some ''reset'') (users ?w) = Some (demo_user RoleAdmin)"
    "u_ResetTokenExpiry (demo_user RoleAdmin) = Some one_hour"
    by (simp_all add: account_world_def demo_user_def)
  moreover have "\<exists>h. as_hash demo_auth n p = Inr h" for n p by (simp add: demo_auth_def)
  ultimately show "\<exists>w1. ResetPassword demo_auth ''reset'' ''one'' ?w = (Inr (), w1) \<and>
      fst (ResetPassword demo_auth ''reset'' ''two'' w1) = Inr ()"
    using reset_token_reusable [OF demo_users_ok reset w1(1), of "''two''"] by blast
qed

theorem invitation_accepted_once_witness:
  "\<forall>w. \<exists>x w1. AcceptInvitation demo_auth ''invite'' ''one'' (account_world RoleAdmin w) = (Inr x, w1) \<and>
     users (snd (AcceptInvitation demo_auth ''invite'' ''two'' w1)) = users w1"
proof
  fix w
  obtain x w1 where "AcceptInvitation demo_auth ''invite'' ''one'' (account_world RoleAdmin w) = (Inr x, w1)"
    by (simp add: AcceptInvitation_def user_FindByInviteToken_def user_find_def user_Update_def HashPassword_def
        GenerateToken_def GenerateTokenWithEmployee_def now_def NumericDate_def Let_def demo_defs)
  then show "\<exists>x w1. AcceptInvitation demo_auth ''invite'' ''one'' (account_world RoleAdmin w) = (Inr x, w1) \<and>
      users (snd (AcceptInvitation demo_auth ''invite'' ''two'' w1)) = users w1"
    using invitation_accepted_once by blast
qed

end
