(* ===== verification/Calendar.thy ===== *)
theory Calendar
  imports Domain
begin

text \<open>
  The calendar functions of Go's package \<^verbatim>\<open>time\<close> that the services use: weekday, year and month
  of an instant in its zone, and \<^verbatim>\<open>AddDate\<close>. Days are counted from 1 January 1970, and
  civil dates in years that begin in March, so that a leap day comes last.
\<close>

section \<open>Days\<close>

text \<open>
  A \<^verbatim>\<open>time.Time\<close> is its instant in nanoseconds and the offset of its zone in
  seconds. Adding a day in a fixed zone adds 24 hours.
\<close>

definition day_length :: int where
  "day_length = 24 * 3600 * 1000000000"

definition local_day :: "zoned \<Rightarrow> int" where
  "local_day = (\<lambda>(t, z). (t + z * 1000000000) div day_length)"

text \<open>\<^verbatim>\<open>Weekday\<close>: Sunday is 0, and day 0 was a Thursday.\<close>

definition Weekday :: "zoned \<Rightarrow> int" where
  "Weekday d = (local_day d + 4) mod 7"

section \<open>Civil dates\<close>

text \<open>Year of the era, day of the year and month, all counted from March.\<close>

definition year_of_era :: "int \<Rightarrow> int" where
  "year_of_era doe = (doe - doe div 1460 + doe div 36524 - doe div 146096) div 365"

definition day_of_year :: "int \<Rightarrow> int" where
  "day_of_year doe = (let yoe = year_of_era doe in doe - (365 * yoe + yoe div 4 - yoe div 100))"

definition civil :: "int \<Rightarrow> int \<times> int \<times> int" where
  "civil day =
     (let z = day + 719468; era = z div 146097; doe = z mod 146097; doy = day_of_year doe;
          mp = (5 * doy + 2) div 153; d = doy - (153 * mp + 2) div 5 + 1; m = (if mp < 10 then mp + 3 else mp - 9)
      in (year_of_era doe + 400 * era + (if m \<le> 2 then 1 else 0), m, d))"

definition days_of_civil :: "int \<Rightarrow> int \<Rightarrow> int \<Rightarrow> int" where
  "days_of_civil year m d =
     (let y = (if m \<le> 2 then year - 1 else year); era = y div 400; yoe = y mod 400;
          mp = (if m > 2 then m - 3 else m + 9); doy = (153 * mp + 2) div 5 + d - 1;
          doe = yoe * 365 + yoe div 4 - yoe div 100 + doy
      in era * 146097 + doe - 719468)"

definition Year :: "zoned \<Rightarrow> int" where
  "Year t = fst (civil (local_day t))"

definition Month :: "zoned \<Rightarrow> int" where
  "Month t = fst (snd (civil (local_day t)))"

text \<open>
  \<^verbatim>\<open>AddDate\<close> adds to year, month and day and lets \<^verbatim>\<open>Date\<close> carry what
  overflows; the time of the day stays. Servers run in UTC.
\<close>

definition AddDate :: "int \<Rightarrow> int \<Rightarrow> int \<Rightarrow> int \<Rightarrow> int" where
  "AddDate years months days t =
     (case civil (local_day (t, 0)) of (y, m, d) \<Rightarrow>
        (let month = m - 1 + months
         in (days_of_civil (y + years + month div 12) (month mod 12 + 1) 1 + (d - 1 + days)) * day_length + t mod day_length))"

section \<open>Lemmas\<close>

text \<open>Leap days, the ends of months and of years, and days before 1970.\<close>

lemma civil_samples:
  "civil 0 = (1970, 1, 1)" "civil (- 1) = (1969, 12, 31)" "civil 11016 = (2000, 2, 29)" "civil 19723 = (2024, 1, 1)"
  "civil 19782 = (2024, 2, 29)" "civil 20088 = (2024, 12, 31)" "civil 47540 = (2100, 2, 28)" "civil 47541 = (2100, 3, 1)"
  by code_simp+

lemma days_of_civil_samples:
  "days_of_civil 1970 1 1 = 0" "days_of_civil 1969 12 31 = - 1" "days_of_civil 2000 2 29 = 11016"
  "days_of_civil 2024 1 1 = 19723" "days_of_civil 2024 12 31 = 20088" "days_of_civil 2100 3 1 = 47541"
  by code_simp+

text \<open>One month after 31 January 2024 is 31 February, which is 2 March.\<close>

lemma AddDate_sample: "AddDate 0 1 0 (19753 * day_length + 5) = 19784 * day_length + 5"
  by code_simp

lemma local_day_shift: "local_day (t + int k * day_length, z) = local_day (t, z) + int k"
proof -
  have "(t + z * 1000000000 + int k * day_length) div day_length = (t + z * 1000000000) div day_length + int k"
    by (simp add: day_length_def)
  then show ?thesis by (simp add: local_day_def algebra_simps)
qed

end
