(* ===== verification/Leave.thy ===== *)
theory Leave
  imports Wallet_Service Calendar
begin

text \<open>
  Leave of employees: requests, their approval against the balance of the year, and the count
  of business days (\<^verbatim>\<open>internal/service/leave_service.go\<close>,
  \<^verbatim>\<open>internal/repository/postgres/leave_repo.go\<close>).
\<close>

section \<open>Business days\<close>

definition is_business_day :: "zoned \<Rightarrow> bool" where
  "is_business_day d \<longleftrightarrow> Weekday d \<noteq> 6 \<and> Weekday d \<noteq> 0"

function count_from :: "int \<Rightarrow> zoned \<Rightarrow> int" where
  "count_from finish d =
     (if finish < fst d then 0
      else (if is_business_day d then 1 else 0) + count_from finish (fst d + day_length, snd d))"
  by pat_completeness auto

termination
  by (relation "measure (\<lambda>(finish, d). nat (finish + 1 - fst d))") (auto simp: day_length_def)

declare count_from.simps [simp del]

definition countBusinessDays :: "zoned \<Rightarrow> zoned \<Rightarrow> int" where
  "countBusinessDays start finish = count_from (fst finish) start"

section \<open>The tables\<close>

text \<open>The column has the default true, which the mapper writes for the zero value false.\<close>

definition leaveType_Create :: "leave_type \<Rightarrow> world \<Rightarrow> leave_type res \<times> world" where
  "leaveType_Create lt = statement (\<lambda>w.
     (let lt = lt\<lparr>lt_ID := Suc (length (leave_types w)), lt_RequiresApproval := True\<rparr> in (Inr lt, w\<lparr>leave_types := leave_types w @ [lt]\<rparr>)))"

definition leaveType_FindByID :: "nat \<Rightarrow> world \<Rightarrow> leave_type res \<times> world" where
  "leaveType_FindByID i = statement (\<lambda>w.
     (case find (\<lambda>lt. lt_ID lt = i) (leave_types w) of
        None \<Rightarrow> (Inl (Sentinel ErrNotFound), w) | Some lt \<Rightarrow> (Inr lt, w)))"

definition leaveType_FindByBusinessID :: "nat \<Rightarrow> world \<Rightarrow> leave_type list res \<times> world" where
  "leaveType_FindByBusinessID bid = statement (\<lambda>w. (Inr (filter (\<lambda>lt. lt_BusinessID lt = bid) (leave_types w)), w))"

definition leaveRequest_Create :: "leave_request \<Rightarrow> world \<Rightarrow> leave_request res \<times> world" where
  "leaveRequest_Create q = statement (\<lambda>w.
     (let q = q\<lparr>lq_ID := Suc (length (leave_requests w))\<rparr> in (Inr q, w\<lparr>leave_requests := leave_requests w @ [q]\<rparr>)))"

definition leaveRequest_FindByID :: "nat \<Rightarrow> world \<Rightarrow> leave_request res \<times> world" where
  "leaveRequest_FindByID i = statement (\<lambda>w.
     (case find (\<lambda>q. lq_ID q = i) (leave_requests w) of
        None \<Rightarrow> (Inl (Sentinel ErrNotFound), w) | Some q \<Rightarrow> (Inr q, w)))"

text \<open>Newest first; an error of the count is dropped, and the total is then 0.\<close>

definition leaveRequest_FindByBusinessID ::
  "nat \<Rightarrow> nat \<Rightarrow> nat \<Rightarrow> world \<Rightarrow> (leave_request list \<times> nat) res \<times> world" where
  "leaveRequest_FindByBusinessID bid page limit w =
     (let rows = (\<lambda>w. filter (\<lambda>q. lq_BusinessID q = bid) (rev (leave_requests w)));
          (count, w) = statement (\<lambda>w. (Inr (length (rows w)), w)) w;
          total = (case count of Inl _ \<Rightarrow> 0 | Inr n \<Rightarrow> n)
      in statement (\<lambda>w. (Inr (take limit (drop ((page - 1) * limit) (rows w)), total), w)) w)"

definition leaveRequest_Update :: "leave_request \<Rightarrow> world \<Rightarrow> unit res \<times> world" where
  "leaveRequest_Update q = statement (\<lambda>w.
     (Inr (), w\<lparr>leave_requests := map (\<lambda>r. if lq_ID r = lq_ID q then q else r) (leave_requests w)\<rparr>))"

definition same_balance :: "nat \<Rightarrow> nat \<Rightarrow> int \<Rightarrow> leave_balance \<Rightarrow> bool" where
  "same_balance emp k year b \<longleftrightarrow> lb_EmployeeID b = emp \<and> lb_LeaveTypeID b = k \<and> lb_Year b = year"

definition leaveBalance_Create :: "leave_balance \<Rightarrow> world \<Rightarrow> unit res \<times> world" where
  "leaveBalance_Create b = statement (\<lambda>w.
     (if \<exists>c \<in> set (leave_balances w). same_balance (lb_EmployeeID b) (lb_LeaveTypeID b) (lb_Year b) c
      then (Inl (Plain ''duplicate key value violates unique constraint''), w)
      else (Inr (), w\<lparr>leave_balances := leave_balances w @ [b\<lparr>lb_ID := Suc (length (leave_balances w))\<rparr>]\<rparr>)))"

definition leaveBalance_Find :: "nat \<Rightarrow> nat \<Rightarrow> int \<Rightarrow> world \<Rightarrow> leave_balance res \<times> world" where
  "leaveBalance_Find emp k year = statement (\<lambda>w.
     (case find (same_balance emp k year) (leave_balances w) of
        None \<Rightarrow> (Inl (Sentinel ErrNotFound), w) | Some b \<Rightarrow> (Inr b, w)))"

definition leaveBalance_FindByEmployee :: "nat \<Rightarrow> int \<Rightarrow> world \<Rightarrow> leave_balance list res \<times> world" where
  "leaveBalance_FindByEmployee emp year = statement (\<lambda>w.
     (Inr (filter (\<lambda>b. lb_EmployeeID b = emp \<and> lb_Year b = year) (leave_balances w)), w))"

definition leaveBalance_Update :: "leave_balance \<Rightarrow> world \<Rightarrow> unit res \<times> world" where
  "leaveBalance_Update b = statement (\<lambda>w.
     (Inr (), w\<lparr>leave_balances := map (\<lambda>c. if lb_ID c = lb_ID b then b else c) (leave_balances w)\<rparr>))"

section \<open>The service\<close>

definition CreateLeaveType :: "leave_type \<Rightarrow> world \<Rightarrow> leave_type res \<times> world" where
  "CreateLeaveType lt w =
     attempt (leaveType_Create lt w)
       (\<lambda>e w. (Inl (Wrap ''failed to create leave type: '' e []), w)) (\<lambda>lt w. (Inr lt, w))"

definition ListLeaveTypes :: "nat \<Rightarrow> world \<Rightarrow> leave_type list res \<times> world" where
  "ListLeaveTypes bid w = leaveType_FindByBusinessID bid w"

text \<open>The balance of the year; without one, that of the leave type, which it tries to store.\<close>

definition balance_for :: "leave_request \<Rightarrow> world \<Rightarrow> leave_balance res \<times> world" where
  "balance_for q w =
     attempt (leaveBalance_Find (lq_EmployeeID q) (lq_LeaveTypeID q) (Year (lq_StartDate q)) w)
       (\<lambda>_ w. attempt (leaveType_FindByID (lq_LeaveTypeID q) w)
          (\<lambda>_ w. (Inl (Sentinel ErrNotFound), w))
          (\<lambda>lt w. (let b = \<lparr>lb_ID = 0, lb_EmployeeID = lq_EmployeeID q, lb_LeaveTypeID = lq_LeaveTypeID q,
                           lb_Year = Year (lq_StartDate q), lb_Entitled = lt_DefaultDays lt, lb_Used = 0,
                           lb_Remaining = lt_DefaultDays lt\<rparr>;
                       (_, w) = leaveBalance_Create b w
                   in (Inr b, w))))
       (\<lambda>b w. (Inr b, w))"

definition balance_error :: "string \<Rightarrow> leave_balance \<Rightarrow> leave_request \<Rightarrow> gerror" where
  "balance_error what b q = Wrap [] (Sentinel ErrValidationFailed)
     ('': insufficient leave balance'' @ what @ '' (remaining: '' @ show_int (lb_Remaining b) @ '', requested: '' @
      show_int (lq_Days q) @ '')'')"

definition SubmitRequest :: "leave_request \<Rightarrow> world \<Rightarrow> leave_request res \<times> world" where
  "SubmitRequest q w =
     (if fst (lq_EndDate q) < fst (lq_StartDate q)
      then (Inl (Wrap [] (Sentinel ErrValidationFailed) '': end date must be after start date''), w)
      else
        (let q = (if lq_Days q \<le> 0 then q\<lparr>lq_Days := countBusinessDays (lq_StartDate q) (lq_EndDate q)\<rparr> else q)
         in if lq_Days q \<le> 0
            then (Inl (Wrap [] (Sentinel ErrValidationFailed) '': leave must be at least 1 business day''), w)
            else attempt (balance_for q w)
                   (\<lambda>e w. (Inl e, w))
                   (\<lambda>b w.
                      if lb_Remaining b < lq_Days q then (Inl (balance_error [] b q), w)
                      else attempt (leaveRequest_Create (q\<lparr>lq_Status := ''pending''\<rparr>) w)
                             (\<lambda>e w. (Inl (Wrap ''failed to submit leave request: '' e []), w)) (\<lambda>q w. (Inr q, w)))))"

definition ListRequests :: "nat \<Rightarrow> int \<Rightarrow> int \<Rightarrow> world \<Rightarrow> (leave_request list \<times> nat) res \<times> world" where
  "ListRequests bid page limit w =
     leaveRequest_FindByBusinessID bid (if page \<le> 0 then 1 else nat page) (if limit \<le> 0 then 20 else nat limit) w"

definition take_days :: "leave_request \<Rightarrow> leave_balance \<Rightarrow> leave_balance" where
  "take_days q b =
     (let used = add64 (lb_Used b) (lq_Days q)
      in b\<lparr>lb_Used := used, lb_Remaining := sub64 (lb_Entitled b) used\<rparr>)"

definition ApproveRequest :: "nat \<Rightarrow> nat \<Rightarrow> world \<Rightarrow> unit res \<times> world" where
  "ApproveRequest i approverID w =
     attempt (leaveRequest_FindByID i w)
       (\<lambda>_ w. (Inl (Sentinel ErrNotFound), w))
       (\<lambda>q w.
          if lq_Status q \<noteq> ''pending''
          then (Inl (Wrap [] (Sentinel ErrValidationFailed) '': can only approve pending requests''), w)
          else attempt (leaveBalance_Find (lq_EmployeeID q) (lq_LeaveTypeID q) (Year (lq_StartDate q)) w)
                 (\<lambda>e w. (Inl (Wrap ''leave balance not found: '' e []), w))
                 (\<lambda>b w.
                    if lb_Remaining b < lq_Days q then (Inl (balance_error '' at approval time'' b q), w)
                    else attempt (leaveRequest_Update (q\<lparr>lq_Status := ''approved'', lq_ApprovedByID := Some approverID\<rparr>) w)
                           (\<lambda>e w. (Inl e, w)) (\<lambda>_ w. leaveBalance_Update (take_days q b) w)))"

definition RejectRequest :: "nat \<Rightarrow> nat \<Rightarrow> string \<Rightarrow> world \<Rightarrow> unit res \<times> world" where
  "RejectRequest i approverID reason w =
     attempt (leaveRequest_FindByID i w)
       (\<lambda>_ w. (Inl (Sentinel ErrNotFound), w))
       (\<lambda>q w.
          if lq_Status q \<noteq> ''pending''
          then (Inl (Wrap [] (Sentinel ErrValidationFailed) '': can only reject pending requests''), w)
          else leaveRequest_Update (q\<lparr>lq_Status := ''rejected'', lq_ApprovedByID := Some approverID, lq_Reason := reason\<rparr>) w)"

text \<open>The current year is that of the clock in UTC.\<close>

definition leave_GetBalance :: "nat \<Rightarrow> int \<Rightarrow> world \<Rightarrow> leave_balance list res \<times> world" where
  "leave_GetBalance emp year w =
     (let (year, w) = (if year = 0 then (let (time, w) = now w in (Year (time, 0), w)) else (year, w))
      in leaveBalance_FindByEmployee emp year w)"

section \<open>Counting business days\<close>

definition workday :: "int \<Rightarrow> nat \<Rightarrow> bool" where
  "workday wd k \<longleftrightarrow> (wd + int k) mod 7 \<noteq> 6 \<and> (wd + int k) mod 7 \<noteq> 0"

text \<open>The business days among \<open>n\<close> days of which the first has weekday \<open>wd\<close>.\<close>

definition workdays :: "int \<Rightarrow> nat \<Rightarrow> int" where
  "workdays wd n = (\<Sum>k < n. if workday wd k then 1 else 0)"

lemma business_day_shift: "is_business_day (t + int k * day_length, z) \<longleftrightarrow> workday (Weekday (t, z)) k"
proof -
  have "(local_day (t, z) + int k + 4) mod 7 = ((local_day (t, z) + 4) mod 7 + int k) mod 7"
    by (simp add: mod_simps algebra_simps)
  then show ?thesis by (simp add: is_business_day_def Weekday_def workday_def local_day_shift)
qed

lemma workday_Suc: "workday wd (Suc k) = workday (wd + 1) k"
  by (simp add: workday_def algebra_simps)

lemma workdays_Suc: "workdays wd (Suc n) = (if workday wd 0 then 1 else 0) + workdays (wd + 1) n"
  unfolding workdays_def by (subst sum.lessThan_Suc_shift) (simp add: workday_Suc)

lemma workdays_mod: "workdays (wd mod 7) n = workdays wd n"
  by (simp add: workdays_def workday_def mod_simps)

lemma count_from_workdays:
  assumes "n = (if finish < t then 0 else Suc (nat ((finish - t) div day_length)))"
  shows "count_from finish (t, z) = workdays (Weekday (t, z)) n"
  using assms
proof (induction n arbitrary: t)
  case 0
  then have "finish < t" by (simp split: if_splits)
  then show ?case by (subst count_from.simps) (simp add: workdays_def)
next
  case (Suc n)
  then have le: "t \<le> finish" and n: "n = nat ((finish - t) div day_length)" by (simp_all split: if_splits)
  have "n = (if finish < t + day_length then 0 else Suc (nat ((finish - (t + day_length)) div day_length)))"
  proof (cases "finish < t + day_length")
    case True
    then show ?thesis using le n by (simp add: div_pos_pos_trivial)
  next
    case False
    have "(finish - t) div day_length = (finish - (t + day_length)) div day_length + 1"
      using div_add_self2 [of day_length "finish - (t + day_length)"] by (simp add: day_length_def)
    moreover have "0 \<le> (finish - (t + day_length)) div day_length"
      using False by (intro pos_imp_zdiv_nonneg_iff [THEN iffD2]) (simp_all add: day_length_def)
    ultimately show ?thesis using False n by simp
  qed
  from Suc.IH [OF this] have "count_from finish (t + day_length, z) = workdays (Weekday (t + day_length, z)) n" .
  moreover have "Weekday (t + day_length, z) = (Weekday (t, z) + 1) mod 7"
    using local_day_shift [of t 1 z] by (simp add: Weekday_def mod_simps algebra_simps)
  ultimately show ?case
    using le business_day_shift [of t 0 z] by (subst count_from.simps) (simp add: workdays_Suc workdays_mod)
qed

lemma workdays_week: "workdays wd (7 + n) = 5 + workdays wd n"
proof -
  have "workdays wd 7 = 5"
  proof -
    have week: "\<forall>d \<in> {0, 1, 2, 3, 4, 5, 6}. workdays d 7 = 5" by code_simp
    have "wd mod 7 = 0 \<or> wd mod 7 = 1 \<or> wd mod 7 = 2 \<or> wd mod 7 = 3 \<or> wd mod 7 = 4 \<or> wd mod 7 = 5 \<or> wd mod 7 = 6"
      by presburger
    then have "workdays (wd mod 7) 7 = 5" using week by (elim disjE) (simp_all only: ball_simps simp_thms)
    then show ?thesis by (simp only: workdays_mod)
  qed
  moreover have "workdays wd (m + n) = workdays wd m + workdays (wd + int m) n" for m
    by (induction m arbitrary: wd) (simp_all add: workdays_Suc workdays_def [of _ 0] algebra_simps)
  moreover have "workdays (wd + 7) n = workdays wd n"
    using workdays_mod [of "wd + 7" n] workdays_mod [of wd n] by simp
  ultimately show ?thesis by simp
qed

lemma workdays_weeks: "workdays wd (7 * k + n) = 5 * int k + workdays wd n"
proof (induction k)
  case (Suc k)
  have "7 * Suc k + n = 7 + (7 * k + n)" by simp
  then show ?case using Suc by (simp only: workdays_week)
qed simp


section \<open>The leave book\<close>

text \<open>The days approved for an employee, a leave type and a year.\<close>

definition approved_days :: "nat \<Rightarrow> nat \<Rightarrow> int \<Rightarrow> leave_request list \<Rightarrow> int" where
  "approved_days emp k year qs =
     (\<Sum>q\<leftarrow>filter (\<lambda>q. lq_Status q = ''approved'' \<and> lq_EmployeeID q = emp \<and> lq_LeaveTypeID q = k \<and>
        Year (lq_StartDate q) = year) qs. lq_Days q)"

abbreviation days_of :: "leave_balance \<Rightarrow> leave_request list \<Rightarrow> int" where
  "days_of b \<equiv> approved_days (lb_EmployeeID b) (lb_LeaveTypeID b) (lb_Year b)"

definition balance_ok :: "leave_balance \<Rightarrow> bool" where
  "balance_ok b \<longleftrightarrow> 0 \<le> lb_Used b \<and> 0 \<le> lb_Remaining b \<and> lb_Used b + lb_Remaining b = lb_Entitled b \<and> in64 (lb_Entitled b)"

definition balance_key :: "leave_balance \<Rightarrow> nat \<times> nat \<times> int" where
  "balance_key b = (lb_EmployeeID b, lb_LeaveTypeID b, lb_Year b)"

definition leave_ok :: "world \<Rightarrow> bool" where
  "leave_ok w \<longleftrightarrow>
     (\<forall>lt \<in> set (leave_types w). 0 \<le> lt_DefaultDays lt \<and> in64 (lt_DefaultDays lt)) \<and>
     (\<forall>q \<in> set (leave_requests w). 0 < lq_Days q) \<and>
     (\<forall>b \<in> set (leave_balances w). balance_ok b \<and> lb_Used b \<le> days_of b (leave_requests w)) \<and>
     distinct (map balance_key (leave_balances w)) \<and>
     numbered lb_ID (leave_balances w) \<and> numbered lq_ID (leave_requests w)"

lemma leave_ok_faults [simp]: "leave_ok (w\<lparr>faults := fs\<rparr>) = leave_ok w"
  by (simp add: leave_ok_def)

lemma leave_ok_writes [simp]:
  "leave_ok (w\<lparr>faults := fs, leave_types := a\<rparr>) = leave_ok (w\<lparr>leave_types := a\<rparr>)"
  "leave_ok (w\<lparr>faults := fs, leave_requests := b\<rparr>) = leave_ok (w\<lparr>leave_requests := b\<rparr>)"
  "leave_ok (w\<lparr>faults := fs, leave_balances := c\<rparr>) = leave_ok (w\<lparr>leave_balances := c\<rparr>)"
  "leave_ok (w\<lparr>faults := fs, leave_requests := b, leave_balances := c\<rparr>) = leave_ok (w\<lparr>leave_requests := b, leave_balances := c\<rparr>)"
  by (simp_all add: leave_ok_def)

lemma same_balance_key: "same_balance emp k year b \<longleftrightarrow> balance_key b = (emp, k, year)"
  by (simp add: same_balance_def balance_key_def)

lemma approved_days_Cons:
  "approved_days emp k year (q # qs) =
     (if lq_Status q = ''approved'' \<and> lq_EmployeeID q = emp \<and> lq_LeaveTypeID q = k \<and> Year (lq_StartDate q) = year
      then lq_Days q else 0) + approved_days emp k year qs"
  by (simp add: approved_days_def)

lemma approved_days_Nil [simp]: "approved_days emp k year [] = 0"
  by (simp add: approved_days_def)

lemma approved_days_append [simp]:
  "approved_days emp k year (qs @ rs) = approved_days emp k year qs + approved_days emp k year rs"
  by (simp add: approved_days_def)

lemma approved_days_pending [simp]: "lq_Status q \<noteq> ''approved'' \<Longrightarrow> approved_days emp k year [q] = 0"
  by (simp add: approved_days_def)

text \<open>Settling a pending request adds its days when it is approved.\<close>

definition settled :: "leave_request \<Rightarrow> leave_request list \<Rightarrow> leave_request list" where
  "settled q qs = map (\<lambda>r. if lq_ID r = lq_ID q then q else r) qs"

lemma settled_other: "lq_ID q \<notin> lq_ID ` set qs \<Longrightarrow> settled q qs = qs"
  unfolding settled_def by (rule map_idI) (metis image_eqI)

lemma approved_days_settled:
  assumes "distinct (map lq_ID qs)" and "q \<in> set qs" and "lq_Status q \<noteq> ''approved''" and "lq_ID r = lq_ID q"
  shows "approved_days emp k year (settled r qs) = approved_days emp k year [r] + approved_days emp k year qs"
  using assms(1,2)
proof (induction qs)
  case (Cons p qs)
  show ?case
  proof (cases "p = q")
    case True
    then have "settled r qs = qs" using Cons.prems assms(4) by (intro settled_other) auto
    then show ?thesis using True assms(3,4) by (simp add: settled_def approved_days_Cons)
  next
    case False
    then have "lq_ID p \<noteq> lq_ID r" "q \<in> set qs" using Cons.prems assms(4) by auto
    then show ?thesis using Cons by (simp add: settled_def approved_days_Cons)
  qed
qed simp


lemmas wp_leave_reads =
  wp_find [where rows = leave_types and f = "\<lambda>_ x. x" and p = "\<lambda>lt. lt_ID lt = i" and e = "Sentinel ErrNotFound" for i,
    folded leaveType_FindByID_def, simplified]
  wp_find [where rows = leave_requests and f = "\<lambda>_ x. x" and p = "\<lambda>q. lq_ID q = i" and e = "Sentinel ErrNotFound" for i,
    folded leaveRequest_FindByID_def, simplified]
  wp_find [where rows = leave_balances and f = "\<lambda>_ x. x" and p = "same_balance emp k year" and e = "Sentinel ErrNotFound"
    for emp k year, folded leaveBalance_Find_def, simplified]

lemma wp_leaveType_Create:
  assumes "\<And>fs. Q (Inl db_error) (w\<lparr>faults := fs\<rparr>)"
    and "\<And>fs r. r = lt\<lparr>lt_ID := Suc (length (leave_types w)), lt_RequiresApproval := True\<rparr> \<Longrightarrow> Q (Inr r) (w\<lparr>faults := fs, leave_types := leave_types w @ [r]\<rparr>)"
  shows "post Q (leaveType_Create lt w)"
  unfolding leaveType_Create_def using assms by (intro wp_statement) (simp_all add: Let_def)

lemma wp_leaveRequest_Create:
  assumes "\<And>fs. Q (Inl db_error) (w\<lparr>faults := fs\<rparr>)"
    and "\<And>fs r. r = q\<lparr>lq_ID := Suc (length (leave_requests w))\<rparr> \<Longrightarrow>
           Q (Inr r) (w\<lparr>faults := fs, leave_requests := leave_requests w @ [r]\<rparr>)"
  shows "post Q (leaveRequest_Create q w)"
  unfolding leaveRequest_Create_def using assms by (intro wp_statement) (simp_all add: Let_def)

lemma wp_leaveRequest_Update:
  assumes "\<And>fs. Q (Inl db_error) (w\<lparr>faults := fs\<rparr>)"
    and "\<And>fs. Q (Inr ()) (w\<lparr>faults := fs, leave_requests := settled q (leave_requests w)\<rparr>)"
  shows "post Q (leaveRequest_Update q w)"
  unfolding leaveRequest_Update_def using assms by (intro wp_statement) (simp_all add: settled_def)

lemma wp_leaveBalance_Create:
  assumes "\<And>e fs. Q (Inl e) (w\<lparr>faults := fs\<rparr>)"
    and "\<And>fs. balance_key b \<notin> balance_key ` set (leave_balances w) \<Longrightarrow>
           Q (Inr ()) (w\<lparr>faults := fs, leave_balances := leave_balances w @ [b\<lparr>lb_ID := Suc (length (leave_balances w))\<rparr>]\<rparr>)"
  shows "post Q (leaveBalance_Create b w)"
  unfolding leaveBalance_Create_def
  using assms by (intro wp_statement) (auto simp: same_balance_key balance_key_def [of b] image_iff eq_commute [of _ "balance_key _"])

lemma wp_leaveBalance_Update:
  assumes "\<And>fs. Q (Inl db_error) (w\<lparr>faults := fs\<rparr>)"
    and "\<And>fs. Q (Inr ()) (w\<lparr>faults := fs, leave_balances := map (\<lambda>c. if lb_ID c = lb_ID b then b else c) (leave_balances w)\<rparr>)"
  shows "post Q (leaveBalance_Update b w)"
  unfolding leaveBalance_Update_def using assms by (intro wp_statement) simp_all

lemmas leave_wp = wp_leave_reads wp_leaveType_Create wp_leaveRequest_Create wp_leaveRequest_Update
  wp_leaveBalance_Create wp_leaveBalance_Update

lemma approved_days_nonneg: "\<forall>q \<in> set qs. 0 < lq_Days q \<Longrightarrow> 0 \<le> approved_days emp k year qs"
  by (induction qs) (auto simp: approved_days_Cons)

lemma leave_ok_type:
  "leave_ok w \<Longrightarrow> 0 \<le> lt_DefaultDays lt \<Longrightarrow> in64 (lt_DefaultDays lt) \<Longrightarrow>
   leave_ok (w\<lparr>leave_types := leave_types w @ [lt]\<rparr>)"
  by (simp add: leave_ok_def)

lemma leave_ok_request:
  assumes "leave_ok w" and "0 < lq_Days q" and "lq_ID q = Suc (length (leave_requests w))" and "lq_Status q = ''pending''"
  shows "leave_ok (w\<lparr>leave_requests := leave_requests w @ [q]\<rparr>)"
  using assms by (auto simp: leave_ok_def)

lemma leave_ok_balance:
  assumes "leave_ok w" and "balance_ok b" and "lb_Used b = 0" and "balance_key b \<notin> balance_key ` set (leave_balances w)"
    and "lb_ID b = Suc (length (leave_balances w))"
  shows "leave_ok (w\<lparr>leave_balances := leave_balances w @ [b]\<rparr>)"
  using assms by (auto simp: leave_ok_def intro: approved_days_nonneg)

lemma leave_ok_settled:
  assumes ok: "leave_ok w" and q: "q \<in> set (leave_requests w)" "lq_Status q = ''pending''"
    and r: "lq_ID r = lq_ID q" "0 < lq_Days r"
  shows "leave_ok (w\<lparr>leave_requests := settled r (leave_requests w)\<rparr>)"
proof -
  have "distinct (map lq_ID (leave_requests w))" using ok by (auto simp: leave_ok_def intro: numbered_distinct)
  then have eq: "approved_days emp k year (settled r (leave_requests w)) =
      approved_days emp k year [r] + approved_days emp k year (leave_requests w)" for emp k year
    using q r by (intro approved_days_settled [where q = q]) auto
  have "0 \<le> approved_days emp k year [r]" for emp k year using r by (simp add: approved_days_nonneg)
  then have "lb_Used b \<le> days_of b (leave_requests w) \<Longrightarrow> lb_Used b \<le> days_of b (settled r (leave_requests w))" for b
    unfolding eq by (rule add_increasing)
  moreover have "numbered lq_ID (settled r (leave_requests w))"
    using ok by (simp add: leave_ok_def settled_def numbered_replace)
  moreover have "\<forall>p \<in> set (settled r (leave_requests w)). 0 < lq_Days p"
    using ok r by (auto simp: leave_ok_def settled_def)
  ultimately show ?thesis using ok by (simp add: leave_ok_def)
qed


text \<open>Taking no more days than remain keeps a balance in order, without overflow.\<close>

lemma take_days_ok:
  assumes "balance_ok b" and "0 < lq_Days q" and "lq_Days q \<le> lb_Remaining b"
  shows "balance_ok (take_days q b)" "lb_Used (take_days q b) = lb_Used b + lq_Days q"
proof -
  have "in64 (lb_Used b + lq_Days q)" "in64 (lb_Entitled b - (lb_Used b + lq_Days q))"
    using assms by (auto simp: balance_ok_def in64_def)
  then have [simp]: "add64 (lb_Used b) (lq_Days q) = lb_Used b + lq_Days q"
    "sub64 (lb_Entitled b) (lb_Used b + lq_Days q) = lb_Entitled b - (lb_Used b + lq_Days q)"
    by (simp_all add: add64_def sub64_def wrap64_id)
  show "balance_ok (take_days q b)" "lb_Used (take_days q b) = lb_Used b + lq_Days q"
    using assms by (auto simp: take_days_def balance_ok_def Let_def)
qed

lemma take_days_key [simp]:
  "balance_key (take_days q b) = balance_key b" "lb_ID (take_days q b) = lb_ID b"
  "lb_EmployeeID (take_days q b) = lb_EmployeeID b" "lb_LeaveTypeID (take_days q b) = lb_LeaveTypeID b"
  "lb_Year (take_days q b) = lb_Year b" "lb_Entitled (take_days q b) = lb_Entitled b"
  by (simp_all add: take_days_def balance_key_def Let_def)

lemma leave_ok_taken:
  assumes ok: "leave_ok w" and b: "b \<in> set (leave_balances w)" and new: "lb_ID c = lb_ID b" "balance_key c = balance_key b"
    and c: "balance_ok c" "lb_Used c \<le> days_of c (leave_requests w)"
  shows "leave_ok (w\<lparr>leave_balances := map (\<lambda>d. if lb_ID d = lb_ID c then c else d) (leave_balances w)\<rparr>)"
proof -
  have "d = b" if "d \<in> set (leave_balances w)" "lb_ID d = lb_ID b" for d
    using ok b that numbered_distinct [of lb_ID "leave_balances w"]
    by (auto simp: leave_ok_def distinct_map inj_on_def)
  then have "map balance_key (map (\<lambda>d. if lb_ID d = lb_ID c then c else d) (leave_balances w)) =
      map balance_key (leave_balances w)"
    using new by auto
  then show ?thesis using ok c by (auto simp: leave_ok_def numbered_replace simp del: map_map)
qed


lemma days_of_settled:
  assumes "leave_ok w" and "q \<in> set (leave_requests w)" "lq_Status q = ''pending''"
    and "r = q\<lparr>lq_Status := ''approved'', lq_ApprovedByID := a\<rparr>"
  shows "approved_days emp k year (settled r (leave_requests w)) = approved_days emp k year (leave_requests w) +
     (if (emp, k, year) = (lq_EmployeeID q, lq_LeaveTypeID q, Year (lq_StartDate q)) then lq_Days q else 0)"
  using assms approved_days_settled [of "leave_requests w" q r emp k year]
  by (auto simp: leave_ok_def numbered_distinct approved_days_Cons)

lemma leave_ok_approved:
  assumes ok: "leave_ok w" and q: "q \<in> set (leave_requests w)" "lq_Status q = ''pending''"
    and b: "b \<in> set (leave_balances w)" "same_balance (lq_EmployeeID q) (lq_LeaveTypeID q) (Year (lq_StartDate q)) b"
    and days: "lq_Days q \<le> lb_Remaining b"
    and r: "r = q\<lparr>lq_Status := ''approved'', lq_ApprovedByID := a\<rparr>"
  shows "leave_ok (w\<lparr>leave_requests := settled r (leave_requests w),
    leave_balances := map (\<lambda>c. if lb_ID c = lb_ID (take_days q b) then take_days q b else c) (leave_balances w)\<rparr>)"
proof -
  let ?w = "w\<lparr>leave_requests := settled r (leave_requests w)\<rparr>"
  have pos: "0 < lq_Days q" and bal: "balance_ok b" and used: "lb_Used b \<le> days_of b (leave_requests w)"
    using ok q b by (auto simp: leave_ok_def)
  have "leave_ok ?w" using ok q r pos by (intro leave_ok_settled [where q = q]) auto
  moreover have "lb_Used (take_days q b) \<le> days_of (take_days q b) (leave_requests ?w)"
    using days_of_settled [OF ok q r] b(2) used take_days_ok(2) [OF bal pos days] by (simp add: same_balance_def)
  ultimately have "leave_ok (?w\<lparr>leave_balances :=
      map (\<lambda>d. if lb_ID d = lb_ID (take_days q b) then take_days q b else d) (leave_balances ?w)\<rparr>)"
    using b take_days_ok(1) [OF bal pos days] by (intro leave_ok_taken [where b = b]) auto
  then show ?thesis by (simp add: take_days_key)
qed

lemma SubmitRequest_ok: "leave_ok w \<Longrightarrow> leave_ok (snd (SubmitRequest q w))"
proof -
  assume ok: "leave_ok w"
  have new: "balance_ok \<lparr>lb_ID = i, lb_EmployeeID = emp, lb_LeaveTypeID = k, lb_Year = y, lb_Entitled = lt_DefaultDays lt,
      lb_Used = 0, lb_Remaining = lt_DefaultDays lt\<rparr>" if "lt \<in> set (leave_types w)" for i emp k y lt
    using ok that by (auto simp: leave_ok_def balance_ok_def)
  have "post (\<lambda>_. leave_ok) (balance_for q w)" for q
    unfolding balance_for_def Let_def
    using ok by (auto intro!: wp leave_wp leave_ok_balance new simp: balance_key_def)
  then have bal: "post (\<lambda>_ w. leave_ok w) (balance_for q w)" for q .
  have "post (\<lambda>_. leave_ok) (SubmitRequest q w)"
    unfolding SubmitRequest_def Let_def
    using ok by (auto intro!: wp bal [THEN post_mono] leave_wp leave_ok_request)
  then show ?thesis by (simp add: post_def)
qed

lemma ApproveRequest_ok: "leave_ok w \<Longrightarrow> leave_ok (snd (ApproveRequest i a w))"
proof -
  assume ok: "leave_ok w"
  have "post (\<lambda>_. leave_ok) (ApproveRequest i a w)"
    unfolding ApproveRequest_def
    using ok by (auto intro!: wp leave_wp leave_ok_settled leave_ok_approved simp: leave_ok_def [of w] simp del: take_days_key(2))
  then show ?thesis by (simp add: post_def)
qed

lemma RejectRequest_ok: "leave_ok w \<Longrightarrow> leave_ok (snd (RejectRequest i a reason w))"
proof -
  assume ok: "leave_ok w"
  have "post (\<lambda>_. leave_ok) (RejectRequest i a reason w)"
    unfolding RejectRequest_def
    using ok by (auto intro!: wp leave_wp leave_ok_settled simp: leave_ok_def [of w])
  then show ?thesis by (simp add: post_def)
qed

lemma CreateLeaveType_ok:
  "leave_ok w \<Longrightarrow> 0 \<le> lt_DefaultDays lt \<Longrightarrow> in64 (lt_DefaultDays lt) \<Longrightarrow> leave_ok (snd (CreateLeaveType lt w))"
proof -
  assume ok: "leave_ok w" and days: "0 \<le> lt_DefaultDays lt" "in64 (lt_DefaultDays lt)"
  have "post (\<lambda>_. leave_ok) (CreateLeaveType lt w)"
    unfolding CreateLeaveType_def using ok days by (auto intro!: wp leave_wp leave_ok_type)
  then show ?thesis by (simp add: post_def)
qed


section \<open>What the book promises\<close>

text \<open>The operations of the service, with any arguments; a leave type grants no negative days.\<close>

inductive leave_step :: "world \<Rightarrow> world \<Rightarrow> bool" where
  leave_type: "0 \<le> lt_DefaultDays lt \<Longrightarrow> in64 (lt_DefaultDays lt) \<Longrightarrow> leave_step w (snd (CreateLeaveType lt w))"
| leave_submit: "leave_step w (snd (SubmitRequest q w))"
| leave_approve: "leave_step w (snd (ApproveRequest i a w))"
| leave_reject: "leave_step w (snd (RejectRequest i a reason w))"
| leave_environment: "leave_step w (w\<lparr>faults := fs, clock := clk, tick := n\<rparr>)"

lemma leave_step_ok: "leave_step w w' \<Longrightarrow> leave_ok w \<Longrightarrow> leave_ok w'"
  by (induction rule: leave_step.induct)
    (simp_all add: CreateLeaveType_ok SubmitRequest_ok ApproveRequest_ok RejectRequest_ok, simp add: leave_ok_def)

lemma leave_steps_ok: "leave_step\<^sup>*\<^sup>* w w' \<Longrightarrow> leave_ok w \<Longrightarrow> leave_ok w'"
  by (induction rule: rtranclp_induct) (auto intro: leave_step_ok)

text \<open>A request that is no longer pending never is again.\<close>

definition closed_request :: "nat \<Rightarrow> world \<Rightarrow> bool" where
  "closed_request i w \<longleftrightarrow> i \<in> lq_ID ` set (leave_requests w) \<and>
     (\<forall>q \<in> set (leave_requests w). lq_ID q = i \<longrightarrow> lq_Status q \<noteq> ''pending'')"

lemma closed_writes [simp]:
  "closed_request i (w\<lparr>faults := fs\<rparr>) = closed_request i w"
  "closed_request i (w\<lparr>faults := fs, leave_types := a\<rparr>) = closed_request i w"
  "closed_request i (w\<lparr>faults := fs, leave_balances := c\<rparr>) = closed_request i w"
  "closed_request i (w\<lparr>faults := fs, leave_requests := b\<rparr>) = closed_request i (w\<lparr>leave_requests := b\<rparr>)"
  "closed_request i (w\<lparr>faults := fs, leave_requests := b, leave_balances := c\<rparr>) = closed_request i (w\<lparr>leave_requests := b\<rparr>)"
  by (simp_all add: closed_request_def)

lemma settled_ids [simp]: "lq_ID ` set (settled q qs) = lq_ID ` set qs"
  unfolding settled_def set_map image_image by (rule image_cong) simp_all

lemma closed_settled:
  "closed_request i w \<Longrightarrow> lq_Status q \<noteq> ''pending'' \<Longrightarrow> closed_request i (w\<lparr>leave_requests := settled q (leave_requests w)\<rparr>)"
  by (auto simp: closed_request_def settled_ids) (auto simp: settled_def split: if_splits)

lemma closed_new:
  "numbered lq_ID (leave_requests w) \<Longrightarrow> closed_request i w \<Longrightarrow> lq_ID q = Suc (length (leave_requests w)) \<Longrightarrow>
   closed_request i (w\<lparr>leave_requests := leave_requests w @ [q]\<rparr>)"
proof -
  assume "numbered lq_ID (leave_requests w)" and c: "closed_request i w" and q: "lq_ID q = Suc (length (leave_requests w))"
  then have "lq_ID ` set (leave_requests w) = {1..<Suc (length (leave_requests w))}"
    by (metis numbered_def set_map set_upt)
  then have "Suc (length (leave_requests w)) \<notin> lq_ID ` set (leave_requests w)" by simp
  then have "i \<noteq> lq_ID q" using c q unfolding closed_request_def by metis
  then show ?thesis using c by (auto simp: closed_request_def)
qed

lemma numbered_requests: "leave_ok w \<Longrightarrow> numbered lq_ID (leave_requests w)"
  by (simp add: leave_ok_def)

lemma closed_stays:
  assumes "leave_ok w" and "closed_request i w"
  shows "closed_request i (snd (CreateLeaveType lt w))" "closed_request i (snd (SubmitRequest q w))"
    "closed_request i (snd (ApproveRequest j a w))" "closed_request i (snd (RejectRequest j a reason w))"
proof -
  note ids = numbered_requests [OF assms(1)]
  have bal: "post (\<lambda>_ w'. closed_request i w' \<and> numbered lq_ID (leave_requests w')) (balance_for q w)" for q
    unfolding balance_for_def Let_def using assms ids by (auto intro!: wp leave_wp)
  have "post (\<lambda>_. closed_request i) (CreateLeaveType lt w)"
    unfolding CreateLeaveType_def using assms by (auto intro!: wp leave_wp)
  moreover have "post (\<lambda>_. closed_request i) (SubmitRequest q w)"
    unfolding SubmitRequest_def Let_def
    using assms ids by (auto intro!: wp bal [THEN post_mono] leave_wp closed_new)
  moreover have "post (\<lambda>_. closed_request i) (ApproveRequest j a w)"
    unfolding ApproveRequest_def using assms by (auto intro!: wp leave_wp closed_settled)
  moreover have "post (\<lambda>_. closed_request i) (RejectRequest j a reason w)"
    unfolding RejectRequest_def using assms by (auto intro!: wp leave_wp closed_settled)
  ultimately show "closed_request i (snd (CreateLeaveType lt w))" "closed_request i (snd (SubmitRequest q w))"
    "closed_request i (snd (ApproveRequest j a w))" "closed_request i (snd (RejectRequest j a reason w))"
    by (simp_all add: post_def)
qed

lemma closed_step: "leave_step w w' \<Longrightarrow> leave_ok w \<Longrightarrow> closed_request i w \<Longrightarrow> closed_request i w'"
  by (induction rule: leave_step.induct) (simp_all add: closed_stays, simp add: closed_request_def)

lemma closed_steps: "leave_step\<^sup>*\<^sup>* w w' \<Longrightarrow> leave_ok w \<Longrightarrow> closed_request i w \<Longrightarrow> closed_request i w'"
  by (induction rule: rtranclp_induct) (auto intro: closed_step leave_steps_ok)

text \<open>A closed request is refused, and an approval leaves nothing half done but a lost update.\<close>

lemma closed_refused: "closed_request i w \<Longrightarrow> fst (ApproveRequest i a w) \<noteq> Inr () \<and>
    leave_balances (snd (ApproveRequest i a w)) = leave_balances w"
proof -
  assume c: "closed_request i w"
  have "post (\<lambda>r w'. r \<noteq> Inr () \<and> leave_balances w' = leave_balances w) (ApproveRequest i a w)"
    unfolding ApproveRequest_def using c by (auto intro!: wp leave_wp simp: closed_request_def)
  then show ?thesis by (simp add: post_def)
qed

lemma approved_effect:
  assumes "ApproveRequest i a w = (Inr (), w')"
  shows "\<exists>q b. q \<in> set (leave_requests w) \<and> lq_ID q = i \<and> lq_Status q = ''pending'' \<and>
    b \<in> set (leave_balances w) \<and> same_balance (lq_EmployeeID q) (lq_LeaveTypeID q) (Year (lq_StartDate q)) b \<and>
    lq_Days q \<le> lb_Remaining b \<and>
    leave_balances w' = map (\<lambda>c. if lb_ID c = lb_ID b then take_days q b else c) (leave_balances w) \<and>
    leave_requests w' = settled (q\<lparr>lq_Status := ''approved'', lq_ApprovedByID := Some a\<rparr>) (leave_requests w)"
    (is "?P w'")
proof -
  have "post (\<lambda>r w'. r = Inr () \<longrightarrow> ?P w') (ApproveRequest i a w)"
    unfolding ApproveRequest_def by (auto intro!: wp leave_wp) (metis not_le)
  from postD [OF this assms] show ?thesis by simp
qed


lemma workdays_card: "workdays wd n = int (card {k. k < n \<and> workday wd k})"
proof -
  have "workdays wd n = (\<Sum>k \<in> {k \<in> {..<n}. workday wd k}. 1)"
    unfolding workdays_def by (subst sum.inter_filter) simp_all
  then show ?thesis by (simp add: conj_commute)
qed

text \<open>
  The business days of a leave are counted exactly. The loop over the dates returns the
  number of days from the start, in steps of 24 hours up to the end, that are neither Saturday nor
  Sunday, which is five for each full week and those of the last days.
\<close>

theorem business_days_exact:
  assumes "fst start \<le> fst finish" and "n = Suc (nat ((fst finish - fst start) div day_length))"
  shows "countBusinessDays start finish =
      int (card {k. k < n \<and> is_business_day (fst start + int k * day_length, snd start)}) \<and>
    countBusinessDays start finish = 5 * int (n div 7) + workdays (Weekday start) (n mod 7)"
proof -
  obtain t z where [simp]: "start = (t, z)" by (cases start)
  have eq: "countBusinessDays start finish = workdays (Weekday start) n"
    using assms count_from_workdays [of n "fst finish" t z] by (simp add: countBusinessDays_def)
  moreover have "workdays (Weekday start) n = 5 * int (n div 7) + workdays (Weekday start) (n mod 7)"
    using workdays_weeks [of "Weekday start" "n div 7" "n mod 7"] by simp
  ultimately show ?thesis by (simp add: workdays_card business_day_shift)
qed

text \<open>Monday 1 January 2024 to Friday 12 January, at midnight in Lagos.\<close>

definition lagos_day :: "int \<Rightarrow> zoned" where
  "lagos_day n = (n * day_length - 3600 * 1000000000, 3600)"

theorem business_days_exact_witness:
  "countBusinessDays (lagos_day 19723) (lagos_day 19734) = 10"
proof -
  have "12 = Suc (nat ((fst (lagos_day 19734) - fst (lagos_day 19723)) div day_length))"
    by (simp add: lagos_day_def day_length_def)
  from business_days_exact [OF _ this] have "countBusinessDays (lagos_day 19723) (lagos_day 19734) =
      5 * int (12 div 7) + workdays (Weekday (lagos_day 19723)) (12 mod 7)"
    by (simp add: lagos_day_def day_length_def)
  also have "\<dots> = 10" by code_simp
  finally show ?thesis .
qed

definition annual_leave :: leave_type where
  "annual_leave = \<lparr>lt_ID = 1, lt_BusinessID = 1, lt_Name = ''Annual'', lt_DefaultDays = 20, lt_RequiresApproval = True\<rparr>"

definition sample_leave :: leave_request where
  "sample_leave = \<lparr>lq_ID = 1, lq_EmployeeID = 1, lq_BusinessID = 1, lq_LeaveTypeID = 1, lq_StartDate = lagos_day 19723,
     lq_EndDate = lagos_day 19734, lq_Days = 10, lq_Reason = [], lq_Status = ''pending'', lq_ApprovedByID = None\<rparr>"

definition leave_world :: "bool list \<Rightarrow> world" where
  "leave_world fs = sample_world\<lparr>leave_types := [annual_leave], leave_requests := [sample_leave],
     leave_balances := [\<lparr>lb_ID = 1, lb_EmployeeID = 1, lb_LeaveTypeID = 1, lb_Year = 2024, lb_Entitled = 20,
       lb_Used = 0, lb_Remaining = 20\<rparr>], faults := fs\<rparr>"

lemma leave_world_ok: "leave_ok (leave_world fs)"
  by (simp add: leave_ok_def leave_world_def annual_leave_def sample_leave_def balance_ok_def approved_days_def
      numbered_def in64_def)

lemma sample_leave_year: "Year (lq_StartDate sample_leave) = 2024"
  by code_simp

text \<open>
  The leave book is consistent. Through any requests, approvals, rejections and new leave
  types, with any faults of the database, no balance is overdrawn or overflows, used and remaining days
  add up to the entitlement, there is one balance for an employee, a leave type and a year, and no days
  are deducted that were not approved.
\<close>

theorem leave_book_consistent:
  assumes "leave_step\<^sup>*\<^sup>* v w" and "leave_ok v"
  shows "leave_ok w"
  using assms by (rule leave_steps_ok)

theorem leave_book_consistent_witness:
  "leave_ok (snd (ApproveRequest 1 7 (leave_world [False, True])))"
  by (rule leave_book_consistent [OF _ leave_world_ok]) (rule r_into_rtranclp, rule leave_approve)

text \<open>
  Approved leave is deducted once. An approval that succeeds concerns a pending request
  whose days remain, and moves exactly these days from remaining to used on the one balance of that
  employee, leave type and year; whatever the service does afterwards, approving the request again is
  refused and deducts nothing.
\<close>

theorem leave_taken_once:
  assumes "leave_ok v" and "ApproveRequest i a v = (Inr (), w)" and "leave_step\<^sup>*\<^sup>* w w'"
  shows "(\<exists>q \<in> set (leave_requests v). \<exists>b \<in> set (leave_balances v).
      lq_ID q = i \<and> lq_Status q = ''pending'' \<and> lq_Days q \<le> lb_Remaining b \<and>
      balance_key b = (lq_EmployeeID q, lq_LeaveTypeID q, Year (lq_StartDate q)) \<and>
      leave_balances w = map (\<lambda>c. if lb_ID c = lb_ID b
        then b\<lparr>lb_Used := lb_Used b + lq_Days q, lb_Remaining := lb_Remaining b - lq_Days q\<rparr> else c) (leave_balances v)) \<and>
    fst (ApproveRequest i a' w') \<noteq> Inr () \<and> leave_balances (snd (ApproveRequest i a' w')) = leave_balances w'"
proof -
  obtain q b where q: "q \<in> set (leave_requests v)" "lq_ID q = i" "lq_Status q = ''pending''"
    and b: "b \<in> set (leave_balances v)" "same_balance (lq_EmployeeID q) (lq_LeaveTypeID q) (Year (lq_StartDate q)) b"
      "lq_Days q \<le> lb_Remaining b"
    and w: "leave_balances w = map (\<lambda>c. if lb_ID c = lb_ID b then take_days q b else c) (leave_balances v)"
      "leave_requests w = settled (q\<lparr>lq_Status := ''approved'', lq_ApprovedByID := Some a\<rparr>) (leave_requests v)"
    using approved_effect [OF assms(2)] by blast
  have bal: "balance_ok b" and pos: "0 < lq_Days q" using assms(1) q b by (auto simp: leave_ok_def)
  note ok = take_days_ok [OF bal pos b(3)]
  have "take_days q b = b\<lparr>lb_Used := lb_Used b + lq_Days q, lb_Remaining := lb_Remaining b - lq_Days q\<rparr>"
    using ok bal by (auto simp: take_days_def Let_def balance_ok_def)
  moreover have "closed_request i w"
    using q w(2) by (auto simp: closed_request_def) (auto simp: settled_def split: if_splits)
  moreover have "leave_ok w" using ApproveRequest_ok [OF assms(1), of i a] assms(2) by simp
  ultimately show ?thesis
    using closed_refused [OF closed_steps [OF assms(3)]] q b w(1) by (auto simp: same_balance_key)
qed

lemma leave_world_approved:
  "ApproveRequest 1 7 (leave_world []) = (Inr (), snd (ApproveRequest 1 7 (leave_world [])))"
proof -
  have "fst (ApproveRequest 1 7 (leave_world [])) = Inr ()" by code_simp
  then show ?thesis by (intro prod_eqI) simp_all
qed

theorem leave_taken_once_witness:
  "fst (ApproveRequest 1 8 (snd (ApproveRequest 1 7 (leave_world [])))) \<noteq> Inr ()"
  using leave_taken_once [OF leave_world_ok leave_world_approved rtranclp.rtrancl_refl, of 8] by blast

text \<open>
  A failing write splits an approval. The request is stored as approved before its days are
  taken, without a transaction: when the last statement fails, the caller gets an error, the request
  is approved, no balance has changed, and approving it again is refused.
\<close>

theorem approval_without_deduction:
  assumes "leaveRequest_FindByID i (w\<lparr>faults := []\<rparr>) = (Inr q, w\<lparr>faults := []\<rparr>)" and "lq_Status q = ''pending''"
    and "leaveBalance_Find (lq_EmployeeID q) (lq_LeaveTypeID q) (Year (lq_StartDate q)) (w\<lparr>faults := []\<rparr>) =
      (Inr b, w\<lparr>faults := []\<rparr>)"
    and "lq_Days q \<le> lb_Remaining b" and "faults w = [False, False, False, True]"
    and "ApproveRequest i a w = (r, w')"
  shows "r = Inl db_error \<and> leave_balances w' = leave_balances w \<and>
    q\<lparr>lq_Status := ''approved'', lq_ApprovedByID := Some a\<rparr> \<in> set (leave_requests w') \<and>
    fst (ApproveRequest i a w') = Inl (Wrap [] (Sentinel ErrValidationFailed) '': can only approve pending requests'')"
proof -
  have q: "find (\<lambda>q. lq_ID q = i) (leave_requests w) = Some q"
    and b: "find (same_balance (lq_EmployeeID q) (lq_LeaveTypeID q) (Year (lq_StartDate q))) (leave_balances w) = Some b"
    using assms(1,3) by (auto simp: leaveRequest_FindByID_def leaveBalance_Find_def split: option.splits)
  let ?q = "q\<lparr>lq_Status := ''approved'', lq_ApprovedByID := Some a\<rparr>"
  have w': "r = Inl db_error" "w' = w\<lparr>faults := [], leave_requests := settled ?q (leave_requests w)\<rparr>"
    using assms(2,4,5,6) q b
    by (auto simp: ApproveRequest_def leaveRequest_FindByID_def leaveBalance_Find_def leaveRequest_Update_def
        leaveBalance_Update_def statement_def fault_def settled_def cong: if_cong)
  have "find (\<lambda>p. lq_ID p = i) (settled ?q qs) = Some ?q" if "find (\<lambda>q. lq_ID q = i) qs = Some q" for qs
    using that by (induction qs) (auto simp: settled_def split: if_splits)
  from this [OF q] show ?thesis
    using w' by (auto simp: ApproveRequest_def leaveRequest_FindByID_def dest: find_SomeD)
qed

theorem approval_without_deduction_witness:
  "leave_balances (snd (ApproveRequest 1 7 (leave_world [False, False, False, True]))) = leave_balances (leave_world [])"
  using approval_without_deduction [where i = 1 and a = 7 and w = "leave_world [False, False, False, True]" and q = sample_leave
      and b = "hd (leave_balances (leave_world []))"
      and r = "fst (ApproveRequest 1 7 (leave_world [False, False, False, True]))"
      and w' = "snd (ApproveRequest 1 7 (leave_world [False, False, False, True]))"]
  by (simp add: leave_world_def sample_leave_year leaveRequest_FindByID_def leaveBalance_Find_def same_balance_def)
    (simp add: sample_leave_def)

end
