(* ===== verification/Json.thy ===== *)
theory Json
  imports Domain
begin

text \<open>
  JSON documents as the handlers read them (\<^verbatim>\<open>encoding/json\<close>): the text of a request is
  parsed into a value; a number keeps its literal, which the fields that read it convert; an object
  keeps its members in order with their duplicates. A field of a struct takes the members whose name
  is equal up to case, in order. Text is a string of bytes; the replacement of invalid UTF-8 is not
  modelled.
\<close>

datatype json = JNull | JBool bool | JNumber string | JString string | JArray "json list"
  | JObject "(string \<times> json) list"

section \<open>Parsing\<close>

definition skip_ws :: "string \<Rightarrow> string" where
  "skip_ws = dropWhile (\<lambda>c. of_char c \<in> {32, 9, 10, 13 :: nat})"

definition is_char :: "nat \<Rightarrow> char \<Rightarrow> bool" where
  "is_char n c \<longleftrightarrow> of_char c = n"

definition hex_val :: "char \<Rightarrow> int option" where
  "hex_val c = (let n = of_char c :: int in
     if 48 \<le> n \<and> n \<le> 57 then Some (n - 48) else if 65 \<le> n \<and> n \<le> 70 then Some (n - 55)
     else if 97 \<le> n \<and> n \<le> 102 then Some (n - 87) else None)"

definition hex4 :: "string \<Rightarrow> int option" where
  "hex4 s = (case map hex_val (take 4 s) of
     [Some a, Some b, Some c, Some d] \<Rightarrow> Some (4096 * a + 256 * b + 16 * c + d) | _ \<Rightarrow> None)"

definition utf8 :: "int \<Rightarrow> string" where
  "utf8 n =
     (if n < 128 then [char_of n]
      else if n < 2048 then [char_of (192 + n div 64), char_of (128 + n mod 64)]
      else if n < 65536 then [char_of (224 + n div 4096), char_of (128 + n div 64 mod 64), char_of (128 + n mod 64)]
      else [char_of (240 + n div 262144), char_of (128 + n div 4096 mod 64), char_of (128 + n div 64 mod 64),
            char_of (128 + n mod 64)])"

text \<open>The character an escape stands for, and how much of the text after the backslash it takes.\<close>

definition escape :: "string \<Rightarrow> (string \<times> nat) option" where
  "escape s =
     (case s of [] \<Rightarrow> None
      | c # r \<Rightarrow>
          if of_char c \<in> {34, 92, 47 :: nat} then Some ([c], 1)
          else if is_char 98 c then Some ([char_of (8 :: nat)], 1) else if is_char 102 c then Some ([char_of (12 :: nat)], 1)
          else if is_char 110 c then Some ([char_of (10 :: nat)], 1) else if is_char 114 c then Some ([char_of (13 :: nat)], 1)
          else if is_char 116 c then Some ([char_of (9 :: nat)], 1)
          else if \<not> is_char 117 c then None
          else (case hex4 r of None \<Rightarrow> None
            | Some n \<Rightarrow>
                if n < 55296 \<or> 57343 < n then Some (utf8 n, 5)
                else (case (take 2 (drop 4 r), hex4 (drop 6 r)) of
                    ([b, u], Some m) \<Rightarrow>
                      if is_char 92 b \<and> is_char 117 u \<and> n < 56320 \<and> 56320 \<le> m \<and> m \<le> 57343
                      then Some (utf8 (65536 + 1024 * (n - 55296) + (m - 56320)), 11) else Some (utf8 65533, 5)
                  | _ \<Rightarrow> Some (utf8 65533, 5))))"

text \<open>The rest of a string literal, after the opening quote.\<close>

function pstr :: "string \<Rightarrow> (string \<times> string) option" where
  "pstr s =
     (case s of [] \<Rightarrow> None
      | c # r \<Rightarrow>
          if is_char 34 c then Some ([], r)
          else if (of_char c :: nat) < 32 then None
          else if \<not> is_char 92 c then map_option (\<lambda>(x, t). (c # x, t)) (pstr r)
          else (case escape r of None \<Rightarrow> None
            | Some (x, n) \<Rightarrow> map_option (\<lambda>(y, t). (x @ y, t)) (pstr (drop n r))))"
  by pat_completeness auto

termination
  by (relation "measure length") auto

declare pstr.simps [simp del]

text \<open>A number literal.\<close>

definition pfraction :: "string \<Rightarrow> (string \<times> string) option" where
  "pfraction s =
     (case s of [] \<Rightarrow> Some ([], s)
      | c # r \<Rightarrow> if \<not> is_char 46 c then Some ([], s)
          else (let d = takeWhile is_digit r in if d = [] then None else Some (c # d, dropWhile is_digit r)))"

definition pexponent :: "string \<Rightarrow> (string \<times> string) option" where
  "pexponent s =
     (case s of [] \<Rightarrow> Some ([], s)
      | c # r \<Rightarrow> if \<not> (is_char 101 c \<or> is_char 69 c) then Some ([], s)
          else (let g = takeWhile (\<lambda>x. is_char 43 x \<or> is_char 45 x) (take 1 r); t = drop (length g) r;
                    d = takeWhile is_digit t
                in if d = [] then None else Some (c # g @ d, dropWhile is_digit t)))"

definition pnumber :: "string \<Rightarrow> (string \<times> string) option" where
  "pnumber s =
     (let m = takeWhile (is_char 45) (take 1 s); r = drop (length m) s;
          d = (if has_prefix r ''0'' then ''0'' else takeWhile is_digit r)
      in if d = [] then None
         else case pfraction (drop (length d) r) of None \<Rightarrow> None
           | Some (f, t) \<Rightarrow> (case pexponent t of None \<Rightarrow> None | Some (e, u) \<Rightarrow> Some (m @ d @ f @ e, u)))"

text \<open>
  Values. The members of an object carry the text of their value as well. A level of nesting takes two
  steps and reads at least one character, so fuel above twice the length of the text is never used up
  (\<open>fuel_enough\<close>).
\<close>

fun pvalue :: "nat \<Rightarrow> string \<Rightarrow> (json \<times> string) option"
and pelements :: "nat \<Rightarrow> string \<Rightarrow> (json list \<times> string) option"
and pmembers :: "nat \<Rightarrow> string \<Rightarrow> ((string \<times> json \<times> string) list \<times> string) option" where
  "pvalue 0 s = None"
| "pvalue (Suc n) s =
     (case skip_ws s of [] \<Rightarrow> None
      | c # r \<Rightarrow>
          if is_char 123 c then
            (if has_prefix (skip_ws r) ''}'' then Some (JObject [], tl (skip_ws r))
             else map_option (\<lambda>(ms, t). (JObject (map (\<lambda>(k, v, _). (k, v)) ms), t)) (pmembers n r))
          else if is_char 91 c then
            (if has_prefix (skip_ws r) '']'' then Some (JArray [], tl (skip_ws r))
             else map_option (\<lambda>(vs, t). (JArray vs, t)) (pelements n r))
          else if is_char 34 c then map_option (\<lambda>(x, t). (JString x, t)) (pstr r)
          else if has_prefix (c # r) ''true'' then Some (JBool True, drop 3 r)
          else if has_prefix (c # r) ''false'' then Some (JBool False, drop 4 r)
          else if has_prefix (c # r) ''null'' then Some (JNull, drop 3 r)
          else map_option (\<lambda>(x, t). (JNumber x, t)) (pnumber (c # r)))"
| "pelements 0 s = None"
| "pelements (Suc n) s =
     (case pvalue n s of None \<Rightarrow> None
      | Some (v, t) \<Rightarrow>
          (case skip_ws t of [] \<Rightarrow> None
           | c # u \<Rightarrow> if is_char 44 c then map_option (\<lambda>(vs, x). (v # vs, x)) (pelements n u)
               else if is_char 93 c then Some ([v], u) else None))"
| "pmembers 0 s = None"
| "pmembers (Suc n) s =
     (case skip_ws s of [] \<Rightarrow> None
      | q # r \<Rightarrow> if \<not> is_char 34 q then None
          else (case pstr r of None \<Rightarrow> None
            | Some (k, t) \<Rightarrow>
                (case skip_ws t of [] \<Rightarrow> None
                 | c # u \<Rightarrow> if \<not> is_char 58 c then None
                     else (case pvalue n u of None \<Rightarrow> None
                       | Some (v, x) \<Rightarrow>
                           (let m = (k, v, take (length (skip_ws u) - length x) (skip_ws u))
                            in case skip_ws x of [] \<Rightarrow> None
                               | d # y \<Rightarrow> if is_char 44 d then map_option (\<lambda>(ms, z). (m # ms, z)) (pmembers n y)
                                   else if is_char 125 d then Some ([m], y) else None)))))"

text \<open>
  \<^verbatim>\<open>Unmarshal\<close> takes the whole text, a \<^verbatim>\<open>Decoder\<close> the first value of it.
\<close>

definition fuel :: "string \<Rightarrow> nat" where
  "fuel s = 2 * length s + 2"

definition decode_json :: "string \<Rightarrow> json option" where
  "decode_json s = map_option fst (pvalue (fuel s) s)"

definition unmarshal :: "string \<Rightarrow> json option" where
  "unmarshal s = (case pvalue (fuel s) s of Some (v, t) \<Rightarrow> if skip_ws t = [] then Some v else None | None \<Rightarrow> None)"

text \<open>The members of the object a text holds, with the text of their values.\<close>

definition raw_members :: "string \<Rightarrow> (string \<times> json \<times> string) list" where
  "raw_members s =
     (case skip_ws s of c # r \<Rightarrow>
        if is_char 123 c then (case pmembers (fuel r) r of Some (ms, _) \<Rightarrow> ms | None \<Rightarrow> []) else []
      | [] \<Rightarrow> [])"

section \<open>The fuel is enough\<close>

lemma length_skip_ws: "length (skip_ws s) \<le> length s"
  by (simp add: skip_ws_def length_dropWhile_le)

lemma pstr_shorter: "pstr s = Some (x, t) \<Longrightarrow> length t < length s"
proof (induction s arbitrary: x t rule: pstr.induct)
  case (1 s)
  show ?case
  proof (cases s)
    case Nil
    then show ?thesis using 1(3) pstr.simps [of "[]"] by simp
  next
    case (Cons c r)
    show ?thesis
    proof (cases "is_char 34 c \<or> (of_char c :: nat) < 32")
      case True
      then show ?thesis using 1(3) Cons by (auto simp: pstr.simps [of "c # r"] split: if_splits)
    next
      case False
      show ?thesis
      proof (cases "is_char 92 c")
        case True
        then obtain y n z where "escape r = Some (y, n)" "pstr (drop n r) = Some (z, t)"
          using 1(3) Cons False by (auto simp: pstr.simps [of "c # r"] split: option.splits)
        then show ?thesis using 1(2) Cons False True by fastforce
      next
        case False': False
        then obtain z where "pstr r = Some (z, t)" using 1(3) Cons False by (auto simp: pstr.simps [of "c # r"])
        then show ?thesis using 1(1) Cons False False' by fastforce
      qed
    qed
  qed
qed

lemma pnumber_shorter: "pnumber s = Some (x, t) \<Longrightarrow> length t < length s"
proof -
  have frac: "length t \<le> length s" if "pfraction s = Some (x, t)" for s x t
    using that length_dropWhile_le [of is_digit "tl s"]
    by (auto simp: pfraction_def Let_def split: list.splits if_splits)
  have expo: "length t \<le> length s" if "pexponent s = Some (x, t)" for s x t
    using that length_dropWhile_le [of is_digit]
    by (auto simp: pexponent_def Let_def split: list.splits if_splits intro: order_trans [OF length_dropWhile_le])
  assume p: "pnumber s = Some (x, t)"
  define r where "r = drop (length (takeWhile (is_char 45) (take 1 s))) s"
  define d where "d = (if has_prefix r ''0'' then ''0'' else takeWhile is_digit r)"
  obtain f u where f: "d \<noteq> []" "pfraction (drop (length d) r) = Some (f, u)" and e: "\<exists>e. pexponent u = Some (e, t)"
    using p unfolding pnumber_def Let_def r_def [symmetric] d_def [symmetric]
    by (simp split: if_splits option.splits prod.splits)
  have "r \<noteq> []" using f(1) by (auto simp: d_def has_prefix_def split: if_splits)
  then have "length (drop (length d) r) < length r" using f(1) by simp
  moreover have "length r \<le> length s" by (simp add: r_def)
  ultimately show ?thesis using frac [OF f(2)] e expo by fastforce
qed

text \<open>What a step of the parser has read.\<close>

lemma pelements_step:
  assumes "pelements (Suc n) s = Some (vs, t)"
  obtains v t0 c u where "pvalue n s = Some (v, t0)" and "skip_ws t0 = c # u"
    and "t = u \<or> is_char 44 c \<and> (\<exists>vs'. pelements n u = Some (vs', t))"
  using assms by (auto split: option.splits list.splits if_splits prod.splits)

lemma pmembers_step:
  assumes "pmembers (Suc n) s = Some (ms, t)"
  obtains q r k t0 c u v x d y where "skip_ws s = q # r" and "pstr r = Some (k, t0)" and "skip_ws t0 = c # u"
    and "pvalue n u = Some (v, x)" and "skip_ws x = d # y"
    and "t = y \<or> is_char 44 d \<and> (\<exists>ms'. pmembers n y = Some (ms', t))"
  using assms by (auto simp: Let_def split: option.splits list.splits if_splits prod.splits)

lemma parsed_shorter:
  "(\<forall>s v t. pvalue n s = Some (v, t) \<longrightarrow> length t < length s) \<and>
   (\<forall>s vs t. pelements n s = Some (vs, t) \<longrightarrow> length t < length s) \<and>
   (\<forall>s ms t. pmembers n s = Some (ms, t) \<longrightarrow> length t < length s)"
proof (induction n)
  case (Suc n)
  have "length t < length s" if "pvalue (Suc n) s = Some (v, t)" for s v t
  proof (cases "skip_ws s")
    case (Cons c r)
    have "length (tl (skip_ws r)) \<le> length r" using length_skip_ws [of r] by simp
    then show ?thesis
      using that Suc length_skip_ws [of s] Cons pnumber_shorter [of "c # r"] pstr_shorter [of r]
      by (fastforce split: if_splits)
  qed (use that in simp)
  moreover have "length t < length s" if "pelements (Suc n) s = Some (vs, t)" for s vs t
    using that
  proof (rule pelements_step)
    fix v t0 c u assume "pvalue n s = Some (v, t0)" and t0: "skip_ws t0 = c # u"
      and t: "t = u \<or> is_char 44 c \<and> (\<exists>vs'. pelements n u = Some (vs', t))"
    then have "length t0 < length s" using Suc by blast
    moreover have "length u < length t0" using length_skip_ws [of t0] t0 by simp
    moreover have "length t \<le> length u" using t Suc by (blast intro: less_imp_le_nat)
    ultimately show ?thesis by simp
  qed
  moreover have "length t < length s" if "pmembers (Suc n) s = Some (ms, t)" for s ms t
    using that
  proof (rule pmembers_step)
    fix q r k t0 c u v x d y
    assume s: "skip_ws s = q # r" and r: "pstr r = Some (k, t0)" and t0: "skip_ws t0 = c # u"
      and u: "pvalue n u = Some (v, x)" and x: "skip_ws x = d # y"
      and t: "t = y \<or> is_char 44 d \<and> (\<exists>ms'. pmembers n y = Some (ms', t))"
    have "length x < length u" using u Suc by blast
    moreover have "length t \<le> length y" using t Suc by (blast intro: less_imp_le_nat)
    ultimately show ?thesis
      using length_skip_ws [of s] length_skip_ws [of t0] length_skip_ws [of x] pstr_shorter [OF r] s t0 x by simp
  qed
  ultimately show ?case by blast
qed simp

lemmas pvalue_shorter = parsed_shorter [THEN conjunct1, rule_format]

text \<open>With fuel above the length of the text, more fuel changes nothing.\<close>

lemma fuel_step:
  "(\<forall>s. 2 * length s < n \<longrightarrow> pvalue (Suc n) s = pvalue n s) \<and>
   (\<forall>s. Suc (2 * length s) < n \<longrightarrow> pelements (Suc n) s = pelements n s) \<and>
   (\<forall>s. Suc (2 * length s) < n \<longrightarrow> pmembers (Suc n) s = pmembers n s)"
proof (induction n)
  case (Suc n)
  note shorter = parsed_shorter [THEN conjunct1, rule_format]
  have "pvalue (Suc (Suc n)) s = pvalue (Suc n) s" if "2 * length s < Suc n" for s
  proof (cases "skip_ws s")
    case (Cons c r)
    then have "Suc (2 * length r) < n" using that length_skip_ws [of s] by simp
    then show ?thesis using Suc Cons by (subst (1 2) pvalue.simps) (simp del: pvalue.simps pelements.simps pmembers.simps)
  qed simp
  moreover have "pelements (Suc (Suc n)) s = pelements (Suc n) s" if "Suc (2 * length s) < Suc n" for s
  proof -
    have "pvalue (Suc n) s = pvalue n s" using Suc that by simp
    moreover have "pelements (Suc n) u = pelements n u" if "pvalue n s = Some (v, t)" "skip_ws t = c # u" for v t c u
      using shorter [OF that(1)] length_skip_ws [of t] that(2) \<open>Suc (2 * length s) < Suc n\<close> Suc by simp
    ultimately show ?thesis
      by (subst (1 2) pelements.simps)
        (auto simp del: pvalue.simps pelements.simps pmembers.simps split: option.splits list.splits)
  qed
  moreover have "pmembers (Suc (Suc n)) s = pmembers (Suc n) s" if len: "Suc (2 * length s) < Suc n" for s
  proof -
    have u: "length u < length s" if "skip_ws s = q # r" "pstr r = Some (k, t)" "skip_ws t = c # u" for q r k t c u
      using that length_skip_ws [of s] length_skip_ws [of t] pstr_shorter [of r] by fastforce
    then have "pvalue (Suc n) u = pvalue n u"
      if "skip_ws s = q # r" "pstr r = Some (k, t)" "skip_ws t = c # u" for q r k t c u
      using u [OF that] len Suc by simp
    moreover have "pmembers (Suc n) y = pmembers n y"
      if "skip_ws s = q # r" "pstr r = Some (k, t)" "skip_ws t = c # u" "pvalue n u = Some (v, x)" "skip_ws x = d # y"
      for q r k t c u v x d y
      using u [OF that(1-3)] shorter [OF that(4)] length_skip_ws [of x] that(5) len Suc by simp
    ultimately show ?thesis
      by (subst (1 2) pmembers.simps)
        (auto simp: Let_def simp del: pvalue.simps pelements.simps pmembers.simps split: option.splits list.splits)
  qed
  ultimately show ?case by blast
qed simp

lemma fuel_enough: "fuel s \<le> n \<Longrightarrow> pvalue n s = pvalue (fuel s) s"
proof (induction n rule: dec_induct)
  case (step n)
  then show ?case using fuel_step [of n] by (simp add: fuel_def del: pvalue.simps)
qed simp

lemma sample_document:
  "unmarshal ('' {\"a\" : [1, -2.5e3, true], \"b'' @ [CHR 0x5C] @ ''u0041\":{}} '') =
     Some (JObject [(''a'', JArray [JNumber ''1'', JNumber ''-2.5e3'', JBool True]), (''bA'', JObject [])])"
  by code_simp

section \<open>Reading values\<close>

text \<open>
  A value decoded into \<^verbatim>\<open>map[string]interface{}\<close>: of members with the same name the last
  counts, and every number is converted to float64, which can fail.
\<close>

fun numbers_ok :: "json \<Rightarrow> bool" where
  "numbers_ok (JNumber x) \<longleftrightarrow> parse_float x \<noteq> None"
| "numbers_ok (JArray vs) \<longleftrightarrow> list_all numbers_ok vs"
| "numbers_ok (JObject ms) \<longleftrightarrow> list_all (\<lambda>m. numbers_ok (snd m)) ms"
| "numbers_ok _ \<longleftrightarrow> True"

definition member :: "string \<Rightarrow> (string \<times> json) list \<Rightarrow> json option" where
  "member k ms = map_of (rev ms) k"

text \<open>The type assertions \<^verbatim>\<open>v.(string)\<close> and its kin on such a member.\<close>

definition as_string :: "json option \<Rightarrow> string option" where
  "as_string v = (case v of Some (JString s) \<Rightarrow> Some s | _ \<Rightarrow> None)"

definition as_float :: "json option \<Rightarrow> float64 option" where
  "as_float v = (case v of Some (JNumber x) \<Rightarrow> parse_float x | _ \<Rightarrow> None)"

definition as_object :: "json option \<Rightarrow> (string \<times> json) list option" where
  "as_object v = (case v of Some (JObject ms) \<Rightarrow> Some ms | _ \<Rightarrow> None)"

text \<open>
  A value decoded into a struct: an object, or null, which changes nothing. A field takes all members
  with its name, in order; null leaves it as it is, a value of another type fails the decoding.
\<close>

definition object_members :: "json \<Rightarrow> (string \<times> json) list option" where
  "object_members j = (case j of JObject ms \<Rightarrow> Some ms | JNull \<Rightarrow> Some [] | _ \<Rightarrow> None)"

definition named :: "string \<Rightarrow> (string \<times> json) list \<Rightarrow> json list" where
  "named k ms = map snd (filter (\<lambda>m. to_lower (fst m) = to_lower k) ms)"

definition field :: "(json \<Rightarrow> 'a option) \<Rightarrow> 'a \<Rightarrow> string \<Rightarrow> (string \<times> json) list \<Rightarrow> 'a option" where
  "field f zero k ms =
     (let vs = map f (filter (\<lambda>v. v \<noteq> JNull) (named k ms))
      in if None \<in> set vs then None else if vs = [] then Some zero else last vs)"

definition to_str :: "json \<Rightarrow> string option" where
  "to_str v = as_string (Some v)"

definition to_bool :: "json \<Rightarrow> bool option" where
  "to_bool v = (case v of JBool b \<Rightarrow> Some b | _ \<Rightarrow> None)"

definition to_int64 :: "json \<Rightarrow> int64 option" where
  "to_int64 v = (case v of
     JNumber x \<Rightarrow> (case parse_int x of Some i \<Rightarrow> if in64 i then Some i else None | None \<Rightarrow> None) | _ \<Rightarrow> None)"

definition to_uint :: "json \<Rightarrow> nat option" where
  "to_uint v = (case v of
     JNumber x \<Rightarrow> if x \<noteq> [] \<and> list_all is_digit x \<and> digits_value x < 2 ^ 64 then Some (digits_value x) else None | _ \<Rightarrow> None)"

abbreviation "string_field \<equiv> field to_str []"
abbreviation "bool_field \<equiv> field to_bool False"
abbreviation "int_field \<equiv> field to_int64 0"
abbreviation "uint_field \<equiv> field to_uint 0"

text \<open>A field that is a pointer: null makes it nil again.\<close>

definition pointer :: "(json \<Rightarrow> 'a option) \<Rightarrow> string \<Rightarrow> (string \<times> json) list \<Rightarrow> 'a option option" where
  "pointer f k ms =
     (let vs = named k ms
      in if \<exists>v \<in> set vs. v \<noteq> JNull \<and> f v = None then None
         else if vs = [] \<or> last vs = JNull then Some None else Some (f (last vs)))"

text \<open>A field of type \<^verbatim>\<open>map[string]interface{}\<close>: objects are merged into the map there is.\<close>

fun merge_maps :: "(string \<times> json) list option \<Rightarrow> json list \<Rightarrow> (string \<times> json) list option option" where
  "merge_maps m [] = Some m"
| "merge_maps m (v # vs) =
     (case v of JNull \<Rightarrow> merge_maps None vs
      | JObject ms \<Rightarrow> if numbers_ok v then merge_maps (Some ((case m of None \<Rightarrow> [] | Some old \<Rightarrow> old) @ ms)) vs else None
      | _ \<Rightarrow> None)"

definition map_field :: "string \<Rightarrow> (string \<times> json) list \<Rightarrow> (string \<times> json) list option option" where
  "map_field k ms = merge_maps None (named k ms)"

text \<open>A field of type \<^verbatim>\<open>json.RawMessage\<close>: the text of the last member.\<close>

definition raw_field :: "string \<Rightarrow> string \<Rightarrow> string" where
  "raw_field k s =
     (let vs = filter (\<lambda>m. to_lower (fst m) = to_lower k) (raw_members s)
      in if vs = [] then [] else snd (snd (last vs)))"

text \<open>Decoded integers are of their type.\<close>

lemma field_typed:
  assumes "field f zero k ms = Some x" and "P zero" and "\<And>v y. f v = Some y \<Longrightarrow> P y"
  shows "P x"
proof -
  define vs where "vs = filter (\<lambda>v. v \<noteq> JNull) (named k ms)"
  have "if None \<in> set (map f vs) then False else if map f vs = [] then x = zero else last (map f vs) = Some x"
    using assms(1) by (simp add: field_def Let_def vs_def [symmetric] split: if_splits)
  then show ?thesis using assms(2,3) by (metis last_map list.map_disc_iff)
qed

lemma int_field_in64: "int_field k ms = Some i \<Longrightarrow> in64 i"
  by (rule field_typed [where P = in64]) (auto simp: to_int64_def in64_def split: json.splits option.splits if_splits)

end
