(* ===== verification/Http.thy ===== *)
theory Http
  imports Json Accounts
begin

text \<open>
  Requests and responses: the answers of \<^verbatim>\<open>internal/api/response/response.go\<close>, which give
  an error its status, the parameters handlers read from the URL, and the limits of the middleware
  that depend on the business. A handler is a function of the claims in the context, of its request
  and of the world; what it would encode in the answer it returns as a value.
\<close>

section \<open>Answers (response.go)\<close>

datatype 'a response = Reply nat 'a | Failure nat string "(string \<times> string) list" | Text nat string

fun status :: "'a response \<Rightarrow> nat" where
  "status (Reply s _) = s"
| "status (Failure s _ _) = s"
| "status (Text s _) = s"

definition RespondWithJSON :: "nat \<Rightarrow> 'a \<Rightarrow> 'a response" where
  "RespondWithJSON s x = Reply s x"

text \<open>\<^verbatim>\<open>errors.As\<close> for \<^verbatim>\<open>TransferAmountError\<close>.\<close>

fun as_amount_error :: "gerror \<Rightarrow> (string \<times> int64 \<times> int64 \<times> string) option" where
  "as_amount_error (AmountError amount mn mx m) = Some (amount, mn, mx, m)"
| "as_amount_error (Wrap _ e _) = as_amount_error e"
| "as_amount_error _ = None"

definition error_status :: "gerror \<Rightarrow> nat" where
  "error_status e =
     (if errors_is e ErrNotFound then 404
      else if errors_is e ErrUnauthorized then 401
      else if errors_is e ErrForbidden then 403
      else if errors_is e ErrConflict then 409
      else if errors_is e ErrValidationFailed then 400
      else if errors_is e ErrPaymentGatewayFailed then 502
      else if as_amount_error e \<noteq> None then 400
      else 500)"

definition RespondWithError :: "gerror \<Rightarrow> 'a response" where
  "RespondWithError e =
     (if \<exists>s \<in> {ErrNotFound, ErrUnauthorized, ErrForbidden, ErrConflict, ErrValidationFailed, ErrPaymentGatewayFailed}.
           errors_is e s
      then Failure (error_status e) (err_text e) []
      else case as_amount_error e of
             Some (amount, mn, mx, m) \<Rightarrow>
               Failure (error_status e) m [(''amount'', amount), (''min_amount'', show_int mn), (''max_amount'', show_int mx)]
           | None \<Rightarrow> Failure (error_status e) ''An unexpected error occurred'' [])"

text \<open>A handler that calls a service and answers with the error or the result.\<close>

definition respond :: "'a res \<times> world \<Rightarrow> ('a \<Rightarrow> 'b response) \<Rightarrow> 'b response \<times> world" where
  "respond r f = attempt r (\<lambda>e w. (RespondWithError e, w)) (\<lambda>x w. (f x, w))"

text \<open>A handler that needs claims.\<close>

definition with_claims ::
  "sentinel \<Rightarrow> mw_claims option \<Rightarrow> (mw_claims \<Rightarrow> world \<Rightarrow> 'a response \<times> world) \<Rightarrow> world \<Rightarrow> 'a response \<times> world" where
  "with_claims e claims h w = (case claims of None \<Rightarrow> (RespondWithError (Sentinel e), w) | Some c \<Rightarrow> h c w)"

section \<open>Parameters\<close>

text \<open>
  \<^verbatim>\<open>strconv.Atoi\<close> with its error dropped: 0 for what is no number, the nearest int for
  what is out of range; \<^verbatim>\<open>ParseUint(s, 10, 32)\<close>.
\<close>

definition atoi :: "string \<Rightarrow> int64" where
  "atoi s = (case parse_int s of None \<Rightarrow> 0 | Some i \<Rightarrow> max min_int64 (min i 9223372036854775807))"

definition parse_id :: "string \<Rightarrow> nat option" where
  "parse_id s = (if s = [] \<or> \<not> list_all is_digit s \<or> 2 ^ 32 \<le> digits_value s then None else Some (digits_value s))"

definition with_id :: "string \<Rightarrow> (nat \<Rightarrow> world \<Rightarrow> 'a response \<times> world) \<Rightarrow> world \<Rightarrow> 'a response \<times> world" where
  "with_id s h w = (case parse_id s of None \<Rightarrow> (RespondWithError (Sentinel ErrValidationFailed), w) | Some i \<Rightarrow> h i w)"

text \<open>
  A body decoded into a struct by the function \<open>f\<close> on the members of the object, and refused
  otherwise.
\<close>

definition decode_body :: "((string \<times> json) list \<Rightarrow> 'r option) \<Rightarrow> string \<Rightarrow> 'r option" where
  "decode_body f body = (case decode_json body of None \<Rightarrow> None
     | Some j \<Rightarrow> (case object_members j of None \<Rightarrow> None | Some ms \<Rightarrow> f ms))"

definition with_body :: "'r option \<Rightarrow> ('r \<Rightarrow> world \<Rightarrow> 'a response \<times> world) \<Rightarrow> world \<Rightarrow> 'a response \<times> world" where
  "with_body r h w = (case r of None \<Rightarrow> (RespondWithError (Sentinel ErrValidationFailed), w) | Some x \<Rightarrow> h x w)"

section \<open>Properties\<close>

text \<open>A sentinel that an error is, is the only one.\<close>

lemma errors_is_unique: "errors_is e s \<Longrightarrow> errors_is e t \<Longrightarrow> s = t"
  by (induction e) auto

lemma amount_error_no_sentinel: "as_amount_error e \<noteq> None \<Longrightarrow> \<not> errors_is e s"
  by (induction e) auto

text \<open>
  Errors answer with their status and hide what is internal. No error is answered as a success;
  the status is the one of the sentinel that the error wraps, at any depth; and an error that wraps none
  of the public sentinels and no amount error is answered with 500 and a fixed text.
\<close>

theorem errors_answered:
  "let r = RespondWithError e :: 'a response in
    status r \<in> {400, 401, 403, 404, 409, 500, 502} \<and>
    (errors_is e ErrNotFound \<longleftrightarrow> status r = 404) \<and> (errors_is e ErrUnauthorized \<longleftrightarrow> status r = 401) \<and>
    (errors_is e ErrForbidden \<longleftrightarrow> status r = 403) \<and> (errors_is e ErrConflict \<longleftrightarrow> status r = 409) \<and>
    (errors_is e ErrPaymentGatewayFailed \<longleftrightarrow> status r = 502) \<and>
    (errors_is e ErrValidationFailed \<or> (\<exists>x. as_amount_error e = Some x) \<longleftrightarrow> status r = 400) \<and>
    (status r = 500 \<longleftrightarrow> r = Failure 500 ''An unexpected error occurred'' [])"
proof (cases "\<exists>s. errors_is e s")
  case True
  then obtain s where "errors_is e s" by blast
  then have "errors_is e t \<longleftrightarrow> t = s" for t using errors_is_unique by blast
  moreover from this have "as_amount_error e = None" using amount_error_no_sentinel [of e] by blast
  ultimately show ?thesis
    by (cases s) (simp_all add: Let_def RespondWithError_def error_status_def)
next
  case False
  then show ?thesis
    by (cases "as_amount_error e") (auto simp: Let_def RespondWithError_def error_status_def)
qed

end
