(* ===== verification/Billing.thy ===== *)
theory Billing
  imports Http Calendar Wallet_Service
begin

text \<open>
  Subscriptions, the administration of organizations and the settings of a business
  (\<^verbatim>\<open>internal/service/platform/billing_service.go\<close>,
  \<^verbatim>\<open>platform_service.go\<close>, \<^verbatim>\<open>internal/service/business_service.go\<close>), the statements
  of \<^verbatim>\<open>business_repo.go\<close> and \<^verbatim>\<open>subscription_repo.go\<close>, the middleware that
  refuses suspended businesses and full plans, and the handlers of these services. Paystack's
  initialisation of a payment is a parameter.
\<close>

section \<open>Businesses (business_repo.go)\<close>

definition business_updates :: "business \<Rightarrow> business \<Rightarrow> business" where
  "business_updates new old = old
     \<lparr>b_AdminID := nonzero 0 (b_AdminID new) (b_AdminID old),
      b_Name := nonzero [] (b_Name new) (b_Name old),
      b_RCNumber := or_else (b_RCNumber new) (b_RCNumber old),
      b_IncorporationDate := or_else (b_IncorporationDate new) (b_IncorporationDate old),
      b_DirectorBVN := or_else (b_DirectorBVN new) (b_DirectorBVN old),
      b_DirectorBVNLast4 := nonzero [] (b_DirectorBVNLast4 new) (b_DirectorBVNLast4 old),
      b_BVNVerified := b_BVNVerified new \<or> b_BVNVerified old,
      b_RCVerified := b_RCVerified new \<or> b_RCVerified old,
      b_IsVerified := b_IsVerified new \<or> b_IsVerified old,
      b_VFDAccountNumber := or_else (b_VFDAccountNumber new) (b_VFDAccountNumber old),
      b_VFDAccountName := or_else (b_VFDAccountName new) (b_VFDAccountName old),
      b_PayrollRequiresApproval := b_PayrollRequiresApproval new \<or> b_PayrollRequiresApproval old,
      b_PayrollAutoProcess := b_PayrollAutoProcess new \<or> b_PayrollAutoProcess old,
      b_PensionEnabled := b_PensionEnabled new \<or> b_PensionEnabled old,
      b_NHFEnabled := b_NHFEnabled new \<or> b_NHFEnabled old,
      b_NSITFEnabled := b_NSITFEnabled new \<or> b_NSITFEnabled old,
      b_PAYEEnabled := b_PAYEEnabled new \<or> b_PAYEEnabled old,
      b_Currency := nonzero [] (b_Currency new) (b_Currency old),
      b_SubscriptionTier := nonzero [] (b_SubscriptionTier new) (b_SubscriptionTier old),
      b_SubscriptionStatus := nonzero [] (b_SubscriptionStatus new) (b_SubscriptionStatus old),
      b_IsSuspended := b_IsSuspended new \<or> b_IsSuspended old\<rparr>"

definition business_Update :: "business \<Rightarrow> world \<Rightarrow> unit res \<times> world" where
  "business_Update b = statement (\<lambda>w.
     (if \<forall>c \<in> set (businesses w). b_ID c \<noteq> b_ID b then (Inl (Sentinel ErrNotFound), w)
      else (Inr (), w\<lparr>businesses := map (\<lambda>c. if b_ID c = b_ID b then business_updates b c else c) (businesses w)\<rparr>)))"

section \<open>Plans, subscriptions and invoices (subscription_repo.go)\<close>

definition plan_FindAll :: "world \<Rightarrow> subscription_plan list res \<times> world" where
  "plan_FindAll = statement (\<lambda>w. (Inr (sort_key sp_PriceMonthly (filter sp_IsActive (plans w))), w))"

definition plan_FindByTier :: "PlanTier \<Rightarrow> world \<Rightarrow> subscription_plan res \<times> world" where
  "plan_FindByTier tier = statement (\<lambda>w.
     (case find (\<lambda>p. sp_Tier p = tier) (plans w) of
        None \<Rightarrow> (Inl (Sentinel ErrNotFound), w) | Some p \<Rightarrow> (Inr p, w)))"

text \<open>A business has at most one subscription.\<close>

definition subscription_Create :: "subscription \<Rightarrow> world \<Rightarrow> subscription res \<times> world" where
  "subscription_Create s = statement (\<lambda>w.
     (if \<exists>t \<in> set (subscriptions w). sb_BusinessID t = sb_BusinessID s
      then (Inl (Plain ''duplicate key value violates unique constraint''), w)
      else (let s = s\<lparr>sb_ID := Suc (length (subscriptions w)), sb_CreatedAt := clock w (tick w),
                      sb_Status := nonzero [] (sb_Status s) ''active''\<rparr>
            in (Inr s, w\<lparr>subscriptions := subscriptions w @ [s]\<rparr>))))"

definition subscription_FindByBusinessID :: "nat \<Rightarrow> world \<Rightarrow> subscription res \<times> world" where
  "subscription_FindByBusinessID bid = statement (\<lambda>w.
     (case find (\<lambda>s. sb_BusinessID s = bid) (subscriptions w) of
        None \<Rightarrow> (Inl (Sentinel ErrNotFound), w) | Some s \<Rightarrow> (Inr s, w)))"

definition subscription_Update :: "subscription \<Rightarrow> world \<Rightarrow> unit res \<times> world" where
  "subscription_Update s = statement (\<lambda>w.
     (Inr (), w\<lparr>subscriptions := map (\<lambda>t. if sb_ID t = sb_ID s then s else t) (subscriptions w)\<rparr>))"

text \<open>With their plans and businesses; an error of the count is dropped.\<close>

definition subscription_FindAll ::
  "nat \<Rightarrow> nat \<Rightarrow> world \<Rightarrow> ((subscription \<times> subscription_plan option \<times> business option) list \<times> nat) res \<times> world" where
  "subscription_FindAll page limit w =
     (let (count, w) = statement (\<lambda>w. (Inr (length (subscriptions w)), w)) w;
          total = (case count of Inl _ \<Rightarrow> 0 | Inr n \<Rightarrow> n)
      in statement (\<lambda>w.
           (Inr (map (\<lambda>s. (s, find (\<lambda>p. sp_ID p = sb_PlanID s) (plans w), find (\<lambda>b. b_ID b = sb_BusinessID s) (businesses w)))
                   (take limit (drop ((page - 1) * limit) (rev (subscriptions w)))), total), w)) w)"

definition invoice_Create :: "invoice \<Rightarrow> world \<Rightarrow> invoice res \<times> world" where
  "invoice_Create v = statement (\<lambda>w.
     (let v = v\<lparr>iv_ID := Suc (length (invoices w)), iv_Status := nonzero [] (iv_Status v) ''pending''\<rparr>
      in (Inr v, w\<lparr>invoices := invoices w @ [v]\<rparr>)))"

definition invoice_FindByBusinessID :: "nat \<Rightarrow> nat \<Rightarrow> nat \<Rightarrow> world \<Rightarrow> (invoice list \<times> nat) res \<times> world" where
  "invoice_FindByBusinessID bid page limit w =
     (let rows = (\<lambda>w. filter (\<lambda>v. iv_BusinessID v = bid) (rev (invoices w)));
          (count, w) = statement (\<lambda>w. (Inr (length (rows w)), w)) w;
          total = (case count of Inl _ \<Rightarrow> 0 | Inr n \<Rightarrow> n)
      in statement (\<lambda>w. (Inr (take limit (drop ((page - 1) * limit) (rows w)), total), w)) w)"

section \<open>Billing (billing_service.go)\<close>

text \<open>
  The client of Paystack, when it is configured: e-mail, amount, reference, code of the plan and
  callback give the URL of the payment. The last argument is the number of readings so far.
\<close>

record billing_service =
  bs_Initialize :: "(string \<Rightarrow> int64 \<Rightarrow> string \<Rightarrow> string \<Rightarrow> string \<Rightarrow> nat \<Rightarrow> string res) option"
  bs_AppURL :: string

definition GetPlans :: "world \<Rightarrow> subscription_plan list res \<times> world" where
  "GetPlans = plan_FindAll"

definition GetSubscription :: "nat \<Rightarrow> world \<Rightarrow> subscription res \<times> world" where
  "GetSubscription bid = subscription_FindByBusinessID bid"

definition AssignFreePlan :: "nat \<Rightarrow> world \<Rightarrow> unit res \<times> world" where
  "AssignFreePlan bid w =
     attempt (plan_FindByTier PlanFree w)
       (\<lambda>e w. (Inl (Wrap ''free plan not found: '' e []), w))
       (\<lambda>plan w.
          (let (time, w) = now w
           in attempt (subscription_Create \<lparr>sb_ID = 0, sb_BusinessID = bid, sb_PlanID = sp_ID plan, sb_Status = ''active'',
                         sb_CreatedAt = 0, sb_CurrentPeriodStart = time, sb_CurrentPeriodEnd = AddDate 100 0 0 time,
                         sb_CancelledAt = None\<rparr> w)
                (\<lambda>e w. (Inl (Wrap ''failed to create free subscription: '' e []), w)) (\<lambda>_ w. (Inr (), w))))"

definition generateBillingRef :: "world \<Rightarrow> string \<times> world" where
  "generateBillingRef w = (let (h, w) = rand_hex w in (''PF-INV-'' @ take 12 h, w))"

text \<open>The business takes the tier, if it can be read; errors of the update are dropped.\<close>

definition set_tier :: "nat \<Rightarrow> PlanTier \<Rightarrow> string \<Rightarrow> world \<Rightarrow> world" where
  "set_tier bid tier st w =
     attempt (business_FindByID bid w) (\<lambda>_ w. w)
       (\<lambda>b w. snd (business_Update (b\<lparr>b_SubscriptionTier := tier, b_SubscriptionStatus := st\<rparr>) w))"

text \<open>After the payment is initialised: subscription and invoice are pending, errors are dropped.\<close>

definition start_subscription :: "nat \<Rightarrow> subscription_plan \<Rightarrow> string \<Rightarrow> world \<Rightarrow> world" where
  "start_subscription bid plan ref w =
     (let (time, w) = now w;
          period_end = AddDate 0 1 0 time;
          (created, w) = subscription_Create \<lparr>sb_ID = 0, sb_BusinessID = bid, sb_PlanID = sp_ID plan, sb_Status = ''pending'',
             sb_CreatedAt = 0, sb_CurrentPeriodStart = time, sb_CurrentPeriodEnd = period_end, sb_CancelledAt = None\<rparr> w;
          (_, w) = invoice_Create \<lparr>iv_ID = 0, iv_BusinessID = bid,
             iv_SubscriptionID = (case created of Inl _ \<Rightarrow> 0 | Inr s \<Rightarrow> sb_ID s), iv_Amount = sp_PriceMonthly plan,
             iv_Status = ''pending'', iv_PaystackRef = ref, iv_PeriodStart = time, iv_PeriodEnd = period_end\<rparr> w
      in set_tier bid (sp_Tier plan) ''pending'' w)"

definition Subscribe :: "billing_service \<Rightarrow> nat \<Rightarrow> PlanTier \<Rightarrow> string \<Rightarrow> string \<Rightarrow> world \<Rightarrow> string res \<times> world" where
  "Subscribe s bid tier email callbackURL w =
     attempt (plan_FindByTier tier w)
       (\<lambda>e w. (Inl (Wrap ''plan not found: '' e []), w))
       (\<lambda>plan w.
          if sp_PriceMonthly plan = 0 then attempt (AssignFreePlan bid w) (\<lambda>e w. (Inl e, w)) (\<lambda>_ w. (Inr [], w))
          else (case bs_Initialize s of
              None \<Rightarrow> (Inl (Plain ''payment provider not configured''), w)
            | Some initialize \<Rightarrow>
                (let (ref, w) = generateBillingRef w;
                     url = nonzero [] callbackURL (bs_AppURL s @ ''/billing/callback'')
                 in case initialize email (sp_PriceMonthly plan) ref (sp_PaystackPlanCode plan) url (tick w) of
                      Inl e \<Rightarrow> (Inl (Wrap ''payment initialization failed: '' e []), w)
                    | Inr paymentURL \<Rightarrow> (Inr paymentURL, start_subscription bid plan ref w))))"

definition CancelSubscription :: "nat \<Rightarrow> world \<Rightarrow> unit res \<times> world" where
  "CancelSubscription bid w =
     attempt (subscription_FindByBusinessID bid w)
       (\<lambda>_ w. (Inl (Sentinel ErrNotFound), w))
       (\<lambda>s w.
          (let (time, w) = now w
           in attempt (subscription_Update (s\<lparr>sb_Status := ''cancelled'', sb_CancelledAt := Some time\<rparr>) w)
                (\<lambda>e w. (Inl e, w)) (\<lambda>_ w. (Inr (), set_tier bid PlanFree ''active'' w))))"

definition ListInvoices :: "nat \<Rightarrow> int \<Rightarrow> int \<Rightarrow> world \<Rightarrow> (invoice list \<times> nat) res \<times> world" where
  "ListInvoices bid page limit =
     invoice_FindByBusinessID bid (if page \<le> 0 then 1 else nat page) (if limit \<le> 0 then 20 else nat limit)"

text \<open>Nil when the business may add an employee, and when this cannot be found out.\<close>

definition CheckEmployeeLimit :: "nat \<Rightarrow> world \<Rightarrow> gerror option \<times> world" where
  "CheckEmployeeLimit bid w =
     attempt (business_FindByID bid w) (\<lambda>_ w. (None, w))
       (\<lambda>b w. attempt (plan_FindByTier (b_SubscriptionTier b) w) (\<lambda>_ w. (None, w))
          (\<lambda>plan w.
             if sp_MaxEmployees plan = 0 then (None, w)
             else attempt (employee_FindByBusinessID bid w) (\<lambda>_ w. (None, w))
                    (\<lambda>es w. (if sp_MaxEmployees plan \<le> int (length es)
                             then Some (Plain (''employee limit reached ('' @ show_nat (length es) @ ''/'' @
                                    show_int (sp_MaxEmployees plan) @ ''). Upgrade your plan''))
                             else None, w))))"

section \<open>The platform (platform_service.go)\<close>

record platform_stats =
  pt_TotalOrganizations :: nat
  pt_ActiveOrganizations :: nat
  pt_SuspendedOrgs :: nat
  pt_TotalEmployees :: nat
  pt_MRR :: int64
  pt_SignupsThisMonth :: nat
  pt_PlanDistribution :: "(string \<times> nat) list"

definition count_plan :: "string \<Rightarrow> (string \<times> nat) list \<Rightarrow> (string \<times> nat) list" where
  "count_plan tier m = AList.update tier (Suc (case map_of m tier of None \<Rightarrow> 0 | Some n \<Rightarrow> n)) m"

fun add_stats :: "(subscription \<times> subscription_plan option \<times> business option) list \<Rightarrow> platform_stats \<Rightarrow> world \<Rightarrow>
    platform_stats \<times> world" where
  "add_stats [] t w = (t, w)"
| "add_stats ((s, plan, b) # ss) t w =
     (let t = (if sb_Status s = ''active''
               then (let t = t\<lparr>pt_ActiveOrganizations := Suc (pt_ActiveOrganizations t)\<rparr>
                     in case plan of None \<Rightarrow> t
                        | Some p \<Rightarrow> t\<lparr>pt_MRR := add64 (pt_MRR t) (sp_PriceMonthly p),
                                     pt_PlanDistribution := count_plan (sp_Tier p) (pt_PlanDistribution t)\<rparr>)
               else t);
          (time, w) = now w;
          t = (if Month (sb_CreatedAt s, 0) = Month (time, 0) \<and> Year (sb_CreatedAt s, 0) = Year (time, 0)
               then t\<lparr>pt_SignupsThisMonth := Suc (pt_SignupsThisMonth t)\<rparr> else t);
          t = (case b of Some c \<Rightarrow> if b_IsSuspended c then t\<lparr>pt_SuspendedOrgs := Suc (pt_SuspendedOrgs t)\<rparr> else t
               | None \<Rightarrow> t)
      in add_stats ss t w)"

definition GetStats :: "world \<Rightarrow> platform_stats res \<times> world" where
  "GetStats w =
     (let t = \<lparr>pt_TotalOrganizations = 0, pt_ActiveOrganizations = 0, pt_SuspendedOrgs = 0, pt_TotalEmployees = 0,
               pt_MRR = 0, pt_SignupsThisMonth = 0, pt_PlanDistribution = []\<rparr>
      in attempt (subscription_FindAll 1 10000 w)
           (\<lambda>_ w. (Inr t, w))
           (\<lambda>(subs, total) w. (let (t, w) = add_stats subs (t\<lparr>pt_TotalOrganizations := total\<rparr>) w in (Inr t, w))))"

record org_summary =
  og_BusinessID :: nat
  og_BusinessName :: string
  og_AdminEmail :: string
  og_EmployeeCount :: nat
  og_PlanTier :: string
  og_SubscriptionStatus :: string
  og_IsSuspended :: bool
  og_CreatedAt :: int

definition summarize_org :: "subscription \<times> subscription_plan option \<times> business option \<Rightarrow> world \<Rightarrow> org_summary \<times> world" where
  "summarize_org x w =
     (let (s, plan, business) = x;
          g = \<lparr>og_BusinessID = 0, og_BusinessName = [], og_AdminEmail = [], og_EmployeeCount = 0, og_PlanTier = [],
               og_SubscriptionStatus = sb_Status s, og_IsSuspended = False, og_CreatedAt = sb_CreatedAt s\<rparr>;
          (g, w) = (case business of None \<Rightarrow> (g, w)
            | Some b \<Rightarrow>
                (let g = g\<lparr>og_BusinessID := b_ID b, og_BusinessName := b_Name b, og_PlanTier := b_SubscriptionTier b,
                           og_IsSuspended := b_IsSuspended b\<rparr>;
                     (admin, w) = user_FindBusinessAdmin (sb_BusinessID s) w;
                     g = (case admin of Inl _ \<Rightarrow> g | Inr u \<Rightarrow> g\<lparr>og_AdminEmail := u_Email u\<rparr>);
                     (es, w) = employee_FindByBusinessID (sb_BusinessID s) w
                 in (case es of Inl _ \<Rightarrow> g | Inr es \<Rightarrow> g\<lparr>og_EmployeeCount := length es\<rparr>, w)));
          g = (case plan of None \<Rightarrow> g | Some p \<Rightarrow> g\<lparr>og_PlanTier := sp_Tier p\<rparr>)
      in (g, w))"

fun summarize_orgs ::
  "(subscription \<times> subscription_plan option \<times> business option) list \<Rightarrow> world \<Rightarrow> org_summary list \<times> world" where
  "summarize_orgs [] w = ([], w)"
| "summarize_orgs (x # xs) w =
     (let (g, w) = summarize_org x w; (gs, w) = summarize_orgs xs w in (g # gs, w))"

definition ListOrganizations :: "int \<Rightarrow> int \<Rightarrow> world \<Rightarrow> (org_summary list \<times> nat) res \<times> world" where
  "ListOrganizations page limit w =
     attempt (subscription_FindAll (if page \<le> 0 then 1 else nat page) (if limit \<le> 0 then 20 else nat limit) w)
       (\<lambda>e w. (Inl e, w))
       (\<lambda>(subs, total) w. (let (gs, w) = summarize_orgs subs w in (Inr (gs, total), w)))"

definition SuspendOrganization :: "nat \<Rightarrow> string \<Rightarrow> world \<Rightarrow> unit res \<times> world" where
  "SuspendOrganization bid reason w =
     attempt (business_FindByID bid w)
       (\<lambda>_ w. (Inl (Sentinel ErrNotFound), w))
       (\<lambda>b w. attempt (business_Update (b\<lparr>b_IsSuspended := True, b_SubscriptionStatus := ''suspended''\<rparr>) w)
          (\<lambda>e w. (Inl (Wrap ''failed to suspend organization: '' e []), w)) (\<lambda>_ w. (Inr (), w)))"

definition ActivateOrganization :: "nat \<Rightarrow> world \<Rightarrow> unit res \<times> world" where
  "ActivateOrganization bid w =
     attempt (business_FindByID bid w)
       (\<lambda>_ w. (Inl (Sentinel ErrNotFound), w))
       (\<lambda>b w. attempt (business_Update (b\<lparr>b_IsSuspended := False, b_SubscriptionStatus := ''active''\<rparr>) w)
          (\<lambda>e w. (Inl (Wrap ''failed to activate organization: '' e []), w)) (\<lambda>_ w. (Inr (), w)))"

section \<open>Settings of a business (business_service.go)\<close>

definition GetSettings :: "nat \<Rightarrow> world \<Rightarrow> business res \<times> world" where
  "GetSettings bid w =
     attempt (business_FindByID bid w) (\<lambda>e w. (Inl (Wrap ''failed to get business: '' e []), w)) (\<lambda>b w. (Inr b, w))"

text \<open>The map of updates that its only caller builds has Booleans as its values.\<close>

definition apply_settings :: "(string \<times> bool) list \<Rightarrow> business \<Rightarrow> business" where
  "apply_settings updates b =
     (let get = (\<lambda>k old. case map_of updates k of None \<Rightarrow> old | Some v \<Rightarrow> v)
      in b\<lparr>b_PensionEnabled := get ''pension_enabled'' (b_PensionEnabled b),
           b_NHFEnabled := get ''nhf_enabled'' (b_NHFEnabled b),
           b_NSITFEnabled := get ''nsitf_enabled'' (b_NSITFEnabled b),
           b_PAYEEnabled := get ''paye_enabled'' (b_PAYEEnabled b),
           b_PayrollRequiresApproval := get ''payroll_requires_approval'' (b_PayrollRequiresApproval b),
           b_PayrollAutoProcess := get ''payroll_auto_process'' (b_PayrollAutoProcess b)\<rparr>)"

definition UpdateSettings :: "nat \<Rightarrow> (string \<times> bool) list \<Rightarrow> world \<Rightarrow> business res \<times> world" where
  "UpdateSettings bid updates w =
     attempt (business_FindByID bid w)
       (\<lambda>e w. (Inl (Wrap ''business not found: '' e []), w))
       (\<lambda>b w. (let b = apply_settings updates b
               in attempt (business_Update b w)
                    (\<lambda>e w. (Inl (Wrap ''failed to update business settings: '' e []), w)) (\<lambda>_ w. (Inr b, w))))"

section \<open>Middleware (suspension.go, plan_limit.go)\<close>

text \<open>A handler, given the claims in the context.\<close>

type_synonym 'a handler = "mw_claims option \<Rightarrow> world \<Rightarrow> 'a response \<times> world"

text \<open>Only a business that can be read and is suspended is refused.\<close>

definition SuspensionMiddleware :: "'a handler \<Rightarrow> 'a handler" where
  "SuspensionMiddleware next claims w =
     (case claims of None \<Rightarrow> next claims w
      | Some c \<Rightarrow>
          if mc_BusinessID c = 0 then next claims w
          else attempt (business_FindByID (mc_BusinessID c) w) (\<lambda>_ w. next claims w)
                 (\<lambda>b w. if b_IsSuspended b
                        then (Failure 403 ''Account suspended. Please contact support or update your subscription.'' [], w)
                        else next claims w))"

definition plan_limit_reply :: "subscription_plan \<Rightarrow> nat \<Rightarrow> 'a response" where
  "plan_limit_reply plan n = Failure 403 ''Plan limit reached''
     [(''message'', ''You have reached the maximum number of employees for your plan. Upgrade to add more.''),
      (''current_count'', show_nat n), (''max_allowed'', show_int (sp_MaxEmployees plan)), (''current_plan'', sp_Tier plan)]"

definition PlanLimitMiddleware :: "'a handler \<Rightarrow> string \<Rightarrow> 'a handler" where
  "PlanLimitMiddleware next method claims w =
     (if method \<noteq> ''POST'' then next claims w
      else case claims of None \<Rightarrow> next claims w
      | Some c \<Rightarrow>
          if mc_BusinessID c = 0 then next claims w
          else attempt (business_FindByID (mc_BusinessID c) w) (\<lambda>_ w. next claims w)
            (\<lambda>b w. attempt (plan_FindByTier (b_SubscriptionTier b) w) (\<lambda>_ w. next claims w)
              (\<lambda>plan w.
                 if sp_MaxEmployees plan > 0
                 then attempt (employee_FindByBusinessID (mc_BusinessID c) w) (\<lambda>_ w. next claims w)
                        (\<lambda>es w. if sp_MaxEmployees plan \<le> int (length es)
                                then (plan_limit_reply plan (length es), w) else next claims w)
                 else next claims w)))"

section \<open>Handlers (billing_handler.go, platform_handler.go, business_handler.go)\<close>

definition HandleGetPlans :: "subscription_plan list handler" where
  "HandleGetPlans claims w = respond (GetPlans w) (RespondWithJSON 200)"

definition HandleGetSubscription :: "subscription handler" where
  "HandleGetSubscription claims =
     with_claims ErrUnauthorized claims (\<lambda>c w. respond (GetSubscription (mc_BusinessID c) w) (RespondWithJSON 200))"

definition subscribeRequest :: "(string \<times> json) list \<Rightarrow> (string \<times> string) option" where
  "subscribeRequest ms =
     (case (string_field ''tier'' ms, string_field ''callback_url'' ms) of
        (Some tier, Some url) \<Rightarrow> Some (tier, url) | _ \<Rightarrow> None)"

definition HandleSubscribe :: "billing_service \<Rightarrow> string \<Rightarrow> (string \<times> string) list handler" where
  "HandleSubscribe s body claims =
     with_body (decode_body subscribeRequest body) (\<lambda>(tier, url).
       with_claims ErrUnauthorized claims (\<lambda>c w.
         respond (Subscribe s (mc_BusinessID c) tier [] url w) (\<lambda>paymentURL.
           if paymentURL = [] then RespondWithJSON 200 [(''message'', ''Free plan activated'')]
           else RespondWithJSON 200 [(''payment_url'', paymentURL), (''message'', ''Redirect to complete payment'')])))"

definition HandleCancelSubscription :: "string handler" where
  "HandleCancelSubscription claims =
     with_claims ErrUnauthorized claims (\<lambda>c w. respond (CancelSubscription (mc_BusinessID c) w)
       (\<lambda>_. RespondWithJSON 200 ''Subscription cancelled. Downgraded to Free plan.''))"

definition HandleListInvoices :: "string \<Rightarrow> string \<Rightarrow> (invoice list \<times> nat) handler" where
  "HandleListInvoices page limit claims =
     with_claims ErrUnauthorized claims (\<lambda>c w. respond (ListInvoices (mc_BusinessID c) (atoi page) (atoi limit) w)
       (RespondWithJSON 200))"

definition HandleGetStats :: "platform_stats handler" where
  "HandleGetStats claims w = respond (GetStats w) (RespondWithJSON 200)"

definition HandleListOrganizations :: "string \<Rightarrow> string \<Rightarrow> (org_summary list \<times> nat) handler" where
  "HandleListOrganizations page limit claims w =
     respond (ListOrganizations (atoi page) (atoi limit) w) (RespondWithJSON 200)"

text \<open>The reason in the body reaches the log only.\<close>

definition HandleSuspendOrganization :: "string \<Rightarrow> string handler" where
  "HandleSuspendOrganization i claims =
     with_id i (\<lambda>i w. respond (SuspendOrganization i [] w) (\<lambda>_. RespondWithJSON 200 ''Organization suspended''))"

definition HandleActivateOrganization :: "string \<Rightarrow> string handler" where
  "HandleActivateOrganization i claims =
     with_id i (\<lambda>i w. respond (ActivateOrganization i w) (\<lambda>_. RespondWithJSON 200 ''Organization activated''))"

definition HandleGetSettings :: "business handler" where
  "HandleGetSettings claims =
     with_claims ErrUnauthorized claims (\<lambda>c w. respond (GetSettings (mc_BusinessID c) w) (RespondWithJSON 200))"

definition UpdateBusinessSettingsRequest :: "(string \<times> json) list \<Rightarrow> (string \<times> bool option) list option" where
  "UpdateBusinessSettingsRequest ms =
     those (map (\<lambda>k. map_option (Pair k) (pointer to_bool k ms))
       [''pension_enabled'', ''nhf_enabled'', ''nsitf_enabled'', ''paye_enabled'', ''payroll_requires_approval'',
        ''payroll_auto_process''])"

definition HandleUpdateSettings :: "string \<Rightarrow> business handler" where
  "HandleUpdateSettings body claims =
     with_body (decode_body UpdateBusinessSettingsRequest body) (\<lambda>req.
       with_claims ErrUnauthorized claims (\<lambda>c w.
         (let updates = List.map_filter (\<lambda>(k, v). map_option (Pair k) v) req
          in if updates = [] then (RespondWithError (Sentinel ErrValidationFailed), w)
             else respond (UpdateSettings (mc_BusinessID c) updates w) (RespondWithJSON 200))))"

section \<open>What the columns of a business can become\<close>

text \<open>
  A row of a business: its Boolean columns are only ever switched on, because the repository
  writes with GORM's \<^verbatim>\<open>Updates\<close>, which skips fields that are false.
\<close>

definition switches :: "business \<Rightarrow> bool list" where
  "switches b = [b_IsSuspended b, b_BVNVerified b, b_RCVerified b, b_IsVerified b, b_PayrollRequiresApproval b,
     b_PayrollAutoProcess b, b_PensionEnabled b, b_NHFEnabled b, b_NSITFEnabled b, b_PAYEEnabled b]"

definition only_on :: "business \<Rightarrow> business \<Rightarrow> bool" where
  "only_on b c \<longleftrightarrow> b_ID c = b_ID b \<and> list_all2 (\<le>) (switches b) (switches c)"

lemma only_on_refl [simp]: "only_on b b"
  by (simp add: only_on_def switches_def)

lemma only_on_trans [trans]: "only_on a b \<Longrightarrow> only_on b c \<Longrightarrow> only_on a c"
  by (auto simp: only_on_def switches_def)

lemma only_on_updates [simp]: "only_on b (business_updates new b)"
  by (simp add: only_on_def switches_def business_updates_def)

definition kept_on :: "business list \<Rightarrow> world \<Rightarrow> bool" where
  "kept_on bs w \<longleftrightarrow> list_all2 only_on bs (businesses w)"

lemma kept_on_writes [simp]:
  "kept_on bs (w\<lparr>faults := fs\<rparr>) = kept_on bs w" "kept_on bs (w\<lparr>tick := n\<rparr>) = kept_on bs w"
  "kept_on bs (w\<lparr>provider_breakers := br\<rparr>) = kept_on bs w" "kept_on bs (w\<lparr>calls := cs\<rparr>) = kept_on bs w"
  "kept_on bs (w\<lparr>wallets := ws\<rparr>) = kept_on bs w" "kept_on bs (w\<lparr>wallet_txs := ts\<rparr>) = kept_on bs w"
  "kept_on bs (w\<lparr>ledger := es\<rparr>) = kept_on bs w" "kept_on bs (w\<lparr>transfers := xs\<rparr>) = kept_on bs w"
  "kept_on bs (w\<lparr>subscriptions := ss\<rparr>) = kept_on bs w" "kept_on bs (w\<lparr>invoices := vs\<rparr>) = kept_on bs w"
  by (simp_all add: kept_on_def)

lemma kept_on_businesses [simp]:
  assumes "kept_on bs w"
  shows "kept_on bs (w\<lparr>businesses := map (\<lambda>c. if b_ID c = i then business_updates b c else c) (businesses w)\<rparr>)"
  using assms unfolding kept_on_def
  by (auto simp: list_all2_conv_all_nth intro!: only_on_trans [OF _ only_on_updates])

interpretation switch_book: payment_invariant "kept_on bs" for bs
  by unfold_locales simp_all

text \<open>Statements of this file, and parts of a handler that return the world only.\<close>

lemma wp_business_Update:
  assumes "\<And>e fs. Q (Inl e) (w\<lparr>faults := fs\<rparr>)"
    and "\<And>fs. Q (Inr ()) (w\<lparr>faults := fs, businesses :=
           map (\<lambda>c. if b_ID c = b_ID b then business_updates b c else c) (businesses w)\<rparr>)"
  shows "post Q (business_Update b w)"
  unfolding business_Update_def using assms by (intro wp_statement) (simp_all cong: if_cong)

lemma wp_subscription_Create:
  assumes "\<And>e fs. Q (Inl e) (w\<lparr>faults := fs\<rparr>)"
    and "\<And>fs s'. sb_BusinessID s' = sb_BusinessID s \<Longrightarrow> sb_ID s' = Suc (length (subscriptions w)) \<Longrightarrow>
           sb_BusinessID s \<notin> sb_BusinessID ` set (subscriptions w) \<Longrightarrow>
           Q (Inr s') (w\<lparr>faults := fs, subscriptions := subscriptions w @ [s']\<rparr>)"
  shows "post Q (subscription_Create s w)"
  unfolding subscription_Create_def Let_def
  by (intro wp_statement) (auto simp: image_iff intro!: assms)

lemma wp_subscription_Update:
  assumes "\<And>e fs. Q (Inl e) (w\<lparr>faults := fs\<rparr>)"
    and "\<And>fs. Q (Inr ()) (w\<lparr>faults := fs, subscriptions :=
           map (\<lambda>t. if sb_ID t = sb_ID s then s else t) (subscriptions w)\<rparr>)"
  shows "post Q (subscription_Update s w)"
  unfolding subscription_Update_def using assms by (intro wp_statement) simp_all

lemma wp_invoice_Create:
  assumes "\<And>e fs. Q (Inl e) (w\<lparr>faults := fs\<rparr>)"
    and "\<And>fs v'. Q (Inr v') (w\<lparr>faults := fs, invoices := invoices w @ [v']\<rparr>)"
  shows "post Q (invoice_Create v w)"
  unfolding invoice_Create_def Let_def using assms by (intro wp_statement) simp_all

lemmas billing_wp = wp_business_Update wp_subscription_Create wp_subscription_Update wp_invoice_Create
  wp_find [where rows = plans and f = "\<lambda>_ x. x" and p = "\<lambda>p. sp_Tier p = t" and e = "Sentinel ErrNotFound" for t,
    folded plan_FindByTier_def, simplified]
  wp_find [where rows = subscriptions and f = "\<lambda>_ x. x" and p = "\<lambda>s. sb_BusinessID s = i" and e = "Sentinel ErrNotFound" for i,
    folded subscription_FindByBusinessID_def, simplified]

lemma world_case: "post (\<lambda>x w. I (k x w)) r \<Longrightarrow> I (case r of (x, w) \<Rightarrow> k x w)"
  by (cases r) simp

lemma world_attempt:
  "post (\<lambda>r w. (\<forall>e. r = Inl e \<longrightarrow> I (h e w)) \<and> (\<forall>x. r = Inr x \<longrightarrow> I (k x w))) r \<Longrightarrow> I (attempt r h k)"
  by (cases r; cases "fst r") (auto simp: post_def)

section \<open>The books of the platform\<close>

text \<open>
  Every operation that writes businesses or subscriptions: the free plan given at registration, the
  operations of a business and of the platform, and whatever the rest of the system does to other
  tables. \<open>billing_ok\<close>: identifiers are handed out in order and a business has one subscription.
\<close>

definition billing_ok :: "business list \<Rightarrow> world \<Rightarrow> bool" where
  "billing_ok bs w \<longleftrightarrow> kept_on bs w \<and> numbered sb_ID (subscriptions w) \<and> distinct (map sb_BusinessID (subscriptions w))"

lemma billing_ok_writes [simp]:
  "billing_ok bs (w\<lparr>faults := fs\<rparr>) = billing_ok bs w" "billing_ok bs (w\<lparr>tick := n\<rparr>) = billing_ok bs w"
  "billing_ok bs (w\<lparr>faults := fs, subscriptions := ss\<rparr>) = billing_ok bs (w\<lparr>subscriptions := ss\<rparr>)"
  "billing_ok bs (w\<lparr>faults := fs, businesses := cs\<rparr>) = billing_ok bs (w\<lparr>businesses := cs\<rparr>)"
  "billing_ok bs (w\<lparr>faults := fs, invoices := vs\<rparr>) = billing_ok bs w"
  "billing_ok bs (w\<lparr>tick := n, subscriptions := ss\<rparr>) = billing_ok bs (w\<lparr>subscriptions := ss\<rparr>)"
  by (simp_all add: billing_ok_def kept_on_def)

lemma billing_ok_business [simp]:
  "billing_ok bs w \<Longrightarrow>
   billing_ok bs (w\<lparr>businesses := map (\<lambda>c. if b_ID c = i then business_updates b c else c) (businesses w)\<rparr>)"
  by (simp add: billing_ok_def)

lemma billing_ok_new [simp]:
  "billing_ok bs w \<Longrightarrow> sb_ID s = Suc (length (subscriptions w)) \<Longrightarrow>
   sb_BusinessID s \<notin> sb_BusinessID ` set (subscriptions w) \<Longrightarrow> billing_ok bs (w\<lparr>subscriptions := subscriptions w @ [s]\<rparr>)"
  by (simp add: billing_ok_def numbered_def)

lemma billing_ok_update:
  assumes "billing_ok bs w" and "s \<in> set (subscriptions w)" and "sb_ID t = sb_ID s" and "sb_BusinessID t = sb_BusinessID s"
  shows "billing_ok bs (w\<lparr>subscriptions := map (\<lambda>u. if sb_ID u = sb_ID s then t else u) (subscriptions w)\<rparr>)"
proof -
  have "distinct (map sb_ID (subscriptions w))" using assms(1) by (simp add: billing_ok_def numbered_def)
  then have "u = s" if "u \<in> set (subscriptions w)" "sb_ID u = sb_ID s" for u
    using that assms(2) by (auto simp: distinct_map dest: inj_onD)
  then have "map sb_BusinessID (map (\<lambda>u. if sb_ID u = sb_ID s then t else u) (subscriptions w)) = map sb_BusinessID (subscriptions w)"
    and "map sb_ID (map (\<lambda>u. if sb_ID u = sb_ID s then t else u) (subscriptions w)) = map sb_ID (subscriptions w)"
    using assms(3,4) by auto
  then show ?thesis using assms(1) by (simp add: billing_ok_def numbered_def kept_on_def del: map_map upt_Suc)
qed

inductive billing_step :: "billing_service \<Rightarrow> world \<Rightarrow> world \<Rightarrow> bool" for s where
  free: "billing_step s w (snd (AssignFreePlan bid w))"
| subscribe: "billing_step s w (snd (Subscribe s bid tier email url w))"
| cancel: "billing_step s w (snd (CancelSubscription bid w))"
| suspend: "billing_step s w (snd (SuspendOrganization bid reason w))"
| activate: "billing_step s w (snd (ActivateOrganization bid w))"
| settings: "billing_step s w (snd (UpdateSettings bid updates w))"
| other: "businesses w' = businesses w \<Longrightarrow> subscriptions w' = subscriptions w \<Longrightarrow> billing_step s w w'"

lemma business_Update_ok: "billing_ok bs w \<Longrightarrow> post (\<lambda>_. billing_ok bs) (business_Update b w)"
  by (rule wp_business_Update) simp_all

lemma set_tier_ok: "billing_ok bs w \<Longrightarrow> billing_ok bs (set_tier bid tier st w)"
  unfolding set_tier_def
  by (rule world_attempt) (auto intro!: wp simp: business_Update_ok [unfolded post_def])

lemma start_subscription_ok: "billing_ok bs w \<Longrightarrow> billing_ok bs (start_subscription bid plan ref w)"
  unfolding start_subscription_def Let_def
  by (auto intro!: world_case [where I = "billing_ok bs"] wp_now wp_subscription_Create wp_invoice_Create set_tier_ok)

lemma billing_step_ok: "billing_step s w w' \<Longrightarrow> billing_ok bs w \<Longrightarrow> billing_ok bs w'"
proof (induction rule: billing_step.induct)
  case (free w bid)
  then have "post (\<lambda>_. billing_ok bs) (AssignFreePlan bid w)"
    unfolding AssignFreePlan_def Let_def by (auto intro!: wp billing_wp)
  then show ?case by (simp add: post_def)
next
  case (subscribe w bid tier email url)
  have free: "post (\<lambda>_. billing_ok bs) (AssignFreePlan bid w)" if "billing_ok bs w" for w
    unfolding AssignFreePlan_def Let_def using that by (auto intro!: wp billing_wp)
  have "post (\<lambda>_. billing_ok bs) (Subscribe s bid tier email url w)"
    unfolding Subscribe_def Let_def generateBillingRef_def
    using subscribe by (auto intro!: wp billing_wp free [THEN post_mono] start_subscription_ok)
  then show ?case by (simp add: post_def)
next
  case (cancel w bid)
  then have "post (\<lambda>_. billing_ok bs) (CancelSubscription bid w)"
    unfolding CancelSubscription_def Let_def by (auto intro!: wp billing_wp set_tier_ok billing_ok_update)
  then show ?case by (simp add: post_def)
next
  case (suspend w bid reason)
  then have "post (\<lambda>_. billing_ok bs) (SuspendOrganization bid reason w)"
    unfolding SuspendOrganization_def by (auto intro!: wp billing_wp)
  then show ?case by (simp add: post_def)
next
  case (activate w bid)
  then have "post (\<lambda>_. billing_ok bs) (ActivateOrganization bid w)"
    unfolding ActivateOrganization_def by (auto intro!: wp billing_wp)
  then show ?case by (simp add: post_def)
next
  case (settings w bid updates)
  then have "post (\<lambda>_. billing_ok bs) (UpdateSettings bid updates w)"
    unfolding UpdateSettings_def Let_def by (auto intro!: wp billing_wp)
  then show ?case by (simp add: post_def)
qed (simp add: billing_ok_def kept_on_def)

lemma billing_steps_ok: "(billing_step s)\<^sup>*\<^sup>* w w' \<Longrightarrow> billing_ok bs w \<Longrightarrow> billing_ok bs w'"
  by (induction rule: rtranclp_induct) (auto intro: billing_step_ok)

text \<open>Without faults the business takes the tier.\<close>

lemma find_updated:
  "find (\<lambda>c. b_ID c = i) (map (\<lambda>c. if b_ID c = i then business_updates d c else c) bs) =
   map_option (business_updates d) (find (\<lambda>c. b_ID c = i) bs)"
  by (induction bs) (auto simp: business_updates_def)

lemma set_tier_clean:
  assumes "faults w = []" and "find (\<lambda>b. b_ID b = i) (businesses w) = Some b" and "tier \<noteq> []"
  shows "subscriptions (set_tier i tier st w) = subscriptions w" "invoices (set_tier i tier st w) = invoices w"
    "\<exists>c. find (\<lambda>b. b_ID b = i) (businesses (set_tier i tier st w)) = Some c \<and> b_SubscriptionTier c = tier"
proof -
  have b: "b_ID b = i" "b \<in> set (businesses w)" using assms(2) by (auto dest: find_SomeD)
  have "set_tier i tier st w = w\<lparr>businesses := map (\<lambda>c. if b_ID c = i
      then business_updates (b\<lparr>b_SubscriptionTier := tier, b_SubscriptionStatus := st\<rparr>) c else c) (businesses w)\<rparr>"
    using assms b by (auto simp: set_tier_def business_FindByID_def business_Update_def cong: if_cong)
  then show "subscriptions (set_tier i tier st w) = subscriptions w" "invoices (set_tier i tier st w) = invoices w"
    "\<exists>c. find (\<lambda>b. b_ID b = i) (businesses (set_tier i tier st w)) = Some c \<and> b_SubscriptionTier c = tier"
    using assms by (simp_all add: find_updated) (simp add: business_updates_def nonzero_def)
qed

section \<open>Samples\<close>

definition sample_business :: business where
  "sample_business = \<lparr>b_ID = 1, b_AdminID = 1, b_Name = ''Ada'', b_RCNumber = None, b_IncorporationDate = None,
     b_DirectorBVN = None, b_DirectorBVNLast4 = [], b_BVNVerified = False, b_RCVerified = False, b_IsVerified = True,
     b_VFDAccountNumber = None, b_VFDAccountName = None, b_PayrollRequiresApproval = True, b_PayrollAutoProcess = False,
     b_PensionEnabled = True, b_NHFEnabled = False, b_NSITFEnabled = False, b_PAYEEnabled = True, b_Currency = ''NGN'',
     b_SubscriptionTier = PlanFree, b_SubscriptionStatus = ''active'', b_IsSuspended = True\<rparr>"

definition sample_plan :: subscription_plan where
  "sample_plan = \<lparr>sp_ID = 2, sp_Name = ''Growth'', sp_Tier = ''growth'', sp_PriceMonthly = 5000, sp_MaxEmployees = 50,
     sp_MaxPayrollRuns = 0, sp_IsActive = True, sp_PaystackPlanCode = ''PLN''\<rparr>"

definition sample_subscription :: subscription where
  "sample_subscription = \<lparr>sb_ID = 1, sb_BusinessID = 1, sb_PlanID = 1, sb_Status = ''active'', sb_CreatedAt = 0,
     sb_CurrentPeriodStart = 0, sb_CurrentPeriodEnd = 0, sb_CancelledAt = None\<rparr>"

definition billing_world :: world where
  "billing_world = sample_world\<lparr>businesses := [sample_business], plans := [sample_plan], subscriptions := [sample_subscription]\<rparr>"

definition sample_billing :: billing_service where
  "sample_billing = \<lparr>bs_Initialize = Some (\<lambda>_ _ _ _ _ _. Inr ''url''), bs_AppURL = []\<rparr>"

lemma billing_world_ok: "billing_ok [sample_business] billing_world"
  by (simp add: billing_ok_def kept_on_def billing_world_def sample_subscription_def numbered_def)

section \<open>Properties\<close>

text \<open>
  What is switched on stays on. Whatever registrations, subscriptions, cancellations, suspensions,
  activations and changes of settings do, a Boolean column of a business that is true stays true. So
  activating a suspended organization reports success and leaves it suspended, and a setting cannot be
  switched off.
\<close>

theorem switches_only_on:
  assumes "numbered sb_ID (subscriptions w)" and "distinct (map sb_BusinessID (subscriptions w))"
    and "(billing_step s)\<^sup>*\<^sup>* w w'"
  shows "list_all2 only_on (businesses w) (businesses w')"
proof -
  have "billing_ok (businesses w) w"
    using assms(1,2) by (simp add: billing_ok_def kept_on_def list_all2_refl)
  then have "billing_ok (businesses w) w'" by (rule billing_steps_ok [OF assms(3)])
  then show ?thesis by (simp add: billing_ok_def kept_on_def)
qed

theorem switches_only_on_witness:
  "fst (ActivateOrganization 1 billing_world) = Inr () \<and>
   list_all b_IsSuspended (businesses (snd (ActivateOrganization 1 billing_world))) \<and>
   (\<exists>b. fst (UpdateSettings 1 [(''pension_enabled'', False)] billing_world) = Inr b \<and> \<not> b_PensionEnabled b) \<and>
   list_all b_PensionEnabled (businesses (snd (UpdateSettings 1 [(''pension_enabled'', False)] billing_world)))"
proof -
  have on: "b_IsSuspended b \<and> b_PensionEnabled b"
    if "billing_step sample_billing billing_world w'" and "b \<in> set (businesses w')" for w' b
  proof -
    have "list_all2 only_on (businesses billing_world) (businesses w')"
      by (rule switches_only_on [OF _ _ r_into_rtranclp, OF _ _ that(1)])
        (simp_all add: billing_world_def sample_subscription_def numbered_def)
    then show ?thesis
      using that(2) by (auto simp: billing_world_def list_all2_Cons1 only_on_def switches_def sample_business_def)
  qed
  have "fst (ActivateOrganization 1 billing_world) = Inr ()"
    and "\<exists>b. fst (UpdateSettings 1 [(''pension_enabled'', False)] billing_world) = Inr b \<and> \<not> b_PensionEnabled b"
    by (simp_all add: ActivateOrganization_def UpdateSettings_def Let_def business_FindByID_def business_Update_def
        billing_world_def sample_world_def sample_business_def apply_settings_def)
  then show ?thesis using on [OF billing_step.activate] on [OF billing_step.settings] by (simp add: list_all_iff)
qed

text \<open>
  A business has at most one subscription: starting without any, whatever registrations,
  subscriptions, cancellations and the operations of the platform do, no two rows of the table are for
  the same business, and a row keeps its identifier.
\<close>

theorem one_subscription:
  assumes "subscriptions w = []" and "(billing_step s)\<^sup>*\<^sup>* w w'"
  shows "distinct (map sb_BusinessID (subscriptions w')) \<and> numbered sb_ID (subscriptions w')"
proof -
  have "billing_ok (businesses w) w" using assms(1) by (simp add: billing_ok_def kept_on_def list_all2_refl)
  then have "billing_ok (businesses w) w'" by (rule billing_steps_ok [OF assms(2)])
  then show ?thesis by (simp add: billing_ok_def)
qed

theorem one_subscription_witness:
  "distinct (map sb_BusinessID (subscriptions (snd (Subscribe sample_billing 1 ''growth'' [] [] (billing_world\<lparr>subscriptions := []\<rparr>)))))"
  using one_subscription [where w = "billing_world\<lparr>subscriptions := []\<rparr>", OF _ r_into_rtranclp, OF _ billing_step.subscribe]
  by simp

text \<open>
  An upgrade is never recorded. A business that has a subscription, which each registration
  gives it, asks for a plan with a price, and the payment is initialised: the table of
  subscriptions stays as it is, the invoice names subscription 0, and the business has the tier of the
  plan, and its limit of employees, before anything is paid.
\<close>

theorem upgrade_not_recorded:
  assumes "faults w = []" and "find (\<lambda>p. sp_Tier p = tier) (plans w) = Some plan" and "sp_PriceMonthly plan \<noteq> 0"
    and "bs_Initialize s = Some initialize" and "\<And>m a r c u n. initialize m a r c u n = Inr url"
    and "t \<in> set (subscriptions w)" and "sb_BusinessID t = bid"
    and "find (\<lambda>b. b_ID b = bid) (businesses w) = Some b" and "tier \<noteq> []"
  shows "post (\<lambda>r w'. r = Inr url \<and> subscriptions w' = subscriptions w \<and>
      (\<exists>v. invoices w' = invoices w @ [v] \<and> iv_SubscriptionID v = 0 \<and> iv_Status v = ''pending'') \<and>
      (\<exists>c. find (\<lambda>b. b_ID b = bid) (businesses w') = Some c \<and> b_SubscriptionTier c = tier))
    (Subscribe s bid tier email link w)"
proof -
  have tier: "sp_Tier plan = tier" using assms(2) by (auto dest: find_SomeD)
  have "\<exists>t\<in>set (subscriptions w). sb_BusinessID t = bid" using assms(6,7) by blast
  then show ?thesis
    using assms tier
    by (auto simp: Subscribe_def plan_FindByTier_def generateBillingRef_def rand_hex_def now_def Let_def
        start_subscription_def subscription_Create_def invoice_Create_def set_tier_clean nonzero_def post_def)
qed

theorem upgrade_not_recorded_witness:
  "post (\<lambda>r w'. r = Inr ''url'' \<and> subscriptions w' = [sample_subscription] \<and>
      (\<exists>v. invoices w' = [v] \<and> iv_SubscriptionID v = 0 \<and> iv_Status v = ''pending'') \<and>
      (\<exists>c. find (\<lambda>b. b_ID b = 1) (businesses w') = Some c \<and> b_SubscriptionTier c = ''growth''))
    (Subscribe sample_billing 1 ''growth'' [] [] billing_world)"
  using upgrade_not_recorded [where w = billing_world and plan = sample_plan and s = sample_billing and bid = 1 and
      b = sample_business and t = sample_subscription and tier = "''growth''" and url = "''url''" and
      initialize = "\<lambda>_ _ _ _ _ _. Inr ''url''" and email = "[]" and link = "[]"]
  by (simp add: billing_world_def sample_world_def sample_plan_def sample_business_def sample_subscription_def sample_billing_def)

end
