(* ===== verification/Cadres.thy ===== *)
theory Cadres
  imports Http
begin

text \<open>
  Salary structures and deduction rules: the services
  (\<^verbatim>\<open>internal/service/cadre_service.go\<close>, \<^verbatim>\<open>deduction_rule_service.go\<close>),
  their statements (\<^verbatim>\<open>cadre_repo.go\<close>, \<^verbatim>\<open>deduction_rule_repo.go\<close>) and their
  handlers. Deleted rows stay in the tables: they are invisible to reads, but the unique keys of the
  migrations and the identifiers count them, and saving one brings it back. Reads that go through the cache
  take what the cache holds as an argument.
\<close>

section \<open>Cadres (cadre_repo.go)\<close>

text \<open>\<^verbatim>\<open>strings.Fields\<close> and \<^verbatim>\<open>Join\<close>, for ASCII.\<close>

fun fields_from :: "string \<Rightarrow> string \<Rightarrow> string list" where
  "fields_from acc [] = (if acc = [] then [] else [rev acc])"
| "fields_from acc (c # s) =
     (if is_space c then (if acc = [] then fields_from [] s else rev acc # fields_from [] s) else fields_from (c # acc) s)"

fun join :: "string \<Rightarrow> string list \<Rightarrow> string" where
  "join sep [] = []"
| "join sep [x] = x"
| "join sep (x # xs) = x @ sep @ join sep xs"

definition SanitizeString :: "string \<Rightarrow> string" where
  "SanitizeString s = join [CHR 0x20] (fields_from [] (to_lower (trim_space s)))"

definition stored_components :: "world \<Rightarrow> earning_component list" where
  "stored_components w = concat (map c_EarningComponents (cadres w @ deleted_cadres w))"

text \<open>
  The components of a cadre that is written. One without an identifier is inserted; one with the
  identifier of a stored component moves this, as it is stored, to the cadre; one with another
  identifier is inserted with it.
\<close>

fun attach :: "earning_component list \<Rightarrow> nat \<Rightarrow> earning_component list \<Rightarrow> earning_component list" where
  "attach stored n [] = []"
| "attach stored n (ec # ecs) =
     (if ec_ID ec = 0 then ec\<lparr>ec_ID := Suc n\<rparr> # attach stored (Suc n) ecs
      else (case find (\<lambda>x. ec_ID x = ec_ID ec) stored of None \<Rightarrow> ec | Some x \<Rightarrow> x) # attach stored n ecs)"

definition last_id :: "('a \<Rightarrow> nat) \<Rightarrow> 'a list \<Rightarrow> nat" where
  "last_id f xs = foldr max (map f xs) 0"

definition attached :: "world \<Rightarrow> earning_component list \<Rightarrow> earning_component list" where
  "attached w ecs = attach (stored_components w) (last_id ec_ID (stored_components w @ ecs)) ecs"

definition without :: "earning_component list \<Rightarrow> cadre \<Rightarrow> cadre" where
  "without ecs c = c\<lparr>c_EarningComponents := filter (\<lambda>x. ec_ID x \<notin> ec_ID ` set ecs) (c_EarningComponents c)\<rparr>"

text \<open>The constraints: the business exists, and its cadres, deleted ones too, have different names.\<close>

definition cadre_allowed :: "cadre \<Rightarrow> world \<Rightarrow> bool" where
  "cadre_allowed c w \<longleftrightarrow> c_BusinessID c \<in> b_ID ` set (businesses w) \<and>
     (\<forall>d \<in> set (cadres w @ deleted_cadres w). c_ID d \<noteq> c_ID c \<longrightarrow> \<not> (c_BusinessID d = c_BusinessID c \<and> c_Name d = c_Name c))"

definition insert_cadre :: "cadre \<Rightarrow> world \<Rightarrow> cadre \<times> world" where
  "insert_cadre c w =
     (let c = c\<lparr>c_EarningComponents := attached w (c_EarningComponents c)\<rparr>
      in (c, w\<lparr>cadres := map (without (c_EarningComponents c)) (cadres w) @ [c],
               deleted_cadres := map (without (c_EarningComponents c)) (deleted_cadres w)\<rparr>))"

definition cadre_Create :: "cadre \<Rightarrow> world \<Rightarrow> cadre res \<times> world" where
  "cadre_Create c = statement (\<lambda>w.
     (let c = c\<lparr>c_ID := Suc (last_id c_ID (cadres w @ deleted_cadres w))\<rparr>
      in if \<not> cadre_allowed c w then (Inl (Plain ''violates constraint''), w)
         else (let (c, w) = insert_cadre c w in (Inr c, w))))"

text \<open>
  \<^verbatim>\<open>Save\<close>: all columns of the row with the identifier, whatever business it belongs to. Its
  components stay, and the ones of the argument are added. A deleted row is back.
\<close>

definition save_cadre :: "cadre \<Rightarrow> world \<Rightarrow> cadre \<times> world" where
  "save_cadre c w =
     (let c = c\<lparr>c_EarningComponents := attached w (c_EarningComponents c)\<rparr>;
          store = (\<lambda>d. (without (c_EarningComponents c) d)
            \<lparr>c_BusinessID := c_BusinessID c, c_Name := c_Name c,
             c_EarningComponents := c_EarningComponents (without (c_EarningComponents c) d) @ c_EarningComponents c\<rparr>);
          put = (\<lambda>d. if c_ID d = c_ID c then store d else without (c_EarningComponents c) d);
          back = map store (filter (\<lambda>d. c_ID d = c_ID c) (deleted_cadres w))
      in (c, w\<lparr>cadres := map put (cadres w) @ back,
               deleted_cadres := map (without (c_EarningComponents c)) (filter (\<lambda>d. c_ID d \<noteq> c_ID c) (deleted_cadres w))\<rparr>))"

definition cadre_Save :: "cadre \<Rightarrow> world \<Rightarrow> cadre res \<times> world" where
  "cadre_Save c w =
     (if c_ID c = 0 then cadre_Create c w
      else statement (\<lambda>w.
        (if \<not> cadre_allowed c w then (Inl (Plain ''violates constraint''), w)
         else if \<forall>d \<in> set (cadres w @ deleted_cadres w). c_ID d \<noteq> c_ID c
         then (let (c, w) = insert_cadre c w in (Inr c, w))
         else (let (c, w) = save_cadre c w in (Inr c, w)))) w)"

definition cadre_FindByID :: "nat \<Rightarrow> nat \<Rightarrow> world \<Rightarrow> cadre res \<times> world" where
  "cadre_FindByID i bid = statement (\<lambda>w.
     (case find (\<lambda>c. c_ID c = i \<and> c_BusinessID c = bid) (all_cadres w) of
        None \<Rightarrow> (Inl (Sentinel ErrNotFound), w) | Some c \<Rightarrow> (Inr c, w)))"

definition cadre_FindByBusinessID :: "nat \<Rightarrow> world \<Rightarrow> cadre list res \<times> world" where
  "cadre_FindByBusinessID bid = statement (\<lambda>w. (Inr (filter (\<lambda>c. c_BusinessID c = bid) (all_cadres w)), w))"

definition cadre_Delete :: "nat \<Rightarrow> nat \<Rightarrow> world \<Rightarrow> unit res \<times> world" where
  "cadre_Delete i bid = statement (\<lambda>w.
     (let gone = (\<lambda>c. c_ID c = i \<and> c_BusinessID c = bid)
      in if \<forall>c \<in> set (cadres w). \<not> gone c then (Inl (Sentinel ErrNotFound), w)
         else (Inr (), w\<lparr>cadres := filter (\<lambda>c. \<not> gone c) (cadres w),
                         deleted_cadres := deleted_cadres w @ filter gone (cadres w)\<rparr>)))"

definition IsCadreNameUnique :: "cadre \<Rightarrow> world \<Rightarrow> bool res \<times> world" where
  "IsCadreNameUnique c = statement (\<lambda>w.
     (Inr (\<forall>d \<in> set (cadres w). c_BusinessID d = c_BusinessID c \<and> c_Name d = c_Name c \<longrightarrow> c_ID c \<noteq> 0 \<and> c_ID d = c_ID c), w))"

section \<open>The service of cadres (cadre_service.go)\<close>

definition validateEarningComponentNamesUnique :: "earning_component list \<Rightarrow> bool" where
  "validateEarningComponentNamesUnique ecs = distinct (map ec_Name ecs)"

definition CreateCadre :: "cadre \<Rightarrow> world \<Rightarrow> cadre res \<times> world" where
  "CreateCadre c w =
     attempt (IsCadreNameUnique c w)
       (\<lambda>e w. (Inl (Wrap ''failed to check cadre name uniqueness: '' e []), w))
       (\<lambda>isUnique w.
          if \<not> isUnique then (Inl (Sentinel ErrConflict), w)
          else if \<not> validateEarningComponentNamesUnique (c_EarningComponents c) then (Inl (Sentinel ErrValidationFailed), w)
          else attempt (cadre_Create c w) (\<lambda>e w. (Inl (Wrap ''failed to create cadre: '' e []), w)) (\<lambda>c w. (Inr c, w)))"

definition ListCadres :: "cadre list option \<Rightarrow> nat \<Rightarrow> world \<Rightarrow> cadre list res \<times> world" where
  "ListCadres cached bid w = (case cached of Some cs \<Rightarrow> (Inr cs, w) | None \<Rightarrow> cadre_FindByBusinessID bid w)"

definition GetCadreByID :: "nat \<Rightarrow> nat \<Rightarrow> world \<Rightarrow> cadre res \<times> world" where
  "GetCadreByID i bid = cadre_FindByID i bid"

definition UpdateCadre :: "cadre \<Rightarrow> world \<Rightarrow> cadre res \<times> world" where
  "UpdateCadre c w =
     attempt (cadre_Save c w) (\<lambda>e w. (Inl (Wrap ''failed to update cadre: '' e []), w)) (\<lambda>c w. (Inr c, w))"

definition DeleteCadre :: "nat \<Rightarrow> nat \<Rightarrow> world \<Rightarrow> unit res \<times> world" where
  "DeleteCadre i bid = cadre_Delete i bid"

section \<open>Deduction rules (deduction_rule_repo.go, deduction_rule_service.go)\<close>

definition rule_allowed :: "deduction_rule \<Rightarrow> world \<Rightarrow> bool" where
  "rule_allowed r w \<longleftrightarrow> dr_BusinessID r \<in> b_ID ` set (businesses w) \<and>
     (\<forall>q \<in> set (deduction_rules w @ deleted_rules w). dr_ID q \<noteq> dr_ID r \<longrightarrow>
        \<not> (dr_BusinessID q = dr_BusinessID r \<and> dr_Name q = dr_Name r))"

definition rule_Create :: "deduction_rule \<Rightarrow> world \<Rightarrow> deduction_rule res \<times> world" where
  "rule_Create r = statement (\<lambda>w.
     (let r = r\<lparr>dr_ID := Suc (last_id dr_ID (deduction_rules w @ deleted_rules w))\<rparr>
      in if \<not> rule_allowed r w then (Inl (Plain ''violates constraint''), w)
         else (Inr r, w\<lparr>deduction_rules := deduction_rules w @ [r]\<rparr>)))"

text \<open>\<^verbatim>\<open>Save\<close> replaces the row with the identifier, of any business; it inserts one that is not there.\<close>

definition rule_Save :: "deduction_rule \<Rightarrow> world \<Rightarrow> deduction_rule res \<times> world" where
  "rule_Save r w =
     (if dr_ID r = 0 then rule_Create r w
      else statement (\<lambda>w.
        (if \<not> rule_allowed r w then (Inl (Plain ''violates constraint''), w)
         else if dr_ID r \<in> dr_ID ` set (deduction_rules w)
         then (Inr r, w\<lparr>deduction_rules := map (\<lambda>q. if dr_ID q = dr_ID r then r else q) (deduction_rules w)\<rparr>)
         else (Inr r, w\<lparr>deduction_rules := deduction_rules w @ [r],
                        deleted_rules := filter (\<lambda>q. dr_ID q \<noteq> dr_ID r) (deleted_rules w)\<rparr>))) w)"

definition rule_FindByID :: "nat \<Rightarrow> nat \<Rightarrow> world \<Rightarrow> deduction_rule res \<times> world" where
  "rule_FindByID i bid = statement (\<lambda>w.
     (case find (\<lambda>r. dr_ID r = i \<and> dr_BusinessID r = bid) (deduction_rules w) of
        None \<Rightarrow> (Inl (Plain ''record not found''), w) | Some r \<Rightarrow> (Inr r, w)))"

definition rule_Delete :: "nat \<Rightarrow> nat \<Rightarrow> world \<Rightarrow> unit res \<times> world" where
  "rule_Delete i bid = statement (\<lambda>w.
     (let gone = (\<lambda>r. dr_ID r = i \<and> dr_BusinessID r = bid)
      in if \<forall>r \<in> set (deduction_rules w). \<not> gone r then (Inl (Sentinel ErrNotFound), w)
         else (Inr (), w\<lparr>deduction_rules := filter (\<lambda>r. \<not> gone r) (deduction_rules w),
                         deleted_rules := deleted_rules w @ filter gone (deduction_rules w)\<rparr>)))"

definition rule_FindByBusinessID :: "nat \<Rightarrow> world \<Rightarrow> deduction_rule list res \<times> world" where
  "rule_FindByBusinessID bid = statement (\<lambda>w. (Inr (filter (\<lambda>r. dr_BusinessID r = bid) (deduction_rules w)), w))"

definition CreateDeductionRule :: "deduction_rule \<Rightarrow> world \<Rightarrow> deduction_rule res \<times> world" where
  "CreateDeductionRule r w =
     attempt (rule_Create r w) (\<lambda>e w. (Inl (Wrap ''failed to create deduction rule: '' e []), w)) (\<lambda>r w. (Inr r, w))"

definition ListDeductionRules :: "deduction_rule list option \<Rightarrow> nat \<Rightarrow> world \<Rightarrow> deduction_rule list res \<times> world" where
  "ListDeductionRules cached bid w = (case cached of Some rs \<Rightarrow> (Inr rs, w) | None \<Rightarrow> rule_FindByBusinessID bid w)"

definition GetDeductionRule :: "nat \<Rightarrow> nat \<Rightarrow> world \<Rightarrow> deduction_rule res \<times> world" where
  "GetDeductionRule i bid = rule_FindByID i bid"

definition UpdateDeductionRule :: "deduction_rule \<Rightarrow> world \<Rightarrow> deduction_rule res \<times> world" where
  "UpdateDeductionRule r w =
     attempt (rule_Save r w) (\<lambda>e w. (Inl (Wrap ''failed to update deduction rule: '' e []), w)) (\<lambda>r w. (Inr r, w))"

definition DeleteDeductionRule :: "nat \<Rightarrow> nat \<Rightarrow> world \<Rightarrow> unit res \<times> world" where
  "DeleteDeductionRule i bid = rule_Delete i bid"


section \<open>Handlers (cadre_handler.go, deduction_rule_handler.go)\<close>

text \<open>A field that is a slice of structs; timestamps of the elements are not decoded.\<close>

definition slice_field :: "((string \<times> json) list \<Rightarrow> 'a option) \<Rightarrow> string \<Rightarrow> (string \<times> json) list \<Rightarrow> 'a list option" where
  "slice_field f k ms =
     map_option (case_option [] id) (pointer (\<lambda>v. case v of
       JArray vs \<Rightarrow> those (map (\<lambda>x. Option.bind (object_members x) f) vs) | _ \<Rightarrow> None) k ms)"

definition component_type :: "string \<Rightarrow> EarningComponentType" where
  "component_type s = (if s = ''basic'' then ComponentBasic else if s = ''housing'' then ComponentHousing
     else if s = ''transport'' then ComponentTransport else ComponentOther)"

definition component_of :: "(string \<times> json) list \<Rightarrow> earning_component option" where
  "component_of ms =
     (case (uint_field ''id'' ms, string_field ''name'' ms, int_field ''amount'' ms, string_field ''component_type'' ms) of
        (Some i, Some n, Some a, Some t) \<Rightarrow> Some \<lparr>ec_ID = i, ec_Name = n, ec_Amount = a, ec_ComponentType = component_type t\<rparr>
      | _ \<Rightarrow> None)"

definition CreateCadreRequest :: "(string \<times> json) list \<Rightarrow> (string \<times> earning_component list) option" where
  "CreateCadreRequest ms =
     (case (string_field ''name'' ms, slice_field component_of ''earning_components'' ms) of
        (Some n, Some ecs) \<Rightarrow> Some (n, ecs) | _ \<Rightarrow> None)"

definition HandleCreateCadre :: "string \<Rightarrow> mw_claims option \<Rightarrow> world \<Rightarrow> cadre response \<times> world" where
  "HandleCreateCadre body claims =
     with_body (decode_body CreateCadreRequest body) (\<lambda>(name, ecs).
       with_claims ErrInternalServer claims (\<lambda>c w.
         respond (CreateCadre \<lparr>c_ID = 0, c_BusinessID = mc_BusinessID c, c_Name = SanitizeString name,
             c_EarningComponents = map (\<lambda>ec. ec\<lparr>ec_Name := SanitizeString (ec_Name ec)\<rparr>) ecs, c_DeductionRules = []\<rparr> w)
           (RespondWithJSON 201)))"

definition HandleListCadres :: "cadre list option \<Rightarrow> mw_claims option \<Rightarrow> world \<Rightarrow> cadre list response \<times> world" where
  "HandleListCadres cached claims =
     with_claims ErrInternalServer claims (\<lambda>c w. respond (ListCadres cached (mc_BusinessID c) w) (RespondWithJSON 200))"

definition HandleGetCadreByID :: "string \<Rightarrow> mw_claims option \<Rightarrow> world \<Rightarrow> cadre response \<times> world" where
  "HandleGetCadreByID i claims =
     with_id i (\<lambda>i. with_claims ErrInternalServer claims (\<lambda>c w. respond (GetCadreByID i (mc_BusinessID c) w) (RespondWithJSON 200)))"

definition HandleUpdateCadre :: "string \<Rightarrow> string \<Rightarrow> mw_claims option \<Rightarrow> world \<Rightarrow> cadre response \<times> world" where
  "HandleUpdateCadre i body claims =
     with_id i (\<lambda>i. with_body (decode_body CreateCadreRequest body) (\<lambda>(name, ecs).
       with_claims ErrInternalServer claims (\<lambda>c w.
         respond (UpdateCadre \<lparr>c_ID = i, c_BusinessID = mc_BusinessID c, c_Name = name, c_EarningComponents = ecs,
             c_DeductionRules = []\<rparr> w) (RespondWithJSON 200))))"

definition HandleDeleteCadre :: "string \<Rightarrow> mw_claims option \<Rightarrow> world \<Rightarrow> unit response \<times> world" where
  "HandleDeleteCadre i claims =
     with_id i (\<lambda>i. with_claims ErrInternalServer claims (\<lambda>c w. respond (DeleteCadre i (mc_BusinessID c) w) (Reply 204)))"

text \<open>The request with the rules of the validator: required, one of two texts, not zero.\<close>

definition to_float :: "json \<Rightarrow> float64 option" where
  "to_float v = as_float (Some v)"

definition rule_type :: "string \<Rightarrow> DeductionRuleType option" where
  "rule_type s = (if s = ''percentage'' then Some DeductionTypePercentage else if s = ''flat'' then Some DeductionTypeFlat else None)"

definition rule_basis :: "string \<Rightarrow> CalculationBasis option" where
  "rule_basis s = (if s = ''gross_pay'' then Some BasisGrossPay else if s = ''basic_pay'' then Some BasisBasicPay else None)"

definition CreateDeductionRuleRequest :: "(string \<times> json) list \<Rightarrow> deduction_rule option" where
  "CreateDeductionRuleRequest ms =
     (case (string_field ''name'' ms, Option.bind (string_field ''type'' ms) rule_type,
            field to_float (float_of_int64 0) ''value'' ms, Option.bind (string_field ''calculation_basis'' ms) rule_basis) of
        (Some n, Some t, Some v, Some b) \<Rightarrow>
          if n = [] \<or> v = float_of_int64 0 then None
          else Some \<lparr>dr_ID = 0, dr_BusinessID = 0, dr_CadreID = 0, dr_Name = n, dr_Type = t, dr_Value = v, dr_CalculationBasis = b\<rparr>
      | _ \<Rightarrow> None)"

definition HandleCreateDeductionRule :: "string \<Rightarrow> mw_claims option \<Rightarrow> world \<Rightarrow> deduction_rule response \<times> world" where
  "HandleCreateDeductionRule body claims =
     with_body (decode_body CreateDeductionRuleRequest body) (\<lambda>r. with_claims ErrUnauthorized claims (\<lambda>c w.
       respond (CreateDeductionRule (r\<lparr>dr_BusinessID := mc_BusinessID c\<rparr>) w) (RespondWithJSON 201)))"

definition HandleListDeductionRules ::
  "deduction_rule list option \<Rightarrow> mw_claims option \<Rightarrow> world \<Rightarrow> deduction_rule list response \<times> world" where
  "HandleListDeductionRules cached claims =
     with_claims ErrUnauthorized claims (\<lambda>c w. respond (ListDeductionRules cached (mc_BusinessID c) w) (RespondWithJSON 200))"

definition HandleUpdateDeductionRule :: "string \<Rightarrow> string \<Rightarrow> mw_claims option \<Rightarrow> world \<Rightarrow> deduction_rule response \<times> world" where
  "HandleUpdateDeductionRule i body claims =
     with_id i (\<lambda>i. with_body (decode_body CreateDeductionRuleRequest body) (\<lambda>r. with_claims ErrUnauthorized claims (\<lambda>c w.
       respond (UpdateDeductionRule (r\<lparr>dr_ID := i, dr_BusinessID := mc_BusinessID c\<rparr>) w) (RespondWithJSON 200))))"

definition HandleDeleteDeductionRule :: "string \<Rightarrow> mw_claims option \<Rightarrow> world \<Rightarrow> unit response \<times> world" where
  "HandleDeleteDeductionRule i claims =
     with_id i (\<lambda>i. with_claims ErrUnauthorized claims (\<lambda>c w. respond (DeleteDeductionRule i (mc_BusinessID c) w) (Reply 204)))"


section \<open>What is written\<close>

text \<open>Components without identifiers are inserted behind all others and move nothing.\<close>

definition component_data :: "earning_component \<Rightarrow> string \<times> int64 \<times> EarningComponentType" where
  "component_data ec = (ec_Name ec, ec_Amount ec, ec_ComponentType ec)"

lemma last_id_bound: "x \<in> set xs \<Longrightarrow> f x \<le> last_id f xs"
  unfolding last_id_def by (induction xs) auto

lemma attach_new:
  "\<forall>ec \<in> set ecs. ec_ID ec = 0 \<Longrightarrow>
   map component_data (attach stored n ecs) = map component_data ecs \<and> (\<forall>ec \<in> set (attach stored n ecs). n < ec_ID ec)"
  by (induction ecs arbitrary: n) (auto simp: component_data_def, fastforce)

lemma attached_new:
  assumes "\<forall>ec \<in> set ecs. ec_ID ec = 0"
  shows "map component_data (attached w ecs) = map component_data ecs"
    and "c \<in> set (cadres w @ deleted_cadres w) \<Longrightarrow> without (attached w ecs) c = c"
proof -
  show "map component_data (attached w ecs) = map component_data ecs"
    unfolding attached_def using attach_new [OF assms] by blast
  assume c: "c \<in> set (cadres w @ deleted_cadres w)"
  have "ec_ID x < ec_ID y" if "x \<in> set (c_EarningComponents c)" "y \<in> set (attached w ecs)" for x y
  proof -
    have "x \<in> set (stored_components w @ ecs)" using that(1) c by (auto simp: stored_components_def)
    then have "ec_ID x \<le> last_id ec_ID (stored_components w @ ecs)" by (rule last_id_bound)
    then show ?thesis using attach_new [OF assms] that(2) unfolding attached_def by fastforce
  qed
  then have "filter (\<lambda>x. ec_ID x \<notin> ec_ID ` set (attached w ecs)) (c_EarningComponents c) = c_EarningComponents c"
    by (intro filter_True) fastforce
  then show "without (attached w ecs) c = c" by (simp add: without_def)
qed

definition keys_distinct :: "world \<Rightarrow> bool" where
  "keys_distinct w \<longleftrightarrow> distinct (map c_ID (cadres w @ deleted_cadres w))"

lemma cadre_save_effect:
  assumes "faults w = []" and "keys_distinct w" and "d \<in> set (cadres w)" and "c_ID d = i" and "i \<noteq> 0"
    and "\<forall>ec \<in> set ecs. ec_ID ec = 0"
    and c: "c = \<lparr>c_ID = i, c_BusinessID = bid, c_Name = name, c_EarningComponents = ecs, c_DeductionRules = []\<rparr>"
    and "cadre_allowed c w"
  shows "cadre_Save c w = (Inr (c\<lparr>c_EarningComponents := attached w ecs\<rparr>), w\<lparr>cadres :=
    map (\<lambda>d. if c_ID d = i then d\<lparr>c_BusinessID := bid, c_Name := name,
      c_EarningComponents := c_EarningComponents d @ attached w ecs\<rparr> else d) (cadres w)\<rparr>)"
proof -
  have keep: "without (attached w ecs) x = x" if "x \<in> set (cadres w) \<or> x \<in> set (deleted_cadres w)" for x
    by (rule attached_new(2) [OF assms(6)]) (use that in simp)
  have other: "c_ID x \<noteq> i" if "x \<in> set (deleted_cadres w)" for x
  proof -
    have "c_ID d \<noteq> c_ID x"
      using assms(2,3) that unfolding keys_distinct_def map_append distinct_append set_map by blast
    then show ?thesis using assms(4) by simp
  qed
  have "filter (\<lambda>x. c_ID x = i) (deleted_cadres w) = []" "filter (\<lambda>x. c_ID x \<noteq> i) (deleted_cadres w) = deleted_cadres w"
    using other by (auto simp: filter_empty_conv intro: filter_True)
  moreover have "map (without (attached w ecs)) (deleted_cadres w) = deleted_cadres w"
    by (rule map_idI) (simp add: keep)
  ultimately have "snd (save_cadre c w) = w\<lparr>cadres :=
      map (\<lambda>d. if c_ID d = i then d\<lparr>c_BusinessID := bid, c_Name := name,
        c_EarningComponents := c_EarningComponents d @ attached w ecs\<rparr> else d) (cadres w)\<rparr>"
    by (simp add: save_cadre_def Let_def c keep cong: map_cong)
  moreover have "fst (save_cadre c w) = c\<lparr>c_EarningComponents := attached w ecs\<rparr>"
    by (simp add: save_cadre_def Let_def c)
  moreover have "\<exists>d \<in> set (cadres w @ deleted_cadres w). c_ID d = i" using assms(3,4) by auto
  ultimately show ?thesis
    using assms(1,5,8) unfolding cadre_Save_def
    by (auto simp: c prod_eq_iff split_beta)
qed

text \<open>After the update the cadre reads, for the business that sent it, as its old components and the new ones.\<close>

lemma find_first: "distinct (map f xs) \<Longrightarrow> x \<in> set xs \<Longrightarrow> find (\<lambda>y. f y = f x \<and> p y) xs = (if p x then Some x else None)"
proof (induction xs)
  case (Cons a xs)
  then show ?case by (cases "f a = f x") (auto simp: find_None_iff image_iff)
qed simp

lemma update_reads:
  assumes "faults w = []" and "keys_distinct w" and "d \<in> set (cadres w)" and "c_ID d = i" and "i \<noteq> 0"
    and "\<forall>ec \<in> set ecs. ec_ID ec = 0"
    and c: "c = \<lparr>c_ID = i, c_BusinessID = bid, c_Name = name, c_EarningComponents = ecs, c_DeductionRules = []\<rparr>"
    and "cadre_allowed c w"
  shows "post (\<lambda>r w'. (\<exists>u. r = Inr u) \<and> faults w' = [] \<and>
      (\<exists>e. fst (GetCadreByID i bid w') = Inr e \<and>
        map component_data (c_EarningComponents e) = map component_data (c_EarningComponents d) @ map component_data ecs) \<and>
      (c_BusinessID d = bid \<or> fst (GetCadreByID i (c_BusinessID d) w') = Inl (Sentinel ErrNotFound)))
    (UpdateCadre c w)"
proof -
  let ?g = "\<lambda>d. if c_ID d = i then d\<lparr>c_BusinessID := bid, c_Name := name,
      c_EarningComponents := c_EarningComponents d @ attached w ecs\<rparr> else d"
  let ?w = "w\<lparr>cadres := map ?g (cadres w)\<rparr>"
  have ids: "map c_ID (all_cadres ?w) = map c_ID (cadres w)"
    by (simp add: all_cadres_def with_rules_def o_def if_distrib [of c_ID] cong: if_cong)
  have "distinct (map c_ID (all_cadres ?w))" using assms(2) unfolding ids by (simp add: keys_distinct_def)
  moreover have "with_rules ?w (?g d) \<in> set (all_cadres ?w)"
    using assms(3) by (force simp: all_cadres_def)
  ultimately have "find (\<lambda>x. c_ID x = i \<and> c_BusinessID x = b) (all_cadres ?w) =
      (if bid = b then Some (with_rules ?w (?g d)) else None)" for b
    using find_first [of c_ID "all_cadres ?w" "with_rules ?w (?g d)" "\<lambda>x. c_BusinessID x = b"] assms(4)
    by (simp add: with_rules_def)
  then show ?thesis
    using assms(1,4) cadre_save_effect [OF assms] attached_new(1) [OF assms(6), of w]
    by (auto simp: UpdateCadre_def GetCadreByID_def cadre_FindByID_def with_rules_def)
qed


section \<open>Rules of no cadre\<close>

text \<open>The requests of the handlers, and whatever leaves the rules alone.\<close>

inductive rule_step :: "world \<Rightarrow> world \<Rightarrow> bool" where
  create: "rule_step w (snd (HandleCreateDeductionRule body claims w))"
| update: "rule_step w (snd (HandleUpdateDeductionRule i body claims w))"
| delete: "rule_step w (snd (HandleDeleteDeductionRule i claims w))"
| elsewhere: "deduction_rules w' = deduction_rules w \<Longrightarrow> rule_step w w'"

definition unattached :: "world \<Rightarrow> bool" where
  "unattached w \<longleftrightarrow> (\<forall>r \<in> set (deduction_rules w). dr_CadreID r = 0)"

lemma unattached_writes [simp]:
  "unattached (w\<lparr>faults := fs\<rparr>) = unattached w"
  "unattached (w\<lparr>faults := fs, deduction_rules := rs\<rparr>) = unattached (w\<lparr>deduction_rules := rs\<rparr>)"
  "unattached (w\<lparr>faults := fs, deduction_rules := rs, deleted_rules := ds\<rparr>) = unattached (w\<lparr>deduction_rules := rs\<rparr>)"
  by (simp_all add: unattached_def)

lemma request_unattached: "CreateDeductionRuleRequest ms = Some r \<Longrightarrow> dr_CadreID r = 0"
  by (auto simp: CreateDeductionRuleRequest_def split: option.splits if_splits)

lemma body_unattached: "decode_body CreateDeductionRuleRequest body = Some r \<Longrightarrow> dr_CadreID r = 0"
  by (auto simp: decode_body_def dest: request_unattached split: option.splits)

lemma rule_writes_unattached:
  "unattached w \<Longrightarrow> dr_CadreID r = 0 \<Longrightarrow> post (\<lambda>_. unattached) (rule_Create r w)"
  "unattached w \<Longrightarrow> dr_CadreID r = 0 \<Longrightarrow> post (\<lambda>_. unattached) (rule_Save r w)"
  "unattached w \<Longrightarrow> post (\<lambda>_. unattached) (rule_Delete i bid w)"
  unfolding rule_Save_def rule_Create_def rule_Delete_def
  by (auto intro!: wp_statement wp_if simp: Let_def) (auto simp: unattached_def)

lemma rule_step_unattached: "rule_step w w' \<Longrightarrow> unattached w \<Longrightarrow> unattached w'"
proof (induction rule: rule_step.induct)
  case (create w body claims)
  have "post (\<lambda>_. unattached) (HandleCreateDeductionRule body claims w)"
    unfolding HandleCreateDeductionRule_def with_body_def with_claims_def respond_def CreateDeductionRule_def
    using create rule_writes_unattached(1)
    by (auto intro!: wp rule_writes_unattached(1) [THEN post_mono] simp: body_unattached)
  then show ?case by (simp add: post_def)
next
  case (update w i body claims)
  have "post (\<lambda>_. unattached) (HandleUpdateDeductionRule i body claims w)"
    unfolding HandleUpdateDeductionRule_def with_id_def with_body_def with_claims_def respond_def UpdateDeductionRule_def
    using update
    by (auto intro!: wp rule_writes_unattached(2) [THEN post_mono] simp: body_unattached)
  then show ?case by (simp add: post_def)
next
  case (delete w i claims)
  have "post (\<lambda>_. unattached) (HandleDeleteDeductionRule i claims w)"
    unfolding HandleDeleteDeductionRule_def with_id_def with_claims_def respond_def DeleteDeductionRule_def
    using delete by (auto intro!: wp rule_writes_unattached(3) [THEN post_mono])
  then show ?case by (simp add: post_def)
qed (simp add: unattached_def)

lemma rule_steps_unattached: "rule_step\<^sup>*\<^sup>* w w' \<Longrightarrow> unattached w \<Longrightarrow> unattached w'"
  by (induction rule: rtranclp_induct) (auto intro: rule_step_unattached)

section \<open>Properties\<close>

text \<open>
  An update of a salary structure neither replaces its components nor stays in the business. The
  request names a cadre by its identifier, whichever business has it, and lists components: the update
  succeeds, the cadre then belongs to the business that sent the request and has its old components
  followed by the listed ones, so that resending the same components doubles the pay, and the business that
  had it no longer finds it.
\<close>

theorem cadre_update_takes_over:
  assumes "faults w = []" and "keys_distinct w" and "d \<in> set (cadres w)" and "c_ID d \<noteq> 0"
    and "\<forall>ec \<in> set ecs. ec_ID ec = 0"
    and "c = \<lparr>c_ID = c_ID d, c_BusinessID = bid, c_Name = name, c_EarningComponents = ecs, c_DeductionRules = []\<rparr>"
    and "cadre_allowed c w"
  shows "post (\<lambda>r w'. (\<exists>u. r = Inr u) \<and>
      (\<exists>e. fst (GetCadreByID (c_ID d) bid w') = Inr e \<and>
        map component_data (c_EarningComponents e) = map component_data (c_EarningComponents d) @ map component_data ecs) \<and>
      (c_BusinessID d = bid \<or> fst (GetCadreByID (c_ID d) (c_BusinessID d) w') = Inl (Sentinel ErrNotFound)))
    (UpdateCadre c w)"
  using update_reads [OF assms(1-3) refl assms(4-7)] by (rule post_mono) auto

text \<open>Business 2 sends the components of cadre 7 of business 1.\<close>

definition two_businesses :: "business \<Rightarrow> world \<Rightarrow> world" where
  "two_businesses b w = w\<lparr>faults := [], businesses := [b\<lparr>b_ID := 1\<rparr>, b\<lparr>b_ID := 2\<rparr>], deleted_cadres := [],
     cadres := [\<lparr>c_ID = 7, c_BusinessID = 1, c_Name = ''chief'',
       c_EarningComponents = [\<lparr>ec_ID = 4, ec_Name = ''base'', ec_Amount = 900, ec_ComponentType = ComponentBasic\<rparr>],
       c_DeductionRules = []\<rparr>]\<rparr>"

theorem cadre_update_takes_over_witness:
  "\<forall>b w. post (\<lambda>_ w'. \<exists>e. fst (GetCadreByID 7 2 w') = Inr e \<and> map ec_Amount (c_EarningComponents e) = [900, 900])
    (UpdateCadre \<lparr>c_ID = 7, c_BusinessID = 2, c_Name = ''chief'',
       c_EarningComponents = [\<lparr>ec_ID = 0, ec_Name = ''base'', ec_Amount = 900, ec_ComponentType = ComponentBasic\<rparr>],
       c_DeductionRules = []\<rparr> (two_businesses b w))"
proof (intro allI)
  fix b :: business and w
  let ?d = "\<lparr>c_ID = 7, c_BusinessID = 1, c_Name = ''chief'',
       c_EarningComponents = [\<lparr>ec_ID = 4, ec_Name = ''base'', ec_Amount = 900, ec_ComponentType = ComponentBasic\<rparr>],
       c_DeductionRules = []\<rparr>"
  let ?ecs = "[\<lparr>ec_ID = 0, ec_Name = ''base'', ec_Amount = 900, ec_ComponentType = ComponentBasic\<rparr>]"
  have "post (\<lambda>r w'. (\<exists>u. r = Inr u) \<and>
      (\<exists>e. fst (GetCadreByID (c_ID ?d) 2 w') = Inr e \<and>
        map component_data (c_EarningComponents e) = map component_data (c_EarningComponents ?d) @ map component_data ?ecs) \<and>
      (c_BusinessID ?d = 2 \<or> fst (GetCadreByID (c_ID ?d) (c_BusinessID ?d) w') = Inl (Sentinel ErrNotFound)))
    (UpdateCadre \<lparr>c_ID = c_ID ?d, c_BusinessID = 2, c_Name = ''chief'', c_EarningComponents = ?ecs, c_DeductionRules = []\<rparr>
      (two_businesses b w))"
    by (rule cadre_update_takes_over [OF _ _ _ _ _ refl])
      (simp_all add: two_businesses_def keys_distinct_def cadre_allowed_def)
  then show "post (\<lambda>_ w'. \<exists>e. fst (GetCadreByID 7 2 w') = Inr e \<and> map ec_Amount (c_EarningComponents e) = [900, 900])
    (UpdateCadre \<lparr>c_ID = 7, c_BusinessID = 2, c_Name = ''chief'', c_EarningComponents = ?ecs, c_DeductionRules = []\<rparr>
      (two_businesses b w))"
    by (simp, elim post_mono) (auto simp: component_data_def map_eq_Cons_conv)
qed

text \<open>
  Deduction rules that are created never apply. The handlers store rules without a cadre, and a
  payroll run reads the rules of cadres only: whatever rules are created, changed and deleted, when at the
  start no rule names a cadre then every cadre is read without rules.
\<close>

theorem rules_never_apply:
  assumes "\<forall>r \<in> set (deduction_rules w). dr_CadreID r = 0" and "rule_step\<^sup>*\<^sup>* w w'"
    and "c \<in> set (all_cadres w')" and "c_ID c \<noteq> 0"
  shows "c_DeductionRules c = []"
proof -
  have "unattached w'" using rule_steps_unattached [OF assms(2)] assms(1) by (simp add: unattached_def)
  then show ?thesis using assms(3,4) by (auto simp: all_cadres_def with_rules_def unattached_def filter_empty_conv)
qed

abbreviation "sample_rule_body \<equiv>
  ''{\"name\":\"tax\",\"type\":\"flat\",\"value\":5,\"calculation_basis\":\"gross_pay\"}''"

abbreviation "sample_rule_members \<equiv> [(''name'', JString ''tax''), (''type'', JString ''flat''), (''value'', JNumber ''5''),
  (''calculation_basis'', JString ''gross_pay'')]"

lemma sample_rule_fields:
  "decode_json sample_rule_body = Some (JObject sample_rule_members)"
  "string_field ''name'' sample_rule_members = Some ''tax''"
  "string_field ''type'' sample_rule_members = Some ''flat''"
  "string_field ''calculation_basis'' sample_rule_members = Some ''gross_pay''"
  "named ''value'' sample_rule_members = [JNumber ''5'']"
  "show_int 5 = ''5''"
  by code_simp+

lemma sample_rule: "decode_body CreateDeductionRuleRequest sample_rule_body = Some \<lparr>dr_ID = 0, dr_BusinessID = 0, dr_CadreID = 0,
    dr_Name = ''tax'', dr_Type = DeductionTypeFlat, dr_Value = Fin 5, dr_CalculationBasis = BasisGrossPay\<rparr>"
proof -
  have "parse_float ''5'' = Some (float_of_int64 5)" "float_of_int64 5 = Fin 5" "float_of_int64 0 = Fin 0"
    using parse_float_show_int [of 5] rnd_int [of 5] by (simp_all add: sample_rule_fields(6) float_of_int64_def fl)
  moreover from this have "field to_float (Fin 0) ''value'' sample_rule_members = Some (Fin 5)"
    unfolding field_def sample_rule_fields(5) by (simp add: to_float_def as_float_def)
  ultimately show ?thesis
    by (simp add: decode_body_def object_members_def CreateDeductionRuleRequest_def sample_rule_fields(1-4)
        rule_type_def rule_basis_def)
qed

theorem rules_never_apply_witness:
  "\<forall>b w. let claims = Some \<lparr>mc_UserID = 1, mc_BusinessID = 1, mc_Role = ''admin'', mc_EmployeeID = 0\<rparr>;
       w' = snd (HandleCreateDeductionRule sample_rule_body claims ((two_businesses b w)\<lparr>deduction_rules := [], deleted_rules := []\<rparr>))
     in length (deduction_rules w') = 1 \<and> list_all (\<lambda>c. c_DeductionRules c = []) (all_cadres w')"
proof (intro allI)
  fix b :: business and w
  let ?claims = "Some \<lparr>mc_UserID = 1, mc_BusinessID = 1, mc_Role = ''admin'', mc_EmployeeID = 0\<rparr>"
  let ?w = "(two_businesses b w)\<lparr>deduction_rules := [], deleted_rules := []\<rparr>"
  let ?w' = "snd (HandleCreateDeductionRule sample_rule_body ?claims ?w)"
  have w': "length (deduction_rules ?w') = 1" "cadres ?w' = cadres ?w"
    by (simp_all add: HandleCreateDeductionRule_def sample_rule with_body_def with_claims_def respond_def CreateDeductionRule_def
        rule_Create_def two_businesses_def rule_allowed_def Let_def)
  have "c_DeductionRules c = []" if "c \<in> set (all_cadres ?w')" for c
    by (rule rules_never_apply [OF _ r_into_rtranclp, OF _ rule_step.create that])
      (use that w'(2) in \<open>auto simp: all_cadres_def with_rules_def two_businesses_def\<close>)
  with w'(1) show "let claims = ?claims; w' = snd (HandleCreateDeductionRule sample_rule_body claims ?w)
     in length (deduction_rules w') = 1 \<and> list_all (\<lambda>c. c_DeductionRules c = []) (all_cadres w')"
    by (simp add: Let_def list_all_iff)
qed

end
