(* ===== verification/Registration.thy ===== *)
theory Registration
  imports Billing Cadres
begin

text \<open>
  The registration of a business (\<^verbatim>\<open>RegisterBusiness\<close> of
  \<^verbatim>\<open>internal/service/auth_service.go\<close>) in a database transaction
  (\<^verbatim>\<open>transaction_repo.go\<close>). A transaction is its own view of the tables of businesses
  and users: statements through \<^verbatim>\<open>WithTx\<close> see and change the view, the others the
  committed tables, and \<^verbatim>\<open>Commit\<close> makes the view the committed tables. As in Postgres, a
  statement that fails aborts the transaction: every later statement of it and its commit fail. A
  transaction that could not begin behaves the same way. VFD's creation of an account is a
  parameter.
\<close>

section \<open>Transactions\<close>

record tx =
  tx_businesses :: "business list"
  tx_users :: "user list"
  tx_aborted :: bool

definition tx_error :: gerror where
  "tx_error = Plain ''current transaction is aborted''"

definition Begin :: "world \<Rightarrow> tx \<times> world" where
  "Begin w = (let (f, w) = fault w in (\<lparr>tx_businesses = businesses w, tx_users = users w, tx_aborted = f\<rparr>, w))"

text \<open>A statement that finds no row is no failure of the transaction.\<close>

definition in_tx :: "(world \<Rightarrow> 'a res \<times> world) \<Rightarrow> tx \<Rightarrow> world \<Rightarrow> 'a res \<times> tx \<times> world" where
  "in_tx body t w =
     (if tx_aborted t then (Inl tx_error, t, w)
      else (let (r, v) = body (w\<lparr>businesses := tx_businesses t, users := tx_users t\<rparr>)
            in (r, \<lparr>tx_businesses = businesses v, tx_users = users v,
                    tx_aborted = (case r of Inl e \<Rightarrow> e \<noteq> Sentinel ErrNotFound | Inr _ \<Rightarrow> False)\<rparr>,
                v\<lparr>businesses := businesses w, users := users w\<rparr>)))"

definition Commit :: "tx \<Rightarrow> world \<Rightarrow> unit res \<times> world" where
  "Commit t w =
     (if tx_aborted t then (Inl tx_error, w)
      else statement (\<lambda>w. (Inr (), w\<lparr>businesses := tx_businesses t, users := tx_users t\<rparr>)) w)"

definition tx_attempt ::
  "'a res \<times> tx \<times> world \<Rightarrow> (gerror \<Rightarrow> tx \<Rightarrow> world \<Rightarrow> 'b) \<Rightarrow> ('a \<Rightarrow> tx \<Rightarrow> world \<Rightarrow> 'b) \<Rightarrow> 'b" where
  "tx_attempt r h k = (case r of (x, t, w) \<Rightarrow> (case x of Inl e \<Rightarrow> h e t w | Inr x \<Rightarrow> k x t w))"

section \<open>The statements of a registration\<close>

text \<open>
  The sequence of identifiers has passed every one it gave, also to businesses whose registration
  was rolled back and left a subscription. Columns that are zero and have a default take it.
\<close>

definition new_business_id :: "world \<Rightarrow> nat" where
  "new_business_id w = Suc (foldr max (map b_ID (businesses w) @ map sb_BusinessID (subscriptions w)) 0)"

definition business_defaults :: "business \<Rightarrow> business" where
  "business_defaults b = b\<lparr>b_PayrollRequiresApproval := True, b_PAYEEnabled := True,
     b_Currency := nonzero [] (b_Currency b) ''NGN'', b_SubscriptionTier := nonzero [] (b_SubscriptionTier b) PlanFree,
     b_SubscriptionStatus := nonzero [] (b_SubscriptionStatus b) ''active''\<rparr>"

definition business_Create :: "business \<Rightarrow> world \<Rightarrow> business res \<times> world" where
  "business_Create b = statement (\<lambda>w.
     (let b = (business_defaults b)\<lparr>b_ID := new_business_id w\<rparr> in (Inr b, w\<lparr>businesses := businesses w @ [b]\<rparr>)))"

section \<open>RegisterBusiness\<close>

record registrar = auth_service +
  rg_CadreRepo :: bool
  rg_PlanRepos :: bool
  rg_CreateAccount :: "(string \<Rightarrow> string \<Rightarrow> zoned \<Rightarrow> string \<Rightarrow> nat \<Rightarrow> (string \<times> string) res) option"

definition as_auth :: "registrar \<Rightarrow> auth_service" where
  "as_auth s = auth_service.truncate s"

definition new_business :: "string \<Rightarrow> string \<Rightarrow> zoned \<Rightarrow> string \<Rightarrow> business" where
  "new_business name rcNumber incorporationDate directorBVN =
     \<lparr>b_ID = 0, b_AdminID = 0, b_Name = name, b_RCNumber = Some rcNumber, b_IncorporationDate = Some incorporationDate,
      b_DirectorBVN = Some directorBVN, b_DirectorBVNLast4 = [], b_BVNVerified = False, b_RCVerified = False,
      b_IsVerified = False, b_VFDAccountNumber = None, b_VFDAccountName = None, b_PayrollRequiresApproval = False,
      b_PayrollAutoProcess = False, b_PensionEnabled = False, b_NHFEnabled = False, b_NSITFEnabled = False,
      b_PAYEEnabled = False, b_Currency = [], b_SubscriptionTier = [], b_SubscriptionStatus = [], b_IsSuspended = False\<rparr>"

definition last4 :: "string \<Rightarrow> business \<Rightarrow> business" where
  "last4 bvn b = (if 4 \<le> length bvn then b\<lparr>b_DirectorBVNLast4 := drop (length bvn - 4) bvn\<rparr> else b)"

text \<open>The business, its administrator and the link between them; the error of the last update is dropped.\<close>

definition register_rows ::
  "business \<Rightarrow> string \<Rightarrow> string \<Rightarrow> string \<Rightarrow> tx \<Rightarrow> world \<Rightarrow> (business \<times> Accounts.account) res \<times> tx \<times> world" where
  "register_rows b email pwhash directorBVN t w =
     tx_attempt (in_tx (business_Create b) t w)
       (\<lambda>e t w. (Inl (Wrap (if e = Sentinel ErrConflict then ''business already exists: '' else ''could not create business: '') e []), t, w))
       (\<lambda>b t w. tx_attempt (in_tx (user_Create (new_account (b_ID b) email pwhash RoleAdmin)) t w)
         (\<lambda>e t w. (Inl (if e = Sentinel ErrConflict then Wrap (''user with email '' @ [CHR 0x27] @ email @ [CHR 0x27] @ '' already exists: '') e []
                        else Wrap ''could not create admin user: '' e []), t, w))
         (\<lambda>u t w. (let b = b\<lparr>b_AdminID := u_ID u\<rparr>
            in tx_attempt (in_tx (business_Update b) t w)
                 (\<lambda>e t w. (Inl (Wrap ''could not link admin to business: '' e []), t, w))
                 (\<lambda>_ t w. (let b = last4 directorBVN b; (_, t, w) = in_tx (business_Update b) t w in (Inr (b, u), t, w))))))"

definition default_cadre :: "nat \<Rightarrow> cadre" where
  "default_cadre bid = \<lparr>c_ID = 0, c_BusinessID = bid, c_Name = ''Standard'', c_EarningComponents =
     [\<lparr>ec_ID = 0, ec_Name = ''Basic Salary'', ec_Amount = 15000000, ec_ComponentType = ComponentBasic\<rparr>,
      \<lparr>ec_ID = 0, ec_Name = ''Housing Allowance'', ec_Amount = 5000000, ec_ComponentType = ComponentHousing\<rparr>,
      \<lparr>ec_ID = 0, ec_Name = ''Transport Allowance'', ec_Amount = 3000000, ec_ComponentType = ComponentTransport\<rparr>], c_DeductionRules = []\<rparr>"

text \<open>Not through the transaction; an error is logged.\<close>

definition create_cadre :: "registrar \<Rightarrow> nat \<Rightarrow> world \<Rightarrow> world" where
  "create_cadre s bid w = (if rg_CadreRepo s then snd (cadre_Create (default_cadre bid) w) else w)"

text \<open>The plan and the subscription are not part of the transaction either, the columns of the business are.\<close>

definition free_plan :: "registrar \<Rightarrow> business \<Rightarrow> tx \<Rightarrow> world \<Rightarrow> business \<times> tx \<times> world" where
  "free_plan s b t w =
     (if \<not> rg_PlanRepos s then (b, t, w)
      else attempt (plan_FindByTier PlanFree w)
        (\<lambda>_ w. (b, t, w))
        (\<lambda>plan w. (let (time, w) = now w
           in attempt (subscription_Create \<lparr>sb_ID = 0, sb_BusinessID = b_ID b, sb_PlanID = sp_ID plan, sb_Status = ''active'',
                         sb_CreatedAt = 0, sb_CurrentPeriodStart = time, sb_CurrentPeriodEnd = AddDate 100 0 0 time,
                         sb_CancelledAt = None\<rparr> w)
                (\<lambda>_ w. (b, t, w))
                (\<lambda>_ w. (let b = b\<lparr>b_SubscriptionTier := PlanFree, b_SubscriptionStatus := ''active''\<rparr>;
                            (_, t, w) = in_tx (business_Update b) t w in (b, t, w))))))"

definition vfd_account ::
  "registrar \<Rightarrow> string \<Rightarrow> string \<Rightarrow> zoned \<Rightarrow> string \<Rightarrow> business \<Rightarrow> tx \<Rightarrow> world \<Rightarrow> (string \<times> string) res \<times> tx \<times> world" where
  "vfd_account s name rcNumber incorporationDate directorBVN b t w =
     (case rg_CreateAccount s of
        None \<Rightarrow> (Inr ([], name), t, w)
      | Some create \<Rightarrow>
          (case create rcNumber name incorporationDate directorBVN (tick w) of
             Inl _ \<Rightarrow> (Inr ([], name), t, w)
           | Inr (number, account) \<Rightarrow>
               tx_attempt (in_tx (business_Update (b\<lparr>b_VFDAccountNumber := Some number, b_VFDAccountName := Some account\<rparr>)) t w)
                 (\<lambda>e t w. (Inl (Wrap ''could not update business with VFD account details: '' e []), t, w))
                 (\<lambda>_ t w. (Inr (number, account), t, w))))"

definition register_business ::
  "registrar \<Rightarrow> string \<Rightarrow> string \<Rightarrow> string \<Rightarrow> string \<Rightarrow> zoned \<Rightarrow> string \<Rightarrow> world \<Rightarrow> (Accounts.account \<times> string \<times> string) res \<times> world" where
  "register_business s name email password rcNumber incorporationDate directorBVN w =
     (let (t, w) = Begin w
      in attempt (HashPassword (as_auth s) password w)
           (\<lambda>e w. (Inl (Wrap ''could not hash password: '' e []), w))
           (\<lambda>h w. tx_attempt (register_rows (new_business name rcNumber incorporationDate directorBVN) email h directorBVN t w)
             (\<lambda>e t w. (Inl e, w))
             (\<lambda>(b, u) t w.
                (let w = create_cadre s (b_ID b) w; (b, t, w) = free_plan s b t w
                 in tx_attempt (vfd_account s name rcNumber incorporationDate directorBVN b t w)
                      (\<lambda>e t w. (Inl e, w))
                      (\<lambda>account t w. attempt (Commit t w)
                         (\<lambda>e w. (Inl (Wrap ''failed to commit registration transaction: '' e []), w))
                         (\<lambda>_ w. (Inr (u, account), w)))))))"

text \<open>The e-mail with the token is sent by another goroutine, which here runs at once.\<close>

definition RegisterBusiness ::
  "registrar \<Rightarrow> string \<Rightarrow> string \<Rightarrow> string \<Rightarrow> string \<Rightarrow> zoned \<Rightarrow> string \<Rightarrow> world \<Rightarrow> (Accounts.account \<times> string \<times> string) res \<times> world" where
  "RegisterBusiness s name email password rcNumber incorporationDate directorBVN w =
     attempt (register_business s name email password rcNumber incorporationDate directorBVN w)
       (\<lambda>e w. (Inl e, w))
       (\<lambda>x w. (Inr x, snd (SendVerificationEmail (u_ID (fst x)) w)))"

section \<open>What a transaction does\<close>

text \<open>As \<open>post\<close>, for outcomes with a transaction.\<close>

definition tx_post :: "('a \<Rightarrow> tx \<Rightarrow> world \<Rightarrow> bool) \<Rightarrow> 'a \<times> tx \<times> world \<Rightarrow> bool" where
  "tx_post Q r \<longleftrightarrow> (case r of (x, t, w) \<Rightarrow> Q x t w)"

lemma tx_post_triple [simp]: "tx_post Q (x, t, w) = Q x t w"
  by (simp add: tx_post_def)

lemma tx_post_mono: "tx_post P r \<Longrightarrow> (\<And>x t w. P x t w \<Longrightarrow> Q x t w) \<Longrightarrow> tx_post Q r"
  by (cases r) simp

lemma tx_post_attempt:
  "tx_post (\<lambda>x t w. (\<forall>e. x = Inl e \<longrightarrow> P (h e t w)) \<and> (\<forall>y. x = Inr y \<longrightarrow> P (k y t w))) r \<Longrightarrow> P (tx_attempt r h k)"
  by (cases r; cases "fst r") (auto simp: tx_attempt_def)

lemma tp_if: "tx_post Q a \<Longrightarrow> tx_post Q b \<Longrightarrow> tx_post Q (if c then a else b)"
  by simp

lemma tx_post_case: "tx_post (\<lambda>x t w. P (k x t w)) r \<Longrightarrow> P (case r of (x, t, w) \<Rightarrow> k x t w)"
  by (cases r) simp

text \<open>A statement in a transaction leaves the committed tables as they are.\<close>

lemma tx_post_in_tx:
  assumes "\<And>e t'. tx_aborted t' \<Longrightarrow> Q (Inl e) t' w"
    and "\<not> tx_aborted t \<Longrightarrow> post (\<lambda>r v. Q r
       \<lparr>tx_businesses = businesses v, tx_users = users v, tx_aborted = (case r of Inl e \<Rightarrow> e \<noteq> Sentinel ErrNotFound | Inr _ \<Rightarrow> False)\<rparr>
       (v\<lparr>businesses := businesses w, users := users w\<rparr>)) (body (w\<lparr>businesses := tx_businesses t, users := tx_users t\<rparr>))"
  shows "tx_post Q (in_tx body t w)"
  using assms by (auto simp: in_tx_def post_def tx_post_def split: prod.splits)

section \<open>The view of a registration\<close>

definition admin_of :: "string \<Rightarrow> business \<Rightarrow> user \<Rightarrow> bool" where
  "admin_of email b v \<longleftrightarrow> b_AdminID b = u_ID v \<and> u_BusinessID v = b_ID b \<and> u_Email v = email \<and> u_Role v = RoleAdmin \<and>
     \<not> u_IsVerified v"

definition fresh_pair :: "string \<Rightarrow> business list \<Rightarrow> user list \<Rightarrow> business \<Rightarrow> user \<Rightarrow> bool" where
  "fresh_pair email bs us b v \<longleftrightarrow> b_ID b \<notin> b_ID ` set bs \<and> u_ID v \<notin> u_ID ` set us \<and> email \<notin> u_Email ` set us \<and>
     admin_of email b v"

definition committed :: "world \<Rightarrow> world \<Rightarrow> bool" where
  "committed w0 w \<longleftrightarrow> businesses w = businesses w0 \<and> users w = users w0 \<and> cadres w = cadres w0"

lemma committed_writes [simp]:
  "committed w0 (w\<lparr>faults := fs\<rparr>) = committed w0 w" "committed w0 (w\<lparr>tick := n\<rparr>) = committed w0 w"
  "committed w0 (w\<lparr>subscriptions := ss\<rparr>) = committed w0 w"
  by (simp_all add: committed_def)

definition view :: "string \<Rightarrow> world \<Rightarrow> business \<Rightarrow> nat \<Rightarrow> tx \<Rightarrow> world \<Rightarrow> bool" where
  "view email w0 b k t w \<longleftrightarrow> committed w0 w \<and> b_AdminID b = k \<and> k \<noteq> 0 \<and>
     b_ID b \<notin> b_ID ` set (businesses w0) \<and>
     (tx_aborted t \<or> (\<exists>c v. tx_businesses t = businesses w0 @ [c] \<and> tx_users t = users w0 @ [v] \<and>
        b_ID c = b_ID b \<and> u_ID v = k \<and> fresh_pair email (businesses w0) (users w0) c v))"

lemma view_writes [simp]:
  "view email w0 b k t (w\<lparr>faults := fs\<rparr>) = view email w0 b k t w" "view email w0 b k t (w\<lparr>tick := n\<rparr>) = view email w0 b k t w"
  "view email w0 b k t (w\<lparr>subscriptions := ss\<rparr>) = view email w0 b k t w"
  by (simp_all add: view_def)

lemma view_business:
  "view email w0 b k t w \<Longrightarrow> b_ID c = b_ID b \<Longrightarrow> b_AdminID c = b_AdminID b \<Longrightarrow> view email w0 c k t w"
  by (simp add: view_def)

lemma updates_keep [simp]:
  "b_ID (business_updates d c) = b_ID c"
  "b_AdminID (business_updates d c) = nonzero 0 (b_AdminID d) (b_AdminID c)"
  by (simp_all add: business_updates_def)

lemma tx_business_Update:
  assumes "view email w0 b k t w"
  shows "tx_post (\<lambda>r t' w'. view email w0 b k t' w' ) (in_tx (business_Update b) t w)"
proof (rule tx_post_in_tx)
  show "view email w0 b k t' w " if "tx_aborted t'" for t'
    using assms that by (simp add: view_def)
next
  assume "\<not> tx_aborted t"
  then obtain c v where "tx_businesses t = businesses w0 @ [c]" "tx_users t = users w0 @ [v]" "b_ID c = b_ID b"
    "u_ID v = k" "fresh_pair email (businesses w0) (users w0) c v" "k \<noteq> 0" "b_AdminID b = k"
    "committed w0 w"
    using assms by (auto simp: view_def)
  moreover from this have "map (\<lambda>d. if b_ID d = b_ID b then business_updates b d else d) (businesses w0) = businesses w0"
    by (intro map_idI) (auto simp: fresh_pair_def, metis imageI)
  ultimately show "post (\<lambda>r x. view email w0 b k
       \<lparr>tx_businesses = businesses x, tx_users = users x, tx_aborted = (case r of Inl e \<Rightarrow> e \<noteq> Sentinel ErrNotFound | Inr _ \<Rightarrow> False)\<rparr>
       (x\<lparr>businesses := businesses w, users := users w\<rparr>)) (business_Update b (w\<lparr>businesses := tx_businesses t, users := tx_users t\<rparr>))"
    by (intro wp_business_Update) (auto simp: view_def committed_def fresh_pair_def admin_of_def nonzero_def)
qed

lemma wp_business_Create:
  assumes "\<And>fs. Q (Inl db_error) (w\<lparr>faults := fs\<rparr>)"
    and "\<And>fs b'. b' = (business_defaults b)\<lparr>b_ID := new_business_id w\<rparr> \<Longrightarrow>
           Q (Inr b') (w\<lparr>faults := fs, businesses := businesses w @ [b']\<rparr>)"
  shows "post Q (business_Create b w)"
  unfolding business_Create_def using assms by (intro wp_statement) (simp_all add: Let_def new_business_id_def)

lemma member_le_max: "x \<in> set xs \<Longrightarrow> x \<le> foldr max xs (0 :: nat)"
  by (induction xs) auto

lemma fresh_ids: "new_business_id w \<notin> b_ID ` set (businesses w)" "new_user_id w \<notin> u_ID ` set (users w)" "new_user_id w \<noteq> 0"
  using member_le_max [of _ "map b_ID (businesses w) @ map sb_BusinessID (subscriptions w)"]
    member_le_max [of _ "map u_ID (users w)"]
  by (fastforce simp: new_business_id_def new_user_id_def)+


lemma Begin_view: "post (\<lambda>t w'. committed w w' \<and> tx_businesses t = businesses w \<and> tx_users t = users w) (Begin w)"
  by (simp add: Begin_def fault_eq committed_def)

lemma tx_business_Create:
  assumes "committed w0 w" "tx_businesses t = businesses w0" "tx_users t = users w0"
  shows "tx_post (\<lambda>r t' w'. committed w0 w' \<and> (\<forall>c. r = Inr c \<longrightarrow>
      tx_businesses t' = businesses w0 @ [c] \<and> tx_users t' = users w0 \<and> b_ID c \<notin> b_ID ` set (businesses w0)))
    (in_tx (business_Create b) t w)"
  using assms fresh_ids(1) [of "w\<lparr>businesses := tx_businesses t, users := tx_users t\<rparr>"]
  by (intro tx_post_in_tx wp_business_Create) (auto simp: committed_def)

lemma tx_user_Create:
  assumes "committed w0 w" "tx_businesses t = businesses w0 @ [c]" "tx_users t = users w0" "b_ID c \<notin> b_ID ` set (businesses w0)"
  shows "tx_post (\<lambda>r t' w'. committed w0 w' \<and> (\<forall>u. r = Inr u \<longrightarrow> u_ID u \<noteq> 0 \<and> (\<exists>v.
      tx_businesses t' = businesses w0 @ [c] \<and> tx_users t' = users w0 @ [v] \<and> u_ID v = u_ID u \<and>
      fresh_pair email (businesses w0) (users w0) (c\<lparr>b_AdminID := u_ID u\<rparr>) v)))
    (in_tx (user_Create (new_account (b_ID c) email h RoleAdmin)) t w)"
  using assms fresh_ids(2,3) [of "w\<lparr>businesses := tx_businesses t, users := tx_users t\<rparr>"]
  by (intro tx_post_in_tx wp_user_Create)
    (auto simp: committed_def fresh_pair_def admin_of_def UserFromDomain_def new_account_def user.defs)

lemma tx_link:
  assumes "committed w0 w" "tx_businesses t = businesses w0 @ [c]" "tx_users t = users w0 @ [v]" "b_AdminID b \<noteq> 0"
    "u_ID v = b_AdminID b" "fresh_pair email (businesses w0) (users w0) b v" "b_ID c = b_ID b"
  shows "tx_post (\<lambda>r t' w'. committed w0 w' \<and> (\<forall>u. r = Inr u \<longrightarrow> view email w0 b (b_AdminID b) t' w'))
    (in_tx (business_Update b) t w)"
proof -
  have "map (\<lambda>d. if b_ID d = b_ID b then business_updates b d else d) (businesses w0) = businesses w0"
    using assms(6) by (intro map_idI) (auto simp: fresh_pair_def, metis imageI)
  then show ?thesis
    using assms
    by (intro tx_post_in_tx wp_business_Update) (auto simp: committed_def view_def fresh_pair_def admin_of_def nonzero_def)
qed

lemma view_committed: "view email w0 b k t w \<Longrightarrow> committed w0 w"
  by (simp add: view_def committed_def)

lemma last4_fields [simp]: "b_ID (last4 x b) = b_ID b" "b_AdminID (last4 x b) = b_AdminID b"
  by (simp_all add: last4_def)

lemmas tp_attempt = tx_post_attempt [where P = "tx_post Q" for Q]
lemmas tp_case = tx_post_case [where P = "tx_post Q" for Q]

lemma register_rows_view:
  assumes "committed w0 w" "tx_businesses t = businesses w0" "tx_users t = users w0"
  shows "tx_post (\<lambda>r t' w'. committed w0 w' \<and> (\<forall>b u. r = Inr (b, u) \<longrightarrow> view email w0 b (u_ID u) t' w'))
    (register_rows b email h bvn t w)" (is "tx_post ?Q _")
proof -
  have finish: "tx_post ?Q (let b = last4 bvn b; (_, t, w) = in_tx (business_Update b) t w in (Inr (b, u), t, w))"
    if "view email w0 b (u_ID u) t w" for b t w and u :: Accounts.account
    unfolding Let_def
    by (rule tp_case, rule tx_business_Update [THEN tx_post_mono], rule view_business [OF that])
      (auto dest: view_committed)
  have link: "tx_post ?Q (let b = c\<lparr>b_AdminID := u_ID u\<rparr>
            in tx_attempt (in_tx (business_Update b) t w)
                 (\<lambda>e t w. (Inl (Wrap ''could not link admin to business: '' e []), t, w))
                 (\<lambda>_ t w. (let b = last4 bvn b; (_, t, w) = in_tx (business_Update b) t w in (Inr (b, u), t, w))))"
    if "committed w0 w" "tx_businesses t = businesses w0 @ [c]" "tx_users t = users w0 @ [v]" "u_ID u \<noteq> 0"
      "u_ID v = u_ID u" "fresh_pair email (businesses w0) (users w0) (c\<lparr>b_AdminID := u_ID u\<rparr>) v"
    for t w c v and u :: Accounts.account
    unfolding Let_def [of "c\<lparr>b_AdminID := u_ID u\<rparr>"]
    by (rule tp_attempt, rule tx_link [where c = c and v = v, THEN tx_post_mono]) (use that finish in auto)
  have user: "tx_post ?Q (tx_attempt (in_tx (user_Create (new_account (b_ID c) email h RoleAdmin)) t w)
         (\<lambda>e t w. (Inl (if e = Sentinel ErrConflict then Wrap (''user with email '' @ [CHR 0x27] @ email @ [CHR 0x27] @ '' already exists: '') e []
                        else Wrap ''could not create admin user: '' e []), t, w))
         (\<lambda>u t w. (let b = c\<lparr>b_AdminID := u_ID u\<rparr>
            in tx_attempt (in_tx (business_Update b) t w)
                 (\<lambda>e t w. (Inl (Wrap ''could not link admin to business: '' e []), t, w))
                 (\<lambda>_ t w. (let b = last4 bvn b; (_, t, w) = in_tx (business_Update b) t w in (Inr (b, u), t, w))))))"
    if "committed w0 w" "tx_businesses t = businesses w0 @ [c]" "tx_users t = users w0" "b_ID c \<notin> b_ID ` set (businesses w0)"
    for t w c
    by (rule tp_attempt, rule tx_user_Create [OF that, THEN tx_post_mono]) (use link in auto)
  show ?thesis
    unfolding register_rows_def
    by (rule tp_attempt, rule tx_business_Create [OF assms, THEN tx_post_mono]) (use user in auto)
qed


text \<open>What runs between the rows and the commit keeps the view.\<close>

lemma wp_cadre_Create:
  assumes "\<And>e fs. Q (Inl e) (w\<lparr>faults := fs\<rparr>)"
    and "\<And>fs c' cs ds. c_BusinessID c \<in> b_ID ` set (businesses w) \<Longrightarrow>
           Q (Inr c') (w\<lparr>faults := fs, cadres := cs, deleted_cadres := ds\<rparr>)"
  shows "post Q (cadre_Create c w)"
  unfolding cadre_Create_def Let_def using assms
  by (intro wp_statement) (auto simp: cadre_allowed_def insert_cadre_def Let_def)

lemma create_cadre_frame:
  "businesses (create_cadre s bid w) = businesses w" "users (create_cadre s bid w) = users w"
  "bid \<notin> b_ID ` set (businesses w) \<Longrightarrow> cadres (create_cadre s bid w) = cadres w"
proof -
  have "post (\<lambda>_ w'. businesses w' = businesses w \<and> users w' = users w \<and>
      (bid \<notin> b_ID ` set (businesses w) \<longrightarrow> cadres w' = cadres w)) (cadre_Create (default_cadre bid) w)"
    by (rule wp_cadre_Create) (simp_all add: default_cadre_def)
  then show "businesses (create_cadre s bid w) = businesses w" "users (create_cadre s bid w) = users w"
    "bid \<notin> b_ID ` set (businesses w) \<Longrightarrow> cadres (create_cadre s bid w) = cadres w"
    by (simp_all add: create_cadre_def post_def)
qed

lemma free_plan_view:
  assumes "view email w0 b k t w"
  shows "tx_post (\<lambda>b' t' w'. view email w0 b' k t' w') (free_plan s b t w)"
  unfolding free_plan_def
proof (rule tp_if)
  show "tx_post (\<lambda>b' t' w'. view email w0 b' k t' w') (b, t, w)" using assms by simp
  have update: "tx_post (\<lambda>b' t' w'. view email w0 b' k t' w')
      (let b = b\<lparr>b_SubscriptionTier := PlanFree, b_SubscriptionStatus := ''active''\<rparr>;
           (_, t, w) = in_tx (business_Update b) t w in (b, t, w))"
    if "view email w0 b k t w" for b t and w :: world
    unfolding Let_def
    by (rule tp_case, rule tx_business_Update [THEN tx_post_mono], rule view_business [OF that(1)]) auto
  show "tx_post (\<lambda>b' t' w'. view email w0 b' k t' w')
     (attempt (plan_FindByTier PlanFree w)
        (\<lambda>_ w. (b, t, w))
        (\<lambda>plan w. (let (time, w) = now w
           in attempt (subscription_Create \<lparr>sb_ID = 0, sb_BusinessID = b_ID b, sb_PlanID = sp_ID plan, sb_Status = ''active'',
                         sb_CreatedAt = 0, sb_CurrentPeriodStart = time, sb_CurrentPeriodEnd = AddDate 100 0 0 time,
                         sb_CancelledAt = None\<rparr> w)
                (\<lambda>_ w. (b, t, w))
                (\<lambda>_ w. (let b = b\<lparr>b_SubscriptionTier := PlanFree, b_SubscriptionStatus := ''active''\<rparr>;
                            (_, t, w) = in_tx (business_Update b) t w in (b, t, w))))))"
    using assms update
    by (auto simp del: Let_def intro!: world_attempt [where I = "tx_post Q" for Q] world_case [where I = "tx_post Q" for Q]
        wp_now billing_wp)
qed


lemma vfd_account_view:
  assumes "view email w0 b k t w"
  shows "tx_post (\<lambda>r t' w'. committed w0 w' \<and> (\<forall>x. r = Inr x \<longrightarrow> view email w0 b k t' w'))
    (vfd_account s name rc date bvn b t w)"
proof -
  have update: "tx_post (\<lambda>r t' w'. committed w0 w' \<and> (\<forall>x. r = Inr x \<longrightarrow> view email w0 b k t' w'))
      (tx_attempt (in_tx (business_Update (b\<lparr>b_VFDAccountNumber := Some number, b_VFDAccountName := Some acct\<rparr>)) t w)
         (\<lambda>e t w. (Inl (Wrap ''could not update business with VFD account details: '' e []), t, w))
         (\<lambda>_ t w. (Inr (number, acct), t, w)))" for number acct
    by (rule tp_attempt, rule tx_business_Update [THEN tx_post_mono], rule view_business [OF assms(1)])
      (use assms in \<open>auto dest: view_committed intro: view_business\<close>)
  show ?thesis
    using assms view_committed [OF assms(1)] update
    by (auto simp: vfd_account_def split: option.splits sum.splits)
qed

lemma wp_Commit:
  assumes "\<And>e fs. Q (Inl e) (w\<lparr>faults := fs\<rparr>)"
    and "\<And>fs. \<not> tx_aborted t \<Longrightarrow> Q (Inr ()) (w\<lparr>faults := fs, businesses := tx_businesses t, users := tx_users t\<rparr>)"
  shows "post Q (Commit t w)"
  unfolding Commit_def using assms assms(1) [of _ "faults w"] by (auto intro!: wp_statement)

text \<open>What a registration has done: nothing, or one business with its administrator.\<close>

definition registered :: "string \<Rightarrow> world \<Rightarrow> nat \<Rightarrow> world \<Rightarrow> bool" where
  "registered email w k w' \<longleftrightarrow> cadres w' = cadres w \<and> (\<exists>c v. businesses w' = businesses w @ [c] \<and> users w' = users w @ [v] \<and> u_ID v = k \<and>
     fresh_pair email (businesses w) (users w) c v)"

lemma register_business_outcome:
  "post (\<lambda>r w'. (case r of Inl _ \<Rightarrow> committed w w' | Inr (u, _) \<Rightarrow> registered email w (u_ID u) w'))
    (register_business s name email password rc date bvn w)" (is "post ?Q _")
proof -
  have finish: "post ?Q (attempt (Commit t w')
       (\<lambda>e w. (Inl (Wrap ''failed to commit registration transaction: '' e []), w)) (\<lambda>_ w. (Inr (u, acct), w)))"
    if "view email w b (u_ID u) t w'" for b acct t w' and u :: Accounts.account
    using that by (intro wp_attempt wp_Commit) (auto simp: committed_def view_def registered_def)
  have rest: "post ?Q (let w = create_cadre s (b_ID b) w'; (b, t, w) = free_plan s b t w
       in tx_attempt (vfd_account s name rc date bvn b t w)
            (\<lambda>e t w. (Inl e, w))
            (\<lambda>acct t w. attempt (Commit t w)
               (\<lambda>e w. (Inl (Wrap ''failed to commit registration transaction: '' e []), w))
               (\<lambda>_ w. (Inr (u, acct), w))))"
    if "view email w b (u_ID u) t w'" for b t w' and u :: Accounts.account
  proof -
    have "b_ID b \<notin> b_ID ` set (businesses w')" using that(1) by (simp add: view_def committed_def)
    then have v: "view email w b (u_ID u) t (create_cadre s (b_ID b) w')"
      using that create_cadre_frame [where w = w'] by (simp_all add: view_def committed_def)
    show ?thesis
      unfolding Let_def
      by (rule tx_post_case [where P = "post ?Q"], rule free_plan_view [OF v, THEN tx_post_mono],
          rule tx_post_attempt [where P = "post ?Q"], rule vfd_account_view [THEN tx_post_mono])
        (use finish in auto)
  qed
  have rows: "post ?Q (tx_attempt (register_rows (new_business name rc date bvn) email h bvn t w')
             (\<lambda>e t w. (Inl e, w))
             (\<lambda>(b, u) t w.
                (let w = create_cadre s (b_ID b) w; (b, t, w) = free_plan s b t w
                 in tx_attempt (vfd_account s name rc date bvn b t w)
                      (\<lambda>e t w. (Inl e, w))
                      (\<lambda>acct t w. attempt (Commit t w)
                         (\<lambda>e w. (Inl (Wrap ''failed to commit registration transaction: '' e []), w))
                         (\<lambda>_ w. (Inr (u, acct), w))))))"
    if "committed w w'" "tx_businesses t = businesses w" "tx_users t = users w" for h t w'
    by (rule tx_post_attempt [where P = "post ?Q"], rule register_rows_view [OF that, THEN tx_post_mono])
      (use rest in auto)
  show ?thesis
    unfolding register_business_def Let_def [of "Begin w"]
    by (rule world_case [where I = "post ?Q"], rule post_mono [OF Begin_view], rule wp_attempt, rule wp_HashPassword)
      (use rows in auto)
qed


lemma find_new: "\<forall>u \<in> set us. f u \<noteq> k \<Longrightarrow> find (\<lambda>u. f u = k) (us @ [v]) = (if f v = k then Some v else None)"
  by (induction us) auto

text \<open>The e-mail with the verification token changes columns of the token only.\<close>

lemma verification_keeps_registered:
  assumes "registered email w k w1"
  shows "post (\<lambda>_. registered email w k) (SendVerificationEmail k w1)"
proof -
  obtain c v where r: "businesses w1 = businesses w @ [c]" "users w1 = users w @ [v]" "u_ID v = k" "cadres w1 = cadres w"
      "fresh_pair email (businesses w) (users w) c v"
    using assms by (auto simp: registered_def)
  then have old: "\<forall>u \<in> set (users w). u_ID u \<noteq> k" using r(3) unfolding fresh_pair_def by (metis imageI)
  then have found: "find (\<lambda>u. u_ID u = k) (users w1) = Some v"
    unfolding r(2) using find_new [OF old] r(3) by simp
  have "map (\<lambda>u. if u_ID u = k then user_updates x u else u) (users w) = users w" for x
    using old by (intro map_idI) auto
  then have "registered email w k (w1\<lparr>users := map (\<lambda>u. if u_ID u = k then user_updates (UserFromDomain a) u else u) (users w1),
      faults := fs, tick := n\<rparr>)"
    if "u_BusinessID a = u_BusinessID v" "u_Email a = u_Email v" "u_Role a = u_Role v" "u_IsVerified a = u_IsVerified v" for a fs n
    using r that by (auto simp: registered_def fresh_pair_def admin_of_def user_updates_def)
  then show ?thesis
    unfolding SendVerificationEmail_def user_finders Let_def
    using assms found r(3) by (auto intro!: wp simp: registered_def)
qed


lemma RegisterBusiness_outcome:
  "post (\<lambda>r w'. (case r of Inl _ \<Rightarrow> committed w w' | Inr (u, _) \<Rightarrow> registered email w (u_ID u) w'))
    (RegisterBusiness s name email password rc date bvn w)"
  unfolding RegisterBusiness_def
  using verification_keeps_registered [unfolded post_def]
  by (intro wp_attempt post_mono [OF register_business_outcome]) (auto simp: post_def)

section \<open>Samples\<close>

definition sample_registrar :: registrar where
  "sample_registrar = \<lparr>as_hash = (\<lambda>_ p. Inr p), as_check = (=), as_sign = (\<lambda>_ _. Inr []), as_parse = (\<lambda>_ _ _. Inl db_error),
     as_Secret = [], as_Expiry = 0, as_EmployeeRepo = True, rg_CadreRepo = True, rg_PlanRepos = True, rg_CreateAccount = None\<rparr>"

abbreviation "sample_registration w \<equiv>
  RegisterBusiness sample_registrar ''Ada'' ''a@b.c'' ''secret12'' ''RC'' (0, 0) ''12345678901'' w"

text \<open>It succeeds without faults, and fails with them.\<close>

lemma registrations:
  "case fst (sample_registration sample_world) of Inr (u, acct) \<Rightarrow> u_ID u = 1 \<and> acct = ([], ''Ada'') | Inl _ \<Rightarrow> False"
  "case fst (sample_registration (sample_world\<lparr>faults := [False, False, True]\<rparr>)) of Inr _ \<Rightarrow> False | Inl _ \<Rightarrow> True"
  by code_simp+

section \<open>Properties\<close>

text \<open>
  C38: A registration is atomic. Whatever statements fail, and whenever: a registration that reports an
  error leaves the tables of businesses and users as they were; one that succeeds has added exactly one
  business and one user, with new identifiers and an e-mail address that was not taken, who is the
  unverified administrator of the business and to whom the business points.
\<close>

theorem registration_atomic:
  "case RegisterBusiness s name email password rc date bvn w of
     (Inl _, w') \<Rightarrow> businesses w' = businesses w \<and> users w' = users w
   | (Inr (u, _), w') \<Rightarrow> \<exists>b v. businesses w' = businesses w @ [b] \<and> users w' = users w @ [v] \<and> u_ID v = u_ID u \<and>
       b_ID b \<notin> b_ID ` set (businesses w) \<and> u_ID v \<notin> u_ID ` set (users w) \<and> email \<notin> u_Email ` set (users w) \<and>
       u_Email v = email \<and> u_Role v = RoleAdmin \<and> \<not> u_IsVerified v \<and> u_BusinessID v = b_ID b \<and> b_AdminID b = u_ID v"
  using RegisterBusiness_outcome [of w email s name password rc date bvn]
  by (cases "RegisterBusiness s name email password rc date bvn w"; cases "fst (RegisterBusiness s name email password rc date bvn w)")
    (auto simp: post_def committed_def registered_def fresh_pair_def admin_of_def)

text \<open>
  A registration never creates the default salary structure, also when the repository of cadres is
  configured: the cadre is written outside the transaction, where the business is not there yet.
\<close>

theorem registration_without_cadre:
  "cadres (snd (RegisterBusiness s name email password rc date bvn w)) = cadres w"
  using RegisterBusiness_outcome [of w email s name password rc date bvn]
  by (auto simp: post_def committed_def registered_def split: sum.splits)

end
