(* ===== verification/Staff.thy ===== *)
theory Staff
  imports Cadres Payroll_Service
begin

text \<open>
  Employees: the service (\<^verbatim>\<open>internal/service/employee_service.go\<close>), the import of CSV
  files (\<^verbatim>\<open>employee_import.go\<close> with the reader of \<^verbatim>\<open>encoding/csv\<close>), the
  verification of bank accounts (\<^verbatim>\<open>account_verification_service.go\<close>), and the
  handlers of employees, of their self-service and of verification. Paystack's resolution of
  accounts and BVNs and the validator's test for e-mail addresses are parameters.
\<close>

section \<open>Verification of accounts (account_verification_service.go)\<close>

text \<open>
  Paystack's client, when it is configured: account number and bank code give a status and, with data, a
  name; a BVN a status and, with data, the first and the last name.
\<close>

record paystack_resolver =
  px_Account :: "string \<Rightarrow> string \<Rightarrow> nat \<Rightarrow> (bool \<times> string option) res"
  px_BVN :: "string \<Rightarrow> nat \<Rightarrow> (bool \<times> (string \<times> string) option) res"

record account_verification =
  av_AccountName :: string
  av_AccountNumber :: string
  av_BankCode :: string
  av_Verified :: bool

record bvn_verification =
  bv_FirstName :: string
  bv_LastName :: string
  bv_BVN :: string
  bv_Verified :: bool

definition VerifyBankAccount :: "paystack_resolver option \<Rightarrow> string \<Rightarrow> string \<Rightarrow> world \<Rightarrow> account_verification res" where
  "VerifyBankAccount client bankCode accountNumber w =
     (case client of
        None \<Rightarrow> Inl (Plain ''account verification unavailable: Paystack not configured'')
      | Some p \<Rightarrow>
          (let r = \<lparr>av_AccountName = [], av_AccountNumber = accountNumber, av_BankCode = bankCode, av_Verified = False\<rparr>
           in case px_Account p accountNumber bankCode (tick w) of
                Inl _ \<Rightarrow> Inr r
              | Inr (st, name) \<Rightarrow> Inr (r\<lparr>av_Verified := st, av_AccountName := case_option [] id name\<rparr>)))"

definition VerifyBVN :: "paystack_resolver option \<Rightarrow> string \<Rightarrow> world \<Rightarrow> bvn_verification res" where
  "VerifyBVN client bvn w =
     (case client of
        None \<Rightarrow> Inl (Plain ''BVN verification unavailable: Paystack not configured'')
      | Some p \<Rightarrow>
          if \<not> (length bvn = 11 \<and> list_all is_digit bvn) then Inl (Plain ''invalid BVN: must be exactly 11 digits'')
          else (let r = \<lparr>bv_FirstName = [], bv_LastName = [], bv_BVN = drop (length bvn - 4) bvn, bv_Verified = False\<rparr>
           in case px_BVN p bvn (tick w) of
                Inl _ \<Rightarrow> Inr r
              | Inr (st, names) \<Rightarrow> Inr (r\<lparr>bv_Verified := st, bv_FirstName := (case names of None \<Rightarrow> [] | Some (f, l) \<Rightarrow> f),
                                        bv_LastName := (case names of None \<Rightarrow> [] | Some (f, l) \<Rightarrow> l)\<rparr>)))"

section \<open>The service of employees (employee_service.go)\<close>

text \<open>
  A new row: active, as the default of the column is true; the address is unique in the business and
  the cadre exists.
\<close>

definition employee_Create :: "employee \<Rightarrow> world \<Rightarrow> employee res \<times> world" where
  "employee_Create e = statement (\<lambda>w.
     (if e_CadreID e \<notin> c_ID ` set (cadres w @ deleted_cadres w) \<or>
         (\<exists>f \<in> set (employees w). e_BusinessID f = e_BusinessID e \<and> e_Email f = e_Email e)
      then (Inl (Plain ''violates constraint''), w)
      else (let e = e\<lparr>e_ID := Suc (last_id e_ID (employees w)), e_IsActive := True\<rparr>
            in (Inr e, w\<lparr>employees := employees w @ [e]\<rparr>))))"

text \<open>\<^verbatim>\<open>verificationSvc\<close>, when it is set.\<close>

record employee_service =
  es_Verification :: "paystack_resolver option option"

text \<open>A difference of the names is logged only.\<close>

definition verify_bank :: "employee_service \<Rightarrow> world \<Rightarrow> employee \<Rightarrow> employee" where
  "verify_bank s w emp =
     (case es_Verification s of
        None \<Rightarrow> emp
      | Some client \<Rightarrow>
          (case VerifyBankAccount client (e_BankCode emp) (e_BankAccountNumber emp) w of
             Inl _ \<Rightarrow> emp
           | Inr r \<Rightarrow> if av_Verified r then emp\<lparr>e_BankAccountVerified := True, e_BankAccountName := av_AccountName r\<rparr> else emp))"

definition has_account :: "employee \<Rightarrow> bool" where
  "has_account emp \<longleftrightarrow> e_BankCode emp \<noteq> [] \<and> e_BankAccountNumber emp \<noteq> []"

definition CreateEmployee :: "employee_service \<Rightarrow> employee \<Rightarrow> world \<Rightarrow> employee res \<times> world" where
  "CreateEmployee s emp w =
     attempt (cadre_FindByID (e_CadreID emp) (e_BusinessID emp) w)
       (\<lambda>e w. (Inl (if e = Sentinel ErrNotFound
                 then Wrap [] (Sentinel ErrValidationFailed) ('': cadre with ID '' @ show_nat (e_CadreID emp) @ '' not found for business'')
                 else e), w))
       (\<lambda>cadre w.
          if c_BusinessID cadre \<noteq> e_BusinessID emp then (Inl (Sentinel ErrForbidden), w)
          else attempt (employee_FindByBusinessID (e_BusinessID emp) w)
            (\<lambda>e w. (Inl e, w))
            (\<lambda>es w.
               if \<exists>f \<in> set es. e_Email f = e_Email emp
               then (Inl (Wrap [] (Sentinel ErrValidationFailed) ('': email '' @ e_Email emp @ '' already exists for this business'')), w)
               else (let emp = (if has_account emp then verify_bank s w emp else emp) in employee_Create emp w)))"

definition ListEmployees :: "nat \<Rightarrow> world \<Rightarrow> employee list res \<times> world" where
  "ListEmployees bid = employee_FindByBusinessID bid"

definition GetEmployee :: "nat \<Rightarrow> nat \<Rightarrow> world \<Rightarrow> employee res \<times> world" where
  "GetEmployee i bid w =
     attempt (employee_FindByID i bid w)
       (\<lambda>e w. (Inl e, w))
       (\<lambda>emp w. if e_BusinessID emp \<noteq> bid then (Inl (Sentinel ErrForbidden), w) else (Inr emp, w))"

definition store_employee :: "employee_service \<Rightarrow> employee \<Rightarrow> employee \<Rightarrow> world \<Rightarrow> employee res \<times> world" where
  "store_employee s emp existing w =
     (let bankChanged = (e_BankCode emp \<noteq> e_BankCode existing \<or> e_BankAccountNumber emp \<noteq> e_BankAccountNumber existing);
          emp = (if bankChanged \<and> has_account emp
                 then verify_bank s w (emp\<lparr>e_BankAccountVerified := False, e_BankAccountName := []\<rparr>) else emp)
      in attempt (employee_Update emp w) (\<lambda>e w. (Inl e, w)) (\<lambda>_ w. (Inr emp, w)))"

definition UpdateEmployee :: "employee_service \<Rightarrow> employee \<Rightarrow> world \<Rightarrow> employee res \<times> world" where
  "UpdateEmployee s emp w =
     attempt (GetEmployee (e_ID emp) (e_BusinessID emp) w)
       (\<lambda>e w. (Inl e, w))
       (\<lambda>existing w.
          if e_CadreID emp \<noteq> e_CadreID existing
          then attempt (cadre_FindByID (e_CadreID emp) (e_BusinessID emp) w)
                 (\<lambda>e w. (Inl (if e = Sentinel ErrNotFound
                           then Wrap [] (Sentinel ErrValidationFailed) ('': new cadre with ID '' @ show_nat (e_CadreID emp) @ '' not found'')
                           else e), w))
                 (\<lambda>cadre w. if c_BusinessID cadre \<noteq> e_BusinessID emp then (Inl (Sentinel ErrForbidden), w)
                             else store_employee s emp existing w)
          else store_employee s emp existing w)"

definition DeactivateEmployee :: "nat \<Rightarrow> nat \<Rightarrow> world \<Rightarrow> unit res \<times> world" where
  "DeactivateEmployee i bid w =
     attempt (GetEmployee i bid w)
       (\<lambda>e w. (Inl e, w))
       (\<lambda>emp w. attempt (employee_Update (emp\<lparr>e_IsActive := False\<rparr>) w) (\<lambda>e w. (Inl e, w)) (\<lambda>_ w. (Inr (), w)))"

section \<open>encoding/csv\<close>

text \<open>
  The reader with \<^verbatim>\<open>TrimLeadingSpace\<close>: lines keep their end, which is a line feed; the last may
  have none. The positions in the messages of errors are not modelled.
\<close>

datatype csv_error = ErrBareQuote | ErrQuote | ErrFieldCount

abbreviation "newline \<equiv> CHR 0x0A"
abbreviation "quote \<equiv> CHR 0x22"

definition end_line :: "bool \<Rightarrow> string \<Rightarrow> string" where
  "end_line final l = (let l = (if l \<noteq> [] \<and> last l = CHR 0x0D then butlast l else l) in if final then l else l @ [newline])"

fun csv_lines_from :: "string \<Rightarrow> string \<Rightarrow> string list" where
  "csv_lines_from acc [] = (if acc = [] then [] else [end_line True (rev acc)])"
| "csv_lines_from acc (c # s) =
     (if c = newline then end_line False (rev acc) # csv_lines_from [] s else csv_lines_from (c # acc) s)"

definition drop_newline :: "string \<Rightarrow> string" where
  "drop_newline s = (if s \<noteq> [] \<and> last s = newline then butlast s else s)"

definition cons_field :: "string \<Rightarrow> (csv_error + string list) \<times> string list \<Rightarrow> (csv_error + string list) \<times> string list" where
  "cons_field x r = (case r of (Inl e, ls) \<Rightarrow> (Inl e, ls) | (Inr xs, ls) \<Rightarrow> (Inr (x # xs), ls))"

lemma shorter: "x \<in> set s \<Longrightarrow> length (dropWhile p s) - Suc 0 < length s"
  using length_dropWhile_le [of p s] by (cases s) auto

lemma shorter_twice: "x \<in> set (dropWhile q s) \<Longrightarrow> length (dropWhile p (dropWhile q s)) - Suc 0 < length s"
  using shorter [of x "dropWhile q s" p] length_dropWhile_le [of q s] by linarith

lemma shorter_later: "dropWhile p s = x # y \<Longrightarrow> length y - Suc 0 < length s"
  using length_dropWhile_le [of p s] by (metis Suc_le_lessD diff_le_self le_trans length_Cons lessI less_or_eq_imp_le nat_less_le not_less_eq_eq)

text \<open>The fields of a record, from the rest of a line and the lines after it; those left are returned.\<close>

function (sequential) csv_fields :: "string \<Rightarrow> string list \<Rightarrow> (csv_error + string list) \<times> string list"
  and csv_quoted :: "string \<Rightarrow> string \<Rightarrow> string list \<Rightarrow> (csv_error + string list) \<times> string list" where
  "csv_fields line ls =
     (let line = dropWhile is_space line
      in if line \<noteq> [] \<and> hd line = quote then csv_quoted [] (tl line) ls
         else (let field = takeWhile (\<lambda>c. c \<noteq> CHR '','') line; later = dropWhile (\<lambda>c. c \<noteq> CHR '','') line;
                   field = (if later = [] then drop_newline field else field)
               in if quote \<in> set field then (Inl ErrBareQuote, ls)
                  else if later = [] then (Inr [field], ls)
                  else cons_field field (csv_fields (tl later) ls)))"
| "csv_quoted acc line ls =
     (let start = takeWhile (\<lambda>c. c \<noteq> quote) line
      in case dropWhile (\<lambda>c. c \<noteq> quote) line of
           q # later \<Rightarrow>
             if later \<noteq> [] \<and> hd later = quote then csv_quoted (acc @ start @ [quote]) (tl later) ls
             else if later \<noteq> [] \<and> hd later = CHR '','' then cons_field (acc @ start) (csv_fields (tl later) ls)
             else if later = [] \<or> later = [newline] then (Inr [acc @ start], ls)
             else (Inl ErrQuote, ls)
         | [] \<Rightarrow>
             (case ls of [] \<Rightarrow> (Inl ErrQuote, [])
              | l # ls \<Rightarrow> if line = [] then (Inl ErrQuote, l # ls) else csv_quoted (acc @ line) l ls))"
  by pat_completeness auto

termination
proof (relation "measure (case_sum (\<lambda>(line, ls). length line + sum_list (map length ls))
      (\<lambda>(acc, line, ls). length line + sum_list (map length ls)))", simp_all, goal_cases)
  case 1
  then show ?case by (auto intro: shorter)
next
  case 2
  then show ?case by (auto intro: shorter_twice)
qed (auto dest: shorter_later)


declare csv_fields.simps [simp del] csv_quoted.simps [simp del]

lemma cons_field_rest: "snd (cons_field x r) = snd r"
  by (cases r; cases "fst r") (auto simp: cons_field_def)

lemma csv_rest: "length (snd (csv_fields line ls)) \<le> length ls" "length (snd (csv_quoted acc line ls)) \<le> length ls"
proof (induction line ls and acc line ls rule: csv_fields_csv_quoted.induct)
  case (1 line ls)
  then show ?case by (subst csv_fields.simps) (auto simp: Let_def cons_field_rest simp del: dropWhile_eq_Nil_conv)
next
  case (2 acc line ls)
  then show ?case
    by (subst csv_quoted.simps) (fastforce simp: Let_def cons_field_rest split: list.splits)
qed

text \<open>
  One \<^verbatim>\<open>Read\<close>: empty lines are skipped; without a line it is the end of the file; the
  number of fields is that of the first record, when it is known.
\<close>

definition csv_read :: "nat \<Rightarrow> string list \<Rightarrow> (csv_error + string list) option \<times> string list" where
  "csv_read n ls =
     (case dropWhile (\<lambda>l. l = [] \<or> l = [newline]) ls of
        [] \<Rightarrow> (None, [])
      | l # ls \<Rightarrow>
          (case csv_fields l ls of
             (Inl e, ls) \<Rightarrow> (Some (Inl e), ls)
           | (Inr r, ls) \<Rightarrow> (Some (if n \<noteq> 0 \<and> length r \<noteq> n then Inl ErrFieldCount else Inr r), ls)))"

lemma csv_read_rest: "csv_read n ls = (Some x, ls') \<Longrightarrow> length ls' < length ls"
proof -
  assume "csv_read n ls = (Some x, ls')"
  then obtain l later where l: "dropWhile (\<lambda>l. l = [] \<or> l = [newline]) ls = l # later" and "ls' = snd (csv_fields l later)"
    by (auto simp: csv_read_def split: list.splits prod.splits sum.splits)
  then have "length ls' \<le> length later" using csv_rest(1) by simp
  also have "\<dots> < length ls"
    using length_dropWhile_le [of "\<lambda>l. l = [] \<or> l = [newline]" ls] unfolding l by simp
  finally show ?thesis .
qed

section \<open>The import (employee_import.go)\<close>

text \<open>The header's column of a name; the last one counts.\<close>

definition column :: "string list \<Rightarrow> string \<Rightarrow> nat option" where
  "column headers name = find (\<lambda>i. to_lower (trim_space (headers ! i)) = name) (rev [0..<length headers])"

datatype row_error = CsvError nat csv_error | RowError string

definition new_employee :: employee where
  "new_employee = \<lparr>e_ID = 0, e_BusinessID = 0, e_CadreID = 0, e_FullName = [], e_Email = [], e_BankName = [], e_BankCode = [],
     e_BankAccountNumber = [], e_PhoneNumber = [], e_IsActive = False, e_BankAccountVerified = False, e_BankAccountName = [],
     e_TIN = None, e_PensionRSAPIN = None, e_NHFNumber = None, e_AnnualRentPaid = 0, e_UserID = None, e_StartDate = None,
     e_Cadre = None\<rparr>"

definition get_field :: "string list \<Rightarrow> string list \<Rightarrow> string \<Rightarrow> string" where
  "get_field headers row name =
     (case column headers name of Some i \<Rightarrow> if i < length row then trim_space (row ! i) else [] | None \<Rightarrow> [])"

definition nonempty :: "string \<Rightarrow> string option" where
  "nonempty s = (if s = [] then None else Some s)"

definition parseEmployeeRow :: "string list \<Rightarrow> string list \<Rightarrow> nat \<Rightarrow> row_error + employee" where
  "parseEmployeeRow headers row n =
     (let get = get_field headers row; rent = parse_int (get ''annual_rent_paid'')
      in if get ''full_name'' = [] \<or> get ''email'' = [] \<or> get ''cadre_id'' = []
         then Inl (RowError (''row '' @ show_nat n @ '': full_name, email, and cadre_id are required''))
         else (case parse_id (get ''cadre_id'') of
             None \<Rightarrow> Inl (RowError (''row '' @ show_nat n @ '': invalid cadre_id '' @ [CHR 0x27] @ get ''cadre_id'' @ [CHR 0x27]))
           | Some cid \<Rightarrow> Inr (new_employee\<lparr>e_FullName := get ''full_name'', e_Email := get ''email'', e_CadreID := cid,
               e_BankName := get ''bank_name'', e_BankCode := get ''bank_code'', e_BankAccountNumber := get ''bank_account_number'',
               e_TIN := nonempty (get ''tin''), e_PensionRSAPIN := nonempty (get ''pension_rsa_pin''),
               e_NHFNumber := nonempty (get ''nhf_number''),
               e_AnnualRentPaid := (case rent of Some v \<Rightarrow> if in64 v then v else 0 | None \<Rightarrow> 0)\<rparr>)))"

text \<open>The rows from number \<open>k\<close> on: the employees, and the errors of the rows that give none.\<close>

function parse_rows :: "string list \<Rightarrow> nat \<Rightarrow> string list \<Rightarrow> employee list \<times> row_error list" where
  "parse_rows headers k ls =
     (case csv_read (length headers) ls of
        (None, _) \<Rightarrow> ([], [])
      | (Some r, ls) \<Rightarrow>
          (let (emps, errs) = parse_rows headers (Suc k) ls
           in case r of
                Inl e \<Rightarrow> (emps, CsvError k e # errs)
              | Inr row \<Rightarrow> (case parseEmployeeRow headers row k of
                  Inl e \<Rightarrow> (emps, e # errs) | Inr emp \<Rightarrow> (emp # emps, errs))))"
  by pat_completeness auto

termination
  by (relation "measure (\<lambda>(_, _, ls). length ls)") (auto dest: csv_read_rest [OF sym])

declare parse_rows.simps [simp del]

datatype csv_refusal = NoHeader "csv_error option" | MissingHeader string

definition ParseEmployeeCSV :: "string \<Rightarrow> csv_refusal + employee list \<times> row_error list" where
  "ParseEmployeeCSV text =
     (case csv_read 0 (csv_lines_from [] text) of
        (None, _) \<Rightarrow> Inl (NoHeader None)
      | (Some (Inl e), _) \<Rightarrow> Inl (NoHeader (Some e))
      | (Some (Inr headers), ls) \<Rightarrow>
          (case find (\<lambda>h. column headers h = None) [''full_name'', ''email'', ''cadre_id'', ''bank_name'', ''bank_account_number''] of
             Some h \<Rightarrow> Inl (MissingHeader h)
           | None \<Rightarrow> Inr (parse_rows headers 2 ls)))"

section \<open>Handlers\<close>

text \<open>
  The requests (employee_request.go). Fields of the second that are absent are zero; its
  \<^verbatim>\<open>is_active\<close> is a pointer.
\<close>

definition rent_paid :: "int64 option \<Rightarrow> int64" where
  "rent_paid = case_option 0 id"

definition EmployeeRequest :: "(string \<times> json) list \<Rightarrow> employee option" where
  "EmployeeRequest ms =
     (case (uint_field ''cadre_id'' ms, string_field ''full_name'' ms, string_field ''email'' ms, string_field ''bank_name'' ms,
            string_field ''bank_code'' ms, string_field ''bank_account_number'' ms) of
        (Some c, Some n, Some e, Some b, Some bc, Some a) \<Rightarrow>
          (case (pointer to_str ''tin'' ms, pointer to_str ''pension_rsa_pin'' ms, pointer to_str ''nhf_number'' ms,
                 pointer to_int64 ''annual_rent_paid'' ms) of
             (Some t, Some p, Some h, Some r) \<Rightarrow>
               Some (new_employee\<lparr>e_CadreID := c, e_FullName := n, e_Email := e, e_BankName := b, e_BankCode := bc,
                 e_BankAccountNumber := a, e_TIN := t, e_PensionRSAPIN := p, e_NHFNumber := h, e_AnnualRentPaid := rent_paid r\<rparr>)
           | _ \<Rightarrow> None)
      | _ \<Rightarrow> None)"

definition UpdateEmployeeRequest :: "(string \<times> json) list \<Rightarrow> employee option" where
  "UpdateEmployeeRequest ms =
     (case (EmployeeRequest ms, pointer to_bool ''is_active'' ms) of
        (Some e, Some a) \<Rightarrow> Some (e\<lparr>e_IsActive := case_option False id a\<rparr>) | _ \<Rightarrow> None)"

text \<open>What the validator finds in the first.\<close>

definition employee_details :: "(string \<Rightarrow> bool) \<Rightarrow> employee \<Rightarrow> (string \<times> string) list" where
  "employee_details valid_email e =
     (if e_CadreID e = 0 then [(''cadre_id'', ''cadre_id is required'')] else []) @
     (if e_FullName e = [] then [(''full_name'', ''full_name is required'')] else []) @
     (if e_Email e = [] \<or> \<not> valid_email (e_Email e) then [(''email'', ''a valid email address is required'')] else []) @
     (if e_BankName e = [] then [(''bank_name'', ''bank_name is required'')] else []) @
     (if e_BankAccountNumber e = [] then [(''bank_account_number'', ''bank_account_number is required'')] else [])"

definition HandleCreateEmployee ::
  "(string \<Rightarrow> bool) \<Rightarrow> employee_service \<Rightarrow> string \<Rightarrow> mw_claims option \<Rightarrow> world \<Rightarrow> employee response \<times> world" where
  "HandleCreateEmployee valid_email s body claims =
     with_body (decode_body EmployeeRequest body) (\<lambda>e w.
       if employee_details valid_email e \<noteq> []
       then (Failure 400 ''Validation failed'' (employee_details valid_email e), w)
       else with_claims ErrInternalServer claims (\<lambda>c w.
         respond (CreateEmployee s (e\<lparr>e_BusinessID := mc_BusinessID c, e_IsActive := True\<rparr>) w) (RespondWithJSON 201)) w)"

definition GetEmployeeByID :: "string \<Rightarrow> mw_claims option \<Rightarrow> world \<Rightarrow> employee response \<times> world" where
  "GetEmployeeByID i claims =
     with_id i (\<lambda>i. with_claims ErrInternalServer claims (\<lambda>c w. respond (GetEmployee i (mc_BusinessID c) w) (RespondWithJSON 200)))"

definition HandleListEmployees :: "mw_claims option \<Rightarrow> world \<Rightarrow> employee list response \<times> world" where
  "HandleListEmployees claims =
     with_claims ErrInternalServer claims (\<lambda>c w. respond (ListEmployees (mc_BusinessID c) w) (RespondWithJSON 200))"

definition HandleUpdateEmployee ::
  "employee_service \<Rightarrow> string \<Rightarrow> string \<Rightarrow> mw_claims option \<Rightarrow> world \<Rightarrow> employee response \<times> world" where
  "HandleUpdateEmployee s i body claims =
     with_id i (\<lambda>i. with_body (decode_body UpdateEmployeeRequest body) (\<lambda>e.
       with_claims ErrInternalServer claims (\<lambda>c w.
         respond (UpdateEmployee s (e\<lparr>e_ID := i, e_BusinessID := mc_BusinessID c\<rparr>) w) (RespondWithJSON 200))))"

definition HandleDeactivateEmployee :: "string \<Rightarrow> mw_claims option \<Rightarrow> world \<Rightarrow> unit response \<times> world" where
  "HandleDeactivateEmployee i claims =
     with_id i (\<lambda>i. with_claims ErrInternalServer claims (\<lambda>c w.
       respond (DeactivateEmployee i (mc_BusinessID c) w) (Reply 204)))"

text \<open>The answer of an import: \<open>created\<close>, \<open>failed\<close>, \<open>total\<close>, \<open>errors\<close>.\<close>

datatype import_answer = Refused csv_refusal | Imported nat nat nat "row_error list"

definition DownloadImportTemplate :: string where
  "DownloadImportTemplate =
     ''full_name,email,cadre_id,bank_name,bank_code,bank_account_number,tin,pension_rsa_pin,nhf_number,annual_rent_paid,phone_number'' @
     [newline] @
     ''John Doe,john@example.com,1,GTBank,058,0123456789,1234567890,PEN001234,NHF001234,240000000,08012345678'' @ [newline]"

text \<open>Employee \<open>i\<close> of those that were parsed is reported as row \<open>i + 2\<close>.\<close>

fun create_all :: "employee_service \<Rightarrow> nat \<Rightarrow> nat \<Rightarrow> employee list \<Rightarrow> world \<Rightarrow> (nat \<times> row_error list) \<times> world" where
  "create_all s bid i [] w = ((0, []), w)"
| "create_all s bid i (e # es) w =
     (let (r, w) = CreateEmployee s (e\<lparr>e_BusinessID := bid, e_IsActive := True\<rparr>) w;
          ((created, errs), w) = create_all s bid (Suc i) es w
      in case r of
           Inl err \<Rightarrow> ((created, RowError (''row '' @ show_nat (i + 2) @ '' ('' @ e_Email e @ ''): '' @ err_text err) # errs), w)
         | Inr _ \<Rightarrow> ((Suc created, errs), w))"

text \<open>The uploaded file is \<open>None\<close> when the form cannot be parsed or has no file.\<close>

definition ImportEmployees ::
  "employee_service \<Rightarrow> string option \<Rightarrow> mw_claims option \<Rightarrow> world \<Rightarrow> import_answer response \<times> world" where
  "ImportEmployees s uploaded claims = with_claims ErrInternalServer claims (\<lambda>c. with_body uploaded (\<lambda>file w.
     (case ParseEmployeeCSV file of
        Inl e \<Rightarrow> (RespondWithJSON 400 (Refused e), w)
      | Inr (emps, errs) \<Rightarrow>
          (let ((created, more_errs), w) = create_all s (mc_BusinessID c) 0 emps w
           in (RespondWithJSON 200 (Imported created (length (errs @ more_errs)) (length emps + length errs) (errs @ more_errs)), w)))))"

section \<open>Self-service (self_service_handler.go)\<close>

definition own_record :: "mw_claims \<Rightarrow> employee list \<Rightarrow> employee option" where
  "own_record c es = find (\<lambda>e. e_UserID e = Some (mc_UserID c)) es"

definition GetProfile :: "mw_claims option \<Rightarrow> world \<Rightarrow> employee response \<times> world" where
  "GetProfile claims = with_claims ErrUnauthorized claims (\<lambda>c w.
     respond (ListEmployees (mc_BusinessID c) w) (\<lambda>es.
       case own_record c es of None \<Rightarrow> RespondWithError (Sentinel ErrNotFound) | Some e \<Rightarrow> RespondWithJSON 200 e))"

definition updateBankDetailsRequest :: "(string \<times> json) list \<Rightarrow> (string \<times> string \<times> string) option" where
  "updateBankDetailsRequest ms =
     (case (string_field ''bank_name'' ms, string_field ''bank_code'' ms, string_field ''bank_account_number'' ms) of
        (Some b, Some c, Some a) \<Rightarrow> Some (b, c, a) | _ \<Rightarrow> None)"

definition UpdateBankDetails ::
  "employee_service \<Rightarrow> string \<Rightarrow> mw_claims option \<Rightarrow> world \<Rightarrow> employee response \<times> world" where
  "UpdateBankDetails s body claims = with_claims ErrUnauthorized claims (\<lambda>c.
     with_body (decode_body updateBankDetailsRequest body) (\<lambda>(bank, code, account) w.
       (let (es, w) = attempt (ListEmployees (mc_BusinessID c) w) (\<lambda>_ w. ([], w)) (\<lambda>es w. (es, w))
        in case own_record c es of
             None \<Rightarrow> (RespondWithError (Sentinel ErrNotFound), w)
           | Some e \<Rightarrow> respond (UpdateEmployee s (e\<lparr>e_BankName := bank, e_BankCode := code, e_BankAccountNumber := account\<rparr>) w)
               (RespondWithJSON 200))))"

record payslip_summary =
  ps_RunID :: nat
  ps_Period :: period
  ps_Status :: PayrollStatus
  ps_NetPay :: int64

definition payslips :: "mw_claims \<Rightarrow> payroll_run list \<Rightarrow> payslip_summary list" where
  "payslips c rs =
     concat (map (\<lambda>r. map (\<lambda>en. \<lparr>ps_RunID = pr_ID r, ps_Period = pr_Period r, ps_Status = pr_Status r, ps_NetPay = pe_NetPay en\<rparr>)
         (filter (\<lambda>en. \<exists>e. pe_Employee en = Some e \<and> e_UserID e = Some (mc_UserID c)) (pr_Entries r)))
       (filter (\<lambda>r. pr_Status r = StatusCompleted \<or> pr_Status r = StatusProcessing) rs))"

definition GetPayslips :: "mw_claims option \<Rightarrow> world \<Rightarrow> payslip_summary list response \<times> world" where
  "GetPayslips claims = with_claims ErrUnauthorized claims (\<lambda>c w.
     respond (ListByBusinessID (mc_BusinessID c) w) (\<lambda>rs. RespondWithJSON 200 (payslips c rs)))"

section \<open>Verification (verification_handler.go)\<close>

definition HandleVerifyBankAccount ::
  "paystack_resolver option \<Rightarrow> string \<Rightarrow> string \<Rightarrow> world \<Rightarrow> account_verification response \<times> world" where
  "HandleVerifyBankAccount client bankCode accountNumber w =
     (if bankCode = [] \<or> accountNumber = [] then (RespondWithError (Sentinel ErrValidationFailed), w)
      else respond (VerifyBankAccount client bankCode accountNumber w, w) (RespondWithJSON 200))"

definition HandleVerifyBVN :: "paystack_resolver option \<Rightarrow> string \<Rightarrow> world \<Rightarrow> bvn_verification response \<times> world" where
  "HandleVerifyBVN client bvn w =
     (if bvn = [] then (RespondWithError (Sentinel ErrValidationFailed), w)
      else respond (VerifyBVN client bvn w, w) (RespondWithJSON 200))"


section \<open>The table of employees\<close>

definition staff_key :: "employee \<Rightarrow> nat \<times> string" where
  "staff_key e = (e_BusinessID e, e_Email e)"

definition staff_ok :: "world \<Rightarrow> bool" where
  "staff_ok w \<longleftrightarrow> distinct (map e_ID (employees w)) \<and> distinct (map staff_key (employees w))"

definition others :: "nat \<Rightarrow> world \<Rightarrow> employee list" where
  "others b w = filter (\<lambda>e. e_BusinessID e \<noteq> b) (employees w)"

lemma staff_faults [simp]:
  "staff_ok (w\<lparr>faults := fs\<rparr>) = staff_ok w" "others b (w\<lparr>faults := fs\<rparr>) = others b w"
  by (simp_all add: staff_ok_def others_def)

text \<open>Requests of one business keep the keys unique and the rows of all others.\<close>

abbreviation keeps :: "nat \<Rightarrow> world \<Rightarrow> 'a \<Rightarrow> world \<Rightarrow> bool" where
  "keeps b w r w' \<equiv> staff_ok w' \<and> others b w' = others b w"

lemma wp_cadre_FindByID [wp]:
  assumes "\<And>e fs. Q (Inl e) (w\<lparr>faults := fs\<rparr>)"
    and "\<And>c fs. c_ID c = i \<and> c_BusinessID c = bid \<Longrightarrow> Q (Inr c) (w\<lparr>faults := fs\<rparr>)"
  shows "post Q (cadre_FindByID i bid w)"
  unfolding cadre_FindByID_def using assms by (intro wp_statement) (auto split: option.splits dest: find_SomeD)

lemma wp_GetEmployee:
  assumes "\<And>e fs. Q (Inl e) (w\<lparr>faults := fs\<rparr>)"
    and "\<And>e fs. e \<in> set (employees w) \<Longrightarrow> e_ID e = i \<Longrightarrow> e_BusinessID e = bid \<Longrightarrow> Q (Inr e) (w\<lparr>faults := fs\<rparr>)"
  shows "post Q (GetEmployee i bid w)"
  unfolding GetEmployee_def employee_FindByID_def
proof (intro wp_attempt wp_statement, goal_cases)
  case (2 fs)
  then show ?case
    by (cases "find (\<lambda>e. e_ID e = i \<and> e_BusinessID e = bid) (employees w)") (use assms in \<open>auto dest: find_SomeD\<close>)
qed (use assms(1) in simp)

lemma staff_append:
  assumes "staff_ok w" and "staff_key e \<notin> staff_key ` set (employees w)" and "e_ID e = Suc (last_id e_ID (employees w))"
  shows "staff_ok (w\<lparr>employees := employees w @ [e]\<rparr>)"
proof -
  have "e_ID e \<notin> e_ID ` set (employees w)"
    using assms(3) last_id_bound [of _ "employees w" e_ID] by fastforce
  then show ?thesis using assms(1,2) by (auto simp: staff_ok_def)
qed

lemma employee_Create_keeps:
  assumes "staff_ok w" and "e_BusinessID e = b"
  shows "post (\<lambda>r w'. keeps b w r w' \<and> length (employees w') = length (employees w) + (case r of Inl _ \<Rightarrow> 0 | Inr _ \<Rightarrow> 1))
    (employee_Create e w)"
  unfolding employee_Create_def
proof (intro wp_statement, goal_cases)
  case (2 fs)
  let ?e = "e\<lparr>e_ID := Suc (last_id e_ID (employees w)), e_IsActive := True\<rparr>"
  have "staff_ok (w\<lparr>employees := employees w @ [?e]\<rparr>)"
    if "\<forall>f \<in> set (employees w). e_BusinessID f = e_BusinessID e \<longrightarrow> e_Email f \<noteq> e_Email e"
    by (rule staff_append [OF assms(1)]) (use that in \<open>auto simp: staff_key_def\<close>)
  then show ?case using assms by (auto simp: others_def staff_ok_def Let_def)
qed (use assms(1) in simp)

text \<open>An update of a row changes no row with another identifier.\<close>

lemma employee_Update_keeps:
  assumes "staff_ok w" and "e_BusinessID e = b" and "old \<in> set (employees w)" and "e_ID old = e_ID e" and "e_BusinessID old = b"
  shows "post (keeps b w) (employee_Update e w)"
proof -
  let ?up = "\<lambda>f. if e_ID f = e_ID e then employee_updates e f else f"
  have same: "f = old" if "f \<in> set (employees w)" "e_ID f = e_ID e" for f
    using assms(1,3,4) that unfolding staff_ok_def distinct_map inj_on_def by metis
  have up: "e_ID (?up f) = e_ID f" for f by (simp add: employee_updates_def)
  have "e_BusinessID (employee_updates e old) = b"
    using assms(2,5) by (simp add: employee_updates_def nonzero_def)
  then have "filter (\<lambda>f. e_BusinessID f \<noteq> b) (map ?up (employees w)) = filter (\<lambda>f. e_BusinessID f \<noteq> b) (employees w)"
    using same assms(5) unfolding filter_map o_def
    by (intro trans [OF map_idI]) (auto intro!: filter_cong split: if_splits dest: same)
  moreover have "distinct (map staff_key (map ?up (employees w)))"
    if free: "\<not> (\<exists>f \<in> set (employees w). e_ID f \<noteq> e_ID e \<and> staff_key f \<in> staff_key ` ?up ` {g \<in> set (employees w). e_ID g = e_ID e})"
  proof -
    have "inj_on (staff_key \<circ> ?up) (set (employees w))"
    proof (rule inj_onI)
      fix f g assume fg: "f \<in> set (employees w)" "g \<in> set (employees w)" "(staff_key \<circ> ?up) f = (staff_key \<circ> ?up) g"
      consider "e_ID f = e_ID e" "e_ID g = e_ID e" | "e_ID f = e_ID e" "e_ID g \<noteq> e_ID e" | "e_ID f \<noteq> e_ID e" "e_ID g = e_ID e"
        | "e_ID f \<noteq> e_ID e" "e_ID g \<noteq> e_ID e" by blast
      then show "f = g"
      proof cases
        case 1 then show ?thesis using same fg by metis
      next
        case 2 then have "staff_key g \<in> staff_key ` ?up ` {g \<in> set (employees w). e_ID g = e_ID e}" using fg by (force simp: image_iff)
        then show ?thesis using free fg 2 by blast
      next
        case 3 then have "staff_key f \<in> staff_key ` ?up ` {g \<in> set (employees w). e_ID g = e_ID e}" using fg by (force simp: image_iff)
        then show ?thesis using free fg 3 by blast
      next
        case 4 then have "staff_key f = staff_key g" using fg(3) by simp
        then show ?thesis using assms(1) fg unfolding staff_ok_def distinct_map inj_on_def by metis
      qed
    qed
    then show ?thesis using assms(1) by (simp add: staff_ok_def distinct_map del: o_apply)
  qed
  moreover have "map e_ID (map ?up (employees w)) = map e_ID (employees w)" using up by simp
  ultimately show ?thesis
    using assms(1) unfolding employee_Update_def Let_def staff_key_def [symmetric]
    by (intro wp_statement) (auto simp: staff_ok_def others_def simp del: map_map)
qed

text \<open>A continuation that starts from a world with the same employees.\<close>

lemma keeps_faults: "post (keeps b (w\<lparr>faults := fs\<rparr>)) r = post (keeps b w) r"
  by simp

lemma e_BusinessID_verify [simp]:
  "e_BusinessID (verify_bank s w e) = e_BusinessID e" "e_ID (verify_bank s w e) = e_ID e"
  by (auto simp: verify_bank_def split: option.splits sum.splits)

lemma CreateEmployee_keeps:
  assumes "staff_ok w" and "e_BusinessID e = b"
  shows "post (\<lambda>r w'. keeps b w r w' \<and> length (employees w') = length (employees w) + (case r of Inl _ \<Rightarrow> 0 | Inr _ \<Rightarrow> 1))
    (CreateEmployee s e w)"
proof -
  have "post (\<lambda>r w'. keeps b w r w' \<and> length (employees w') = length (employees w) + (case r of Inl _ \<Rightarrow> 0 | Inr _ \<Rightarrow> 1))
    (employee_Create f (w\<lparr>faults := fs\<rparr>))" if "e_BusinessID f = b" for f fs
    using employee_Create_keeps [of "w\<lparr>faults := fs\<rparr>" f b] assms(1) that by simp
  then show ?thesis
    unfolding CreateEmployee_def Let_def using assms by (auto intro!: wp)
qed

lemma store_employee_keeps:
  assumes "staff_ok w" and "old \<in> set (employees w)" and "e_ID old = e_ID e" and "e_BusinessID old = e_BusinessID e"
  shows "post (keeps (e_BusinessID e) w) (store_employee s e existing w)"
  unfolding store_employee_def Let_def
  using assms by (intro wp_attempt employee_Update_keeps [where old = old, THEN post_mono]) (auto split: if_splits)

lemma UpdateEmployee_keeps:
  assumes "staff_ok w"
  shows "post (keeps (e_BusinessID e) w) (UpdateEmployee s e w)"
proof -
  have store: "post (keeps (e_BusinessID e) w) (store_employee s e f (w\<lparr>faults := fs\<rparr>))"
    if "f \<in> set (employees w)" "e_ID f = e_ID e" "e_BusinessID f = e_BusinessID e" for f fs
    using store_employee_keeps [of "w\<lparr>faults := fs\<rparr>" f e s f] assms that by simp
  show ?thesis
    unfolding UpdateEmployee_def using assms by (auto intro!: wp_attempt wp_GetEmployee wp_if wp_cadre_FindByID intro: store)
qed

lemma DeactivateEmployee_effect:
  assumes "staff_ok w"
  shows "post (\<lambda>r w'. employees w' = employees w) (DeactivateEmployee i bid w)"
proof -
  have same: "map (\<lambda>f. if e_ID f = e_ID e then employee_updates (e\<lparr>e_IsActive := False\<rparr>) f else f) (employees w) = employees w"
    if "e \<in> set (employees w)" for e
  proof (rule map_idI)
    fix f assume "f \<in> set (employees w)"
    then have "f = e" if "e_ID f = e_ID e"
      using assms \<open>e \<in> set (employees w)\<close> that unfolding staff_ok_def distinct_map inj_on_def by metis
    moreover have "employee_updates (e\<lparr>e_IsActive := False\<rparr>) e = e"
      by (cases e) (simp add: employee_updates_def nonzero_def or_else_def option.case_eq_if)
    ultimately show "(if e_ID f = e_ID e then employee_updates (e\<lparr>e_IsActive := False\<rparr>) f else f) = f"
      by auto
  qed
  show ?thesis
    unfolding DeactivateEmployee_def by (auto intro!: wp_attempt wp_GetEmployee wp_employee_Update simp: same cong: if_cong)
qed

lemma create_all_keeps:
  assumes "staff_ok w"
  shows "post (\<lambda>(created, errs) w'. keeps bid w () w' \<and> length (employees w') = length (employees w) + created \<and>
    created + length errs = length es) (create_all s bid i es w)"
  using assms
proof (induction es arbitrary: i w)
  case (Cons e es)
  obtain r v where create: "CreateEmployee s (e\<lparr>e_BusinessID := bid, e_IsActive := True\<rparr>) w = (r, v)" by fastforce
  have "keeps bid w r v \<and> length (employees v) = length (employees w) + (case r of Inl _ \<Rightarrow> 0 | Inr _ \<Rightarrow> 1)"
    using CreateEmployee_keeps [OF Cons.prems, of "e\<lparr>e_BusinessID := bid, e_IsActive := True\<rparr>" bid s] by (simp add: create)
  then show ?case
    using Cons.IH [of v "Suc i"]
    by (cases r; cases "create_all s bid (Suc i) es v") (auto simp: create split_beta post_def)
qed simp


lemma ImportEmployees_keeps:
  assumes "staff_ok w" and "mc_BusinessID c = b"
  shows "post (keeps b w) (ImportEmployees s uploaded (Some c) w)"
  using create_all_keeps [OF assms(1)] assms
  by (auto simp: ImportEmployees_def with_claims_def with_body_def post_def split_beta split: option.splits sum.splits)

lemma UpdateBankDetails_keeps:
  assumes "staff_ok w" and "mc_BusinessID c = b"
  shows "post (keeps b w) (UpdateBankDetails s body (Some c) w)"
proof -
  have own: "e_BusinessID e = mc_BusinessID c"
    if "own_record c (filter (\<lambda>e. e_BusinessID e = mc_BusinessID c) (employees w)) = Some e" for e
    using that by (auto simp: own_record_def dest: find_SomeD)
  have none: "own_record c [] = None" by (simp add: own_record_def)
  have update: "post (keeps b w) (UpdateEmployee s (e\<lparr>e_BankName := x, e_BankCode := y, e_BankAccountNumber := z\<rparr>) (w\<lparr>faults := fs\<rparr>))"
    if "e_BusinessID e = b" for e x y z fs
    using UpdateEmployee_keeps [of "w\<lparr>faults := fs\<rparr>" "e\<lparr>e_BankName := x, e_BankCode := y, e_BankAccountNumber := z\<rparr>" s] assms that
    by simp
  show ?thesis
    unfolding UpdateBankDetails_def ListEmployees_def with_claims_def with_body_def respond_def Let_def
    using assms
    by (auto intro!: wp update [THEN post_mono] dest: own simp: none)
qed

section \<open>Requests of one business\<close>

inductive staff_request :: "(string \<Rightarrow> bool) \<Rightarrow> employee_service \<Rightarrow> nat \<Rightarrow> world \<Rightarrow> world \<Rightarrow> bool" for valid s b where
  create: "mc_BusinessID c = b \<Longrightarrow> staff_request valid s b w (snd (HandleCreateEmployee valid s body (Some c) w))"
| update: "mc_BusinessID c = b \<Longrightarrow> staff_request valid s b w (snd (HandleUpdateEmployee s i body (Some c) w))"
| deactivate: "mc_BusinessID c = b \<Longrightarrow> staff_request valid s b w (snd (HandleDeactivateEmployee i (Some c) w))"
| upload: "mc_BusinessID c = b \<Longrightarrow> staff_request valid s b w (snd (ImportEmployees s uploaded (Some c) w))"
| own: "mc_BusinessID c = b \<Longrightarrow> staff_request valid s b w (snd (UpdateBankDetails s body (Some c) w))"

lemma staff_request_keeps: "staff_request valid s b w w' \<Longrightarrow> staff_ok w \<Longrightarrow> keeps b w () w'"
proof (induction rule: staff_request.induct)
  case (create c w body)
  have "post (keeps b w) (HandleCreateEmployee valid s body (Some c) w)"
    unfolding HandleCreateEmployee_def with_body_def with_claims_def respond_def
    using create by (auto intro!: wp CreateEmployee_keeps [where b = b, THEN post_mono])
  then show ?case by (simp add: post_def)
next
  case (update c w i body)
  have "post (keeps b w) (HandleUpdateEmployee s i body (Some c) w)"
    unfolding HandleUpdateEmployee_def with_id_def with_body_def with_claims_def respond_def
    using update UpdateEmployee_keeps [of w "e\<lparr>e_ID := n, e_BusinessID := b\<rparr>" s for e n]
    by (auto intro!: wp UpdateEmployee_keeps [THEN post_mono])
  then show ?case by (simp add: post_def)
next
  case (deactivate c w i)
  have "post (\<lambda>_ w'. employees w' = employees w) (HandleDeactivateEmployee i (Some c) w)"
    unfolding HandleDeactivateEmployee_def with_id_def with_claims_def respond_def
    using deactivate by (auto intro!: wp DeactivateEmployee_effect [THEN post_mono])
  then show ?case using deactivate(2) by (simp add: post_def staff_ok_def others_def)
next
  case (upload c w uploaded)
  then show ?case using ImportEmployees_keeps by (simp add: post_def)
next
  case (own c w body)
  then show ?case using UpdateBankDetails_keeps by (simp add: post_def)
qed

text \<open>The account is one that Paystack resolves now.\<close>

definition resolves :: "employee_service \<Rightarrow> world \<Rightarrow> string \<Rightarrow> string \<Rightarrow> bool" where
  "resolves s w code account =
     (case es_Verification s of
        Some (Some p) \<Rightarrow> (case px_Account p account code (tick w) of Inr (st, _) \<Rightarrow> st | Inl _ \<Rightarrow> False)
      | _ \<Rightarrow> False)"

lemma verify_bank_unresolved: "\<not> resolves s w (e_BankCode e) (e_BankAccountNumber e) \<Longrightarrow> verify_bank s w e = e"
proof (cases "es_Verification s")
  case (Some client)
  assume "\<not> resolves s w (e_BankCode e) (e_BankAccountNumber e)"
  then show ?thesis
    by (cases client; cases "px_Account (the client) (e_BankAccountNumber e) (e_BankCode e) (tick w)")
      (auto simp: Some verify_bank_def VerifyBankAccount_def resolves_def)
qed (simp add: verify_bank_def)

section \<open>Properties\<close>

text \<open>
  C39: Requests about employees stay in their business. Whatever the requests of one business create,
  change, import or deactivate, and whichever statements fail, the rows of every other business are the
  same afterwards, and identifiers and the e-mail addresses of a business stay unique.
\<close>

theorem staff_isolated:
  assumes "(staff_request valid s b)\<^sup>*\<^sup>* w w'" and "staff_ok w"
  shows "others b w' = others b w \<and> staff_ok w'"
  using assms by (induction rule: rtranclp_induct) (auto dest: staff_request_keeps)

text \<open>Business 1 imports any file while business 2 has an employee.\<close>

definition ada :: employee where
  "ada = new_employee\<lparr>e_ID := 4, e_BusinessID := 2, e_Email := ''ada@pay.ng'', e_IsActive := True, e_BankCode := ''058'',
     e_BankAccountNumber := ''0123456789'', e_BankAccountVerified := True, e_BankAccountName := ''ADA OBI''\<rparr>"

theorem staff_isolated_witness:
  "\<forall>s upload w. let c = \<lparr>mc_UserID = 1, mc_BusinessID = 1, mc_Role = ''admin'', mc_EmployeeID = 0\<rparr>
     in others 1 (snd (ImportEmployees s (Some upload) (Some c) (w\<lparr>employees := [ada]\<rparr>))) = [ada]"
proof (intro allI)
  fix s upload and w :: world
  let ?c = "\<lparr>mc_UserID = 1, mc_BusinessID = 1, mc_Role = ''admin'', mc_EmployeeID = 0\<rparr>"
  let ?w = "w\<lparr>employees := [ada]\<rparr>"
  have "others 1 (snd (ImportEmployees s (Some upload) (Some ?c) ?w)) = others 1 ?w \<and>
      staff_ok (snd (ImportEmployees s (Some upload) (Some ?c) ?w))"
    by (rule staff_isolated [OF r_into_rtranclp, OF staff_request.upload [where valid = "\<lambda>_. True"]]) (simp_all add: staff_ok_def)
  then show "let c = ?c in others 1 (snd (ImportEmployees s (Some upload) (Some c) ?w)) = [ada]"
    by (simp add: others_def ada_def)
qed

text \<open>
  The counts of an import add up. Rows that are created and errors make the total of an import; the
  table has grown by exactly the rows reported as created; and with any other answer it is unchanged.
\<close>

theorem import_counts:
  assumes "staff_ok w"
  shows "post (\<lambda>r w'. case r of
      Reply st (Imported created failed n errs) \<Rightarrow>
        length (employees w') = length (employees w) + created \<and> created + failed = n \<and> failed = length errs
    | _ \<Rightarrow> w' = w)
    (ImportEmployees s uploaded claims w)"
proof (cases claims)
  case (Some c)
  have "post (\<lambda>(created, errs) w'. length (employees w') = length (employees w) + created \<and>
      created + length errs = length es) (create_all s (mc_BusinessID c) 0 es w)" for es
    by (rule create_all_keeps [OF assms, THEN post_mono]) auto
  then show ?thesis
    by (auto simp: Some ImportEmployees_def with_claims_def with_body_def RespondWithJSON_def post_def split_beta RespondWithError_def
        split: option.splits sum.splits)
qed (auto simp: ImportEmployees_def with_claims_def RespondWithError_def split: option.splits)

theorem import_counts_witness:
  "\<forall>s upload c w. post (\<lambda>r w'. case r of
      Reply st (Imported created failed n errs) \<Rightarrow> length (employees w') = created \<and> created + failed = n
    | _ \<Rightarrow> employees w' = []) (ImportEmployees s upload c (w\<lparr>employees := []\<rparr>))"
proof (intro allI)
  fix s upload c and w :: world
  show "post (\<lambda>r w'. case r of
      Reply st (Imported created failed n errs) \<Rightarrow> length (employees w') = created \<and> created + failed = n
    | _ \<Rightarrow> employees w' = []) (ImportEmployees s upload c (w\<lparr>employees := []\<rparr>))"
    by (rule import_counts [THEN post_mono])
      (auto simp: staff_ok_def split: response.splits import_answer.splits)
qed

text \<open>
  Deactivating an employee does nothing. The request is answered with 204, when no statement fails and
  the employee is there, and the table is the same: the update skips the flag, because false is the zero
  value.
\<close>

theorem deactivation_ignored:
  assumes "staff_ok w" and "faults w = []" and "e \<in> set (employees w)"
  shows "DeactivateEmployee (e_ID e) (e_BusinessID e) w = (Inr (), w)"
proof -
  have found: "find (\<lambda>f. e_ID f = e_ID e \<and> e_BusinessID f = e_BusinessID e) (employees w) = Some e"
    using find_first [of e_ID "employees w" e "\<lambda>f. e_BusinessID f = e_BusinessID e"] assms(1,3) by (simp add: staff_ok_def)
  have same: "f = e" if "f \<in> set (employees w)" "e_ID f = e_ID e" for f
    using assms(1,3) that unfolding staff_ok_def distinct_map inj_on_def by metis
  have up: "employee_updates (e\<lparr>e_IsActive := False\<rparr>) e = e"
    by (cases e) (simp add: employee_updates_def nonzero_def or_else_def option.case_eq_if)
  then have "map (\<lambda>f. if e_ID f = e_ID e then employee_updates (e\<lparr>e_IsActive := False\<rparr>) f else f) (employees w) = employees w"
    by (intro map_idI) (auto dest: same)
  moreover have "staff_key f \<noteq> staff_key e" if "f \<in> set (employees w)" "e_ID f \<noteq> e_ID e" for f
    using assms(1,3) that unfolding staff_ok_def distinct_map inj_on_def by metis
  moreover have "{g \<in> set (employees w). e_ID g = e_ID e} = {e}" using same assms(3) by blast
  ultimately show ?thesis
    using assms(2,3) up
    by (auto simp: DeactivateEmployee_def GetEmployee_def employee_FindByID_def found employee_Update_def staff_key_def Let_def)
qed

theorem deactivation_ignored_witness:
  "\<forall>w. DeactivateEmployee 4 2 (w\<lparr>faults := [], employees := [ada]\<rparr>) = (Inr (), w\<lparr>faults := [], employees := [ada]\<rparr>)"
  using deactivation_ignored [of "w\<lparr>faults := [], employees := [ada]\<rparr>" ada for w] by (simp add: staff_ok_def ada_def)

text \<open>
  A changed account stays verified. An employee whose account was verified is given another one that
  cannot be resolved: the answer shows it as not verified, and the table keeps it as verified, with the name
  of the old account's holder.
\<close>

theorem changed_account_stays_verified:
  assumes "staff_ok w" and "faults w = []" and "e \<in> set (employees w)" and "e_BankAccountVerified e"
    and "code \<noteq> []" and "account \<noteq> []" and "code \<noteq> e_BankCode e \<or> account \<noteq> e_BankAccountNumber e"
    and "\<not> resolves s w code account"
  shows "post (\<lambda>r w'. (\<exists>u. r = Inr u \<and> \<not> e_BankAccountVerified u) \<and>
      (\<exists>f \<in> set (employees w'). e_ID f = e_ID e \<and> e_BankCode f = code \<and> e_BankAccountNumber f = account \<and>
         e_BankAccountVerified f \<and> e_BankAccountName f = e_BankAccountName e))
    (UpdateEmployee s (e\<lparr>e_BankCode := code, e_BankAccountNumber := account\<rparr>) w)"
proof -
  let ?new = "e\<lparr>e_BankCode := code, e_BankAccountNumber := account, e_BankAccountVerified := False, e_BankAccountName := []\<rparr>"
  have found: "find (\<lambda>f. e_ID f = e_ID e \<and> e_BusinessID f = e_BusinessID e) (employees w) = Some e"
    using find_first [of e_ID "employees w" e "\<lambda>f. e_BusinessID f = e_BusinessID e"] assms(1,3) by (simp add: staff_ok_def)
  have same: "f = e" if "f \<in> set (employees w)" "e_ID f = e_ID e" for f
    using assms(1,3) that unfolding staff_ok_def distinct_map inj_on_def by metis
  have one: "{g \<in> set (employees w). e_ID g = e_ID e} = {e}" using same assms(3) by blast
  have key: "staff_key (employee_updates ?new e) = staff_key e" by (simp add: staff_key_def employee_updates_def nonzero_def)
  have free: "\<forall>f \<in> set (employees w). e_ID f \<noteq> e_ID e \<longrightarrow> staff_key f \<noteq> staff_key e"
    using assms(1,3) unfolding staff_ok_def distinct_map inj_on_def by metis
  have "verify_bank s w ?new = ?new"
    using verify_bank_unresolved [of s w ?new] assms(8) by simp
  then have answer: "UpdateEmployee s (e\<lparr>e_BankCode := code, e_BankAccountNumber := account\<rparr>) w =
      (Inr ?new, w\<lparr>employees := map (\<lambda>f. if e_ID f = e_ID e then employee_updates ?new f else f) (employees w)\<rparr>)"
    using assms(2,3,5-7) free key one
    by (auto simp: UpdateEmployee_def GetEmployee_def employee_FindByID_def found store_employee_def has_account_def
        employee_Update_def staff_key_def Let_def)
  have row: "employee_updates ?new e \<in> (\<lambda>f. if e_ID f = e_ID e then employee_updates ?new f else f) ` set (employees w)"
    by (rule rev_image_eqI [OF assms(3)]) simp
  show ?thesis
    unfolding answer post_pair using assms(4-6)
    by (auto intro!: bexI [OF _ row [unfolded set_map [symmetric]]] simp: employee_updates_def nonzero_def simp del: set_map)
qed

theorem changed_account_stays_verified_witness:
  "\<forall>w. post (\<lambda>r w'. \<exists>f. f \<in> set (employees w') \<and> e_BankAccountNumber f = ''0999999999'' \<and> e_BankAccountVerified f)
     (UpdateEmployee \<lparr>es_Verification = None\<rparr> (ada\<lparr>e_BankCode := ''058'', e_BankAccountNumber := ''0999999999''\<rparr>)
        (w\<lparr>faults := [], employees := [ada]\<rparr>))"
proof
  fix w :: world
  show "post (\<lambda>r w'. \<exists>f. f \<in> set (employees w') \<and> e_BankAccountNumber f = ''0999999999'' \<and> e_BankAccountVerified f)
     (UpdateEmployee \<lparr>es_Verification = None\<rparr> (ada\<lparr>e_BankCode := ''058'', e_BankAccountNumber := ''0999999999''\<rparr>)
        (w\<lparr>faults := [], employees := [ada]\<rparr>))"
    by (rule changed_account_stays_verified [THEN post_mono]) (auto simp: staff_ok_def ada_def resolves_def)
qed

end
