(* ===== verification/Middleware.thy ===== *)
theory Middleware
  imports Http
begin

text \<open>
  Middleware that looks at rates and identifiers of requests
  (\<^verbatim>\<open>internal/api/middleware/velocity.go\<close>, \<^verbatim>\<open>rate_limiter.go\<close>,
  \<^verbatim>\<open>request_id.go\<close>). The state of a limiter is a map that all requests share; requests are
  ordered by the mutex of their counter, and the times they carry are instants in nanoseconds. The token
  bucket of \<^verbatim>\<open>golang.org/x/time/rate\<close> is a parameter.
\<close>

section \<open>Transfer velocity (velocity.go)\<close>

record velocity_config =
  MaxPerHour :: int64
  MaxPerDay :: int64

record transfer_counter =
  tc_hourly :: "int list"
  tc_daily :: "int list"

definition hour :: int where
  "hour = 3600 * 1000000000"

definition cleanup :: "int \<Rightarrow> transfer_counter \<Rightarrow> transfer_counter" where
  "cleanup time c = \<lparr>tc_hourly = filter (\<lambda>t. time - hour < t) (tc_hourly c),
     tc_daily = filter (\<lambda>t. time - 24 * hour < t) (tc_daily c)\<rparr>"

type_synonym counters = "nat \<Rightarrow> transfer_counter option"

definition counter_of :: "counters \<Rightarrow> nat \<Rightarrow> transfer_counter" where
  "counter_of m b = (case m b of None \<Rightarrow> \<lparr>tc_hourly = [], tc_daily = []\<rparr> | Some c \<Rightarrow> c)"

text \<open>The answer of a refusal, or none when the next handler is called.\<close>

definition refusal :: "string \<Rightarrow> int64 \<Rightarrow> string \<Rightarrow> string \<Rightarrow> 'a response" where
  "refusal e limit window retry = Failure 429 e [(''limit'', show_int limit), (''window'', window), (''retry_after_s'', retry)]"

definition TransferVelocityLimiter ::
  "velocity_config \<Rightarrow> mw_claims option \<Rightarrow> int \<Rightarrow> counters \<Rightarrow> 'a response option \<times> counters" where
  "TransferVelocityLimiter cfg claims time m =
     (case claims of
        None \<Rightarrow> (None, m)
      | Some cl \<Rightarrow>
          (let b = mc_BusinessID cl; c = cleanup time (counter_of m b)
           in if 0 < MaxPerHour cfg \<and> MaxPerHour cfg \<le> int (length (tc_hourly c))
              then (Some (refusal ''transfer velocity limit exceeded'' (MaxPerHour cfg) ''1 hour'' ''3600''), m(b \<mapsto> c))
              else if 0 < MaxPerDay cfg \<and> MaxPerDay cfg \<le> int (length (tc_daily c))
              then (Some (refusal ''daily transfer limit exceeded'' (MaxPerDay cfg) ''24 hours'' ''86400''), m(b \<mapsto> c))
              else (None, m(b \<mapsto> c\<lparr>tc_hourly := tc_hourly c @ [time], tc_daily := tc_daily c @ [time]\<rparr>))))"

text \<open>The goroutine that cleans up all counters.\<close>

definition periodic_cleanup :: "int \<Rightarrow> counters \<Rightarrow> counters" where
  "periodic_cleanup time m = map_option (cleanup time) \<circ> m"

text \<open>What a limiter sees, and the requests of businesses it lets pass.\<close>

datatype velocity_event = Arrival nat int | Cleaning int

fun event_time :: "velocity_event \<Rightarrow> int" where
  "event_time (Arrival b t) = t"
| "event_time (Cleaning t) = t"

definition by_business :: "nat \<Rightarrow> mw_claims option" where
  "by_business b = Some \<lparr>mc_UserID = 0, mc_BusinessID = b, mc_Role = [], mc_EmployeeID = 0\<rparr>"

fun passed :: "velocity_config \<Rightarrow> counters \<Rightarrow> velocity_event list \<Rightarrow> (nat \<times> int) list" where
  "passed cfg m [] = []"
| "passed cfg m (Cleaning t # evs) = passed cfg (periodic_cleanup t m) evs"
| "passed cfg m (Arrival b t # evs) =
     (let (r, m) = TransferVelocityLimiter cfg (by_business b) t m :: unit response option \<times> counters
      in (if r = None then [(b, t)] else []) @ passed cfg m evs)"

section \<open>Rates of addresses (rate_limiter.go)\<close>

text \<open>\<^verbatim>\<open>net.SplitHostPort\<close>; nothing when it gives an error.\<close>

definition last_colon :: "string \<Rightarrow> nat option" where
  "last_colon s = find (\<lambda>i. s ! i = CHR '':'') (rev [0..<length s])"

definition closing :: "string \<Rightarrow> nat option" where
  "closing s = find (\<lambda>i. s ! i = CHR '']'') [0..<length s]"

definition split_host :: "string \<Rightarrow> string option" where
  "split_host s =
     (case last_colon s of
        None \<Rightarrow> None
      | Some i \<Rightarrow>
          if hd s = CHR ''['' then
            (case closing s of
               None \<Rightarrow> None
             | Some j \<Rightarrow>
                 if j + 1 = i \<and> CHR ''['' \<notin> set (drop 1 s) \<and> CHR '']'' \<notin> set (drop (j + 1) s)
                 then Some (take (j - 1) (drop 1 s)) else None)
          else if CHR '':'' \<in> set (take i s) \<or> CHR ''['' \<in> set s \<or> CHR '']'' \<in> set s then None
          else Some (take i s))"

definition client_ip :: "string \<Rightarrow> string" where
  "client_ip addr = (case split_host addr of None \<Rightarrow> addr | Some h \<Rightarrow> h)"

text \<open>A token bucket: a new one, and \<^verbatim>\<open>Allow\<close>.\<close>

record 'l bucket =
  bk_New :: 'l
  bk_Allow :: "int \<Rightarrow> 'l \<Rightarrow> bool \<times> 'l"

record 'l visitor =
  vs_limiter :: 'l
  vs_lastSeen :: int

type_synonym 'l visitors = "string \<Rightarrow> 'l visitor option"

text \<open>Time \<open>seen\<close> is stored before the bucket is asked at \<open>time\<close>.\<close>

definition RateLimiter ::
  "'l bucket \<Rightarrow> string \<Rightarrow> int \<Rightarrow> int \<Rightarrow> 'l visitors \<Rightarrow> 'a response option \<times> 'l visitors" where
  "RateLimiter b addr seen time m =
     (let ip = client_ip addr; l = (case m ip of None \<Rightarrow> bk_New b | Some v \<Rightarrow> vs_limiter v);
          (ok, l) = bk_Allow b time l
      in (if ok then None else Some (Text 429 ''Too Many Requests''), m(ip \<mapsto> \<lparr>vs_limiter = l, vs_lastSeen = seen\<rparr>)))"

definition forget_visitors :: "int \<Rightarrow> 'l visitors \<Rightarrow> 'l visitors" where
  "forget_visitors time m =
     (\<lambda>ip. case m ip of None \<Rightarrow> None | Some v \<Rightarrow> if 180 * 1000000000 < time - vs_lastSeen v then None else Some v)"

datatype rate_event = Hit string int int | Forget int

fun allowed_hits :: "'l bucket \<Rightarrow> string \<Rightarrow> 'l visitors \<Rightarrow> rate_event list \<Rightarrow> bool list" where
  "allowed_hits b ip m [] = []"
| "allowed_hits b ip m (Forget t # evs) = allowed_hits b ip (forget_visitors t m) evs"
| "allowed_hits b ip m (Hit addr seen t # evs) =
     (let (r, m) = RateLimiter b addr seen t m :: unit response option \<times> 'l visitors
      in (if client_ip addr = ip then [r = None] else []) @ allowed_hits b ip m evs)"

section \<open>Identifiers of requests (request_id.go)\<close>

text \<open>32 hexadecimal digits, grouped.\<close>

definition generateID :: "string \<Rightarrow> string" where
  "generateID h = take 8 h @ ''-'' @ take 4 (drop 8 h) @ ''-'' @ take 4 (drop 12 h) @ ''-'' @ take 4 (drop 16 h) @ ''-'' @ drop 20 h"

definition RequestID :: "string \<Rightarrow> world \<Rightarrow> string \<times> world" where
  "RequestID header w = (if header = [] then (let (h, w) = rand_hex w in (generateID h, w)) else (header, w))"

section \<open>The sliding window\<close>

text \<open>The reference: the requests that passed so far, counted in the window before the new one.\<close>

definition times_of :: "nat \<Rightarrow> (nat \<times> int) list \<Rightarrow> int list" where
  "times_of b adm = map snd (filter (\<lambda>a. fst a = b) adm)"

definition since :: "int \<Rightarrow> int list \<Rightarrow> int list" where
  "since lo ts = filter (\<lambda>t. lo < t) ts"

definition allows :: "velocity_config \<Rightarrow> (nat \<times> int) list \<Rightarrow> nat \<Rightarrow> int \<Rightarrow> bool" where
  "allows cfg adm b t \<longleftrightarrow>
     (0 < MaxPerHour cfg \<longrightarrow> int (length (since (t - hour) (times_of b adm))) < MaxPerHour cfg) \<and>
     (0 < MaxPerDay cfg \<longrightarrow> int (length (since (t - 24 * hour) (times_of b adm))) < MaxPerDay cfg)"

fun window_run :: "velocity_config \<Rightarrow> (nat \<times> int) list \<Rightarrow> velocity_event list \<Rightarrow> (nat \<times> int) list" where
  "window_run cfg adm [] = []"
| "window_run cfg adm (Cleaning t # evs) = window_run cfg adm evs"
| "window_run cfg adm (Arrival b t # evs) =
     (if allows cfg adm b t then (b, t) # window_run cfg (adm @ [(b, t)]) evs else window_run cfg adm evs)"

text \<open>What a counter holds: what passed since some instants at most the last event's.\<close>

definition counts :: "int \<Rightarrow> int list \<Rightarrow> transfer_counter \<Rightarrow> bool" where
  "counts time ts c \<longleftrightarrow> (\<exists>lo hi. lo \<le> time - hour \<and> hi \<le> time - 24 * hour \<and> tc_hourly c = since lo ts \<and> tc_daily c = since hi ts)"

lemma since_since: "lo \<le> lo' \<Longrightarrow> since lo' (since lo ts) = since lo' ts"
  by (auto simp: since_def intro: filter_cong)

lemma since_append [simp]: "since lo (ts @ [t]) = since lo ts @ (if lo < t then [t] else [])"
  by (simp add: since_def)

lemma times_of_append [simp]: "times_of b (adm @ [(a, t)]) = times_of b adm @ (if a = b then [t] else [])"
  by (simp add: times_of_def)

lemma counts_cleanup:
  assumes "counts time ts c" and "time \<le> t"
  shows "tc_hourly (cleanup t c) = since (t - hour) ts" "tc_daily (cleanup t c) = since (t - 24 * hour) ts"
  using assms since_since [of _ "t - hour" ts] since_since [of _ "t - 24 * hour" ts]
  by (auto simp: counts_def cleanup_def since_def [symmetric])

lemma counts_later: "counts time ts c \<Longrightarrow> time \<le> t \<Longrightarrow> counts t ts c"
  unfolding counts_def by (elim exE conjE, intro exI conjI) auto

lemma counts_cleaned: "counts time ts c \<Longrightarrow> time \<le> t \<Longrightarrow> counts t ts (cleanup t c)"
  unfolding counts_def [of t] using counts_cleanup by fastforce

lemma counts_added:
  "tc_hourly c = since (t - hour) ts \<Longrightarrow> tc_daily c = since (t - 24 * hour) ts \<Longrightarrow>
   counts t (ts @ [t]) (c\<lparr>tc_hourly := tc_hourly c @ [t], tc_daily := tc_daily c @ [t]\<rparr>)"
  unfolding counts_def by (intro exI [of _ "t - hour"] exI [of _ "t - 24 * hour"]) (simp add: hour_def)

definition window_inv :: "int \<Rightarrow> (nat \<times> int) list \<Rightarrow> counters \<Rightarrow> bool" where
  "window_inv time adm m \<longleftrightarrow> (\<forall>b. counts time (times_of b adm) (counter_of m b))"

lemma hour_positive [simp]: "0 < hour" "t - hour < t" "t - 24 * hour < t"
  by (simp_all add: hour_def)

lemma passed_reference:
  assumes "window_inv time adm m" and "sorted (time # map event_time evs)"
  shows "passed cfg m evs = window_run cfg adm evs"
  using assms
proof (induction evs arbitrary: time adm m)
  case (Cons ev evs)
  note sorted = Cons.prems(2)
  show ?case
  proof (cases ev)
    case (Cleaning t)
    have "window_inv t adm (periodic_cleanup t m)"
      unfolding window_inv_def
    proof
      fix b
      have "counter_of (periodic_cleanup t m) b = (case m b of None \<Rightarrow> counter_of m b | Some c \<Rightarrow> cleanup t (counter_of m b))"
        by (simp add: counter_of_def periodic_cleanup_def split: option.split)
      moreover have "counts time (times_of b adm) (counter_of m b)" "time \<le> t"
        using Cons.prems Cleaning by (auto simp: window_inv_def)
      ultimately show "counts t (times_of b adm) (counter_of (periodic_cleanup t m) b)"
        using counts_cleaned counts_later by (auto split: option.split)
    qed
    then show ?thesis using Cons.IH [of t adm] sorted Cleaning by simp
  next
    case (Arrival b t)
    let ?c = "cleanup t (counter_of m b)"
    have le: "time \<le> t" using sorted Arrival by simp
    have c: "tc_hourly ?c = since (t - hour) (times_of b adm)" "tc_daily ?c = since (t - 24 * hour) (times_of b adm)"
      using counts_cleanup [OF _ le] Cons.prems(1) by (auto simp: window_inv_def)
    define m1 where "m1 = m(b \<mapsto> ?c)"
    define m2 where "m2 = m(b \<mapsto> ?c\<lparr>tc_hourly := tc_hourly ?c @ [t], tc_daily := tc_daily ?c @ [t]\<rparr>)"
    have inv: "window_inv t adm m1" "window_inv t (adm @ [(b, t)]) m2"
      using Cons.prems(1) counts_cleaned [OF _ le] counts_later [OF _ le] counts_added [OF c]
      by (auto simp: window_inv_def counter_of_def m1_def m2_def)
    have "if allows cfg adm b t then TransferVelocityLimiter cfg (by_business b) t m = (None :: unit response option, m2)
      else \<exists>r. TransferVelocityLimiter cfg (by_business b) t m = (Some r :: unit response option, m1)"
      by (auto simp: TransferVelocityLimiter_def by_business_def Let_def c allows_def m1_def m2_def)
    then show ?thesis
      using Cons.IH [OF inv(1)] Cons.IH [OF inv(2)] sorted Arrival by (auto split: if_splits)
  qed
qed simp

lemma window_inv_empty: "window_inv time [] (\<lambda>_. None)"
  by (auto simp: window_inv_def counter_of_def counts_def times_of_def since_def)

text \<open>No window holds more than the limit.\<close>

definition window :: "int \<Rightarrow> int \<Rightarrow> int list \<Rightarrow> int list" where
  "window lo hi ts = filter (\<lambda>t. lo < t \<and> t \<le> hi) ts"

lemma window_limit:
  assumes "\<And>t. int (length (window (t - d) t (times_of b adm))) \<le> n" and "\<forall>s \<in> set (times_of b adm). s \<le> t"
    and "int (length (since (t - d) (times_of b adm))) < n"
  shows "int (length (window (u - d) u (times_of b adm @ [t]))) \<le> n"
proof (cases "t \<le> u")
  case True
  have "length (filter (\<lambda>s. u - d < s \<and> s \<le> u) (times_of b adm)) \<le> length (filter (\<lambda>s. t - d < s) (times_of b adm))"
  proof -
    have "filter (\<lambda>s. u - d < s \<and> s \<le> u) (times_of b adm) =
        filter (\<lambda>s. u - d < s \<and> s \<le> u) (filter (\<lambda>s. t - d < s) (times_of b adm))"
      using True by (auto intro: filter_cong)
    then show ?thesis by (metis length_filter_le)
  qed
  then show ?thesis using assms(3) by (simp add: window_def since_def)
qed (use assms(1) [of u] in \<open>simp add: window_def\<close>)

lemma allows_since: "allows cfg adm b t \<Longrightarrow> 0 < MaxPerHour cfg \<Longrightarrow> int (length (since (t - hour) (times_of b adm))) < MaxPerHour cfg"
  "allows cfg adm b t \<Longrightarrow> 0 < MaxPerDay cfg \<Longrightarrow> int (length (since (t - 24 * hour) (times_of b adm))) < MaxPerDay cfg"
  by (simp_all add: allows_def)

lemma window_run_limit:
  assumes "\<And>adm b t. allows cfg adm b t \<Longrightarrow> int (length (since (t - d) (times_of b adm))) < n"
    and "sorted (time # map event_time evs)" and "\<forall>a \<in> set adm. snd a \<le> time"
    and "\<And>b u. int (length (window (u - d) u (times_of b adm))) \<le> n"
  shows "int (length (window (u - d) u (times_of b (adm @ window_run cfg adm evs)))) \<le> n"
  using assms(2-)
proof (induction evs arbitrary: time adm)
  case (Cons ev evs)
  show ?case
  proof (cases ev)
    case (Cleaning t)
    then show ?thesis using Cons.IH [of t adm] Cons.prems by force
  next
    case (Arrival a t)
    show ?thesis
    proof (cases "allows cfg adm a t")
      case True
      have old: "\<forall>s \<in> set (times_of b adm). s \<le> t" for b
        using Cons.prems(1,2) Arrival by (auto simp: times_of_def)
      have "int (length (window (u - d) u (times_of b (adm @ [(a, t)])))) \<le> n" for b u
        using window_limit [OF Cons.prems(3) old assms(1) [OF True], of u] Cons.prems(3) [of u b] by (cases "a = b") simp_all
      then show ?thesis
        using Cons.IH [of t "adm @ [(a, t)]"] Cons.prems Arrival True by force
    qed (use Cons.IH [of t adm] Cons.prems Arrival in force)
  qed
qed simp

text \<open>Requests of other addresses.\<close>

fun concerns :: "string \<Rightarrow> rate_event \<Rightarrow> bool" where
  "concerns ip (Hit addr seen t) = (client_ip addr = ip)"
| "concerns ip (Forget t) = True"

lemma allowed_hits_local: "m ip = m' ip \<Longrightarrow> allowed_hits b ip m evs = allowed_hits b ip m' (filter (concerns ip) evs)"
proof (induction evs arbitrary: m m')
  case (Cons ev evs)
  show ?case
  proof (cases ev)
    case (Forget t)
    then show ?thesis using Cons by (simp add: forget_visitors_def)
  next
    case (Hit addr seen t)
    show ?thesis
    proof (cases "client_ip addr = ip")
      case True
      then show ?thesis
        using Cons.prems Hit by (simp add: RateLimiter_def Let_def split_beta) (rule Cons.IH, simp)
    next
      case False
      then show ?thesis
        using Cons.prems Hit by (simp add: RateLimiter_def Let_def split_beta) (rule Cons.IH, simp)
    qed
  qed
qed simp

section \<open>Properties\<close>

text \<open>
  The velocity limiter is an exact sliding window. For requests and clean-ups in the order of their
  times, it lets pass just the requests that a count of all earlier passed requests of the business in the
  last hour and the last day would let pass; and no hour and no day, wherever it begins, has more of them
  than the limits.
\<close>

theorem velocity_exact:
  assumes "sorted (map event_time evs)"
  shows "passed cfg (\<lambda>_. None) evs = window_run cfg [] evs \<and>
    (0 < MaxPerHour cfg \<longrightarrow>
       int (length (window (t - hour) t (times_of b (passed cfg (\<lambda>_. None) evs)))) \<le> MaxPerHour cfg) \<and>
    (0 < MaxPerDay cfg \<longrightarrow>
       int (length (window (t - 24 * hour) t (times_of b (passed cfg (\<lambda>_. None) evs)))) \<le> MaxPerDay cfg)"
proof -
  have "sorted ((case evs of [] \<Rightarrow> 0 | e # _ \<Rightarrow> event_time e) # map event_time evs)"
    using assms by (cases evs) auto
  note sorted = this
  have passed: "passed cfg (\<lambda>_. None) evs = window_run cfg [] evs"
    by (rule passed_reference [OF window_inv_empty sorted])
  have none: "times_of b [] = []" for b by (simp add: times_of_def)
  show ?thesis
    using window_run_limit [where cfg = cfg and adm = "[]" and u = t and b = b, OF allows_since(1) sorted]
      window_run_limit [where cfg = cfg and adm = "[]" and u = t and b = b, OF allows_since(2) sorted]
    by (simp add: passed none window_def)
qed

text \<open>Two transfers an hour: the third within the hour is refused, one after it passes.\<close>

theorem velocity_exact_witness:
  "let cfg = \<lparr>MaxPerHour = 2, MaxPerDay = 50\<rparr>;
       evs = [Arrival 7 0, Arrival 7 1, Arrival 7 2, Arrival 8 3, Cleaning hour, Arrival 7 hour, Arrival 7 (2 * hour)]
   in passed cfg (\<lambda>_. None) evs = [(7, 0), (7, 1), (8, 3), (7, hour), (7, 2 * hour)]"
proof -
  let ?cfg = "\<lparr>MaxPerHour = 2, MaxPerDay = 50\<rparr>"
  let ?evs = "[Arrival 7 0, Arrival 7 1, Arrival 7 2, Arrival 8 3, Cleaning hour, Arrival 7 hour, Arrival 7 (2 * hour)]"
  have "passed ?cfg (\<lambda>_. None) ?evs = window_run ?cfg [] ?evs"
    using velocity_exact [of ?evs ?cfg 0 7] by (simp add: hour_def)
  then show ?thesis by (simp add: allows_def since_def times_of_def hour_def Let_def)
qed

text \<open>
  Addresses do not use up each other's rate. The answers to the requests of an address are the same when
  the requests of all other addresses are left out.
\<close>

theorem rates_independent: "allowed_hits b ip (\<lambda>_. None) evs = allowed_hits b ip (\<lambda>_. None) (filter (concerns ip) evs)"
  by (rule allowed_hits_local) simp

end
