(* ===== verification/Routes.thy ===== *)
theory Routes
  imports Middleware
begin

text \<open>
  The routes of the server (\<^verbatim>\<open>internal/api/router.go\<close>): every registration with its method, its
  path and the middleware in front of its handler, nested as in the code. Which route a URL selects is the
  business of the router library; the limits on rates, which have their own theory, are an argument here that says
  whether they let the request pass. Handlers are referred to by their names.
\<close>

section \<open>Registrations\<close>

datatype verb = GET | POST | PUT | PATCH | DELETE

datatype guard = Rate nat nat | Velocity int64 int64 | Authenticated | Role "UserRole list" | SuperAdmin

record route =
  rt_Method :: verb
  rt_Path :: string
  rt_Guards :: "guard list"
  rt_Handler :: string

definition handle :: "verb \<Rightarrow> string \<Rightarrow> string \<Rightarrow> route list" where
  "handle m p h = [\<lparr>rt_Method = m, rt_Path = p, rt_Guards = [], rt_Handler = h\<rparr>]"

definition Route :: "string \<Rightarrow> guard list \<Rightarrow> route list list \<Rightarrow> route list" where
  "Route p gs rs = map (\<lambda>r. r\<lparr>rt_Path := p @ rt_Path r, rt_Guards := gs @ rt_Guards r\<rparr>) (concat rs)"

abbreviation "Group \<equiv> Route []"

definition auth_routes :: "route list" where
  "auth_routes =
    Route ''/v1/auth'' [Rate 5 10]
     [
      handle POST ''/register'' ''authHandler.RegisterBusiness'',
      handle POST ''/login'' ''authHandler.Login'',
      handle POST ''/employee/login'' ''authHandler.EmployeeLogin'',
      handle POST ''/accept-invitation'' ''authHandler.AcceptInvitation'',
      handle POST ''/forgot-password'' ''authHandler.ForgotPassword'',
      handle POST ''/reset-password'' ''authHandler.ResetPassword'',
      handle POST ''/verify-email'' ''authHandler.VerifyEmail'']"

definition vfd_callback_routes :: "route list" where
  "vfd_callback_routes =
    Route ''/vfd/webhooks'' []
     [
      handle POST ''/inward-credit'' ''webhookHandler.HandleInwardCreditWebhook'',
      handle POST ''/initial-inward-credit'' ''webhookHandler.HandleInitialInwardCreditWebhook'',
      handle POST ''/retrigger'' ''webhookHandler.RetriggerWebhook'']"

definition korapay_routes :: "route list" where
  "korapay_routes =
    Route ''/korapay/webhooks'' []
     [
      handle POST ''/deposit'' ''walletHandler.HandleDepositWebhook'']"

definition paystack_routes :: "route list" where
  "paystack_routes =
    Route ''/paystack/webhooks'' []
     [
      handle POST ''/'' ''paystackWebhookHandler.HandleWebhook'',
      handle POST ''/billing'' ''billingWebhookHandler.HandleWebhook'']"

definition notification_routes :: "route list" where
  "notification_routes =
    Route ''/notifications'' []
     [
      handle GET ''/'' ''notifHandler.ListNotifications'',
      handle GET ''/unread-count'' ''notifHandler.GetUnreadCount'',
      handle PATCH ''/{id}/read'' ''notifHandler.MarkAsRead'',
      handle PATCH ''/read-all'' ''notifHandler.MarkAllAsRead'']"

definition verification_routes :: "route list" where
  "verification_routes =
    concat [
    handle GET ''/verify/bank-account'' ''verificationHandler.HandleVerifyBankAccount'',
    handle GET ''/verify/bvn'' ''verificationHandler.HandleVerifyBVN'',
    handle POST ''/auth/resend-verification'' ''authHandler.ResendVerification'']"

definition self_service_routes :: "route list" where
  "self_service_routes =
    Route ''/me'' []
     [
      handle GET ''/profile'' ''selfServiceHandler.GetProfile'',
      handle PATCH ''/bank-details'' ''selfServiceHandler.UpdateBankDetails'',
      handle GET ''/payslips'' ''selfServiceHandler.GetPayslips'']"

definition loan_routes :: "route list" where
  "loan_routes =
    Route ''/loans'' [Role [RoleAdmin, RoleOperator]]
     [
      handle POST ''/'' ''loanHandler.CreateLoan'',
      handle GET ''/'' ''loanHandler.ListLoans'',
      handle PATCH ''/{id}/cancel'' ''loanHandler.CancelLoan'']"

definition operation_routes :: "route list" where
  "operation_routes =
    Group [Role [RoleAdmin, RoleOperator]]
     [
      Route ''/employees'' []
         [
          handle POST ''/'' ''employeeHandler.CreateEmployee'',
          handle POST ''/import'' ''employeeHandler.ImportEmployees'',
          handle GET ''/import/template'' ''employeeHandler.DownloadImportTemplate'',
          handle GET ''/'' ''employeeHandler.ListEmployees'',
          handle GET ''/{employeeID}'' ''employeeHandler.GetEmployeeByID'',
          handle PUT ''/{employeeID}'' ''employeeHandler.UpdateEmployee'',
          handle PATCH ''/{employeeID}/deactivate'' ''employeeHandler.DeactivateEmployee'',
          handle POST ''/{employeeID}/create-login'' ''authHandler.CreateEmployeeLogin''],
      Route ''/cadres'' []
         [
          handle POST ''/'' ''cadreHandler.CreateCadre'',
          handle GET ''/'' ''cadreHandler.ListCadres'',
          handle GET ''/{cadreID}'' ''cadreHandler.GetCadreByID'',
          handle PUT ''/{cadreID}'' ''cadreHandler.UpdateCadre'',
          handle DELETE ''/{cadreID}'' ''cadreHandler.DeleteCadre'']]"

definition payroll_routes :: "route list" where
  "payroll_routes =
    Route ''/payroll-runs'' []
     [
      Group [Role [RoleAdmin, RoleOperator]]
         [
          handle POST ''/'' ''payrollHandler.CreatePayrollRun'',
          handle POST ''/{runID}/submit'' ''payrollHandler.SubmitForApproval'',
          handle POST ''/{runID}/process-now'' ''payrollHandler.ProcessPayrollRunInstantly'',
          handle PUT ''/{runID}/amend'' ''payrollHandler.AmendPayrollRun'',
          handle POST ''/{runID}/reverse'' ''payrollHandler.ReversePayrollRun''],
      Group [Role [RoleAdmin, RoleOperator, RoleApprover]]
         [
          handle GET ''/'' ''payrollHandler.ListPayrollRuns'',
          handle GET ''/{runID}'' ''payrollHandler.GetPayrollRunByID'',
          handle GET ''/{runID}/status'' ''payrollHandler.GetPayrollStatus''],
      Group [Role [RoleAdmin, RoleApprover]]
         [
          handle POST ''/{runID}/approve'' ''payrollHandler.ApprovePayrollRun'',
          handle POST ''/{runID}/reject'' ''payrollHandler.RejectPayrollRun''],
      Group [Role [RoleAdmin, RoleOperator]]
         [
          handle GET ''/{runID}/reports/paye'' ''reportHandler.HandlePAYEReport'',
          handle GET ''/{runID}/reports/pension'' ''reportHandler.HandlePensionSchedule'',
          handle GET ''/{runID}/reports/nhf'' ''reportHandler.HandleNHFSchedule'',
          handle GET ''/{runID}/reports/bank-schedule'' ''reportHandler.HandleBankSchedule'',
          handle GET ''/{runID}/reports/summary'' ''reportHandler.HandlePayrollSummary'',
          handle GET ''/{runID}/payslips'' ''reportHandler.HandleAllPayslips'',
          handle GET ''/{runID}/payslips/{employeeID}'' ''reportHandler.HandlePayslip'']]"

definition admin_routes :: "route list" where
  "admin_routes =
    Group [Role [RoleAdmin]]
     [
      Route ''/deduction-rules'' []
         [
          handle POST ''/'' ''deductionHandler.CreateDeductionRule'',
          handle GET ''/'' ''deductionHandler.ListDeductionRules'',
          handle PUT ''/{ruleID}'' ''deductionHandler.UpdateDeductionRule'',
          handle DELETE ''/{ruleID}'' ''deductionHandler.DeleteDeductionRule''],
      handle POST ''/auth/invite'' ''authHandler.InviteUser'',
      handle GET ''/audit-logs'' ''auditHandler.ListAuditLogs'',
      Route ''/business'' []
         [
          handle GET ''/settings'' ''businessHandler.GetSettings'',
          handle PATCH ''/settings'' ''businessHandler.UpdateSettings'',
          handle GET ''/provider-keys'' ''orgProviderSettingsHandler.HandleListOrgKeys'',
          handle PUT ''/provider-keys/{provider}/{key}'' ''orgProviderSettingsHandler.HandleSetOrgKey'',
          handle DELETE ''/provider-keys/{provider}/{key}'' ''orgProviderSettingsHandler.HandleDeleteOrgKey'']]"

definition vfd_webhook_routes :: "route list" where
  "vfd_webhook_routes =
    Route ''/vfd/webhooks'' []
     [
      handle GET ''/'' ''webhookHandler.ListWebhookNotifications'',
      handle GET ''/{id}'' ''webhookHandler.GetWebhookNotificationByID'',
      handle GET ''/account/{accountNumber}'' ''webhookHandler.GetWebhookNotificationsByAccountNumber'']"

definition vfd_transfer_routes :: "route list" where
  "vfd_transfer_routes =
    Route ''/vfd/transfers'' []
     [
      handle GET ''/account-enquiry'' ''transferHandler.HandleAccountEnquiry'',
      handle GET ''/beneficiary-enquiry'' ''transferHandler.HandleBeneficiaryEnquiry'',
      handle GET ''/banks'' ''transferHandler.HandleGetBankList'',
      handle POST ''/initiate'' ''transferHandler.HandleInitiateTransfer'',
      handle GET ''/'' ''transferHandler.HandleListTransfers'',
      handle GET ''/{id}'' ''transferHandler.HandleGetTransferByID'',
      handle GET ''/from-account'' ''transferHandler.HandleGetTransfersByFromAccount'',
      handle GET ''/to-account'' ''transferHandler.HandleGetTransfersByToAccount'']"

definition leave_routes :: "route list" where
  "leave_routes =
    Route ''/leave'' []
     [
      handle GET ''/types'' ''leaveHandler.HandleListLeaveTypes'',
      handle POST ''/types'' ''leaveHandler.HandleCreateLeaveType'',
      handle POST ''/requests'' ''leaveHandler.HandleSubmitRequest'',
      handle GET ''/requests'' ''leaveHandler.HandleListRequests'',
      handle POST ''/requests/{id}/approve'' ''leaveHandler.HandleApproveRequest'',
      handle POST ''/requests/{id}/reject'' ''leaveHandler.HandleRejectRequest'',
      handle GET ''/balances/{employeeID}'' ''leaveHandler.HandleGetBalances'']"

definition transfer_routes :: "route list" where
  "transfer_routes =
    Route ''/transfers'' []
     [
      Group [Velocity 10 50] [handle POST ''/'' ''newTransferHandler.HandleSingleTransfer''],
      Group [Velocity 5 20] [handle POST ''/batch'' ''newTransferHandler.HandleBatchTransfer''],
      handle GET ''/'' ''newTransferHandler.HandleListTransfers'',
      handle GET ''/{id}'' ''newTransferHandler.HandleGetTransfer'',
      handle POST ''/{id}/retry'' ''newTransferHandler.HandleRetryTransfer'']"

definition wallet_routes :: "route list" where
  "wallet_routes =
    Route ''/wallets'' []
     [
      handle POST ''/virtual-account'' ''walletHandler.HandleCreateVirtualAccount'',
      handle GET ''/'' ''walletHandler.HandleGetWallet'',
      handle GET ''/balance'' ''walletHandler.HandleGetBalance'',
      handle GET ''/transactions'' ''walletHandler.HandleGetTransactions'',
      handle POST ''/deposit'' ''walletHandler.HandleInitiateDeposit'',
      handle GET ''/ledger'' ''ledgerHandler.HandleGetEntries'',
      handle GET ''/reconcile'' ''ledgerHandler.HandleReconcile'',
      Route ''/account-holders'' []
         [
          handle POST ''/'' ''walletHandler.HandleCreateAccountHolder'',
          handle GET ''/{reference}/details'' ''walletHandler.HandleGetAccountHolderDetails'',
          handle PATCH ''/{reference}/update-kyc'' ''walletHandler.HandleUpdateAccountHolderKYC''],
      handle POST ''/files/generate-upload-url'' ''walletHandler.HandleGenerateFileUploadURL'',
      Group [Role [RoleAdmin]]
         [
          handle POST ''/sandbox/credit'' ''walletHandler.HandleSandboxCredit'']]"

definition billing_routes :: "route list" where
  "billing_routes =
    Route ''/v1/billing'' [Authenticated]
     [
      handle GET ''/plans'' ''billingHandler.GetPlans'',
      handle GET ''/subscription'' ''billingHandler.GetSubscription'',
      handle POST ''/subscribe'' ''billingHandler.Subscribe'',
      handle POST ''/cancel'' ''billingHandler.CancelSubscription'',
      handle GET ''/invoices'' ''billingHandler.ListInvoices'']"

definition platform_routes :: "route list" where
  "platform_routes =
    Route ''/platform'' [Authenticated, SuperAdmin]
     [
      handle GET ''/stats'' ''platformHandler.GetStats'',
      handle GET ''/organizations'' ''platformHandler.ListOrganizations'',
      handle POST ''/organizations/{id}/suspend'' ''platformHandler.SuspendOrganization'',
      handle POST ''/organizations/{id}/activate'' ''platformHandler.ActivateOrganization'',
      handle GET ''/settings'' ''platformSettingsHandler.HandleListSettings'',
      handle PUT ''/settings/{key}'' ''platformSettingsHandler.HandleSetSetting'',
      handle DELETE ''/settings/{key}'' ''platformSettingsHandler.HandleDeleteSetting'',
      handle GET ''/reconciliation/provider'' ''reconciliationHandler.HandleProviderReconciliation'']"

definition protected_routes :: "route list" where
  "protected_routes =
    Route ''/v1'' [Authenticated] [
      handle GET ''/dashboard'' ''dashboardHandler.GetSummary'',
      notification_routes, verification_routes, self_service_routes, loan_routes, operation_routes, payroll_routes,
      admin_routes, vfd_webhook_routes, vfd_transfer_routes, leave_routes, transfer_routes, wallet_routes]"

definition routes :: "route list" where
  "routes =
    Group [Rate 100 200] [
      handle GET ''/health'' ''healthHandler'',
      handle GET ''/health/live'' ''liveHandler'',
      auth_routes, vfd_callback_routes, korapay_routes, paystack_routes, protected_routes, billing_routes, platform_routes]"

section \<open>A request at a route\<close>

text \<open>The middleware in order; the handler gets the claims of the context.\<close>

fun pass_guards ::
  "(guard \<Rightarrow> bool) \<Rightarrow> auth_service \<Rightarrow> string \<Rightarrow> guard list \<Rightarrow> mw_claims option \<Rightarrow> world \<Rightarrow> ('a response + mw_claims option) \<times> world" where
  "pass_guards ok s h [] claims w = (Inr claims, w)"
| "pass_guards ok s h (g # gs) claims w =
     (case g of
        Authenticated \<Rightarrow>
          attempt (AuthMiddleware s h w)
            (\<lambda>e w. (Inl (RespondWithError e), w)) (\<lambda>c w. pass_guards ok s h gs (Some c) w)
      | Role rs \<Rightarrow> (case RoleMiddleware rs claims of
          Some e \<Rightarrow> (Inl (RespondWithError e), w) | None \<Rightarrow> pass_guards ok s h gs claims w)
      | SuperAdmin \<Rightarrow> (case SuperAdminMiddleware claims of
          Some e \<Rightarrow> (Inl (RespondWithError e), w) | None \<Rightarrow> pass_guards ok s h gs claims w)
      | _ \<Rightarrow> if ok g then pass_guards ok s h gs claims w else (Inl (Text 429 ''Too Many Requests''), w))"

text \<open>The readiness probe: what the database and, when it is configured, the cache answer to a ping.\<close>

record health =
  hr_Status :: string
  hr_Message :: string
  hr_Database :: "string \<times> string"
  hr_Redis :: "(string \<times> string) option"

definition component_health :: "string option \<Rightarrow> string \<times> string" where
  "component_health failure = (case failure of None \<Rightarrow> (''ok'', ''connected'') | Some e \<Rightarrow> (''unavailable'', e))"

definition healthHandler :: "string option \<Rightarrow> string option option \<Rightarrow> health response" where
  "healthHandler db redis =
     (let healthy = (fst (component_health db) = ''ok'')
      in Reply (if healthy then 200 else 503)
           \<lparr>hr_Status = (if healthy then ''healthy'' else ''unhealthy''),
            hr_Message = (if healthy then ''Server is running. All systems operational.''
                          else ''Server is running but some services are unreachable.''),
            hr_Database = component_health db, hr_Redis = map_option component_health redis\<rparr>)"

section \<open>Who gets where\<close>

definition endpoint :: "route \<Rightarrow> verb \<times> string" where
  "endpoint r = (rt_Method r, rt_Path r)"

definition public_endpoints :: "(verb \<times> string) list" where
  "public_endpoints =
     [(GET, ''/health''), (GET, ''/health/live''), (POST, ''/v1/auth/register''), (POST, ''/v1/auth/login''),
      (POST, ''/v1/auth/employee/login''), (POST, ''/v1/auth/accept-invitation''), (POST, ''/v1/auth/forgot-password''),
      (POST, ''/v1/auth/reset-password''), (POST, ''/v1/auth/verify-email''), (POST, ''/vfd/webhooks/inward-credit''),
      (POST, ''/vfd/webhooks/initial-inward-credit''), (POST, ''/vfd/webhooks/retrigger''), (POST, ''/korapay/webhooks/deposit''),
      (POST, ''/paystack/webhooks/''), (POST, ''/paystack/webhooks/billing'')]"

text \<open>The roles an endpoint is for, by what it does; nothing for an endpoint of all roles.\<close>

definition has_suffix :: "string \<Rightarrow> string \<Rightarrow> bool" where
  "has_suffix s x = has_prefix (rev s) (rev x)"

definition required_roles :: "string \<Rightarrow> UserRole list option" where
  "required_roles p =
     (if has_prefix p ''/platform/'' then Some [RoleSuperAdmin]
      else if list_ex (has_prefix p) [''/v1/business/'', ''/v1/deduction-rules/'', ''/v1/auth/invite'', ''/v1/audit-logs'', ''/v1/wallets/sandbox/'']
      then Some [RoleAdmin]
      else if list_ex (has_prefix p) [''/v1/employees/'', ''/v1/cadres/'', ''/v1/loans/''] then Some [RoleAdmin, RoleOperator]
      else if has_prefix p ''/v1/payroll-runs/''
      then (if list_ex (has_suffix p) [''/approve'', ''/reject''] then Some [RoleAdmin, RoleApprover]
            else if list_ex (has_suffix p) [''/submit'', ''/process-now'', ''/amend'', ''/reverse''] then Some [RoleAdmin, RoleOperator]
            else Some [RoleAdmin, RoleOperator, RoleApprover])
      else None)"

fun role_guard :: "UserRole list \<Rightarrow> guard \<Rightarrow> bool" where
  "role_guard rs (Role rs') = list_all (\<lambda>r. r \<in> set rs) rs'"
| "role_guard rs SuperAdmin = (rs = [RoleSuperAdmin])"
| "role_guard rs _ = False"

fun is_limit :: "guard \<Rightarrow> bool" where
  "is_limit (Rate _ _) = True"
| "is_limit (Velocity _ _) = True"
| "is_limit _ = False"

text \<open>What the table has to satisfy: a token before everything else, and a check of the roles after it.\<close>

definition well_guarded :: "route \<Rightarrow> bool" where
  "well_guarded r \<longleftrightarrow> endpoint r \<in> set public_endpoints \<or>
     (case dropWhile is_limit (rt_Guards r) of
        Authenticated # gs \<Rightarrow> Authenticated \<notin> set gs \<and>
          (case required_roles (rt_Path r) of None \<Rightarrow> True | Some rs \<Rightarrow> list_ex (role_guard rs) gs)
      | _ \<Rightarrow> False)"

lemma routes_well_guarded: "list_all well_guarded routes"
  by code_simp

lemma pass_guards_limits:
  "pass_guards ok s h gs claims w = (Inr cl :: 'a response + mw_claims option, w') \<Longrightarrow> pass_guards ok s h (dropWhile is_limit gs) claims w = (Inr cl :: 'a response + mw_claims option, w')"
  by (induction gs) (auto split: guard.splits if_splits)

text \<open>Behind the token the claims stay, and every check of roles has passed.\<close>

lemma pass_guards_roles:
  "pass_guards ok s h gs claims w = (Inr cl :: 'a response + mw_claims option, w') \<Longrightarrow> Authenticated \<notin> set gs \<Longrightarrow>
   cl = claims \<and> (list_ex (role_guard rs) gs \<longrightarrow> (\<exists>c. claims = Some c \<and> mc_Role c \<in> role_text ` set rs))"
proof (induction gs)
  case (Cons g gs)
  have rest: "pass_guards ok s h gs claims w = (Inr cl :: 'a response + mw_claims option, w')"
    using Cons.prems by (cases g) (auto split: option.splits if_splits)
  have "\<exists>c. claims = Some c \<and> mc_Role c \<in> role_text ` set rs" if "role_guard rs g"
    using Cons.prems that
    by (cases g; cases claims) (auto simp: RoleMiddleware_def SuperAdminMiddleware_def list_all_iff split: if_splits)
  then show ?case using Cons.IH [OF rest] Cons.prems by auto
qed simp

lemma guarded_route:
  assumes "well_guarded r" and "pass_guards ok s h (rt_Guards r) None w = (Inr cl :: 'a response + mw_claims option, w')"
  shows "endpoint r \<in> set public_endpoints \<or>
    (\<exists>c v. AuthMiddleware s h w = (Inr c, v) \<and> cl = Some c \<and>
       (case required_roles (rt_Path r) of None \<Rightarrow> True | Some rs \<Rightarrow> mc_Role c \<in> role_text ` set rs))"
proof (cases "endpoint r \<in> set public_endpoints")
  case False
  then obtain gs where gs: "dropWhile is_limit (rt_Guards r) = Authenticated # gs" "Authenticated \<notin> set gs"
      and rs: "case required_roles (rt_Path r) of None \<Rightarrow> True | Some rs \<Rightarrow> list_ex (role_guard rs) gs"
    using assms(1) by (auto simp: well_guarded_def split: list.splits guard.splits)
  have "pass_guards ok s h (Authenticated # gs) None w = (Inr cl :: 'a response + mw_claims option, w')"
    using pass_guards_limits [OF assms(2)] gs(1) by simp
  then obtain c v where "AuthMiddleware s h w = (Inr c, v)" "pass_guards ok s h gs (Some c) v = (Inr cl :: 'a response + mw_claims option, w')"
    by (cases "AuthMiddleware s h w"; cases "fst (AuthMiddleware s h w)") auto
  then show ?thesis
    using pass_guards_roles [OF _ gs(2)] rs by (fastforce split: option.splits)
qed simp

text \<open>Routes that only ask for a token.\<close>

definition unchecked_endpoints :: "(verb \<times> string) list" where
  "unchecked_endpoints =
     [(POST, ''/v1/transfers/''), (POST, ''/v1/transfers/batch''), (POST, ''/v1/transfers/{id}/retry''),
      (POST, ''/v1/vfd/transfers/initiate''), (POST, ''/v1/leave/requests/{id}/approve''), (POST, ''/v1/leave/requests/{id}/reject''),
      (POST, ''/v1/wallets/virtual-account''), (POST, ''/v1/billing/subscribe''), (POST, ''/v1/billing/cancel'')]"

definition token_only :: "guard list \<Rightarrow> bool" where
  "token_only gs \<longleftrightarrow> (case filter (\<lambda>g. \<not> is_limit g) gs of [Authenticated] \<Rightarrow> True | _ \<Rightarrow> False)"

lemma token_only_filter: "token_only gs \<Longrightarrow> filter (\<lambda>g. \<not> is_limit g) gs = [Authenticated]"
  unfolding token_only_def by (simp split: list.split_asm guard.split_asm)

lemma unchecked_table:
  "map endpoint (filter (\<lambda>r. endpoint r \<in> set unchecked_endpoints \<and> token_only (rt_Guards r)) routes) =
   [(POST, ''/v1/vfd/transfers/initiate''), (POST, ''/v1/leave/requests/{id}/approve''), (POST, ''/v1/leave/requests/{id}/reject''),
    (POST, ''/v1/transfers/''), (POST, ''/v1/transfers/batch''), (POST, ''/v1/transfers/{id}/retry''),
    (POST, ''/v1/wallets/virtual-account''), (POST, ''/v1/billing/subscribe''), (POST, ''/v1/billing/cancel'')]"
  by code_simp

lemma unchecked_route: "e \<in> set unchecked_endpoints \<Longrightarrow> \<exists>r \<in> set routes. endpoint r = e \<and> token_only (rt_Guards r)"
proof -
  assume "e \<in> set unchecked_endpoints"
  then have "e \<in> set (map endpoint (filter (\<lambda>r. endpoint r \<in> set unchecked_endpoints \<and> token_only (rt_Guards r)) routes))"
    unfolding unchecked_table by (auto simp: unchecked_endpoints_def)
  then show ?thesis by auto
qed

lemma pass_guards_open:
  "pass_guards (\<lambda>_. True) s h gs claims w =
   (pass_guards (\<lambda>_. True) s h (filter (\<lambda>g. \<not> is_limit g) gs) claims w :: ('a response + mw_claims option) \<times> world)"
proof (induction gs arbitrary: claims w)
  case (Cons g gs)
  have "pass_guards (\<lambda>_. True) s h gs =
      (pass_guards (\<lambda>_. True) s h (filter (\<lambda>g. \<not> is_limit g) gs) :: _ \<Rightarrow> _ \<Rightarrow> ('a response + mw_claims option) \<times> world)"
    by (intro ext Cons.IH)
  then show ?case by (cases g) (simp_all split: option.split)
qed simp

section \<open>Properties\<close>


text \<open>A super administrator at the statistics, an employee at the batch transfers.\<close>

definition token_for :: "string \<Rightarrow> auth_service" where
  "token_for role = \<lparr>as_hash = (\<lambda>_ p. Inr p), as_check = (=), as_sign = (\<lambda>_ _. Inr []),
     as_parse = (\<lambda>t _ _. if t = ''x'' then Inr \<lparr>jc_UserID = ''5'', jc_BusinessID = ''2'', jc_Role = role, jc_EmployeeID = ''4'',
        jc_ExpiresAt = 9, jc_IssuedAt = 1\<rparr> else Inl (Plain ''token'')),
     as_Secret = ''secret'', as_Expiry = 1, as_EmployeeRepo = True\<rparr>"

definition token_claims :: "string \<Rightarrow> mw_claims" where
  "token_claims role = \<lparr>mc_UserID = 5, mc_BusinessID = 2, mc_Role = role, mc_EmployeeID = 4\<rparr>"

lemma token_accepted:
  "AuthMiddleware (token_for role) ''Bearer x'' w = (Inr (token_claims role), w\<lparr>tick := Suc (tick w)\<rparr>)"
  by (simp add: AuthMiddleware_def ValidateToken_def token_for_def token_claims_def now_def has_prefix_def parse_uint32_def
      digits_value_def digit_val_def is_digit_def Let_def)


text \<open>
  Every login can move money. The routes that order transfers, also those for batches, for retries and for VFD,
  the approval of leave and the subscription ask for a token and for no role: with the limits on rates
  passed, a request with any valid token, also one of an employee's self-service login, reaches their
  handlers with the claims of its business.
\<close>

theorem money_routes_unchecked:
  assumes "AuthMiddleware s h w = (Inr c, v)" and "e \<in> set unchecked_endpoints"
  shows "\<exists>r \<in> set routes. endpoint r = e \<and>
    pass_guards (\<lambda>_. True) s h (rt_Guards r) None w = (Inr (Some c) :: 'a response + mw_claims option, v)"
proof -
  obtain r where "r \<in> set routes" "endpoint r = e" "filter (\<lambda>g. \<not> is_limit g) (rt_Guards r) = [Authenticated]"
    using unchecked_route [OF assms(2)] token_only_filter by blast
  then show ?thesis
    using assms(1) by (intro bexI [of _ r]) (simp_all add: pass_guards_open [of s h "rt_Guards r"])
qed

theorem money_routes_unchecked_witness:
  "\<forall>w. \<exists>r. endpoint r = (POST, ''/v1/transfers/batch'') \<and>
     fst (pass_guards (\<lambda>_. True) (token_for ''employee'') ''Bearer x'' (rt_Guards r) None w :: (unit response + mw_claims option) \<times> world) =
       Inr (Some (token_claims ''employee''))"
proof
  fix w :: world
  have "\<exists>r \<in> set routes. endpoint r = (POST, ''/v1/transfers/batch'') \<and>
    pass_guards (\<lambda>_. True) (token_for ''employee'') ''Bearer x'' (rt_Guards r) None w =
      (Inr (Some (token_claims ''employee'')) :: unit response + mw_claims option, w\<lparr>tick := Suc (tick w)\<rparr>)"
    by (rule money_routes_unchecked [OF token_accepted]) (simp add: unchecked_endpoints_def)
  then show "\<exists>r. endpoint r = (POST, ''/v1/transfers/batch'') \<and>
     fst (pass_guards (\<lambda>_. True) (token_for ''employee'') ''Bearer x'' (rt_Guards r) None w :: (unit response + mw_claims option) \<times> world) =
       Inr (Some (token_claims ''employee''))"
    by (metis fst_conv)
qed

end
