(* ===== verification/Timestamps.thy ===== *)
theory Timestamps
  imports Calendar Json
begin

text \<open>
  Timestamps in requests: \<^verbatim>\<open>time.Time\<close> reads RFC 3339
  (\<^verbatim>\<open>parseRFC3339\<close> of Go's package \<^verbatim>\<open>time\<close>): date and time of day in fixed
  columns, a fraction of which nine digits count, and \<^verbatim>\<open>Z\<close> or an offset.
\<close>

section \<open>Columns\<close>

definition number_in :: "nat \<Rightarrow> nat \<Rightarrow> string \<Rightarrow> nat option" where
  "number_in lo hi s =
     (if s \<noteq> [] \<and> list_all is_digit s \<and> lo \<le> digits_value s \<and> digits_value s \<le> hi then Some (digits_value s) else None)"

definition column_of :: "nat \<Rightarrow> nat \<Rightarrow> string \<Rightarrow> string" where
  "column_of i n s = take n (drop i s)"

definition leap_year :: "int \<Rightarrow> bool" where
  "leap_year y \<longleftrightarrow> 4 dvd y \<and> (\<not> 100 dvd y \<or> 400 dvd y)"

definition month_days :: "int \<Rightarrow> nat \<Rightarrow> nat" where
  "month_days y m = (if m = 2 then (if leap_year y then 29 else 28) else if m \<in> {4, 6, 9, 11} then 30 else 31)"

text \<open>Nanoseconds of a fraction, and the rest of the text.\<close>

definition fraction :: "string \<Rightarrow> int \<times> string" where
  "fraction s =
     (case s of c # r \<Rightarrow>
        if c = CHR ''.'' \<and> r \<noteq> [] \<and> is_digit (hd r)
        then (let ds = take 9 (takeWhile is_digit r)
              in (int (digits_value ds) * 10 ^ (9 - length ds), dropWhile is_digit r))
        else (0, s)
      | [] \<Rightarrow> (0, s))"

text \<open>The offset in seconds.\<close>

definition zone :: "string \<Rightarrow> int option" where
  "zone s =
     (if s = ''Z'' then Some 0
      else if length s = 6 \<and> s ! 3 = CHR '':'' \<and> (hd s = CHR ''+'' \<or> hd s = CHR ''-'')
      then (case (number_in 0 23 (column_of 1 2 s), number_in 0 59 (column_of 4 2 s)) of
              (Some h, Some m) \<Rightarrow> Some ((if hd s = CHR ''-'' then - 1 else 1) * int (h * 3600 + m * 60))
            | _ \<Rightarrow> None)
      else None)"

definition parse_time :: "string \<Rightarrow> zoned option" where
  "parse_time s =
     (if length s < 19 \<or> s ! 4 \<noteq> CHR ''-'' \<or> s ! 7 \<noteq> CHR ''-'' \<or> s ! 10 \<noteq> CHR ''T'' \<or> s ! 13 \<noteq> CHR '':'' \<or> s ! 16 \<noteq> CHR '':'' then None
      else (case (number_in 0 9999 (column_of 0 4 s), number_in 1 12 (column_of 5 2 s), number_in 0 23 (column_of 11 2 s),
                  number_in 0 59 (column_of 14 2 s), number_in 0 59 (column_of 17 2 s)) of
         (Some y, Some m, Some h, Some mi, Some sec) \<Rightarrow>
           (case number_in 1 (month_days (int y) m) (column_of 8 2 s) of None \<Rightarrow> None
            | Some d \<Rightarrow>
                (let (ns, rest) = fraction (drop 19 s)
                 in case zone rest of None \<Rightarrow> None
                    | Some z \<Rightarrow> Some (days_of_civil (int y) (int m) (int d) * day_length +
                         (int (h * 3600 + mi * 60 + sec) - z) * 1000000000 + ns, z)))
       | _ \<Rightarrow> None))"

text \<open>The zero time is 1 January of year 1, UTC.\<close>

definition zero_time :: zoned where
  "zero_time = (days_of_civil 1 1 1 * day_length, 0)"

definition to_time :: "json \<Rightarrow> zoned option" where
  "to_time v = (case v of JString s \<Rightarrow> parse_time s | _ \<Rightarrow> None)"

abbreviation "time_field \<equiv> field to_time zero_time"

text \<open>An offset is less than a day.\<close>

lemma zone_bound: "zone s = Some z \<Longrightarrow> \<bar>z\<bar> < 24 * 3600"
  unfolding zone_def number_in_def
  by (auto simp: abs_if split: if_splits option.splits)

end
