(* ===== verification/Webhooks.thy ===== *)
theory Webhooks
  imports Timestamps Routes Cadres Transfer_Service
begin

text \<open>
  Webhooks of the payment providers: \<^verbatim>\<open>wallet_webhook_handler.go\<close> (Korapay's deposits),
  \<^verbatim>\<open>paystack_webhook_handler.go\<close>, \<^verbatim>\<open>billing_webhook_handler.go\<close> and
  \<^verbatim>\<open>vfd_webhook_handler.go\<close> with the service behind it. The keyed hash is a parameter: a
  function of the key and of the text that gives its digest in hexadecimal digits. A body that cannot
  be read is \<open>None\<close>.
\<close>

section \<open>Signatures\<close>

type_synonym mac = "string \<Rightarrow> string \<Rightarrow> string"

text \<open>Members of \<^verbatim>\<open>map[string]interface{}\<close>, with the assertion to a type.\<close>

definition text_of :: "string \<Rightarrow> (string \<times> json) list \<Rightarrow> string" where
  "text_of k ms = case_option [] id (as_string (member k ms))"

definition object_of :: "string \<Rightarrow> (string \<times> json) list \<Rightarrow> (string \<times> json) list option" where
  "object_of k ms = as_object (member k ms)"

text \<open>The event and the data of a payload; data may be nil.\<close>

definition webhook_payload :: "string \<Rightarrow> (string \<times> (string \<times> json) list option) option" where
  "webhook_payload body =
     (case unmarshal body of None \<Rightarrow> None
      | Some j \<Rightarrow> (case object_members j of None \<Rightarrow> None
        | Some ms \<Rightarrow> (case (string_field ''event'' ms, map_field ''data'' ms) of
            (Some e, Some d) \<Rightarrow> Some (e, d) | _ \<Rightarrow> None)))"

section \<open>Korapay (wallet_webhook_handler.go)\<close>

text \<open>The signature covers the text of \<open>data\<close>.\<close>

definition verifyWebhookSignature :: "mac \<Rightarrow> string \<Rightarrow> string \<Rightarrow> string \<Rightarrow> bool" where
  "verifyWebhookSignature mac key body signature \<longleftrightarrow>
     (case unmarshal body of None \<Rightarrow> False
      | Some j \<Rightarrow> object_members j \<noteq> None \<and> signature = mac key (raw_field ''data'' body))"

definition naira_amount :: "json option \<Rightarrow> int64" where
  "naira_amount v =
     (let f = (case as_float v of Some f \<Rightarrow> f
         | None \<Rightarrow> (case as_string v of None \<Rightarrow> Fin 0 | Some s \<Rightarrow> (case parse_float s of None \<Rightarrow> Fin 0 | Some f \<Rightarrow> f)))
      in int64_of_round (fmul f (Fin 100)))"

definition or_default :: "string \<Rightarrow> string \<Rightarrow> string" where
  "or_default s d = (if s = [] then d else s)"

text \<open>The clock is read for the time of processing, which a deposit's record does not keep.\<close>

definition parseKorapayDepositNotification ::
  "(string \<times> json) list \<Rightarrow> string \<Rightarrow> world \<Rightarrow> deposit_notification option \<times> world" where
  "parseKorapayDepositNotification data accountRef w =
     (if text_of ''reference'' data = [] then (None, w)
      else (let (_, w) = now w
            in (Some \<lparr>dn_Reference = text_of ''reference'' data, dn_AccountReference = accountRef,
                      dn_Amount = naira_amount (member ''amount'' data),
                      dn_Currency = or_default (text_of ''currency'' data) ''NGN'',
                      dn_Status = or_default (text_of ''status'' data) ''success'',
                      dn_Description = text_of ''narration'' data\<rparr>, w)))"

definition account_reference :: "(string \<times> json) list \<Rightarrow> string" where
  "account_reference data =
     (case Option.bind (object_of ''virtual_bank_account_details'' data) (object_of ''virtual_bank_account'') of
        None \<Rightarrow> [] | Some vba \<Rightarrow> text_of ''account_reference'' vba)"

definition HandleDepositWebhook ::
  "mac \<Rightarrow> string \<Rightarrow> string option \<Rightarrow> string \<Rightarrow> world \<Rightarrow> string response \<times> world" where
  "HandleDepositWebhook mac key body signature w =
     (case body of None \<Rightarrow> (Text 400 ''Bad Request'', w)
      | Some body \<Rightarrow>
          if signature = [] \<or> \<not> verifyWebhookSignature mac key body signature then (Text 401 ''Unauthorized'', w)
          else (case webhook_payload body of None \<Rightarrow> (Text 400 ''Bad Request'', w)
            | Some (event, data) \<Rightarrow>
                if event \<noteq> ''charge.success'' \<and> event \<noteq> [] then (Reply 200 ''acknowledged'', w)
                else (case data of None \<Rightarrow> (Text 400 ''Bad Request'', w)
                  | Some data \<Rightarrow>
                      if account_reference data = [] then (Text 400 ''Bad Request'', w)
                      else (case parseKorapayDepositNotification data (account_reference data) w of
                          (None, w) \<Rightarrow> (Text 400 ''Bad Request'', w)
                        | (Some n, w) \<Rightarrow>
                            (let (_, w) = RecordDepositByAccountReference (account_reference data) n w
                             in (Reply 200 ''success'', w))))))"

section \<open>Paystack (paystack_webhook_handler.go)\<close>

definition transfer_FindByReference :: "string \<Rightarrow> world \<Rightarrow> transfer res \<times> world" where
  "transfer_FindByReference ref = statement (\<lambda>w.
     (case find (\<lambda>t. t_Reference t = ref) (transfers w) of
        None \<Rightarrow> (Inl (Sentinel ErrNotFound), w) | Some t \<Rightarrow> (Inr t, w)))"

text \<open>
  \<^verbatim>\<open>uint(x)\<close> of a float, as it is compiled for amd64; the decoder gives floats for all
  numbers.
\<close>

fun uint_of_float :: "float64 \<Rightarrow> nat" where
  "uint_of_float (Fin x) =
     (let t = trunc_rat x in if - (2 ^ 63) \<le> t \<and> t < 2 ^ 64 then nat (t mod 2 ^ 64) else 2 ^ 63)"
| "uint_of_float _ = 2 ^ 63"

definition paystack_business :: "(string \<times> json) list \<Rightarrow> nat" where
  "paystack_business data =
     (case object_of ''metadata'' data of None \<Rightarrow> 0
      | Some m \<Rightarrow> (case as_float (member ''business_id'' m) of None \<Rightarrow> 0 | Some f \<Rightarrow> uint_of_float f))"

definition paystack_account :: "(string \<times> json) list \<Rightarrow> string" where
  "paystack_account data =
     (let ref = (case object_of ''metadata'' data of None \<Rightarrow> [] | Some m \<Rightarrow> text_of ''account_reference'' m)
      in if ref \<noteq> [] then ref
         else (case object_of ''dedicated_account'' data of None \<Rightarrow> [] | Some a \<Rightarrow> text_of ''account_number'' a))"

definition paystack_amount :: "(string \<times> json) list \<Rightarrow> int64" where
  "paystack_amount data = (case as_float (member ''amount'' data) of None \<Rightarrow> 0 | Some f \<Rightarrow> int64_of_float f)"

definition paystack_notification :: "(string \<times> json) list \<Rightarrow> deposit_notification" where
  "paystack_notification data =
     \<lparr>dn_Reference = text_of ''reference'' data, dn_AccountReference = [], dn_Amount = paystack_amount data,
      dn_Currency = or_default (text_of ''currency'' data) ''NGN'', dn_Status = ''completed'',
      dn_Description = ''Paystack deposit: '' @ text_of ''reference'' data\<rparr>"

text \<open>Whether the wallet service is there is the first argument.\<close>

definition handleChargeSuccess :: "bool \<Rightarrow> (string \<times> json) list \<Rightarrow> world \<Rightarrow> world" where
  "handleChargeSuccess configured data w =
     (if \<not> configured \<or> text_of ''reference'' data = [] \<or> paystack_amount data \<le> 0 then w
      else (let (_, w) = now w; n = paystack_notification data
            in if 0 < paystack_business data then snd (RecordDeposit (paystack_business data) n w)
               else if paystack_account data = [] then w
               else snd (RecordDepositByAccountReference (paystack_account data) n w)))"

definition with_status :: "string \<Rightarrow> (string \<times> json) list \<Rightarrow> transfer \<Rightarrow> transfer" where
  "with_status st data t =
     t\<lparr>t_Status := st, t_ProviderStatus := st,
       t_ProviderMessage := (case as_string (member ''reason'' data) of None \<Rightarrow> t_ProviderMessage t | Some m \<Rightarrow> m),
       t_TransactionID := (case as_string (member ''transfer_code'' data) of None \<Rightarrow> t_TransactionID t | Some c \<Rightarrow> c)\<rparr>"

definition handleTransferStatus :: "(string \<times> json) list \<Rightarrow> string \<Rightarrow> world \<Rightarrow> world" where
  "handleTransferStatus data st w =
     (let reference = text_of ''reference'' data
      in if reference = [] then w
         else attempt (transfer_FindByReference reference w)
           (\<lambda>_ w. w) (\<lambda>t w. snd (transfer_Update (with_status st data t) w)))"

definition paystack_event :: "bool \<Rightarrow> string \<Rightarrow> (string \<times> json) list \<Rightarrow> world \<Rightarrow> world" where
  "paystack_event configured event data w =
     (if event = ''transfer.success'' then handleTransferStatus data ''success'' w
      else if event = ''transfer.failed'' then handleTransferStatus data ''failed'' w
      else if event = ''transfer.reversed'' then handleTransferStatus data ''reversed'' w
      else if event = ''charge.success'' then handleChargeSuccess configured data w
      else w)"

definition HandlePaystackWebhook ::
  "mac \<Rightarrow> string \<Rightarrow> bool \<Rightarrow> string option \<Rightarrow> string \<Rightarrow> world \<Rightarrow> string response \<times> world" where
  "HandlePaystackWebhook mac key configured body signature w =
     (case body of None \<Rightarrow> (Text 400 ''Bad Request'', w)
      | Some body \<Rightarrow>
          if signature = [] \<or> signature \<noteq> mac key body then (Text 401 ''Unauthorized'', w)
          else (case webhook_payload body of None \<Rightarrow> (Text 400 ''Bad Request'', w)
            | Some (event, data) \<Rightarrow>
                (Reply 200 ''success'', paystack_event configured event (case_option [] id data) w)))"

section \<open>Billing (billing_webhook_handler.go)\<close>

text \<open>The handlers of the events read the data for the log and change nothing.\<close>

definition HandleBillingWebhook ::
  "mac \<Rightarrow> string \<Rightarrow> string option \<Rightarrow> string \<Rightarrow> world \<Rightarrow> string response \<times> world" where
  "HandleBillingWebhook mac key body signature w =
     (case body of None \<Rightarrow> (RespondWithError (Sentinel ErrValidationFailed), w)
      | Some body \<Rightarrow>
          if signature = [] \<or> signature \<noteq> mac key body then (Text 401 [], w)
          else (case webhook_payload body of None \<Rightarrow> (RespondWithError (Sentinel ErrValidationFailed), w)
            | Some _ \<Rightarrow> (Reply 200 [], w)))"

section \<open>VFD (vfd_webhook_handler.go, vfd_webhook_service.go)\<close>

definition findBusinessByAccountNumber :: "string \<Rightarrow> business res" where
  "findBusinessByAccountNumber accountNumber =
     Inl (Plain ''business lookup by account number not implemented - needs business-specific logic'')"

text \<open>
  The transaction of the \<^verbatim>\<open>Transactioner\<close> is its own type and never a
  \<^verbatim>\<open>*gorm.DB\<close>, so a business that was found would not help either: the branch behind the
  test of the type is never taken. Roll back is all that happens to the transaction.
\<close>

definition process_credit :: "vfd_notification \<Rightarrow> world \<Rightarrow> unit res \<times> world" where
  "process_credit n w =
     (let (_, w) = fault w
      in case findBusinessByAccountNumber (vn_AccountNumber n) of
           Inl e \<Rightarrow> (Inl (Wrap (''failed to find business for account '' @ vn_AccountNumber n @ '': '') e []), w)
         | Inr b \<Rightarrow> (Inl (Plain ''invalid transaction type''), w))"

definition ProcessInwardCreditWebhook :: "vfd_notification \<Rightarrow> world \<Rightarrow> unit res \<times> world" where
  "ProcessInwardCreditWebhook n = process_credit n"

definition ProcessInitialInwardCreditWebhook :: "vfd_notification \<Rightarrow> world \<Rightarrow> unit res \<times> world" where
  "ProcessInitialInwardCreditWebhook n = process_credit (n\<lparr>vn_InitialCreditRequest := True\<rparr>)"

text \<open>The requests (vfd_webhook_request.go), with the rules of the validator.\<close>

definition InwardCreditRequest :: "(string \<times> json) list \<Rightarrow> vfd_notification option" where
  "InwardCreditRequest ms =
     (case (string_field ''reference'' ms, string_field ''amount'' ms, string_field ''account_number'' ms,
            string_field ''originator_account_number'' ms, string_field ''originator_account_name'' ms,
            string_field ''originator_bank'' ms, string_field ''originator_narration'' ms, time_field ''timestamp'' ms) of
        (Some r, Some a, Some an, Some oa, Some on, Some ob, Some nar, Some t) \<Rightarrow>
          (case string_field ''session_id'' ms of
             Some sid \<Rightarrow>
               if [] \<in> set [r, a, an, oa, on, ob, sid] \<or> t = zero_time then None
               else Some \<lparr>vn_ID = 0, vn_BusinessID = 0, vn_Reference = r, vn_Amount = a, vn_AccountNumber = an,
                 vn_OriginatorAccountNumber = oa, vn_OriginatorAccountName = on, vn_OriginatorBank = ob,
                 vn_OriginatorNarration = nar, vn_Timestamp = t, vn_TransactionChannel = [], vn_SessionID = sid,
                 vn_InitialCreditRequest = False, vn_Status = [], vn_ProcessedAt = None, vn_ProcessingError = None\<rparr>
           | None \<Rightarrow> None)
      | _ \<Rightarrow> None)"

definition VFDInwardCreditWebhookRequest :: "(string \<times> json) list \<Rightarrow> vfd_notification option" where
  "VFDInwardCreditWebhookRequest ms =
     (case (InwardCreditRequest ms, string_field ''transaction_channel'' ms) of
        (Some n, Some c) \<Rightarrow> if c = [] then None else Some (n\<lparr>vn_TransactionChannel := c\<rparr>) | _ \<Rightarrow> None)"

definition VFDInitialInwardCreditWebhookRequest :: "(string \<times> json) list \<Rightarrow> vfd_notification option" where
  "VFDInitialInwardCreditWebhookRequest ms =
     (case (InwardCreditRequest ms, bool_field ''initialCreditRequest'' ms) of
        (Some n, Some b) \<Rightarrow> Some (n\<lparr>vn_InitialCreditRequest := b\<rparr>) | _ \<Rightarrow> None)"

definition unmarshal_body :: "((string \<times> json) list \<Rightarrow> 'r option) \<Rightarrow> string \<Rightarrow> 'r option" where
  "unmarshal_body f body = Option.bind (Option.bind (unmarshal body) object_members) f"

text \<open>Without a secret every body is accepted.\<close>

definition vfd_signed :: "mac \<Rightarrow> string \<Rightarrow> string \<Rightarrow> string \<Rightarrow> bool" where
  "vfd_signed mac secret body signature \<longleftrightarrow> secret = [] \<or> (signature \<noteq> [] \<and> signature = mac secret body)"

definition vfd_webhook ::
  "((string \<times> json) list \<Rightarrow> vfd_notification option) \<Rightarrow> (vfd_notification \<Rightarrow> world \<Rightarrow> unit res \<times> world) \<Rightarrow>
   mac \<Rightarrow> string \<Rightarrow> string option \<Rightarrow> string \<Rightarrow> world \<Rightarrow> string response \<times> world" where
  "vfd_webhook read process mac secret body signature w =
     (case body of None \<Rightarrow> (Text 400 ''Bad Request'', w)
      | Some body \<Rightarrow>
          if \<not> vfd_signed mac secret body signature then (Text 401 ''Unauthorized'', w)
          else with_body (unmarshal_body read body) (\<lambda>n w. respond (process n w) (\<lambda>_. Reply 200 ''success'')) w)"

definition HandleInwardCreditWebhook :: "mac \<Rightarrow> string \<Rightarrow> string option \<Rightarrow> string \<Rightarrow> world \<Rightarrow> string response \<times> world" where
  "HandleInwardCreditWebhook = vfd_webhook VFDInwardCreditWebhookRequest ProcessInwardCreditWebhook"

definition HandleInitialInwardCreditWebhook :: "mac \<Rightarrow> string \<Rightarrow> string option \<Rightarrow> string \<Rightarrow> world \<Rightarrow> string response \<times> world" where
  "HandleInitialInwardCreditWebhook = vfd_webhook VFDInitialInwardCreditWebhookRequest ProcessInitialInwardCreditWebhook"

text \<open>VFD's interface answers a request for a repetition with a status and a message.\<close>

record retrigger_request =
  rq_TransactionID :: string
  rq_SessionID :: string
  rq_PushIdentifier :: string

type_synonym retriggerer = "retrigger_request \<Rightarrow> nat \<Rightarrow> (string \<times> string) res"

definition VFDRetriggerWebhookRequest :: "(string \<times> json) list \<Rightarrow> retrigger_request option" where
  "VFDRetriggerWebhookRequest ms =
     (case (string_field ''transactionId'' ms, string_field ''sessionId'' ms, string_field ''pushIdentifier'' ms) of
        (Some t, Some s, Some p) \<Rightarrow>
          if (t = [] \<and> s = []) \<or> p \<notin> {''transactionId'', ''sessionId''} then None
          else Some \<lparr>rq_TransactionID = t, rq_SessionID = s, rq_PushIdentifier = p\<rparr>
      | _ \<Rightarrow> None)"

definition RetriggerWebhookNotification :: "retriggerer \<Rightarrow> retrigger_request \<Rightarrow> world \<Rightarrow> (string \<times> string) res" where
  "RetriggerWebhookNotification vfd r w =
     (case vfd r (tick w) of Inl e \<Rightarrow> Inl (Wrap ''failed to retrigger webhook via VFD API: '' e []) | Inr x \<Rightarrow> Inr x)"

definition RetriggerWebhook :: "retriggerer \<Rightarrow> string \<Rightarrow> world \<Rightarrow> (string \<times> string) response \<times> world" where
  "RetriggerWebhook vfd body =
     with_body (decode_body VFDRetriggerWebhookRequest body) (\<lambda>r w.
       respond (RetriggerWebhookNotification vfd r w, w) (RespondWithJSON 200))"

text \<open>The stored notifications (vfd_webhook_repo.go), newest first: the count, then
  the page. The product that gives the offset may wrap, and an offset below zero is left out.\<close>

definition paged :: "(world \<Rightarrow> 'a list) \<Rightarrow> nat \<Rightarrow> nat \<Rightarrow> world \<Rightarrow> ('a list \<times> nat) res \<times> world" where
  "paged rows page limit w =
     attempt (statement (\<lambda>w. (Inr (length (rows w)), w)) w)
       (\<lambda>e w. (Inl e, w))
       (\<lambda>n w. statement (\<lambda>w. (Inr (take limit (drop (nat (mul64 (int page - 1) (int limit))) (rev (rows w))), n), w)) w)"

definition notification_FindByID :: "nat \<Rightarrow> world \<Rightarrow> vfd_notification res \<times> world" where
  "notification_FindByID i = statement (\<lambda>w.
     (case find (\<lambda>n. vn_ID n = i) (vfd_notifications w) of None \<Rightarrow> (Inl (Sentinel ErrNotFound), w) | Some n \<Rightarrow> (Inr n, w)))"

definition notification_FindByBusinessID :: "nat \<Rightarrow> nat \<Rightarrow> nat \<Rightarrow> world \<Rightarrow> (vfd_notification list \<times> nat) res \<times> world" where
  "notification_FindByBusinessID bid = paged (\<lambda>w. filter (\<lambda>n. vn_BusinessID n = bid) (vfd_notifications w))"

definition notification_FindByAccountNumber :: "string \<Rightarrow> nat \<Rightarrow> nat \<Rightarrow> world \<Rightarrow> (vfd_notification list \<times> nat) res \<times> world" where
  "notification_FindByAccountNumber account = paged (\<lambda>w. filter (\<lambda>n. vn_AccountNumber n = account) (vfd_notifications w))"

definition page_bounds :: "int64 \<Rightarrow> int64 \<Rightarrow> nat \<times> nat" where
  "page_bounds page limit = (nat (if page < 1 then 1 else page), nat (if limit < 1 \<or> 100 < limit then 20 else limit))"

definition ListWebhookNotifications :: "nat \<Rightarrow> int64 \<Rightarrow> int64 \<Rightarrow> world \<Rightarrow> (vfd_notification list \<times> nat) res \<times> world" where
  "ListWebhookNotifications bid page limit w =
     (let (p, l) = page_bounds page limit
      in attempt (notification_FindByBusinessID bid p l w)
           (\<lambda>e w. (Inl (Wrap ''failed to list webhook notifications: '' e []), w)) (\<lambda>r w. (Inr r, w)))"

definition GetWebhookNotificationByID :: "nat \<Rightarrow> world \<Rightarrow> vfd_notification res \<times> world" where
  "GetWebhookNotificationByID i w =
     attempt (notification_FindByID i w)
       (\<lambda>e w. (Inl (Wrap ''failed to get webhook notification: '' e []), w)) (\<lambda>n w. (Inr n, w))"

definition GetWebhookNotificationsByAccountNumber ::
  "string \<Rightarrow> int64 \<Rightarrow> int64 \<Rightarrow> world \<Rightarrow> (vfd_notification list \<times> nat) res \<times> world" where
  "GetWebhookNotificationsByAccountNumber account page limit w =
     (let (p, l) = page_bounds page limit
      in attempt (notification_FindByAccountNumber account p l w)
           (\<lambda>e w. (Inl (Wrap ''failed to get webhook notifications by account number: '' e []), w)) (\<lambda>r w. (Inr r, w)))"

text \<open>Parameters of a list: 1 and 20 unless they are numbers in range.\<close>

definition page_params :: "string \<Rightarrow> string \<Rightarrow> int64 \<times> int64" where
  "page_params page limit =
     ((case parse_int page of Some p \<Rightarrow> if in64 p \<and> 0 < p then p else 1 | None \<Rightarrow> 1),
      (case parse_int limit of Some l \<Rightarrow> if 0 < l \<and> l \<le> 100 then l else 20 | None \<Rightarrow> 20))"

record 'a listing =
  li_Items :: "'a list"
  li_Total :: nat
  li_Page :: int64
  li_Limit :: int64

definition listing_response :: "int64 \<Rightarrow> int64 \<Rightarrow> 'a list \<times> nat \<Rightarrow> 'a listing response" where
  "listing_response page limit r = RespondWithJSON 200 \<lparr>li_Items = fst r, li_Total = snd r, li_Page = page, li_Limit = limit\<rparr>"

definition HandleListNotifications ::
  "string \<Rightarrow> string \<Rightarrow> mw_claims option \<Rightarrow> world \<Rightarrow> vfd_notification listing response \<times> world" where
  "HandleListNotifications page limit claims =
     with_claims ErrUnauthorized claims (\<lambda>c w.
       (let (p, l) = page_params page limit
        in respond (ListWebhookNotifications (mc_BusinessID c) p l w) (listing_response p l)))"

definition HandleGetNotification :: "string \<Rightarrow> world \<Rightarrow> vfd_notification response \<times> world" where
  "HandleGetNotification i = with_id i (\<lambda>i w. respond (GetWebhookNotificationByID i w) (RespondWithJSON 200))"

definition HandleNotificationsByAccount ::
  "string \<Rightarrow> string \<Rightarrow> string \<Rightarrow> world \<Rightarrow> vfd_notification listing response \<times> world" where
  "HandleNotificationsByAccount account page limit w =
     (if account = [] then (RespondWithError (Sentinel ErrValidationFailed), w)
      else (let (p, l) = page_params page limit
            in respond (GetWebhookNotificationsByAccountNumber account p l w) (listing_response p l)))"

section \<open>Deliveries\<close>

text \<open>The webhooks that move money, with the keys of their providers.\<close>

datatype delivery = Korapay "string option" string | Paystack bool "string option" string

fun deliver :: "mac \<times> string \<Rightarrow> mac \<times> string \<Rightarrow> delivery \<Rightarrow> world \<Rightarrow> world" where
  "deliver k p (Korapay body signature) w = snd (HandleDepositWebhook (fst k) (snd k) body signature w)"
| "deliver k p (Paystack configured body signature) w = snd (HandlePaystackWebhook (fst p) (snd p) configured body signature w)"

fun signed :: "mac \<times> string \<Rightarrow> mac \<times> string \<Rightarrow> delivery \<Rightarrow> bool" where
  "signed k p (Korapay body signature) \<longleftrightarrow>
     signature \<noteq> [] \<and> (\<exists>b. body = Some b \<and> signature = fst k (snd k) (raw_field ''data'' b))"
| "signed k p (Paystack configured body signature) \<longleftrightarrow>
     signature \<noteq> [] \<and> (\<exists>b. body = Some b \<and> signature = fst p (snd p) b)"

lemma unsigned_ignored: "\<not> signed k p d \<Longrightarrow> deliver k p d w = w"
  by (cases d)
    (auto simp: HandleDepositWebhook_def HandlePaystackWebhook_def verifyWebhookSignature_def split: option.splits)

text \<open>Balances, their history and the ledger.\<close>

definition money :: "world \<Rightarrow> (nat \<times> wallet) list \<times> wallet_tx list \<times> ledger_entry list" where
  "money w = (wallets w, wallet_txs w, ledger w)"

lemma money_writes [simp]:
  "money (w\<lparr>faults := fs\<rparr>) = money w" "money (w\<lparr>tick := n\<rparr>) = money w" "money (w\<lparr>transfers := ts\<rparr>) = money w"
  by (simp_all add: money_def)

text \<open>
  A deposit that wrote history has recorded its reference, and one whose reference is recorded changes
  nothing.
\<close>

lemma RecordDeposit_recorded:
  "post (\<lambda>r w'. wallet_txs w' = wallet_txs w \<or> dn_Reference n \<in> references w') (RecordDeposit bid n w)"
  unfolding RecordDeposit_def ledger_op_defs Let_def
  by (auto intro!: wp simp: references_def deposit_tx_def with_defaults_def)

lemma RecordDeposit_again:
  assumes "dn_Reference n \<in> references w" and "faults w = []"
  shows "snd (RecordDeposit bid n w) = w"
proof -
  have "\<exists>t. find (\<lambda>t. wt_Reference t = dn_Reference n) (wallet_txs w) = Some t"
    using assms(1) by (cases "find (\<lambda>t. wt_Reference t = dn_Reference n) (wallet_txs w)") (auto simp: references_def find_None_iff)
  then show ?thesis using assms(2) by (auto simp: RecordDeposit_def walletTx_FindByReference_def)
qed

lemma ByAccountReference_recorded:
  "post (\<lambda>r w'. wallet_txs w' = wallet_txs w \<or> dn_Reference n \<in> references w') (RecordDepositByAccountReference ref n w)"
proof -
  have "post (\<lambda>r w'. wallet_txs w' = wallet_txs w \<or> dn_Reference n \<in> references w') (RecordDeposit bid n (w\<lparr>faults := fs\<rparr>))" for bid fs
    using RecordDeposit_recorded [where w = "w\<lparr>faults := fs\<rparr>"] by simp
  then show ?thesis
    unfolding RecordDepositByAccountReference_def wallet_FindByAccountReference_def
    by (auto intro!: wp_attempt wp_statement split: option.splits prod.splits)
qed

lemma ByAccountReference_again:
  assumes "dn_Reference n \<in> references w" and "faults w = []"
  shows "snd (RecordDepositByAccountReference ref n w) = w"
  using RecordDeposit_again [OF assms] assms(2)
  by (auto simp: RecordDepositByAccountReference_def wallet_FindByAccountReference_def split: option.splits)

abbreviation "later w \<equiv> w\<lparr>tick := Suc (tick w)\<rparr>"

text \<open>What a delivery does, by its content alone.\<close>

lemma charge_cases:
  "(\<forall>w. handleChargeSuccess c data w = w) \<or> (\<forall>w. handleChargeSuccess c data w = later w) \<or>
   (\<exists>bid n. \<forall>w. handleChargeSuccess c data w = snd (RecordDeposit bid n (later w))) \<or>
   (\<exists>ref n. \<forall>w. handleChargeSuccess c data w = snd (RecordDepositByAccountReference ref n (later w)))"
proof -
  consider "\<not> c \<or> text_of ''reference'' data = [] \<or> paystack_amount data \<le> 0"
    | "c" "text_of ''reference'' data \<noteq> []" "0 < paystack_amount data" "0 < paystack_business data"
    | "c" "text_of ''reference'' data \<noteq> []" "0 < paystack_amount data" "paystack_business data = 0" "paystack_account data = []"
    | "c" "text_of ''reference'' data \<noteq> []" "0 < paystack_amount data" "paystack_business data = 0" "paystack_account data \<noteq> []"
    by fastforce
  then show ?thesis
  proof cases
    case 2
    then have "\<forall>w. handleChargeSuccess c data w = snd (RecordDeposit (paystack_business data) (paystack_notification data) (later w))"
      by (simp add: handleChargeSuccess_def now_def)
    then show ?thesis by blast
  next
    case 4
    then have "\<forall>w. handleChargeSuccess c data w =
        snd (RecordDepositByAccountReference (paystack_account data) (paystack_notification data) (later w))"
      by (simp add: handleChargeSuccess_def now_def)
    then show ?thesis by blast
  qed (simp_all add: handleChargeSuccess_def now_def)
qed

lemma paystack_cases:
  "(\<exists>st. \<forall>w. paystack_event c e data w = handleTransferStatus data st w) \<or>
   (\<forall>w. paystack_event c e data w = handleChargeSuccess c data w) \<or> (\<forall>w. paystack_event c e data w = w)"
  unfolding paystack_event_def by (cases "e = ''transfer.success''"; cases "e = ''transfer.failed''"; cases "e = ''transfer.reversed''";
    cases "e = ''charge.success''") auto

lemma deliver_cases:
  "(\<forall>w. deliver k p d w = w) \<or> (\<forall>w. deliver k p d w = later w) \<or>
   (\<exists>data st. \<forall>w. deliver k p d w = handleTransferStatus data st w) \<or>
   (\<exists>bid n. \<forall>w. deliver k p d w = snd (RecordDeposit bid n (later w))) \<or>
   (\<exists>ref n. \<forall>w. deliver k p d w = snd (RecordDepositByAccountReference ref n (later w)))"
proof (cases "signed k p d")
  case False
  then show ?thesis using unsigned_ignored by blast
next
  case True
  show ?thesis
  proof (cases d)
    case (Korapay body signature)
    then obtain b where b: "body = Some b" using True by auto
    have "(\<forall>w. deliver k p d w = w) \<or> (\<exists>ref n. \<forall>w. deliver k p d w = snd (RecordDepositByAccountReference ref n (later w)))"
    proof (cases "\<exists>e dt. webhook_payload b = Some (e, Some dt) \<and> (e = ''charge.success'' \<or> e = []) \<and>
        account_reference dt \<noteq> [] \<and> text_of ''reference'' dt \<noteq> []")
      case good: True
      then obtain e dt where dt: "webhook_payload b = Some (e, Some dt)" "e = ''charge.success'' \<or> e = []"
          "account_reference dt \<noteq> []" "text_of ''reference'' dt \<noteq> []"
        by blast
      define n where "n = \<lparr>dn_Reference = text_of ''reference'' dt, dn_AccountReference = account_reference dt,
        dn_Amount = naira_amount (member ''amount'' dt), dn_Currency = or_default (text_of ''currency'' dt) ''NGN'',
        dn_Status = or_default (text_of ''status'' dt) ''success'', dn_Description = text_of ''narration'' dt\<rparr>"
      have "deliver k p d w = (if verifyWebhookSignature (fst k) (snd k) b signature
          then snd (RecordDepositByAccountReference (account_reference dt) n (later w)) else w)" for w
        using dt True
        by (auto simp: Korapay b HandleDepositWebhook_def parseKorapayDepositNotification_def now_def n_def split_beta)
      then show ?thesis by (cases "verifyWebhookSignature (fst k) (snd k) b signature") auto
    next
      case False
      then have "deliver k p d w = w" for w
        by (auto simp: Korapay b HandleDepositWebhook_def parseKorapayDepositNotification_def split: option.split)
      then show ?thesis by blast
    qed
    then show ?thesis by blast
  next
    case (Paystack c body signature)
    then obtain b where b: "body = Some b" using True by auto
    have "(\<forall>w. deliver k p d w = w) \<or> (\<exists>e data. \<forall>w. deliver k p d w = paystack_event c e data w)"
    proof (cases "webhook_payload b")
      case None
      then show ?thesis by (simp add: Paystack b HandlePaystackWebhook_def)
    next
      case (Some ed)
      then have "deliver k p d w = paystack_event c (fst ed) (case_option [] id (snd ed)) w" for w
        using True by (cases ed) (auto simp: Paystack b HandlePaystackWebhook_def)
      then show ?thesis by blast
    qed
    then show ?thesis using paystack_cases charge_cases by metis
  qed
qed

lemma status_keeps_money: "money (handleTransferStatus data st w) = money w"
proof -
  have "post (\<lambda>_ w'. money w' = money w) (transfer_Update t (w\<lparr>faults := fs\<rparr>))" for t fs
    by (rule wp_transfer_Update) simp_all
  then have "money (snd (transfer_Update t (w\<lparr>faults := fs\<rparr>))) = money w" for t fs by (simp add: post_def)
  then show ?thesis
    by (auto simp: handleTransferStatus_def transfer_FindByReference_def statement_def fault_eq Let_def split: option.split)
qed

text \<open>Korapay reports 5 naira for the account of the sample wallet, and a test hash.\<close>

definition sample_mac :: "mac \<times> string" where
  "sample_mac = ((\<lambda>key s. CHR ''s'' # key), ''k'')"

abbreviation "sample_body \<equiv>
  ''{\"data\":{\"reference\":\"r\",\"amount\":5,\"virtual_bank_account_details\":{\"virtual_bank_account\":{\"account_reference\":\"va-1\"}}}}''"

definition sample_delivery :: delivery where
  "sample_delivery = Korapay (Some sample_body) ''sk''"

abbreviation "sample_data \<equiv> [(''reference'', JString ''r''), (''amount'', JNumber ''5''),
     (''virtual_bank_account_details'', JObject [(''virtual_bank_account'', JObject [(''account_reference'', JString ''va-1'')])])]"

lemma sample_members: "unmarshal sample_body = Some (JObject [(''data'', JObject sample_data)])"
  by code_simp

lemma sample_fields:
  "string_field ''event'' [(''data'', JObject sample_data)] = Some []"
  "named ''data'' [(''data'', JObject sample_data)] = [JObject sample_data]"
  by code_simp+

lemma five: "parse_float ''5'' = Some (Fin 5)"
proof -
  have "show_int 5 = ''5''" by code_simp
  then show ?thesis using parse_float_show_int [of 5] by simp
qed

lemma sample_payload: "webhook_payload sample_body = Some ([], Some sample_data)"
  by (simp add: webhook_payload_def sample_members object_members_def sample_fields map_field_def five)

lemma sample_deposit_effect:
  "deliver sample_mac p sample_delivery w = snd (RecordDepositByAccountReference ''va-1''
     \<lparr>dn_Reference = ''r'', dn_AccountReference = ''va-1'', dn_Amount = 500, dn_Currency = ''NGN'', dn_Status = ''success'',
      dn_Description = []\<rparr> (later w))"
proof -
  have half_up: "\<lfloor>1001 / 2 :: rat\<rfloor> = 500" by (simp add: floor_eq_iff)
  have "naira_amount (member ''amount'' sample_data) = 500"
    using fl64_finite [of 500] rnd_int [of 500] half_up
    by (simp add: naira_amount_def member_def as_float_def five round_away_def in64_def)
  then show ?thesis
    by (simp add: sample_delivery_def sample_mac_def HandleDepositWebhook_def verifyWebhookSignature_def sample_members object_members_def
        sample_payload parseKorapayDepositNotification_def account_reference_def text_of_def object_of_def as_object_def as_string_def
        member_def or_default_def now_def split_beta)
qed

lemma sample_deposited: "length (wallet_txs (deliver sample_mac p sample_delivery sample_world)) = 1"
proof -
  have "post (\<lambda>r w'. length (wallet_txs w') = 1)
    (RecordDepositByAccountReference ''va-1'' \<lparr>dn_Reference = ''r'', dn_AccountReference = ''va-1'', dn_Amount = 500,
       dn_Currency = ''NGN'', dn_Status = ''success'', dn_Description = []\<rparr> (later sample_world))"
    unfolding RecordDepositByAccountReference_def wallet_FindByAccountReference_def RecordDeposit_def Let_def ledger_op_defs
    by (auto intro!: clean simp: sample_world_def sample_wallet_def bigint_nonneg_def deposit_tx_def)
  then show ?thesis by (simp add: sample_deposit_effect post_def)
qed

definition sample_sent :: transfer where
  "sample_sent = \<lparr>t_ID = 1, t_CreatedAt = 0, t_BusinessID = 1, t_Reference = ''r'', t_Amount = ''2500'', t_Currency = ''NGN'',
     t_Narration = [], t_BankCode = ''058'', t_AccountNumber = ''0123456789'', t_AccountName = ''Ada'', t_Provider = ''paystack'',
     t_Status = ''pending'', t_TransactionID = [], t_ProviderStatus = ''pending'', t_ProviderMessage = [], t_Fee = [],
     t_ProcessedAt = None, t_ProcessingError = None\<rparr>"

section \<open>Properties\<close>

text \<open>
  C10: Only signed webhooks have an effect. A delivery to Korapay's or Paystack's endpoint that does not carry
  the keyed hash of its data or of its body changes no table at all.
\<close>

theorem webhooks_need_signature:
  assumes "deliver k p d w \<noteq> w"
  shows "signed k p d"
  using assms unsigned_ignored by blast

theorem webhooks_need_signature_witness:
  "deliver sample_mac sample_mac sample_delivery sample_world \<noteq> sample_world \<and> signed sample_mac sample_mac sample_delivery"
proof -
  have "deliver sample_mac sample_mac sample_delivery sample_world \<noteq> sample_world"
    using sample_deposited [of sample_mac] by (auto simp: sample_world_def)
  from webhooks_need_signature [OF this] this show ?thesis by blast
qed



text \<open>
  A transfer that fails later is not paid back. Paystack's report that a transfer failed or was reversed
  sets the status of its record, which is what a retry looks at, and leaves the balance, from which the
  transfer was taken when it was sent, the history and the ledger as they are.
\<close>

theorem failed_transfer_not_refunded:
  assumes "faults w = []" and "t \<in> set (transfers w)" and "distinct (map t_Reference (transfers w))"
    and "t_ID t \<noteq> 0" and "distinct (map t_ID (transfers w))"
    and "text_of ''reference'' data = t_Reference t" and "t_Reference t \<noteq> []"
    and "event = ''transfer.failed'' \<and> st = ''failed'' \<or> event = ''transfer.reversed'' \<and> st = ''reversed''"
  shows "let w' = paystack_event configured event data w in money w' = money w \<and>
    (\<exists>u \<in> set (transfers w'). t_ID u = t_ID t \<and> t_Status u = st \<and> t_Amount u = t_Amount t)"
proof -
  have event: "paystack_event configured event data w = handleTransferStatus data st w"
    using assms(8) by (auto simp: paystack_event_def)
  have "find (\<lambda>u. t_Reference u = t_Reference t \<and> True) (transfers w) = Some t"
    using find_first [OF assms(3,2), of "\<lambda>_. True"] by simp
  then have found: "find (\<lambda>u. t_Reference u = t_Reference t) (transfers w) = Some t" by simp
  have keys: "t_Reference u \<noteq> t_Reference t" if "u \<in> set (transfers w)" "t_ID u \<noteq> t_ID t" for u
    using assms(2,3) that unfolding distinct_map inj_on_def by metis
  have eff: "handleTransferStatus data st w =
      w\<lparr>transfers := map (\<lambda>u. if t_ID u = t_ID t then with_status st data t else u) (transfers w)\<rparr>"
    using assms(1,4,6,7) found keys
    by (auto simp: handleTransferStatus_def transfer_FindByReference_def transfer_Update_def with_status_def)
  have "with_status st data t \<in> (\<lambda>u. if t_ID u = t_ID t then with_status st data t else u) ` set (transfers w)"
    by (rule rev_image_eqI [OF assms(2)]) simp
  moreover have "set (transfers (handleTransferStatus data st w)) =
      (\<lambda>u. if t_ID u = t_ID t then with_status st data t else u) ` set (transfers w)"
    unfolding eff by simp
  ultimately have "with_status st data t \<in> set (transfers (handleTransferStatus data st w))" by (simp only:)
  moreover have "t_ID (with_status st data t) = t_ID t \<and> t_Status (with_status st data t) = st \<and>
      t_Amount (with_status st data t) = t_Amount t"
    by (simp add: with_status_def)
  ultimately show ?thesis
    unfolding Let_def event using status_keeps_money by blast
qed

theorem failed_transfer_not_refunded_witness:
  "let w' = paystack_event True ''transfer.failed'' [(''reference'', JString ''r'')] (sample_world\<lparr>transfers := [sample_sent]\<rparr>)
   in money w' = money sample_world \<and> (\<exists>u. u \<in> set (transfers w') \<and> t_ID u = 1 \<and> t_Status u = ''failed'' \<and> t_Amount u = ''2500'')"
  using failed_transfer_not_refunded [of "sample_world\<lparr>transfers := [sample_sent]\<rparr>" sample_sent "[(''reference'', JString ''r'')]"
    "''transfer.failed''" "''failed''" True]
  by (simp add: sample_sent_def sample_world_def text_of_def member_def as_string_def Let_def money_def Bex_def)

end
