(* ===== verification/Transfer_Api.thy ===== *)
theory Transfer_Api
  imports Webhooks Transfer_Batch
begin

text \<open>
  The handlers of transfers: \<^verbatim>\<open>internal/api/handler/transfer_handler.go\<close> with its
  requests and answers, and the reads of the service behind them. A batch may not return, as the service
  may not; its handler then has the value None.
\<close>

section \<open>Requests (transfer_request.go)\<close>

definition SingleTransferRequest :: "(string \<times> json) list \<Rightarrow> single_req option" where
  "SingleTransferRequest ms =
     (case (string_field ''amount'' ms, string_field ''bank_code'' ms, string_field ''account_number'' ms,
            string_field ''account_name'' ms, string_field ''narration'' ms, string_field ''reference'' ms,
            string_field ''provider'' ms) of
        (Some a, Some b, Some no, Some name, Some nar, Some r, Some p) \<Rightarrow>
          if [] \<in> set [a, b, no, name] then None
          else Some \<lparr>rq_Reference = r, rq_Amount = a, rq_BankCode = b, rq_AccountNumber = no, rq_AccountName = name,
            rq_Narration = nar, rq_Currency = [], rq_PreferredProvider = p, rq_BusinessID = 0, rq_BusinessEmail = []\<rparr>
      | _ \<Rightarrow> None)"

text \<open>The transfers of a batch keep no provider.\<close>

definition BatchTransferRequest :: "(string \<times> json) list \<Rightarrow> single_req list option" where
  "BatchTransferRequest ms =
     (case slice_field SingleTransferRequest ''transfers'' ms of None \<Rightarrow> None
      | Some ts \<Rightarrow> if ts = [] \<or> 100 < length ts then None else Some (map (\<lambda>t. t\<lparr>rq_PreferredProvider := []\<rparr>) ts))"

section \<open>Answers (transfer_response.go)\<close>

record transfer_answer =
  ta_Result :: single_resp
  ta_Currency :: string

record batch_answer =
  ba_Total :: nat
  ba_Successful :: nat
  ba_Failed :: nat
  ba_Transfers :: "transfer_answer list"

definition transfer_answer_of :: "string \<Rightarrow> single_resp \<Rightarrow> transfer_answer" where
  "transfer_answer_of currency r = \<lparr>ta_Result = r, ta_Currency = currency\<rparr>"

definition batch_answer_of :: "bulk_resp \<Rightarrow> batch_answer" where
  "batch_answer_of r = \<lparr>ba_Total = bp_TotalTransfers r, ba_Successful = bp_SuccessfulTransfers r,
     ba_Failed = bp_FailedTransfers r, ba_Transfers = map (transfer_answer_of []) (bp_Transfers r)\<rparr>"

section \<open>Handlers (transfer_handler.go)\<close>

definition HandleSingleTransfer ::
  "transfer_service \<Rightarrow> string \<Rightarrow> mw_claims option \<Rightarrow> world \<Rightarrow> transfer_answer response \<times> world" where
  "HandleSingleTransfer s body claims =
     with_body (decode_body SingleTransferRequest body) (\<lambda>req.
       with_claims ErrUnauthorized claims (\<lambda>c w.
         (let (resp, w) = ExecuteTransfer s (mc_BusinessID c) req w
          in (RespondWithJSON 200 (transfer_answer_of ''NGN'' resp), w))))"

definition HandleBatchTransfer ::
  "transfer_service \<Rightarrow> string \<Rightarrow> mw_claims option \<Rightarrow> world \<Rightarrow> (batch_answer response \<times> world) option" where
  "HandleBatchTransfer s body claims w =
     (case decode_body BatchTransferRequest body of
        None \<Rightarrow> Some (RespondWithError (Sentinel ErrValidationFailed), w)
      | Some ts \<Rightarrow>
          (case claims of None \<Rightarrow> Some (RespondWithError (Sentinel ErrUnauthorized), w)
           | Some c \<Rightarrow>
               map_option (\<lambda>(resp, w). (RespondWithJSON 200 (batch_answer_of resp), w))
                 (ExecuteBatchTransfer s (mc_BusinessID c)
                   \<lparr>bq_BatchReference = [], bq_Description = [], bq_Currency = [], bq_MerchantBearsCost = False,
                    bq_Transfers = ts, bq_BusinessID = 0, bq_BusinessEmail = []\<rparr> w)))"

definition HandleGetTransfer :: "string \<Rightarrow> mw_claims option \<Rightarrow> world \<Rightarrow> transfer response \<times> world" where
  "HandleGetTransfer i claims = with_id i (\<lambda>i w. respond (GetTransferByID i w) (RespondWithJSON 200))"

definition HandleListTransfers :: "string \<Rightarrow> string \<Rightarrow> mw_claims option \<Rightarrow> world \<Rightarrow> transfer listing response \<times> world" where
  "HandleListTransfers page limit claims =
     with_claims ErrUnauthorized claims (\<lambda>c w.
       (let (p, l) = page_params page limit
        in respond (ListTransfers (mc_BusinessID c) (nat p) (nat l) w) (listing_response p l)))"

text \<open>The error of a retry is not copied into the answer.\<close>

definition HandleRetryTransfer ::
  "transfer_service \<Rightarrow> string \<Rightarrow> mw_claims option \<Rightarrow> world \<Rightarrow> transfer_answer response \<times> world" where
  "HandleRetryTransfer s i claims =
     with_id i (\<lambda>i. with_claims ErrUnauthorized claims (\<lambda>c w.
       respond (RetryTransfer s (mc_BusinessID c) i w)
         (\<lambda>r. RespondWithJSON 200 (transfer_answer_of ''NGN'' (r\<lparr>rs_Error := []\<rparr>)))))"

section \<open>From the request to the provider\<close>

text \<open>A generated reference is one that could have been given, on a world that differs by the readings of clock and random numbers.\<close>

lemma ExecuteTransfer_generated:
  "\<exists>ref n. ref \<noteq> [] \<and> ExecuteTransfer s bid req w = ExecuteTransfer s bid (req\<lparr>rq_Reference := ref\<rparr>) (w\<lparr>tick := n\<rparr>)"
proof (cases "rq_Reference req = []")
  case True
  define ref where "ref = fst (generateReference bid w)"
  define n where "n = tick (snd (generateReference bid w))"
  have ref: "ref \<noteq> []" by (simp add: ref_def generateReference_def now_def rand_hex_def split_beta)
  have "generateReference bid w = (ref, w\<lparr>tick := n\<rparr>)"
    by (simp add: ref_def n_def generateReference_def now_def rand_hex_def split_beta)
  then have "prepareTransferRequest bid req w = prepareTransferRequest bid (req\<lparr>rq_Reference := ref\<rparr>) (w\<lparr>tick := n\<rparr>)"
    using True ref by (simp add: prepareTransferRequest_def)
  then have "ExecuteTransfer s bid req w = ExecuteTransfer s bid (req\<lparr>rq_Reference := ref\<rparr>) (w\<lparr>tick := n\<rparr>)"
    by (simp add: ExecuteTransfer_def)
  then show ?thesis using ref by blast
next
  case False
  then have "ExecuteTransfer s bid req w =
      ExecuteTransfer s bid (req\<lparr>rq_Reference := rq_Reference req\<rparr>) (w\<lparr>tick := tick w\<rparr>)" by simp
  then show ?thesis using False by blast
qed

lemma tick_unseen [simp]:
  "available s bid a (w\<lparr>tick := n\<rparr>) = available s bid a w" "has_reference ref (w\<lparr>tick := n\<rparr>) = has_reference ref w"
  by (simp_all add: available_def has_reference_def)

lemma ExecuteTransfer_guarded:
  "post (\<lambda>_ w'. calls w' = calls w \<or> (validateTransferAmount (ts_config s) (rq_Amount req) = Inr () \<and>
     available s bid (rq_Amount req) w \<and>
     (\<exists>ref. (rq_Reference req = [] \<or> ref = rq_Reference req) \<and> \<not> has_reference ref w \<and> has_reference ref w')))
   (ExecuteTransfer s bid req w)"
proof (cases "rq_Reference req = []")
  case True
  obtain ref n where ref: "ref \<noteq> []"
      and eq: "ExecuteTransfer s bid req w = ExecuteTransfer s bid (req\<lparr>rq_Reference := ref\<rparr>) (w\<lparr>tick := n\<rparr>)"
    using ExecuteTransfer_generated by blast
  show ?thesis
    using ExecuteTransfer_guard [of "req\<lparr>rq_Reference := ref\<rparr>" s bid "w\<lparr>tick := n\<rparr>"] ref True
    by (auto simp: eq post_def payment_guard_def)
next
  case False
  then show ?thesis using ExecuteTransfer_guard [OF False, of s bid w] by (auto simp: post_def payment_guard_def)
qed

lemma decoded_request:
  "decode_body SingleTransferRequest body = Some req \<Longrightarrow>
   rq_Amount req \<noteq> [] \<and> rq_BankCode req \<noteq> [] \<and> rq_AccountNumber req \<noteq> [] \<and> rq_AccountName req \<noteq> []"
  by (auto simp: decode_body_def SingleTransferRequest_def split: option.splits if_splits)

section \<open>Properties\<close>


text \<open>
  Transfers are no secret. Any transfer on record is shown, with its amount and its recipient, to whoever
  asks for its number, whichever business they belong to; a list shows only those of the business that asks.
\<close>

theorem transfers_readable_by_all:
  assumes "faults w = []" and "t \<in> set (transfers w)" and "distinct (map t_ID (transfers w))" and "t_ID t < 2 ^ 32"
  shows "HandleGetTransfer (show_nat (t_ID t)) claims w = (Reply 200 t, w)"
proof -
  have "find (\<lambda>u. t_ID u = t_ID t \<and> True) (transfers w) = Some t"
    using find_first [OF assms(3,2), of "\<lambda>_. True"] by simp
  moreover have "parse_id (show_nat (t_ID t)) = Some (t_ID t)" using assms(4) by (simp add: parse_id_def)
  ultimately show ?thesis
    using assms(1) by (simp add: HandleGetTransfer_def with_id_def GetTransferByID_def transfer_FindByID_def respond_def RespondWithJSON_def)
qed

theorem transfers_readable_by_all_witness:
  "HandleGetTransfer (show_nat 1) claims (sample_world\<lparr>transfers := [sample_sent]\<rparr>) =
     (Reply 200 sample_sent, sample_world\<lparr>transfers := [sample_sent]\<rparr>)"
  using transfers_readable_by_all [of "sample_world\<lparr>transfers := [sample_sent]\<rparr>" sample_sent]
  by (simp add: sample_world_def sample_sent_def)

lemma error_not_reply [simp]: "RespondWithError e \<noteq> Reply s x"
  by (simp add: RespondWithError_def split: option.split)

lemma listed_transfers_own:
  assumes "HandleListTransfers page limit (Some c) w = (Reply 200 l, w')"
  shows "set (li_Items l) \<subseteq> {t \<in> set (transfers w). t_BusinessID t = mc_BusinessID c}"
  using assms
  by (auto simp: HandleListTransfers_def with_claims_def page_params_def ListTransfers_def transfer_FindByBusinessID_def respond_def
      listing_response_def RespondWithJSON_def statement_def fault_eq Let_def attempt_def dest!: in_set_takeD in_set_dropD
      split: sum.splits if_splits prod.splits)

end
