(* ===== verification/Wallet_Api.thy ===== *)
theory Wallet_Api
  imports Transfer_Api
begin

text \<open>
  The handlers of wallets, \<^verbatim>\<open>internal/api/handler/wallet_handler.go\<close>: virtual accounts,
  balances, credits of the sandbox, deposits through Paystack, and the account holders that
  \<^verbatim>\<open>account_holder_service.go\<close> passes on to a provider. The providers are parameters; a call
  may depend on its time, the counter of the clock's readings.
\<close>

section \<open>Wallets\<close>

text \<open>The validator counts the characters of a text, of which ASCII has one byte each.\<close>

definition CreateVirtualAccountRequest :: "(string \<times> json) list \<Rightarrow> va_request option" where
  "CreateVirtualAccountRequest ms =
     (case (string_field ''account_name'' ms, string_field ''account_reference'' ms, string_field ''customer_name'' ms,
            string_field ''customer_email'' ms, string_field ''bvn'' ms, string_field ''nin'' ms,
            string_field ''bank_code'' ms, bool_field ''permanent'' ms) of
        (Some a, Some r, Some c, Some e, Some bvn, Some nin, Some b, Some p) \<Rightarrow>
          if a = [] \<or> c = [] \<or> length bvn \<noteq> 11 then None
          else Some \<lparr>vq_BusinessID = 0, vq_AccountName = a, vq_AccountReference = r, vq_CustomerName = c,
            vq_CustomerEmail = e, vq_BVN = bvn, vq_NIN = nin, vq_BankCode = b, vq_Permanent = p\<rparr>
      | _ \<Rightarrow> None)"

definition HandleCreateVirtualAccount ::
  "(va_request \<Rightarrow> va_result res) \<Rightarrow> string \<Rightarrow> mw_claims option \<Rightarrow> world \<Rightarrow> va_result response \<times> world" where
  "HandleCreateVirtualAccount provider body claims =
     with_claims ErrUnauthorized claims (\<lambda>c. with_body (decode_body CreateVirtualAccountRequest body) (\<lambda>req w.
       respond (CreateVirtualAccount provider (mc_BusinessID c) (req\<lparr>vq_BusinessID := mc_BusinessID c\<rparr>) w)
         (RespondWithJSON 201)))"

definition HandleGetWallet :: "mw_claims option \<Rightarrow> world \<Rightarrow> wallet response \<times> world" where
  "HandleGetWallet claims =
     with_claims ErrUnauthorized claims (\<lambda>c w. respond (GetWallet (mc_BusinessID c) w) (RespondWithJSON 200))"

definition HandleGetBalance :: "int64 option \<Rightarrow> mw_claims option \<Rightarrow> world \<Rightarrow> (int64 \<times> string) response \<times> world" where
  "HandleGetBalance cached claims =
     with_claims ErrUnauthorized claims (\<lambda>c w.
       respond (GetBalance cached (mc_BusinessID c) w) (\<lambda>b. RespondWithJSON 200 (b, ''NGN'')))"

definition HandleGetTransactions ::
  "string \<Rightarrow> string \<Rightarrow> mw_claims option \<Rightarrow> world \<Rightarrow> wallet_tx listing response \<times> world" where
  "HandleGetTransactions page limit claims =
     with_claims ErrUnauthorized claims (\<lambda>c w.
       (let p = (if atoi page \<le> 0 then 1 else atoi page); l = (if atoi limit \<le> 0 then 10 else atoi limit)
        in respond (GetTransactions (mc_BusinessID c) p l w) (listing_response p l)))"

section \<open>The sandbox\<close>

fun has_infix :: "string \<Rightarrow> string \<Rightarrow> bool" where
  "has_infix [] t \<longleftrightarrow> has_prefix [] t"
| "has_infix (c # s) t \<longleftrightarrow> has_prefix (c # s) t \<or> has_infix s t"

definition isSandboxMode :: "string \<Rightarrow> string \<Rightarrow> bool" where
  "isSandboxMode key url \<longleftrightarrow>
     has_prefix key ''sk_test_'' \<or> has_prefix key ''pk_test_'' \<or>
     has_infix (to_lower url) ''sandbox'' \<or> has_infix (to_lower url) ''test'' \<or> has_infix (to_lower url) ''staging''"

record sandbox_request =
  sq_AccountNumber :: string
  sq_Amount :: int64
  sq_Currency :: string

definition SandboxCreditRequest :: "(string \<times> json) list \<Rightarrow> sandbox_request option" where
  "SandboxCreditRequest ms =
     (case (string_field ''account_number'' ms, int_field ''amount'' ms, string_field ''currency'' ms) of
        (Some n, Some a, Some c) \<Rightarrow>
          if n = [] \<or> a < 1 then None
          else Some \<lparr>sq_AccountNumber = n, sq_Amount = a, sq_Currency = or_default c ''NGN''\<rparr>
      | _ \<Rightarrow> None)"

definition sandbox_notification :: "sandbox_request \<Rightarrow> wallet \<Rightarrow> int \<Rightarrow> deposit_notification" where
  "sandbox_notification req x t =
     \<lparr>dn_Reference = ''SANDBOX-CREDIT-'' @ show_int (t div 1000000000), dn_AccountReference = w_AccountReference x,
      dn_Amount = mul64 (sq_Amount req) 100, dn_Currency = sq_Currency req, dn_Status = ''success'',
      dn_Description = ''Sandbox test credit''\<rparr>"

text \<open>Korapay answers with its status; the answer says whether the deposit was recorded.\<close>

definition HandleSandboxCredit ::
  "bool \<Rightarrow> (sandbox_request \<Rightarrow> nat \<Rightarrow> bool res) \<Rightarrow> string \<Rightarrow> mw_claims option \<Rightarrow> world \<Rightarrow> string response \<times> world" where
  "HandleSandboxCredit sandbox kora body claims w =
     (if \<not> sandbox then (RespondWithError (Sentinel ErrForbidden), w)
      else with_claims ErrUnauthorized claims (\<lambda>c. with_body (decode_body SandboxCreditRequest body) (\<lambda>req w.
        attempt (GetWallet (mc_BusinessID c) w)
          (\<lambda>e w. (RespondWithError e, w))
          (\<lambda>x w.
             if w_AccountNumber x \<noteq> sq_AccountNumber req then (RespondWithError (Sentinel ErrForbidden), w)
             else (case kora req (tick w) of
                 Inl e \<Rightarrow> (RespondWithError e, w)
               | Inr False \<Rightarrow> (RespondWithError (Sentinel ErrPaymentGatewayFailed), w)
               | Inr True \<Rightarrow>
                   (let (t, w) = now w; (_, w) = now w
                    in attempt (RecordDeposit (mc_BusinessID c) (sandbox_notification req x t) w)
                         (\<lambda>_ w. (RespondWithJSON 200
                            ''Virtual bank account credited successfully (deposit recording may have failed)'', w))
                         (\<lambda>_ w. (RespondWithJSON 200 ''Virtual bank account credited successfully'', w))))))) w)"

section \<open>Deposits through Paystack\<close>

text \<open>
  \<^verbatim>\<open>InitializeTransaction\<close> of the billing client: the address, the amount, the reference,
  the URL to return to and the identifier of the business, which goes into the metadata. The rule on the amount in the
  request is not applied by the handler.
\<close>

type_synonym initializer = "string \<Rightarrow> int64 \<Rightarrow> string \<Rightarrow> string \<Rightarrow> nat \<Rightarrow> nat \<Rightarrow> string res"

record deposit_offer =
  do_PaymentURL :: string
  do_Reference :: string
  do_Amount :: int64

definition InitiateDepositRequest :: "(string \<times> json) list \<Rightarrow> (int64 \<times> string) option" where
  "InitiateDepositRequest ms =
     (case (int_field ''amount'' ms, string_field ''email'' ms) of (Some a, Some e) \<Rightarrow> Some (a, e) | _ \<Rightarrow> None)"

definition HandleInitiateDeposit ::
  "string \<Rightarrow> initializer option \<Rightarrow> string \<Rightarrow> mw_claims option \<Rightarrow> world \<Rightarrow> deposit_offer response \<times> world" where
  "HandleInitiateDeposit appURL paystack body claims =
     with_body (decode_body InitiateDepositRequest body) (\<lambda>(amount, email). with_claims ErrUnauthorized claims (\<lambda>c w.
       (case paystack of None \<Rightarrow> (Failure 503 ''Payment provider not configured'' [], w)
        | Some initialize \<Rightarrow>
            (let (t, w) = now w;
                 ref = ''DEP-'' @ show_nat (mc_BusinessID c) @ ''-'' @ show_int t;
                 email = or_default email (''biz-'' @ show_nat (mc_BusinessID c) @ ''@payflow.local'')
             in case initialize email amount ref (appURL @ ''/wallet?deposit=success'') (mc_BusinessID c) (tick w) of
                  Inl _ \<Rightarrow> (RespondWithError (Sentinel ErrPaymentGatewayFailed), w)
                | Inr url \<Rightarrow> (RespondWithJSON 200 \<lparr>do_PaymentURL = url, do_Reference = ref, do_Amount = amount\<rparr>, w)))))"

section \<open>Account holders (wallet_request.go, account_holder_service.go)\<close>

text \<open>A file is its reference.\<close>

record holder_document =
  hd_Type :: string
  hd_Number :: string
  hd_Front :: "string option"
  hd_Back :: "string option"
  hd_IssuedDate :: string
  hd_ExpiryDate :: string
  hd_Country :: string

record address_proof =
  ap_Type :: string
  ap_Document :: "string option"

record holder_address =
  ha_Country :: string
  ha_Zip :: string
  ha_Address :: string
  ha_State :: string
  ha_City :: string

record holder_employment =
  he_Status :: string
  he_Employer :: string
  he_Description :: string

record kyc_update =
  ku_FirstName :: string
  ku_LastName :: string
  ku_SourceOfInflow :: string
  ku_SourceOfInflowDocument :: "string option"
  ku_Selfie :: "string option"
  ku_Identification :: "holder_document option"
  ku_ProofOfAddress :: "address_proof option"

record holder_request =
  hr_KYC :: kyc_update
  hr_UseCase :: string
  hr_Type :: string
  hr_DateOfBirth :: string
  hr_Nationality :: string
  hr_Occupation :: string
  hr_Email :: string
  hr_Phone :: string
  hr_BankIDNumber :: string
  hr_Address :: "holder_address option"
  hr_Employment :: "holder_employment option"
  hr_Metadata :: "(string \<times> json) list option"

text \<open>Structs behind pointers are validated when they are there.\<close>

definition nested :: "((string \<times> json) list \<Rightarrow> 'a option) \<Rightarrow> string \<Rightarrow> (string \<times> json) list \<Rightarrow> 'a option option" where
  "nested f = pointer (\<lambda>v. case v of JObject ms \<Rightarrow> f ms | _ \<Rightarrow> None)"

definition required :: "string \<Rightarrow> (string \<times> json) list \<Rightarrow> string option" where
  "required k ms = (case string_field k ms of Some s \<Rightarrow> if s = [] then None else Some s | None \<Rightarrow> None)"

definition FileReferenceRequest :: "(string \<times> json) list \<Rightarrow> string option" where
  "FileReferenceRequest = required ''reference''"

definition AccountHolderIdentificationRequest :: "(string \<times> json) list \<Rightarrow> holder_document option" where
  "AccountHolderIdentificationRequest ms =
     (case (required ''type'' ms, required ''number'' ms, nested FileReferenceRequest ''document_front'' ms,
            nested FileReferenceRequest ''document_back'' ms, string_field ''issued_date'' ms,
            string_field ''expiry_date'' ms, string_field ''country'' ms) of
        (Some t, Some n, Some f, Some b, Some i, Some e, Some c) \<Rightarrow>
          Some \<lparr>hd_Type = t, hd_Number = n, hd_Front = f, hd_Back = b, hd_IssuedDate = i, hd_ExpiryDate = e, hd_Country = c\<rparr>
      | _ \<Rightarrow> None)"

definition AccountHolderProofOfAddressRequest :: "(string \<times> json) list \<Rightarrow> address_proof option" where
  "AccountHolderProofOfAddressRequest ms =
     (case (required ''type'' ms, nested FileReferenceRequest ''document'' ms) of
        (Some t, Some d) \<Rightarrow> Some \<lparr>ap_Type = t, ap_Document = d\<rparr> | _ \<Rightarrow> None)"

definition AccountHolderAddressRequest :: "(string \<times> json) list \<Rightarrow> holder_address option" where
  "AccountHolderAddressRequest ms =
     (case (required ''country'' ms, string_field ''zip'' ms, required ''address'' ms, required ''state'' ms, required ''city'' ms) of
        (Some c, Some z, Some a, Some s, Some t) \<Rightarrow>
          Some \<lparr>ha_Country = c, ha_Zip = z, ha_Address = a, ha_State = s, ha_City = t\<rparr>
      | _ \<Rightarrow> None)"

definition AccountHolderEmploymentRequest :: "(string \<times> json) list \<Rightarrow> holder_employment option" where
  "AccountHolderEmploymentRequest ms =
     (case (required ''status'' ms, string_field ''employer'' ms, string_field ''description'' ms) of
        (Some s, Some e, Some d) \<Rightarrow> Some \<lparr>he_Status = s, he_Employer = e, he_Description = d\<rparr> | _ \<Rightarrow> None)"

definition UpdateAccountHolderKYCRequest :: "(string \<times> json) list \<Rightarrow> kyc_update option" where
  "UpdateAccountHolderKYCRequest ms =
     (case (required ''first_name'' ms, required ''last_name'' ms, required ''source_of_inflow'' ms,
            nested FileReferenceRequest ''source_of_inflow_document'' ms, nested FileReferenceRequest ''selfie'' ms,
            nested AccountHolderIdentificationRequest ''identification'' ms,
            nested AccountHolderProofOfAddressRequest ''proof_of_address'' ms) of
        (Some f, Some l, Some s, Some d, Some sf, Some i, Some p) \<Rightarrow>
          Some \<lparr>ku_FirstName = f, ku_LastName = l, ku_SourceOfInflow = s, ku_SourceOfInflowDocument = d, ku_Selfie = sf,
            ku_Identification = i, ku_ProofOfAddress = p\<rparr>
      | _ \<Rightarrow> None)"

text \<open>The validator's test of an address is a parameter.\<close>

definition CreateAccountHolderRequest :: "(string \<Rightarrow> bool) \<Rightarrow> (string \<times> json) list \<Rightarrow> holder_request option" where
  "CreateAccountHolderRequest is_email ms =
     (case (UpdateAccountHolderKYCRequest ms, required ''use_case'' ms, required ''type'' ms, required ''date_of_birth'' ms,
            required ''nationality'' ms, string_field ''occupation'' ms, required ''email'' ms, required ''phone'' ms) of
        (Some k, Some u, Some t, Some d, Some n, Some oc, Some e, Some p) \<Rightarrow>
          (case (string_field ''bank_id_number'' ms, nested AccountHolderAddressRequest ''address'' ms,
                 nested AccountHolderEmploymentRequest ''employment'' ms, map_field ''metadata'' ms) of
             (Some b, Some a, Some em, Some m) \<Rightarrow>
               if \<not> is_email e then None
               else Some \<lparr>hr_KYC = k, hr_UseCase = u, hr_Type = t, hr_DateOfBirth = d, hr_Nationality = n,
                 hr_Occupation = oc, hr_Email = e, hr_Phone = p, hr_BankIDNumber = b, hr_Address = a, hr_Employment = em,
                 hr_Metadata = m\<rparr>
           | _ \<Rightarrow> None)
      | _ \<Rightarrow> None)"

text \<open>The service; the provider answers with a value of its own.\<close>

definition CreateAccountHolder :: "(holder_request \<Rightarrow> nat \<Rightarrow> 'a res) \<Rightarrow> holder_request \<Rightarrow> world \<Rightarrow> 'a res" where
  "CreateAccountHolder provider req w =
     (if ku_FirstName (hr_KYC req) = [] \<or> ku_LastName (hr_KYC req) = [] \<or> hr_Email req = []
      then Inl (Sentinel ErrValidationFailed) else provider req (tick w))"

definition GetAccountHolderDetails :: "(string \<Rightarrow> nat \<Rightarrow> 'a res) \<Rightarrow> string \<Rightarrow> world \<Rightarrow> 'a res" where
  "GetAccountHolderDetails provider reference w =
     (if reference = [] then Inl (Sentinel ErrValidationFailed) else provider reference (tick w))"

definition UpdateAccountHolderKYC ::
  "(string \<Rightarrow> kyc_update \<Rightarrow> nat \<Rightarrow> 'a res) \<Rightarrow> string \<Rightarrow> kyc_update \<Rightarrow> world \<Rightarrow> 'a res" where
  "UpdateAccountHolderKYC provider reference req w =
     (if reference = [] \<or> ku_FirstName req = [] \<or> ku_LastName req = [] then Inl (Sentinel ErrValidationFailed)
      else provider reference req (tick w))"

definition GenerateFileUploadURL ::
  "(string \<times> string \<times> string \<Rightarrow> nat \<Rightarrow> 'a res) \<Rightarrow> string \<times> string \<times> string \<Rightarrow> world \<Rightarrow> 'a res" where
  "GenerateFileUploadURL provider req w =
     (case req of (reference, purpose, content) \<Rightarrow>
        if reference = [] \<or> purpose = [] \<or> content = [] then Inl (Sentinel ErrValidationFailed) else provider req (tick w))"

text \<open>The handlers do not ask who is calling.\<close>

definition HandleCreateAccountHolder ::
  "(string \<Rightarrow> bool) \<Rightarrow> (holder_request \<Rightarrow> nat \<Rightarrow> 'a res) \<Rightarrow> string \<Rightarrow> mw_claims option \<Rightarrow> world \<Rightarrow> 'a response \<times> world" where
  "HandleCreateAccountHolder is_email provider body claims =
     with_body (decode_body (CreateAccountHolderRequest is_email) body) (\<lambda>req w.
       respond (CreateAccountHolder provider req w, w) (RespondWithJSON 201))"

definition HandleGetAccountHolderDetails ::
  "(string \<Rightarrow> nat \<Rightarrow> 'a res) \<Rightarrow> string \<Rightarrow> mw_claims option \<Rightarrow> world \<Rightarrow> 'a response \<times> world" where
  "HandleGetAccountHolderDetails provider reference claims w =
     (if reference = [] then (RespondWithError (Sentinel ErrValidationFailed), w)
      else respond (GetAccountHolderDetails provider reference w, w) (RespondWithJSON 200))"

definition HandleUpdateAccountHolderKYC ::
  "(string \<Rightarrow> kyc_update \<Rightarrow> nat \<Rightarrow> 'a res) \<Rightarrow> string \<Rightarrow> string \<Rightarrow> mw_claims option \<Rightarrow> world \<Rightarrow> 'a response \<times> world" where
  "HandleUpdateAccountHolderKYC provider reference body claims w =
     (if reference = [] then (RespondWithError (Sentinel ErrValidationFailed), w)
      else with_body (decode_body UpdateAccountHolderKYCRequest body) (\<lambda>req w.
        respond (UpdateAccountHolderKYC provider reference req w, w) (RespondWithJSON 200)) w)"

definition GenerateFileUploadURLRequest :: "(string \<times> json) list \<Rightarrow> (string \<times> string \<times> string) option" where
  "GenerateFileUploadURLRequest ms =
     (case (required ''reference'' ms, required ''purpose'' ms, required ''content_type'' ms) of
        (Some r, Some p, Some c) \<Rightarrow> Some (r, p, c) | _ \<Rightarrow> None)"

definition HandleGenerateFileUploadURL ::
  "(string \<times> string \<times> string \<Rightarrow> nat \<Rightarrow> 'a res) \<Rightarrow> string \<Rightarrow> mw_claims option \<Rightarrow> world \<Rightarrow> 'a response \<times> world" where
  "HandleGenerateFileUploadURL provider body claims =
     with_body (decode_body GenerateFileUploadURLRequest body) (\<lambda>req w.
       respond (GenerateFileUploadURL provider req w, w) (RespondWithJSON 200))"

section \<open>Properties\<close>

lemma float_of_int_json: "\<bar>n\<bar> < 2 ^ 53 \<Longrightarrow> as_float (Some (JNumber (show_int n))) = Some (Fin (of_int n))"
  using parse_float_show_int [of n] by (simp add: as_float_def)

lemma paystack_reads:
  assumes "member ''amount'' data = Some (JNumber (show_int a))" and "0 < a" and "a < 2 ^ 53"
    and "member ''metadata'' data = Some (JObject m)" and "member ''business_id'' m = Some (JNumber (show_nat b))" and "b < 2 ^ 32"
  shows "paystack_amount data = a" and "paystack_business data = b"
proof -
  have "as_float (member ''amount'' data) = Some (Fin (of_int a))"
    unfolding assms(1) by (rule float_of_int_json) (use assms(2,3) in simp)
  then show "paystack_amount data = a"
    using assms(2,3) by (simp add: paystack_amount_def trunc_rat_def in64_def)
  have "as_float (member ''business_id'' m) = Some (Fin (of_int (int b)))"
    using float_of_int_json [of "int b"] assms(6) by (simp add: assms(5) show_int_def)
  then show "paystack_business data = b"
    using assms(6) by (simp add: paystack_business_def object_of_def as_object_def assms(4) trunc_rat_def)
qed


definition sample_offer :: deposit_offer where
  "sample_offer = \<lparr>do_PaymentURL = ''url'', do_Reference = ''DEP-1-0'', do_Amount = 9\<rparr>"

abbreviation "owner \<equiv> \<lparr>mc_UserID = 1, mc_BusinessID = 1, mc_Role = ''admin'', mc_EmployeeID = 0\<rparr>"

abbreviation "sample_metadata \<equiv> [(''business_id'', JNumber (show_nat 1))]"

abbreviation "sample_charge \<equiv> [(''reference'', JString ''DEP-1-0''), (''amount'', JNumber (show_int 9)),
  (''metadata'', JObject sample_metadata)]"

lemma sample_initiated:
  "HandleInitiateDeposit [] (Some (\<lambda>_ _ _ _ _ _. Inr ''url'')) ''{\"amount\":9}'' (Some owner) sample_world =
     (Reply 200 sample_offer, later sample_world)"
proof -
  have "decode_body InitiateDepositRequest ''{\"amount\":9}'' = Some (9, [])" by code_simp
  moreover have "''DEP-'' @ show_nat 1 @ ''-'' @ show_int 0 = ''DEP-1-0''" by code_simp
  ultimately show ?thesis
    by (simp add: HandleInitiateDeposit_def with_body_def with_claims_def RespondWithJSON_def sample_offer_def now_def sample_world_def)
qed


text \<open>
  Credits of the sandbox in the same second are lost. The reference of a credit is the second it is given
  in, for all businesses: one that comes when this second has a credit already is answered as a success, after
  the provider has credited the account, and changes no wallet.
\<close>

theorem sandbox_credit_lost:
  assumes "HandleSandboxCredit True kora body (Some c) w = (Reply 200 ''Virtual bank account credited successfully'', w')"
    and "faults w = []" and "''SANDBOX-CREDIT-'' @ show_int (clock w (tick w) div 1000000000) \<in> references w"
  shows "money w' = money w"
proof -
  have "\<exists>req x. RecordDeposit (mc_BusinessID c) (sandbox_notification req x (clock w (tick w)))
      (w\<lparr>tick := Suc (Suc (tick w))\<rparr>) = (Inr (), w')"
    using assms(1,2)
    by (auto simp: HandleSandboxCredit_def with_claims_def with_body_def GetWallet_def wallet_FindByBusinessID_def now_def
        RespondWithJSON_def Let_def attempt_def split: option.splits if_splits sum.splits bool.splits prod.splits)
  then obtain req x where "RecordDeposit (mc_BusinessID c) (sandbox_notification req x (clock w (tick w)))
      (w\<lparr>tick := Suc (Suc (tick w))\<rparr>) = (Inr (), w')" by blast
  then have eff: "w' = snd (RecordDeposit (mc_BusinessID c) (sandbox_notification req x (clock w (tick w)))
      (w\<lparr>tick := Suc (Suc (tick w))\<rparr>))" by simp
  have "w' = w\<lparr>tick := Suc (Suc (tick w))\<rparr>"
    unfolding eff by (rule RecordDeposit_again) (use assms in \<open>simp_all add: sandbox_notification_def references_def\<close>)
  then show ?thesis by simp
qed

end
