(* ===== verification/Payroll_Api.thy ===== *)
theory Payroll_Api
  imports Wallet_Api Payroll_Service
begin

text \<open>
  The handlers of payroll runs, \<^verbatim>\<open>internal/api/handler/payroll_handler.go\<close>, with the
  requests and the adjustments they carry. An operation that orders payments may not return, and then
  neither does its handler.
\<close>

section \<open>Requests (payroll_request.go)\<close>

text \<open>
  A field of type \<^verbatim>\<open>map[K][]T\<close>: the members of an object, whose keys have to be read;
  of members with the same key the last counts.
\<close>

definition json_list :: "(json \<Rightarrow> 'a option) \<Rightarrow> json \<Rightarrow> 'a list option" where
  "json_list f v = (case v of JArray vs \<Rightarrow> those (map f vs) | JNull \<Rightarrow> Some [] | _ \<Rightarrow> None)"

fun merge_entries :: "('k \<times> 'v) list option \<Rightarrow> (string \<Rightarrow> 'k option) \<Rightarrow> (json \<Rightarrow> 'v option) \<Rightarrow> json list \<Rightarrow>
  ('k \<times> 'v) list option option" where
  "merge_entries m fk fv [] = Some m"
| "merge_entries m fk fv (v # vs) =
     (case v of JNull \<Rightarrow> merge_entries None fk fv vs
      | JObject ms \<Rightarrow>
          (case those (map (\<lambda>(k, v). Option.bind (fk k) (\<lambda>k. map_option (Pair k) (fv v))) ms) of
             None \<Rightarrow> None
           | Some new \<Rightarrow> merge_entries (Some (fold (\<lambda>(k, v). AList.update k v) new (case_option [] id m))) fk fv vs)
      | _ \<Rightarrow> None)"

definition entries_field :: "(string \<Rightarrow> 'k option) \<Rightarrow> (json \<Rightarrow> 'v option) \<Rightarrow> string \<Rightarrow> (string \<times> json) list \<Rightarrow>
  ('k \<times> 'v) list option option" where
  "entries_field fk fv k ms = merge_entries None fk fv (named k ms)"

definition adjustment_item :: "string \<Rightarrow> string \<Rightarrow> json \<Rightarrow> adjustment option" where
  "adjustment_item name kind v =
     Option.bind (object_members v) (\<lambda>ms.
       (case (string_field name ms, int_field ''amount'' ms, string_field ''description'' ms, string_field kind ms) of
          (Some n, Some a, Some d, Some c) \<Rightarrow>
            Some \<lparr>adj_ItemName = n, adj_Amount = a, adj_Description = d, adj_ComponentType = c\<rparr>
        | _ \<Rightarrow> None))"

definition AdjustmentItem :: "json \<Rightarrow> adjustment option" where
  "AdjustmentItem = adjustment_item ''item_name'' ''component_type''"

text \<open>The struct that an amendment is decoded into has no tags: its members are named as its fields.\<close>

definition EmployeeAdjustment :: "json \<Rightarrow> adjustment option" where
  "EmployeeAdjustment = adjustment_item ''ItemName'' ''ComponentType''"

definition CreatePayrollRunRequest ::
  "(string \<times> json) list \<Rightarrow> (string \<times> (string \<times> adjustment list) list option) option" where
  "CreatePayrollRunRequest ms =
     (case (string_field ''period'' ms, entries_field Some (json_list AdjustmentItem) ''adjustments'' ms) of
        (Some p, Some a) \<Rightarrow> Some (p, a) | _ \<Rightarrow> None)"

definition uint_key :: "string \<Rightarrow> nat option" where
  "uint_key k = (if k = [] \<or> \<not> list_all is_digit k \<or> 2 ^ 64 \<le> digits_value k then None else Some (digits_value k))"

definition AmendPayrollRunRequest :: "(string \<times> json) list \<Rightarrow> (nat \<times> adjustment list) list option" where
  "AmendPayrollRunRequest ms =
     map_option (case_option [] id) (entries_field uint_key (json_list EmployeeAdjustment) ''adjustments'' ms)"

section \<open>Creating a run\<close>

text \<open>
  \<^verbatim>\<open>time.Parse\<close> with the layouts \<^verbatim>\<open>2006-01-02\<close> and
  \<^verbatim>\<open>2006-01\<close>: year, month and day. Of a day a run keeps the month.
\<close>

definition parse_date :: "string \<Rightarrow> (int \<times> nat \<times> nat) option" where
  "parse_date s =
     (if length s \<noteq> 10 \<or> s ! 4 \<noteq> CHR ''-'' \<or> s ! 7 \<noteq> CHR ''-'' then None
      else (case (number_in 0 9999 (column_of 0 4 s), number_in 1 12 (column_of 5 2 s)) of
         (Some y, Some m) \<Rightarrow> map_option (\<lambda>d. (int y, m, d)) (number_in 1 (month_days (int y) m) (column_of 8 2 s))
       | _ \<Rightarrow> None))"

definition parse_period :: "string \<Rightarrow> period option" where
  "parse_period s =
     (if length s = 7 \<and> s ! 4 = CHR ''-'' then
        (case (number_in 0 9999 (column_of 0 4 s), number_in 1 12 (column_of 5 2 s)) of
           (Some y, Some m) \<Rightarrow> Some (int y, m) | _ \<Rightarrow> None)
      else map_option (\<lambda>(y, m, d). (y, m)) (parse_date s))"

text \<open>The month of a time, in the zone of the server.\<close>

definition current_period :: "int \<Rightarrow> int \<Rightarrow> period" where
  "current_period offset t = (Year (t, offset), nat (Month (t, offset)))"

text \<open>
  An identifier is a number, taken for the identifier of an employee, or an address. Numbers that are no
  employee's are taken all the same, unknown addresses are dropped.
\<close>

definition resolve :: "employee list \<Rightarrow> string \<Rightarrow> nat option" where
  "resolve es identifier =
     (case parse_id identifier of
        Some n \<Rightarrow> Some (case map_of (rev (map (\<lambda>e. (show_nat (e_ID e), e_ID e)) es)) identifier of None \<Rightarrow> n | Some i \<Rightarrow> i)
      | None \<Rightarrow> map_of (rev (map (\<lambda>e. (e_Email e, e_ID e)) es)) identifier)"

text \<open>A map is ranged over in any order, which is an argument.\<close>

definition resolve_adjustments ::
  "(string list \<Rightarrow> string list) \<Rightarrow> employee list \<Rightarrow> (string \<times> adjustment list) list \<Rightarrow> nat \<Rightarrow> adjustment list" where
  "resolve_adjustments order es req =
     fold (\<lambda>k adjs. case (resolve es k, map_of req k) of
         (Some i, Some items) \<Rightarrow> adjs(i := items) | _ \<Rightarrow> adjs)
       (order (map fst req)) (\<lambda>_. [])"

definition request_adjustments ::
  "(string list \<Rightarrow> string list) \<Rightarrow> nat \<Rightarrow> (string \<times> adjustment list) list option \<Rightarrow> world \<Rightarrow> (nat \<Rightarrow> adjustment list) \<times> world" where
  "request_adjustments order bid req w =
     (case req of None \<Rightarrow> ((\<lambda>_. []), w)
      | Some req \<Rightarrow> attempt (employee_FindByBusinessID bid w)
          (\<lambda>_ w. (resolve_adjustments order [] req, w)) (\<lambda>es w. (resolve_adjustments order es req, w)))"

definition request_period :: "int \<Rightarrow> string \<Rightarrow> world \<Rightarrow> period option \<times> world" where
  "request_period offset s w =
     (if s = [] then (let (t, w) = now w in (Some (current_period offset t), w)) else (parse_period s, w))"

definition HandleCreatePayrollRun ::
  "payroll_service \<Rightarrow> int \<Rightarrow> (string list \<Rightarrow> string list) \<Rightarrow> string \<Rightarrow> mw_claims option \<Rightarrow> world \<Rightarrow> payroll_run response \<times> world" where
  "HandleCreatePayrollRun s offset order body claims =
     with_body (decode_body CreatePayrollRunRequest body) (\<lambda>(p, adjs). with_claims ErrInternalServer claims (\<lambda>c w.
       (case request_period offset p w of
          (None, w) \<Rightarrow> (RespondWithError (Sentinel ErrValidationFailed), w)
        | (Some period, w) \<Rightarrow>
            (let (adjs, w) = request_adjustments order (mc_BusinessID c) adjs w
             in respond (CreateAndStorePayrollRun (ps_loans s) (mc_BusinessID c) period adjs w) (RespondWithJSON 201)))))"

section \<open>Requests about a run\<close>

text \<open>The runs of the handlers that name a run: the identifier, then the claims.\<close>

definition about_run ::
  "string \<Rightarrow> mw_claims option \<Rightarrow> (nat \<Rightarrow> mw_claims \<Rightarrow> world \<Rightarrow> ('a res \<times> world) option) \<Rightarrow> nat \<Rightarrow> world \<Rightarrow> ('a response \<times> world) option" where
  "about_run runID claims f code w =
     (case parse_id runID of None \<Rightarrow> Some (RespondWithError (Sentinel ErrValidationFailed), w)
      | Some i \<Rightarrow> (case claims of None \<Rightarrow> Some (RespondWithError (Sentinel ErrInternalServer), w)
        | Some c \<Rightarrow> map_option (\<lambda>r. respond r (RespondWithJSON code)) (f i c w)))"

definition HandleSubmitForApproval ::
  "payroll_service \<Rightarrow> string \<Rightarrow> mw_claims option \<Rightarrow> world \<Rightarrow> (payroll_run response \<times> world) option" where
  "HandleSubmitForApproval s runID claims = about_run runID claims (\<lambda>i c. SubmitForApproval s i (mc_UserID c)) 202"

definition HandleApprovePayrollRun ::
  "payroll_service \<Rightarrow> string \<Rightarrow> mw_claims option \<Rightarrow> world \<Rightarrow> (payroll_run response \<times> world) option" where
  "HandleApprovePayrollRun s runID claims = about_run runID claims (\<lambda>i c. ApprovePayrollRun s i (mc_UserID c)) 200"

definition HandleProcessPayrollRun ::
  "payroll_service \<Rightarrow> string \<Rightarrow> mw_claims option \<Rightarrow> world \<Rightarrow> (payroll_run response \<times> world) option" where
  "HandleProcessPayrollRun s runID claims =
     about_run runID claims (\<lambda>i c. ProcessPayrollRunInstantly s i (mc_BusinessID c)) 200"

text \<open>A request with a reason, which the service requires.\<close>

definition with_reason ::
  "(nat \<Rightarrow> nat \<Rightarrow> string \<Rightarrow> world \<Rightarrow> payroll_run res \<times> world) \<Rightarrow> string \<Rightarrow> string \<Rightarrow> mw_claims option \<Rightarrow> world \<Rightarrow>
   payroll_run response \<times> world" where
  "with_reason f runID body claims =
     with_id runID (\<lambda>i. with_claims ErrInternalServer claims (\<lambda>c. with_body (decode_body (string_field ''reason'') body)
       (\<lambda>reason w. respond (f i (mc_UserID c) reason w) (RespondWithJSON 200))))"

definition HandleRejectPayrollRun :: "string \<Rightarrow> string \<Rightarrow> mw_claims option \<Rightarrow> world \<Rightarrow> payroll_run response \<times> world" where
  "HandleRejectPayrollRun = with_reason RejectPayrollRun"

definition HandleReversePayrollRun :: "string \<Rightarrow> string \<Rightarrow> mw_claims option \<Rightarrow> world \<Rightarrow> payroll_run response \<times> world" where
  "HandleReversePayrollRun = with_reason ReversePayrollRun"

definition HandleAmendPayrollRun ::
  "payroll_service \<Rightarrow> string \<Rightarrow> string \<Rightarrow> mw_claims option \<Rightarrow> world \<Rightarrow> payroll_run response \<times> world" where
  "HandleAmendPayrollRun s runID body claims =
     with_id runID (\<lambda>i. with_claims ErrInternalServer claims (\<lambda>c. with_body (decode_body AmendPayrollRunRequest body)
       (\<lambda>adjs w. respond (AmendPayrollRun s i (mc_BusinessID c) (\<lambda>e. case_option [] id (map_of adjs e)) w)
         (RespondWithJSON 200))))"

definition HandleListPayrollRuns :: "mw_claims option \<Rightarrow> world \<Rightarrow> payroll_run list response \<times> world" where
  "HandleListPayrollRuns claims =
     with_claims ErrInternalServer claims (\<lambda>c w. respond (Payroll_Service.ListByBusinessID (mc_BusinessID c) w) (RespondWithJSON 200))"

definition HandleGetPayrollRun :: "string \<Rightarrow> mw_claims option \<Rightarrow> world \<Rightarrow> payroll_run response \<times> world" where
  "HandleGetPayrollRun runID claims =
     with_id runID (\<lambda>i. with_claims ErrInternalServer claims (\<lambda>c w. respond (GetByID i (mc_BusinessID c) w) (RespondWithJSON 200)))"

record run_status =
  st_ID :: nat
  st_Status :: PayrollStatus
  st_ProcessedAt :: "int option"

definition HandleGetPayrollStatus :: "string \<Rightarrow> mw_claims option \<Rightarrow> world \<Rightarrow> run_status response \<times> world" where
  "HandleGetPayrollStatus runID claims =
     with_id runID (\<lambda>i. with_claims ErrInternalServer claims (\<lambda>c w.
       respond (GetByID i (mc_BusinessID c) w)
         (\<lambda>r. RespondWithJSON 200 \<lparr>st_ID = pr_ID r, st_Status = pr_Status r, st_ProcessedAt = pr_ProcessedAt r\<rparr>)))"

text \<open>Reads a configuration and stores nothing.\<close>

definition HandleUpdatePayrollConfig :: "string \<Rightarrow> mw_claims option \<Rightarrow> world \<Rightarrow> nat response \<times> world" where
  "HandleUpdatePayrollConfig body claims =
     with_body (decode_body (\<lambda>ms. case (pointer to_bool ''requires_approval'' ms, pointer to_bool ''auto_process'' ms) of
         (Some a, Some p) \<Rightarrow> Some (a, p) | _ \<Rightarrow> None) body)
       (\<lambda>_. with_claims ErrInternalServer claims (\<lambda>c w. (RespondWithJSON 200 (mc_BusinessID c), w)))"

section \<open>What a request can change\<close>

text \<open>
  The runs of other businesses are those listed, and the run \<open>i\<close>, if there is one, is of this business.
\<close>

definition own_run :: "nat \<Rightarrow> nat \<Rightarrow> payroll_run list \<Rightarrow> world \<Rightarrow> bool" where
  "own_run i b others w \<longleftrightarrow>
     filter (\<lambda>r. pr_BusinessID r \<noteq> b) (runs w) = others \<and> (\<forall>r \<in> set (runs w). pr_ID r = i \<longrightarrow> pr_BusinessID r = b)"

lemma own_run_frame: "runs w' = runs w \<Longrightarrow> own_run i b others w' = own_run i b others w"
  by (simp add: own_run_def)

lemma own_run_writes [simp]:
  "own_run i b others (w\<lparr>faults := fs\<rparr>) = own_run i b others w" "own_run i b others (w\<lparr>tick := n\<rparr>) = own_run i b others w"
  "own_run i b others (w\<lparr>scheduled := js\<rparr>) = own_run i b others w"
  "own_run i b others (updateLoanBalances ens w) = own_run i b others w"
  by (simp_all add: own_run_def)

lemma own_run_update:
  assumes "own_run i b others w" and "pr_ID r = i" and "pr_BusinessID r = b"
  shows "own_run i b others (w\<lparr>faults := fs, runs := map (\<lambda>u. if pr_ID u = pr_ID r then merge_run n r u else u) (runs w)\<rparr>)"
proof -
  have "filter (\<lambda>u. pr_BusinessID u \<noteq> b) (map (\<lambda>u. if pr_ID u = i then merge_run n r u else u) rs) =
      filter (\<lambda>u. pr_BusinessID u \<noteq> b) rs" if "\<forall>u \<in> set rs. pr_ID u = i \<longrightarrow> pr_BusinessID u = b" for rs
    using that assms(3) by (induction rs) (auto simp: merge_run_def)
  then show ?thesis using assms by (auto simp: own_run_def merge_run_def)
qed

lemma wp_own_update:
  assumes "own_run i b others w" and "pr_ID r = i" and "pr_BusinessID r = b"
    and "\<And>x w'. own_run i b others w' \<Longrightarrow> Q x w'"
  shows "post Q (payroll_Update r w)"
  by (rule wp_payroll_Update) (simp_all add: assms(1,4) own_run_update [OF assms(1-3)])

lemma own_frame: "own_run i b others w \<Longrightarrow> runs (snd r) = runs w \<Longrightarrow> (\<And>x w'. own_run i b others w' \<Longrightarrow> Q x w') \<Longrightarrow> post Q r"
  unfolding post_def by (blast dest: own_run_frame [THEN iffD2])

text \<open>
  \<open>tenant\<close>: the same before it is known whose the run is. Identifiers are unique, so all rows of one
  number are of one business.
\<close>

definition tenant :: "nat \<Rightarrow> nat \<Rightarrow> payroll_run list \<Rightarrow> world \<Rightarrow> bool" where
  "tenant i b others w \<longleftrightarrow> own_run i b others w \<or>
     (filter (\<lambda>r. pr_BusinessID r \<noteq> b) (runs w) = others \<and> (\<forall>r \<in> set (runs w). pr_ID r = i \<longrightarrow> pr_BusinessID r \<noteq> b))"

lemma own_tenant: "own_run i b others w \<Longrightarrow> tenant i b others w"
  by (simp add: tenant_def)

lemma tenant_frame: "runs w' = runs w \<Longrightarrow> tenant i b others w' = tenant i b others w"
  by (simp add: tenant_def own_run_def)

lemma tenant_writes [simp]:
  "tenant i b others (w\<lparr>faults := fs\<rparr>) = tenant i b others w" "tenant i b others (w\<lparr>tick := n\<rparr>) = tenant i b others w"
  by (simp_all add: tenant_def own_run_def)

lemma tenant_start:
  assumes "runs_numbered w"
  shows "tenant i b (filter (\<lambda>r. pr_BusinessID r \<noteq> b) (runs w)) w"
proof -
  have "distinct (map pr_ID (runs w))" using assms by (rule runs_numbered_distinct)
  then have "u = r" if "r \<in> set (runs w)" "u \<in> set (runs w)" "pr_ID u = pr_ID r" for u r
    using that by (auto simp: distinct_map inj_on_def)
  then show ?thesis by (auto simp: tenant_def own_run_def)
qed

lemma tenant_find:
  assumes "tenant i b others w" and "0 < b" and "\<And>e fs. Q (Inl e) (w\<lparr>faults := fs\<rparr>)"
    and "\<And>run fs. own_run i b others w \<Longrightarrow> pr_ID run = i \<Longrightarrow> pr_BusinessID run = b \<Longrightarrow> Q (Inr run) (w\<lparr>faults := fs\<rparr>)"
  shows "post Q (payroll_FindByID i b w)"
proof (rule wp_finders(1))
  show "Q (Inl e) (w\<lparr>faults := fs\<rparr>)" for e fs by (rule assms(3))
  fix r fs assume "r \<in> set (runs w)" "pr_ID r = i \<and> (0 < b \<longrightarrow> pr_BusinessID r = b)"
  then show "Q (Inr (preload w r)) (w\<lparr>faults := fs\<rparr>)"
    using assms(1,2) by (intro assms(4)) (auto simp: tenant_def)
qed

lemma tenant_opost:
  assumes "tenant i b others w" and "0 < b" and "\<And>e fs. opost Q (h e (w\<lparr>faults := fs\<rparr>))"
    and "\<And>run fs. own_run i b others w \<Longrightarrow> pr_ID run = i \<Longrightarrow> pr_BusinessID run = b \<Longrightarrow> opost Q (k run (w\<lparr>faults := fs\<rparr>))"
  shows "opost Q (attempt (payroll_FindByID i b w) h k)"
  using assms by (intro opost_attempt tenant_find) simp_all

lemma tenant_post:
  assumes "tenant i b others w" and "0 < b" and "c = b" and "\<And>e fs. post Q (h e (w\<lparr>faults := fs\<rparr>))"
    and "\<And>run fs. own_run i b others w \<Longrightarrow> pr_ID run = i \<Longrightarrow> pr_BusinessID run = b \<Longrightarrow> post Q (k run (w\<lparr>faults := fs\<rparr>))"
  shows "post Q (attempt (payroll_FindByID i c w) h k)"
  using assms by (auto intro!: wp_attempt tenant_find)

lemma own_opost:
  assumes "own_run i b others w" "pr_ID r = i" "pr_BusinessID r = b"
    and "\<And>e w'. own_run i b others w' \<Longrightarrow> opost Q (h e w')" and "\<And>w'. own_run i b others w' \<Longrightarrow> opost Q (k () w')"
  shows "opost Q (attempt (payroll_Update r w) h k)"
  using assms by (intro opost_attempt wp_own_update [OF assms(1-3)]) simp_all

lemma own_post:
  assumes "own_run i b others w" "pr_ID r = i" "pr_BusinessID r = b"
    and "\<And>e w'. own_run i b others w' \<Longrightarrow> post Q (h e w')" and "\<And>w'. own_run i b others w' \<Longrightarrow> post Q (k () w')"
  shows "post Q (attempt (payroll_Update r w) h k)"
  using assms by (intro wp_attempt wp_own_update [OF assms(1-3)]) simp_all

text \<open>The business of a user is that of the row in the table of users.\<close>

definition user_of :: "nat \<Rightarrow> nat \<Rightarrow> world \<Rightarrow> bool" where
  "user_of uid b w \<longleftrightarrow> (\<forall>u \<in> set (users w). u_ID u = uid \<longrightarrow> u_BusinessID u = b)"

lemma user_opost:
  assumes "user_of uid b w" and "\<And>e fs. opost Q (h e (w\<lparr>faults := fs\<rparr>))"
    and "\<And>u fs. u_BusinessID u = b \<Longrightarrow> opost Q (k u (w\<lparr>faults := fs\<rparr>))"
  shows "opost Q (attempt (user_FindByID uid w) h k)"
  using assms by (auto intro!: opost_attempt wp_finders(2) simp: user_of_def)

lemma user_post:
  assumes "user_of uid b w" and "\<And>e fs. post Q (h e (w\<lparr>faults := fs\<rparr>))"
    and "\<And>u fs. u_BusinessID u = b \<Longrightarrow> post Q (k u (w\<lparr>faults := fs\<rparr>))"
  shows "post Q (attempt (user_FindByID uid w) h k)"
  using assms by (auto intro!: wp_attempt wp_finders(2) simp: user_of_def)

lemma finish_own:
  assumes "own_run (pr_ID run) (pr_BusinessID run) others w"
  shows "post (\<lambda>_. own_run (pr_ID run) (pr_BusinessID run) others) (finish_processing s bid run resp w)"
  unfolding finish_processing_def Let_def
proof (rule wp_case, rule own_frame [OF assms])
  show "runs (snd (verifyTransfersInDatabase bid (pr_ID run) n w)) = runs w" for n by (simp add: runs_payments)
  fix ok w1 assume w1: "own_run (pr_ID run) (pr_BusinessID run) others w1"
  show "post (\<lambda>_. own_run (pr_ID run) (pr_BusinessID run) others)
    (case conclude_run run (bp_SuccessfulTransfers resp = length (buildTransferRequests run) \<or> ok) w1 of
       (run, w) \<Rightarrow> attempt (payroll_Update run w)
           (\<lambda>e w. (Inl (Wrap ''failed to update payroll run: '' e []), w))
           (\<lambda>_ w. (Inr run, if pr_Status run = StatusCompleted \<and> ps_loans s
                            then updateLoanBalances (pr_Entries run) w else w)))"
    using w1 by (auto simp: conclude_run_def now_def intro!: wp_attempt wp_own_update [OF w1] wp_own_update)
qed

lemma process_loaded_own:
  assumes "own_run (pr_ID run) (pr_BusinessID run) others w"
  shows "opost (\<lambda>_. own_run (pr_ID run) (pr_BusinessID run) others) (process_loaded s bid run w)"
proof -
  obtain run' w1 where load: "batchLoadEmployeesForEntries run bid w = (run', w1)" by fastforce
  have run': "pr_ID run' = pr_ID run" "pr_BusinessID run' = pr_BusinessID run"
    using attach_fields [of run bid w] load by simp_all
  have w1: "own_run (pr_ID run') (pr_BusinessID run') others w1"
    using assms runs_payments(3) [of run bid w] own_run_frame [of w1 w] by (simp add: load run')
  show ?thesis
  proof (cases "ExecuteBatchTransfer (ps_transfers s) bid (salary_batch run' bid) w1")
    case None
    then show ?thesis using w1 by (auto simp: process_loaded_def load run')
  next
    case (Some y)
    obtain resp w2 where y: "y = (resp, w2)" by fastforce
    have "runs w2 = runs w1" using runs_payments(1) [OF Some [unfolded y]] by simp
    then have "own_run (pr_ID run') (pr_BusinessID run') others w2" using w1 own_run_frame by blast
    from finish_own [OF this, of s bid resp]
    show ?thesis using w1 by (auto simp: process_loaded_def load Some y run')
  qed
qed

lemma process_own:
  assumes "tenant i b others w" and "0 < b"
  shows "opost (\<lambda>_. tenant i b others) (ProcessPayrollRunInstantly s i b w)"
  unfolding ProcessPayrollRunInstantly_def Let_def
proof (rule tenant_opost [OF assms], goal_cases)
  case (2 run fs)
  let ?run = "run\<lparr>pr_Status := StatusProcessing\<rparr>"
  have "opost (\<lambda>_. tenant i b others) (attempt (payroll_Update ?run (w\<lparr>faults := fs\<rparr>))
      (\<lambda>e w. Some (Inl (Wrap ''failed to update payroll run status: '' e []), w)) (\<lambda>_ w. process_loaded s b ?run w))"
  proof (rule own_opost [of i b others])
    fix w1 assume "own_run i b others w1"
    then show "opost (\<lambda>_. tenant i b others) (process_loaded s b ?run w1)"
      using 2 process_loaded_own [of ?run others w1 s b] by (auto elim: opost_mono simp: own_tenant)
  qed (use 2 own_tenant in auto)
  then show ?case using assms by simp
qed (use assms in simp)

lemma process_run_own:
  "tenant i b others w \<Longrightarrow> 0 < b \<Longrightarrow> pr_ID run = i \<Longrightarrow> opost (\<lambda>_. tenant i b others) (process_run s run b w)"
  unfolding process_run_def by (simp, rule tenant_opost [of i b others]) (simp_all add: process_own own_tenant)

lemma SchedulePayout_own: "post (\<lambda>_ w'. own_run i b others w' = own_run i b others w) (SchedulePayout run w)"
  unfolding SchedulePayout_def by (auto intro!: wp_attempt wp_statement)

lemma save_own:
  "own_run i b others w \<Longrightarrow> pr_ID run = i \<Longrightarrow> pr_BusinessID run = b \<Longrightarrow> opost (\<lambda>_. tenant i b others) (save_submitted run w)"
  unfolding save_submitted_def by (rule own_opost) (auto simp: own_tenant)

lemma submit_own:
  assumes "own_run i b others w" and "pr_ID run = i" and "pr_BusinessID run = b" and "0 < b"
  shows "opost (\<lambda>_. tenant i b others) (submit_run s b bs run w)"
proof -
  obtain run' w1 where load: "batchLoadEmployeesForEntries run b w = (run', w1)" by fastforce
  have run': "pr_ID run' = i" "pr_BusinessID run' = b"
    using attach_fields [of run b w] load assms by simp_all
  have w1: "own_run i b others w1"
    using assms runs_payments(3) [of run b w] own_run_frame [of w1 w] by (simp add: load)
  have "opost (\<lambda>_. tenant i b others) (attempt (SchedulePayout (run'\<lparr>pr_Status := StatusApproved\<rparr>) w1)
      (\<lambda>e w. Some (Inl (Wrap ''failed to schedule payout: '' e []), w)) (\<lambda>_ w. save_submitted (run'\<lparr>pr_Status := StatusApproved\<rparr>) w))"
    by (rule opost_attempt, rule post_mono, rule SchedulePayout_own [of i b others])
      (use w1 run' in \<open>auto intro!: save_own simp: own_tenant\<close>)
  moreover have "opost (\<lambda>_. tenant i b others) (save_submitted (run'\<lparr>pr_Status := StatusPendingApproval\<rparr>) w1)"
    by (rule save_own) (use w1 run' in auto)
  ultimately show ?thesis
    using w1 run' assms(4) by (auto simp: submit_run_def load Let_def own_tenant process_run_own split: option.splits)
qed

lemma Submit_own:
  assumes "tenant i b others w" and "0 < b" and "user_of uid b w"
  shows "opost (\<lambda>_. tenant i b others) (SubmitForApproval s i uid w)"
  unfolding SubmitForApproval_def
proof (rule user_opost [OF assms(3)], goal_cases)
  case (2 user fs)
  have "tenant i b others (w\<lparr>faults := fs\<rparr>)" using assms(1) by simp
  then show ?case unfolding 2
  proof (rule tenant_opost [OF _ assms(2)], goal_cases)
    case (2 run fs')
    then have "opost (\<lambda>_. tenant i b others)
        (attempt (business_FindByID b (w\<lparr>faults := fs, faults := fs'\<rparr>))
          (\<lambda>e w. Some (Inl (Wrap ''failed to fetch business: '' e []), w)) (\<lambda>bs w. submit_run s b bs run w))"
      using assms by (intro opost_reads submit_own) simp_all
    then show ?case using assms by simp
  qed (use assms in simp)
qed (use assms in simp)

lemma approve_own:
  assumes "own_run i b others w" and "pr_ID run = i" and "pr_BusinessID run = b" and "0 < b"
  shows "opost (\<lambda>_. tenant i b others) (approve_run s b bs run w)"
  unfolding approve_run_def Let_def
proof (rule own_opost [OF assms(1)], goal_cases)
  case (4 w1)
  let ?run = "run\<lparr>pr_Status := StatusApproved\<rparr>"
  have "opost (\<lambda>_. tenant i b others) (attempt (SchedulePayout ?run w1)
      (\<lambda>e w. case payroll_Update (?run\<lparr>pr_Status := StatusPendingApproval\<rparr>) w of
               (_, w) \<Rightarrow> Some (Inl (Wrap ''could not schedule payout job: '' e []), w))
      (\<lambda>_ w. Some (Inr ?run, w)))"
  proof (rule opost_attempt, rule post_mono, rule SchedulePayout_own [of i b others], goal_cases)
    case (1 r w2)
    then have w2: "own_run i b others w2" using 4 by simp
    have "post (\<lambda>_. own_run i b others) (payroll_Update (?run\<lparr>pr_Status := StatusPendingApproval\<rparr>) w2)"
      by (rule wp_own_update [OF w2]) (use assms in auto)
    then show ?case using w2 by (auto simp: own_tenant post_def split: prod.splits)
  qed
  then show ?case using 4 assms by (simp add: process_run_own own_tenant)
qed (use assms in \<open>simp_all add: own_tenant\<close>)

lemma Approve_own:
  assumes "tenant i b others w" and "0 < b" and "user_of uid b w"
  shows "opost (\<lambda>_. tenant i b others) (ApprovePayrollRun s i uid w)"
  unfolding ApprovePayrollRun_def
proof (rule user_opost [OF assms(3)], goal_cases)
  case (2 user fs)
  have "tenant i b others (w\<lparr>faults := fs\<rparr>)" using assms(1) by simp
  then show ?case unfolding 2
  proof (rule tenant_opost [OF _ assms(2)], goal_cases)
    case (2 run fs')
    then have "opost (\<lambda>_. tenant i b others)
        (attempt (business_FindByID b (w\<lparr>faults := fs, faults := fs'\<rparr>))
          (\<lambda>e w. Some (Inl (Wrap ''failed to fetch business: '' e []), w)) (\<lambda>bs w. approve_run s b bs run w))"
      using assms by (intro opost_reads approve_own) simp_all
    then show ?case using assms by simp
  qed (use assms in simp)
qed (use assms in simp)

lemma Reverse_own:
  assumes "tenant i b others w" and "0 < b" and "user_of uid b w"
  shows "post (\<lambda>_. tenant i b others) (ReversePayrollRun i uid reason w)"
  unfolding ReversePayrollRun_def Let_def
  by (intro wp_if user_post [OF assms(3)] tenant_post [of i b others, OF _ assms(2)] wp_case wp_now own_post [of i b others])
    (use assms in \<open>auto simp: own_tenant\<close>)

lemma Reject_own:
  assumes "tenant i b others w" and "0 < b" and "user_of uid b w"
  shows "post (\<lambda>_. tenant i b others) (RejectPayrollRun i uid reason w)"
  unfolding RejectPayrollRun_def Let_def
  by (intro wp_if user_post [OF assms(3)] tenant_post [of i b others, OF _ assms(2)] wp_case wp_now own_post [of i b others] wp_lists(1))
    (use assms in \<open>auto simp: own_tenant\<close>)

lemma Amend_own:
  assumes "tenant i b others w" and "0 < b"
  shows "post (\<lambda>_. tenant i b others) (AmendPayrollRun s i b adjs w)"
  unfolding AmendPayrollRun_def Let_def
proof (rule tenant_post [OF assms refl], goal_cases)
  case (2 run fs)
  have "post (\<lambda>_. tenant i b others)
     (attempt (CalculatePayrollRun (ps_loans s) b (pr_Period run) adjs (w\<lparr>faults := fs\<rparr>))
       (\<lambda>e w. (Inl (Wrap ''failed to recalculate payroll: '' e []), w))
       (\<lambda>new w. case now w of (x, w) \<Rightarrow>
          attempt (payroll_Update (amended run new) w)
            (\<lambda>e w. (Inl (Wrap ''failed to save amended payroll: '' e []), w))
            (\<lambda>_ w. (Inr (amended run new), w))))"
    by (rule wp_attempt, rule own_frame [of i b others "w\<lparr>faults := fs\<rparr>"])
      (use 2 in \<open>auto intro!: wp_case wp_now own_post [of i b others] simp: runs_payments own_tenant\<close>)
  then show ?case using assms by simp
qed (use assms in simp)

lemma Create_own:
  "post (\<lambda>_ w'. filter (\<lambda>r. pr_BusinessID r \<noteq> b) (runs w') = filter (\<lambda>r. pr_BusinessID r \<noteq> b) (runs w))
    (CreateAndStorePayrollRun lr b period adjs w)"
proof -
  let ?c = "CalculatePayrollRun lr b period adjs w"
  have same: "runs (snd ?c) = runs w" by (rule runs_payments(4))
  have "post (\<lambda>_ w'. filter (\<lambda>r. pr_BusinessID r \<noteq> b) (runs w') = filter (\<lambda>r. pr_BusinessID r \<noteq> b) (runs w))
      (payroll_Create r (snd ?c))" if "fst ?c = Inr r" for r
  proof -
    have "pr_BusinessID r = b"
      using that calculate_outcome [of b w lr period adjs] by (simp add: post_def run_ok_def)
    then show ?thesis by (intro wp_payroll_Create) (simp_all add: same)
  qed
  then show ?thesis
    unfolding CreateAndStorePayrollRun_def
    by (cases ?c; cases "fst ?c") (use same in \<open>auto intro!: wp_attempt elim!: post_mono\<close>)
qed

section \<open>Requests of one business\<close>

datatype run_request =
    CreateRun string
  | SubmitRun string
  | ApproveRun string
  | RejectRun string string
  | AmendRun string string
  | ReverseRun string string
  | ProcessRun string

text \<open>The world after a request; None when it does not return.\<close>

fun request_effect :: "payroll_service \<Rightarrow> int \<Rightarrow> (string list \<Rightarrow> string list) \<Rightarrow> mw_claims option \<Rightarrow> run_request \<Rightarrow> world \<Rightarrow> world option" where
  "request_effect s offset order claims (CreateRun body) w = Some (snd (HandleCreatePayrollRun s offset order body claims w))"
| "request_effect s offset order claims (SubmitRun runID) w = map_option snd (HandleSubmitForApproval s runID claims w)"
| "request_effect s offset order claims (ApproveRun runID) w = map_option snd (HandleApprovePayrollRun s runID claims w)"
| "request_effect s offset order claims (RejectRun runID body) w = Some (snd (HandleRejectPayrollRun runID body claims w))"
| "request_effect s offset order claims (AmendRun runID body) w = Some (snd (HandleAmendPayrollRun s runID body claims w))"
| "request_effect s offset order claims (ReverseRun runID body) w = Some (snd (HandleReversePayrollRun runID body claims w))"
| "request_effect s offset order claims (ProcessRun runID) w = map_option snd (HandleProcessPayrollRun s runID claims w)"

abbreviation "runs_of_others b w \<equiv> filter (\<lambda>r. pr_BusinessID r \<noteq> b) (runs w)"

lemma tenant_others: "tenant i b others w \<Longrightarrow> runs_of_others b w = others"
  by (auto simp: tenant_def own_run_def)

lemma respond_world: "snd (respond (r, w) h) = w"
  by (cases r) (simp_all add: respond_def)

lemma about_run_others:
  assumes "\<And>i c. claims = Some c \<Longrightarrow> opost (\<lambda>_. tenant i b (runs_of_others b w)) (f i c w)"
    and "map_option snd (about_run runID claims f code w) = Some w'"
  shows "runs_of_others b w' = runs_of_others b w"
proof -
  have found: "runs_of_others b w' = runs_of_others b w" if run: "parse_id runID = Some i" and claims: "claims = Some c" for i c
  proof -
    obtain r v where f: "f i c w = Some (r, v)" and "w' = snd (respond (r, v) (RespondWithJSON code))"
      using assms(2) run claims by (cases "f i c w") (auto simp: about_run_def)
    then have "w' = v" by (simp only: respond_world)
    then show ?thesis using opostD [OF assms(1) [OF claims] f] tenant_others by blast
  qed
  have refused: "w' = w" if "parse_id runID = None \<or> claims = None"
    using assms(2) that by (auto simp: about_run_def split: option.splits)
  show ?thesis
  proof (cases "parse_id runID = None \<or> claims = None")
    case False
    then show ?thesis by (auto intro: found)
  qed (simp add: refused)
qed

lemma with_reason_others:
  assumes "\<And>i c reason. claims = Some c \<Longrightarrow> post (\<lambda>_. tenant i b (runs_of_others b w)) (f i (mc_UserID c) reason w)"
  shows "runs_of_others b (snd (with_reason f runID body claims w)) = runs_of_others b w"
proof -
  have "runs_of_others b (snd (respond (f i (mc_UserID c) reason w) h)) = runs_of_others b w" if "claims = Some c" for i c reason h
    using assms [OF that, of i reason]
    by (cases "f i (mc_UserID c) reason w") (simp add: respond_world tenant_others)
  then show ?thesis by (auto simp: with_reason_def with_id_def with_claims_def with_body_def split: option.split)
qed

lemma request_adjustments_runs: "runs (snd (request_adjustments order b req w)) = runs w"
  using wp_lists(2) [of "\<lambda>_ w'. runs w' = runs w" w b]
  by (auto simp: request_adjustments_def post_def split: option.split attempt_split)

lemma request_period_runs: "runs (snd (request_period offset p w)) = runs w"
  by (simp add: request_period_def now_def)

lemma Create_request_own:
  "runs_of_others (mc_BusinessID c) (snd (HandleCreatePayrollRun s offset order body (Some c) w)) = runs_of_others (mc_BusinessID c) w"
proof (cases "decode_body CreatePayrollRunRequest body")
  case None
  then show ?thesis by (simp add: HandleCreatePayrollRun_def with_body_def)
next
  case (Some req)
  obtain p adjs where req: "req = (p, adjs)" by fastforce
  obtain period w1 where period: "request_period offset p w = (period, w1)" by fastforce
  obtain f w2 where f: "request_adjustments order (mc_BusinessID c) adjs w1 = (f, w2)" by fastforce
  have runs: "runs w1 = runs w" "runs w2 = runs w1"
    using request_period_runs [of offset p w] request_adjustments_runs [of order "mc_BusinessID c" adjs w1] by (simp_all add: period f)
  show ?thesis
    using Create_own [of "mc_BusinessID c" w2 "ps_loans s" "the period" f] runs
    by (cases period; cases "CreateAndStorePayrollRun (ps_loans s) (mc_BusinessID c) (the period) f w2")
      (simp_all add: HandleCreatePayrollRun_def with_body_def with_claims_def Some req period f respond_world)
qed

lemma Amend_request_own:
  assumes "\<And>i. tenant i (mc_BusinessID c) (runs_of_others (mc_BusinessID c) w) w" and "0 < mc_BusinessID c"
  shows "runs_of_others (mc_BusinessID c) (snd (HandleAmendPayrollRun s runID body (Some c) w)) = runs_of_others (mc_BusinessID c) w"
proof -
  have "runs_of_others (mc_BusinessID c) (snd (respond (AmendPayrollRun s i (mc_BusinessID c) adjs w) h)) =
      runs_of_others (mc_BusinessID c) w" for i adjs h
    using Amend_own [OF assms(1) [of i] assms(2), where s = s and adjs = adjs]
    by (cases "AmendPayrollRun s i (mc_BusinessID c) adjs w") (simp add: respond_world tenant_others)
  then show ?thesis by (auto simp: HandleAmendPayrollRun_def with_id_def with_claims_def with_body_def split: option.split)
qed

section \<open>Properties\<close>

text \<open>
  C15: Payroll requests stay in their business. Whatever a business asks for, to create, submit, approve,
  reject, amend, reverse or process a run, with any number in the path and any body, and whichever statements fail:
  the runs of every other business are the same afterwards.
\<close>

theorem payroll_requests_stay_in_business:
  assumes "request_effect s offset order (Some c) q w = Some w'" and "runs_numbered w" and "0 < mc_BusinessID c"
    and "\<forall>u \<in> set (users w). u_ID u = mc_UserID c \<longrightarrow> u_BusinessID u = mc_BusinessID c"
  shows "filter (\<lambda>r. pr_BusinessID r \<noteq> mc_BusinessID c) (runs w') = filter (\<lambda>r. pr_BusinessID r \<noteq> mc_BusinessID c) (runs w)"
proof -
  let ?b = "mc_BusinessID c"
  note start = tenant_start [OF assms(2), of _ ?b]
  have user: "user_of (mc_UserID c) ?b w" using assms(4) by (simp add: user_of_def)
  show ?thesis
  proof (cases q)
    case (CreateRun body)
    then show ?thesis using assms(1) Create_request_own [of c s offset order body w] by simp
  next
    case (SubmitRun runID)
    then have "map_option snd (HandleSubmitForApproval s runID (Some c) w) = Some w'" using assms(1) by simp
    then show ?thesis unfolding HandleSubmitForApproval_def
      by (rule about_run_others [rotated]) (use Submit_own [OF start assms(3) user] in simp)
  next
    case (ApproveRun runID)
    then have "map_option snd (HandleApprovePayrollRun s runID (Some c) w) = Some w'" using assms(1) by simp
    then show ?thesis unfolding HandleApprovePayrollRun_def
      by (rule about_run_others [rotated]) (use Approve_own [OF start assms(3) user] in simp)
  next
    case (RejectRun runID body)
    then have "w' = snd (HandleRejectPayrollRun runID body (Some c) w)" using assms(1) by simp
    then show ?thesis unfolding HandleRejectPayrollRun_def
      by (simp only:) (rule with_reason_others, use Reject_own [OF start assms(3) user] in simp)
  next
    case (AmendRun runID body)
    then have "w' = snd (HandleAmendPayrollRun s runID body (Some c) w)" using assms(1) by simp
    then show ?thesis by (simp only: Amend_request_own [OF start assms(3)])
  next
    case (ReverseRun runID body)
    then have "w' = snd (HandleReversePayrollRun runID body (Some c) w)" using assms(1) by simp
    then show ?thesis unfolding HandleReversePayrollRun_def
      by (simp only:) (rule with_reason_others, use Reverse_own [OF start assms(3) user] in simp)
  next
    case (ProcessRun runID)
    then have "map_option snd (HandleProcessPayrollRun s runID (Some c) w) = Some w'" using assms(1) by simp
    then show ?thesis unfolding HandleProcessPayrollRun_def
      by (rule about_run_others [rotated]) (use process_own [OF start assms(3)] in simp)
  qed
qed

abbreviation "stranger \<equiv> \<lparr>mc_UserID = 9, mc_BusinessID = 2, mc_Role = ''admin'', mc_EmployeeID = 0\<rparr>"

theorem payroll_requests_stay_in_business_witness:
  "\<exists>w'. request_effect sample_payroll 0 id (Some stranger) (RejectRun ''1'' ''{}'') (run_world StatusPendingApproval sample_world) = Some w' \<and>
     filter (\<lambda>r. pr_BusinessID r \<noteq> 2) (runs w') = [sample_run StatusPendingApproval]"
proof -
  let ?w = "run_world StatusPendingApproval sample_world"
  obtain w' where "request_effect sample_payroll 0 id (Some stranger) (RejectRun ''1'' ''{}'') ?w = Some w'" by simp
  from payroll_requests_stay_in_business [OF this runs_numbered_run_world] this
  show ?thesis by (simp add: run_world_def sample_user_def sample_run_def)
qed

text \<open>
  Adjustments that name an employee twice, by number and by address, are not added up: one of them is
  lost, and which one depends on the order in which the map is ranged over.
\<close>

theorem adjustments_by_two_names:
  assumes "resolve es k = Some i" and "resolve es l = Some i" and "k \<noteq> l"
  shows "resolve_adjustments id es [(k, xs), (l, ys)] i = ys" and "resolve_adjustments rev es [(k, xs), (l, ys)] i = xs"
  using assms by (simp_all add: resolve_adjustments_def)

text \<open>An amendment whose items are named as in a request for a run loses the names and the kinds.\<close>

theorem amendment_drops_names:
  "EmployeeAdjustment (JObject [(''item_name'', JString n), (''amount'', JNumber a), (''component_type'', JString c)]) =
     map_option (\<lambda>a. \<lparr>adj_ItemName = [], adj_Amount = a, adj_Description = [], adj_ComponentType = []\<rparr>) (to_int64 (JNumber a))"
proof -
  have ne: "to_lower ''item_name'' \<noteq> to_lower ''ItemName''" "to_lower ''component_type'' \<noteq> to_lower ''ComponentType''"
    "to_lower ''item_name'' \<noteq> to_lower ''ComponentType''" "to_lower ''component_type'' \<noteq> to_lower ''ItemName''"
    "to_lower ''amount'' \<noteq> to_lower ''ItemName''" "to_lower ''amount'' \<noteq> to_lower ''ComponentType''"
    "to_lower ''item_name'' \<noteq> to_lower ''amount''" "to_lower ''component_type'' \<noteq> to_lower ''amount''"
    "to_lower ''item_name'' \<noteq> to_lower ''description''" "to_lower ''component_type'' \<noteq> to_lower ''description''"
    "to_lower ''amount'' \<noteq> to_lower ''description''"
    by code_simp+
  let ?ms = "[(''item_name'', JString n), (''amount'', JNumber a), (''component_type'', JString c)]"
  have "named ''ItemName'' ?ms = []" "named ''amount'' ?ms = [JNumber a]" "named ''description'' ?ms = []"
    "named ''ComponentType'' ?ms = []"
    unfolding named_def by (simp_all add: ne)
  then show ?thesis
    by (cases "to_int64 (JNumber a)")
      (auto simp add: EmployeeAdjustment_def adjustment_item_def object_members_def field_def Let_def)
qed

end
