(* ===== verification/Office_Api.thy ===== *)
theory Office_Api
  imports Payroll_Api Registration Leave Loans
begin

text \<open>
  The handlers around accounts, loans, leave and the ledger: \<^verbatim>\<open>auth_handler.go\<close> with
  \<^verbatim>\<open>auth_request.go\<close>, \<^verbatim>\<open>loan_handler.go\<close>,
  \<^verbatim>\<open>leave_handler.go\<close> and \<^verbatim>\<open>ledger_handler.go\<close> in
  \<^verbatim>\<open>internal/api\<close>, with the list of the ledger's entries behind the last. The validator's
  test for e-mail addresses is a parameter. A request for leave is decoded into the row itself, with the
  identifier and the associations, and its handler is not modelled.
\<close>

section \<open>Accounts: requests (auth_request.go)\<close>

text \<open>The validator's \<^verbatim>\<open>numeric\<close>: a sign, digits, and a fraction with digits.\<close>

definition numeric :: "string \<Rightarrow> bool" where
  "numeric s =
     (let t = (case s of c # u \<Rightarrow> if c = CHR ''-'' \<or> c = CHR ''+'' then u else s | [] \<Rightarrow> []);
          whole = takeWhile is_digit t; rest = dropWhile is_digit t
      in whole \<noteq> [] \<and> (rest = [] \<or> hd rest = CHR ''.'' \<and> tl rest \<noteq> [] \<and> list_all is_digit (tl rest)))"

definition at_least :: "nat \<Rightarrow> string \<Rightarrow> (string \<times> json) list \<Rightarrow> string option" where
  "at_least n k ms = (case required k ms of Some s \<Rightarrow> if length s < n then None else Some s | None \<Rightarrow> None)"

definition email_field :: "(string \<Rightarrow> bool) \<Rightarrow> string \<Rightarrow> (string \<times> json) list \<Rightarrow> string option" where
  "email_field is_email k ms = (case required k ms of Some s \<Rightarrow> if is_email s then Some s else None | None \<Rightarrow> None)"

record register_request =
  rr_BusinessName :: string
  rr_Email :: string
  rr_Password :: string
  rr_RCNumber :: string
  rr_IncorporationDate :: zoned
  rr_DirectorBVN :: string

definition RegisterRequest :: "(string \<Rightarrow> bool) \<Rightarrow> (string \<times> json) list \<Rightarrow> register_request option" where
  "RegisterRequest is_email ms =
     (case (required ''business_name'' ms, email_field is_email ''email'' ms, at_least 8 ''password'' ms,
            at_least 2 ''rc_number'' ms, field to_time zero_time ''incorporation_date'' ms, required ''director_bvn'' ms) of
        (Some n, Some e, Some p, Some rc, Some d, Some bvn) \<Rightarrow>
          if length bvn \<noteq> 11 \<or> \<not> numeric bvn then None
          else Some \<lparr>rr_BusinessName = n, rr_Email = e, rr_Password = p, rr_RCNumber = rc, rr_IncorporationDate = d,
            rr_DirectorBVN = bvn\<rparr>
      | _ \<Rightarrow> None)"

definition both :: "'a option \<Rightarrow> 'b option \<Rightarrow> ('a \<times> 'b) option" where
  "both x y = Option.bind x (\<lambda>a. map_option (Pair a) y)"

definition LoginRequest :: "(string \<Rightarrow> bool) \<Rightarrow> (string \<times> json) list \<Rightarrow> (string \<times> string) option" where
  "LoginRequest is_email ms = both (email_field is_email ''email'' ms) (required ''password'' ms)"

definition InviteUserRequest :: "(string \<Rightarrow> bool) \<Rightarrow> (string \<times> json) list \<Rightarrow> (string \<times> string) option" where
  "InviteUserRequest is_email ms = both (email_field is_email ''email'' ms) (required ''role'' ms)"

definition AcceptInvitationRequest :: "(string \<times> json) list \<Rightarrow> (string \<times> string) option" where
  "AcceptInvitationRequest ms = both (required ''token'' ms) (at_least 8 ''password'' ms)"

definition ForgotPasswordRequest :: "(string \<Rightarrow> bool) \<Rightarrow> (string \<times> json) list \<Rightarrow> string option" where
  "ForgotPasswordRequest is_email = email_field is_email ''email''"

definition ResetPasswordRequest :: "(string \<times> json) list \<Rightarrow> (string \<times> string) option" where
  "ResetPasswordRequest ms = both (required ''token'' ms) (at_least 8 ''new_password'' ms)"

section \<open>Accounts: handlers (auth_handler.go)\<close>

record user_answer =
  ua_ID :: nat
  ua_Email :: string
  ua_Role :: string
  ua_BusinessID :: nat

definition user_answer_of :: "Accounts.account \<Rightarrow> user_answer" where
  "user_answer_of u = \<lparr>ua_ID = u_ID u, ua_Email = u_Email u, ua_Role = role_text (u_Role u), ua_BusinessID = u_BusinessID u\<rparr>"

definition HandleRegisterBusiness ::
  "(string \<Rightarrow> bool) \<Rightarrow> registrar \<Rightarrow> string \<Rightarrow> world \<Rightarrow> (user_answer \<times> string \<times> string) response \<times> world" where
  "HandleRegisterBusiness is_email s body =
     with_body (decode_body (RegisterRequest is_email) body) (\<lambda>req w.
       respond (RegisterBusiness s (rr_BusinessName req) (rr_Email req) (rr_Password req) (rr_RCNumber req)
           (rr_IncorporationDate req) (rr_DirectorBVN req) w)
         (\<lambda>(u, number, name). RespondWithJSON 201 (user_answer_of u, number, name)))"

definition HandleLogin ::
  "(string \<Rightarrow> bool) \<Rightarrow> auth_service \<Rightarrow> string \<Rightarrow> world \<Rightarrow> (string \<times> user_answer) response \<times> world" where
  "HandleLogin is_email s body =
     with_body (decode_body (LoginRequest is_email) body) (\<lambda>(email, password) w.
       respond (Login s email password w) (\<lambda>(token, u). RespondWithJSON 200 (token, user_answer_of u)))"

text \<open>
  The role is whatever the request says. The type of its column, an enumeration, refuses a text that is none
  of the roles when the row is inserted.
\<close>

definition role_of :: "string \<Rightarrow> UserRole option" where
  "role_of s = find (\<lambda>r. role_text r = s) [RoleAdmin, RoleOperator, RoleApprover, RoleEmployee, RoleSuperAdmin]"

definition invite_unknown :: "auth_service \<Rightarrow> string \<Rightarrow> world \<Rightarrow> unit res \<times> world" where
  "invite_unknown s email w =
     attempt (user_FindByEmail email w)
       (\<lambda>_ w. (let (token, w) = generateToken w; (_, w) = HashPassword s token w
                in attempt (statement (\<lambda>w. (Inl db_error :: unit res, w)) w)
                     (\<lambda>e w. (Inl (Wrap ''failed to create invited user: '' e []), w)) (\<lambda>_ w. (Inr (), w))))
       (\<lambda>_ w. (Inl (Sentinel ErrConflict), w))"

definition HandleInviteUser ::
  "(string \<Rightarrow> bool) \<Rightarrow> auth_service \<Rightarrow> string \<Rightarrow> mw_claims option \<Rightarrow> world \<Rightarrow> string response \<times> world" where
  "HandleInviteUser is_email s body claims =
     with_body (decode_body (InviteUserRequest is_email) body) (\<lambda>(email, role).
       with_claims ErrUnauthorized claims (\<lambda>c w.
         respond (case role_of role of Some r \<Rightarrow> InviteUser s (mc_BusinessID c) email r w | None \<Rightarrow> invite_unknown s email w)
           (\<lambda>_. RespondWithJSON 201 ''Invitation sent successfully'')))"

definition HandleAcceptInvitation ::
  "auth_service \<Rightarrow> string \<Rightarrow> world \<Rightarrow> (string \<times> user_answer) response \<times> world" where
  "HandleAcceptInvitation s body =
     with_body (decode_body AcceptInvitationRequest body) (\<lambda>(token, password) w.
       respond (AcceptInvitation s token password w) (\<lambda>(u, jwt). RespondWithJSON 200 (jwt, user_answer_of u)))"

definition HandleForgotPassword :: "(string \<Rightarrow> bool) \<Rightarrow> string \<Rightarrow> world \<Rightarrow> string response \<times> world" where
  "HandleForgotPassword is_email body =
     with_body (decode_body (ForgotPasswordRequest is_email) body) (\<lambda>email w.
       (let (_, w) = RequestPasswordReset email w
        in (RespondWithJSON 200 ''If this email is registered, a password reset link has been sent'', w)))"

definition HandleResetPassword :: "auth_service \<Rightarrow> string \<Rightarrow> world \<Rightarrow> string response \<times> world" where
  "HandleResetPassword s body =
     with_body (decode_body ResetPasswordRequest body) (\<lambda>(token, password) w.
       respond (ResetPassword s token password w) (\<lambda>_. RespondWithJSON 200 ''Password reset successfully''))"

definition HandleVerifyEmail :: "string \<Rightarrow> world \<Rightarrow> string response \<times> world" where
  "HandleVerifyEmail body =
     with_body (decode_body (required ''token'') body) (\<lambda>token w.
       respond (VerifyEmail token w) (\<lambda>_. RespondWithJSON 200 ''Email verified successfully''))"

definition HandleResendVerification :: "mw_claims option \<Rightarrow> world \<Rightarrow> string response \<times> world" where
  "HandleResendVerification claims =
     with_claims ErrUnauthorized claims (\<lambda>c w.
       respond (SendVerificationEmail (mc_UserID c) w) (\<lambda>_. RespondWithJSON 200 ''Verification email sent''))"

definition HandleEmployeeLogin :: "auth_service \<Rightarrow> string \<Rightarrow> world \<Rightarrow> (string \<times> Accounts.account) response \<times> world" where
  "HandleEmployeeLogin s body =
     with_body (decode_body (\<lambda>ms. both (required ''email'' ms) (required ''password'' ms)) body) (\<lambda>(email, password) w.
       respond (EmployeeLogin s email password w) (RespondWithJSON 200))"

definition HandleCreateEmployeeLogin ::
  "auth_service \<Rightarrow> string \<Rightarrow> string \<Rightarrow> mw_claims option \<Rightarrow> world \<Rightarrow> Accounts.account response \<times> world" where
  "HandleCreateEmployeeLogin s employeeID body claims =
     with_claims ErrUnauthorized claims (\<lambda>c. with_id employeeID (\<lambda>i.
       with_body (decode_body (required ''temp_password'') body) (\<lambda>password w.
         respond (CreateEmployeeLogin s (mc_BusinessID c) i password w) (RespondWithJSON 201))))"

section \<open>Loans (loan_handler.go)\<close>

text \<open>The date is read and has to be one; rows of the model do not keep it.\<close>

definition createLoanRequest :: "(string \<times> json) list \<Rightarrow> (nat \<times> int64 \<times> int64 \<times> string \<times> string) option" where
  "createLoanRequest ms =
     (case (uint_field ''employee_id'' ms, int_field ''loan_amount'' ms, int_field ''monthly_deduction'' ms,
            required ''start_date'' ms, string_field ''description'' ms) of
        (Some e, Some a, Some m, Some d, Some t) \<Rightarrow>
          if e = 0 \<or> a < 1 \<or> m < 1 then None else Some (e, a, m, d, t)
      | _ \<Rightarrow> None)"

definition HandleCreateLoan :: "string \<Rightarrow> mw_claims option \<Rightarrow> world \<Rightarrow> loan response \<times> world" where
  "HandleCreateLoan body claims =
     with_body (decode_body createLoanRequest body) (\<lambda>(e, a, m, d, t). with_claims ErrUnauthorized claims (\<lambda>c w.
       (case parse_date d of
          None \<Rightarrow> (RespondWithError (Sentinel ErrValidationFailed), w)
        | Some _ \<Rightarrow>
            respond (createLoan \<lparr>l_ID = 0, l_BusinessID = mc_BusinessID c, l_EmployeeID = e, l_LoanAmount = a,
                l_MonthlyDeduction = m, l_TotalRepaid = 0, l_RemainingBalance = 0, l_Status = LoanActive,
                l_Description = t\<rparr> w) (RespondWithJSON 201))))"

definition HandleListLoans :: "string \<Rightarrow> string \<Rightarrow> mw_claims option \<Rightarrow> world \<Rightarrow> (loan list \<times> nat) response \<times> world" where
  "HandleListLoans page limit claims =
     with_claims ErrUnauthorized claims (\<lambda>c w.
       respond (listLoans (mc_BusinessID c) (atoi page) (atoi limit) w) (RespondWithJSON 200))"

definition HandleCancelLoan :: "string \<Rightarrow> mw_claims option \<Rightarrow> world \<Rightarrow> string response \<times> world" where
  "HandleCancelLoan i claims =
     with_id i (\<lambda>i. with_claims ErrUnauthorized claims (\<lambda>c w.
       respond (cancelLoan i (mc_BusinessID c) w) (\<lambda>_. RespondWithJSON 200 ''loan cancelled'')))"

section \<open>Leave (leave_handler.go)\<close>

definition leave_type_request :: "(string \<times> json) list \<Rightarrow> (string \<times> int64 \<times> bool option) option" where
  "leave_type_request ms =
     (case (string_field ''name'' ms, int_field ''default_days'' ms, pointer to_bool ''requires_approval'' ms) of
        (Some n, Some d, Some r) \<Rightarrow> if n = [] \<or> d \<le> 0 then None else Some (n, d, r)
      | _ \<Rightarrow> None)"

definition HandleCreateLeaveType :: "string \<Rightarrow> mw_claims option \<Rightarrow> world \<Rightarrow> leave_type response \<times> world" where
  "HandleCreateLeaveType body claims =
     with_claims ErrUnauthorized claims (\<lambda>c. with_body (decode_body leave_type_request body) (\<lambda>(n, d, r) w.
       respond (CreateLeaveType \<lparr>lt_ID = 0, lt_BusinessID = mc_BusinessID c, lt_Name = n, lt_DefaultDays = d,
           lt_RequiresApproval = (case r of None \<Rightarrow> True | Some b \<Rightarrow> b)\<rparr> w) (RespondWithJSON 201)))"

definition HandleListLeaveTypes :: "mw_claims option \<Rightarrow> world \<Rightarrow> leave_type list response \<times> world" where
  "HandleListLeaveTypes claims =
     with_claims ErrUnauthorized claims (\<lambda>c w. respond (ListLeaveTypes (mc_BusinessID c) w) (RespondWithJSON 200))"

definition HandleListRequests ::
  "string \<Rightarrow> string \<Rightarrow> mw_claims option \<Rightarrow> world \<Rightarrow> (leave_request list \<times> nat) response \<times> world" where
  "HandleListRequests page limit claims =
     with_claims ErrUnauthorized claims (\<lambda>c w.
       respond (ListRequests (mc_BusinessID c) (atoi page) (atoi limit) w) (RespondWithJSON 200))"

definition HandleApproveRequest :: "string \<Rightarrow> mw_claims option \<Rightarrow> world \<Rightarrow> string response \<times> world" where
  "HandleApproveRequest i claims =
     with_claims ErrUnauthorized claims (\<lambda>c. with_id i (\<lambda>i w.
       respond (ApproveRequest i (mc_UserID c) w) (\<lambda>_. RespondWithJSON 200 ''Leave approved'')))"

text \<open>
  The error of the decoder is dropped: a body that is no object gives no reason, and of several members the last
  that is a text counts.
\<close>

definition given_reason :: "string \<Rightarrow> string" where
  "given_reason body =
     (case Option.bind (decode_json body) object_members of
        None \<Rightarrow> []
      | Some ms \<Rightarrow> (let rs = List.map_filter to_str (named ''reason'' ms) in if rs = [] then [] else last rs))"

definition HandleRejectRequest :: "string \<Rightarrow> string \<Rightarrow> mw_claims option \<Rightarrow> world \<Rightarrow> string response \<times> world" where
  "HandleRejectRequest i body claims =
     with_claims ErrUnauthorized claims (\<lambda>c. with_id i (\<lambda>i w.
       respond (RejectRequest i (mc_UserID c) (given_reason body) w)
         (\<lambda>_. RespondWithJSON 200 ''Leave rejected'')))"

definition HandleGetBalances :: "string \<Rightarrow> string \<Rightarrow> world \<Rightarrow> leave_balance list response \<times> world" where
  "HandleGetBalances employeeID year =
     with_id employeeID (\<lambda>emp w. respond (leave_GetBalance emp (atoi year) w) (RespondWithJSON 200))"

section \<open>The ledger (ledger_handler.go)\<close>

text \<open>Newest first; an error of the count is dropped, and the total is then 0.\<close>

definition ledger_FindByBusinessID :: "nat \<Rightarrow> nat \<Rightarrow> nat \<Rightarrow> world \<Rightarrow> (ledger_entry list \<times> nat) res \<times> world" where
  "ledger_FindByBusinessID bid page limit w =
     (let rows = (\<lambda>w. filter (\<lambda>e. le_BusinessID e = bid) (rev (ledger w)));
          (count, w) = statement (\<lambda>w. (Inr (length (rows w)), w)) w;
          total = (case count of Inl _ \<Rightarrow> 0 | Inr n \<Rightarrow> n)
      in statement (\<lambda>w. (Inr (take limit (drop ((page - 1) * limit) (rows w)), total), w)) w)"

definition GetEntries :: "nat \<Rightarrow> int \<Rightarrow> int \<Rightarrow> world \<Rightarrow> (ledger_entry list \<times> nat) res \<times> world" where
  "GetEntries bid page limit w =
     ledger_FindByBusinessID bid (if page \<le> 0 then 1 else nat page) (if limit \<le> 0 then 50 else nat limit) w"

text \<open>The page and the limit of the answer are those of the request.\<close>

definition HandleGetEntries :: "string \<Rightarrow> string \<Rightarrow> mw_claims option \<Rightarrow> world \<Rightarrow> ledger_entry listing response \<times> world" where
  "HandleGetEntries page limit claims =
     with_claims ErrInternalServer claims (\<lambda>c w.
       respond (GetEntries (mc_BusinessID c) (atoi page) (atoi limit) w) (listing_response (atoi page) (atoi limit)))"

definition HandleReconcile :: "int64 option \<Rightarrow> mw_claims option \<Rightarrow> world \<Rightarrow> ReconciliationResult response \<times> world" where
  "HandleReconcile cached claims =
     with_claims ErrInternalServer claims (\<lambda>c w.
       attempt (GetBalance cached (mc_BusinessID c) w)
         (\<lambda>e w. (RespondWithError e, w))
         (\<lambda>b w. respond (Reconcile (mc_BusinessID c) b w) (RespondWithJSON 200)))"

section \<open>What invitations and loans do\<close>

lemma find_snoc: "find p (xs @ [x]) = (case find p xs of None \<Rightarrow> if p x then Some x else None | Some y \<Rightarrow> Some y)"
  by (induction xs) auto

lemma invite_outcome:
  "post (\<lambda>r w'. r = Inr () \<longrightarrow> (\<exists>row. users w' = users w @ [row] \<and> u_BusinessID row = bid \<and> u_Email row = email \<and>
      u_Role row = role \<and> u_InviteToken row = Some (fst (generateToken w)) \<and> \<not> u_InviteAccepted row))
    (InviteUser s bid email role w)"
  unfolding InviteUser_def invite_new_def user_FindByEmail_def Let_def
  by (auto intro!: wp_attempt wp_user_find wp_case wp_HashPassword wp_user_Create
      simp: generateToken_def rand_hex_def new_account_def)

lemma accept_session:
  "post (\<lambda>r w'. \<forall>u jwt. r = Inr (u, jwt) \<longrightarrow>
      (\<exists>row. find (\<lambda>v. u_InviteToken v = Some token) (users w) = Some row \<and> u_ID u = u_ID row \<and> u_Role u = u_Role row \<and>
        u_Email u = u_Email row \<and> u_BusinessID u = u_BusinessID row) \<and>
      as_sign s \<lparr>jc_UserID = show_nat (u_ID u), jc_BusinessID = show_nat (u_BusinessID u), jc_Role = role_text (u_Role u),
        jc_EmployeeID = [], jc_ExpiresAt = NumericDate (clock w (Suc (tick w)) + as_Expiry s),
        jc_IssuedAt = NumericDate (clock w (Suc (Suc (tick w))))\<rparr> (as_Secret s) = Inr jwt)
    (AcceptInvitation s token p w)"
  unfolding AcceptInvitation_def user_FindByInviteToken_def Let_def
  by (auto intro!: wp_attempt wp_user_find wp_if wp_HashPassword wp_user_Update
      simp: GenerateToken_def GenerateTokenWithEmployee_def now_def)

lemma respond_Reply:
  "respond r f = (Reply n x, w') \<Longrightarrow> \<exists>y. r = (Inr y, w') \<and> f y = Reply n x"
  by (cases r) (auto simp: respond_def attempt_def split: sum.splits)

section \<open>Properties\<close>


text \<open>
  A loan is deducted across businesses. Whoever asks for a loan may name any employee: the payroll of the
  business that employs them deducts the repayment, since the loans of an employee are looked up by the employee alone.
\<close>

theorem loan_crosses_tenants:
  assumes "HandleCreateLoan body (Some c) w = (Reply 201 l, w1)" and "l_EmployeeID l = e_ID emp" and "faults w = []"
    and "\<forall>l \<in> set (loans w). l_EmployeeID l = e_ID emp \<longrightarrow> l_Status l \<noteq> LoanActive"
  shows "l_BusinessID l = mc_BusinessID c \<and>
    pe_TotalDeductions (fst (fst (calculateEmployeeEntry True emp k b [] w1))) =
      add64 (pe_TotalDeductions (fst (fst (calculateEmployeeEntry True emp k b [] w)))) (repayment l)"
proof -
  obtain e a m d t where req: "decode_body createLoanRequest body = Some (e, a, m, d, t)"
    using assms(1) by (cases "decode_body createLoanRequest body") (auto simp: HandleCreateLoan_def with_body_def)
  have "1 \<le> a"
    using req by (auto simp: decode_body_def createLoanRequest_def split: option.splits if_splits)
  obtain y where d: "parse_date d = Some y"
    using assms(1) by (cases "parse_date d") (auto simp: HandleCreateLoan_def with_body_def with_claims_def req)
  have l: "l_BusinessID l = mc_BusinessID c" "l_Status l = LoanActive" "l_RemainingBalance l = a"
      and w1: "loans w1 = loans w @ [l]" "faults w1 = []"
    using assms(1,3)
    by (auto simp: HandleCreateLoan_def with_body_def with_claims_def req d respond_def createLoan_def loan_Create_def loan_new_def
        statement_def fault_eq RespondWithJSON_def Let_def attempt_def)
  have none: "filter (\<lambda>l. l_EmployeeID l = e_ID emp \<and> l_Status l = LoanActive) (loans w) = []"
    using assms(4) by (auto simp: filter_empty_conv)
  have "tl_Deductions (deduct_loan l t) = add64 (tl_Deductions t) (repayment l)" for t
    using \<open>1 \<le> a\<close> l by (simp add: deduct_loan_def book_def loan_item_def detail_def item_def)
  then show ?thesis
    using l w1 assms(2,3) none
    by (simp add: calculateEmployeeEntry_def loan_FindActiveByEmployeeID_def statement_def fault_eq split_beta)
qed

definition sample_loan_body :: string where
  "sample_loan_body = ''{\"employee_id\":7,\"loan_amount\":9,\"monthly_deduction\":5,\"start_date\":\"2026-01-01\"}''"

definition strange_loan :: loan where
  "strange_loan = \<lparr>l_ID = 1, l_BusinessID = 2, l_EmployeeID = 7, l_LoanAmount = 9, l_MonthlyDeduction = 5,
     l_TotalRepaid = 0, l_RemainingBalance = 9, l_Status = LoanActive, l_Description = []\<rparr>"

lemma sample_loan_lent:
  assumes "faults w = []" and "loans w = []"
  shows "HandleCreateLoan sample_loan_body (Some stranger) w = (Reply 201 strange_loan, w\<lparr>faults := [], loans := [strange_loan]\<rparr>)"
proof -
  let ?ms = "[(''employee_id'', JNumber ''7''), (''loan_amount'', JNumber ''9''), (''monthly_deduction'', JNumber ''5''),
    (''start_date'', JString ''2026-01-01'')]"
  have json: "decode_json sample_loan_body = Some (JObject ?ms)"
    unfolding sample_loan_body_def by code_simp
  have ints: "int_field ''loan_amount'' ?ms = Some 9" "int_field ''monthly_deduction'' ?ms = Some 5" by code_simp+
  have texts: "required ''start_date'' ?ms = Some ''2026-01-01''" "string_field ''description'' ?ms = Some []" by code_simp+
  have "named ''employee_id'' ?ms = [JNumber ''7'']" by code_simp
  moreover have "is_digit CHR ''7''" "digits_value ''7'' = 7" by code_simp+
  ultimately have "uint_field ''employee_id'' ?ms = Some 7" by (simp add: field_def to_uint_def)
  then have "decode_body createLoanRequest sample_loan_body = Some (7, 9, 5, ''2026-01-01'', [])"
    by (simp add: decode_body_def json object_members_def createLoanRequest_def ints texts)
  moreover have "parse_date ''2026-01-01'' = Some (2026, 1, 1)" by code_simp
  ultimately show ?thesis
    using assms
    by (simp add: HandleCreateLoan_def with_body_def with_claims_def respond_def createLoan_def loan_Create_def loan_new_def
        RespondWithJSON_def statement_def fault_eq Let_def strange_loan_def)
qed

theorem loan_crosses_tenants_witness:
  "e_BusinessID sample_employee = 1 \<and> (\<forall>v. \<exists>l w1. HandleCreateLoan sample_loan_body (Some stranger) (payroll_world v) = (Reply 201 l, w1) \<and>
     l_BusinessID l = 2 \<and>
     pe_TotalDeductions (fst (fst (calculateEmployeeEntry True sample_employee sample_cadre b [] w1))) =
      add64 (pe_TotalDeductions (fst (fst (calculateEmployeeEntry True sample_employee sample_cadre b [] (payroll_world v))))) 5)"
proof -
  have clean: "faults (payroll_world v) = []" "loans (payroll_world v) = []" for v by (simp_all add: payroll_world_def)
  have "l_EmployeeID strange_loan = e_ID sample_employee" "l_BusinessID strange_loan = 2" "repayment strange_loan = 5"
    by (simp_all add: strange_loan_def sample_employee_def repayment_def)
  moreover have "e_BusinessID sample_employee = 1" by (simp add: sample_employee_def)
  ultimately show ?thesis
    using loan_crosses_tenants [OF sample_loan_lent [OF clean], of sample_employee] sample_loan_lent [OF clean] clean
    by auto
qed

definition invite_world :: world where
  "invite_world = sample_world\<lparr>users := [(demo_user RoleAdmin)\<lparr>u_ID := 4\<rparr>]\<rparr>"

definition sample_invite :: string where
  "sample_invite = ''{\"email\":\"n@b.c\",\"role\":\"super_admin\"}''"

definition sample_acceptance :: string where
  "sample_acceptance = ''{\"token\":\"0123456789abcdef\",\"password\":\"12345678\"}''"

lemma sample_decoded:
  "decode_body (InviteUserRequest (\<lambda>_. True)) sample_invite = Some (''n@b.c'', ''super_admin'')"
  "decode_body AcceptInvitationRequest sample_acceptance = Some (''0123456789abcdef'', ''12345678'')"
  unfolding sample_invite_def sample_acceptance_def by code_simp+

lemma invite_token: "fst (generateToken invite_world) = ''0123456789abcdef''"
  by (simp add: generateToken_def rand_hex_def invite_world_def sample_world_def)


end
