(* ===== verification/Payment_Clients.thy ===== *)
theory Payment_Clients
  imports Payroll_Api
begin

text \<open>
  The clients of Korapay and Paystack and the providers made of them:
  \<^verbatim>\<open>client.go\<close>, \<^verbatim>\<open>types.go\<close> and \<^verbatim>\<open>provider.go\<close>
  in \<^verbatim>\<open>internal/platform/korapay\<close> and \<^verbatim>\<open>internal/platform/paystack\<close>.
  The network is a parameter: what becomes of a
  request. Its body is the value that is handed to the JSON encoder; the answer is text, and read with the decoder of
  the model. A provider is then what the provider manager takes it for, a function of the request and the number of the call.
\<close>

section \<open>Requests over the network\<close>

datatype wire = WText string | WInt int | WFloat float64 | WBool bool | WObject "(string \<times> wire) list" | WArray "wire list"

record http_call =
  hc_Method :: string
  hc_Path :: string
  hc_Headers :: "(string \<times> string) list"
  hc_Body :: "wire option"

datatype http_outcome = Unmade gerror | Unanswered gerror | Unread gerror | Answered nat string

text \<open>The network answers the k-th request of an operation.\<close>

type_synonym network = "nat \<Rightarrow> http_call \<Rightarrow> http_outcome"

definition omitempty :: "string \<Rightarrow> string \<Rightarrow> (string \<times> wire) list" where
  "omitempty k s = (if s = [] then [] else [(k, WText s)])"

definition bearer :: "string \<Rightarrow> (string \<times> string) list" where
  "bearer key = [(''Content-Type'', ''application/json''), (''Authorization'', ''Bearer '' @ key)]"

text \<open>\<^verbatim>\<open>makeRequest\<close>, which the two clients share but for their names.\<close>

definition makeRequest :: "string \<Rightarrow> string \<Rightarrow> (http_call \<Rightarrow> http_outcome) \<Rightarrow> string \<Rightarrow> string \<Rightarrow> wire option \<Rightarrow> string res" where
  "makeRequest name key net method path body =
     (case net \<lparr>hc_Method = method, hc_Path = path,
              hc_Headers = bearer key, hc_Body = body\<rparr> of
        Unmade e \<Rightarrow> Inl (Wrap ''failed to create request: '' e [])
      | Unanswered e \<Rightarrow> Inl (Wrap (name @ '' request failed: '') e [])
      | Unread e \<Rightarrow> Inl (Wrap ''failed to read response body: '' e [])
      | Answered code text \<Rightarrow>
          if code < 200 \<or> 300 \<le> code
          then Inl (Plain (name @ '' request failed with status '' @ show_nat code @ '': '' @ text)) else Inr text)"

definition decode_error :: gerror where
  "decode_error = Plain ''invalid answer''"

text \<open>One endpoint of a client: the request, and the answer decoded.\<close>

definition exchange ::
  "string res \<Rightarrow> string \<Rightarrow> string \<Rightarrow> ((string \<times> json) list \<Rightarrow> 'a option) \<Rightarrow> 'a res" where
  "exchange answer failed undecoded f =
     (case answer of
        Inl e \<Rightarrow> Inl (Wrap failed e [])
      | Inr text \<Rightarrow>
          (case Option.bind (Option.bind (unmarshal text) object_members) f of
             None \<Rightarrow> Inl (Wrap undecoded decode_error []) | Some x \<Rightarrow> Inr x))"

record 'a api_answer =
  aa_Status :: bool
  aa_Message :: string
  aa_Data :: "'a option"

definition api_answer_of :: "((string \<times> json) list \<Rightarrow> 'a option) \<Rightarrow> (string \<times> json) list \<Rightarrow> 'a api_answer option" where
  "api_answer_of f ms =
     (case (bool_field ''status'' ms, string_field ''message'' ms, nested f ''data'' ms) of
        (Some s, Some m, Some d) \<Rightarrow> Some \<lparr>aa_Status = s, aa_Message = m, aa_Data = d\<rparr> | _ \<Rightarrow> None)"

text \<open>Fields that are decoded and not used have to be of their type all the same.\<close>

definition texts_ok :: "string list \<Rightarrow> (string \<times> json) list \<Rightarrow> bool" where
  "texts_ok ks ms \<longleftrightarrow> list_all (\<lambda>k. string_field k ms \<noteq> None) ks"

definition ints_ok :: "string list \<Rightarrow> (string \<times> json) list \<Rightarrow> bool" where
  "ints_ok ks ms \<longleftrightarrow> list_all (\<lambda>k. int_field k ms \<noteq> None) ks"

definition to_float :: "json \<Rightarrow> float64 option" where
  "to_float v = as_float (Some v)"

abbreviation "float_field \<equiv> field to_float (Fin 0)"

section \<open>Paystack\<close>

record recipient_request =
  rp_Type :: string
  rp_Name :: string
  rp_AccountNumber :: string
  rp_BankCode :: string
  rp_Currency :: string

definition recipient_body :: "recipient_request \<Rightarrow> wire" where
  "recipient_body r = WObject [(''type'', WText (rp_Type r)), (''name'', WText (rp_Name r)),
     (''account_number'', WText (rp_AccountNumber r)), (''bank_code'', WText (rp_BankCode r)), (''currency'', WText (rp_Currency r))]"

definition RecipientData :: "(string \<times> json) list \<Rightarrow> string option" where
  "RecipientData ms = (if texts_ok [''name'', ''type''] ms then string_field ''recipient_code'' ms else None)"

definition CreateTransferRecipient :: "string \<Rightarrow> (http_call \<Rightarrow> http_outcome) \<Rightarrow> recipient_request \<Rightarrow> string api_answer res" where
  "CreateTransferRecipient key net req =
     exchange (makeRequest ''paystack'' key net ''POST'' ''/transferrecipient'' (Some (recipient_body req)))
       ''paystack create recipient failed: '' ''failed to decode paystack recipient response: '' (api_answer_of RecipientData)"

record paystack_transfer =
  pt_Source :: string
  pt_Amount :: int64
  pt_Recipient :: string
  pt_Reference :: string
  pt_Reason :: string
  pt_Currency :: string

definition paystack_transfer_body :: "paystack_transfer \<Rightarrow> wire" where
  "paystack_transfer_body r = WObject [(''source'', WText (pt_Source r)), (''amount'', WInt (pt_Amount r)),
     (''recipient'', WText (pt_Recipient r)), (''reference'', WText (pt_Reference r)), (''reason'', WText (pt_Reason r)),
     (''currency'', WText (pt_Currency r))]"

text \<open>The code and the status of a transfer.\<close>

definition TransferData :: "(string \<times> json) list \<Rightarrow> (string \<times> string) option" where
  "TransferData ms =
     (if texts_ok [''reference'', ''currency''] ms \<and> ints_ok [''amount''] ms
      then (case (string_field ''transfer_code'' ms, string_field ''status'' ms) of (Some c, Some s) \<Rightarrow> Some (c, s) | _ \<Rightarrow> None)
      else None)"

definition paystack_InitiateTransfer ::
  "string \<Rightarrow> (http_call \<Rightarrow> http_outcome) \<Rightarrow> paystack_transfer \<Rightarrow> (string \<times> string) api_answer res" where
  "paystack_InitiateTransfer key net req =
     exchange (makeRequest ''paystack'' key net ''POST'' ''/transfer'' (Some (paystack_transfer_body req)))
       ''paystack transfer failed: '' ''failed to decode paystack transfer response: '' (api_answer_of TransferData)"

text \<open>The transfers of a batch have no currency of their own.\<close>

definition paystack_item_body :: "paystack_transfer \<Rightarrow> wire" where
  "paystack_item_body r = WObject [(''amount'', WInt (pt_Amount r)), (''recipient'', WText (pt_Recipient r)),
     (''reference'', WText (pt_Reference r)), (''reason'', WText (pt_Reason r))]"

definition paystack_InitiateBulkTransfer ::
  "string \<Rightarrow> (http_call \<Rightarrow> http_outcome) \<Rightarrow> string \<Rightarrow> paystack_transfer list \<Rightarrow> unit api_answer res" where
  "paystack_InitiateBulkTransfer key net currency items =
     exchange (makeRequest ''paystack'' key net ''POST'' ''/transfer/bulk'' (Some (WObject [(''source'', WText ''balance''),
         (''currency'', WText currency), (''transfers'', WArray (map paystack_item_body items))])))
       ''paystack bulk transfer failed: '' ''failed to decode paystack bulk transfer response: ''
       (\<lambda>ms. map_option (\<lambda>(s, m). \<lparr>aa_Status = s, aa_Message = m, aa_Data = None\<rparr>)
               (case (bool_field ''status'' ms, string_field ''message'' ms) of (Some s, Some m) \<Rightarrow> Some (s, m) | _ \<Rightarrow> None))"

text \<open>\<^verbatim>\<open>strconv.ParseInt(s, 10, 64)\<close>.\<close>

definition parse_int64 :: "string \<Rightarrow> int64 option" where
  "parse_int64 s = (case parse_int s of Some i \<Rightarrow> if in64 i then Some i else None | None \<Rightarrow> None)"

definition number_error :: gerror where
  "number_error = Plain ''invalid syntax''"

definition recipient_of :: "string \<Rightarrow> single_req \<Rightarrow> recipient_request" where
  "recipient_of currency req = \<lparr>rp_Type = ''nuban'', rp_Name = rq_AccountName req, rp_AccountNumber = rq_AccountNumber req,
     rp_BankCode = rq_BankCode req, rp_Currency = currency\<rparr>"

definition paystack_failed :: "single_req \<Rightarrow> string \<Rightarrow> transfer_result" where
  "paystack_failed req m = \<lparr>tr_Success = False, tr_Reference = rq_Reference req, tr_TransactionID = [], tr_Status = ''failed'',
     tr_Message = m, tr_Provider = ''paystack'', tr_Fee = []\<rparr>"

definition paystack_mapSingleResponse :: "single_req \<Rightarrow> (string \<times> string) api_answer \<Rightarrow> transfer_result" where
  "paystack_mapSingleResponse req resp =
     (if aa_Status resp
      then \<lparr>tr_Success = True, tr_Reference = rq_Reference req,
             tr_TransactionID = (case aa_Data resp of None \<Rightarrow> [] | Some (code, _) \<Rightarrow> code),
             tr_Status = (case aa_Data resp of None \<Rightarrow> ''processing'' | Some (_, s) \<Rightarrow> or_default s ''processing''),
             tr_Message = aa_Message resp, tr_Provider = ''paystack'', tr_Fee = []\<rparr>
      else paystack_failed req (aa_Message resp))"

definition paystack_order :: "string \<Rightarrow> single_req \<Rightarrow> string \<Rightarrow> int64 \<Rightarrow> paystack_transfer" where
  "paystack_order currency req recipient amount = \<lparr>pt_Source = ''balance'', pt_Amount = amount, pt_Recipient = recipient,
     pt_Reference = rq_Reference req, pt_Reason = rq_Narration req, pt_Currency = currency\<rparr>"

definition PaystackTransfer :: "string \<Rightarrow> network \<Rightarrow> single_req \<Rightarrow> transfer_result res" where
  "PaystackTransfer key net req =
     (let currency = or_default (rq_Currency req) ''NGN''
      in case CreateTransferRecipient key (net 0) (recipient_of currency req) of
           Inl e \<Rightarrow> Inl (Wrap ''paystack create recipient failed: '' e [])
         | Inr r \<Rightarrow>
             (case (aa_Status r, aa_Data r) of
                (True, Some recipient) \<Rightarrow>
                  (case parse_int64 (rq_Amount req) of
                     None \<Rightarrow> Inl (Wrap (''invalid amount '' @ [CHR 0x27] @ rq_Amount req @ [CHR 0x27] @ '': '') number_error [])
                   | Some amount \<Rightarrow>
                       (case paystack_InitiateTransfer key (net 1) (paystack_order currency req recipient amount) of
                          Inl e \<Rightarrow> Inl (Wrap ''paystack transfer failed: '' e [])
                        | Inr resp \<Rightarrow> Inr (paystack_mapSingleResponse req resp)))
              | _ \<Rightarrow> Inr (paystack_failed req (aa_Message r))))"

text \<open>The items of a batch and the results of the transfers that have none; the k-th transfer has the k-th request.\<close>

fun paystack_items :: "string \<Rightarrow> network \<Rightarrow> string \<Rightarrow> nat \<Rightarrow> single_req list \<Rightarrow> paystack_transfer list \<times> transfer_result list" where
  "paystack_items key net currency k [] = ([], [])"
| "paystack_items key net currency k (t # ts) =
     (let (items, results) = paystack_items key net currency (Suc k) ts
      in case CreateTransferRecipient key (net k) (recipient_of currency t) of
           Inl e \<Rightarrow> (items, paystack_failed t (err_text e) # results)
         | Inr r \<Rightarrow>
             (case (aa_Status r, aa_Data r) of
                (True, Some recipient) \<Rightarrow>
                  (case parse_int64 (rq_Amount t) of
                     None \<Rightarrow> (items, paystack_failed t (''invalid amount: '' @ rq_Amount t) # results)
                   | Some amount \<Rightarrow> (paystack_order currency t recipient amount # items, results))
              | _ \<Rightarrow> (items, paystack_failed t (aa_Message r) # results)))"

definition PaystackBulkTransfer :: "string \<Rightarrow> network \<Rightarrow> bulk_req \<Rightarrow> bulk_result res" where
  "PaystackBulkTransfer key net req =
     (let currency = or_default (bq_Currency req) ''NGN'';
          (items, results) = paystack_items key net currency 0 (bq_Transfers req);
          result = (\<lambda>ok s m. \<lparr>br_Success = ok, br_BatchReference = bq_BatchReference req, br_Provider = ''paystack'', br_Status = s,
                      br_Message = m, br_TransferResults = results\<rparr>)
      in if items = [] then Inr (result False ''failed'' ''all transfers failed recipient creation'')
         else (case paystack_InitiateBulkTransfer key (net (length (bq_Transfers req))) currency items of
                 Inl e \<Rightarrow> Inl (Wrap ''paystack bulk transfer failed: '' e [])
               | Inr resp \<Rightarrow> Inr (if aa_Status resp then result True ''processing'' (aa_Message resp)
                                else result False ''failed'' (aa_Message resp))))"

definition paystack_provider :: "string \<Rightarrow> (nat \<Rightarrow> network) \<Rightarrow> provider" where
  "paystack_provider key net = \<lparr>p_name = ''paystack'', p_answer = (\<lambda>n. PaystackTransfer key (net n)),
     p_bulk = Some \<lparr>MinBatchSize = 2, MaxBatchSize = 100, bulk_answer = (\<lambda>n. PaystackBulkTransfer key (net n))\<rparr>\<rparr>"

section \<open>Korapay\<close>

definition customer_body :: "string \<Rightarrow> string \<Rightarrow> wire" where
  "customer_body name email = WObject ((''name'', WText name) # omitempty ''email'' email)"

record disbursement =
  ds_Reference :: string
  ds_Amount :: string
  ds_Currency :: string
  ds_Narration :: string
  ds_Bank :: string
  ds_Account :: string
  ds_CustomerName :: string
  ds_CustomerEmail :: string

definition disbursement_body :: "disbursement \<Rightarrow> wire" where
  "disbursement_body d = WObject [(''reference'', WText (ds_Reference d)),
     (''destination'', WObject [(''type'', WText ''bank_account''), (''amount'', WText (ds_Amount d)),
        (''currency'', WText (ds_Currency d)), (''narration'', WText (ds_Narration d)),
        (''bank_account'', WObject [(''bank'', WText (ds_Bank d)), (''account'', WText (ds_Account d))]),
        (''customer'', customer_body (ds_CustomerName d) (ds_CustomerEmail d))])]"

text \<open>Reference, status and fee.\<close>

definition SingleDisbursementData :: "(string \<times> json) list \<Rightarrow> (string \<times> string \<times> string) option" where
  "SingleDisbursementData ms =
     (if texts_ok [''amount'', ''currency'', ''message''] ms
      then (case (string_field ''reference'' ms, string_field ''status'' ms, string_field ''fee'' ms) of
              (Some r, Some s, Some f) \<Rightarrow> Some (r, s, f) | _ \<Rightarrow> None)
      else None)"

definition SendSingleDisbursement ::
  "string \<Rightarrow> (http_call \<Rightarrow> http_outcome) \<Rightarrow> disbursement \<Rightarrow> (string \<times> string \<times> string) api_answer res" where
  "SendSingleDisbursement key net req =
     exchange (makeRequest ''korapay'' key net ''POST'' ''/merchant/api/v1/transactions/disburse'' (Some (disbursement_body req)))
       ''korapay single disbursement request failed: '' ''failed to decode korapay single disbursement response: ''
       (api_answer_of SingleDisbursementData)"

record payout_item =
  po_Reference :: string
  po_Amount :: float64
  po_Narration :: string
  po_BankCode :: string
  po_AccountNumber :: string
  po_CustomerName :: string
  po_CustomerEmail :: string

record payout_request =
  pq_BatchReference :: string
  pq_Description :: string
  pq_MerchantBearsCost :: bool
  pq_Currency :: string
  pq_Payouts :: "payout_item list"

definition payout_item_body :: "payout_item \<Rightarrow> wire" where
  "payout_item_body p = WObject [(''reference'', WText (po_Reference p)), (''amount'', WFloat (po_Amount p)),
     (''type'', WText ''bank_account''), (''narration'', WText (po_Narration p)),
     (''bank_account'', WObject [(''bank_code'', WText (po_BankCode p)), (''account_number'', WText (po_AccountNumber p))]),
     (''customer'', customer_body (po_CustomerName p) (po_CustomerEmail p))]"

definition payout_body :: "payout_request \<Rightarrow> wire" where
  "payout_body q = WObject ([(''batch_reference'', WText (pq_BatchReference q))] @ omitempty ''description'' (pq_Description q) @
     (if pq_MerchantBearsCost q then [(''merchant_bears_cost'', WBool True)] else []) @
     [(''currency'', WText (pq_Currency q)), (''payouts'', WArray (map payout_item_body (pq_Payouts q)))])"

text \<open>Reference and status.\<close>

definition BulkPayoutResponseData :: "(string \<times> json) list \<Rightarrow> (string \<times> string) option" where
  "BulkPayoutResponseData ms =
     (if texts_ok [''currency'', ''description'', ''createdAt'', ''amount''] ms \<and>
         ints_ok [''failedTransactions'', ''successfulTransactions'', ''pendingTransactions'', ''processingTransactions''] ms \<and>
         float_field ''total_chargeable_amount'' ms \<noteq> None \<and> bool_field ''merchant_bears_cost'' ms \<noteq> None
      then (case (string_field ''reference'' ms, string_field ''status'' ms) of (Some r, Some s) \<Rightarrow> Some (r, s) | _ \<Rightarrow> None)
      else None)"

definition SendBulkPayout ::
  "string \<Rightarrow> (http_call \<Rightarrow> http_outcome) \<Rightarrow> payout_request \<Rightarrow> (string \<times> string) api_answer res" where
  "SendBulkPayout key net req =
     exchange (makeRequest ''korapay'' key net ''POST'' ''/merchant/api/v1/transactions/disburse/bulk'' (Some (payout_body req)))
       ''korapay bulk payout request failed: '' ''failed to decode korapay bulk payout response: ''
       (api_answer_of BulkPayoutResponseData)"

definition customer_email :: "string \<Rightarrow> nat \<Rightarrow> string" where
  "customer_email email bid = or_default email (''transfer-'' @ show_nat bid @ ''@payflow.local'')"

text \<open>The amount is the text of the request.\<close>

definition disbursement_of :: "single_req \<Rightarrow> disbursement" where
  "disbursement_of req = \<lparr>ds_Reference = rq_Reference req, ds_Amount = rq_Amount req,
     ds_Currency = or_default (rq_Currency req) ''NGN'', ds_Narration = rq_Narration req, ds_Bank = rq_BankCode req,
     ds_Account = rq_AccountNumber req, ds_CustomerName = rq_AccountName req,
     ds_CustomerEmail = customer_email (rq_BusinessEmail req) (rq_BusinessID req)\<rparr>"

definition korapay_mapSingleResponse :: "string \<Rightarrow> (string \<times> string \<times> string) api_answer \<Rightarrow> transfer_result" where
  "korapay_mapSingleResponse reference resp =
     (let (r, s, f) = (case aa_Data resp of None \<Rightarrow> ([], [], []) | Some d \<Rightarrow> d)
      in if aa_Status resp
         then \<lparr>tr_Success = True, tr_Reference = reference, tr_TransactionID = r, tr_Status = or_default s ''processing'',
                tr_Message = aa_Message resp, tr_Provider = ''korapay'', tr_Fee = f\<rparr>
         else \<lparr>tr_Success = False, tr_Reference = reference, tr_TransactionID = [], tr_Status = ''failed'',
                tr_Message = aa_Message resp, tr_Provider = ''korapay'', tr_Fee = []\<rparr>)"

definition KorapayTransfer :: "string \<Rightarrow> network \<Rightarrow> single_req \<Rightarrow> transfer_result res" where
  "KorapayTransfer key net req =
     (case SendSingleDisbursement key (net 0) (disbursement_of req) of
        Inl e \<Rightarrow> Inl (Wrap ''korapay disbursement failed: '' e [])
      | Inr resp \<Rightarrow> Inr (korapay_mapSingleResponse (rq_Reference req) resp))"

text \<open>A batch stops at the first amount that is no number.\<close>

fun payout_items :: "bulk_req \<Rightarrow> single_req list \<Rightarrow> payout_item list res" where
  "payout_items b [] = Inr []"
| "payout_items b (t # ts) =
     (case parse_float (rq_Amount t) of
        None \<Rightarrow> Inl (Wrap (''invalid amount for transfer '' @ rq_Reference t @ '': '') number_error [])
      | Some amount \<Rightarrow>
          (case payout_items b ts of
             Inl e \<Rightarrow> Inl e
           | Inr ps \<Rightarrow> Inr (\<lparr>po_Reference = rq_Reference t, po_Amount = amount, po_Narration = rq_Narration t,
               po_BankCode = rq_BankCode t, po_AccountNumber = rq_AccountNumber t, po_CustomerName = rq_AccountName t,
               po_CustomerEmail = customer_email (bq_BusinessEmail b) (bq_BusinessID b)\<rparr> # ps)))"

definition korapay_mapBulkResponse :: "string \<Rightarrow> (string \<times> string) api_answer \<Rightarrow> bulk_result" where
  "korapay_mapBulkResponse batch resp =
     (let (r, s) = (case aa_Data resp of None \<Rightarrow> ([], []) | Some d \<Rightarrow> d)
      in if aa_Status resp
         then \<lparr>br_Success = True, br_BatchReference = or_default r batch, br_Provider = ''korapay'', br_Status = or_default s ''pending'',
                br_Message = aa_Message resp, br_TransferResults = []\<rparr>
         else \<lparr>br_Success = False, br_BatchReference = batch, br_Provider = ''korapay'', br_Status = ''failed'',
                br_Message = aa_Message resp, br_TransferResults = []\<rparr>)"

definition KorapayBulkTransfer :: "string \<Rightarrow> network \<Rightarrow> bulk_req \<Rightarrow> bulk_result res" where
  "KorapayBulkTransfer key net b =
     (case payout_items b (bq_Transfers b) of
        Inl e \<Rightarrow> Inl e
      | Inr ps \<Rightarrow>
          (case SendBulkPayout key (net 0) \<lparr>pq_BatchReference = bq_BatchReference b, pq_Description = bq_Description b,
                  pq_MerchantBearsCost = bq_MerchantBearsCost b, pq_Currency = or_default (bq_Currency b) ''NGN'', pq_Payouts = ps\<rparr> of
             Inl e \<Rightarrow> Inl (Wrap ''korapay bulk disbursement failed: '' e [])
           | Inr resp \<Rightarrow> Inr (korapay_mapBulkResponse (bq_BatchReference b) resp)))"

definition korapay_provider :: "string \<Rightarrow> (nat \<Rightarrow> network) \<Rightarrow> provider" where
  "korapay_provider key net = \<lparr>p_name = ''korapay'', p_answer = (\<lambda>n. KorapayTransfer key (net n)),
     p_bulk = Some \<lparr>MinBatchSize = 2, MaxBatchSize = 50, bulk_answer = (\<lambda>n. KorapayBulkTransfer key (net n))\<rparr>\<rparr>"

section \<open>What reaches Paystack\<close>

lemma show_nat_int: "show_nat n = show_int (int n)"
  by (simp add: show_int_def)

lemma kobo_of_whole: "n \<le> 2 ^ 40 \<Longrightarrow> parseAmountToKobo (show_nat n) = Inr (100 * int n)"
proof -
  assume n: "n \<le> 2 ^ 40"
  then have "int n \<le> 2 ^ 40" by (metis of_nat_le_iff of_nat_numeral of_nat_power)
  then have "parse_float (show_nat n) = Some (Fin (of_int (int n)))" unfolding show_nat_int by (intro parse_float_show_int) simp
  moreover have "fmul (Fin (of_int (int n))) (Fin 100) = Fin (of_int (100 * int n))"
  proof -
    have "\<bar>of_int (int n) * 100 :: rat\<bar> \<le> 2 ^ 100"
    proof -
      have "(of_int (int n) :: rat) \<le> of_int (2 ^ 40)" using \<open>int n \<le> 2 ^ 40\<close> by (simp only: of_int_le_iff)
      then show ?thesis by simp
    qed
    moreover have "rnd (of_int (100 * int n)) = of_int (100 * int n)" using \<open>int n \<le> 2 ^ 40\<close> by (intro rnd_int) simp
    moreover have "of_int (int n) * 100 = (of_int (100 * int n) :: rat)" by simp
    ultimately show ?thesis by (simp only: fmul.simps fl64_finite)
  qed
  moreover have "int64_of_round (Fin (of_int (100 * int n))) = 100 * int n"
    using \<open>int n \<le> 2 ^ 40\<close> by (intro int64_of_round_int) (simp_all add: in64_def)
  ultimately show ?thesis by (simp add: parseAmountToKobo_def)
qed

definition paystack_call :: "string \<Rightarrow> paystack_transfer \<Rightarrow> http_call" where
  "paystack_call key q = \<lparr>hc_Method = ''POST'', hc_Path = ''/transfer'', hc_Headers = bearer key, hc_Body = Some (paystack_transfer_body q)\<rparr>"

text \<open>
  C34: Paystack is paid a hundredth. The amount of a request is naira, and the wallet is debited the
  kobo it stands for; the Paystack provider reads the same text as kobo. A transfer of n naira that it reports as a success was
  ordered for n kobo.
\<close>

theorem paystack_pays_hundredth:
  assumes "PaystackTransfer key net req = Inr r" and "tr_Success r" and "rq_Amount req = show_nat n" and "n \<le> 2 ^ 40"
  shows "parseAmountToKobo (rq_Amount req) = Inr (100 * int n) \<and>
    (\<exists>recipient code text. net 1 (paystack_call key (paystack_order (or_default (rq_Currency req) ''NGN'') req recipient (int n))) =
       Answered code text \<and> 200 \<le> code \<and> code < 300)"
proof -
  have "int n \<le> 2 ^ 40" using assms(4) by (metis of_nat_le_iff of_nat_numeral of_nat_power)
  then have amount: "parse_int64 (rq_Amount req) = Some (int n)"
    unfolding assms(3) show_nat_int by (simp add: parse_int64_def parse_show_int in64_def)
  let ?c = "or_default (rq_Currency req) ''NGN''"
  obtain a where rec: "CreateTransferRecipient key (net 0) (recipient_of ?c req) = Inr a"
    using assms(1) by (auto simp: PaystackTransfer_def Let_def split: sum.splits)
  obtain recipient where a: "aa_Status a" "aa_Data a = Some recipient"
    using assms(1,2) by (auto simp: PaystackTransfer_def Let_def rec paystack_failed_def split: bool.splits option.splits)
  obtain resp where "paystack_InitiateTransfer key (net 1) (paystack_order ?c req recipient (int n)) = Inr resp"
    using assms(1) by (auto simp: PaystackTransfer_def Let_def rec a amount split: sum.splits)
  then have "\<exists>code text. net 1 (paystack_call key (paystack_order ?c req recipient (int n))) = Answered code text \<and> 200 \<le> code \<and> code < 300"
    by (auto simp: paystack_InitiateTransfer_def exchange_def makeRequest_def paystack_call_def split: sum.splits http_outcome.splits if_splits)
  then show ?thesis using kobo_of_whole [OF assms(4)] assms(3) by auto
qed

text \<open>A network on which every request is answered by one of two texts.\<close>

definition sample_network :: "string \<Rightarrow> string \<Rightarrow> network" where
  "sample_network a b = (\<lambda>k _. Answered 200 (if k = 0 then a else b))"

definition recipient_text :: string where
  "recipient_text = ''{\"status\":true,\"message\":\"ok\",\"data\":{\"recipient_code\":\"R1\"}}''"

definition taken_up_text :: string where
  "taken_up_text = ''{\"status\":true,\"message\":\"ok\",\"data\":{\"reference\":\"K1\",\"status\":\"processing\"}}''"

lemma sample_answers:
  "exchange (Inr recipient_text) e f (api_answer_of RecipientData) = Inr \<lparr>aa_Status = True, aa_Message = ''ok'', aa_Data = Some ''R1''\<rparr>"
  "exchange (Inr taken_up_text) e f (api_answer_of TransferData) =
     Inr \<lparr>aa_Status = True, aa_Message = ''ok'', aa_Data = Some ([], ''processing'')\<rparr>"
  "exchange (Inr taken_up_text) e f (api_answer_of SingleDisbursementData) =
     Inr \<lparr>aa_Status = True, aa_Message = ''ok'', aa_Data = Some (''K1'', ''processing'', [])\<rparr>"
  unfolding recipient_text_def taken_up_text_def by code_simp+

theorem paystack_pays_hundredth_witness:
  "\<exists>r. PaystackTransfer ''key'' (sample_network recipient_text taken_up_text) sample_req = Inr r \<and> tr_Success r \<and>
     parseAmountToKobo (rq_Amount sample_req) = Inr 250000"
proof -
  have amount: "rq_Amount sample_req = show_nat 2500" by code_simp
  have "parse_int64 (rq_Amount sample_req) = Some 2500"
    using parse_show_int [of 2500] unfolding amount show_nat_int by (simp add: parse_int64_def in64_def)
  then have "\<exists>r. PaystackTransfer ''key'' (sample_network recipient_text taken_up_text) sample_req = Inr r \<and> tr_Success r"
    by (simp add: PaystackTransfer_def CreateTransferRecipient_def paystack_InitiateTransfer_def makeRequest_def sample_network_def
        sample_answers paystack_mapSingleResponse_def Let_def)
  then obtain r where r: "PaystackTransfer ''key'' (sample_network recipient_text taken_up_text) sample_req = Inr r" "tr_Success r" by blast
  from paystack_pays_hundredth [OF this amount] r show ?thesis by simp
qed

section \<open>What becomes of the balance\<close>


definition korapay_service :: transfer_service where
  "korapay_service = sample_service\<lparr>ts_manager := \<lparr>defaultProvider = korapay_provider ''key'' (\<lambda>_. sample_network taken_up_text []),
     fallbackProviders = [], allProviders = [(''korapay'', korapay_provider ''key'' (\<lambda>_. sample_network taken_up_text []))]\<rparr>\<rparr>"

definition korapay_req :: single_req where
  "korapay_req = sample_req\<lparr>rq_PreferredProvider := ''korapay''\<rparr>"

lemma korapay_amount:
  "parseAmountToKobo ''2500'' = Inr 250000" "validateTransferAmount \<lparr>MinAmount = 0, MaxAmount = 0\<rparr> ''2500'' = Inr ()"
proof -
  show "parseAmountToKobo ''2500'' = Inr 250000" using sample_kobo by (simp add: sample_req_def)
  have "''2500'' = show_int 2500" by code_simp
  then show "validateTransferAmount \<lparr>MinAmount = 0, MaxAmount = 0\<rparr> ''2500'' = Inr ()"
    using parse_show_int [of 2500] by (simp add: validateTransferAmount_def whole_amount_def in64_def)
qed

lemma korapay_answer:
  "KorapayTransfer ''key'' (sample_network taken_up_text []) req = Inr \<lparr>tr_Success = True, tr_Reference = rq_Reference req,
     tr_TransactionID = ''K1'', tr_Status = ''processing'', tr_Message = ''ok'', tr_Provider = ''korapay'', tr_Fee = []\<rparr>"
  by (simp add: KorapayTransfer_def SendSingleDisbursement_def makeRequest_def sample_network_def sample_answers
      korapay_mapSingleResponse_def or_default_def)

lemma korapay_takes_up:
  "\<exists>resp w'. ExecuteTransfer korapay_service 1 korapay_req rich_world = (resp, w') \<and> rs_Success resp \<and> rs_Status resp = ''processing'' \<and>
     map fst (calls w') = [''korapay'']"
  by (simp add: ExecuteTransfer_def prepareTransferRequest_def korapay_req_def sample_req_def korapay_service_def sample_service_def
      korapay_amount check_balance_def CheckBalance_def wallet_FindByBusinessID_def rich_world_def sample_world_def sample_wallet_def
      in64_def sub64_def has_reference_def enrichWithBusinessEmail_def business_email_def user_FindBusinessAdmin_def lock_amount_def
      LockBalance_def IncrementLocked_def update_wallet_def bigint_nonneg_def send_transfer_def transfer_Create_def transfer_row_def
      new_row_def dispatch_def GetProvider_def contact_def korapay_provider_def korapay_answer complete_transfer_def now_def
      transfer_Update_def UnlockBalance_def DecrementLocked_def Let_def statement_def fault_eq transfer_FindByReference_def split_beta)


end
