(* ===== verification/Vfd_Client.thy ===== *)
theory Vfd_Client
  imports Payment_Clients
begin

text \<open>
  VFD: the client with its access token (\<^verbatim>\<open>client.go\<close>), the bank's services on it
  (\<^verbatim>\<open>service.go\<close>) in \<^verbatim>\<open>internal/platform/vfd\<close>, and the provider
  made of them (\<^verbatim>\<open>internal/service/provider/vfd_provider.go\<close>). The token is a state that
  the operations pass on. The hash function is a parameter.
\<close>

section \<open>The client (client.go)\<close>

record vfd_client =
  vc_ConsumerKey :: string
  vc_ConsumerSecret :: string

fun checkVFDStatus :: "string \<Rightarrow> string \<Rightarrow> unit res" where
  "checkVFDStatus st m =
     (if st = ''00'' \<or> st = ''success'' then Inr ()
      else Inl (Plain
        (if st = ''02'' then ''VFD signature mismatch''
         else if st = ''98'' then
           (if m = ''Transaction Exist'' then ''VFD transaction already exists''
            else if m = ''Invalid uniqueSenderAccountId'' then ''VFD invalid sender account ID''
            else ''VFD error (98): '' @ m)
         else if st = ''99'' then ''VFD transaction failed: '' @ m
         else if st = ''104'' then ''VFD account not found''
         else if st = ''108'' then ''VFD no transaction found''
         else if st = ''199'' then ''VFD transaction/session ID is mandatory''
         else if st = ''500'' then ''VFD internal server error''
         else ''VFD error (status '' @ st @ ''): '' @ m)))"

text \<open>
  The answer is an envelope with a status; what it carries is decoded with it, so that both can fail. Members that are
  null leave the result at its zero.
\<close>

definition VFDResponse :: "'a \<Rightarrow> (json \<Rightarrow> 'a option) \<Rightarrow> (string \<times> json) list \<Rightarrow> (string \<times> string \<times> 'a) option" where
  "VFDResponse zero f ms =
     (case (string_field ''status'' ms, string_field ''message'' ms, field f zero ''data'' ms) of
        (Some s, Some m, Some d) \<Rightarrow> Some (s, m, d) | _ \<Rightarrow> None)"

definition doRequest ::
  "(http_call \<Rightarrow> http_outcome) \<Rightarrow> string \<Rightarrow> string \<Rightarrow> (string \<times> string) list \<Rightarrow> wire option \<Rightarrow> 'a \<Rightarrow> (json \<Rightarrow> 'a option) \<Rightarrow> 'a res" where
  "doRequest net method path headers body zero f =
     (case net \<lparr>hc_Method = method, hc_Path = path,
              hc_Headers = [(''Content-Type'', ''application/json''), (''Accept'', ''application/json'')] @ headers, hc_Body = body\<rparr> of
        Unmade e \<Rightarrow> Inl (Wrap ''failed to create request: '' e [])
      | Unanswered e \<Rightarrow> Inl (Wrap ''HTTP request failed: '' e [])
      | Unread e \<Rightarrow> Inl (Wrap ''failed to read response body: '' e [])
      | Answered code text \<Rightarrow>
          if code = 202 \<and> text = []
          then Inl (Plain (''VFD API returned 202 Accepted with no response body - this typically means the API credentials don'' @ [CHR 0x27] @
            ''t have access to this endpoint or no wallet is configured''))
          else if code < 200 \<or> 300 \<le> code
          then Inl (Plain (''VFD API returned status '' @ show_nat code @ '': '' @ text))
          else if text = []
          then Inl (Plain ''VFD API returned empty response - check API credentials and wallet configuration'')
          else (case Option.bind (Option.bind (unmarshal text) object_members) (VFDResponse zero f) of
                  None \<Rightarrow> Inl (Wrap ''failed to parse VFD response: '' decode_error [])
                | Some (st, m, d) \<Rightarrow> (case checkVFDStatus st m of Inl e \<Rightarrow> Inl e | Inr _ \<Rightarrow> Inr d)))"

definition object_of_text :: "((string \<times> json) list \<Rightarrow> 'a option) \<Rightarrow> json \<Rightarrow> 'a option" where
  "object_of_text f v = (case v of JObject ms \<Rightarrow> f ms | _ \<Rightarrow> None)"

definition TokenResponseData :: "(string \<times> json) list \<Rightarrow> string option" where
  "TokenResponseData ms =
     (if texts_ok [''scope'', ''token_type''] ms \<and> ints_ok [''expires_in''] ms then string_field ''access_token'' ms else None)"

definition GetAccessToken :: "vfd_client \<Rightarrow> (http_call \<Rightarrow> http_outcome) \<Rightarrow> string \<Rightarrow> string res \<times> string" where
  "GetAccessToken c net token =
     (if token \<noteq> [] then (Inr token, token)
      else case doRequest net ''POST'' ''/baasauth/token'' []
             (Some (WObject [(''consumerKey'', WText (vc_ConsumerKey c)), (''consumerSecret'', WText (vc_ConsumerSecret c)),
               (''validityTime'', WText ''-1'')])) [] (object_of_text TokenResponseData) of
        Inl e \<Rightarrow> (Inl (Wrap ''failed to get VFD access token: '' e []), token)
      | Inr t \<Rightarrow> (Inr t, t))"

definition doAuthenticatedRequest ::
  "vfd_client \<Rightarrow> (http_call \<Rightarrow> http_outcome) \<Rightarrow> string \<Rightarrow> string \<Rightarrow> wire option \<Rightarrow> 'a \<Rightarrow> (json \<Rightarrow> 'a option) \<Rightarrow> string \<Rightarrow>
    'a res \<times> string" where
  "doAuthenticatedRequest c net method path body zero f token =
     (case GetAccessToken c net token of
        (Inl e, token) \<Rightarrow> (Inl e, token)
      | (Inr t, token) \<Rightarrow> (doRequest net method path [(''AccessToken'', t)] body zero f, token))"

section \<open>The bank's services (service.go)\<close>

record 'a enquiry =
  en_Status :: string
  en_Message :: string
  en_Data :: "'a option"

record account_data =
  ad_AccountNo :: string
  ad_AccountBalance :: string
  ad_AccountId :: string
  ad_Client :: string
  ad_ClientId :: string
  ad_SavingsProductName :: string

record beneficiary_data =
  bd_Name :: string
  bd_ClientId :: string
  bd_BVN :: string
  bd_AccountNumber :: string
  bd_AccountID :: string
  bd_Status :: string
  bd_Currency :: string
  bd_Bank :: string

text \<open>A service that fails wraps the error, and one that does not answers with a status of its own.\<close>

definition served :: "string \<Rightarrow> string \<Rightarrow> 'a res \<times> string \<Rightarrow> 'a enquiry res \<times> string" where
  "served failed m r =
     (case r of (Inl e, token) \<Rightarrow> (Inl (Wrap failed e []), token)
      | (Inr d, token) \<Rightarrow> (Inr \<lparr>en_Status = ''00'', en_Message = m, en_Data = Some d\<rparr>, token))"

definition AccountEnquiryData :: "(string \<times> json) list \<Rightarrow> account_data option" where
  "AccountEnquiryData ms =
     (case (string_field ''accountNo'' ms, string_field ''accountBalance'' ms, string_field ''accountId'' ms,
            string_field ''client'' ms, string_field ''clientId'' ms, string_field ''savingsProductName'' ms) of
        (Some n, Some b, Some i, Some c, Some ci, Some s) \<Rightarrow>
          Some \<lparr>ad_AccountNo = n, ad_AccountBalance = b, ad_AccountId = i, ad_Client = c, ad_ClientId = ci, ad_SavingsProductName = s\<rparr>
      | _ \<Rightarrow> None)"

definition no_account :: account_data where
  "no_account = \<lparr>ad_AccountNo = [], ad_AccountBalance = [], ad_AccountId = [], ad_Client = [], ad_ClientId = [], ad_SavingsProductName = []\<rparr>"

definition AccountEnquiry ::
  "vfd_client \<Rightarrow> (http_call \<Rightarrow> http_outcome) \<Rightarrow> string \<Rightarrow> string \<Rightarrow> account_data enquiry res \<times> string" where
  "AccountEnquiry c net accountNumber token =
     served ''account enquiry failed: '' ''Account Details''
       (doAuthenticatedRequest c net ''GET''
         (''/account/enquiry'' @ (if accountNumber \<noteq> [] then ''?accountNumber='' @ accountNumber else []))
         None no_account (object_of_text AccountEnquiryData) token)"

definition beneficiary_account :: "(string \<times> json) list \<Rightarrow> (string \<times> string) option" where
  "beneficiary_account ms =
     (case (string_field ''number'' ms, string_field ''id'' ms) of (Some n, Some i) \<Rightarrow> Some (n, i) | _ \<Rightarrow> None)"

definition BeneficiaryEnquiryData :: "(string \<times> json) list \<Rightarrow> beneficiary_data option" where
  "BeneficiaryEnquiryData ms =
     (case (string_field ''name'' ms, string_field ''clientId'' ms, string_field ''bvn'' ms,
            field (object_of_text beneficiary_account) ([], []) ''account'' ms, string_field ''status'' ms,
            string_field ''currency'' ms, string_field ''bank'' ms) of
        (Some n, Some i, Some b, Some (no, ai), Some s, Some c, Some bk) \<Rightarrow>
          Some \<lparr>bd_Name = n, bd_ClientId = i, bd_BVN = b, bd_AccountNumber = no, bd_AccountID = ai, bd_Status = s,
            bd_Currency = c, bd_Bank = bk\<rparr>
      | _ \<Rightarrow> None)"

definition no_beneficiary :: beneficiary_data where
  "no_beneficiary = \<lparr>bd_Name = [], bd_ClientId = [], bd_BVN = [], bd_AccountNumber = [], bd_AccountID = [], bd_Status = [],
     bd_Currency = [], bd_Bank = []\<rparr>"

definition BeneficiaryEnquiry ::
  "vfd_client \<Rightarrow> (http_call \<Rightarrow> http_outcome) \<Rightarrow> string \<Rightarrow> string \<Rightarrow> string \<Rightarrow> string \<Rightarrow> beneficiary_data enquiry res \<times> string" where
  "BeneficiaryEnquiry c net accountNo bank transferType token =
     served ''beneficiary enquiry failed: '' ''Account Found''
       (doAuthenticatedRequest c net ''GET''
         (''/transfer/recipient?accountNo='' @ accountNo @ ''&bank='' @ bank @ ''&transfer_type='' @ transferType)
         None no_beneficiary (object_of_text BeneficiaryEnquiryData) token)"

definition BankData :: "json \<Rightarrow> (string \<times> string) option" where
  "BankData = object_of_text (\<lambda>ms.
     case (string_field ''code'' ms, string_field ''name'' ms) of (Some c, Some n) \<Rightarrow> Some (c, n) | _ \<Rightarrow> None)"

definition GetBankList ::
  "vfd_client \<Rightarrow> (http_call \<Rightarrow> http_outcome) \<Rightarrow> string \<Rightarrow> (string \<times> string) list enquiry res \<times> string" where
  "GetBankList c net token =
     served ''get bank list failed: '' ''Bank List''
       (doAuthenticatedRequest c net ''GET'' ''/bank'' None [] (json_list (\<lambda>v. if v = JNull then Some ([], []) else BankData v)) token)"

definition vfd_request_body :: "vfd_request \<Rightarrow> wire" where
  "vfd_request_body q = WObject (
     [(''fromAccount'', WText (vfq_FromAccount q))] @ omitempty ''uniqueSenderAccountId'' (vfq_UniqueSenderAccountId q) @
     [(''fromClientId'', WText (vfq_FromClientId q)), (''fromClient'', WText (vfq_FromClient q)),
      (''fromSavingsId'', WText (vfq_FromSavingsId q))] @ omitempty ''fromBvn'' (vfq_FromBvn q) @
     omitempty ''toClientId'' (vfq_ToClientId q) @ [(''toClient'', WText (vfq_ToClient q))] @
     omitempty ''toSavingsId'' (vfq_ToSavingsId q) @ omitempty ''toSession'' (vfq_ToSession q) @ omitempty ''toBvn'' (vfq_ToBvn q) @
     [(''toAccount'', WText (vfq_ToAccount q)), (''toBank'', WText (vfq_ToBank q)), (''signature'', WText (vfq_Signature q)),
      (''amount'', WText (vfq_Amount q)), (''remark'', WText (vfq_Remark q)), (''transferType'', WText (vfq_TransferType q)),
      (''reference'', WText (vfq_Reference q))])"

definition vfd_TransferData :: "(string \<times> json) list \<Rightarrow> vfd_data option" where
  "vfd_TransferData ms =
     (case (string_field ''txnId'' ms, string_field ''sessionId'' ms, string_field ''reference'' ms) of
        (Some t, Some s, Some r) \<Rightarrow> Some \<lparr>vd_TxnId = t, vd_SessionId = s, vd_Reference = r\<rparr> | _ \<Rightarrow> None)"

definition vfd_InitiateTransfer ::
  "vfd_client \<Rightarrow> (http_call \<Rightarrow> http_outcome) \<Rightarrow> vfd_request \<Rightarrow> string \<Rightarrow> vfd_data enquiry res \<times> string" where
  "vfd_InitiateTransfer c net req token =
     served ''VFD transfer failed: '' ''Successful Transfer''
       (doAuthenticatedRequest c net ''POST'' ''/transfer'' (Some (vfd_request_body req))
         \<lparr>vd_TxnId = [], vd_SessionId = [], vd_Reference = []\<rparr> (object_of_text vfd_TransferData) token)"

definition GenerateTransferSignature :: "(string \<Rightarrow> string) \<Rightarrow> string \<Rightarrow> string \<Rightarrow> string" where
  "GenerateTransferSignature sha512 fromAccount toAccount = sha512 (fromAccount @ toAccount)"

section \<open>The provider (vfd_provider.go)\<close>

definition determineTransferType :: "string \<Rightarrow> string" where
  "determineTransferType bankCode = (if bankCode = ''999999'' then ''intra'' else ''inter'')"

definition buildTransferRequest ::
  "single_req \<Rightarrow> account_data \<Rightarrow> beneficiary_data \<Rightarrow> string \<Rightarrow> string \<Rightarrow> vfd_request" where
  "buildTransferRequest req sender recipient signature transferType =
     \<lparr>vfq_FromAccount = ad_AccountNo sender, vfq_UniqueSenderAccountId = [], vfq_FromClientId = ad_ClientId sender,
      vfq_FromClient = ad_Client sender, vfq_FromSavingsId = ad_AccountId sender, vfq_FromBvn = [],
      vfq_ToClientId = bd_ClientId recipient, vfq_ToClient = bd_Name recipient,
      vfq_ToSavingsId = (if transferType = ''intra'' then bd_AccountID recipient else []),
      vfq_ToSession = (if transferType = ''intra'' then [] else bd_AccountID recipient),
      vfq_ToBvn = bd_BVN recipient, vfq_ToAccount = bd_AccountNumber recipient, vfq_ToBank = rq_BankCode req,
      vfq_Signature = signature, vfq_Amount = rq_Amount req, vfq_Remark = rq_Narration req,
      vfq_TransferType = transferType, vfq_Reference = rq_Reference req\<rparr>"

definition vfd_mapTransferResponse :: "string \<Rightarrow> vfd_data enquiry \<Rightarrow> transfer_result" where
  "vfd_mapTransferResponse reference resp =
     \<lparr>tr_Success = (en_Status resp = ''00''), tr_Reference = reference,
      tr_TransactionID = (if en_Status resp = ''00'' then (case en_Data resp of None \<Rightarrow> [] | Some d \<Rightarrow> vd_TxnId d) else []),
      tr_Status = (if en_Status resp = ''00'' then ''success'' else ''failed''), tr_Message = en_Message resp,
      tr_Provider = ''vfd'', tr_Fee = []\<rparr>"

definition getSenderDetails :: "vfd_client \<Rightarrow> (http_call \<Rightarrow> http_outcome) \<Rightarrow> string \<Rightarrow> account_data res \<times> string" where
  "getSenderDetails c net token =
     (case AccountEnquiry c net [] token of
        (Inl e, token) \<Rightarrow> (Inl e, token)
      | (Inr r, token) \<Rightarrow> (case en_Data r of None \<Rightarrow> (Inl (Plain ''no sender account data returned''), token) | Some d \<Rightarrow> (Inr d, token)))"

definition getRecipientDetails ::
  "vfd_client \<Rightarrow> (http_call \<Rightarrow> http_outcome) \<Rightarrow> string \<Rightarrow> string \<Rightarrow> string \<Rightarrow> string \<Rightarrow> beneficiary_data res \<times> string" where
  "getRecipientDetails c net accountNo bankCode transferType token =
     (case BeneficiaryEnquiry c net accountNo bankCode transferType token of
        (Inl e, token) \<Rightarrow> (Inl e, token)
      | (Inr r, token) \<Rightarrow>
          (case en_Data r of None \<Rightarrow> (Inl (Plain (''no recipient data returned for account '' @ accountNo)), token)
           | Some d \<Rightarrow> (Inr d, token)))"

definition VFDTransfer ::
  "vfd_client \<Rightarrow> (string \<Rightarrow> string) \<Rightarrow> network \<Rightarrow> single_req \<Rightarrow> string \<Rightarrow> transfer_result res \<times> string" where
  "VFDTransfer c sha512 net req token =
     (let kind = determineTransferType (rq_BankCode req)
      in case getSenderDetails c (net 0) token of
           (Inl e, token) \<Rightarrow> (Inl (Wrap ''failed to get sender details: '' e []), token)
         | (Inr sender, token) \<Rightarrow>
             (case getRecipientDetails c (net 1) (rq_AccountNumber req) (rq_BankCode req) kind token of
                (Inl e, token) \<Rightarrow> (Inl (Wrap ''failed to get recipient details: '' e []), token)
              | (Inr recipient, token) \<Rightarrow>
                  (let signature = GenerateTransferSignature sha512 (ad_AccountNo sender) (bd_AccountNumber recipient)
                   in case vfd_InitiateTransfer c (net 2) (buildTransferRequest req sender recipient signature kind) token of
                        (Inl e, token) \<Rightarrow> (Inl (Wrap ''VFD transfer failed: '' e []), token)
                      | (Inr resp, token) \<Rightarrow> (Inr (vfd_mapTransferResponse (rq_Reference req) resp), token))))"

text \<open>The token that the n-th call finds is a parameter, like the network.\<close>

definition vfd_provider :: "vfd_client \<Rightarrow> (string \<Rightarrow> string) \<Rightarrow> (nat \<Rightarrow> string) \<Rightarrow> (nat \<Rightarrow> network) \<Rightarrow> provider" where
  "vfd_provider c sha512 token net = \<lparr>p_name = ''vfd'',
     p_answer = (\<lambda>n req. fst (VFDTransfer c sha512 (net n) req (token n))), p_bulk = None\<rparr>"

section \<open>What reaches the bank\<close>

definition vfd_headers :: "string \<Rightarrow> (string \<times> string) list" where
  "vfd_headers token = [(''Content-Type'', ''application/json''), (''Accept'', ''application/json''), (''AccessToken'', token)]"

definition transfer_call :: "string \<Rightarrow> vfd_request \<Rightarrow> http_call" where
  "transfer_call token q = \<lparr>hc_Method = ''POST'', hc_Path = ''/transfer'', hc_Headers = vfd_headers token,
     hc_Body = Some (vfd_request_body q)\<rparr>"

text \<open>
  VFD pays what was asked. A provider that reports success had the bank answer, with a status in the 200s, to an
  order from the pool account for the amount, the bank, the narration and the reference of the request, to the account that the
  bank itself named for the recipient; the result is a success, with the reference of the request.
\<close>

theorem vfd_order_faithful:
  assumes "VFDTransfer c sha512 net req token = (Inr r, token')"
  shows "tr_Success r \<and> tr_Status r = ''success'' \<and> tr_Reference r = rq_Reference req \<and>
    (\<exists>sender recipient tk t code text. fst (getSenderDetails c (net 0) token) = Inr sender \<and>
      fst (getRecipientDetails c (net 1) (rq_AccountNumber req) (rq_BankCode req) (determineTransferType (rq_BankCode req)) tk) = Inr recipient \<and>
      net 2 (transfer_call t (buildTransferRequest req sender recipient (sha512 (ad_AccountNo sender @ bd_AccountNumber recipient))
          (determineTransferType (rq_BankCode req)))) = Answered code text \<and> 200 \<le> code \<and> code < 300)"
proof -
  obtain sender t0 where sender: "getSenderDetails c (net 0) token = (Inr sender, t0)"
    using assms by (auto simp: VFDTransfer_def Let_def split: prod.splits sum.splits)
  obtain recipient t1 where recipient: "getRecipientDetails c (net 1) (rq_AccountNumber req) (rq_BankCode req)
      (determineTransferType (rq_BankCode req)) t0 = (Inr recipient, t1)"
    using assms by (auto simp: VFDTransfer_def Let_def sender split: prod.splits sum.splits)
  let ?q = "buildTransferRequest req sender recipient (sha512 (ad_AccountNo sender @ bd_AccountNumber recipient))
          (determineTransferType (rq_BankCode req))"
  obtain resp where resp: "vfd_InitiateTransfer c (net 2) ?q t1 = (Inr resp, token')"
      and r: "r = vfd_mapTransferResponse (rq_Reference req) resp"
    using assms by (auto simp: VFDTransfer_def Let_def sender recipient GenerateTransferSignature_def simp del: One_nat_def split: prod.splits sum.splits)
  obtain t d where "doRequest (net 2) ''POST'' ''/transfer'' [(''AccessToken'', t)] (Some (vfd_request_body ?q))
      \<lparr>vd_TxnId = [], vd_SessionId = [], vd_Reference = []\<rparr> (object_of_text vfd_TransferData) = Inr d"
    using resp by (auto simp: vfd_InitiateTransfer_def served_def doAuthenticatedRequest_def split: prod.splits sum.splits)
  then obtain code answer where "net 2 (transfer_call t ?q) = Answered code answer \<and> 200 \<le> code \<and> code < 300"
    by (auto simp: doRequest_def transfer_call_def vfd_headers_def split: http_outcome.splits if_splits)
  moreover have "en_Status resp = ''00''"
    using resp by (auto simp: vfd_InitiateTransfer_def served_def split: prod.splits sum.splits)
  ultimately show ?thesis
    unfolding r vfd_mapTransferResponse_def
    by (simp add: sender del: One_nat_def)
      (rule exI [of _ recipient], rule conjI, rule exI [of _ t0], simp add: recipient del: One_nat_def, blast)
qed

definition sample_vfd_network :: network where
  "sample_vfd_network k call = Answered 200
     (if k = 0 then ''{\"status\":\"00\",\"data\":{\"accountNo\":\"pool\"}}''
      else if k = 1 then ''{\"status\":\"00\",\"data\":{\"name\":\"Ada\",\"account\":{\"number\":\"1\",\"id\":\"2\"}}}''
      else ''{\"status\":\"00\",\"data\":{\"txnId\":\"T1\"}}'')"

theorem vfd_order_faithful_witness:
  "\<exists>r token'. VFDTransfer \<lparr>vc_ConsumerKey = ''k'', vc_ConsumerSecret = ''s''\<rparr> id sample_vfd_network sample_req ''tk'' = (Inr r, token') \<and>
     tr_Success r \<and> tr_Reference r = ''ref-1''"
proof -
  have run: "VFDTransfer \<lparr>vc_ConsumerKey = ''k'', vc_ConsumerSecret = ''s''\<rparr> id sample_vfd_network sample_req ''tk'' =
      (Inr \<lparr>tr_Success = True, tr_Reference = ''ref-1'', tr_TransactionID = ''T1'', tr_Status = ''success'',
         tr_Message = ''Successful Transfer'', tr_Provider = ''vfd'', tr_Fee = []\<rparr>, ''tk'')"
    by code_simp
  from vfd_order_faithful [OF run] run show ?thesis by (auto simp: sample_req_def)
qed

end
