(* ===== verification/Vfd_Transfers.thy ===== *)
theory Vfd_Transfers
  imports Vfd_Client Registration
begin

text \<open>
  Transfers that are ordered from VFD directly: \<^verbatim>\<open>internal/service/vfd/vfd_transfer_service.go\<close>,
  \<^verbatim>\<open>internal/repository/postgres/vfd_transfer_repo.go\<close> and
  \<^verbatim>\<open>internal/api/handler/vfd_transfer_handler.go\<close> with its requests. The bank is a parameter, of
  which \<open>Vfd_Client\<close> has the implementation; orders are logged in \<open>vfd_calls\<close>. Statements in a
  transaction work on its copy of the table until it is committed.
\<close>

section \<open>Statements (vfd_transfer_repo.go)\<close>

definition vfd_Create :: "vfd_record \<Rightarrow> world \<Rightarrow> vfd_record res \<times> world" where
  "vfd_Create r = statement (\<lambda>w.
     (if vt_Reference r \<in> vt_Reference ` set (vfd_records w) then (Inl (Sentinel ErrConflict), w)
      else (let r = r\<lparr>vt_ID := Suc (foldr max (map vt_ID (vfd_records w)) 0)\<rparr> in (Inr r, w\<lparr>vfd_records := vfd_records w @ [r]\<rparr>))))"

text \<open>All columns of the row with the identifier, which is inserted when there is none.\<close>

definition vfd_Update :: "vfd_record \<Rightarrow> world \<Rightarrow> vfd_record res \<times> world" where
  "vfd_Update r = statement (\<lambda>w.
     (Inr r, w\<lparr>vfd_records := if vt_ID r \<in> vt_ID ` set (vfd_records w)
                then map (\<lambda>x. if vt_ID x = vt_ID r then r else x) (vfd_records w) else vfd_records w @ [r]\<rparr>))"

definition vfd_FindByID :: "nat \<Rightarrow> world \<Rightarrow> vfd_record res \<times> world" where
  "vfd_FindByID i = statement (\<lambda>w.
     (case find (\<lambda>r. vt_ID r = i) (vfd_records w) of None \<Rightarrow> (Inl (Sentinel ErrNotFound), w) | Some r \<Rightarrow> (Inr r, w)))"

definition vfd_FindByBusinessID :: "nat \<Rightarrow> nat \<Rightarrow> nat \<Rightarrow> world \<Rightarrow> (vfd_record list \<times> nat) res \<times> world" where
  "vfd_FindByBusinessID bid = paged (\<lambda>w. filter (\<lambda>r. vt_BusinessID r = bid) (vfd_records w))"

definition vfd_FindByFromAccount :: "string \<Rightarrow> nat \<Rightarrow> nat \<Rightarrow> world \<Rightarrow> (vfd_record list \<times> nat) res \<times> world" where
  "vfd_FindByFromAccount account = paged (\<lambda>w. filter (\<lambda>r. vt_FromAccount r = account) (vfd_records w))"

definition vfd_FindByToAccount :: "string \<Rightarrow> nat \<Rightarrow> nat \<Rightarrow> world \<Rightarrow> (vfd_record list \<times> nat) res \<times> world" where
  "vfd_FindByToAccount account = paged (\<lambda>w. filter (\<lambda>r. vt_ToAccount r = account) (vfd_records w))"

section \<open>The transaction\<close>

record vfd_tx =
  vx_records :: "vfd_record list"
  vx_aborted :: bool

definition vfd_Begin :: "world \<Rightarrow> vfd_tx \<times> world" where
  "vfd_Begin w = (let (f, w) = fault w in (\<lparr>vx_records = vfd_records w, vx_aborted = f\<rparr>, w))"

definition vfd_in_tx :: "(world \<Rightarrow> 'a res \<times> world) \<Rightarrow> vfd_tx \<Rightarrow> world \<Rightarrow> 'a res \<times> vfd_tx \<times> world" where
  "vfd_in_tx body t w =
     (if vx_aborted t then (Inl tx_error, t, w)
      else (let (r, v) = body (w\<lparr>vfd_records := vx_records t\<rparr>)
            in (r, \<lparr>vx_records = vfd_records v, vx_aborted = (case r of Inl e \<Rightarrow> e \<noteq> Sentinel ErrNotFound | Inr _ \<Rightarrow> False)\<rparr>,
                v\<lparr>vfd_records := vfd_records w\<rparr>)))"

definition vfd_Commit :: "vfd_tx \<Rightarrow> world \<Rightarrow> unit res \<times> world" where
  "vfd_Commit t w =
     (if vx_aborted t then (Inl tx_error, w) else statement (\<lambda>w. (Inr (), w\<lparr>vfd_records := vx_records t\<rparr>)) w)"

section \<open>The service (vfd_transfer_service.go)\<close>

record vfd_bank =
  vb_Account :: "string \<Rightarrow> nat \<Rightarrow> account_data enquiry res"
  vb_Beneficiary :: "string \<Rightarrow> string \<Rightarrow> string \<Rightarrow> nat \<Rightarrow> beneficiary_data enquiry res"
  vb_Banks :: "nat \<Rightarrow> (string \<times> string) list enquiry res"
  vb_Transfer :: "vfd_request \<Rightarrow> nat \<Rightarrow> vfd_data enquiry res"

definition asked :: "string \<Rightarrow> (nat \<Rightarrow> 'a res) \<Rightarrow> world \<Rightarrow> 'a res \<times> world" where
  "asked failed answer w =
     (case answer (tick w) of Inl e \<Rightarrow> Inl (Wrap failed e []) | Inr r \<Rightarrow> Inr r, w\<lparr>tick := Suc (tick w)\<rparr>)"

definition vfd_AccountEnquiry :: "vfd_bank \<Rightarrow> string \<Rightarrow> world \<Rightarrow> account_data enquiry res \<times> world" where
  "vfd_AccountEnquiry bank accountNumber = asked ''failed to perform account enquiry: '' (vb_Account bank accountNumber)"

definition vfd_BeneficiaryEnquiry :: "vfd_bank \<Rightarrow> string \<Rightarrow> string \<Rightarrow> string \<Rightarrow> world \<Rightarrow> beneficiary_data enquiry res \<times> world" where
  "vfd_BeneficiaryEnquiry bank accountNo b transferType =
     asked ''failed to perform beneficiary enquiry: '' (vb_Beneficiary bank accountNo b transferType)"

definition vfd_GetBankList :: "vfd_bank \<Rightarrow> world \<Rightarrow> (string \<times> string) list enquiry res \<times> world" where
  "vfd_GetBankList bank = asked ''failed to fetch bank list: '' (vb_Banks bank)"

definition generateSignature :: "(string \<Rightarrow> string) \<Rightarrow> string \<Rightarrow> string \<Rightarrow> string" where
  "generateSignature sha512 fromAccount toAccount = sha512 (fromAccount @ toAccount)"

definition transfer_record :: "nat \<Rightarrow> vfd_request \<Rightarrow> vfd_record" where
  "transfer_record bid q =
     \<lparr>vt_ID = 0, vt_BusinessID = bid, vt_FromAccount = vfq_FromAccount q, vt_FromClientId = vfq_FromClientId q,
      vt_FromClient = vfq_FromClient q, vt_FromSavingsId = vfq_FromSavingsId q, vt_FromBvn = Some (vfq_FromBvn q),
      vt_ToClientId = vfq_ToClientId q, vt_ToClient = vfq_ToClient q, vt_ToSavingsId = vfq_ToSavingsId q,
      vt_ToSession = Some (vfq_ToSession q), vt_ToBvn = Some (vfq_ToBvn q), vt_ToAccount = vfq_ToAccount q,
      vt_ToBank = vfq_ToBank q, vt_Amount = vfq_Amount q, vt_Remark = vfq_Remark q, vt_TransferType = vfq_TransferType q,
      vt_Reference = vfq_Reference q, vt_TxnId = None, vt_SessionId = None, vt_Status = ''pending'', vt_VFDStatus = [],
      vt_VFDMessage = [], vt_ProcessedAt = None, vt_ProcessingError = None\<rparr>"

definition place_order :: "vfd_bank \<Rightarrow> vfd_request \<Rightarrow> world \<Rightarrow> vfd_data enquiry res \<times> world" where
  "place_order bank q w = (vb_Transfer bank q (tick w), w\<lparr>vfd_calls := vfd_calls w @ [q], tick := Suc (tick w)\<rparr>)"

definition refused_record :: "vfd_record \<Rightarrow> gerror \<Rightarrow> int \<Rightarrow> vfd_record" where
  "refused_record r e time = r\<lparr>vt_Status := ''failed'', vt_VFDStatus := ''99'', vt_VFDMessage := ''Transfer failed'',
     vt_ProcessingError := Some (err_text e), vt_ProcessedAt := Some time\<rparr>"

definition accepted_record :: "vfd_record \<Rightarrow> vfd_data enquiry \<Rightarrow> int \<Rightarrow> vfd_record" where
  "accepted_record r resp time =
     (let r = r\<lparr>vt_Status := ''success'', vt_VFDStatus := en_Status resp, vt_VFDMessage := en_Message resp, vt_ProcessedAt := Some time\<rparr>
      in case en_Data resp of None \<Rightarrow> r
         | Some d \<Rightarrow> r\<lparr>vt_TxnId := Some (vd_TxnId d),
                      vt_SessionId := if vd_SessionId d \<noteq> [] then Some (vd_SessionId d) else vt_SessionId r\<rparr>)"

text \<open>The record of an order that was taken up, and the commit.\<close>

definition vfd_conclude ::
  "vfd_record \<Rightarrow> vfd_data enquiry \<Rightarrow> int \<Rightarrow> vfd_tx \<Rightarrow> world \<Rightarrow> vfd_data enquiry res \<times> world" where
  "vfd_conclude r resp time t w =
     (case vfd_in_tx (vfd_Update (accepted_record r resp time)) t w of
        (Inl e, t, w) \<Rightarrow> (Inl (Wrap ''failed to update transfer record: '' e []), w)
      | (Inr _, t, w) \<Rightarrow>
          (case vfd_Commit t w of
             (Inl e, w) \<Rightarrow> (Inl (Wrap ''failed to commit transaction: '' e []), w)
           | (Inr _, w) \<Rightarrow> (Inr resp, w)))"

definition vfd_Initiate ::
  "vfd_bank \<Rightarrow> (string \<Rightarrow> string) \<Rightarrow> nat \<Rightarrow> vfd_request \<Rightarrow> world \<Rightarrow> vfd_data enquiry res \<times> world" where
  "vfd_Initiate bank sha512 bid req w =
     (let (t, w) = vfd_Begin w
      in case vfd_in_tx (vfd_Create (transfer_record bid req)) t w of
           (Inl e, t, w) \<Rightarrow> (Inl (Wrap ''failed to save transfer record: '' e []), w)
         | (Inr r, t, w) \<Rightarrow>
             (case place_order bank (req\<lparr>vfq_Signature := generateSignature sha512 (vfq_FromAccount req) (vfq_ToAccount req)\<rparr>) w of
                (Inl e, w) \<Rightarrow>
                  (let (time, w) = now w; (_, t, w) = vfd_in_tx (vfd_Update (refused_record r e time)) t w
                   in (Inl (Wrap ''failed to initiate transfer: '' e []), w))
              | (Inr resp, w) \<Rightarrow>
                  (let (time, w) = now w in vfd_conclude r resp time t w)))"

definition listed :: "string \<Rightarrow> (nat \<Rightarrow> nat \<Rightarrow> world \<Rightarrow> ('a list \<times> nat) res \<times> world) \<Rightarrow> int \<Rightarrow> int \<Rightarrow> world \<Rightarrow> ('a list \<times> nat) res \<times> world" where
  "listed failed f page limit w =
     (let (p, l) = page_bounds page limit
      in attempt (f p l w) (\<lambda>e w. (Inl (Wrap failed e []), w)) (\<lambda>r w. (Inr r, w)))"

definition vfd_ListTransfers :: "nat \<Rightarrow> int \<Rightarrow> int \<Rightarrow> world \<Rightarrow> (vfd_record list \<times> nat) res \<times> world" where
  "vfd_ListTransfers bid = listed ''failed to list transfers: '' (vfd_FindByBusinessID bid)"

definition vfd_GetTransferByID :: "nat \<Rightarrow> world \<Rightarrow> vfd_record res \<times> world" where
  "vfd_GetTransferByID i w =
     attempt (vfd_FindByID i w) (\<lambda>e w. (Inl (Wrap ''failed to get transfer: '' e []), w)) (\<lambda>r w. (Inr r, w))"

definition vfd_GetTransfersByFromAccount :: "string \<Rightarrow> int \<Rightarrow> int \<Rightarrow> world \<Rightarrow> (vfd_record list \<times> nat) res \<times> world" where
  "vfd_GetTransfersByFromAccount account = listed ''failed to get transfers by from account: '' (vfd_FindByFromAccount account)"

definition vfd_GetTransfersByToAccount :: "string \<Rightarrow> int \<Rightarrow> int \<Rightarrow> world \<Rightarrow> (vfd_record list \<times> nat) res \<times> world" where
  "vfd_GetTransfersByToAccount account = listed ''failed to get transfers by to account: '' (vfd_FindByToAccount account)"

section \<open>Handlers (vfd_transfer_handler.go)\<close>

definition HandleAccountEnquiry :: "vfd_bank \<Rightarrow> string \<Rightarrow> world \<Rightarrow> account_data enquiry response \<times> world" where
  "HandleAccountEnquiry bank accountNumber w = respond (vfd_AccountEnquiry bank accountNumber w) (RespondWithJSON 200)"

definition HandleBeneficiaryEnquiry ::
  "vfd_bank \<Rightarrow> string \<Rightarrow> string \<Rightarrow> string \<Rightarrow> world \<Rightarrow> beneficiary_data enquiry response \<times> world" where
  "HandleBeneficiaryEnquiry bank accountNo b transferType w =
     (if accountNo = [] \<or> b = [] \<or> transferType = [] then (RespondWithError (Sentinel ErrValidationFailed), w)
      else respond (vfd_BeneficiaryEnquiry bank accountNo b transferType w) (RespondWithJSON 200))"

definition HandleGetBankList :: "vfd_bank \<Rightarrow> world \<Rightarrow> (string \<times> string) list enquiry response \<times> world" where
  "HandleGetBankList bank w = respond (vfd_GetBankList bank w) (RespondWithJSON 200)"

definition VFDTransferRequest :: "(string \<times> json) list \<Rightarrow> vfd_request option" where
  "VFDTransferRequest ms =
     (let get = (\<lambda>k. case string_field k ms of None \<Rightarrow> [] | Some s \<Rightarrow> s);
          needed = [''fromAccount'', ''fromClientId'', ''fromClient'', ''fromSavingsId'', ''toClientId'', ''toClient'',
            ''toSavingsId'', ''toAccount'', ''toBank'', ''signature'', ''amount'', ''remark'', ''transferType'', ''reference'']
      in if \<not> texts_ok ([''uniqueSenderAccountId'', ''fromBvn'', ''toSession'', ''toBvn''] @ needed) ms \<or>
            list_ex (\<lambda>k. get k = []) needed \<or> get ''transferType'' \<notin> {''intra'', ''inter''}
         then None
         else Some \<lparr>vfq_FromAccount = get ''fromAccount'', vfq_UniqueSenderAccountId = get ''uniqueSenderAccountId'',
           vfq_FromClientId = get ''fromClientId'', vfq_FromClient = get ''fromClient'', vfq_FromSavingsId = get ''fromSavingsId'',
           vfq_FromBvn = get ''fromBvn'', vfq_ToClientId = get ''toClientId'', vfq_ToClient = get ''toClient'',
           vfq_ToSavingsId = get ''toSavingsId'', vfq_ToSession = get ''toSession'', vfq_ToBvn = get ''toBvn'',
           vfq_ToAccount = get ''toAccount'', vfq_ToBank = get ''toBank'', vfq_Signature = get ''signature'',
           vfq_Amount = get ''amount'', vfq_Remark = get ''remark'', vfq_TransferType = get ''transferType'',
           vfq_Reference = get ''reference''\<rparr>)"

definition HandleInitiateTransfer ::
  "vfd_bank \<Rightarrow> (string \<Rightarrow> string) \<Rightarrow> string \<Rightarrow> mw_claims option \<Rightarrow> world \<Rightarrow> vfd_data enquiry response \<times> world" where
  "HandleInitiateTransfer bank sha512 body claims =
     with_body (decode_body VFDTransferRequest body) (\<lambda>req. with_claims ErrUnauthorized claims (\<lambda>c w.
       respond (vfd_Initiate bank sha512 (mc_BusinessID c) req w) (RespondWithJSON 200)))"

definition HandleVFDListTransfers :: "string \<Rightarrow> string \<Rightarrow> mw_claims option \<Rightarrow> world \<Rightarrow> vfd_record listing response \<times> world" where
  "HandleVFDListTransfers page limit claims =
     with_claims ErrUnauthorized claims (\<lambda>c w.
       (let (p, l) = page_params page limit in respond (vfd_ListTransfers (mc_BusinessID c) p l w) (listing_response p l)))"

definition HandleVFDGetTransferByID :: "string \<Rightarrow> world \<Rightarrow> vfd_record response \<times> world" where
  "HandleVFDGetTransferByID i = with_id i (\<lambda>i w. respond (vfd_GetTransferByID i w) (RespondWithJSON 200))"

definition by_account ::
  "(string \<Rightarrow> int \<Rightarrow> int \<Rightarrow> world \<Rightarrow> (vfd_record list \<times> nat) res \<times> world) \<Rightarrow> string \<Rightarrow> string \<Rightarrow> string \<Rightarrow> world \<Rightarrow>
    vfd_record listing response \<times> world" where
  "by_account f account page limit w =
     (if account = [] then (RespondWithError (Sentinel ErrValidationFailed), w)
      else let (p, l) = page_params page limit in respond (f account p l w) (listing_response p l))"

definition HandleGetTransfersByFromAccount :: "string \<Rightarrow> string \<Rightarrow> string \<Rightarrow> world \<Rightarrow> vfd_record listing response \<times> world" where
  "HandleGetTransfersByFromAccount = by_account vfd_GetTransfersByFromAccount"

definition HandleGetTransfersByToAccount :: "string \<Rightarrow> string \<Rightarrow> string \<Rightarrow> world \<Rightarrow> vfd_record listing response \<times> world" where
  "HandleGetTransfersByToAccount = by_account vfd_GetTransfersByToAccount"

section \<open>The bank of the client\<close>

text \<open>The bank that the server wires in: the client with the token it has at the n-th request.\<close>

definition client_bank :: "vfd_client \<Rightarrow> (nat \<Rightarrow> string) \<Rightarrow> (nat \<Rightarrow> http_call \<Rightarrow> http_outcome) \<Rightarrow> vfd_bank" where
  "client_bank c token net =
     \<lparr>vb_Account = (\<lambda>a n. fst (AccountEnquiry c (net n) a (token n))),
      vb_Beneficiary = (\<lambda>a b k n. fst (BeneficiaryEnquiry c (net n) a b k (token n))),
      vb_Banks = (\<lambda>n. fst (GetBankList c (net n) (token n))),
      vb_Transfer = (\<lambda>q n. fst (vfd_InitiateTransfer c (net n) q (token n)))\<rparr>"

section \<open>What an order does\<close>

abbreviation "vfd_references w \<equiv> vt_Reference ` set (vfd_records w)"

definition signed :: "(string \<Rightarrow> string) \<Rightarrow> vfd_request \<Rightarrow> vfd_request" where
  "signed sha512 req = req\<lparr>vfq_Signature := sha512 (vfq_FromAccount req @ vfq_ToAccount req)\<rparr>"

text \<open>The row in the transaction after the insert, and the fate of the order.\<close>

definition untouched :: "world \<Rightarrow> world \<Rightarrow> bool" where
  "untouched w w' \<longleftrightarrow> money w' = money w \<and> transfers w' = transfers w"

lemma untouched_writes [simp]:
  "untouched w (w'\<lparr>vfd_records := rs\<rparr>) = untouched w w'" "untouched w (w'\<lparr>vfd_calls := cs, tick := n\<rparr>) = untouched w w'"
  "untouched w (w'\<lparr>faults := fs\<rparr>) = untouched w w'" "untouched w (w'\<lparr>tick := n\<rparr>) = untouched w w'" "untouched w w"
  by (simp_all add: untouched_def money_def)

lemma untouched_trans: "untouched w w' \<Longrightarrow> untouched w' w'' \<Longrightarrow> untouched w w''"
  by (simp add: untouched_def)

definition booked :: "nat \<Rightarrow> vfd_request \<Rightarrow> vfd_record \<Rightarrow> bool" where
  "booked bid req r \<longleftrightarrow> vt_Reference r = vfq_Reference req \<and> vt_BusinessID r = bid \<and> vt_Amount r = vfq_Amount req \<and>
     vt_FromAccount r = vfq_FromAccount req \<and> vt_ToAccount r = vfq_ToAccount req"

lemma booked_accepted [simp]: "booked bid req (accepted_record r resp t) = booked bid req r" "vt_ID (accepted_record r resp t) = vt_ID r"
    "vt_Status (accepted_record r resp t) = ''success''"
  by (simp_all add: booked_def accepted_record_def Let_def split: option.split)

lemma fresh_id: "Suc (foldr max (map vt_ID rs) 0) \<notin> vt_ID ` set rs"
proof -
  have "\<forall>i \<in> vt_ID ` set rs. i \<le> foldr max (map vt_ID rs) 0" by (induction rs) (auto simp: le_max_iff_disj)
  then show ?thesis by fastforce
qed

lemma created:
  "case vfd_in_tx (vfd_Create (transfer_record bid req)) t w of (r, t', w') \<Rightarrow> untouched w w' \<and> vfd_records w' = vfd_records w \<and>
     vfd_calls w' = vfd_calls w \<and> tick w' = tick w \<and>
     (\<forall>row. r = Inr row \<longrightarrow> \<not> vx_aborted t' \<and> vfq_Reference req \<notin> vt_Reference ` set (vx_records t) \<and>
        vx_records t' = vx_records t @ [row] \<and> booked bid req row \<and> vt_ID row \<notin> vt_ID ` set (vx_records t))"
  using fresh_id [of "vx_records t"]
  by (auto simp: vfd_in_tx_def vfd_Create_def statement_def fault_eq Let_def transfer_record_def booked_def untouched_def money_def)

lemma updated:
  "case vfd_in_tx (vfd_Update x) t w of (r, t', w') \<Rightarrow> untouched w w' \<and> vfd_records w' = vfd_records w \<and> vfd_calls w' = vfd_calls w \<and>
     (\<forall>row rs y. r = Inr row \<longrightarrow> vx_records t = rs @ [y] \<longrightarrow> vt_ID y = vt_ID x \<longrightarrow> vt_ID x \<notin> vt_ID ` set rs \<longrightarrow>
        \<not> vx_aborted t' \<and> vx_records t' = rs @ [x])"
proof -
  have "map (\<lambda>y. if vt_ID y = vt_ID x then x else y) rs = rs" if "vt_ID x \<notin> vt_ID ` set rs" for rs
    using that by (intro map_idI) (metis imageI)
  then show ?thesis
    by (auto simp: vfd_in_tx_def vfd_Update_def statement_def fault_eq Let_def untouched_def money_def)
qed

lemma committed_rows:
  "case vfd_Commit t w of (r, w') \<Rightarrow> untouched w w' \<and> vfd_calls w' = vfd_calls w \<and>
     (r = Inr () \<and> vfd_records w' = vx_records t \<or> (\<exists>e. r = Inl e) \<and> vfd_records w' = vfd_records w)"
  by (auto simp: vfd_Commit_def statement_def fault_eq Let_def untouched_def money_def)

lemma concluded:
  assumes "vx_records t = vfd_records w @ [row]" and "vt_ID row \<notin> vt_ID ` set (vfd_records w)"
  shows "case vfd_conclude row resp time t w of (r, w') \<Rightarrow> untouched w w' \<and> vfd_calls w' = vfd_calls w \<and>
     ((\<exists>e. r = Inl e) \<and> vfd_records w' = vfd_records w \<or>
      r = Inr resp \<and> vfd_records w' = vfd_records w @ [accepted_record row resp time])"
proof -
  obtain c t4 w4 where update: "vfd_in_tx (vfd_Update (accepted_record row resp time)) t w = (c, t4, w4)" by (metis prod_cases3)
  note upd = updated [where x = "accepted_record row resp time" and t = t and w = w, unfolded update prod.case]
  show ?thesis
  proof (cases c)
    case (Inl e)
    then show ?thesis using upd by (simp add: vfd_conclude_def update)
  next
    case (Inr x)
    then have t4: "vx_records t4 = vfd_records w @ [accepted_record row resp time]" using upd assms by auto
    obtain d w5 where commit: "vfd_Commit t4 w4 = (d, w5)" by fastforce
    note fin = committed_rows [where t = t4 and w = w4, unfolded commit prod.case]
    then have "untouched w w5" "vfd_calls w5 = vfd_calls w" using upd untouched_trans by auto
    then show ?thesis using fin t4 upd Inr by (cases d) (auto simp: vfd_conclude_def update commit)
  qed
qed



definition sample_vfd_body :: string where
  "sample_vfd_body = ''{\"fromAccount\":\"a\",\"fromClientId\":\"a\",\"fromClient\":\"a\",\"fromSavingsId\":\"a\",\"toClientId\":\"a\",\"toClient\":\"a\",\"toSavingsId\":\"a\",\"toAccount\":\"b\",\"toBank\":\"a\",\"signature\":\"a\",\"amount\":\"9000\",\"remark\":\"a\",\"transferType\":\"intra\",\"reference\":\"r\"}''"

definition sample_vfd_members :: "(string \<times> json) list" where
  "sample_vfd_members = [(''fromAccount'', JString ''a''), (''fromClientId'', JString ''a''), (''fromClient'', JString ''a''), (''fromSavingsId'', JString ''a''), (''toClientId'', JString ''a''), (''toClient'', JString ''a''), (''toSavingsId'', JString ''a''), (''toAccount'', JString ''b''), (''toBank'', JString ''a''), (''signature'', JString ''a''), (''amount'', JString ''9000''), (''remark'', JString ''a''), (''transferType'', JString ''intra''), (''reference'', JString ''r'')]"

lemma sample_vfd_decoded: "decode_json sample_vfd_body = Some (JObject sample_vfd_members)"
  by code_simp

lemma lower_names1:
  "to_lower ''fromAccount'' = ''fromaccount''"
  "to_lower ''fromClientId'' = ''fromclientid''"
  "to_lower ''fromClient'' = ''fromclient''"
  "to_lower ''fromSavingsId'' = ''fromsavingsid''"
  "to_lower ''toClientId'' = ''toclientid''"
  "to_lower ''toClient'' = ''toclient''"
  "to_lower ''toSavingsId'' = ''tosavingsid''"
  "to_lower ''toAccount'' = ''toaccount''"
  "to_lower ''toBank'' = ''tobank''"
  by code_simp+

lemma lower_names2:
  "to_lower ''signature'' = ''signature''"
  "to_lower ''amount'' = ''amount''"
  "to_lower ''remark'' = ''remark''"
  "to_lower ''transferType'' = ''transfertype''"
  "to_lower ''reference'' = ''reference''"
  "to_lower ''uniqueSenderAccountId'' = ''uniquesenderaccountid''"
  "to_lower ''fromBvn'' = ''frombvn''"
  "to_lower ''toSession'' = ''tosession''"
  "to_lower ''toBvn'' = ''tobvn''"
  by code_simp+

lemma sample_vfd_fields:
  "string_field ''fromAccount'' sample_vfd_members = Some ''a''"
  "string_field ''fromClientId'' sample_vfd_members = Some ''a''"
  "string_field ''fromClient'' sample_vfd_members = Some ''a''"
  "string_field ''fromSavingsId'' sample_vfd_members = Some ''a''"
  "string_field ''toClientId'' sample_vfd_members = Some ''a''"
  "string_field ''toClient'' sample_vfd_members = Some ''a''"
  "string_field ''toSavingsId'' sample_vfd_members = Some ''a''"
  "string_field ''toAccount'' sample_vfd_members = Some ''b''"
  "string_field ''toBank'' sample_vfd_members = Some ''a''"
  "string_field ''signature'' sample_vfd_members = Some ''a''"
  "string_field ''amount'' sample_vfd_members = Some ''9000''"
  "string_field ''remark'' sample_vfd_members = Some ''a''"
  "string_field ''transferType'' sample_vfd_members = Some ''intra''"
  "string_field ''reference'' sample_vfd_members = Some ''r''"
  "string_field ''uniqueSenderAccountId'' sample_vfd_members = Some []"
  "string_field ''fromBvn'' sample_vfd_members = Some []"
  "string_field ''toSession'' sample_vfd_members = Some []"
  "string_field ''toBvn'' sample_vfd_members = Some []"
  by (simp_all add: field_def named_def to_str_def as_string_def sample_vfd_members_def lower_names1 lower_names2)

lemma sample_vfd_request: "\<exists>req. decode_body VFDTransferRequest sample_vfd_body = Some req \<and> vfq_Amount req = ''9000''"
  by (simp add: decode_body_def object_members_def sample_vfd_decoded VFDTransferRequest_def texts_ok_def sample_vfd_fields)

definition lost_answer :: vfd_bank where
  "lost_answer = \<lparr>vb_Account = (\<lambda>_ _. Inl (Plain ''timeout'')), vb_Beneficiary = (\<lambda>_ _ _ _. Inl (Plain ''timeout'')),
     vb_Banks = (\<lambda>_. Inl (Plain ''timeout'')), vb_Transfer = (\<lambda>_ _. Inl (Plain ''timeout''))\<rparr>"


end
