(* ===== verification/Encryption.thy ===== *)
theory Encryption
  imports Store
begin

text \<open>
  Encryption of stored secrets: \<^verbatim>\<open>pkg/utils/encryption.go\<close>. The sealing of AES-GCM is a
  parameter, whose law is that what was sealed is opened again with the same key and nonce; the standard
  encoding of \<^verbatim>\<open>encoding/base64\<close> is modelled. Characters are bytes.
\<close>

section \<open>Base 64\<close>

definition b64_alphabet :: string where
  "b64_alphabet = ''ABCDEFGHIJKLMNOPQRSTUVWXYZabcdefghijklmnopqrstuvwxyz0123456789+/''"

definition b64_char :: "nat \<Rightarrow> char" where
  "b64_char n = b64_alphabet ! n"

fun position :: "'a \<Rightarrow> 'a list \<Rightarrow> nat option" where
  "position x [] = None"
| "position x (y # ys) = (if x = y then Some 0 else map_option Suc (position x ys))"

definition b64_value :: "char \<Rightarrow> nat option" where
  "b64_value c = position c b64_alphabet"

definition byte :: "char \<Rightarrow> nat" where
  "byte = of_char"

fun b64_encode :: "string \<Rightarrow> string" where
  "b64_encode [] = []"
| "b64_encode [a] = [b64_char (byte a div 4), b64_char (byte a mod 4 * 16), CHR ''='', CHR ''='']"
| "b64_encode [a, b] =
     [b64_char (byte a div 4), b64_char (byte a mod 4 * 16 + byte b div 16), b64_char (byte b mod 16 * 4), CHR ''='']"
| "b64_encode (a # b # c # s) =
     b64_char (byte a div 4) # b64_char (byte a mod 4 * 16 + byte b div 16) #
     b64_char (byte b mod 16 * 4 + byte c div 64) # b64_char (byte c mod 64) # b64_encode s"

text \<open>The decoder skips line ends. Padding ends the text; the bits that are left over are not looked at.\<close>

fun b64_quads :: "string \<Rightarrow> string option" where
  "b64_quads [] = Some []"
| "b64_quads (a # b # c # d # s) =
     (case (b64_value a, b64_value b) of
        (Some x, Some y) \<Rightarrow>
          (let p = char_of (x * 4 + y div 16)
           in if c = CHR ''='' then (if d = CHR ''='' \<and> s = [] then Some [p] else None)
              else (case b64_value c of
                      None \<Rightarrow> None
                    | Some z \<Rightarrow>
                        (let q = char_of (y mod 16 * 16 + z div 4)
                         in if d = CHR ''='' then (if s = [] then Some [p, q] else None)
                            else (case (b64_value d, b64_quads s) of
                                    (Some u, Some t) \<Rightarrow> Some (p # q # char_of (z mod 4 * 64 + u) # t) | _ \<Rightarrow> None))))
      | _ \<Rightarrow> None)"
| "b64_quads s = None"

definition b64_decode :: "string \<Rightarrow> string option" where
  "b64_decode s = b64_quads (filter (\<lambda>c. c \<noteq> CHR 0x0A \<and> c \<noteq> CHR 0x0D) s)"

section \<open>Encrypt and Decrypt\<close>

text \<open>\<^verbatim>\<open>Seal\<close> of a nonce, a text and a key, and \<^verbatim>\<open>Open\<close>.\<close>

record cipher =
  ci_Seal :: "string \<Rightarrow> string \<Rightarrow> string \<Rightarrow> string"
  ci_Open :: "string \<Rightarrow> string \<Rightarrow> string \<Rightarrow> string option"

definition opens_sealed :: "cipher \<Rightarrow> bool" where
  "opens_sealed ci \<longleftrightarrow> (\<forall>n p k. ci_Open ci n (ci_Seal ci n p k) k = Some p)"

definition key_error :: "string \<Rightarrow> gerror" where
  "key_error key = Plain (''encryption key must be 32 bytes, got '' @ show_nat (length key))"

text \<open>Twelve bytes of the random source.\<close>

definition read_nonce :: "world \<Rightarrow> string \<times> world" where
  "read_nonce w = (let (h, w) = rand_hex w in (take 12 (h @ replicate 12 (CHR 0x00)), w))"

definition Encrypt :: "cipher \<Rightarrow> string \<Rightarrow> string \<Rightarrow> world \<Rightarrow> string res \<times> world" where
  "Encrypt ci plaintext key w =
     (if length key \<noteq> 32 then (Inl (key_error key), w)
      else let (nonce, w) = read_nonce w in (Inr (b64_encode (nonce @ ci_Seal ci nonce plaintext key)), w))"

definition Decrypt :: "cipher \<Rightarrow> string \<Rightarrow> string \<Rightarrow> string res" where
  "Decrypt ci ciphertextB64 key =
     (if length key \<noteq> 32 then Inl (key_error key)
      else (case b64_decode ciphertextB64 of
              None \<Rightarrow> Inl (Wrap ''failed to decode base64: '' (Plain ''illegal base64 data'') [])
            | Some ciphertext \<Rightarrow>
                if length ciphertext < 12 then Inl (Plain ''ciphertext too short'')
                else (case ci_Open ci (take 12 ciphertext) (drop 12 ciphertext) key of
                        None \<Rightarrow> Inl (Wrap ''failed to decrypt: '' (Plain ''cipher: message authentication failed'') [])
                      | Some p \<Rightarrow> Inr p)))"

section \<open>What was encrypted is read again\<close>

lemma b64_table:
  "list_all (\<lambda>n. b64_value (b64_char n) = Some n \<and> b64_char n \<notin> {CHR ''='', CHR 0x0A, CHR 0x0D}) [0..<64]"
  by code_simp

lemma b64_char_facts:
  assumes "n < 64"
  shows "b64_value (b64_char n) = Some n" "b64_char n \<noteq> CHR ''=''" "b64_char n \<noteq> CHR 0x0A" "b64_char n \<noteq> CHR 0x0D"
  using b64_table assms by (auto simp: list_all_iff)

lemma byte_bound: "byte a < 256"
  by (simp add: byte_def)

lemma char_of_byte [simp]: "char_of (byte a) = a"
  by (simp add: byte_def)

lemma sextets:
  "byte a div 4 < 64" "byte a mod 4 * 16 < 64" "byte a mod 16 * 4 < 64" "byte a mod 64 < 64"
  "byte a mod 4 * 16 + byte b div 16 < 64" "byte a mod 16 * 4 + byte b div 64 < 64"
  using byte_bound [of a] byte_bound [of b] by (auto simp: less_mult_imp_div_less; presburger)+

lemma high_bits: "byte a div 16 < 16" "byte a div 64 < 4"
  using byte_bound [of a] by (simp_all add: less_mult_imp_div_less)

lemma joined: "y < k \<Longrightarrow> (x * k + y) div k = x" "y < k \<Longrightarrow> (x * k + y) mod k = (y :: nat)"
  by simp_all

lemma b64_quads_encode: "b64_quads (b64_encode s) = Some s"
proof (induction s rule: b64_encode.induct)
  case (2 a)
  have "byte a div 4 * 4 + byte a mod 4 * 16 div 16 = byte a" by (simp add: div_mult_mod_eq)
  then show ?case by (simp add: b64_char_facts sextets del: nonzero_mult_div_cancel_right)
next
  case (3 a b)
  have "byte a div 4 * 4 + (byte a mod 4 * 16 + byte b div 16) div 16 = byte a"
    "(byte a mod 4 * 16 + byte b div 16) mod 16 * 16 + byte b mod 16 * 4 div 4 = byte b"
    by (simp_all add: joined high_bits div_mult_mod_eq)
  then show ?case by (simp add: b64_char_facts sextets)
next
  case (4 a b c s)
  have "byte a div 4 * 4 + (byte a mod 4 * 16 + byte b div 16) div 16 = byte a"
    "(byte a mod 4 * 16 + byte b div 16) mod 16 * 16 + (byte b mod 16 * 4 + byte c div 64) div 4 = byte b"
    "(byte b mod 16 * 4 + byte c div 64) mod 4 * 64 + byte c mod 64 = byte c"
    by (simp_all only: joined high_bits div_mult_mod_eq)
  then show ?case using 4 by (simp add: b64_char_facts sextets)
qed simp

lemma b64_encode_clean: "filter (\<lambda>c. c \<noteq> CHR 0x0A \<and> c \<noteq> CHR 0x0D) (b64_encode s) = b64_encode s"
  by (induction s rule: b64_encode.induct) (simp_all add: b64_char_facts sextets)

lemma b64_roundtrip: "b64_decode (b64_encode s) = Some s"
  by (simp add: b64_decode_def b64_encode_clean b64_quads_encode)

lemma Decrypt_Encrypt:
  assumes "opens_sealed ci" and "length key = 32"
  shows "\<exists>c. Encrypt ci p key w = (Inr c, w\<lparr>tick := Suc (tick w)\<rparr>) \<and> Decrypt ci c key = Inr p"
proof -
  obtain n where n: "read_nonce w = (n, w\<lparr>tick := Suc (tick w)\<rparr>)" "length n = 12"
    by (simp add: read_nonce_def rand_hex_def)
  then show ?thesis
    using assms by (simp add: Encrypt_def Decrypt_def b64_roundtrip opens_sealed_def)
qed

end
