(* ===== verification/Settings.thy ===== *)
theory Settings
  imports Encryption Payroll_Api
begin

text \<open>
  Settings with secrets: those of the platform
  (\<^verbatim>\<open>internal/service/platform_settings_service.go\<close>) and the keys of a business for its
  providers (\<^verbatim>\<open>internal/service/org_provider_settings_service.go\<close>), with their
  repositories and handlers. Deleted rows stay in their tables and keep the unique key, which the statements that
  read do not see.
\<close>

section \<open>Statements (platform_setting_repo.go, org_provider_setting_repository.go)\<close>

text \<open>
  \<^verbatim>\<open>ON CONFLICT (key) DO UPDATE\<close> of the value, the description, the category and the flag; the
  row that is in the way may be a deleted one, and stays deleted.
\<close>

definition setting_Upsert :: "platform_setting \<Rightarrow> world \<Rightarrow> unit res \<times> world" where
  "setting_Upsert x = statement (\<lambda>w.
     (Inr (), w\<lparr>platform_settings :=
        if st_Key x \<in> st_Key ` set (platform_settings w)
        then map (\<lambda>y. if st_Key y = st_Key x
                      then y\<lparr>st_EncryptedValue := st_EncryptedValue x, st_Description := st_Description x,
                             st_Category := st_Category x, st_IsSet := st_IsSet x\<rparr> else y) (platform_settings w)
        else platform_settings w @ [x]\<rparr>))"

definition setting_FindByKey :: "string \<Rightarrow> world \<Rightarrow> platform_setting res \<times> world" where
  "setting_FindByKey key = statement (\<lambda>w.
     (case find (\<lambda>x. st_Key x = key \<and> \<not> st_Deleted x) (platform_settings w) of
        None \<Rightarrow> (Inl (Sentinel ErrNotFound), w) | Some x \<Rightarrow> (Inr x, w)))"

definition setting_FindByCategory :: "string \<Rightarrow> world \<Rightarrow> platform_setting list res \<times> world" where
  "setting_FindByCategory c = statement (\<lambda>w. (Inr (filter (\<lambda>x. st_Category x = c \<and> \<not> st_Deleted x) (platform_settings w)), w))"

definition setting_FindAll :: "world \<Rightarrow> platform_setting list res \<times> world" where
  "setting_FindAll = statement (\<lambda>w. (Inr (filter (\<lambda>x. \<not> st_Deleted x) (platform_settings w)), w))"

definition setting_Delete :: "string \<Rightarrow> world \<Rightarrow> unit res \<times> world" where
  "setting_Delete key = statement (\<lambda>w.
     (Inr (), w\<lparr>platform_settings := map (\<lambda>x. if st_Key x = key then x\<lparr>st_Deleted := True\<rparr> else x) (platform_settings w)\<rparr>))"

definition org_key :: "nat \<Rightarrow> string \<Rightarrow> string \<Rightarrow> org_setting \<Rightarrow> bool" where
  "org_key bid provider key x \<longleftrightarrow> os_BusinessID x = bid \<and> os_Provider x = provider \<and> os_SettingKey x = key"

text \<open>
  \<^verbatim>\<open>FirstOrCreate\<close> looks for a row that is not deleted, and updates it or inserts the new one, which
  a deleted row with the same key refuses.
\<close>

definition org_Upsert :: "org_setting \<Rightarrow> world \<Rightarrow> unit res \<times> world" where
  "org_Upsert x w =
     (let same = org_key (os_BusinessID x) (os_Provider x) (os_SettingKey x)
      in attempt (statement (\<lambda>w. (Inr (find (\<lambda>y. same y \<and> \<not> os_Deleted y) (org_settings w)), w)) w) (\<lambda>e w. (Inl e, w)) (\<lambda>found.
           statement (\<lambda>w.
             (case found of
                Some _ \<Rightarrow> (Inr (), w\<lparr>org_settings :=
                  map (\<lambda>y. if same y \<and> \<not> os_Deleted y
                           then y\<lparr>os_EncryptedValue := os_EncryptedValue x, os_IsActive := os_IsActive x\<rparr> else y) (org_settings w)\<rparr>)
              | None \<Rightarrow> if list_ex same (org_settings w) then (Inl db_error, w)
                        else (Inr (), w\<lparr>org_settings := org_settings w @ [x]\<rparr>)))))"

definition org_FindByBusinessAndProvider :: "nat \<Rightarrow> string \<Rightarrow> world \<Rightarrow> org_setting list res \<times> world" where
  "org_FindByBusinessAndProvider bid provider = statement (\<lambda>w.
     (Inr (filter (\<lambda>x. os_BusinessID x = bid \<and> os_Provider x = provider \<and> os_IsActive x \<and> \<not> os_Deleted x) (org_settings w)), w))"

definition org_FindByBusinessID :: "nat \<Rightarrow> world \<Rightarrow> org_setting list res \<times> world" where
  "org_FindByBusinessID bid = statement (\<lambda>w.
     (Inr (filter (\<lambda>x. os_BusinessID x = bid \<and> \<not> os_Deleted x) (org_settings w)), w))"

definition org_Delete :: "nat \<Rightarrow> string \<Rightarrow> string \<Rightarrow> world \<Rightarrow> unit res \<times> world" where
  "org_Delete bid provider key = statement (\<lambda>w.
     (Inr (), w\<lparr>org_settings := map (\<lambda>x. if org_key bid provider key x then x\<lparr>os_Deleted := True\<rparr> else x) (org_settings w)\<rparr>))"

section \<open>Settings of the platform (platform_settings_service.go)\<close>

record settings_service =
  ss_Cipher :: cipher
  ss_Key :: string

record setting_summary =
  sm_Key :: string
  sm_Description :: string
  sm_Category :: string
  sm_IsSet :: bool
  sm_MaskedValue :: string

definition SetSetting :: "settings_service \<Rightarrow> string \<Rightarrow> string \<Rightarrow> string \<Rightarrow> string \<Rightarrow> world \<Rightarrow> unit res \<times> world" where
  "SetSetting s key v description category w =
     attempt (Encrypt (ss_Cipher s) v (ss_Key s) w)
       (\<lambda>e w. (Inl (Wrap ''failed to encrypt setting: '' e []), w))
       (\<lambda>encrypted. setting_Upsert \<lparr>st_Key = key, st_EncryptedValue = encrypted, st_Description = description,
          st_Category = category, st_IsSet = True, st_Deleted = False\<rparr>)"

text \<open>A key in quotation marks: what \<^verbatim>\<open>%q\<close> makes of printable text.\<close>

definition quoted :: "string \<Rightarrow> string" where
  "quoted s = [CHR 0x22] @ concat (map (\<lambda>c. if c = CHR 0x22 \<or> c = CHR 0x5C then [CHR 0x5C, c] else [c]) s) @ [CHR 0x22]"

definition GetSetting :: "settings_service \<Rightarrow> string \<Rightarrow> world \<Rightarrow> string res \<times> world" where
  "GetSetting s key w =
     attempt (setting_FindByKey key w) (\<lambda>e w. (Inl e, w)) (\<lambda>x w.
       if \<not> st_IsSet x then (Inl (Plain (''setting '' @ quoted key @ '' is not configured'')), w)
       else (case Decrypt (ss_Cipher s) (st_EncryptedValue x) (ss_Key s) of
               Inl e \<Rightarrow> (Inl (Wrap ''failed to decrypt setting: '' e []), w) | Inr p \<Rightarrow> (Inr p, w)))"

definition masked :: "string res \<Rightarrow> string" where
  "masked r = (case r of Inr p \<Rightarrow> if length p > 6 then take 4 p @ ''****'' @ drop (length p - 3) p else ''****''
     | Inl _ \<Rightarrow> ''****'')"

definition toSummaries :: "settings_service \<Rightarrow> platform_setting list \<Rightarrow> setting_summary list" where
  "toSummaries s = map (\<lambda>x. \<lparr>sm_Key = st_Key x, sm_Description = st_Description x, sm_Category = st_Category x,
     sm_IsSet = st_IsSet x,
     sm_MaskedValue = (if st_IsSet x then masked (Decrypt (ss_Cipher s) (st_EncryptedValue x) (ss_Key s)) else [])\<rparr>)"

definition GetSettingsByCategory :: "settings_service \<Rightarrow> string \<Rightarrow> world \<Rightarrow> setting_summary list res \<times> world" where
  "GetSettingsByCategory s category w =
     attempt (setting_FindByCategory category w) (\<lambda>e w. (Inl e, w)) (\<lambda>xs w. (Inr (toSummaries s xs), w))"

definition ListSettings :: "settings_service \<Rightarrow> world \<Rightarrow> setting_summary list res \<times> world" where
  "ListSettings s w = attempt (setting_FindAll w) (\<lambda>e w. (Inl e, w)) (\<lambda>xs w. (Inr (toSummaries s xs), w))"

definition DeleteSetting :: "string \<Rightarrow> world \<Rightarrow> unit res \<times> world" where
  "DeleteSetting = setting_Delete"

section \<open>Keys of a business (org_provider_settings_service.go)\<close>

record org_summary_row =
  ok_Provider :: string
  ok_SettingKey :: string
  ok_IsActive :: bool
  ok_MaskedValue :: string

definition SetKey :: "settings_service \<Rightarrow> nat \<Rightarrow> string \<Rightarrow> string \<Rightarrow> string \<Rightarrow> world \<Rightarrow> unit res \<times> world" where
  "SetKey s bid provider key v w =
     attempt (Encrypt (ss_Cipher s) v (ss_Key s) w)
       (\<lambda>e w. (Inl (Wrap ''failed to encrypt key: '' e []), w))
       (\<lambda>encrypted. org_Upsert \<lparr>os_BusinessID = bid, os_Provider = provider, os_SettingKey = key,
          os_EncryptedValue = encrypted, os_IsActive = True, os_Deleted = False\<rparr>)"

definition GetKey :: "settings_service \<Rightarrow> nat \<Rightarrow> string \<Rightarrow> string \<Rightarrow> world \<Rightarrow> string res \<times> world" where
  "GetKey s bid provider key w =
     attempt (org_FindByBusinessAndProvider bid provider w) (\<lambda>e w. (Inl e, w)) (\<lambda>xs w.
       (case find (\<lambda>x. os_SettingKey x = key) xs of
          Some x \<Rightarrow> (Decrypt (ss_Cipher s) (os_EncryptedValue x) (ss_Key s), w)
        | None \<Rightarrow> (Inl (Plain (''key '' @ quoted key @ '' not found for provider '' @ quoted provider)), w)))"

text \<open>The map from keys to values; a later row replaces an earlier one.\<close>

fun decrypt_keys :: "settings_service \<Rightarrow> org_setting list \<Rightarrow> (string \<rightharpoonup> string) \<Rightarrow> (string \<rightharpoonup> string) res" where
  "decrypt_keys s [] m = Inr m"
| "decrypt_keys s (x # xs) m =
     (case Decrypt (ss_Cipher s) (os_EncryptedValue x) (ss_Key s) of
        Inl e \<Rightarrow> Inl (Wrap (''failed to decrypt key '' @ quoted (os_SettingKey x) @ '': '') e [])
      | Inr p \<Rightarrow> decrypt_keys s xs (m(os_SettingKey x \<mapsto> p)))"

definition GetProviderKeys :: "settings_service \<Rightarrow> nat \<Rightarrow> string \<Rightarrow> world \<Rightarrow> (string \<rightharpoonup> string) res \<times> world" where
  "GetProviderKeys s bid provider w =
     attempt (org_FindByBusinessAndProvider bid provider w) (\<lambda>e w. (Inl e, w)) (\<lambda>xs w.
       (decrypt_keys s xs Map.empty, w))"

definition ListKeys :: "settings_service \<Rightarrow> nat \<Rightarrow> world \<Rightarrow> org_summary_row list res \<times> world" where
  "ListKeys s bid w =
     attempt (org_FindByBusinessID bid w) (\<lambda>e w. (Inl e, w)) (\<lambda>xs w.
       (Inr (map (\<lambda>x. \<lparr>ok_Provider = os_Provider x, ok_SettingKey = os_SettingKey x, ok_IsActive = os_IsActive x,
          ok_MaskedValue = masked (Decrypt (ss_Cipher s) (os_EncryptedValue x) (ss_Key s))\<rparr>) xs), w))"

definition DeleteKey :: "nat \<Rightarrow> string \<Rightarrow> string \<Rightarrow> world \<Rightarrow> unit res \<times> world" where
  "DeleteKey = org_Delete"

section \<open>Handlers (platform_settings_handler.go, org_provider_settings_handler.go)\<close>

definition HandleListSettings :: "settings_service \<Rightarrow> string \<Rightarrow> world \<Rightarrow> setting_summary list response \<times> world" where
  "HandleListSettings s category w =
     respond (if category \<noteq> [] then GetSettingsByCategory s category w else ListSettings s w) (RespondWithJSON 200)"

definition setting_request :: "(string \<times> json) list \<Rightarrow> (string \<times> string \<times> string) option" where
  "setting_request ms =
     (case (required ''value'' ms, string_field ''description'' ms, string_field ''category'' ms) of
        (Some v, Some d, Some c) \<Rightarrow> Some (v, d, c) | _ \<Rightarrow> None)"

definition HandleSetSetting :: "settings_service \<Rightarrow> string \<Rightarrow> string \<Rightarrow> world \<Rightarrow> string response \<times> world" where
  "HandleSetSetting s key body =
     with_body (decode_body setting_request body) (\<lambda>(v, d, c) w.
       respond (SetSetting s key v d c w) (\<lambda>_. RespondWithJSON 200 ''Setting updated successfully''))"

definition HandleDeleteSetting :: "string \<Rightarrow> world \<Rightarrow> unit response \<times> world" where
  "HandleDeleteSetting key w = respond (DeleteSetting key w) (Reply 204)"

definition HandleListOrgKeys :: "settings_service \<Rightarrow> mw_claims option \<Rightarrow> world \<Rightarrow> org_summary_row list response \<times> world" where
  "HandleListOrgKeys s claims =
     with_claims ErrUnauthorized claims (\<lambda>c w. respond (ListKeys s (mc_BusinessID c) w) (RespondWithJSON 200))"

definition validProviders :: "(string \<times> string list) list" where
  "validProviders = [(''paystack'', [''paystack_secret_key'', ''paystack_public_key'']),
     (''korapay'', [''korapay_api_key'', ''korapay_encryption_key''])]"

definition HandleSetOrgKey ::
  "settings_service \<Rightarrow> string \<Rightarrow> string \<Rightarrow> string \<Rightarrow> mw_claims option \<Rightarrow> world \<Rightarrow> string response \<times> world" where
  "HandleSetOrgKey s provider key body claims =
     with_claims ErrUnauthorized claims (\<lambda>c. with_body (decode_body (required ''value'') body) (\<lambda>v w.
       (case map_of validProviders provider of
          None \<Rightarrow> (RespondWithError (Sentinel ErrValidationFailed), w)
        | Some keys \<Rightarrow>
            if key \<notin> set keys then (RespondWithError (Sentinel ErrValidationFailed), w)
            else respond (SetKey s (mc_BusinessID c) provider key v w) (\<lambda>_. RespondWithJSON 200 ''Provider key saved successfully''))))"

definition HandleDeleteOrgKey :: "string \<Rightarrow> string \<Rightarrow> mw_claims option \<Rightarrow> world \<Rightarrow> unit response \<times> world" where
  "HandleDeleteOrgKey provider key claims =
     with_claims ErrUnauthorized claims (\<lambda>c w. respond (DeleteKey (mc_BusinessID c) provider key w) (Reply 204))"

section \<open>What was set is read\<close>

text \<open>The row that a key reads is the one of its update.\<close>

lemma find_set_setting:
  assumes "k \<in> st_Key ` set xs" and "\<forall>x \<in> set xs. st_Key x = k \<longrightarrow> \<not> st_Deleted x"
    and "\<And>x. st_Key (f x) = st_Key x" "\<And>x. st_Deleted (f x) = st_Deleted x" "\<And>x. st_IsSet (f x)" "\<And>x. st_EncryptedValue (f x) = e"
  shows "\<exists>y. find (\<lambda>x. st_Key x = k \<and> \<not> st_Deleted x) (map (\<lambda>x. if st_Key x = k then f x else x) xs) = Some y \<and>
    st_IsSet y \<and> st_EncryptedValue y = e"
  using assms by (induction xs) auto

lemma find_other_setting:
  assumes "k' \<noteq> k" and "\<And>x. st_Key (f x) = st_Key x"
  shows "find (\<lambda>x. st_Key x = k' \<and> \<not> st_Deleted x) (map (\<lambda>x. if st_Key x = k then f x else x) xs) =
    find (\<lambda>x. st_Key x = k' \<and> \<not> st_Deleted x) xs"
  using assms by (induction xs) auto

lemma find_none_deleted:
  assumes "\<And>x. st_Key (f x) = st_Key x" "\<And>x. st_Deleted (f x) = st_Deleted x"
  shows "find (\<lambda>x. st_Key x = k \<and> \<not> st_Deleted x) (map (\<lambda>x. if st_Key x = k then f x else x)
    (map (\<lambda>x. if st_Key x = k then x\<lparr>st_Deleted := True\<rparr> else x) xs)) = None"
  using assms by (induction xs) simp_all

lemma find_setting_append: "find P (xs @ ys) = (case find P xs of None \<Rightarrow> find P ys | Some x \<Rightarrow> Some x)"
  by (induction xs) auto

lemma GetSetting_row:
  assumes "faults w = []"
  shows "fst (GetSetting s k w) =
    (case find (\<lambda>x. st_Key x = k \<and> \<not> st_Deleted x) (platform_settings w) of
       None \<Rightarrow> Inl (Sentinel ErrNotFound)
     | Some x \<Rightarrow> if \<not> st_IsSet x then Inl (Plain (''setting '' @ quoted k @ '' is not configured''))
                 else (case Decrypt (ss_Cipher s) (st_EncryptedValue x) (ss_Key s) of
                         Inl e \<Rightarrow> Inl (Wrap ''failed to decrypt setting: '' e []) | Inr p \<Rightarrow> Inr p))"
  using assms by (simp add: GetSetting_def setting_FindByKey_def split: option.split sum.split)


definition plain_cipher :: cipher where
  "plain_cipher = \<lparr>ci_Seal = (\<lambda>n p k. rev p), ci_Open = (\<lambda>n c k. Some (rev c))\<rparr>"

definition sample_settings :: settings_service where
  "sample_settings = \<lparr>ss_Cipher = plain_cipher, ss_Key = replicate 32 (CHR ''k'')\<rparr>"


lemma deleted_keys: "st_Key ` set (map (\<lambda>x. if st_Key x = k then x\<lparr>st_Deleted := True\<rparr> else x) xs) = st_Key ` set xs"
proof (induction xs)
  case (Cons x xs)
  then show ?case by (simp only: list.map list.set image_insert) simp
qed simp

text \<open>
  A setting that was deleted cannot be set again: the statement finds the deleted row by its
  key and updates it without restoring it, so that every later value is answered with success and never read.
\<close>

theorem deleted_setting_lost:
  assumes "length (ss_Key s) = 32" and "faults w = []" and "k \<in> st_Key ` set (platform_settings w)"
  shows "case DeleteSetting k w of (_, w1) \<Rightarrow> (case SetSetting s k v d c w1 of (r, w2) \<Rightarrow>
    r = Inr () \<and> fst (GetSetting s k w2) = Inl (Sentinel ErrNotFound))"
proof -
  let ?rows = "map (\<lambda>x. if st_Key x = k then x\<lparr>st_Deleted := True\<rparr> else x) (platform_settings w)"
  have rows: "k \<in> st_Key ` set ?rows" using assms(3) by (simp only: deleted_keys)
  define w1 where "w1 = w\<lparr>platform_settings := ?rows\<rparr>"
  have w1: "platform_settings w1 = ?rows" "faults w1 = []" using assms(2) by (simp_all add: w1_def)
  have del: "DeleteSetting k w = (Inr (), w1)" using assms(2) by (simp add: DeleteSetting_def setting_Delete_def w1_def)
  obtain e where e: "Encrypt (ss_Cipher s) v (ss_Key s) w1 = (Inr e, w1\<lparr>tick := Suc (tick w1)\<rparr>)"
    using assms(1) by (simp add: Encrypt_def read_nonce_def rand_hex_def)
  let ?f = "\<lambda>x. x\<lparr>st_EncryptedValue := e, st_Description := d, st_Category := c, st_IsSet := True\<rparr>"
  have gone: "find (\<lambda>x. st_Key x = k \<and> \<not> st_Deleted x) (map (\<lambda>x. if st_Key x = k then ?f x else x) (platform_settings w1)) = None"
    unfolding w1(1) by (rule find_none_deleted) simp_all
  have set: "SetSetting s k v d c w1 = (Inr (), w1\<lparr>tick := Suc (tick w1),
      platform_settings := map (\<lambda>x. if st_Key x = k then ?f x else x) (platform_settings w1)\<rparr>)"
    using rows w1(2) by (simp add: SetSetting_def e setting_Upsert_def w1(1) del: set_map image_iff cong: if_cong)
  show ?thesis
    unfolding del prod.case set using w1(2) gone by (simp add: GetSetting_row cong: if_cong)
qed

text \<open>The list of settings masks a secret of seven letters and shows all of them.\<close>

lemma seven_letters_shown: "length p = 7 \<Longrightarrow> masked (Inr p) = take 4 p @ ''****'' @ drop 4 p"
  by (simp add: masked_def)

text \<open>The keys of other businesses are not touched, whatever fails.\<close>

lemma others_kept:
  assumes "\<And>y. P y \<Longrightarrow> os_BusinessID y \<noteq> b" and "\<And>y. os_BusinessID (f y) = os_BusinessID y"
  shows "filter (\<lambda>x. os_BusinessID x = b) (map (\<lambda>y. if P y then f y else y) xs) = filter (\<lambda>x. os_BusinessID x = b) xs"
  using assms by (induction xs) auto

definition keys_of :: "nat \<Rightarrow> world \<Rightarrow> org_setting list" where
  "keys_of b w = filter (\<lambda>x. os_BusinessID x = b) (org_settings w)"

lemma org_Upsert_isolated:
  assumes "os_BusinessID x \<noteq> b"
  shows "post (\<lambda>_ w'. keys_of b w' = keys_of b w) (org_Upsert x w)"
  using assms unfolding org_Upsert_def Let_def keys_of_def
  by (auto intro!: wp_attempt wp_statement others_kept simp: org_key_def split: option.splits)

lemma keys_isolated:
  assumes "b \<noteq> bid"
  shows "post (\<lambda>_ w'. keys_of b w' = keys_of b w) (SetKey s bid p k v w)"
    "post (\<lambda>_ w'. keys_of b w' = keys_of b w) (DeleteKey bid p k w)"
proof -
  have enc: "post (\<lambda>_ w'. org_settings w' = org_settings w) (Encrypt (ss_Cipher s) v (ss_Key s) w)"
    by (simp add: Encrypt_def read_nonce_def rand_hex_def)
  have ups: "post (\<lambda>_ v. keys_of b v = keys_of b w)
      (org_Upsert \<lparr>os_BusinessID = bid, os_Provider = p, os_SettingKey = k, os_EncryptedValue = e, os_IsActive = True, os_Deleted = False\<rparr> w')"
    if "org_settings w' = org_settings w" for e w'
    using org_Upsert_isolated [of "\<lparr>os_BusinessID = bid, os_Provider = p, os_SettingKey = k, os_EncryptedValue = e,
        os_IsActive = True, os_Deleted = False\<rparr>" b w'] that assms by (simp add: keys_of_def)
  show "post (\<lambda>_ w'. keys_of b w' = keys_of b w) (SetKey s bid p k v w)"
    unfolding SetKey_def by (rule wp_attempt, rule post_mono [OF enc]) (simp add: ups, simp add: keys_of_def)
  show "post (\<lambda>_ w'. keys_of b w' = keys_of b w) (DeleteKey bid p k w)"
    using assms unfolding DeleteKey_def org_Delete_def keys_of_def by (auto intro!: wp_statement others_kept simp: org_key_def)
qed

end
