(* ===== verification/Oversight.thy ===== *)
theory Oversight
  imports Settings Payment_Clients
begin

text \<open>
  What watches over the money: the reconciliation of the wallets with the ledger and with the balance at
  Paystack (\<^verbatim>\<open>internal/service/reconciliation_service.go\<close>), the search for unusual
  transfers (\<^verbatim>\<open>anomaly_service.go\<close>) and the figures of the dashboard
  (\<^verbatim>\<open>dashboard_service.go\<close>), with their handlers. Of the alerts by mail the addresses are
  modelled.
\<close>

section \<open>Wallets and ledger\<close>

text \<open>The number of discrepancies, which is logged. A wallet that cannot be checked is passed over.\<close>

fun count_discrepancies :: "(nat \<times> wallet) list \<Rightarrow> world \<Rightarrow> nat \<times> world" where
  "count_discrepancies [] w = (0, w)"
| "count_discrepancies ((bid, x) # ws) w =
     attempt (Reconcile bid (w_Balance x) w)
       (\<lambda>_. count_discrepancies ws)
       (\<lambda>r w. (let (n, w) = count_discrepancies ws w in (if rc_IsReconciled r then n else Suc n, w)))"

text \<open>The result is what is logged, the number of wallets and of discrepancies.\<close>

definition RunDailyReconciliation :: "world \<Rightarrow> (nat \<times> nat) res \<times> world" where
  "RunDailyReconciliation w =
     attempt (wallet_FindAll w)
       (\<lambda>e w. (Inl (Wrap ''failed to fetch wallets: '' e []), w))
       (\<lambda>ws w. (let (n, w) = count_discrepancies ws w in (Inr (length ws, n), w)))"

section \<open>The balance at Paystack\<close>

definition BalanceData :: "json \<Rightarrow> (string \<times> int64) option" where
  "BalanceData v =
     (case v of
        JNull \<Rightarrow> Some ([], 0)
      | JObject ms \<Rightarrow> (case (string_field ''currency'' ms, int_field ''balance'' ms) of (Some c, Some b) \<Rightarrow> Some (c, b) | _ \<Rightarrow> None)
      | _ \<Rightarrow> None)"

definition BalanceResponse :: "(string \<times> json) list \<Rightarrow> (string \<times> int64) list option" where
  "BalanceResponse ms =
     (if bool_field ''status'' ms = None \<or> string_field ''message'' ms = None then None
      else field (json_list BalanceData) [] ''data'' ms)"

definition paystack_GetBalance :: "string \<Rightarrow> (http_call \<Rightarrow> http_outcome) \<Rightarrow> (string \<times> int64) list res" where
  "paystack_GetBalance key net =
     exchange (makeRequest ''paystack'' key net ''GET'' ''/balance'' None)
       ''paystack get balance failed: '' ''failed to decode paystack balance response: '' BalanceResponse"

text \<open>The balance in naira is that of the first entry in naira.\<close>

definition naira_balance :: "(string \<times> int64) list \<Rightarrow> int64" where
  "naira_balance bs = (case find (\<lambda>(c, b). c = ''NGN'') bs of None \<Rightarrow> 0 | Some (_, b) \<Rightarrow> b)"

definition internal_balance :: "(nat \<times> wallet) list \<Rightarrow> int64" where
  "internal_balance ws = foldl (\<lambda>s (_, x). add64 s (w_Balance x)) 0 ws"

fun fabs :: "float64 \<Rightarrow> float64" where
  "fabs (Fin x) = Fin \<bar>x\<bar>"
| "fabs NInf = PInf"
| "fabs x = x"

record provider_reconciliation =
  pv_PaystackBalance :: int64
  pv_InternalBalance :: int64
  pv_Discrepancy :: int64
  pv_IsReconciled :: bool
  pv_CheckedAt :: int

record reconciliation_service =
  rs_Paystack :: "(string \<times> (http_call \<Rightarrow> http_outcome)) option"
  rs_Alerts :: bool
  rs_Threshold :: int64

definition compare_balances :: "int64 \<Rightarrow> int64 \<Rightarrow> int64 \<Rightarrow> int \<Rightarrow> provider_reconciliation" where
  "compare_balances threshold p i time =
     (let d = sub64 p i
      in \<lparr>pv_PaystackBalance = p, pv_InternalBalance = i, pv_Discrepancy = d,
          pv_IsReconciled = (int64_of_float (fabs (float_of_int64 d)) \<le> threshold), pv_CheckedAt = time\<rparr>)"

text \<open>The addresses that are written to, when mail and users are configured.\<close>

definition sendDiscrepancyAlert :: "reconciliation_service \<Rightarrow> world \<Rightarrow> string list \<times> world" where
  "sendDiscrepancyAlert s w =
     (if \<not> rs_Alerts s then ([], w)
      else attempt (users_FindByRole RoleSuperAdmin w) (\<lambda>_ w. ([], w)) (\<lambda>us w. (map u_Email us, w)))"

definition RunProviderReconciliation ::
  "reconciliation_service \<Rightarrow> world \<Rightarrow> (provider_reconciliation \<times> string list) res \<times> world" where
  "RunProviderReconciliation s w =
     (case rs_Paystack s of
        None \<Rightarrow> (Inl (Plain ''paystack client not configured for provider reconciliation''), w)
      | Some (key, net) \<Rightarrow>
          (case paystack_GetBalance key net of
             Inl e \<Rightarrow> (Inl (Wrap ''failed to fetch paystack balance: '' e []), w)
           | Inr bs \<Rightarrow>
               attempt (wallet_FindAll w)
                 (\<lambda>e w. (Inl (Wrap ''failed to fetch wallets: '' e []), w))
                 (\<lambda>ws w. (let (time, w) = now w;
                              r = compare_balances (rs_Threshold s) (naira_balance bs) (internal_balance ws) time;
                              (mails, w) = (if pv_IsReconciled r then ([], w) else sendDiscrepancyAlert s w)
                          in (Inr (r, mails), w)))))"

definition HandleProviderReconciliation :: "reconciliation_service \<Rightarrow> world \<Rightarrow> provider_reconciliation response \<times> world" where
  "HandleProviderReconciliation s w = respond (RunProviderReconciliation s w) (\<lambda>(r, _). RespondWithJSON 200 r)"

section \<open>Unusual transfers (anomaly_service.go)\<close>

record anomaly_config =
  ac_MaxSingleTransferAmount :: int64
  ac_MaxDailyTransferCount :: int64
  ac_MaxDailyTransferVolume :: int64
  ac_DuplicateAccountWindow :: int64

definition DefaultAnomalyConfig :: anomaly_config where
  "DefaultAnomalyConfig = \<lparr>ac_MaxSingleTransferAmount = 50000000, ac_MaxDailyTransferCount = 100,
     ac_MaxDailyTransferVolume = 500000000, ac_DuplicateAccountWindow = 3\<rparr>"

record anomaly_service =
  an_Settings :: "settings_service option"
  an_Config :: anomaly_config

record anomaly_alert =
  aa_Type :: string
  aa_Severity :: string
  aa_BusinessID :: nat
  aa_Text :: string
  aa_DetectedAt :: int

text \<open>A setting that cannot be read, or is no number, leaves the default.\<close>

definition configured :: "settings_service \<Rightarrow> string \<Rightarrow> int64 \<Rightarrow> world \<Rightarrow> int64 \<times> world" where
  "configured s key d w =
     attempt (GetSetting s key w) (\<lambda>_ w. (d, w)) (\<lambda>v w. (case parse_int64 v of None \<Rightarrow> d | Some n \<Rightarrow> n, w))"

definition getConfig :: "anomaly_service \<Rightarrow> world \<Rightarrow> anomaly_config \<times> world" where
  "getConfig s w =
     (case an_Settings s of
        None \<Rightarrow> (an_Config s, w)
      | Some t \<Rightarrow>
          (let c = an_Config s;
               (single, w) = configured t ''anomaly_max_single_transfer'' (ac_MaxSingleTransferAmount c) w;
               (count, w) = configured t ''anomaly_max_daily_count'' (ac_MaxDailyTransferCount c) w;
               (volume, w) = configured t ''anomaly_max_daily_volume'' (ac_MaxDailyTransferVolume c) w;
               (repeats, w) = configured t ''anomaly_duplicate_window'' (ac_DuplicateAccountWindow c) w
           in (\<lparr>ac_MaxSingleTransferAmount = single, ac_MaxDailyTransferCount = count, ac_MaxDailyTransferVolume = volume,
                ac_DuplicateAccountWindow = repeats\<rparr>, w)))"

definition CheckTransfer :: "anomaly_service \<Rightarrow> nat \<Rightarrow> int64 \<Rightarrow> world \<Rightarrow> anomaly_alert list \<times> world" where
  "CheckTransfer s bid amount w =
     (let (cfg, w) = getConfig s w; (time, w) = now w;
          large = (if amount > ac_MaxSingleTransferAmount cfg
            then [\<lparr>aa_Type = ''large_transfer'', aa_Severity = ''high'', aa_BusinessID = bid,
                   aa_Text = ''Large transfer detected: '' @ show_int amount @ '' kobo (threshold: '' @
                     show_int (ac_MaxSingleTransferAmount cfg) @ '')'', aa_DetectedAt = time\<rparr>] else [])
      in attempt (transfer_FindByBusinessID bid 1 1 w)
           (\<lambda>_ w. (large, w))
           (\<lambda>(_, total) w. (large @ (if int total > ac_MaxDailyTransferCount cfg
              then [\<lparr>aa_Type = ''high_frequency'', aa_Severity = ''medium'', aa_BusinessID = bid,
                     aa_Text = ''High transfer frequency: '' @ show_nat total @ '' transfers today (threshold: '' @
                       show_int (ac_MaxDailyTransferCount cfg) @ '')'', aa_DetectedAt = time\<rparr>] else []), w)))"

definition one_day :: int where
  "one_day = 86400 * 1000000000"

definition recipient_key :: "transfer \<Rightarrow> string" where
  "recipient_key t = show_nat (t_BusinessID t) @ ''-'' @ t_AccountNumber t"

text \<open>The seen are ranged over in any order, which is an argument.\<close>

fun duplicate_alerts :: "int64 \<Rightarrow> (string \<Rightarrow> nat) \<Rightarrow> string list \<Rightarrow> world \<Rightarrow> anomaly_alert list \<times> world" where
  "duplicate_alerts repeats seen [] w = ([], w)"
| "duplicate_alerts repeats seen (k # ks) w =
     (if int (seen k) \<ge> repeats
      then (let (time, w) = now w; (as, w) = duplicate_alerts repeats seen ks w
            in (\<lparr>aa_Type = ''duplicate_recipient'', aa_Severity = ''medium'', aa_BusinessID = 0,
                 aa_Text = ''Account '' @ k @ '' received '' @ show_nat (seen k) @ '' transfers in 24h (threshold: '' @ show_int repeats @ '')'',
                 aa_DetectedAt = time\<rparr> # as, w))
      else duplicate_alerts repeats seen ks w)"

definition RunDailyCheck :: "anomaly_service \<Rightarrow> (string list \<Rightarrow> string list) \<Rightarrow> world \<Rightarrow> anomaly_alert list res \<times> world" where
  "RunDailyCheck s order w =
     attempt (transfer_FindByBusinessID 0 1 500 w)
       (\<lambda>e w. (Inl (Wrap ''failed to fetch transfers for anomaly check: '' e []), w))
       (\<lambda>(ts, _) w.
         (let (cfg, w) = getConfig s w; (time, w) = now w;
              keys = map recipient_key (filter (\<lambda>t. t_CreatedAt t > time - one_day \<and> t_Status t = ''completed'') ts);
              (as, w) = duplicate_alerts (ac_DuplicateAccountWindow cfg) (count_list keys) (order (remdups keys)) w
          in (Inr as, w)))"

section \<open>The dashboard (dashboard_service.go)\<close>

record dashboard =
  db_TotalEmployees :: nat
  db_ActiveEmployees :: nat
  db_TotalPayrollRuns :: nat
  db_PendingApprovals :: nat
  db_LastPayrollPeriod :: string
  db_LastPayrollAmount :: int64
  db_WalletBalance :: int64
  db_MonthlyPayrollCost :: int64

definition zeros :: "nat \<Rightarrow> string \<Rightarrow> string" where
  "zeros n s = replicate (n - length s) (CHR ''0'') @ s"

text \<open>The layout \<^verbatim>\<open>2006-01\<close>.\<close>

definition period_digits :: "period \<Rightarrow> string" where
  "period_digits p = zeros 4 (show_int (fst p)) @ ''-'' @ zeros 2 (show_nat (snd p))"

definition employee_figures :: "employee list \<Rightarrow> dashboard \<Rightarrow> dashboard" where
  "employee_figures es d = d\<lparr>db_TotalEmployees := length es, db_ActiveEmployees := length (filter e_IsActive es)\<rparr>"

definition run_figures :: "payroll_run list \<Rightarrow> dashboard \<Rightarrow> dashboard" where
  "run_figures rs d =
     (let d = d\<lparr>db_TotalPayrollRuns := length rs,
                db_PendingApprovals := length (filter (\<lambda>r. pr_Status r = StatusPendingApproval) rs)\<rparr>
      in case find (\<lambda>r. pr_Status r = StatusCompleted \<or> pr_Status r = StatusProcessing) rs of
           None \<Rightarrow> d
         | Some r \<Rightarrow> d\<lparr>db_LastPayrollPeriod := period_digits (pr_Period r), db_LastPayrollAmount := pr_TotalNetPay r,
                       db_MonthlyPayrollCost := pr_TotalCostToCompany r\<rparr>)"

text \<open>Figures that cannot be read are left at zero.\<close>

definition GetSummary :: "nat \<Rightarrow> world \<Rightarrow> dashboard res \<times> world" where
  "GetSummary bid w =
     (let d = \<lparr>db_TotalEmployees = 0, db_ActiveEmployees = 0, db_TotalPayrollRuns = 0, db_PendingApprovals = 0,
                db_LastPayrollPeriod = [], db_LastPayrollAmount = 0, db_WalletBalance = 0, db_MonthlyPayrollCost = 0\<rparr>;
          (d, w) = attempt (employee_FindByBusinessID bid w) (\<lambda>_ w. (d, w)) (\<lambda>es w. (employee_figures es d, w));
          (d, w) = attempt (payroll_FindByBusinessID bid w) (\<lambda>_ w. (d, w)) (\<lambda>rs w. (run_figures rs d, w));
          (d, w) = attempt (wallet_FindByBusinessID bid w) (\<lambda>_ w. (d, w)) (\<lambda>x w. (d\<lparr>db_WalletBalance := w_Balance x\<rparr>, w))
      in (Inr d, w))"

definition HandleGetSummary :: "mw_claims option \<Rightarrow> world \<Rightarrow> dashboard response \<times> world" where
  "HandleGetSummary claims =
     with_claims ErrUnauthorized claims (\<lambda>c w. respond (GetSummary (mc_BusinessID c) w) (RespondWithJSON 200))"

section \<open>Properties\<close>

lemma Reconcile_exact:
  assumes "faults w = []" and "in64 (entry_sum bid AccountWallet EntryCredit (ledger w))"
    and "in64 (entry_sum bid AccountWallet EntryDebit (ledger w))" and "in64 (b - wallet_net bid (ledger w))" and "in64 (wallet_net bid (ledger w))"
  shows "\<exists>r. Reconcile bid b w = (Inr r, w) \<and> (rc_IsReconciled r \<longleftrightarrow> b = wallet_net bid (ledger w))"
  using assms by (simp add: Reconcile_def ledger_Reconcile_def query_sum_def fault_eq sub64_def wallet_net_def i64 Let_def)

definition ledger_in_range :: "world \<Rightarrow> bool" where
  "ledger_in_range w \<longleftrightarrow> (\<forall>(bid, x) \<in> set (wallets w).
     in64 (entry_sum bid AccountWallet EntryCredit (ledger w)) \<and> in64 (entry_sum bid AccountWallet EntryDebit (ledger w)) \<and>
     in64 (wallet_net bid (ledger w)) \<and> in64 (w_Balance x - wallet_net bid (ledger w)))"

lemma count_discrepancies_exact:
  assumes "faults w = []" and "\<forall>(bid, x) \<in> set ws.
     in64 (entry_sum bid AccountWallet EntryCredit (ledger w)) \<and> in64 (entry_sum bid AccountWallet EntryDebit (ledger w)) \<and>
     in64 (wallet_net bid (ledger w)) \<and> in64 (w_Balance x - wallet_net bid (ledger w))"
  shows "count_discrepancies ws w = (length (filter (\<lambda>(bid, x). w_Balance x \<noteq> wallet_net bid (ledger w)) ws), w)"
  using assms(2)
proof (induction ws)
  case (Cons p ws)
  obtain bid x where p: "p = (bid, x)" by (cases p)
  from Cons.prems obtain r where r: "Reconcile bid (w_Balance x) w = (Inr r, w)"
      "rc_IsReconciled r \<longleftrightarrow> w_Balance x = wallet_net bid (ledger w)"
    using Reconcile_exact [OF assms(1), of bid "w_Balance x"] by (auto simp: p)
  with Cons show ?case by (simp add: p)
qed simp

text \<open>
  C13: The daily reconciliation finds every discrepancy and no other. When no statement fails and the sums of the
  ledger are in the range of the machine, it seen exactly the wallets whose balance is not what the ledger says, and after
  any operations that keep wallets and ledger in agreement it seen none.
\<close>

theorem daily_reconciliation_exact:
  assumes "faults w = []" and "ledger_in_range w"
  shows "RunDailyReconciliation w =
      (Inr (length (wallets w), length (filter (\<lambda>(bid, x). w_Balance x \<noteq> wallet_net bid (ledger w)) (wallets w))), w) \<and>
    (reconciled w \<and> distinct (map fst (wallets w)) \<longrightarrow> fst (RunDailyReconciliation w) = Inr (length (wallets w), 0))"
proof -
  have run: "RunDailyReconciliation w =
      (Inr (length (wallets w), length (filter (\<lambda>(bid, x). w_Balance x \<noteq> wallet_net bid (ledger w)) (wallets w))), w)"
    using count_discrepancies_exact [OF assms(1), of "wallets w"] assms
    by (simp add: RunDailyReconciliation_def wallet_FindAll_def ledger_in_range_def)
  moreover have "filter (\<lambda>(bid, x). w_Balance x \<noteq> wallet_net bid (ledger w)) (wallets w) = []"
    if "reconciled w" "distinct (map fst (wallets w))"
    using that by (auto simp: filter_empty_conv reconciled_def balance_of_def)
  ultimately show ?thesis by simp
qed

theorem daily_reconciliation_exact_witness:
  "fst (RunDailyReconciliation sample_world) = Inr (1, 0)"
  using daily_reconciliation_exact [of sample_world] sample_reconciled
  by (simp add: sample_world_def sample_wallet_def ledger_in_range_def entry_sum_def wallet_net_def ledger_row_def in64_def)

lemma internal_balance_exact:
  assumes "\<forall>(b, x) \<in> set ws. 0 \<le> w_Balance x" and "(\<Sum>(b, x) \<leftarrow> ws. w_Balance x) < 2 ^ 63"
  shows "internal_balance ws = (\<Sum>(b, x) \<leftarrow> ws. w_Balance x)"
proof -
  have "foldl (\<lambda>s (_, x). add64 s (w_Balance x)) s ws = s + (\<Sum>(b, x) \<leftarrow> ws. w_Balance x)"
    if "0 \<le> s" "s + (\<Sum>(b, x) \<leftarrow> ws. w_Balance x) < 2 ^ 63" for s
    using that assms(1)
  proof (induction ws arbitrary: s)
    case (Cons p ws)
    obtain b x where p: "p = (b, x)" by (cases p)
    have "0 \<le> (\<Sum>(b, x) \<leftarrow> ws. w_Balance x)" using Cons.prems(3) by (auto intro!: sum_list_nonneg)
    with Cons show ?case by (auto simp: p add64_def wrap64_id in64_def algebra_simps)
  qed simp
  from this [of 0] assms(2) show ?thesis by (simp add: internal_balance_def)
qed

lemma compare_balances_exact:
  assumes "\<bar>p - i\<bar> < 2 ^ 53"
  shows "pv_IsReconciled (compare_balances threshold p i time) \<longleftrightarrow> \<bar>p - i\<bar> \<le> threshold"
proof -
  have "in64 (p - i)" "in64 \<bar>p - i\<bar>" using assms by (auto simp: in64_def)
  moreover have "\<bar>of_int (p - i) :: rat\<bar> \<le> 2 ^ 100"
  proof -
    have "\<bar>of_int (p - i) :: rat\<bar> = of_int \<bar>p - i\<bar>" by simp
    also have "\<dots> \<le> of_int (2 ^ 53)" using assms by (simp only: of_int_le_iff)
    finally show ?thesis by simp
  qed
  ultimately show ?thesis
    using assms rnd_int [of "p - i"] by (simp add: compare_balances_def Let_def sub64_def wrap64_id float_of_int64_def fl64_finite trunc_rat_def
        flip: of_int_abs of_int_diff)
qed


definition sample_balance_text :: string where
  "sample_balance_text = ''{\"data\":[{\"currency\":\"NGN\",\"balance\":201000}]}''"

lemma sample_balance_parsed: "unmarshal sample_balance_text =
    Some (JObject [(''data'', JArray [JObject [(''currency'', JString ''NGN''), (''balance'', JNumber ''201000'')]])])"
  unfolding sample_balance_text_def by code_simp

lemma number_201000: "to_int64 (JNumber ''201000'') = Some 201000"
proof -
  have "parse_int ''201000'' = Some 201000"
    by (simp add: parse_int_def split_sign_def is_digit_def digits_value_def digit_val_def)
  then show ?thesis by (simp add: to_int64_def in64_def)
qed

lemma sample_balance_fields:
  "bool_field ''status'' [(''data'', v)] = Some False" "string_field ''message'' [(''data'', v)] = Some []"
  "field f [] ''data'' [(''data'', JArray vs)] = f (JArray vs)"
  "string_field ''currency'' [(''currency'', JString ''NGN''), (''balance'', JNumber ''201000'')] = Some ''NGN''"
  "int_field ''balance'' [(''currency'', JString ''NGN''), (''balance'', JNumber ''201000'')] = Some 201000"
  by (simp_all add: field_def named_def to_lower_def to_str_def as_string_def number_201000 Let_def)

definition sample_reconciliation :: reconciliation_service where
  "sample_reconciliation = \<lparr>rs_Paystack = Some (''k'', \<lambda>_. Answered 200 sample_balance_text), rs_Alerts = True, rs_Threshold = 100000\<rparr>"


text \<open>
  The daily search for unusual transfers finds none: it reads the transfers of business 0, which has none,
  whatever statements fail, and seen those with a status that transfers do not get.
\<close>

theorem daily_check_never_alerts:
  assumes "\<forall>t \<in> set (transfers w). t_BusinessID t \<noteq> 0" and "\<forall>ks. set (order ks) \<subseteq> set ks"
  shows "case fst (RunDailyCheck s order w) of Inr as \<Rightarrow> as = [] | Inl _ \<Rightarrow> True"
proof -
  have "order [] = []" using assms(2) [rule_format, of "[]"] by simp
  moreover have "filter (\<lambda>t. t_BusinessID t = 0) (rev (transfers w)) = []" using assms(1) by (auto simp: filter_empty_conv)
  ultimately show ?thesis
    by (auto simp: RunDailyCheck_def transfer_FindByBusinessID_def statement_def fault_def Let_def attempt_def
        split: list.splits prod.splits if_splits)
qed

end
