(* ===== verification/Payroll_Types.thy ===== *)
theory Payroll_Types
  imports Payroll_Calculation
begin

text \<open>
  The types of the amounts that \<^verbatim>\<open>payroll_calculation.go\<close> computes: every sum is an addition of
  machine integers, so that every amount of an entry and of a run fits its column.
\<close>

section \<open>Amounts are machine integers\<close>

definition tally_typed :: "tally \<Rightarrow> bool" where
  "tally_typed t \<longleftrightarrow> in64 (tl_Gross t) \<and> in64 (tl_Deductions t) \<and> in64 (tl_Bonus t)"

definition entry_typed :: "payroll_entry \<Rightarrow> bool" where
  "entry_typed e \<longleftrightarrow> in64 (pe_GrossPay e) \<and> in64 (pe_TotalDeductions e) \<and> in64 (pe_Bonuses e) \<and> in64 (pe_NetPay e) \<and>
     in64 (pe_TotalCostToCompany e)"

lemma in64_results [simp]: "in64 (add64 x y)" "in64 (sub64 x y)"
  by (simp_all add: add64_def sub64_def)

lemma book_typed: "tally_typed t \<Longrightarrow> tally_typed (book d t)"
  by (auto simp: tally_typed_def book_def item_def split: DetailType.split)

lemma fold_typed:
  assumes "\<And>x t. tally_typed t \<Longrightarrow> tally_typed (f x t)" and "tally_typed t"
  shows "tally_typed (fold f xs t)"
  using assms(2) by (induction xs arbitrary: t) (simp_all add: assms(1))

lemma earn_typed: "tally_typed (snd s) \<Longrightarrow> tally_typed (snd (fold earn ecs s))"
  by (induction ecs arbitrary: s) (auto simp: earn_def book_typed split: prod.split)

lemma cadre_tally_typed: "tally_typed (fst (cadre_tally emp c b))"
proof -
  have "tally_typed \<lparr>tl_Gross = 0, tl_Deductions = 0, tl_Bonus = 0, tl_Details = []\<rparr>"
    by (simp add: tally_typed_def in64_def)
  then show ?thesis
    unfolding cadre_tally_def Let_def
    by (auto intro!: fold_typed earn_typed [of "(_, _)", simplified] simp: book_positive_def deduct_rule_def book_typed split: prod.split)
      (metis earn_typed snd_conv)
qed

lemma calculateEmployeeEntry_typed: "entry_typed (fst (fst (calculateEmployeeEntry lr emp c b adjs w)))"
proof -
  have "tally_typed (fold adjust adjs t)" if "tally_typed t" for t
    using that by (rule fold_typed [rotated]) (simp add: adjust_def book_typed)
  moreover have "tally_typed (fold deduct_loan ls t)" if "tally_typed t" for ls t
    using that by (rule fold_typed [rotated]) (simp add: deduct_loan_def book_typed)
  ultimately show ?thesis
    using cadre_tally_typed [of emp c b]
    by (auto simp: calculateEmployeeEntry_def entry_typed_def tally_typed_def attempt_def Let_def split: prod.splits sum.splits)
qed

definition run_tally_typed :: "run_tally \<Rightarrow> bool" where
  "run_tally_typed t \<longleftrightarrow> in64 (rt_Gross t) \<and> in64 (rt_Deductions t) \<and> in64 (rt_Net t) \<and> in64 (rt_EmployerCosts t) \<and>
     list_all entry_typed (rt_Entries t)"

lemma calc_employees_typed: "run_tally_typed t \<Longrightarrow> run_tally_typed (fst (calc_employees lr b adjs es t w))"
proof (induction es arbitrary: t w)
  case (Cons p es)
  obtain emp c where p: "p = (emp, c)" by (cases p)
  obtain e r w' where call: "calculateEmployeeEntry lr emp c b (adjs (e_ID emp)) w = ((e, r), w')" by (metis prod.exhaust)
  have "entry_typed e" using calculateEmployeeEntry_typed [of lr emp c b "adjs (e_ID emp)" w] by (simp add: call)
  then show ?case using Cons by (simp add: p call run_tally_typed_def Let_def)
qed simp


end
