(* ===== verification/Csv_Writer.thy ===== *)
theory Csv_Writer
  imports Staff
begin

text \<open>
  The writer of \<^verbatim>\<open>encoding/csv\<close>, which the reports of \<^verbatim>\<open>internal/service/report\<close>
  are made with, and the proof that the reader of the library, the one the import of employees uses,
  reads what was written.
\<close>

section \<open>The writer\<close>

text \<open>White space beyond ASCII, in UTF-8: the first character of a field is looked at.\<close>

definition wide_spaces :: "string list" where
  "wide_spaces = map (map char_of)
     ([[194, 133], [194, 160], [225, 154, 128], [226, 128, 168], [226, 128, 169], [226, 128, 175], [226, 129, 159], [227, 128, 128]] @
      map (\<lambda>n. [226, 128, n]) [128..<139 :: nat])"

definition fieldNeedsQuotes :: "string \<Rightarrow> bool" where
  "fieldNeedsQuotes f \<longleftrightarrow> f \<noteq> [] \<and>
     (f = [CHR 0x5C, CHR ''.''] \<or> list_ex (\<lambda>c. c = newline \<or> c = CHR 0x0D \<or> c = quote \<or> c = CHR '','') f \<or>
      is_space (hd f) \<or> list_ex (has_prefix f) wide_spaces)"

definition csv_escape :: "string \<Rightarrow> string" where
  "csv_escape f = concat (map (\<lambda>c. if c = quote then [quote, quote] else [c]) f)"

definition csv_field :: "string \<Rightarrow> string" where
  "csv_field f = (if fieldNeedsQuotes f then quote # csv_escape f @ [quote] else f)"

fun csv_line :: "string list \<Rightarrow> string" where
  "csv_line [] = [newline]"
| "csv_line [f] = csv_field f @ [newline]"
| "csv_line (f # fs) = csv_field f @ CHR '','' # csv_line fs"

definition csv_text :: "string list list \<Rightarrow> string" where
  "csv_text rows = concat (map csv_line rows)"

text \<open>All records of a text, as the reader returns them one after the other.\<close>

function csv_records :: "nat \<Rightarrow> string list \<Rightarrow> (csv_error + string list) list" where
  "csv_records n ls = (case csv_read n ls of (None, _) \<Rightarrow> [] | (Some x, ls') \<Rightarrow> x # csv_records n ls')"
  by auto

termination
  by (relation "measure (\<lambda>(n, ls). length ls)") (auto dest: csv_read_rest [OF sym])

declare csv_records.simps [simp del]

section \<open>Lines\<close>

text \<open>Without carriage returns the lines are those of the line feeds alone.\<close>

fun split_lines :: "string \<Rightarrow> string list" where
  "split_lines [] = []"
| "split_lines (c # s) =
     (if c = newline then [newline] # split_lines s
      else (case split_lines s of [] \<Rightarrow> [[c]] | l # ls \<Rightarrow> (c # l) # ls))"

lemma csv_lines_split:
  assumes "CHR 0x0D \<notin> set s" and "CHR 0x0D \<notin> set acc"
  shows "csv_lines_from acc s =
    (case split_lines s of [] \<Rightarrow> if acc = [] then [] else [rev acc] | l # ls \<Rightarrow> (rev acc @ l) # ls)"
  using assms
proof (induction s arbitrary: acc)
  case Nil
  then show ?case by (auto simp: end_line_def Let_def last_rev dest: hd_in_set)
next
  case (Cons c s)
  have "end_line False (rev acc) = rev acc @ [newline]"
    using Cons.prems(2) by (auto simp: end_line_def Let_def last_rev dest: hd_in_set)
  then show ?case using Cons.IH [of "c # acc"] Cons.IH [of "[]"] Cons.prems
    by (auto split: list.splits)
qed

lemma lines_of_clean: "CHR 0x0D \<notin> set s \<Longrightarrow> csv_lines_from [] s = split_lines s"
  by (simp add: csv_lines_split split: list.split)

lemma split_lines_Nil [simp]: "split_lines s = [] \<longleftrightarrow> s = []"
  by (cases s) (auto split: list.splits)

lemma split_lines_char: "c \<noteq> newline \<Longrightarrow> split_lines s = l # ls \<Longrightarrow> split_lines (c # s) = (c # l) # ls"
  by simp

lemma split_lines_plain: "newline \<notin> set f \<Longrightarrow> split_lines s = l # ls \<Longrightarrow> split_lines (f @ s) = (f @ l) # ls"
  by (induction f) auto

section \<open>Reading a field\<close>

lemma quoted_step: "c \<noteq> quote \<Longrightarrow> line \<noteq> [] \<Longrightarrow> csv_quoted acc (c # line) ls = csv_quoted (acc @ [c]) line ls"
  by (simp add: csv_quoted.simps [of acc "c # line" ls] csv_quoted.simps [of "acc @ [c]" line ls] Let_def del: dropWhile_eq_Nil_conv split: list.split)

lemma quoted_line_end: "csv_quoted acc [newline] (l # ls) = csv_quoted (acc @ [newline]) l ls"
  by (subst csv_quoted.simps) simp

lemma quoted_quote: "csv_quoted acc (quote # quote # line) ls = csv_quoted (acc @ [quote]) line ls"
  by (subst csv_quoted.simps) simp

lemma quoted_comma: "csv_quoted acc (quote # CHR '','' # line) ls = cons_field acc (csv_fields line ls)"
  by (subst csv_quoted.simps) simp

lemma quoted_end: "csv_quoted acc [quote, newline] ls = (Inr [acc], ls)"
  by (subst csv_quoted.simps) simp

lemma csv_escape_simps [simp]:
  "csv_escape [] = []" "csv_escape (c # f) = (if c = quote then [quote, quote] else [c]) @ csv_escape f"
  by (simp_all add: csv_escape_def)

text \<open>The lines of the escaped text and what follows it: reading them collects the text.\<close>

lemma quoted_text:
  assumes "split_lines (csv_escape f @ r) = line # ls" and "split_lines r = m # ms" and "r \<noteq> []"
  shows "csv_quoted acc line ls = csv_quoted (acc @ f) m ms"
  using assms(1)
proof (induction f arbitrary: acc line ls)
  case Nil
  then show ?case using assms(2) by simp
next
  case (Cons c f)
  obtain l ks where l: "split_lines (csv_escape f @ r) = l # ks"
    using assms(3) by (cases "split_lines (csv_escape f @ r)") auto
  have ne: "l \<noteq> []" using l by (cases "csv_escape f @ r") (auto split: if_splits list.splits)
  consider "c = newline" | "c = quote" | "c \<noteq> newline" "c \<noteq> quote" by blast
  then show ?case
  proof cases
    case 1
    with Cons.prems l have "line = [newline]" "ls = l # ks" by auto
    then show ?thesis using Cons.IH [OF l] 1 by (simp add: quoted_line_end)
  next
    case 2
    with Cons.prems l have "line = quote # quote # l" "ls = ks" by auto
    then show ?thesis using Cons.IH [OF l] 2 by (simp add: quoted_quote)
  next
    case 3
    with Cons.prems l have "line = c # l" "ls = ks" by auto
    then show ?thesis using Cons.IH [OF l] 3 ne by (simp add: quoted_step)
  qed
qed

lemma plain_field:
  assumes "\<not> fieldNeedsQuotes f"
  shows "newline \<notin> set f" "quote \<notin> set f" "CHR '','' \<notin> set f" "CHR 0x0D \<notin> set f" "f \<noteq> [] \<Longrightarrow> \<not> is_space (hd f)"
  using assms by (auto simp: fieldNeedsQuotes_def list_ex_iff)

lemma fields_plain_comma:
  assumes "\<not> fieldNeedsQuotes f"
  shows "csv_fields (f @ CHR '','' # line) ls = cons_field f (csv_fields line ls)"
proof -
  have "dropWhile is_space (f @ CHR '','' # line) = f @ CHR '','' # line"
    using plain_field(5) [OF assms] by (cases f) (auto simp: is_space_def)
  moreover have "f \<noteq> [] \<Longrightarrow> hd f \<noteq> quote" using plain_field(2) [OF assms] by (cases f) auto
  moreover have "takeWhile (\<lambda>c. c \<noteq> CHR '','') (f @ CHR '','' # line) = f"
    "dropWhile (\<lambda>c. c \<noteq> CHR '','') (f @ CHR '','' # line) = CHR '','' # line"
    using plain_field(3) [OF assms] by (auto simp: takeWhile_append dropWhile_append)
  ultimately show ?thesis
    using plain_field(2) [OF assms] by (subst csv_fields.simps) (cases f; simp add: Let_def)
qed

lemma fields_plain_end:
  assumes "\<not> fieldNeedsQuotes f"
  shows "csv_fields (f @ [newline]) ls = (Inr [f], ls)"
proof (cases "f = []")
  case True
  have "dropWhile is_space [newline] = []" by (simp add: is_space_def)
  then show ?thesis using True by (subst csv_fields.simps) (simp add: Let_def drop_newline_def)
next
  case False
  have "dropWhile is_space (f @ [newline]) = f @ [newline]"
    using plain_field(5) [OF assms] False by (cases f) auto
  moreover have "hd f \<noteq> quote" using plain_field(2) [OF assms] False by (cases f) auto
  moreover have "takeWhile (\<lambda>c. c \<noteq> CHR '','') (f @ [newline]) = f @ [newline]" "dropWhile (\<lambda>c. c \<noteq> CHR '','') (f @ [newline]) = []"
    using plain_field(3) [OF assms] by (auto simp: takeWhile_append dropWhile_append)
  ultimately show ?thesis
    using plain_field(2) [OF assms] False by (subst csv_fields.simps) (simp add: Let_def drop_newline_def)
qed

lemma fields_quoted: "csv_fields (quote # line) ls = csv_quoted [] line ls"
  by (subst csv_fields.simps) (simp add: is_space_def)

section \<open>Reading a record\<close>

lemma csv_line_not_Nil [simp]: "csv_line fs \<noteq> []"
  by (cases fs rule: csv_line.cases) auto

lemma read_field_comma:
  assumes "split_lines r = m # ms" and "r \<noteq> []" and "split_lines (csv_field f @ CHR '','' # r) = line # ls"
  shows "csv_fields line ls = cons_field f (csv_fields m ms)"
proof (cases "fieldNeedsQuotes f")
  case True
  have r: "split_lines (quote # CHR '','' # r) = (quote # CHR '','' # m) # ms" using assms(1) by simp
  obtain l ks where l: "split_lines (csv_escape f @ quote # CHR '','' # r) = l # ks"
    by (cases "split_lines (csv_escape f @ quote # CHR '','' # r)") auto
  have "line = quote # l" "ls = ks" using assms(3) l True by (auto simp: csv_field_def)
  then show ?thesis using quoted_text [OF l r, of "[]"] by (simp add: fields_quoted quoted_comma)
next
  case False
  have "split_lines (f @ CHR '','' # r) = (f @ CHR '','' # m) # ms"
    using assms(1) plain_field(1) [OF False] by (intro split_lines_plain) simp_all
  then show ?thesis using assms(3) False fields_plain_comma [OF False, of m ms] by (auto simp: csv_field_def)
qed

lemma read_field_end:
  assumes "split_lines (csv_field f @ newline # r) = line # ls"
  shows "csv_fields line ls = (Inr [f], split_lines r)"
proof (cases "fieldNeedsQuotes f")
  case True
  have r: "split_lines (quote # newline # r) = [quote, newline] # split_lines r" by simp
  obtain l ks where l: "split_lines (csv_escape f @ quote # newline # r) = l # ks"
    by (cases "split_lines (csv_escape f @ quote # newline # r)") auto
  have "line = quote # l" "ls = ks" using assms l True by (auto simp: csv_field_def)
  then show ?thesis using quoted_text [OF l r, of "[]"] by (simp add: fields_quoted quoted_end)
next
  case False
  have "split_lines (f @ newline # r) = (f @ [newline]) # split_lines r"
    using plain_field(1) [OF False] by (intro split_lines_plain) simp_all
  then show ?thesis using assms False fields_plain_end [OF False] by (auto simp: csv_field_def)
qed

lemma read_line:
  assumes "fs \<noteq> []" and "split_lines (csv_line fs @ r) = line # ls"
  shows "csv_fields line ls = (Inr fs, split_lines r)"
  using assms
proof (induction fs arbitrary: line ls rule: csv_line.induct)
  case (2 f)
  then show ?case using read_field_end [of f r] by simp
next
  case (3 f g fs)
  obtain m ms where m: "split_lines (csv_line (g # fs) @ r) = m # ms"
    by (cases "split_lines (csv_line (g # fs) @ r)") auto
  have "split_lines (csv_field f @ CHR '','' # (csv_line (g # fs) @ r)) = line # ls" using 3 by simp
  from read_field_comma [OF m _ this] "3.IH" [OF _ m] show ?case by (simp add: cons_field_def)
qed simp

text \<open>The line of two fields and more is not empty, so that it is not skipped.\<close>

lemma line_not_blank:
  assumes "length fs \<ge> 2" and "split_lines (csv_line fs @ r) = line # ls"
  shows "line \<noteq> []" "line \<noteq> [newline]"
proof -
  obtain f g gs where fs: "fs = f # g # gs" using assms(1) by (cases fs rule: csv_line.cases) auto
  have "hd (csv_line fs @ r) \<noteq> newline"
  proof (cases "fieldNeedsQuotes f")
    case False
    then show ?thesis using plain_field(1) [OF False] by (cases f) (auto simp: fs csv_field_def)
  qed (simp add: fs csv_field_def)
  moreover obtain c s where "csv_line fs @ r = c # s" by (cases "csv_line fs @ r") auto
  ultimately show "line \<noteq> []" "line \<noteq> [newline]" using assms(2) by (auto split: list.splits)
qed

lemma read_record:
  assumes "length fs \<ge> 2" and "n = 0 \<or> n = length fs"
  shows "csv_read n (split_lines (csv_line fs @ r)) = (Some (Inr fs), split_lines r)"
proof -
  obtain line ls where l: "split_lines (csv_line fs @ r) = line # ls"
    by (cases "split_lines (csv_line fs @ r)") auto
  have "fs \<noteq> []" using assms(1) by auto
  from read_line [OF this l] line_not_blank [OF assms(1) l] assms(2) show ?thesis
    by (auto simp: csv_read_def l)
qed

lemma read_text_lines:
  assumes "\<And>fs. fs \<in> set rows \<Longrightarrow> length fs \<ge> 2 \<and> (n = 0 \<or> n = length fs)"
  shows "csv_records n (split_lines (csv_text rows)) = map Inr rows"
  using assms
proof (induction rows)
  case Nil
  then show ?case by (simp add: csv_text_def csv_records.simps csv_read_def)
next
  case (Cons fs rows)
  then show ?case by (subst csv_records.simps) (simp add: csv_text_def read_record)
qed

definition no_return :: "string list list \<Rightarrow> bool" where
  "no_return rows \<longleftrightarrow> list_all (list_all (\<lambda>f. CHR 0x0D \<notin> set f)) rows"

lemma field_no_return: "CHR 0x0D \<notin> set f \<Longrightarrow> CHR 0x0D \<notin> set (csv_field f)"
  by (auto simp: csv_field_def csv_escape_def)

lemma line_no_return: "list_all (\<lambda>f. CHR 0x0D \<notin> set f) fs \<Longrightarrow> CHR 0x0D \<notin> set (csv_line fs)"
  by (induction fs rule: csv_line.induct) (auto simp: field_no_return)

theorem csv_roundtrip:
  assumes "no_return rows" and "\<And>fs. fs \<in> set rows \<Longrightarrow> length fs = n" and "n \<ge> 2"
  shows "csv_records n (csv_lines_from [] (csv_text rows)) = map Inr rows"
proof -
  have "CHR 0x0D \<notin> set (csv_text rows)"
    using assms(1) line_no_return by (fastforce simp: csv_text_def no_return_def list_all_iff)
  then show ?thesis using read_text_lines [of rows n] assms(2,3) by (simp add: lines_of_clean)
qed

end
