(* ===== verification/Reports.thy ===== *)
theory Reports
  imports Csv_Writer Oversight
begin

text \<open>
  The reports of a payroll run: \<^verbatim>\<open>internal/service/report\<close> with
  \<^verbatim>\<open>report_handler.go\<close>. The schedules for the bank, the tax office and the pension and
  housing funds and the register of a run are CSV files; the documents of payslips are made by a library, which is
  a parameter. An archive is the list of its files.
\<close>

section \<open>Helpers (helpers.go)\<close>

text \<open>\<^verbatim>\<open>fmt.Sprintf("%.2f", x)\<close>: the nearest number of hundredths, ties to even.\<close>

fun format_fixed2 :: "float64 \<Rightarrow> string" where
  "format_fixed2 (Fin x) =
     (let n = nat (rhe (\<bar>x\<bar> * 100))
      in (if x < 0 then [CHR ''-''] else []) @ show_nat (n div 100) @ CHR ''.'' # zeros 2 (show_nat (n mod 100)))"
| "format_fixed2 PInf = ''+Inf''"
| "format_fixed2 NInf = ''-Inf''"
| "format_fixed2 NaN = ''NaN''"

definition formatNGN :: "int64 \<Rightarrow> string" where
  "formatNGN kobo = format_fixed2 (fdiv_const (float_of_int64 kobo) 100)"

definition findDetail :: "entry_detail list \<Rightarrow> DetailType \<Rightarrow> string \<Rightarrow> entry_detail option" where
  "findDetail ds ty namePrefix = find (\<lambda>d. d_Type d = ty \<and> has_prefix (d_Name d) namePrefix) ds"

definition detailAmount :: "entry_detail list \<Rightarrow> DetailType \<Rightarrow> string \<Rightarrow> int64" where
  "detailAmount ds ty namePrefix = (case findDetail ds ty namePrefix of None \<Rightarrow> 0 | Some d \<Rightarrow> d_Amount d)"

definition safeString :: "string option \<Rightarrow> string" where
  "safeString s = (case s of None \<Rightarrow> [] | Some t \<Rightarrow> t)"

text \<open>Entries whose employee was not loaded are left out of every report.\<close>

definition reported :: "payroll_run \<Rightarrow> (payroll_entry \<times> employee) list" where
  "reported run = List.map_filter (\<lambda>en. map_option (Pair en) (pe_Employee en)) (pr_Entries run)"

section \<open>The schedules\<close>

definition bank_rows :: "payroll_run \<Rightarrow> business \<Rightarrow> string list list" where
  "bank_rows run b =
     [''Employee Name'', ''Bank Name'', ''Bank Code'', ''Account Number'', ''Net Pay (NGN)'', ''Period'', ''Employer Name''] #
     map (\<lambda>(en, e). [e_FullName e, e_BankName e, e_BankCode e, e_BankAccountNumber e, formatNGN (pe_NetPay en),
       period_digits (pr_Period run), b_Name b]) (reported run)"

definition GenerateBankSchedule :: "payroll_run \<Rightarrow> business \<Rightarrow> string" where
  "GenerateBankSchedule run b = csv_text (bank_rows run b)"

definition paye_rows :: "payroll_run \<Rightarrow> business \<Rightarrow> string list list" where
  "paye_rows run b =
     [''Employee Name'', ''TIN'', ''Gross Pay (NGN)'', ''PAYE Tax (NGN)'', ''Period'', ''Employer Name''] #
     map (\<lambda>(en, e). [e_FullName e, safeString (e_TIN e), formatNGN (pe_GrossPay en),
       formatNGN (detailAmount (pe_Details en) DetailTypeStatutoryDeduction ''PAYE''),
       period_digits (pr_Period run), b_Name b]) (reported run)"

definition GeneratePAYEReport :: "payroll_run \<Rightarrow> business \<Rightarrow> string" where
  "GeneratePAYEReport run b = csv_text (paye_rows run b)"

definition pension_rows :: "payroll_run \<Rightarrow> business \<Rightarrow> string list list" where
  "pension_rows run b =
     [''Employee Name'', ''RSA PIN'', ''Employer Name'', ''Employee Contribution (NGN)'', ''Employer Contribution (NGN)'',
      ''Total Contribution (NGN)'', ''Period''] #
     map (\<lambda>(en, e). (let own = detailAmount (pe_Details en) DetailTypeStatutoryDeduction ''Pension (Employee''
       in [e_FullName e, safeString (e_PensionRSAPIN e), b_Name b, formatNGN own, formatNGN (pe_EmployerPension en),
         formatNGN (add64 own (pe_EmployerPension en)), period_digits (pr_Period run)])) (reported run)"

definition GeneratePensionSchedule :: "payroll_run \<Rightarrow> business \<Rightarrow> string" where
  "GeneratePensionSchedule run b = csv_text (pension_rows run b)"

definition nhf_of :: "payroll_entry \<Rightarrow> int64" where
  "nhf_of en = detailAmount (pe_Details en) DetailTypeStatutoryDeduction ''NHF''"

definition nhf_rows :: "payroll_run \<Rightarrow> business \<Rightarrow> string list list" where
  "nhf_rows run b =
     [''Employee Name'', ''NHF Number'', ''NHF Contribution (NGN)'', ''Period'', ''Employer Name''] #
     map (\<lambda>(en, e). [e_FullName e, safeString (e_NHFNumber e), formatNGN (nhf_of en), period_digits (pr_Period run), b_Name b])
       (filter (\<lambda>(en, e). nhf_of en \<noteq> 0) (reported run))"

definition GenerateNHFSchedule :: "payroll_run \<Rightarrow> business \<Rightarrow> string" where
  "GenerateNHFSchedule run b = csv_text (nhf_rows run b)"

section \<open>The register (summary.go)\<close>

text \<open>
  Gross pay, tax, pension of the employee and of the employer, housing fund, custom deductions, all deductions,
  net pay, NSITF and the cost to the company.
\<close>

definition summary_amounts :: "payroll_entry \<Rightarrow> int64 list" where
  "summary_amounts en =
     (let paye = detailAmount (pe_Details en) DetailTypeStatutoryDeduction ''PAYE'';
          pension = detailAmount (pe_Details en) DetailTypeStatutoryDeduction ''Pension (Employee'';
          custom = sub64 (pe_TotalDeductions en) (add64 (add64 paye pension) (nhf_of en))
      in [pe_GrossPay en, paye, pension, pe_EmployerPension en, nhf_of en, if custom < 0 then 0 else custom,
          pe_TotalDeductions en, pe_NetPay en, pe_EmployerNSITF en, pe_TotalCostToCompany en])"

definition summary_totals :: "(payroll_entry \<times> employee) list \<Rightarrow> int64 list" where
  "summary_totals es = foldl (\<lambda>ts (en, e). map2 add64 ts (summary_amounts en)) (replicate 10 0) es"

definition summary_rows :: "payroll_run \<Rightarrow> business \<Rightarrow> string list list" where
  "summary_rows run b =
     [''Employee Name'', ''Email'', ''Gross Pay (NGN)'', ''PAYE (NGN)'', ''Pension Employee (NGN)'', ''Pension Employer (NGN)'',
      ''NHF (NGN)'', ''Custom Deductions (NGN)'', ''Total Deductions (NGN)'', ''Net Pay (NGN)'', ''NSITF Employer (NGN)'',
      ''Total Cost to Company (NGN)'', ''Period'', ''Employer Name''] #
     map (\<lambda>(en, e). [e_FullName e, e_Email e] @ map formatNGN (summary_amounts en) @ [period_digits (pr_Period run), b_Name b])
       (reported run) @
     [[''TOTALS'', []] @ map formatNGN (summary_totals (reported run)) @ [period_digits (pr_Period run), b_Name b]]"

definition GeneratePayrollSummary :: "payroll_run \<Rightarrow> business \<Rightarrow> string" where
  "GeneratePayrollSummary run b = csv_text (summary_rows run b)"

section \<open>Payslips (payslip_bulk.go)\<close>

definition sanitizeFilename :: "string \<Rightarrow> string" where
  "sanitizeFilename name = List.map_filter (\<lambda>c.
     (let n = of_char c :: nat
      in if (97 \<le> n \<and> n \<le> 122) \<or> (65 \<le> n \<and> n \<le> 90) \<or> is_digit c \<or> c = CHR ''-'' \<or> c = CHR ''_'' then Some c
         else if c = CHR '' '' then Some (CHR ''_'') else None)) name"

text \<open>The library that renders a payslip.\<close>

type_synonym renderer = "payroll_entry \<Rightarrow> business \<Rightarrow> period \<Rightarrow> string res"

definition payslip_name :: "employee option \<Rightarrow> period \<Rightarrow> string" where
  "payslip_name e p = ''payslip_'' @ (case e of None \<Rightarrow> ''employee'' | Some e \<Rightarrow> sanitizeFilename (e_FullName e)) @ ''_'' @
     period_digits p @ ''.pdf''"

fun archive_of :: "renderer \<Rightarrow> business \<Rightarrow> period \<Rightarrow> (payroll_entry \<times> employee) list \<Rightarrow> (string \<times> string) list res" where
  "archive_of pdf b p [] = Inr []"
| "archive_of pdf b p ((en, e) # es) =
     (case pdf en b p of
        Inl x \<Rightarrow> Inl (Wrap (''failed to generate payslip for employee '' @ show_nat (pe_EmployeeID en) @ '': '') x [])
      | Inr bytes \<Rightarrow> (case archive_of pdf b p es of Inl x \<Rightarrow> Inl x | Inr fs \<Rightarrow> Inr ((payslip_name (Some e) p, bytes) # fs)))"

definition GenerateAllPayslips :: "renderer \<Rightarrow> payroll_run \<Rightarrow> business \<Rightarrow> (string \<times> string) list res" where
  "GenerateAllPayslips pdf run b = archive_of pdf b (pr_Period run) (reported run)"

section \<open>Handlers (report_handler.go)\<close>

definition loadPayrollAndBusiness ::
  "string \<Rightarrow> mw_claims option \<Rightarrow> (payroll_run \<Rightarrow> business \<Rightarrow> 'a response) \<Rightarrow> world \<Rightarrow> 'a response \<times> world" where
  "loadPayrollAndBusiness runID claims k =
     with_id runID (\<lambda>i. with_claims ErrUnauthorized claims (\<lambda>c w.
       attempt (GetByID i (mc_BusinessID c) w) (\<lambda>e w. (RespondWithError e, w)) (\<lambda>run w.
         attempt (business_FindByID (mc_BusinessID c) w) (\<lambda>e w. (RespondWithError e, w)) (\<lambda>b w. (k run b, w)))))"

text \<open>A file and its name.\<close>

definition serve :: "string \<Rightarrow> string \<Rightarrow> payroll_run \<Rightarrow> 'a \<Rightarrow> (string \<times> 'a) response" where
  "serve kind ext run data = Reply 200 (kind @ ''_'' @ period_digits (pr_Period run) @ ext, data)"

definition serveCSV :: "string \<Rightarrow> (payroll_run \<Rightarrow> business \<Rightarrow> string) \<Rightarrow> string \<Rightarrow> mw_claims option \<Rightarrow> world \<Rightarrow>
    (string \<times> string) response \<times> world" where
  "serveCSV kind f runID claims = loadPayrollAndBusiness runID claims (\<lambda>run b. serve kind ''.csv'' run (f run b))"

definition HandlePAYEReport :: "string \<Rightarrow> mw_claims option \<Rightarrow> world \<Rightarrow> (string \<times> string) response \<times> world" where
  "HandlePAYEReport = serveCSV ''paye_return'' GeneratePAYEReport"

definition HandlePensionSchedule :: "string \<Rightarrow> mw_claims option \<Rightarrow> world \<Rightarrow> (string \<times> string) response \<times> world" where
  "HandlePensionSchedule = serveCSV ''pension_schedule'' GeneratePensionSchedule"

definition HandleNHFSchedule :: "string \<Rightarrow> mw_claims option \<Rightarrow> world \<Rightarrow> (string \<times> string) response \<times> world" where
  "HandleNHFSchedule = serveCSV ''nhf_schedule'' GenerateNHFSchedule"

definition HandleBankSchedule :: "string \<Rightarrow> mw_claims option \<Rightarrow> world \<Rightarrow> (string \<times> string) response \<times> world" where
  "HandleBankSchedule = serveCSV ''bank_schedule'' GenerateBankSchedule"

definition HandlePayrollSummary :: "string \<Rightarrow> mw_claims option \<Rightarrow> world \<Rightarrow> (string \<times> string) response \<times> world" where
  "HandlePayrollSummary = serveCSV ''payroll_summary'' GeneratePayrollSummary"

definition HandlePayslip :: "renderer \<Rightarrow> string \<Rightarrow> string \<Rightarrow> mw_claims option \<Rightarrow> world \<Rightarrow> (string \<times> string) response \<times> world" where
  "HandlePayslip pdf runID employeeID claims =
     loadPayrollAndBusiness runID claims (\<lambda>run b.
       case parse_id employeeID of
         None \<Rightarrow> RespondWithError (Sentinel ErrValidationFailed)
       | Some i \<Rightarrow>
           (case find (\<lambda>en. pe_EmployeeID en = i) (pr_Entries run) of
              None \<Rightarrow> RespondWithError (Sentinel ErrNotFound)
            | Some en \<Rightarrow>
                (case pdf en b (pr_Period run) of
                   Inl _ \<Rightarrow> RespondWithError (Sentinel ErrInternalServer)
                 | Inr bytes \<Rightarrow> Reply 200 (payslip_name (pe_Employee en) (pr_Period run), bytes))))"

definition HandleAllPayslips ::
  "renderer \<Rightarrow> string \<Rightarrow> mw_claims option \<Rightarrow> world \<Rightarrow> (string \<times> (string \<times> string) list) response \<times> world" where
  "HandleAllPayslips pdf runID claims =
     loadPayrollAndBusiness runID claims (\<lambda>run b.
       case GenerateAllPayslips pdf run b of
         Inl _ \<Rightarrow> RespondWithError (Sentinel ErrInternalServer)
       | Inr files \<Rightarrow> serve ''payslips'' ''.zip'' run files)"

section \<open>Amounts are exact\<close>

lemma two_digits: "n < 100 \<Longrightarrow> zeros 2 (show_nat n) = [digit_char (n div 10), digit_char (n mod 10)]"
proof -
  assume "n < 100"
  then have "n \<in> set [0..<100]" by simp
  moreover have "list_all (\<lambda>n. zeros 2 (show_nat n) = [digit_char (n div 10), digit_char (n mod 10)]) [0..<100]" by code_simp
  ultimately show ?thesis by (simp add: list_all_iff)
qed

definition naira_text :: "int64 \<Rightarrow> string" where
  "naira_text k = (if k < 0 then [CHR ''-''] else []) @ show_nat (nat \<bar>k\<bar> div 100) @
     [CHR ''.'', digit_char (nat \<bar>k\<bar> mod 100 div 10), digit_char (nat \<bar>k\<bar> mod 10)]"

text \<open>
  Amounts are printed exactly. Although kobo are divided as floating-point numbers, the text of an amount is its
  naira and its kobo, digit by digit, up to twenty-two trillion naira.
\<close>

theorem formatNGN_exact:
  assumes "\<bar>k\<bar> \<le> 2 ^ 51"
  shows "formatNGN k = naira_text k"
proof -
  let ?q = "of_int k / 100 :: rat" and ?x = "rnd (of_int k / 100)"
  have k: "\<bar>of_int k :: rat\<bar> \<le> 2 ^ 51"
  proof -
    have "\<bar>of_int k :: rat\<bar> = of_int \<bar>k\<bar>" by simp
    also have "\<dots> \<le> of_int (2 ^ 51)" using assms by (simp only: of_int_le_iff)
    finally show ?thesis by simp
  qed
  then have small: "\<bar>?q\<bar> \<le> 2 ^ 51 / 100" by (simp add: divide_right_mono)
  have err: "\<bar>?x - ?q\<bar> \<le> 2 ^ 51 / 100 / 2 ^ 53 + 1 / 2 ^ 100" using rnd_error_bound [OF small] .
  have fin: "formatNGN k = format_fixed2 (Fin ?x)"
  proof -
    have "rnd (of_int k) = of_int k" using assms by (intro rnd_int) simp
    then have "float_of_int64 k = Fin (of_int k)"
      using k by (simp add: float_of_int64_def fl64_finite)
    moreover have "fl64 ?q = Fin ?x" using small by (intro fl64_finite) simp
    ultimately show ?thesis by (simp add: formatNGN_def)
  qed
  have near: "rhe (\<bar>?x\<bar> * 100) = \<bar>k\<bar>"
  proof (rule rhe_near)
    have "\<bar>\<bar>?x\<bar> - \<bar>?q\<bar>\<bar> < 1 / 200" using err abs_triangle_ineq3 [of ?x ?q] by simp
    then show "\<bar>\<bar>?x\<bar> * 100 - of_int \<bar>k\<bar>\<bar> < 1 / 2" by (simp add: abs_if split: if_splits)
  qed
  have sign: "?x < 0 \<longleftrightarrow> k < 0"
  proof (cases "k = 0")
    case False
    then have "1 \<le> \<bar>k\<bar>" by simp
    then have "(1 :: rat) \<le> of_int \<bar>k\<bar>" by (simp only: of_int_1_le_iff)
    then have "1 / 100 \<le> \<bar>?q\<bar>" by simp
    moreover have "\<bar>?x - ?q\<bar> \<le> \<bar>?q\<bar> / 2 ^ 53 + 1 / 2 ^ 100" using rnd_error [of ?q] pow2_tiny by simp
    ultimately have "\<bar>?x - ?q\<bar> < \<bar>?q\<bar>" by simp
    then have "?x < 0 \<longleftrightarrow> ?q < 0" by (simp add: abs_if split: if_splits)
    then show ?thesis by simp
  qed simp
  show ?thesis
    unfolding fin format_fixed2.simps near sign Let_def naira_text_def
    by (simp add: two_digits mod_mod_cancel)
qed

section \<open>Files are read back\<close>

definition clean_texts :: "payroll_run \<Rightarrow> business \<Rightarrow> bool" where
  "clean_texts run b \<longleftrightarrow> CHR 0x0D \<notin> set (b_Name b) \<and> list_all (\<lambda>(en, e). CHR 0x0D \<notin> set (e_FullName e) \<and>
     CHR 0x0D \<notin> set (e_Email e) \<and> CHR 0x0D \<notin> set (e_BankName e) \<and> CHR 0x0D \<notin> set (e_BankCode e) \<and>
     CHR 0x0D \<notin> set (e_BankAccountNumber e) \<and> CHR 0x0D \<notin> set (safeString (e_TIN e)) \<and>
     CHR 0x0D \<notin> set (safeString (e_PensionRSAPIN e)) \<and> CHR 0x0D \<notin> set (safeString (e_NHFNumber e))) (reported run)"

lemma show_nat_clean: "CHR 0x0D \<notin> set (show_nat n)"
  using show_nat_digits [of n] by (auto simp: is_digit_def)

lemma zeros_clean: "CHR 0x0D \<notin> set s \<Longrightarrow> CHR 0x0D \<notin> set (zeros n s)"
  by (auto simp: zeros_def)

lemma period_clean: "CHR 0x0D \<notin> set (period_digits p)"
  by (auto simp: period_digits_def show_int_def show_nat_clean dest!: zeros_clean [THEN notE, rotated])

lemma formatNGN_clean: "CHR 0x0D \<notin> set (formatNGN k)"
  unfolding formatNGN_def
  by (cases "fdiv_const (float_of_int64 k) 100") (simp_all add: Let_def show_nat_clean zeros_clean)

lemma length_amounts [simp]: "length (summary_amounts en) = 10" "length (summary_totals es) = 10"
proof -
  show n: "length (summary_amounts en) = 10" for en by (simp add: summary_amounts_def Let_def)
  have "length (foldl (\<lambda>ts (en, e). map2 add64 ts (summary_amounts en)) ts es) = 10" if "length ts = 10" for ts
    using that by (induction es arbitrary: ts) (auto simp: n)
  then show "length (summary_totals es) = 10" by (simp add: summary_totals_def)
qed

lemma reports_clean:
  assumes "clean_texts run b"
  shows "no_return (bank_rows run b)" "no_return (paye_rows run b)" "no_return (pension_rows run b)" "no_return (nhf_rows run b)"
    "no_return (summary_rows run b)"
  using assms
  by (auto simp: no_return_def clean_texts_def list_all_iff bank_rows_def paye_rows_def pension_rows_def nhf_rows_def summary_rows_def
      Let_def formatNGN_clean period_clean)


definition sample_entry :: payroll_entry where
  "sample_entry = \<lparr>pe_ID = 1, pe_EmployeeID = 7, pe_GrossPay = 250000, pe_TotalDeductions = 0, pe_Bonuses = 0, pe_NetPay = 250000,
     pe_EmployerPension = 0, pe_EmployerNSITF = 0, pe_TotalEmployerCost = 0, pe_TotalCostToCompany = 250000,
     pe_Employee = Some (sample_employee\<lparr>e_FullName := ''Obi, Ada''\<rparr>), pe_Details = []\<rparr>"

definition sample_report :: payroll_run where
  "sample_report = \<lparr>pr_ID = 1, pr_BusinessID = 1, pr_Period = (2026, 1), pr_Status = StatusCompleted, pr_TotalGrossPay = 250000,
     pr_TotalDeductions = 0, pr_TotalNetPay = 250000, pr_TotalEmployerCosts = 0, pr_TotalCostToCompany = 250000, pr_ScheduledFor = 0,
     pr_ProcessedAt = None, pr_PaymentReference = [], pr_RejectionReason = [], pr_Entries = [sample_entry]\<rparr>"


section \<open>The register and the run\<close>

definition columns_sum :: "payroll_entry list \<Rightarrow> int list" where
  "columns_sum es = map (\<lambda>i. wrap64 (\<Sum>en\<leftarrow>es. summary_amounts en ! i)) [0..<10]"

lemma add_columns: "length xs = 10 \<Longrightarrow> length ys = 10 \<Longrightarrow> map2 add64 xs ys = map (\<lambda>i. add64 (xs ! i) (ys ! i)) [0..<10]"
  by (rule nth_equalityI) simp_all

lemma totals_are_sums: "summary_totals es = columns_sum (map fst es)"
proof -
  have "foldl (\<lambda>ts (en, e). map2 add64 ts (summary_amounts en)) (columns_sum as) es = columns_sum (as @ map fst es)" for as
  proof (induction es arbitrary: as)
    case (Cons p es)
    obtain en e where p: "p = (en, e)" by (cases p)
    have "map2 add64 (columns_sum as) (summary_amounts en) = map (\<lambda>i. add64 (columns_sum as ! i) (summary_amounts en ! i)) [0..<10]"
      by (rule add_columns) (simp_all add: columns_sum_def)
    also have "\<dots> = columns_sum (as @ [en])" by (simp add: columns_sum_def add64_def)
    finally have "map2 add64 (columns_sum as) (summary_amounts en) = columns_sum (as @ [en])" .
    then show ?case using Cons [of "as @ [en]"] by (simp add: p)
  qed simp
  from this [of "[]"] show ?thesis by (simp add: summary_totals_def columns_sum_def map_replicate_trivial [symmetric] replicate_eqI)
qed

lemma reported_all:
  assumes "\<forall>en \<in> set (pr_Entries r). pe_Employee en \<noteq> None"
  shows "map fst (reported r) = pr_Entries r"
proof -
  have "map fst (List.map_filter (\<lambda>en. map_option (Pair en) (pe_Employee en)) es) = es"
    if "\<forall>en \<in> set es. pe_Employee en \<noteq> None" for es
    using that by (induction es) (auto simp: map_filter_simps)
  then show ?thesis using assms by (simp add: reported_def)
qed

definition loaded :: "payroll_entry list \<Rightarrow> bool" where
  "loaded es \<longleftrightarrow> (\<forall>en \<in> set es. pe_Employee en \<noteq> None)"

lemma loaded_simps [simp]: "loaded []" "loaded (es @ [e]) \<longleftrightarrow> loaded es \<and> pe_Employee e \<noteq> None"
  by (auto simp: loaded_def)

lemma calc_employees_loaded: "loaded (rt_Entries t) \<Longrightarrow> loaded (rt_Entries (fst (calc_employees lr b adjs es t w)))"
proof (induction es arbitrary: t w)
  case (Cons p es)
  obtain emp c where p: "p = (emp, c)" by (cases p)
  obtain e r w' where call: "calculateEmployeeEntry lr emp c b (adjs (e_ID emp)) w = ((e, r), w')" by (metis prod.exhaust)
  then have "pe_Employee e \<noteq> None" by (auto simp: calculateEmployeeEntry_def Let_def split: prod.splits)
  then show ?case using Cons by (simp add: p call Let_def)
qed simp

lemma calculated_loaded:
  assumes "CalculatePayrollRun lr bid period adjs w = (Inr r, w')"
  shows "loaded (pr_Entries r)"
proof -
  have "loaded (rt_Entries (fst (calc_employees lr b adjs es \<lparr>rt_Gross = 0, rt_Deductions = 0, rt_Net = 0, rt_EmployerCosts = 0,
      rt_Entries = [], rt_Skipped = []\<rparr> w)))" for b es w
    by (rule calc_employees_loaded) simp
  then show ?thesis using assms
    by (auto simp: CalculatePayrollRun_def attempt_def Let_def split: prod.splits sum.splits if_splits) (metis fst_conv)+
qed

text \<open>
  C17: The register agrees with the run. In the register of a run that was computed, under any schedule of faults, the row
  of totals says what the run does: its gross pay, deductions, net pay and cost to the company are the totals of the run.
\<close>

theorem register_agrees_with_run:
  assumes "CalculatePayrollRun lr bid period adjs w = (Inr r, w')"
  shows "\<exists>ts. last (summary_rows r b) = [''TOTALS'', []] @ map formatNGN ts @ [period_digits (pr_Period r), b_Name b] \<and>
    ts ! 0 = pr_TotalGrossPay r \<and> ts ! 6 = pr_TotalDeductions r \<and> ts ! 7 = pr_TotalNetPay r \<and> ts ! 9 = pr_TotalCostToCompany r"
proof -
  have ok: "run_ok bid r" using calculate_outcome [of bid w lr period adjs] assms by (simp add: post_def)
  have "summary_totals (reported r) = columns_sum (pr_Entries r)" using totals_are_sums [of "reported r"] reported_all [OF calculated_loaded [OF assms, unfolded loaded_def]] by simp
  then show ?thesis
    using ok by (intro exI [of _ "columns_sum (pr_Entries r)"])
      (simp add: summary_rows_def columns_sum_def summary_amounts_def Let_def run_ok_def)
qed

theorem register_agrees_with_run_witness:
  "\<forall>w. \<exists>r w' ts. CalculatePayrollRun True 1 (2026, 1) (\<lambda>_. []) (payroll_world w) = (Inr r, w') \<and> ts ! 7 = pr_TotalNetPay r \<and>
     last (summary_rows r Payroll_Calculation.sample_business) =
       [''TOTALS'', []] @ map formatNGN ts @ [period_digits (pr_Period r), b_Name Payroll_Calculation.sample_business]"
  using payroll_world_run [of True "(2026, 1)" "\<lambda>_. []"] register_agrees_with_run [where b = Payroll_Calculation.sample_business] by metis

end
