(* ===== verification/Spec2Isabelle.thy ===== *)
theory Spec2Isabelle
  imports Tax_Engine Transfer_Service Transfer_Batch Loans Payroll_Calculation Payroll_Service Platform Accounts Leave Billing Registration Cadres Staff Routes Office_Api Vfd_Transfers Oversight Payroll_Types Reports
begin

text \<open>
  PayFlow is a payroll and payments server in Go: businesses keep employees, compute their payroll with
  Nigerian or Ghanaian statutory deductions, hold a wallet that is backed by a ledger, and order transfers from
  payment providers. This library models the services, their statements on the database, the calculations
  underneath and the HTTP handlers in front, and proves what they promise, or that they do not.

  \<^bold>\<open>State and operations.\<close> The whole state of the server is one record, \<open>world\<close> (Store): a list of
  rows for each table of \<^verbatim>\<open>internal/repository/postgres\<close>, the circuit breakers, the calls that
  reached a provider, the jobs in the queue, the clock and the source of random numbers as functions with a
  counter of their readings, and \<open>faults\<close>, the schedule of statements that will fail. A statement of a
  repository is a function from the world to its result and the world after it; \<open>statement\<close> takes the next
  entry of \<open>faults\<close> and, if there is one, fails with it and changes nothing. So \<open>faults = []\<close> means that no
  statement fails, and a theorem without that assumption holds under every schedule of failures. An operation of a
  service threads the world through its statements in the order of the code; \<open>attempt\<close> is a call followed
  by the test of its error. An \<open>error\<close> of \<^verbatim>\<open>internal/domain/error.go\<close> or of
  \<^verbatim>\<open>fmt.Errorf\<close> is a value, and results are \<open>error + 'a\<close>. Calls into libraries and
  services that are not in the repository (providers, password hashing, signing of tokens, the validator of e-mail
  addresses, keyed hashes) are parameters of the operations; what is assumed of them stands in the theorems.

  \<^bold>\<open>Numbers.\<close> An \<^verbatim>\<open>int64\<close> is an integer whose operations write out the wrap-around
  (Go_Int, with the agreement with 64-bit words); a \<^verbatim>\<open>float64\<close> is a rational rounded to 53 bits or
  one of the special values (Go_Float, with the bounds of its errors and \<^verbatim>\<open>strconv.ParseFloat\<close>).
  Identifiers are natural numbers.

  \<^bold>\<open>Parts.\<close>

  \<^item> Prelude, Go_Int, Go_Float, Calendar, Timestamps, Json: the parts of Go's library that the code uses, with their
    lemmas: decimals, lists and tables, machine arithmetic, binary floating point, civil dates, RFC 3339, JSON.
  \<^item> Domain: the structs, enumerations and errors of \<^verbatim>\<open>internal/domain\<close>.
  \<^item> Store: the repositories (\<^verbatim>\<open>wallet_repo.go\<close>, \<^verbatim>\<open>ledger_repo.go\<close>,
    \<^verbatim>\<open>transfer_repo.go\<close>, \<^verbatim>\<open>payroll_repo.go\<close> and others), the rules by which
    statements are verified (\<open>post\<close> and the collection \<open>wp\<close>) and the locales \<open>payment_invariant\<close>,
    \<open>run_invariant\<close> and \<open>table_invariant\<close>: what each statement has to keep for all services to keep it.
  \<^item> Progressive_Tax, Tax_Nigeria, Tax_Ghana, Tax_Engine: \<^verbatim>\<open>internal/service/tax\<close>. The loops over
    the brackets are compared with the integral of the marginal rate, and each engine is an interpretation of one
    contract of statutory engines, from which the bounds on the take-home pay follow.
  \<^item> Ledger, Wallet_Service: \<^verbatim>\<open>ledger_service.go\<close> and \<^verbatim>\<open>wallet_service.go\<close>. The
    abstract specification is \<open>bank\<close>, a balance and a locked part for each business, which the operations
    implement when no statement fails; ledger and balances agree; deposits are counted once under all failures.
  \<^item> Circuit_Breaker, Provider_Manager: \<^verbatim>\<open>internal/service/provider\<close>. The breaker is a state machine;
    the manager calls the default provider and falls back, splits bulk orders into chunks and runs a pool of workers,
    whose interleavings are the steps \<open>pool_step\<close>.
  \<^item> Transfer_Service, Transfer_Batch: \<^verbatim>\<open>transfer_service.go\<close>, \<^verbatim>\<open>transfer_batch.go\<close>.
    Who is called, when, and where the money goes, in terms of \<open>bank\<close>.
  \<^item> Loans, Payroll_Calculation, Payroll_Service: \<^verbatim>\<open>loan_service.go\<close> and
    \<^verbatim>\<open>payroll_calculation.go\<close>, \<^verbatim>\<open>payroll_service.go\<close>,
    \<^verbatim>\<open>payroll_processing.go\<close>: sums of entries and runs, the life cycle of a run as an order on its
    states, and payment at most once.
  \<^item> Platform: one operation of any of these services on the shared database is a \<open>system_step\<close>, and the locale
    \<open>system_invariant\<close> carries each invariant of the tables to all reachable worlds.
  \<^item> Leave: \<^verbatim>\<open>leave_service.go\<close>, with the count of business days compared with its specification.
  \<^item> Accounts, Registration: \<^verbatim>\<open>auth_service.go\<close>, \<^verbatim>\<open>pkg/utils/jwt.go\<close>,
    \<^verbatim>\<open>hasher.go\<close> and \<^verbatim>\<open>middleware/auth.go\<close>: logins and tokens, invitations,
    resets, and the registration of a business inside a transaction (\<open>in_tx\<close> keeps the tables of its beginning
    for a roll back).
  \<^item> Billing: \<^verbatim>\<open>internal/service/platform\<close>, \<^verbatim>\<open>business_service.go\<close>, their
    handlers and the middleware for suspended organizations and limits of plans.
  \<^item> Http, Cadres, Staff: requests and answers, and salary structures, deduction rules and employees from the handler
    to the table, with the import of CSV files.
  \<^item> Middleware, Routes: the limits on rates and the table of routes of \<^verbatim>\<open>router.go\<close> with the
    middleware in front of every handler.
  \<^item> Webhooks: what the providers report, \<^verbatim>\<open>wallet_webhook_handler.go\<close>,
    \<^verbatim>\<open>paystack_webhook_handler.go\<close>, \<^verbatim>\<open>billing_webhook_handler.go\<close>,
    \<^verbatim>\<open>vfd_webhook_handler.go\<close> and \<^verbatim>\<open>vfd_webhook_service.go\<close>.
  \<^item> Transfer_Api, Wallet_Api, Payroll_Api, Office_Api: the remaining handlers with the decoding and the validation of
    their requests, \<^verbatim>\<open>transfer_handler.go\<close>, \<^verbatim>\<open>wallet_handler.go\<close>,
    \<^verbatim>\<open>payroll_handler.go\<close>, and those of accounts, loans, leave and the ledger: what a request
    with a token can reach, from the bytes of its body to the tables.
  \<^item> Payment_Clients, Vfd_Client: \<^verbatim>\<open>internal/platform/korapay\<close>,
    \<^verbatim>\<open>internal/platform/paystack\<close>, \<^verbatim>\<open>internal/platform/vfd\<close> and
    \<^verbatim>\<open>vfd_provider.go\<close>. The network is a function from calls to outcomes; on it each client is
    a \<open>provider\<close> of the manager, so that the properties of transfers can be read down to the bytes that are sent.
  \<^item> Vfd_Transfers: \<^verbatim>\<open>vfd_transfer_service.go\<close>, its repository and its handlers, the orders
    to VFD that do not pass through the wallet.

  \<^item> Encryption, Settings: \<^verbatim>\<open>pkg/utils/encryption.go\<close> with base 64,
    \<^verbatim>\<open>platform_settings_service.go\<close> and \<^verbatim>\<open>org_provider_settings_service.go\<close>
    with their repositories and handlers: what is stored encrypted is read as it was set, and what becomes of a setting
    that was deleted.
  \<^item> Oversight: \<^verbatim>\<open>reconciliation_service.go\<close>, \<^verbatim>\<open>anomaly_service.go\<close> and
    \<^verbatim>\<open>dashboard_service.go\<close>: which discrepancies the reconciliations find. Payroll_Types: the
    amounts of payroll are machine integers.
  \<^item> Csv_Writer, Reports: \<^verbatim>\<open>internal/service/report\<close> and \<^verbatim>\<open>report_handler.go\<close>:
    the schedules and the register as files, which the reader of the import reads back, with totals that are those of
    the run.

  \<^bold>\<open>Recursion and fuel.\<close> Loops over lists are structural, the loop over dates and the reader of CSV
  files have measures. The parser of JSON takes fuel, twice the length of the text and 2, which is never used up
  (\<open>fuel_enough\<close>). The loop over chunks (\<open>chunk_loop\<close>) does not end when a provider allows a chunk of no
  transfer, and then its value is \<open>None\<close>; with any other size it returns, which the properties about batches and
  runs state. Bounds: the brackets are exact up to \<open>12 * money_max\<close> kobo a year, and amounts of naira with two
  decimals are read exactly up to the bound in \<open>kobo_read_exactly\<close>.

  \<^bold>\<open>Left out.\<close> Logging, the texts of e-mails, the layout of payslips, metrics; the network under the
  clients of the providers and their endpoints other than transfers and VFD's enquiries, the mail and the message
  services, the queue and the cache, which are input and output or parameters; the audit log, the
  notifications of the web interface, the comparison of names, and
  \<^verbatim>\<open>bulk_transfer_service.go\<close>, which no route reaches; goroutines
  other than the pool of workers: an operation is one step on the database, so that what two requests do at the same
  time between their statements is outside the model, as are locks of rows. Soft deletion is modelled for cadres and
  rules, whose rows go to tables of their own; associations that the ORM loads are looked up where they are used.
  Texts are lists of characters, and functions on letters are those on ASCII.
\<close>

section \<open>The system\<close>

definition books_ok :: "world \<Rightarrow> bool" where
  "books_ok w \<longleftrightarrow> wallets_ok w \<and> ledger_balanced w \<and> keys_ok w \<and> loans_ok w \<and> runs_numbered w"

text \<open>
  C4: The services keep the books together. Whatever sequence of transfers, retries, batches,
  deposits, payroll and loan operations runs against the shared database, with whatever faults,
  answers of providers and changes to the reference data, these hold in every state that is
  reached if they hold at the start: no balance and no lock is negative, every ledger
  transaction is balanced, references and identifiers are unique, loans are consistent, and
  every payroll run has kept to its life cycle.
\<close>

theorem platform_keeps_books:
  assumes "(system_step s)\<^sup>*\<^sup>* v w" and "books_ok v"
  shows "books_ok w \<and> follows v w"
  using assms(2) wallet_system.reachable_keeps [OF assms(1)] ledger_system.reachable_keeps [OF assms(1)]
    key_system.reachable_keeps [OF assms(1)] loan_system.reachable_keeps [OF assms(1)] reachable_on_track [OF assms(1)]
  by (simp add: books_ok_def on_track_def)

lemma books_ok_sample: "books_ok sample_world"
  by (simp add: books_ok_def sample_world_def sample_wallet_def wallets_ok_def ledger_balanced_def keys_ok_def
      loans_ok_def runs_numbered_def txn_sum_def ledger_row_def bigint_nonneg_def)

theorem platform_keeps_books_witness:
  "books_ok (snd (RecordDepositByAccountReference ''va-1'' sample_deposit sample_world))"
  using platform_keeps_books [OF r_into_rtranclp books_ok_sample, OF system_step.deposit]
  by blast

end
